(* ===== verification/Prelude.thy ===== *)
theory Prelude
  imports Main "HOL-Library.Word" "HOL-Library.Signed_Division" "HOL-Library.List_Lexorder"
    "HOL-Library.Char_ord"
begin

text \<open>
  Shared vocabulary of the development: the machine integer types, Rust strings as the
  list of their UTF-8 bytes (\<open>string\<close>), \<open>Result\<close> as a sum type, decimal printing and parsing
  as \<open>format!\<close> and \<open>str::parse\<close> do it, slices in chunks, and hash maps whose iteration
  order matters as association lists.  The generic lemmas the components share are declared
  here, most of them as simp rules.
\<close>

unbundle bit_operations_syntax

named_theorems reader_simps \<open>facts that run the byte readers forward\<close>
named_theorems flow_defs \<open>unfolding of the game flows\<close>

section \<open>Machine integers\<close>

type_synonym u8 = "8 word"
type_synonym u16 = "16 word"
type_synonym u32 = "32 word"
type_synonym u64 = "64 word"
type_synonym i16 = "16 word"
type_synonym i32 = "32 word"
type_synonym i64 = "64 word"
type_synonym bytes = "u8 list"

text \<open>\<open>Result<'a, String>\<close>: \<open>Inl\<close> carries the error message.\<close>
type_synonym 'a res = "string + 'a"

abbreviation Err :: "string \<Rightarrow> 'a res" where "Err e \<equiv> Inl e"
abbreviation Ok :: "'a \<Rightarrow> 'a res" where "Ok x \<equiv> Inr x"

definition is_ok :: "'e + 'a \<Rightarrow> bool" where
  "is_ok r = (case r of Inl _ \<Rightarrow> False | Inr _ \<Rightarrow> True)"

lemma is_ok_simps [simp]: "is_ok (Inl e) = False" "is_ok (Inr x) = True"
  by (simp_all add: is_ok_def)

definition ok_or :: "'a option \<Rightarrow> string \<Rightarrow> 'a res" where
  "ok_or x e = (case x of None \<Rightarrow> Err e | Some v \<Rightarrow> Ok v)"

lemma ok_or_simps [simp]: "ok_or None e = Inl e" "ok_or (Some v) e = Inr v"
  by (simp_all add: ok_or_def)

definition ok :: "'e + 'a \<Rightarrow> 'a option" where
  "ok r = (case r of Inl _ \<Rightarrow> None | Inr x \<Rightarrow> Some x)"

lemma ok_simps [simp]: "ok (Inl e) = None" "ok (Inr x) = Some x"
  by (simp_all add: ok_def)

text \<open>\<open>Option::or_else\<close> and \<open>unwrap_or\<close>.\<close>

definition or_else :: "'a option \<Rightarrow> 'a option \<Rightarrow> 'a option" where
  "or_else x y = (case x of None \<Rightarrow> y | Some v \<Rightarrow> Some v)"

lemma or_else_simps [simp]: "or_else None y = y" "or_else (Some v) y = Some v"
  by (simp_all add: or_else_def)

definition unwrap_or :: "'a option \<Rightarrow> 'a \<Rightarrow> 'a" where
  "unwrap_or x d = (case x of None \<Rightarrow> d | Some v \<Rightarrow> v)"

lemma unwrap_or_simps [simp]: "unwrap_or None d = d" "unwrap_or (Some v) d = v"
  by (simp_all add: unwrap_or_def)

text \<open>\<open>checked_sub\<close> on \<open>usize\<close>; a \<open>usize\<close> is a \<open>nat\<close> (the crate runs on 64-bit targets and
  no size comes near \<open>2 ^ 64\<close>).\<close>

definition checked_sub :: "nat \<Rightarrow> nat \<Rightarrow> nat option" where
  "checked_sub a b = (if b \<le> a then Some (a - b) else None)"

lemma checked_sub_Some [simp]: "checked_sub a b = Some c \<longleftrightarrow> b \<le> a \<and> c = a - b"
  by (auto simp: checked_sub_def)

lemma checked_sub_None [simp]: "checked_sub a b = None \<longleftrightarrow> a < b"
  by (auto simp: checked_sub_def)

lemma unat_word_of_nat:
  "n < 2 ^ LENGTH('a) \<Longrightarrow> unat (word_of_nat n :: 'a::len word) = n"
  by (simp add: unat_of_nat take_bit_nat_eq_self_iff)

lemma unat_bound: "unat (w :: 'a::len word) < 2 ^ LENGTH('a)"
  by (rule unsigned_less)

section \<open>The question mark operator on a mutable state\<close>

text \<open>A method \<open>&mut self\<close> that returns an \<open>Option\<close>: the state is updated whether or not a value
  is returned.  \<open>opt_bind\<close> is the \<open>?\<close> operator: it returns early on \<open>None\<close>.\<close>

type_synonym ('s, 'a) opt_state = "'s \<Rightarrow> 'a option \<times> 's"

definition opt_bind :: "('s, 'a) opt_state \<Rightarrow> ('a \<Rightarrow> ('s, 'b) opt_state) \<Rightarrow> ('s, 'b) opt_state" where
  "opt_bind m f s = (case m s of (None, s') \<Rightarrow> (None, s') | (Some x, s') \<Rightarrow> f x s')"

definition opt_map :: "('a \<Rightarrow> 'b) \<Rightarrow> ('s, 'a) opt_state \<Rightarrow> ('s, 'b) opt_state" where
  "opt_map f m s = (case m s of (x, s') \<Rightarrow> (map_option f x, s'))"

definition opt_return :: "'a \<Rightarrow> ('s, 'a) opt_state" where
  "opt_return x s = (Some x, s)"

definition opt_fail :: "('s, 'a) opt_state" where
  "opt_fail s = (None, s)"

lemma opt_bind_Some [reader_simps]: "m s = (Some x, s') \<Longrightarrow> opt_bind m f s = f x s'"
  by (simp add: opt_bind_def)

lemma opt_bind_None [reader_simps]: "m s = (None, s') \<Longrightarrow> opt_bind m f s = (None, s')"
  by (simp add: opt_bind_def)

lemma opt_map_eq [reader_simps]: "m s = (x, s') \<Longrightarrow> opt_map f m s = (map_option f x, s')"
  by (simp add: opt_map_def)

lemma opt_return_eq [simp]: "opt_return x s = (Some x, s)"
  by (simp add: opt_return_def)

lemma opt_fail_eq [simp]: "opt_fail s = (None, s)"
  by (simp add: opt_fail_def)

lemma opt_bind_Some_iff:
  "opt_bind m f s = (Some y, t) \<longleftrightarrow> (\<exists>x s'. m s = (Some x, s') \<and> f x s' = (Some y, t))"
  by (auto simp: opt_bind_def split: prod.splits option.splits)

lemma opt_map_Some_iff:
  "opt_map f m s = (Some y, t) \<longleftrightarrow> (\<exists>x. m s = (Some x, t) \<and> y = f x)"
  by (auto simp: opt_map_def split: prod.splits)

lemmas opt_iffs = opt_bind_Some_iff opt_map_Some_iff

lemma opt_bind_cong [fundef_cong]:
  assumes "s = s'" "m s' = m' s'" "\<And>x t. m' s' = (Some x, t) \<Longrightarrow> f x t = g x t"
  shows "opt_bind m f s = opt_bind m' g s'"
  using assms by (auto simp: opt_bind_def split: prod.splits option.splits)

lemma opt_map_cong [fundef_cong]:
  "s = s' \<Longrightarrow> m s' = m' s' \<Longrightarrow> f = g \<Longrightarrow> opt_map f m s = opt_map g m' s'"
  by (simp add: opt_map_def)

section \<open>Strings as UTF-8 bytes\<close>

definition byte_of_char :: "char \<Rightarrow> u8" where
  "byte_of_char c = word_of_nat (of_char c)"

definition char_of_byte :: "u8 \<Rightarrow> char" where
  "char_of_byte b = char_of (unat b)"

lemma char_of_byte_of_char [simp]: "char_of_byte (byte_of_char c) = c"
proof -
  have "unat (word_of_nat (of_char c) :: u8) = (of_char c :: nat)"
    by (simp add: unat_of_nat take_bit_nat_eq_self_iff)
  then show ?thesis by (simp add: char_of_byte_def byte_of_char_def)
qed

lemma byte_of_char_of_byte [simp]: "byte_of_char (char_of_byte b) = b"
proof -
  have "unat b < 256" using unat_bound [of b] by simp
  then have "(of_char (char_of (unat b) :: char) :: nat) = unat b" by simp
  then show ?thesis by (simp add: char_of_byte_def byte_of_char_def)
qed

definition str_bytes :: "string \<Rightarrow> bytes" where
  "str_bytes s = map byte_of_char s"

definition bytes_str :: "bytes \<Rightarrow> string" where
  "bytes_str bs = map char_of_byte bs"

lemma bytes_str_str_bytes [simp]: "bytes_str (str_bytes s) = s"
  by (simp add: bytes_str_def str_bytes_def comp_def)

lemma str_bytes_bytes_str [simp]: "str_bytes (bytes_str bs) = bs"
  by (simp add: bytes_str_def str_bytes_def comp_def)

lemma length_str_bytes [simp]: "length (str_bytes s) = length s"
  by (simp add: str_bytes_def)

lemma length_bytes_str [simp]: "length (bytes_str bs) = length bs"
  by (simp add: bytes_str_def)

lemma str_bytes_simps [simp]:
  "str_bytes [] = []" "str_bytes (c # s) = byte_of_char c # str_bytes s"
  "str_bytes (s @ t) = str_bytes s @ str_bytes t"
  by (simp_all add: str_bytes_def)

lemma bytes_str_simps [simp]:
  "bytes_str [] = []" "bytes_str (b # bs) = char_of_byte b # bytes_str bs"
  by (simp_all add: bytes_str_def)

lemma str_bytes_inject [simp]: "str_bytes s = str_bytes t \<longleftrightarrow> s = t"
  by (metis bytes_str_str_bytes)

end
