(* ===== verification/Text.thy ===== *)
theory Text
  imports Prelude
begin

text \<open>
  The functions of Rust's \<open>str\<close>, \<open>slice\<close> and integer types that the crate calls, on
  strings as byte lists: decimal printing (\<open>to_string\<close>, \<open>{:02}\<close>), \<open>parse\<close>, \<open>split\<close>,
  \<open>split_once\<close>, \<open>rsplit_once\<close>, \<open>replace\<close> of one byte, \<open>to_ascii_lowercase\<close>, \<open>contains\<close> and
  \<open>chunks\<close>.  Each behaves as the standard library documents it; the lemmas are the laws the
  components use (printing then parsing, splitting then joining).
\<close>

section \<open>Decimal numbers\<close>

definition digit_char :: "nat \<Rightarrow> char" where
  "digit_char d = char_of (48 + d)"

fun nat_str :: "nat \<Rightarrow> string" where
  "nat_str n = (if n < 10 then [digit_char n] else nat_str (n div 10) @ [digit_char (n mod 10)])"

declare nat_str.simps [simp del]

definition int_str :: "int \<Rightarrow> string" where
  "int_str i = (if i < 0 then CHR ''-'' # nat_str (nat (- i)) else nat_str (nat i))"

text \<open>\<open>{:02}\<close>\<close>
definition pad2 :: "nat \<Rightarrow> string" where
  "pad2 n = (if n < 10 then CHR ''0'' # nat_str n else nat_str n)"

definition digit_val :: "char \<Rightarrow> nat option" where
  "digit_val c = (let n = of_char c in if 48 \<le> n \<and> n \<le> 57 then Some (n - 48) else None)"

fun digits_val :: "nat \<Rightarrow> string \<Rightarrow> nat option" where
  "digits_val acc [] = Some acc"
| "digits_val acc (c # cs) =
     (case digit_val c of None \<Rightarrow> None | Some d \<Rightarrow> digits_val (10 * acc + d) cs)"

definition parse_digits :: "string \<Rightarrow> nat option" where
  "parse_digits s = (if s = [] then None else digits_val 0 s)"

text \<open>\<open>str::parse\<close> of an unsigned type with largest value \<open>hi\<close>: an optional plus sign, at least
  one digit, digits only, no overflow.\<close>
definition parse_uint :: "nat \<Rightarrow> string \<Rightarrow> nat option" where
  "parse_uint hi s =
     (case parse_digits (case s of c # cs \<Rightarrow> if c = CHR ''+'' then cs else s | [] \<Rightarrow> s) of
        None \<Rightarrow> None | Some n \<Rightarrow> if n \<le> hi then Some n else None)"

definition parse_u64 :: "string \<Rightarrow> nat option" where
  "parse_u64 = parse_uint (2 ^ 64 - 1)"

definition parse_u32 :: "string \<Rightarrow> nat option" where
  "parse_u32 = parse_uint (2 ^ 32 - 1)"

text \<open>\<open>str::parse::<i32>\<close>\<close>
definition parse_i32 :: "string \<Rightarrow> int option" where
  "parse_i32 s =
     (case s of
        [] \<Rightarrow> None
      | c # cs \<Rightarrow>
          if c = CHR ''-'' then
            (case parse_digits cs of None \<Rightarrow> None
             | Some n \<Rightarrow> if n \<le> 2 ^ 31 then Some (- int n) else None)
          else
            (case parse_digits (if c = CHR ''+'' then cs else s) of None \<Rightarrow> None
             | Some n \<Rightarrow> if n < 2 ^ 31 then Some (int n) else None))"

lemma of_char_digit_char: "d < 10 \<Longrightarrow> of_char (digit_char d) = 48 + d"
  by (simp add: digit_char_def)

lemma digit_val_digit_char [simp]: "d < 10 \<Longrightarrow> digit_val (digit_char d) = Some d"
  by (simp add: digit_val_def of_char_digit_char Let_def)

lemma digits_val_append:
  "digits_val acc (s @ t) = (case digits_val acc s of None \<Rightarrow> None | Some a \<Rightarrow> digits_val a t)"
  by (induction s arbitrary: acc) (auto split: option.splits)

lemma nat_str_not_Nil [simp]: "nat_str n \<noteq> []"
  by (subst nat_str.simps) simp

lemma digits_val_nat_str: "digits_val 0 (nat_str n) = Some n"
proof (induction n rule: nat_str.induct)
  case (1 n)
  show ?case
  proof (cases "n < 10")
    case True
    then show ?thesis by (subst nat_str.simps) simp
  next
    case False
    then show ?thesis using 1 by (subst nat_str.simps) (simp add: digits_val_append)
  qed
qed

lemma parse_digits_nat_str [simp]: "parse_digits (nat_str n) = Some n"
  by (simp add: parse_digits_def digits_val_nat_str)

lemma nat_str_digits: "c \<in> set (nat_str n) \<Longrightarrow> 48 \<le> (of_char c :: nat) \<and> (of_char c :: nat) \<le> 57"
proof (induction n rule: nat_str.induct)
  case (1 n)
  show ?case
  proof (cases "n < 10")
    case True
    with 1 show ?thesis by (subst (asm) nat_str.simps) (simp add: of_char_digit_char)
  next
    case False
    have "n mod 10 < 10" by simp
    with 1 False show ?thesis
      by (subst (asm) nat_str.simps) (auto simp: of_char_digit_char)
  qed
qed

lemma nat_str_hd: "\<exists>c cs. nat_str n = c # cs \<and> c \<noteq> CHR ''+'' \<and> c \<noteq> CHR ''-''"
proof -
  obtain c cs where e: "nat_str n = c # cs" by (cases "nat_str n") auto
  then have "48 \<le> (of_char c :: nat)" using nat_str_digits [of c n] by simp
  then have "c \<noteq> CHR ''+''" "c \<noteq> CHR ''-''" by auto
  with e show ?thesis by blast
qed

lemma parse_uint_nat_str: "parse_uint hi (nat_str n) = (if n \<le> hi then Some n else None)"
proof -
  obtain c cs where e: "nat_str n = c # cs" "c \<noteq> CHR ''+''" using nat_str_hd by blast
  have "parse_digits (c # cs) = Some n" using parse_digits_nat_str [of n] e(1) by simp
  with e show ?thesis by (simp add: parse_uint_def)
qed

lemma parse_u64_nat_str: "n < 2 ^ 64 \<Longrightarrow> parse_u64 (nat_str n) = Some n"
  by (simp add: parse_u64_def parse_uint_nat_str)

lemma parse_i32_int_str:
  assumes "- (2 ^ 31) \<le> i" "i < 2 ^ 31"
  shows "parse_i32 (int_str i) = Some i"
proof (cases "i < 0")
  case True
  with assms have "nat (- i) \<le> 2 ^ 31" by simp
  with True show ?thesis by (simp add: int_str_def parse_i32_def)
next
  case False
  with assms have n: "nat i < 2 ^ 31" by simp
  obtain c cs where e: "nat_str (nat i) = c # cs" "c \<noteq> CHR ''+''" "c \<noteq> CHR ''-''"
    using nat_str_hd by blast
  have "parse_digits (c # cs) = Some (nat i)"
    using parse_digits_nat_str [of "nat i"] e(1) by simp
  with False n e show ?thesis by (simp add: int_str_def parse_i32_def)
qed

lemma int_str_chars: "c \<in> set (int_str i) \<Longrightarrow> c \<noteq> CHR '']'' \<and> c \<noteq> CHR '':''"
proof -
  assume "c \<in> set (int_str i)"
  then have "c = CHR ''-'' \<or> (\<exists>n. c \<in> set (nat_str n))"
    by (auto simp: int_str_def split: if_splits)
  then have "c = CHR ''-'' \<or> (of_char c :: nat) \<le> 57" using nat_str_digits by blast
  then show ?thesis
  proof
    assume le: "(of_char c :: nat) \<le> 57"
    have "(of_char (CHR '']'') :: nat) = 93" "(of_char (CHR '':'') :: nat) = 58" by simp_all
    with le show ?thesis by fastforce
  qed simp
qed

section \<open>Splitting and rewriting strings\<close>

text \<open>\<open>str::split(c)\<close>: always at least one piece.\<close>
fun split_on :: "char \<Rightarrow> string \<Rightarrow> string list" where
  "split_on c [] = [[]]"
| "split_on c (x # xs) =
     (if x = c then [] # split_on c xs
      else (case split_on c xs of [] \<Rightarrow> [[x]] | p # ps \<Rightarrow> (x # p) # ps))"

text \<open>\<open>str::split_once(c)\<close>: at the first occurrence.\<close>
fun split_once :: "char \<Rightarrow> string \<Rightarrow> (string \<times> string) option" where
  "split_once c [] = None"
| "split_once c (x # xs) =
     (if x = c then Some ([], xs)
      else (case split_once c xs of None \<Rightarrow> None | Some (a, b) \<Rightarrow> Some (x # a, b)))"

text \<open>\<open>str::rsplit_once(c)\<close>: at the last occurrence.\<close>
fun rsplit_once :: "char \<Rightarrow> string \<Rightarrow> (string \<times> string) option" where
  "rsplit_once c [] = None"
| "rsplit_once c (x # xs) =
     (case rsplit_once c xs of
        Some (a, b) \<Rightarrow> Some (x # a, b)
      | None \<Rightarrow> if x = c then Some ([], xs) else None)"

text \<open>\<open>str::replace\<close> of one byte by another.\<close>
definition replace_char :: "char \<Rightarrow> char \<Rightarrow> string \<Rightarrow> string" where
  "replace_char c d s = map (\<lambda>x. if x = c then d else x) s"

definition to_ascii_lower :: "string \<Rightarrow> string" where
  "to_ascii_lower s =
     map (\<lambda>c. let n = of_char c in if 65 \<le> n \<and> n \<le> (90 :: nat) then char_of (n + 32) else c) s"

definition starts_with :: "string \<Rightarrow> string \<Rightarrow> bool" where
  "starts_with p s \<longleftrightarrow> take (length p) s = p"

text \<open>\<open>str::contains(needle)\<close>\<close>
fun str_contains :: "string \<Rightarrow> string \<Rightarrow> bool" where
  "str_contains [] needle = (needle = [])"
| "str_contains (c # cs) needle = (starts_with needle (c # cs) \<or> str_contains cs needle)"

text \<open>\<open>filter(|c| !c.is_whitespace())\<close> on the UTF-8 text: the white space of ASCII, then the other characters with the
  property \<open>White_Space\<close>, none of whose encodings can start inside another character.\<close>
fun strip_whitespace :: "string \<Rightarrow> string" where
  "strip_whitespace [] = []"
| "strip_whitespace (c # s) =
     (if of_char c \<in> {0x09, 0x0A, 0x0B, 0x0C, 0x0D, 0x20 :: nat} then strip_whitespace s
      else if of_char c = (0xC2 :: nat) \<and> s \<noteq> [] \<and> of_char (hd s) \<in> {0x85, 0xA0 :: nat} then strip_whitespace (drop 1 s)
      else if map of_char (c # take 2 s) \<in> {[0xE1, 0x9A, 0x80], [0xE2, 0x81, 0x9F], [0xE3, 0x80, 0x80 :: nat]} \<or>
              (map of_char (c # take 1 s) = [0xE2, 0x80 :: nat] \<and> 1 < length s \<and>
               (0x80 \<le> (of_char (s ! 1) :: nat) \<and> of_char (s ! 1) \<le> (0x8A :: nat) \<or>
                of_char (s ! 1) \<in> {0xA8, 0xA9, 0xAF :: nat}))
           then strip_whitespace (drop 2 s)
      else c # strip_whitespace s)"

lemma split_on_not_Nil [simp]: "split_on c s \<noteq> []"
  by (induction s) (auto split: list.splits)

lemma split_on_no_sep: "c \<notin> set s \<Longrightarrow> split_on c s = [s]"
  by (induction s) auto

lemma split_on_append: "c \<notin> set s \<Longrightarrow> split_on c (s @ c # t) = s # split_on c t"
  by (induction s) auto

lemma rsplit_once_None: "rsplit_once c s = None \<longleftrightarrow> c \<notin> set s"
  by (induction s) (auto split: option.splits)

lemma rsplit_once_append: "c \<notin> set t \<Longrightarrow> rsplit_once c (s @ c # t) = Some (s, t)"
  using rsplit_once_None [of c t] by (induction s) (auto split: option.splits)

lemma rsplit_once_Some: "rsplit_once c s = Some (a, b) \<Longrightarrow> s = a @ c # b \<and> c \<notin> set b"
proof (induction s arbitrary: a)
  case (Cons x xs)
  show ?case
  proof (cases "rsplit_once c xs")
    case None
    with Cons.prems show ?thesis by (auto simp: rsplit_once_None split: if_splits)
  next
    case (Some p)
    with Cons show ?thesis by (cases p) auto
  qed
qed simp

lemma split_once_append: "c \<notin> set s \<Longrightarrow> split_once c (s @ c # t) = Some (s, t)"
  by (induction s) auto

section \<open>Slices\<close>

text \<open>\<open>slice::chunks(n)\<close>: pieces of \<open>n\<close> elements, the last one shorter.\<close>
function chunks :: "nat \<Rightarrow> 'a list \<Rightarrow> 'a list list" where
  "chunks n xs = (if xs = [] \<or> n = 0 then [] else take n xs # chunks n (drop n xs))"
  by pat_completeness auto
termination
  by (relation "measure (\<lambda>(n, xs). length xs)") auto

declare chunks.simps [simp del]

lemma chunks_Nil [simp]: "chunks n [] = []"
  by (simp add: chunks.simps)

lemma chunks_append: "0 < n \<Longrightarrow> length xs = n \<Longrightarrow> chunks n (xs @ ys) = xs # chunks n ys"
  by (subst chunks.simps) auto

lemma chunks_last: "xs \<noteq> [] \<Longrightarrow> length xs \<le> n \<Longrightarrow> chunks n xs = [xs]"
  by (cases xs) (auto simp: chunks.simps)

text \<open>\<open>slice::get\<close>\<close>
definition get_at :: "'a list \<Rightarrow> nat \<Rightarrow> 'a option" where
  "get_at xs i = (if i < length xs then Some (xs ! i) else None)"

lemma get_at_Cons [simp]: "get_at (x # xs) 0 = Some x" "get_at (x # xs) (Suc i) = get_at xs i"
  by (simp_all add: get_at_def)

lemma get_at_numeral [simp]: "get_at (x # xs) (numeral n) = get_at xs (pred_numeral n)"
  by (simp add: numeral_eq_Suc)

lemma get_at_Nil [simp]: "get_at [] i = None"
  by (simp add: get_at_def)

end
