(* ===== verification/Float64.thy ===== *)
theory Float64
  imports Prelude
begin

text \<open>
  The IEEE bit patterns the crate moves around: an \<open>f64\<close> is its \<open>to_bits\<close> word, an \<open>f32\<close>
  likewise.  The casts of the language that the crate applies to them are written out on the
  bits: \<open>f32 as f64\<close> and \<open>u64/i64 as f64\<close> with rounding to nearest, ties to even.
\<close>

type_synonym f64 = "64 word"
type_synonym f32 = "32 word"

definition f64_exponent :: "f64 \<Rightarrow> nat" where
  "f64_exponent f = unat (drop_bit 52 f AND 2047)"

definition f64_mantissa :: "f64 \<Rightarrow> nat" where
  "f64_mantissa f = unat (take_bit 52 f)"

definition f64_negative :: "f64 \<Rightarrow> bool" where
  "f64_negative f = bit f 63"

text \<open>\<open>f64::is_finite\<close>: the exponent field is not all ones.\<close>
definition f64_finite :: "f64 \<Rightarrow> bool" where
  "f64_finite f = (f64_exponent f \<noteq> 2047)"

text \<open>The bit length of a positive number, less one.\<close>
fun ilog2 :: "nat \<Rightarrow> nat" where
  "ilog2 n = (if n < 2 then 0 else Suc (ilog2 (n div 2)))"

declare ilog2.simps [simp del]

lemma ilog2_bounds: "0 < n \<Longrightarrow> 2 ^ ilog2 n \<le> n \<and> n < 2 ^ Suc (ilog2 n)"
proof (induction n rule: ilog2.induct)
  case (1 n)
  show ?case
  proof (cases "n < 2")
    case True
    with "1.prems" show ?thesis by (simp add: ilog2.simps)
  next
    case False
    then have "ilog2 n = Suc (ilog2 (n div 2))" by (simp add: ilog2.simps [of n])
    moreover have "2 ^ ilog2 (n div 2) \<le> n div 2 \<and> n div 2 < 2 ^ Suc (ilog2 (n div 2))"
      using 1 False by simp
    ultimately show ?thesis by auto
  qed
qed

definition pack_f64 :: "bool \<Rightarrow> nat \<Rightarrow> nat \<Rightarrow> f64" where
  "pack_f64 neg e m = word_of_nat ((if neg then 2 ^ 63 else 0) + e * 2 ^ 52 + m)"

text \<open>Rounding of a mantissa by \<open>s\<close> dropped bits, to nearest, ties to even.\<close>
definition round_even :: "nat \<Rightarrow> nat \<Rightarrow> nat" where
  "round_even n s =
     (let q = n div 2 ^ s; r = n mod 2 ^ s
      in if 2 * r > 2 ^ s \<or> (2 * r = 2 ^ s \<and> odd q) then q + 1 else q)"

text \<open>\<open>n as f64\<close> for an unsigned magnitude: the carry of the rounding runs into the exponent.\<close>
definition nat_to_f64 :: "bool \<Rightarrow> nat \<Rightarrow> f64" where
  "nat_to_f64 neg n =
     (if n = 0 then 0
      else let k = ilog2 n
           in if k \<le> 52 then pack_f64 neg (k + 1023) (n * 2 ^ (52 - k) - 2 ^ 52)
              else pack_f64 neg (k + 1023) (round_even n (k - 52) - 2 ^ 52))"

definition u64_to_f64 :: "u64 \<Rightarrow> f64" where
  "u64_to_f64 n = nat_to_f64 False (unat n)"

definition i64_to_f64 :: "i64 \<Rightarrow> f64" where
  "i64_to_f64 i = nat_to_f64 (sint i < 0) (nat \<bar>sint i\<bar>)"

text \<open>\<open>f as f64\<close> for an \<open>f32\<close>: always exact; a subnormal is normalised.\<close>
definition f32_to_f64 :: "f32 \<Rightarrow> f64" where
  "f32_to_f64 b =
     (let neg = bit b 31; e = unat (drop_bit 23 b AND 255); m = unat (take_bit 23 b)
      in if e = 255 then pack_f64 neg 2047 (m * 2 ^ 29)
         else if e = 0 then
           (if m = 0 then pack_f64 neg 0 0
            else let k = ilog2 m in pack_f64 neg (k + 874) (m * 2 ^ (52 - k) - 2 ^ 52))
         else pack_f64 neg (e + 896) (m * 2 ^ 29))"

lemma round_even_bounds:
  assumes "2 ^ (52 + s) \<le> n" "n < 2 ^ (53 + s)"
  shows "2 ^ 52 \<le> round_even n s \<and> round_even n s \<le> 2 ^ 53"
proof -
  have "2 ^ 52 \<le> n div 2 ^ s" "n div 2 ^ s < 2 ^ 53"
    using assms by (simp_all add: power_add less_eq_div_iff_mult_less_eq less_mult_imp_div_less)
  then show ?thesis by (auto simp: round_even_def Let_def)
qed

text \<open>An integer cast never gives an infinity or a NaN.\<close>

lemma f64_exponent_pack:
  assumes "m \<le> 2 ^ 52" "e < 2046"
  shows "f64_exponent (pack_f64 neg e m) \<le> e + 1"
proof -
  define x where "x = e * 2 ^ 52 + m"
  define v where "v = (if neg then 2 ^ 63 else 0) + x"
  have "(e + 2) * 2 ^ 52 \<le> (2048 :: nat) * 2 ^ 52" using assms(2) by (intro mult_le_mono1) simp
  then have x: "x < 2 ^ 63" "x < (e + 2) * 2 ^ 52" using assms by (simp_all add: x_def)
  have "unat (word_of_nat v :: f64) = v"
    using x by (intro unat_word_of_nat) (auto simp: v_def)
  moreover have "f64_exponent w = (unat w div 2 ^ 52) AND 2047" for w
    by (simp add: f64_exponent_def unsigned_and_eq unat_div_distrib drop_bit_eq_div)
  ultimately have "f64_exponent (word_of_nat v) = (v div 2 ^ 52) AND 2047" by simp
  also have "\<dots> = (v div 2 ^ 52) mod 2048"
    using take_bit_eq_mask [of 11 "v div 2 ^ 52"] by (simp add: take_bit_eq_mod mask_eq_exp_minus_1)
  also have "v div 2 ^ 52 = (if neg then 2048 else 0) + x div 2 ^ 52"
    by (auto simp: v_def)
  also have "((if neg then 2048 else 0) + x div 2 ^ 52) mod 2048 = (x div 2 ^ 52) mod 2048"
    by simp
  finally have "f64_exponent (word_of_nat v) \<le> x div 2 ^ 52" by simp
  also have "x div 2 ^ 52 < e + 2" using x(2) by (simp add: less_mult_imp_div_less)
  finally show ?thesis by (simp add: pack_f64_def v_def x_def add.assoc)
qed

lemma nat_to_f64_finite:
  assumes "n < 2 ^ 64"
  shows "f64_finite (nat_to_f64 neg n)"
proof (cases "n = 0")
  case True
  then show ?thesis by (simp add: nat_to_f64_def f64_finite_def f64_exponent_def)
next
  case False
  define k where "k = ilog2 n"
  have b: "2 ^ k \<le> n" "n < 2 ^ Suc k" using ilog2_bounds [of n] False by (simp_all add: k_def)
  have "(2 :: nat) ^ k < 2 ^ 64" using b(1) assms by simp
  then have k: "k < 64" by (rule power_less_imp_less_exp [rotated]) simp
  have small: "n * 2 ^ (52 - k) - 2 ^ 52 \<le> 2 ^ 52" if "k \<le> 52"
  proof -
    have "n * 2 ^ (52 - k) < 2 ^ Suc k * 2 ^ (52 - k)" using b(2) by simp
    also have "\<dots> = 2 ^ 53" using that by (simp flip: power_add)
    finally show ?thesis by simp
  qed
  have large: "round_even n (k - 52) - 2 ^ 52 \<le> 2 ^ 52" if "\<not> k \<le> 52"
    using conjunct2 [OF round_even_bounds [of "k - 52" n]] that b by simp
  have "f64_exponent (pack_f64 neg (k + 1023) m) \<le> k + 1024" if "m \<le> 2 ^ 52" for m
    using f64_exponent_pack [OF that, of "k + 1023" neg] k by simp
  then have "f64_exponent (nat_to_f64 neg n) \<le> k + 1024"
    using False small large by (auto simp: nat_to_f64_def Let_def simp flip: k_def)
  with k show ?thesis by (simp add: f64_finite_def)
qed

lemma u64_to_f64_finite: "f64_finite (u64_to_f64 n)"
  using unat_bound [of n] by (simp add: u64_to_f64_def nat_to_f64_finite)

end
