(* ===== verification/Json.thy ===== *)
theory Json
  imports Text Float64
begin

text \<open>
  JSON values as \<open>serde_json::Value\<close> holds them (built without \<open>preserve_order\<close>: an object is
  a \<open>BTreeMap\<close>, here an association list with strictly ascending keys) and the accessors of
  that type the crate uses: \<open>get\<close>, \<open>pointer\<close>, \<open>as_i64\<close>, \<open>as_u64\<close>, \<open>as_f64\<close>, \<open>as_str\<close>,
  \<open>as_bool\<close>, \<open>as_array\<close>, \<open>as_object\<close>, the \<open>Number::from\<close> conversions and the map's insertion.
  The text a value prints as (\<open>Display\<close>) is a parameter of the definitions that use it.
\<close>

section \<open>Values\<close>

text \<open>\<open>NegInt\<close> holds negative numbers only, \<open>Float\<close> finite ones only (\<open>wf_number\<close>).\<close>
datatype number = PosInt u64 | NegInt i64 | Float f64

datatype json =
    Null
  | Bool bool
  | Number number
  | Str string
  | Array "json list"
  | Object "(string \<times> json) list"

type_synonym object = "(string \<times> json) list"

definition i64_max :: int where "i64_max = 2 ^ 63 - 1"

definition number_from_i64 :: "i64 \<Rightarrow> number" where
  "number_from_i64 i = (if sint i < 0 then NegInt i else PosInt i)"

definition number_from_i32 :: "i32 \<Rightarrow> number" where
  "number_from_i32 i = number_from_i64 (scast i)"

definition number_from_u64 :: "u64 \<Rightarrow> number" where
  "number_from_u64 n = PosInt n"

definition number_from_f64 :: "f64 \<Rightarrow> number option" where
  "number_from_f64 f = (if f64_finite f then Some (Float f) else None)"

fun num_as_i64 :: "number \<Rightarrow> i64 option" where
  "num_as_i64 (PosInt n) = (if uint n \<le> i64_max then Some n else None)"
| "num_as_i64 (NegInt i) = Some i"
| "num_as_i64 (Float f) = None"

fun num_as_u64 :: "number \<Rightarrow> u64 option" where
  "num_as_u64 (PosInt n) = Some n"
| "num_as_u64 _ = None"

fun num_as_f64 :: "number \<Rightarrow> f64 option" where
  "num_as_f64 (PosInt n) = Some (u64_to_f64 n)"
| "num_as_f64 (NegInt i) = Some (i64_to_f64 i)"
| "num_as_f64 (Float f) = Some f"

definition as_i64 :: "json \<Rightarrow> i64 option" where
  "as_i64 v = (case v of Number n \<Rightarrow> num_as_i64 n | _ \<Rightarrow> None)"

definition as_u64 :: "json \<Rightarrow> u64 option" where
  "as_u64 v = (case v of Number n \<Rightarrow> num_as_u64 n | _ \<Rightarrow> None)"

definition as_f64 :: "json \<Rightarrow> f64 option" where
  "as_f64 v = (case v of Number n \<Rightarrow> num_as_f64 n | _ \<Rightarrow> None)"

definition as_str :: "json \<Rightarrow> string option" where
  "as_str v = (case v of Str s \<Rightarrow> Some s | _ \<Rightarrow> None)"

definition as_bool :: "json \<Rightarrow> bool option" where
  "as_bool v = (case v of Bool b \<Rightarrow> Some b | _ \<Rightarrow> None)"

definition as_array :: "json \<Rightarrow> json list option" where
  "as_array v = (case v of Array xs \<Rightarrow> Some xs | _ \<Rightarrow> None)"

definition as_object :: "json \<Rightarrow> object option" where
  "as_object v = (case v of Object kvs \<Rightarrow> Some kvs | _ \<Rightarrow> None)"

lemmas as_defs = as_i64_def as_u64_def as_f64_def as_str_def as_bool_def as_array_def as_object_def

section \<open>Objects\<close>

text \<open>\<open>BTreeMap::insert\<close>\<close>
fun obj_insert :: "string \<Rightarrow> 'v \<Rightarrow> (string \<times> 'v) list \<Rightarrow> (string \<times> 'v) list" where
  "obj_insert k v [] = [(k, v)]"
| "obj_insert k v ((k', v') # kvs) =
     (if k < k' then (k, v) # (k', v') # kvs
      else if k = k' then (k, v) # kvs
      else (k', v') # obj_insert k v kvs)"

abbreviation obj_get :: "(string \<times> 'v) list \<Rightarrow> string \<Rightarrow> 'v option" where
  "obj_get kvs k \<equiv> map_of kvs k"

text \<open>The invariant of a \<open>BTreeMap\<close>: keys strictly ascending.\<close>
definition obj_sorted :: "(string \<times> 'v) list \<Rightarrow> bool" where
  "obj_sorted kvs = sorted_wrt (<) (map fst kvs)"

definition jget :: "json \<Rightarrow> string \<Rightarrow> json option" where
  "jget v k = (case v of Object kvs \<Rightarrow> obj_get kvs k | _ \<Rightarrow> None)"

text \<open>\<open>Value::pointer\<close> with the path already cut at the slashes; an array step is a decimal index.\<close>
fun pointer :: "string list \<Rightarrow> json \<Rightarrow> json option" where
  "pointer [] v = Some v"
| "pointer (p # ps) v =
     (case v of
        Object kvs \<Rightarrow> (case obj_get kvs p of None \<Rightarrow> None | Some v' \<Rightarrow> pointer ps v')
      | Array xs \<Rightarrow>
          (case parse_digits p of None \<Rightarrow> None
           | Some i \<Rightarrow> (case get_at xs i of None \<Rightarrow> None | Some v' \<Rightarrow> pointer ps v'))
      | _ \<Rightarrow> None)"

lemma obj_get_insert [simp]: "obj_get (obj_insert k v kvs) k' = (if k' = k then Some v else obj_get kvs k')"
  by (induction kvs) auto

lemma set_obj_insert: "fst ` set (obj_insert k v kvs) = insert k (fst ` set kvs)"
  by (induction k v kvs rule: obj_insert.induct) (simp_all add: insert_commute)

lemma obj_insert_elem: "x \<in> set (obj_insert k v kvs) \<Longrightarrow> x = (k, v) \<or> x \<in> set kvs"
  by (induction kvs) (auto split: if_splits)

lemma obj_sorted_Nil [simp]: "obj_sorted []"
  by (simp add: obj_sorted_def)

lemma obj_sorted_Cons: "obj_sorted ((k, v) # kvs) \<longleftrightarrow> (\<forall>k' \<in> fst ` set kvs. k < k') \<and> obj_sorted kvs"
  by (auto simp: obj_sorted_def)

lemma obj_sorted_insert: "obj_sorted kvs \<Longrightarrow> obj_sorted (obj_insert k v kvs)"
proof (induction k v kvs rule: obj_insert.induct)
  case (2 k v k' v' kvs)
  then show ?case
    by (cases k k' rule: linorder_cases) (auto simp: obj_sorted_Cons set_obj_insert)
qed (simp add: obj_sorted_Cons)

lemma obj_sorted_distinct: "obj_sorted kvs \<Longrightarrow> distinct (map fst kvs)"
  by (simp add: obj_sorted_def strict_sorted_iff)

lemma obj_insert_last:
  "\<forall>k' \<in> fst ` set kvs. k' < k \<Longrightarrow> obj_insert k v kvs = kvs @ [(k, v)]"
  by (induction kvs) (auto simp: less_not_sym)

lemma length_obj_insert: "length (obj_insert k v kvs) \<le> Suc (length kvs)"
  by (induction kvs) auto

section \<open>Well-formed values and their sizes\<close>

fun wf_number :: "number \<Rightarrow> bool" where
  "wf_number (PosInt n) = True"
| "wf_number (NegInt i) = (sint i < 0)"
| "wf_number (Float f) = f64_finite f"

text \<open>Nesting depth of the value, a scalar having depth 0.\<close>
fun json_depth :: "json \<Rightarrow> nat" where
  "json_depth (Array xs) = Max (insert 0 (set (map (\<lambda>x. Suc (json_depth x)) xs)))"
| "json_depth (Object kvs) = Max (insert 0 (set (map (\<lambda>kv. Suc (json_depth (snd kv))) kvs)))"
| "json_depth _ = 0"

text \<open>Values in the tree, object keys counted as values of their own.\<close>
fun json_nodes :: "json \<Rightarrow> nat" where
  "json_nodes (Array xs) = Suc (sum_list (map json_nodes xs))"
| "json_nodes (Object kvs) = Suc (sum_list (map (\<lambda>kv. Suc (json_nodes (snd kv))) kvs))"
| "json_nodes _ = 1"

text \<open>Bytes of all strings of the tree, keys included.\<close>
fun str_bytes_total :: "json \<Rightarrow> nat" where
  "str_bytes_total (Str s) = length s"
| "str_bytes_total (Array xs) = sum_list (map str_bytes_total xs)"
| "str_bytes_total (Object kvs) =
     sum_list (map (\<lambda>kv. length (fst kv) + str_bytes_total (snd kv)) kvs)"
| "str_bytes_total _ = 0"

lemma json_depth_Array_le: "json_depth (Array xs) \<le> d \<longleftrightarrow> (\<forall>x \<in> set xs. Suc (json_depth x) \<le> d)"
  by auto

lemma json_depth_Object_le:
  "json_depth (Object kvs) \<le> d \<longleftrightarrow> (\<forall>kv \<in> set kvs. Suc (json_depth (snd kv)) \<le> d)"
  by auto

declare json_depth.simps(1,2) [simp del]

lemma as_str_simps [simp]: "as_str (Str s) = Some s" "as_str Null = None"
  by (simp_all add: as_str_def)

lemma num_as_u64_from_i64 [simp]: "0 \<le> sint i \<Longrightarrow> num_as_u64 (number_from_i64 i) = Some i"
  by (simp add: number_from_i64_def)

lemma wf_number_from_i64 [simp]: "wf_number (number_from_i64 i)"
  by (simp add: number_from_i64_def)

lemma wf_number_from_i32 [simp]: "wf_number (number_from_i32 i)"
  by (simp add: number_from_i32_def)

end
