(* ===== verification/Utf8.thy ===== *)
theory Utf8
  imports Prelude
begin

text \<open>
  UTF-8 validation as Rust's \<open>String::from_utf8_lossy\<close> and \<open>str::from_utf8\<close> do it: the input is
  cut into valid sequences and maximal invalid prefixes, and each invalid piece becomes
  U+FFFD (\<open>EF BF BD\<close>).  A string the decoder builds is always valid UTF-8, and valid input
  passes through unchanged.
\<close>

definition utf8_cont :: "u8 \<Rightarrow> bool" where
  "utf8_cont b = (b AND 192 = 128)"

text \<open>Length of the sequence a lead byte announces, 0 if it is not a lead byte.\<close>
definition utf8_width :: "u8 \<Rightarrow> nat" where
  "utf8_width b =
     (if b < 128 then 1
      else if 194 \<le> b \<and> b \<le> 223 then 2
      else if 224 \<le> b \<and> b \<le> 239 then 3
      else if 240 \<le> b \<and> b \<le> 244 then 4
      else 0)"

text \<open>The second bytes allowed after a three- or four-byte lead.\<close>
definition utf8_second :: "u8 \<Rightarrow> u8 \<Rightarrow> bool" where
  "utf8_second b c =
     (if b = 224 then 160 \<le> c \<and> c \<le> 191
      else if b = 237 then 128 \<le> c \<and> c \<le> 159
      else if b = 240 then 144 \<le> c \<and> c \<le> 191
      else if b = 244 then 128 \<le> c \<and> c \<le> 143
      else 128 \<le> c \<and> c \<le> 191)"

text \<open>The byte at \<open>i\<close>, 0 past the end.\<close>
definition safe_get :: "bytes \<Rightarrow> nat \<Rightarrow> u8" where
  "safe_get bs i = (if i < length bs then bs ! i else 0)"

text \<open>One piece of the input: whether it is a valid sequence, and how many bytes it takes.\<close>
definition utf8_piece :: "u8 \<Rightarrow> bytes \<Rightarrow> bool \<times> nat" where
  "utf8_piece b rest =
     (let w = utf8_width b in
      if w = 1 then (True, 1)
      else if w = 2 then (if utf8_cont (safe_get rest 0) then (True, 2) else (False, 1))
      else if w = 3 then
        (if \<not> utf8_second b (safe_get rest 0) then (False, 1)
         else if utf8_cont (safe_get rest 1) then (True, 3) else (False, 2))
      else if w = 4 then
        (if \<not> utf8_second b (safe_get rest 0) then (False, 1)
         else if \<not> utf8_cont (safe_get rest 1) then (False, 2)
         else if utf8_cont (safe_get rest 2) then (True, 4) else (False, 3))
      else (False, 1))"

definition replacement :: bytes where
  "replacement = [239, 191, 189]"

lemma utf8_piece_pos: "0 < snd (utf8_piece b rest)"
  by (simp add: utf8_piece_def Let_def)

function utf8_lossy :: "bytes \<Rightarrow> bytes" where
  "utf8_lossy [] = []"
| "utf8_lossy (b # rest) =
     (let p = utf8_piece b rest
      in (if fst p then take (snd p) (b # rest) else replacement) @ utf8_lossy (drop (snd p) (b # rest)))"
  by pat_completeness auto
termination
  by (relation "measure length") (auto simp: utf8_piece_pos)

function utf8_valid :: "bytes \<Rightarrow> bool" where
  "utf8_valid [] = True"
| "utf8_valid (b # rest) =
     (let p = utf8_piece b rest
      in fst p \<and> utf8_valid (drop (snd p) (b # rest)))"
  by pat_completeness auto
termination
  by (relation "measure length") (auto simp: utf8_piece_pos)

declare utf8_lossy.simps(2) [simp del] utf8_valid.simps(2) [simp del]

definition from_utf8_lossy :: "bytes \<Rightarrow> string" where
  "from_utf8_lossy bs = bytes_str (utf8_lossy bs)"

text \<open>The invariant of a Rust \<open>String\<close>.\<close>
definition str_valid :: "string \<Rightarrow> bool" where
  "str_valid s = utf8_valid (str_bytes s)"

lemma utf8_lossy_valid: "utf8_valid bs \<Longrightarrow> utf8_lossy bs = bs"
proof (induction bs rule: utf8_valid.induct)
  case (2 b rest)
  then show ?case by (simp add: utf8_valid.simps utf8_lossy.simps Let_def)
qed simp

lemma from_utf8_lossy_valid: "str_valid s \<Longrightarrow> from_utf8_lossy (str_bytes s) = s"
  by (simp add: from_utf8_lossy_def str_valid_def utf8_lossy_valid)

lemma safe_get_zero: "\<not> utf8_cont 0" "\<not> utf8_second b 0"
  by (simp_all add: utf8_cont_def utf8_second_def)

lemma safe_get_append: "safe_get bs i \<noteq> 0 \<Longrightarrow> safe_get (bs @ cs) i = safe_get bs i"
  by (auto simp: safe_get_def nth_append split: if_splits)

text \<open>Whether a piece is valid depends on the bytes it takes only.\<close>

lemma utf8_piece_cong:
  assumes "fst (utf8_piece b rest)"
    and "\<And>i. Suc i < snd (utf8_piece b rest) \<Longrightarrow> safe_get rest' i = safe_get rest i"
  shows "utf8_piece b rest' = utf8_piece b rest"
  using assms(1) assms(2) [of 0] assms(2) [of 1] assms(2) [of 2]
  by (simp add: utf8_piece_def Let_def split: if_split_asm)

lemma utf8_piece_nonzero:
  assumes "fst (utf8_piece b rest)" "Suc i < snd (utf8_piece b rest)"
  shows "safe_get rest i \<noteq> 0"
proof
  assume z: "safe_get rest i = 0"
  have "snd (utf8_piece b rest) \<le> 4" by (simp add: utf8_piece_def Let_def)
  with assms(2) have "i = 0 \<or> i = 1 \<or> i = 2" by arith
  with assms z show False
    using safe_get_zero by (auto simp: utf8_piece_def Let_def split: if_split_asm)
qed

lemma utf8_piece_le:
  assumes "fst (utf8_piece b rest)"
  shows "snd (utf8_piece b rest) \<le> Suc (length rest)"
proof (rule ccontr)
  assume "\<not> ?thesis"
  then have "Suc (length rest) < snd (utf8_piece b rest)" by simp
  from utf8_piece_nonzero [OF assms this] show False by (simp add: safe_get_def)
qed

lemma utf8_piece_append:
  "fst (utf8_piece b rest) \<Longrightarrow> utf8_piece b (rest @ cs) = utf8_piece b rest"
  by (rule utf8_piece_cong) (auto intro: safe_get_append dest: utf8_piece_nonzero)

lemma utf8_valid_append: "utf8_valid bs \<Longrightarrow> utf8_valid (bs @ cs) = utf8_valid cs"
proof (induction bs rule: utf8_valid.induct)
  case (2 b rest)
  let ?p = "utf8_piece b rest"
  from "2.prems" have ok: "fst ?p" and v: "utf8_valid (drop (snd ?p) (b # rest))"
    by (simp_all add: utf8_valid.simps(2) Let_def)
  have le: "snd ?p \<le> length (b # rest)" using utf8_piece_le [OF ok] by simp
  have "utf8_valid ((b # rest) @ cs) = utf8_valid (drop (snd ?p) ((b # rest) @ cs))"
    using ok utf8_piece_append [OF ok, of cs] by (simp add: utf8_valid.simps(2) Let_def)
  also have "drop (snd ?p) ((b # rest) @ cs) = drop (snd ?p) (b # rest) @ cs"
    using le by (subst drop_append) simp
  finally show ?case using "2.IH" [OF refl v] by simp
qed simp

lemma utf8_valid_take:
  assumes "fst (utf8_piece b rest)"
  shows "utf8_valid (take (snd (utf8_piece b rest)) (b # rest))"
proof -
  let ?n = "snd (utf8_piece b rest)"
  have n: "0 < ?n" "?n \<le> Suc (length rest)"
    using utf8_piece_pos [of b rest] utf8_piece_le [OF assms] by simp_all
  have "utf8_piece b (take (?n - 1) rest) = utf8_piece b rest"
    using n by (intro utf8_piece_cong [OF assms]) (auto simp: safe_get_def)
  moreover have "take ?n (b # rest) = b # take (?n - 1) rest" using n by (cases ?n) auto
  ultimately show ?thesis using assms n by (simp add: utf8_valid.simps Let_def)
qed

text \<open>The result is always a valid string, at most three times as long.\<close>

lemma utf8_valid_lossy: "utf8_valid (utf8_lossy bs)"
proof (induction bs rule: utf8_lossy.induct)
  case (2 b rest)
  have r: "utf8_valid replacement"
    by (simp add: replacement_def utf8_valid.simps utf8_piece_def utf8_width_def utf8_second_def
        utf8_cont_def safe_get_def Let_def)
  show ?case
    using 2 r utf8_valid_take [of b rest] by (auto simp: utf8_lossy.simps Let_def utf8_valid_append)
qed simp

lemma str_valid_from_utf8_lossy: "str_valid (from_utf8_lossy bs)"
  by (simp add: str_valid_def from_utf8_lossy_def utf8_valid_lossy)

lemma length_utf8_lossy: "length (utf8_lossy bs) \<le> 3 * length bs"
proof (induction bs rule: utf8_lossy.induct)
  case (2 b rest)
  let ?n = "snd (utf8_piece b rest)"
  have n: "0 < ?n" by (rule utf8_piece_pos)
  have "length (utf8_lossy (drop ?n (b # rest))) \<le> 3 * (Suc (length rest) - ?n)" using 2 by simp
  moreover have "length (if fst (utf8_piece b rest) then take ?n (b # rest) else replacement) \<le>
      3 * min ?n (Suc (length rest))"
    using n by (auto simp: replacement_def min_def)
  ultimately show ?case
    using n by (auto simp: utf8_lossy.simps Let_def min_def split: if_split_asm)
qed simp

lemma length_from_utf8_lossy: "length (from_utf8_lossy bs) \<le> 3 * length bs"
  by (simp add: from_utf8_lossy_def length_utf8_lossy)

text \<open>ASCII strings, in particular every literal of the source, are valid.\<close>

definition ascii :: "string \<Rightarrow> bool" where
  "ascii s = list_all (\<lambda>c. of_char c < (128 :: nat)) s"

lemma utf8_valid_ascii: "list_all (\<lambda>b. b < 128) bs \<Longrightarrow> utf8_valid bs"
  by (induction bs) (simp_all add: utf8_valid.simps utf8_piece_def utf8_width_def)

lemma str_valid_ascii: "ascii s \<Longrightarrow> str_valid s"
proof -
  assume "ascii s"
  moreover have "of_char c < (128 :: nat) \<Longrightarrow> byte_of_char c < 128" for c
    by (simp add: byte_of_char_def word_less_nat_alt unat_word_of_nat)
  ultimately have "list_all (\<lambda>b. b < 128) (str_bytes s)"
    by (auto simp: ascii_def str_bytes_def list_all_iff)
  then show ?thesis by (simp add: str_valid_def utf8_valid_ascii)
qed

end
