(* ===== verification/Base64.thy ===== *)
theory Base64
  imports Text
begin

text \<open>
  The crate's own Base64: \<open>base64::encode\<close> of \<open>src/src/bon.rs\<close>, which the decoder applies to
  binary values, and \<open>base64_decode\<close> of \<open>src/src/protocol.rs\<close>, which undoes it when a message
  body is read.  \<open>base64_decode_encode\<close> is the round trip between the two.
\<close>

definition CHARS :: string where
  "CHARS = ''ABCDEFGHIJKLMNOPQRSTUVWXYZabcdefghijklmnopqrstuvwxyz0123456789+/''"

definition b64_char :: "u64 \<Rightarrow> char" where
  "b64_char i = CHARS ! unat i"

text \<open>One chunk of one to three bytes.\<close>
definition encode_chunk :: "bytes \<Rightarrow> string" where
  "encode_chunk chunk =
     (let b0 = ucast (unwrap_or (get_at chunk 0) 0) :: u64;
          b1 = ucast (unwrap_or (get_at chunk 1) 0) :: u64;
          b2 = ucast (unwrap_or (get_at chunk 2) 0) :: u64
      in [b64_char (drop_bit 2 b0),
          b64_char (push_bit 4 (b0 AND 0x03) OR drop_bit 4 b1),
          if 1 < length chunk then b64_char (push_bit 2 (b1 AND 0x0f) OR drop_bit 6 b2) else CHR ''='',
          if 2 < length chunk then b64_char (b2 AND 0x3f) else CHR ''=''])"

definition base64_encode :: "bytes \<Rightarrow> string" where
  "base64_encode bs = concat (map encode_chunk (chunks 3 bs))"

definition b64_table :: "u8 \<Rightarrow> u8 option" where
  "b64_table c =
     (if 65 \<le> c \<and> c \<le> 90 then Some (c - 65)
      else if 97 \<le> c \<and> c \<le> 122 then Some (c - 97 + 26)
      else if 48 \<le> c \<and> c \<le> 57 then Some (c - 48 + 52)
      else if c = 43 then Some 62
      else if c = 47 then Some 63
      else None)"

text \<open>\<open>trim_end_matches('=')\<close>\<close>
definition trim_end :: "char \<Rightarrow> string \<Rightarrow> string" where
  "trim_end c s = rev (dropWhile (\<lambda>x. x = c) (rev s))"

text \<open>The loop body for one chunk of one to four characters.\<close>
definition decode_chunk :: "bytes \<Rightarrow> bytes option" where
  "decode_chunk chunk =
     Option.bind (Option.bind (get_at chunk 0) b64_table) (\<lambda>a.
     Option.bind (Option.bind (get_at chunk 1) b64_table) (\<lambda>b.
       let o1 = push_bit 2 a OR drop_bit 4 b
       in case get_at chunk 2 of
            None \<Rightarrow> Some [o1]
          | Some c0 \<Rightarrow>
              Option.bind (b64_table c0) (\<lambda>c.
                let o2 = push_bit 4 b OR drop_bit 2 c
                in case get_at chunk 3 of
                     None \<Rightarrow> Some [o1, o2]
                   | Some d0 \<Rightarrow>
                       Option.bind (b64_table d0) (\<lambda>d. Some [o1, o2, push_bit 6 c OR d]))))"

fun decode_chunks :: "bytes list \<Rightarrow> bytes \<Rightarrow> bytes option" where
  "decode_chunks [] out = Some out"
| "decode_chunks (c # cs) out =
     (case decode_chunk c of None \<Rightarrow> None | Some o' \<Rightarrow> decode_chunks cs (out @ o'))"

definition base64_decode :: "string \<Rightarrow> bytes option" where
  "base64_decode s = decode_chunks (chunks 4 (str_bytes (trim_end (CHR ''='') s))) []"

section \<open>The round trip\<close>

lemma b64_table_all: "map (\<lambda>c. b64_table (byte_of_char c)) CHARS = map (\<lambda>n. Some (word_of_nat n)) [0..<64]"
  by (simp add: CHARS_def b64_table_def byte_of_char_def) code_simp

lemma length_CHARS: "length CHARS = 64"
  by (simp add: CHARS_def)

lemma CHARS_no_pad: "CHR ''='' \<notin> set CHARS"
  by (simp add: CHARS_def)

lemma b64_table_char:
  assumes "i < 64"
  shows "b64_table (byte_of_char (b64_char i)) = Some (ucast i)" "b64_char i \<noteq> CHR ''=''"
proof -
  have n: "unat i < 64" using assms by (simp add: word_less_nat_alt)
  have "map (\<lambda>c. b64_table (byte_of_char c)) CHARS ! unat i = Some (word_of_nat (unat i))"
    using n by (simp add: b64_table_all)
  then show "b64_table (byte_of_char (b64_char i)) = Some (ucast i)"
    using n by (simp add: b64_char_def length_CHARS)
  show "b64_char i \<noteq> CHR ''=''"
    using n CHARS_no_pad length_CHARS nth_mem unfolding b64_char_def by metis
qed

text \<open>The six-bit groups of three bytes, and back.\<close>

lemma word8_eqI:
  fixes a b :: u8
  assumes "bit a 0 = bit b 0" "bit a 1 = bit b 1" "bit a 2 = bit b 2" "bit a 3 = bit b 3"
    "bit a 4 = bit b 4" "bit a 5 = bit b 5" "bit a 6 = bit b 6" "bit a 7 = bit b 7"
  shows "a = b"
proof (rule bit_word_eqI)
  fix n :: nat
  assume "n < LENGTH(8)"
  then have "n = 0 \<or> n = 1 \<or> n = 2 \<or> n = 3 \<or> n = 4 \<or> n = 5 \<or> n = 6 \<or> n = 7" by simp arith
  then show "bit a n = bit b n" using assms by auto
qed

lemma bit_u8_above [simp]: "8 \<le> n \<Longrightarrow> \<not> bit (b :: u8) n"
  using bit_imp_le_length [of b n] by auto

definition g0 :: "u8 \<Rightarrow> u64" where "g0 b0 = drop_bit 2 (ucast b0)"
definition g1 :: "u8 \<Rightarrow> u8 \<Rightarrow> u64" where "g1 b0 b1 = push_bit 4 (ucast b0 AND 0x03) OR drop_bit 4 (ucast b1)"
definition g2 :: "u8 \<Rightarrow> u8 \<Rightarrow> u64" where "g2 b1 b2 = push_bit 2 (ucast b1 AND 0x0f) OR drop_bit 6 (ucast b2)"
definition g3 :: "u8 \<Rightarrow> u64" where "g3 b2 = ucast b2 AND 0x3f"

lemmas g_defs = g0_def g1_def g2_def g3_def

lemma encode_chunk_groups:
  "encode_chunk [b0] = [b64_char (g0 b0), b64_char (g1 b0 0), CHR ''='', CHR ''='']"
  "encode_chunk [b0, b1] = [b64_char (g0 b0), b64_char (g1 b0 b1), b64_char (g2 b1 0), CHR ''='']"
  "encode_chunk [b0, b1, b2] = [b64_char (g0 b0), b64_char (g1 b0 b1), b64_char (g2 b1 b2), b64_char (g3 b2)]"
  by (simp_all add: encode_chunk_def g_defs Let_def)

lemma group_bytes:
  "push_bit 2 (ucast (g0 b0) :: u8) OR drop_bit 4 (ucast (g1 b0 b1)) = b0"
  "push_bit 4 (ucast (g1 b0 b1) :: u8) OR drop_bit 2 (ucast (g2 b1 b2)) = b1"
  "push_bit 6 (ucast (g2 b1 b2) :: u8) OR ucast (g3 b2) = b2"
  unfolding g_defs
  by ((rule word8_eqI; simp add: bit_simps), (rule word8_eqI; simp add: bit_simps),
      (rule word8_eqI; simp add: bit_simps))

lemma less_64_bits: "(\<And>n. 6 \<le> n \<Longrightarrow> \<not> bit x n) \<Longrightarrow> x < (64 :: u64)"
proof -
  assume *: "\<And>n. 6 \<le> n \<Longrightarrow> \<not> bit x n"
  have "bit (take_bit 6 x) n = bit x n" for n
    using * [of n] by (cases "n < 6") (auto simp: bit_take_bit_iff)
  then have "take_bit 6 x = x" by (intro bit_word_eqI) auto
  then have "unat x = take_bit 6 (unat x)" by (metis unsigned_take_bit_eq)
  also have "\<dots> < 2 ^ 6" by (rule take_bit_nat_less_exp)
  finally show ?thesis by (simp add: word_less_nat_alt)
qed

lemma masks: "(3 :: u64) = mask 2" "(15 :: u64) = mask 4" "(63 :: u64) = mask 6"
  by (simp_all add: mask_eq_exp_minus_1)

lemma group_less: "g0 b0 < 64" "g1 b0 b1 < 64" "g2 b1 b2 < 64" "g3 b2 < 64"
  unfolding g_defs masks by (rule less_64_bits; auto simp: bit_simps)+

lemmas group_char = group_less [THEN b64_table_char(1)] group_less [THEN b64_table_char(2)]

lemma chunk_cases:
  assumes "chunk \<noteq> []" "length chunk \<le> 3"
  obtains b0 where "chunk = [b0]" | b0 b1 where "chunk = [b0, b1]" | b0 b1 b2 where "chunk = [b0, b1, b2]"
  using assms by (cases chunk; cases "tl chunk"; cases "tl (tl chunk)"; cases "tl (tl (tl chunk))") auto

text \<open>The characters of a chunk without the padding.\<close>
definition chunk_chars :: "bytes \<Rightarrow> string" where
  "chunk_chars chunk = take (Suc (length chunk)) (encode_chunk chunk)"

lemma decode_chunk_chars:
  assumes "chunk \<noteq> []" "length chunk \<le> 3"
  shows "decode_chunk (str_bytes (chunk_chars chunk)) = Some chunk"
  using assms
  by (cases rule: chunk_cases)
     (simp_all add: chunk_chars_def encode_chunk_groups decode_chunk_def Let_def group_char group_bytes)

lemma b64_char_not_pad:
  "CHR ''='' \<noteq> b64_char (g0 b0)" "CHR ''='' \<noteq> b64_char (g1 b0 b1)"
  "CHR ''='' \<noteq> b64_char (g2 b1 b2)" "CHR ''='' \<noteq> b64_char (g3 b2)"
  using group_char(5-8) by (metis, metis, metis, metis)

lemma chunk_chars_eqs:
  "chunk_chars [b0] = [b64_char (g0 b0), b64_char (g1 b0 0)]"
  "chunk_chars [b0, b1] = [b64_char (g0 b0), b64_char (g1 b0 b1), b64_char (g2 b1 0)]"
  "chunk_chars [b0, b1, b2] = [b64_char (g0 b0), b64_char (g1 b0 b1), b64_char (g2 b1 b2), b64_char (g3 b2)]"
  by (simp_all add: chunk_chars_def encode_chunk_groups)

lemma chunk_chars_shape:
  assumes "chunk \<noteq> []" "length chunk \<le> 3"
  shows "encode_chunk chunk = chunk_chars chunk @ replicate (3 - length chunk) (CHR ''='')"
    and "length (chunk_chars chunk) = Suc (length chunk)"
    and "CHR ''='' \<notin> set (chunk_chars chunk)"
  using assms
  by (cases rule: chunk_cases; simp add: chunk_chars_eqs encode_chunk_groups b64_char_not_pad numeral_2_eq_2)+

lemma trim_end_append:
  "s = [] \<or> last s \<noteq> c \<Longrightarrow> trim_end c (s @ replicate n c) = s"
  by (cases s rule: rev_cases) (auto simp: trim_end_def dropWhile_append)

text \<open>All the characters without the padding of the last chunk.\<close>
definition body_chars :: "bytes \<Rightarrow> string" where
  "body_chars bs = concat (map chunk_chars (chunks 3 bs))"

lemma chunk3_induct [case_names Nil last more]:
  assumes "P []"
    and "\<And>c. c \<noteq> [] \<Longrightarrow> length c \<le> 3 \<Longrightarrow> P c"
    and "\<And>c bs. length c = 3 \<Longrightarrow> P bs \<Longrightarrow> P (c @ bs)"
  shows "P (bs :: 'a list)"
proof (induction bs rule: length_induct)
  case (1 bs)
  show ?case
  proof (cases "length bs \<le> 3")
    case True
    then show ?thesis using assms(1,2) by (cases "bs = []") auto
  next
    case False
    then have "P (take 3 bs @ drop 3 bs)" using 1 by (intro assms(3)) auto
    then show ?thesis by simp
  qed
qed

lemma body_chars_simps:
  "body_chars [] = []"
  "c \<noteq> [] \<Longrightarrow> length c \<le> 3 \<Longrightarrow> body_chars c = chunk_chars c"
  "length c = 3 \<Longrightarrow> body_chars (c @ bs) = chunk_chars c @ body_chars bs"
  by (simp_all add: body_chars_def chunks_last chunks_append)

lemma base64_encode_simps:
  "base64_encode [] = []"
  "c \<noteq> [] \<Longrightarrow> length c \<le> 3 \<Longrightarrow> base64_encode c = encode_chunk c"
  "length c = 3 \<Longrightarrow> base64_encode (c @ bs) = encode_chunk c @ base64_encode bs"
  by (simp_all add: base64_encode_def chunks_last chunks_append)

lemma base64_encode_body:
  "\<exists>n. base64_encode bs = body_chars bs @ replicate n (CHR ''='')" "CHR ''='' \<notin> set (body_chars bs)"
proof (induction bs rule: chunk3_induct)
  case Nil
  {
    case 1 show ?case by (simp add: body_chars_simps base64_encode_simps)
  next
    case 2 show ?case by (simp add: body_chars_simps)
  }
next
  case (last c)
  {
    case 1 show ?case
      using last chunk_chars_shape(1) [OF last] by (auto simp: body_chars_simps base64_encode_simps)
  next
    case 2 show ?case
      using last chunk_chars_shape(3) [OF last] by (simp add: body_chars_simps)
  }
next
  case (more c bs)
  then have c: "c \<noteq> []" "length c \<le> 3" by auto
  {
    case 1 show ?case
      using more chunk_chars_shape(1) [OF c] by (auto simp: body_chars_simps base64_encode_simps)
  next
    case 2 show ?case
      using more chunk_chars_shape(3) [OF c] by (simp add: body_chars_simps)
  }
qed

lemma decode_body_chars:
  "decode_chunks (chunks 4 (str_bytes (body_chars bs))) out = Some (out @ bs)"
proof (induction bs arbitrary: out rule: chunk3_induct)
  case Nil
  show ?case by (simp add: body_chars_simps)
next
  case (last c)
  have "length (str_bytes (chunk_chars c)) \<le> 4" "length (str_bytes (chunk_chars c)) \<noteq> 0"
    using chunk_chars_shape(2) [OF last] last(2) by auto
  then have "chunks 4 (str_bytes (chunk_chars c)) = [str_bytes (chunk_chars c)]"
    by (metis chunks_last list.size(3))
  then show ?case using last by (simp add: body_chars_simps decode_chunk_chars)
next
  case (more c bs)
  then have c: "c \<noteq> []" "length c \<le> 3" by auto
  have "length (str_bytes (chunk_chars c)) = 4" using chunk_chars_shape(2) [OF c] more(1) by simp
  then show ?case using more c by (simp add: body_chars_simps chunks_append decode_chunk_chars)
qed

lemma base64_decode_encode: "base64_decode (base64_encode bs) = Some bs"
proof -
  obtain n where n: "base64_encode bs = body_chars bs @ replicate n (CHR ''='')"
    using base64_encode_body(1) by blast
  have "body_chars bs = [] \<or> last (body_chars bs) \<noteq> CHR ''=''"
    using base64_encode_body(2) [of bs] last_in_set [of "body_chars bs"] by fastforce
  then have "trim_end (CHR ''='') (base64_encode bs) = body_chars bs"
    unfolding n by (rule trim_end_append)
  then show ?thesis unfolding base64_decode_def by (simp only: decode_body_chars append_Nil)
qed

section \<open>Length and alphabet\<close>

lemma length_encode_chunk [simp]: "length (encode_chunk c) = 4"
  by (simp add: encode_chunk_def Let_def)

lemma length_base64_encode: "length (base64_encode bs) = 4 * ((length bs + 2) div 3)"
proof (induction bs rule: chunk3_induct)
  case Nil
  then show ?case by (simp add: base64_encode_simps)
next
  case (last c)
  then have "length c \<noteq> 0" by simp
  with last have "length c = 1 \<or> length c = 2 \<or> length c = 3" by linarith
  then show ?case using last by (auto simp: base64_encode_simps)
next
  case (more c bs)
  have "5 + length bs = (length bs + 2) + 1 * 3" by simp
  then have "(5 + length bs) div 3 = Suc ((length bs + 2) div 3)" by (simp only: div_mult_self1)
  with more show ?case by (simp add: base64_encode_simps)
qed

definition base64_alphabet :: "char set" where
  "base64_alphabet = insert (CHR ''='') (set CHARS)"

lemma encode_chunk_alphabet:
  assumes "c \<noteq> []" "length c \<le> 3"
  shows "set (encode_chunk c) \<subseteq> base64_alphabet"
proof -
  have char: "b64_char i \<in> set CHARS" if "i < 64" for i
    using that nth_mem [of "unat i" CHARS]
    by (simp add: b64_char_def length_CHARS word_less_nat_alt)
  show ?thesis
    using assms by (cases rule: chunk_cases) (auto simp: char encode_chunk_groups group_less base64_alphabet_def)
qed

lemma base64_encode_alphabet: "set (base64_encode bs) \<subseteq> base64_alphabet"
proof (induction bs rule: chunk3_induct)
  case (more c bs)
  then have "c \<noteq> []" "length c \<le> 3" by auto
  then show ?case using more encode_chunk_alphabet [of c] by (simp add: base64_encode_simps)
qed (simp_all add: base64_encode_simps encode_chunk_alphabet)

lemma base64_alphabet_ascii: "c \<in> base64_alphabet \<Longrightarrow> (of_char c :: nat) < 128"
  by (auto simp: base64_alphabet_def CHARS_def)

section \<open>Properties\<close>

text \<open>the decoder of \<open>protocol.rs\<close> inverts the encoder of \<open>bon.rs\<close> on all byte strings, and the
  encoded text has four characters per started group of three bytes, all from the base 64 alphabet.\<close>
theorem base64_spec:
  "base64_decode (base64_encode bs) = Some bs \<and> length (base64_encode bs) = 4 * ((length bs + 2) div 3) \<and>
   set (base64_encode bs) \<subseteq> base64_alphabet"
  by (intro conjI) (rule base64_decode_encode, rule length_base64_encode, rule base64_encode_alphabet)

end
