(* ===== verification/Bon.thy ===== *)
theory Bon
  imports Json Utf8 Base64
begin

text \<open>
  \<open>src/src/bon.rs\<close>: the BON (binary object notation) wire format.  \<open>DataReader\<close> and its reads,
  \<open>DataWriter\<close> and its writes, the encoder with its string table, the decoder with its limits
  (depth, collection size, value bytes, total nodes, total bytes), and the packet encoder.  Every read returns its \<open>Option\<close> together with the reader it leaves behind,
  also when it fails.  The decoder's recursion is total: the depth limit bounds it.
  \<open>Display\<close> of a JSON value, which the decoder applies to object keys that are not strings, is
  the parameter \<open>show\<close>.
\<close>

section \<open>DataReader\<close>

text \<open>
  An index or a range outside the buffer panics in Rust.  Such a panic ends the read without a value
  and leaves its trace in \<open>rd_panicked\<close>, which no operation clears and no code reads: it is there
  to make a panic visible in the state a run leaves behind.
\<close>

record reader =
  rd_data :: bytes
  rd_position :: nat
  rd_panicked :: bool

definition reader_new :: "bytes \<Rightarrow> reader" where
  "reader_new bs = \<lparr>rd_data = bs, rd_position = 0, rd_panicked = False\<rparr>"

definition reader_reset :: "bytes \<Rightarrow> reader \<Rightarrow> reader" where
  "reader_reset bs r = r\<lparr>rd_data := bs, rd_position := 0\<rparr>"

definition validate :: "reader \<Rightarrow> nat \<Rightarrow> bool" where
  "validate r n = (rd_position r + n \<le> length (rd_data r))"

definition advance :: "nat \<Rightarrow> reader \<Rightarrow> reader" where
  "advance n r = r\<lparr>rd_position := rd_position r + n\<rparr>"

text \<open>\<open>self.position += n\<close> as a step.\<close>
definition skip_bytes :: "nat \<Rightarrow> (reader, unit) opt_state" where
  "skip_bytes n r = (Some (), advance n r)"

definition index_panic :: "(reader, 'a) opt_state" where
  "index_panic r = (None, r\<lparr>rd_panicked := True\<rparr>)"

text \<open>\<open>self.data[self.position + i]\<close>\<close>
definition byte_at :: "nat \<Rightarrow> (reader, u8) opt_state" where
  "byte_at i r =
     (if rd_position r + i < length (rd_data r) then (Some (rd_data r ! (rd_position r + i)), r)
      else index_panic r)"

text \<open>\<open>&self.data[self.position..self.position + n]\<close>\<close>
definition slice_at :: "nat \<Rightarrow> (reader, bytes) opt_state" where
  "slice_at n r =
     (if rd_position r + n \<le> length (rd_data r) then (Some (take n (drop (rd_position r) (rd_data r))), r)
      else index_panic r)"

definition read_u8 :: "(reader, u8) opt_state" where
  "read_u8 r =
     (if \<not> validate r 1 then (None, r)
      else opt_bind (byte_at 0) (\<lambda>v. opt_bind (skip_bytes 1) (\<lambda>_. opt_return v)) r)"

definition read_i16 :: "(reader, i16) opt_state" where
  "read_i16 r =
     (if \<not> validate r 2 then (None, r)
      else opt_bind (opt_map ucast (byte_at 0)) (\<lambda>lo :: u16.
           opt_bind (opt_map ucast (byte_at 1)) (\<lambda>hi :: u16.
           opt_bind (skip_bytes 2) (\<lambda>_. opt_return (lo OR push_bit 8 hi)))) r)"

definition read_i32 :: "(reader, i32) opt_state" where
  "read_i32 r =
     (if \<not> validate r 4 then (None, r)
      else opt_bind (opt_map ucast (byte_at 0)) (\<lambda>b0 :: u32.
           opt_bind (opt_map ucast (byte_at 1)) (\<lambda>b1 :: u32.
           opt_bind (opt_map ucast (byte_at 2)) (\<lambda>b2 :: u32.
           opt_bind (opt_map ucast (byte_at 3)) (\<lambda>b3 :: u32.
           opt_bind (skip_bytes 4) (\<lambda>_.
             opt_return (b0 OR push_bit 8 b1 OR push_bit 16 b2 OR push_bit 24 b3)))))) r)"

definition read_i64 :: "(reader, i64) opt_state" where
  "read_i64 =
     opt_bind (opt_map scast read_i32) (\<lambda>lo0 :: i64.
     opt_bind read_i32 (\<lambda>hi.
       let lo = (if sint lo0 < 0 then lo0 + 4294967296 else lo0)
       in opt_return (lo + 4294967296 * scast hi)))"

text \<open>\<open>from_le_bytes\<close> of eight bytes.\<close>
fun le_word :: "bytes \<Rightarrow> 'a::len word" where
  "le_word [] = 0"
| "le_word (b # bs) = ucast b OR push_bit 8 (le_word bs)"

definition read_f32 :: "(reader, f32) opt_state" where
  "read_f32 r =
     (if \<not> validate r 4 then (None, r)
      else opt_bind (slice_at 4) (\<lambda>buf. opt_bind (skip_bytes 4) (\<lambda>_. opt_return (le_word buf))) r)"

definition read_f64 :: "(reader, f64) opt_state" where
  "read_f64 r =
     (if \<not> validate r 8 then (None, r)
      else opt_bind (slice_at 8) (\<lambda>buf. opt_bind (skip_bytes 8) (\<lambda>_. opt_return (le_word buf))) r)"

fun read_7bit_loop :: "nat list \<Rightarrow> u32 \<Rightarrow> (reader, u32) opt_state" where
  "read_7bit_loop [] v = opt_fail"
| "read_7bit_loop (index # is) v =
     opt_bind read_u8 (\<lambda>b.
       if index = 4 \<and> b AND 0xf0 \<noteq> 0 then opt_fail
       else
         let v' = v OR push_bit (index * 7) (ucast (b AND 0x7f))
         in if b AND 0x80 = 0 then opt_return v' else read_7bit_loop is v')"

definition read_7bit_int :: "(reader, u32) opt_state" where
  "read_7bit_int = read_7bit_loop [0..<5] 0"

definition read_utf_bytes :: "nat \<Rightarrow> (reader, string) opt_state" where
  "read_utf_bytes len r =
     (if len = 0 then (Some [], r)
      else if \<not> validate r len then (None, r)
      else opt_bind (opt_map from_utf8_lossy (slice_at len)) (\<lambda>s.
           opt_bind (skip_bytes len) (\<lambda>_. opt_return s)) r)"

definition read_utf :: "(reader, string) opt_state" where
  "read_utf = opt_bind read_7bit_int (\<lambda>len. read_utf_bytes (unat len))"

definition read_bytes :: "nat \<Rightarrow> (reader, bytes) opt_state" where
  "read_bytes len r =
     (if \<not> validate r len then (None, r)
      else opt_bind (slice_at len) (\<lambda>v. opt_bind (skip_bytes len) (\<lambda>_. opt_return v)) r)"

section \<open>DataWriter\<close>

text \<open>The struct's one field, the bytes written so far.\<close>
type_synonym writer = bytes

definition write_u8 :: "u8 \<Rightarrow> writer \<Rightarrow> writer" where
  "write_u8 v w = w @ [v]"

definition write_i16 :: "i16 \<Rightarrow> writer \<Rightarrow> writer" where
  "write_i16 v w = w @ [ucast v, ucast (signed_drop_bit 8 v)]"

definition write_i32 :: "i32 \<Rightarrow> writer \<Rightarrow> writer" where
  "write_i32 v w =
     w @ [ucast v, ucast (signed_drop_bit 8 v), ucast (signed_drop_bit 16 v), ucast (signed_drop_bit 24 v)]"

text \<open>Division of \<open>i64\<close>, truncating towards zero.\<close>
definition i64_div :: "i64 \<Rightarrow> i64 \<Rightarrow> i64" where
  "i64_div a b = word_of_int (sint a sdiv sint b)"

definition write_i64 :: "i64 \<Rightarrow> writer \<Rightarrow> writer" where
  "write_i64 v w =
     (let w1 = write_i32 (ucast v) w
      in if sint v < 0 then write_i32 (NOT (ucast (i64_div (- v) 4294967296))) w1
         else write_i32 (ucast (i64_div v 4294967296)) w1)"

text \<open>\<open>to_le_bytes\<close>: \<open>n\<close> bytes, the least significant first.\<close>
fun le_bytes :: "nat \<Rightarrow> 'a::len word \<Rightarrow> bytes" where
  "le_bytes 0 v = []"
| "le_bytes (Suc n) v = ucast v # le_bytes n (drop_bit 8 v)"

definition write_f32 :: "f32 \<Rightarrow> writer \<Rightarrow> writer" where
  "write_f32 v w = w @ le_bytes 4 v"

definition write_f64 :: "f64 \<Rightarrow> writer \<Rightarrow> writer" where
  "write_f64 v w = w @ le_bytes 8 v"

function write_7bit_loop :: "u32 \<Rightarrow> writer \<Rightarrow> writer" where
  "write_7bit_loop n w =
     (if 0x80 \<le> n then write_7bit_loop (drop_bit 7 n) (w @ [ucast n OR 0x80]) else w @ [ucast n])"
  by pat_completeness auto
termination
proof (relation "measure (\<lambda>(n, w). unat n)")
  fix n :: u32 and w :: writer
  assume "0x80 \<le> n"
  then have "128 \<le> unat n" by (simp add: word_le_nat_alt)
  then have "unat n div 2 ^ 7 < unat n" by simp
  then show "((drop_bit 7 n, w @ [ucast n OR 0x80]), n, w) \<in> measure (\<lambda>(n, w). unat n)"
    by (simp add: unat_div_distrib drop_bit_eq_div)
qed simp

declare write_7bit_loop.simps [simp del]

definition write_7bit_int :: "nat \<Rightarrow> writer \<Rightarrow> writer" where
  "write_7bit_int v w = write_7bit_loop (word_of_nat v) w"

definition write_utf :: "string \<Rightarrow> writer \<Rightarrow> writer" where
  "write_utf s w =
     (if s = [] then write_7bit_int 0 w
      else write_7bit_int (length s) w @ str_bytes s)"

definition write_bytes :: "bytes \<Rightarrow> writer \<Rightarrow> writer" where
  "write_bytes src w = w @ src"

section \<open>BonEncoder\<close>

text \<open>\<open>str_map\<close> is a hash map from strings to their index: an association list.\<close>
record encoder =
  dw :: writer
  str_map :: "(string \<times> nat) list"

definition encoder_new :: encoder where
  "encoder_new = \<lparr>dw = [], str_map = []\<rparr>"

definition encoder_reset :: "encoder \<Rightarrow> encoder" where
  "encoder_reset e = e\<lparr>dw := [], str_map := []\<rparr>"

definition put :: "(writer \<Rightarrow> writer) \<Rightarrow> encoder \<Rightarrow> encoder" where
  "put f e = e\<lparr>dw := f (dw e)\<rparr>"

definition encode_number :: "number \<Rightarrow> encoder \<Rightarrow> encoder" where
  "encode_number n e =
     (case num_as_i64 n of
        Some i \<Rightarrow>
          if scast (ucast i :: i32) = i
          then put (write_i32 (ucast i)) (put (write_u8 1) e)
          else put (write_i64 i) (put (write_u8 2) e)
      | None \<Rightarrow>
          (case num_as_f64 n of
             Some f \<Rightarrow> put (write_f64 f) (put (write_u8 4) e)
           | None \<Rightarrow> e))"

definition encode_str :: "string \<Rightarrow> encoder \<Rightarrow> encoder" where
  "encode_str s e =
     (case map_of (str_map e) s of
        Some idx \<Rightarrow> put (write_7bit_int idx) (put (write_u8 99) e)
      | None \<Rightarrow>
          (put (write_utf s) (put (write_u8 5) e))
             \<lparr>str_map := (s, length (str_map e)) # str_map e\<rparr>)"

fun encode_value :: "json \<Rightarrow> encoder \<Rightarrow> encoder"
and encode_items :: "json list \<Rightarrow> encoder \<Rightarrow> encoder"
and encode_pairs :: "object \<Rightarrow> encoder \<Rightarrow> encoder" where
  "encode_value Null e = put (write_u8 0) e"
| "encode_value (Bool b) e = put (write_u8 (if b then 1 else 0)) (put (write_u8 6) e)"
| "encode_value (Number n) e = encode_number n e"
| "encode_value (Str s) e = encode_str s e"
| "encode_value (Array arr) e =
     encode_items arr (put (write_7bit_int (length arr)) (put (write_u8 9) e))"
| "encode_value (Object obj) e =
     encode_pairs obj (put (write_7bit_int (length obj)) (put (write_u8 8) e))"
| "encode_items [] e = e"
| "encode_items (v # vs) e = encode_items vs (encode_value v e)"
| "encode_pairs [] e = e"
| "encode_pairs ((k, v) # kvs) e = encode_pairs kvs (encode_value v (encode_str k e))"

definition encode_binary :: "bytes \<Rightarrow> encoder \<Rightarrow> encoder" where
  "encode_binary bs e = put (write_bytes bs) (put (write_7bit_int (length bs)) (put (write_u8 7) e))"

definition encode :: "json \<Rightarrow> bytes" where
  "encode v = dw (encode_value v encoder_new)"

section \<open>BonDecoder\<close>

record limits =
  max_depth :: nat
  max_collection_items :: nat
  max_value_bytes :: nat
  max_total_nodes :: nat
  max_total_value_bytes :: nat

definition limits_proxy :: limits where
  "limits_proxy = \<lparr>max_depth = 64, max_collection_items = 100000, max_value_bytes = 16 * 1024 * 1024,
     max_total_nodes = 200000, max_total_value_bytes = 32 * 1024 * 1024\<rparr>"

definition limits_default :: limits where
  "limits_default = \<lparr>max_depth = 128, max_collection_items = 1000000,
     max_value_bytes = 64 * 1024 * 1024, max_total_nodes = 2000000,
     max_total_value_bytes = 256 * 1024 * 1024\<rparr>"

record decoder =
  dr :: reader
  str_arr :: "string list"
  dec_limits :: limits
  nodes_remaining :: nat
  value_bytes_remaining :: nat

definition decoder_with_limits :: "limits \<Rightarrow> decoder" where
  "decoder_with_limits lim = \<lparr>dr = reader_new [], str_arr = [], dec_limits = lim,
     nodes_remaining = max_total_nodes lim, value_bytes_remaining = max_total_value_bytes lim\<rparr>"

definition decoder_reset :: "bytes \<Rightarrow> decoder \<Rightarrow> decoder" where
  "decoder_reset bs d = d\<lparr>dr := reader_reset bs (dr d), str_arr := [],
     nodes_remaining := max_total_nodes (dec_limits d),
     value_bytes_remaining := max_total_value_bytes (dec_limits d)\<rparr>"

text \<open>A read of the decoder's reader.\<close>
definition rd :: "(reader, 'a) opt_state \<Rightarrow> (decoder, 'a) opt_state" where
  "rd m d = (case m (dr d) of (x, r) \<Rightarrow> (x, d\<lparr>dr := r\<rparr>))"

definition take_node :: "(decoder, unit) opt_state" where
  "take_node d =
     (case checked_sub (nodes_remaining d) 1 of
        None \<Rightarrow> (None, d) | Some n \<Rightarrow> (Some (), d\<lparr>nodes_remaining := n\<rparr>))"

definition take_value_bytes :: "nat \<Rightarrow> (decoder, unit) opt_state" where
  "take_value_bytes len d =
     (case checked_sub (value_bytes_remaining d) len of
        None \<Rightarrow> (None, d) | Some n \<Rightarrow> (Some (), d\<lparr>value_bytes_remaining := n\<rparr>))"

definition push_str :: "string \<Rightarrow> (decoder, unit) opt_state" where
  "push_str s d = (Some (), d\<lparr>str_arr := str_arr d @ [s]\<rparr>)"

definition get_str :: "nat \<Rightarrow> (decoder, string) opt_state" where
  "get_str idx d = (get_at (str_arr d) idx, d)"

definition float_value :: "f64 \<Rightarrow> json" where
  "float_value f = (case number_from_f64 f of Some n \<Rightarrow> Number n | None \<Rightarrow> Null)"

text \<open>
  \<open>decode_at\<close>, with the two loops over a collection's entries as functions of the number of
  entries left.  \<open>lim\<close> is \<open>self.limits\<close>, which no method changes.
\<close>

function decode_at :: "(json \<Rightarrow> string) \<Rightarrow> limits \<Rightarrow> nat \<Rightarrow> (decoder, json) opt_state"
and decode_pairs :: "(json \<Rightarrow> string) \<Rightarrow> limits \<Rightarrow> nat \<Rightarrow> nat \<Rightarrow> object \<Rightarrow> (decoder, object) opt_state"
and decode_items :: "(json \<Rightarrow> string) \<Rightarrow> limits \<Rightarrow> nat \<Rightarrow> nat \<Rightarrow> json list \<Rightarrow> (decoder, json list) opt_state"
where
  "decode_at show lim depth d =
     (if max_depth lim < depth then (None, d)
      else opt_bind take_node (\<lambda>_. opt_bind (rd read_u8) (\<lambda>tag.
        if tag = 0 then opt_return Null
        else if tag = 1 then opt_map (\<lambda>v. Number (number_from_i32 v)) (rd read_i32)
        else if tag = 2 then opt_map (\<lambda>v. Number (number_from_i64 v)) (rd read_i64)
        else if tag = 3 then opt_map (\<lambda>v. float_value (f32_to_f64 v)) (rd read_f32)
        else if tag = 4 then opt_map float_value (rd read_f64)
        else if tag = 5 then
          opt_bind (rd read_7bit_int) (\<lambda>n. let len = unat n in
          if max_value_bytes lim < len then opt_fail
          else opt_bind (take_value_bytes len) (\<lambda>_.
               opt_bind (rd (read_utf_bytes len)) (\<lambda>s.
               opt_bind (push_str s) (\<lambda>_. opt_return (Str s)))))
        else if tag = 6 then opt_map (\<lambda>v. Bool (v = 1)) (rd read_u8)
        else if tag = 7 then
          opt_bind (rd read_7bit_int) (\<lambda>n. let len = unat n in
          if max_value_bytes lim < len then opt_fail
          else opt_bind (take_value_bytes len) (\<lambda>_.
               opt_map (\<lambda>v. Str (base64_encode v)) (rd (read_bytes len))))
        else if tag = 8 then
          opt_bind (rd read_7bit_int) (\<lambda>n. let count = unat n in
          if max_collection_items lim < count then opt_fail
          else opt_map Object (decode_pairs show lim (Suc depth) count []))
        else if tag = 9 then
          opt_bind (rd read_7bit_int) (\<lambda>n. let len = unat n in
          if max_collection_items lim < len then opt_fail
          else opt_map Array (decode_items show lim (Suc depth) len []))
        else if tag = 99 then
          opt_bind (rd read_7bit_int) (\<lambda>n.
          opt_bind (get_str (unat n)) (\<lambda>value.
          opt_bind (take_value_bytes (length value)) (\<lambda>_. opt_return (Str value))))
        else if tag = 10 then opt_map (\<lambda>v. Number (number_from_i64 v)) (rd read_i64)
        else opt_fail)) d)"
| "decode_pairs show lim depth count obj d =
     (case count of
        0 \<Rightarrow> (Some obj, d)
      | Suc n \<Rightarrow>
          opt_bind (decode_at show lim depth) (\<lambda>kv.
          let k = (case kv of Str s \<Rightarrow> s | other \<Rightarrow> show other)
          in opt_bind (decode_at show lim depth) (\<lambda>v.
             decode_pairs show lim depth n (obj_insert k v obj))) d)"
| "decode_items show lim depth count arr d =
     (case count of
        0 \<Rightarrow> (Some arr, d)
      | Suc n \<Rightarrow>
          opt_bind (decode_at show lim depth) (\<lambda>v.
             decode_items show lim depth n (arr @ [v])) d)"
  by pat_completeness auto
termination
  by (relation "measures
      [\<lambda>x. case x of
          Inl (show, lim, depth, d) \<Rightarrow> 2 * (Suc (max_depth lim) - depth)
        | Inr (Inl (show, lim, depth, count, obj, d)) \<Rightarrow> Suc (2 * (Suc (max_depth lim) - depth))
        | Inr (Inr (show, lim, depth, count, arr, d)) \<Rightarrow> Suc (2 * (Suc (max_depth lim) - depth)),
       \<lambda>x. case x of
          Inl _ \<Rightarrow> 0
        | Inr (Inl (show, lim, depth, count, obj, d)) \<Rightarrow> count
        | Inr (Inr (show, lim, depth, count, arr, d)) \<Rightarrow> count]") auto

declare decode_at.simps [simp del] decode_pairs.simps [simp del] decode_items.simps [simp del]

definition decode_top :: "(json \<Rightarrow> string) \<Rightarrow> (decoder, json) opt_state" where
  "decode_top show d = decode_at show (dec_limits d) 0 d"

definition decode_with_limits :: "(json \<Rightarrow> string) \<Rightarrow> bytes \<Rightarrow> limits \<Rightarrow> json option" where
  "decode_with_limits show bs lim = fst (decode_top show (decoder_reset bs (decoder_with_limits lim)))"

definition decode :: "(json \<Rightarrow> string) \<Rightarrow> bytes \<Rightarrow> json option" where
  "decode show bs = decode_with_limits show bs limits_default"

section \<open>Game packets\<close>

definition encode_i64_value :: "i64 \<Rightarrow> encoder \<Rightarrow> encoder" where
  "encode_i64_value i = encode_value (Number (number_from_i64 i))"

definition encode_game_packet :: "string \<Rightarrow> u32 \<Rightarrow> u32 \<Rightarrow> i64 \<Rightarrow> json option \<Rightarrow> bytes" where
  "encode_game_packet cmd ack seq time body_params =
     (let e0 = encoder_new;
          field_count = (if body_params \<noteq> None then 5 else 4);
          e1 = put (write_7bit_int field_count) (put (write_u8 8) e0);
          e2 = encode_value (Str cmd) (encode_value (Str ''cmd'') e1);
          e3 = encode_i64_value (ucast ack) (encode_value (Str ''ack'') e2);
          e4 = encode_i64_value (ucast seq) (encode_value (Str ''seq'') e3);
          e5 = encode_i64_value time (encode_value (Str ''time'') e4);
          e6 = (case body_params of
                  None \<Rightarrow> e5
                | Some params \<Rightarrow>
                    let body_bytes = encode params
                    in encode_binary body_bytes (encode_value (Str ''body'') e5))
      in dw e6)"

end
