(* ===== verification/Bon_Wire.thy ===== *)
theory Bon_Wire
  imports Bon
begin

text \<open>
  The byte level of BON: what each write appends, and that the matching read returns it.
  \<open>rd_at r bs\<close> says that the reader stands in front of \<open>bs\<close>.  The 64-bit integers come back as
  \<open>i64_wire\<close> says: unchanged, except that a negative multiple of \<open>2 ^ 32\<close> loses \<open>2 ^ 32\<close> (the
  writer negates, divides and complements, which is off by one exactly there).
\<close>

section \<open>The reads in closed form\<close>

text \<open>Behind \<open>validate\<close> no access panics: each read returns these bytes, or nothing.\<close>

definition peek :: "reader \<Rightarrow> nat \<Rightarrow> u8" where
  "peek r i = rd_data r ! (rd_position r + i)"

definition slice :: "reader \<Rightarrow> nat \<Rightarrow> bytes" where
  "slice r n = take n (drop (rd_position r) (rd_data r))"

lemma byte_at_eq: "validate r n \<Longrightarrow> i < n \<Longrightarrow> byte_at i r = (Some (peek r i), r)"
  by (simp add: byte_at_def validate_def peek_def)

lemma slice_at_eq: "validate r n \<Longrightarrow> slice_at n r = (Some (slice r n), r)"
  by (simp add: slice_at_def validate_def slice_def)

lemmas access_simps = byte_at_eq slice_at_eq skip_bytes_def reader_simps

lemma read_u8_eq: "read_u8 r = (if \<not> validate r 1 then (None, r) else (Some (peek r 0), advance 1 r))"
  by (simp add: read_u8_def access_simps)

lemma read_i32_eq:
  "read_i32 r =
     (if \<not> validate r 4 then (None, r)
      else (Some (ucast (peek r 0) OR push_bit 8 (ucast (peek r 1)) OR push_bit 16 (ucast (peek r 2)) OR
                  push_bit 24 (ucast (peek r 3))), advance 4 r))"
  by (simp add: read_i32_def access_simps)

lemma read_f32_eq: "read_f32 r = (if \<not> validate r 4 then (None, r) else (Some (le_word (slice r 4)), advance 4 r))"
  by (simp add: read_f32_def access_simps)

lemma read_f64_eq: "read_f64 r = (if \<not> validate r 8 then (None, r) else (Some (le_word (slice r 8)), advance 8 r))"
  by (simp add: read_f64_def access_simps)

lemma read_bytes_eq: "read_bytes n r = (if \<not> validate r n then (None, r) else (Some (slice r n), advance n r))"
  by (simp add: read_bytes_def access_simps)

lemma read_utf_bytes_eq:
  "read_utf_bytes n r =
     (if n = 0 then (Some [], r)
      else if \<not> validate r n then (None, r) else (Some (from_utf8_lossy (slice r n)), advance n r))"
  by (simp add: read_utf_bytes_def access_simps)

section \<open>Standing in front of bytes\<close>

definition rd_at :: "reader \<Rightarrow> bytes \<Rightarrow> bool" where
  "rd_at r bs = (rd_position r \<le> length (rd_data r) \<and> drop (rd_position r) (rd_data r) = bs)"

lemma rd_at_validate: "rd_at r bs \<Longrightarrow> validate r n = (n \<le> length bs)"
  by (auto simp: rd_at_def validate_def)

lemma rd_at_advance: "rd_at r (xs @ bs) \<Longrightarrow> length xs = n \<Longrightarrow> rd_at (advance n r) bs"
  by (auto simp: rd_at_def advance_def add.commute simp flip: drop_drop)
     (metis append_eq_conv_conj drop_drop length_drop add_leD1 le_add1 length_append le_diff_conv2 add.commute)

lemma rd_at_peek: "rd_at r bs \<Longrightarrow> i < length bs \<Longrightarrow> peek r i = bs ! i"
  by (auto simp: rd_at_def peek_def)

lemma rd_at_slice: "rd_at r (xs @ bs) \<Longrightarrow> length xs = n \<Longrightarrow> slice r n = xs"
  by (auto simp: rd_at_def slice_def)

lemma rd_at_new: "rd_at (reader_new bs) bs"
  by (simp add: rd_at_def reader_new_def)

lemma rd_at_reset: "rd_at (reader_reset bs r) bs"
  by (simp add: rd_at_def reader_reset_def)

text \<open>\<open>reads m out x\<close>: in front of \<open>out\<close>, the read \<open>m\<close> returns \<open>x\<close> and stops right after it.\<close>
definition reads :: "(reader, 'a) opt_state \<Rightarrow> bytes \<Rightarrow> 'a \<Rightarrow> bool" where
  "reads m out x = (\<forall>r bs. rd_at r (out @ bs) \<longrightarrow> (\<exists>r'. m r = (Some x, r') \<and> rd_at r' bs))"

lemma readsI:
  "(\<And>r bs. rd_at r (out @ bs) \<Longrightarrow> \<exists>r'. m r = (Some x, r') \<and> rd_at r' bs) \<Longrightarrow> reads m out x"
  by (simp add: reads_def)

lemma readsD: "reads m out x \<Longrightarrow> rd_at r (out @ bs) \<Longrightarrow> \<exists>r'. m r = (Some x, r') \<and> rd_at r' bs"
  by (simp add: reads_def)

lemma reads_bind: "reads m o1 x \<Longrightarrow> reads (f x) o2 y \<Longrightarrow> reads (opt_bind m f) (o1 @ o2) y"
  by (fastforce simp: reads_def opt_bind_def)

lemma reads_map: "reads m out x \<Longrightarrow> reads (opt_map f m) out (f x)"
  by (fastforce simp: reads_def opt_map_def)

lemma reads_return: "reads (opt_return x) [] x"
  by (simp add: reads_def)

lemma reads_u8: "reads read_u8 [b] b"
proof (rule readsI)
  fix r bs assume "rd_at r ([b] @ bs)"
  then show "\<exists>r'. read_u8 r = (Some b, r') \<and> rd_at r' bs"
    using rd_at_validate [of r "[b] @ bs" 1] rd_at_peek [of r "[b] @ bs" 0] rd_at_advance [of r "[b]" bs 1]
    by (simp add: read_u8_eq)
qed

lemma reads_bytes: "reads (read_bytes (length out)) out out"
proof (rule readsI)
  fix r bs assume "rd_at r (out @ bs)"
  then show "\<exists>r'. read_bytes (length out) r = (Some out, r') \<and> rd_at r' bs"
    using rd_at_validate rd_at_slice rd_at_advance by (fastforce simp: read_bytes_eq)
qed

lemma reads_utf_bytes: "str_valid s \<Longrightarrow> reads (read_utf_bytes (length s)) (str_bytes s) s"
proof (rule readsI)
  fix r bs assume s: "str_valid s" and r: "rd_at r (str_bytes s @ bs)"
  show "\<exists>r'. read_utf_bytes (length s) r = (Some s, r') \<and> rd_at r' bs"
    using r rd_at_validate [OF r, of "length s"] rd_at_slice [OF r, of "length s"]
      rd_at_advance [OF r, of "length s"] from_utf8_lossy_valid [OF s]
    by (cases "s = []") (auto simp: read_utf_bytes_eq)
qed

section \<open>Fixed-width integers\<close>

lemma le_bytes_numeral [simp]:
  "le_bytes (numeral n) v = ucast v # le_bytes (pred_numeral n) (drop_bit 8 v)"
  by (simp add: numeral_eq_Suc)

text \<open>The four bytes \<open>write_i32\<close> appends are the little-endian bytes of the word.\<close>

lemma write_i32_bytes: "write_i32 v w = w @ le_bytes 4 v"
proof -
  have "ucast (signed_drop_bit 8 v) = (ucast (drop_bit 8 v) :: u8)"
    "ucast (signed_drop_bit 16 v) = (ucast (drop_bit 16 v) :: u8)"
    "ucast (signed_drop_bit 24 v) = (ucast (drop_bit 24 v) :: u8)" for v :: i32
    by (rule bit_word_eqI; simp add: bit_simps min_def)+
  then show ?thesis by (simp add: write_i32_def)
qed

lemma le_bytes_length [simp]: "length (le_bytes n v) = n"
  by (induction n arbitrary: v) auto

lemma le_word_le_bytes: "le_word (le_bytes n v) = (take_bit (8 * n) v :: 'a::len word)"
proof (induction n arbitrary: v)
  case (Suc n)
  show ?case
    by (rule bit_word_eqI) (auto simp: Suc bit_simps bit_ucast_iff not_less)
qed simp

lemma nth_le_bytes: "i < n \<Longrightarrow> le_bytes n v ! i = ucast (drop_bit (8 * i) v)"
  by (induction n arbitrary: v i) (auto simp: less_Suc_eq_0_disj add.commute)

lemma u32_join:
  fixes v :: u32
  shows "ucast (ucast v :: u8) OR push_bit 8 (ucast (ucast (drop_bit 8 v) :: u8)) OR
      push_bit 16 (ucast (ucast (drop_bit 16 v) :: u8)) OR
      push_bit 24 (ucast (ucast (drop_bit 24 v) :: u8)) = v" (is "?l = v")
proof (rule bit_word_eqI)
  fix n :: nat assume "n < LENGTH(32)"
  then consider "n < 8" | "8 \<le> n" "n < 16" | "16 \<le> n" "n < 24" | "24 \<le> n" "n < 32" by force
  then show "bit ?l n = bit v n"
    by cases (auto simp: bit_simps)
qed

lemma reads_i32: "reads read_i32 (le_bytes 4 v) v"
proof (rule readsI)
  fix r bs assume r: "rd_at r (le_bytes 4 v @ bs)"
  have p: "peek r i = ucast (drop_bit (8 * i) v)" if "i < 4" for i
    using rd_at_peek [OF r, of i] that nth_le_bytes [OF that, of v] by (simp add: nth_append del: le_bytes_numeral)
  note u32_join [of v]
  moreover have "rd_at (advance 4 r) bs" using rd_at_advance [OF r] by (simp del: le_bytes_numeral)
  ultimately show "\<exists>r'. read_i32 r = (Some v, r') \<and> rd_at r' bs"
    using rd_at_validate [OF r, of 4] p [of 0] p [of 1] p [of 2] p [of 3]
    by (simp add: read_i32_eq Let_def del: le_bytes_numeral)
qed

lemma reads_f64: "reads read_f64 (le_bytes 8 v) v"
proof (rule readsI)
  fix r bs assume r: "rd_at r (le_bytes 8 v @ bs)"
  have "take_bit 64 v = v" by (rule bit_word_eqI) (simp add: bit_simps)
  then show "\<exists>r'. read_f64 r = (Some v, r') \<and> rd_at r' bs"
    using rd_at_validate [OF r, of 8] rd_at_slice [OF r, of 8] rd_at_advance [OF r, of 8]
      le_word_le_bytes [of 8 v]
    by (simp add: read_f64_eq del: le_bytes_numeral)
qed

section \<open>64-bit integers\<close>

text \<open>What \<open>read_i64\<close> returns for the bytes \<open>write_i64\<close> writes.\<close>
definition i64_wire :: "i64 \<Rightarrow> i64" where
  "i64_wire i = (if sint i < 0 \<and> take_bit 32 i = 0 then i - 4294967296 else i)"

definition i64_hi :: "i64 \<Rightarrow> i32" where
  "i64_hi i = (if sint i < 0 then NOT (ucast (i64_div (- i) 4294967296)) else ucast (i64_div i 4294967296))"

lemma write_i64_bytes: "write_i64 i w = w @ le_bytes 4 (ucast i :: i32) @ le_bytes 4 (i64_hi i)"
  by (simp add: write_i64_def i64_hi_def write_i32_bytes Let_def del: le_bytes_numeral)

lemma sint_uint_cases:
  fixes w :: "'a::len word"
  shows "sint w = uint w \<or> sint w = uint w - 2 ^ LENGTH('a)" "uint w = sint w mod 2 ^ LENGTH('a)"
proof -
  show "uint w = sint w mod 2 ^ LENGTH('a)" by (simp add: uint_sint take_bit_eq_mod)
  have "take_bit LENGTH('a) (uint w) = uint w"
    using uint_bounded [of w] by (simp add: take_bit_int_eq_self)
  then show "sint w = uint w \<or> sint w = uint w - 2 ^ LENGTH('a)"
    by (simp add: sint_uint signed_take_bit_eq_take_bit_minus)
qed

text \<open>Joining the halves only depends on the upper half modulo \<open>2 ^ 32\<close>.\<close>
lemma join_halves:
  "(let lo = (scast l :: i64) in if sint lo < 0 then lo + 4294967296 else lo) + 4294967296 * scast h
     = word_of_int (uint (l :: i32) + 4294967296 * sint (h :: i32))"
proof -
  have l: "sint (scast l :: i64) = sint l"
    using sint_lt [of l] sint_ge [of l] by (simp add: signed_scast_eq signed_take_bit_int_eq_self)
  have s: "(scast l :: i64) = word_of_int (sint l)" "(scast h :: i64) = word_of_int (sint h)"
    by (rule scast_eq)+
  have "0 \<le> uint l" "uint l < 4294967296" using uint_bounded [of l] by simp_all
  moreover have "sint l = uint l \<or> sint l = uint l - 4294967296" using sint_uint_cases(1) [of l] by simp
  ultimately have u: "uint l = (if sint l < 0 then sint l + 4294967296 else sint l)"
    by (elim disjE) simp_all
  show ?thesis
    by (cases "sint l < 0") (simp_all add: Let_def l u)
qed

lemma word_of_int_mod: "word_of_int (x mod 2 ^ LENGTH('a)) = (word_of_int x :: 'a::len word)"
  by (simp add: word_of_int_eq_iff flip: take_bit_eq_mod)

lemma sdiv_nonneg: "0 \<le> x \<Longrightarrow> x sdiv 4294967296 = x div (4294967296::int)"
  by (cases "x = 0") (simp_all add: signed_divide_int_def)

lemma ucast_word_of_int: "ucast (word_of_int q :: i64) = (word_of_int q :: i32)"
  by (rule bit_word_eqI) (simp add: bit_simps)

lemma i64_halves: "word_of_int (uint (ucast i :: i32) + 4294967296 * sint (i64_hi i)) = i64_wire i"
proof -
  define x where "x = sint i"
  have xr: "- (2 ^ 63) \<le> x" "x < 2 ^ 63" using sint_ge [of i] sint_lt [of i] by (simp_all add: x_def)
  have lo: "uint (ucast i :: i32) = x mod 4294967296"
    using sint_uint_cases(2) [of i] by (simp add: unsigned_ucast_eq take_bit_eq_mod x_def mod_mod_cancel)
  have "take_bit 32 i = 0 \<longleftrightarrow> uint (take_bit 32 i) = 0"
    by (simp only: uint_0_iff)
  also have "uint (take_bit 32 i) = x mod 4294967296"
  proof -
    have "uint (take_bit 32 i) = take_bit 32 (uint i)" by (rule unsigned_take_bit_eq)
    also have "\<dots> = uint i mod 4294967296" by (simp add: take_bit_eq_mod)
    also have "\<dots> = x mod 4294967296"
      using sint_uint_cases(2) [of i] by (simp add: x_def mod_mod_cancel)
    finally show ?thesis .
  qed
  finally have z: "take_bit 32 i = 0 \<longleftrightarrow> x mod 4294967296 = 0" .
  have i: "i = word_of_int x" by (simp add: x_def)
  \<comment> \<open>only the upper half modulo \<open>2 ^ 32\<close> matters\<close>
  have cong: "word_of_int (a + 4294967296 * sint (word_of_int q :: i32)) = (word_of_int (a + 4294967296 * q) :: i64)"
    for a q :: int
  proof -
    have "sint (word_of_int q :: i32) mod 4294967296 = q mod 4294967296"
      using sint_uint_cases(2) [of "word_of_int q :: i32"] by (simp add: uint_word_of_int)
    then obtain k where "sint (word_of_int q :: i32) = q + 4294967296 * k"
      by (metis mod_eqE mult.commute)
    then have "a + 4294967296 * sint (word_of_int q :: i32) = (a + 4294967296 * q) + 2 ^ 64 * k"
      by simp
    then have "(a + 4294967296 * sint (word_of_int q :: i32)) mod 2 ^ 64 = (a + 4294967296 * q) mod 2 ^ 64"
      by (simp only: mod_mult_self2)
    then show ?thesis
      using word_of_int_mod [where 'a = 64, of "a + 4294967296 * sint (word_of_int q :: i32)"]
        word_of_int_mod [where 'a = 64, of "a + 4294967296 * q"] by simp
  qed
  show ?thesis
  proof (cases "x < 0")
    case False
    then have "x sdiv 4294967296 = x div 4294967296" by (simp add: sdiv_nonneg)
    then have "i64_hi i = word_of_int (x div 4294967296)"
      using False xr by (simp add: i64_hi_def i64_div_def x_def ucast_word_of_int)
    then have "word_of_int (uint (ucast i :: i32) + 4294967296 * sint (i64_hi i)) =
        (word_of_int (x mod 4294967296 + 4294967296 * (x div 4294967296)) :: i64)"
      by (simp only: cong lo)
    then show ?thesis using False by (simp add: i64_wire_def x_def)
  next
    case True
    have q: "i64_hi i = word_of_int (- ((- x) div 4294967296) - 1)"
    proof (cases "x = - (2 ^ 63)")
      case True
      then have "i = 0x8000000000000000" by (simp add: i)
      then show ?thesis using True by (simp add: i64_hi_def i64_div_def)
    next
      case False
      have "sint (word_of_int (- x) :: i64) = - x"
        using False xr by (simp add: signed_of_int signed_take_bit_int_eq_self del: of_int_minus)
      then have m: "sint (- i) = - x" by (simp add: i)
      have "(- x) sdiv 4294967296 = (- x) div 4294967296"
        using \<open>x < 0\<close> by (intro sdiv_nonneg) simp
      then have "i64_hi i = NOT (word_of_int ((- x) div 4294967296))"
        using \<open>x < 0\<close> by (simp add: i64_hi_def i64_div_def m ucast_word_of_int flip: x_def)
      then show ?thesis by (simp add: not_eq_complement)
    qed
    have "word_of_int (uint (ucast i :: i32) + 4294967296 * sint (i64_hi i)) =
        (word_of_int (x mod 4294967296 + 4294967296 * (- ((- x) div 4294967296) - 1)) :: i64)"
      by (simp only: cong lo q)
    moreover have "x mod 4294967296 + 4294967296 * (- ((- x) div 4294967296) - 1) =
        (if x mod 4294967296 = 0 then x - 4294967296 else x)"
      using div_mult_mod_eq [of x 4294967296]
      by (cases "x mod 4294967296 = 0") (simp_all add: zdiv_zminus1_eq_if algebra_simps)
    ultimately have "word_of_int (uint (ucast i :: i32) + 4294967296 * sint (i64_hi i)) =
        (word_of_int (if x mod 4294967296 = 0 then x - 4294967296 else x) :: i64)"
      by (simp only:)
    also have "\<dots> = (if x mod 4294967296 = 0 then i - 4294967296 else i)" by (simp add: i)
    also have "\<dots> = i64_wire i" using True by (simp only: i64_wire_def z x_def) simp
    finally show ?thesis .
  qed
qed

lemma reads_i64: "reads read_i64 (le_bytes 4 (ucast i :: i32) @ le_bytes 4 (i64_hi i)) (i64_wire i)"
proof -
  let ?l = "ucast i :: i32"
  have "reads (opt_map scast read_i32) (le_bytes 4 ?l) (scast ?l :: i64)"
    by (rule reads_map [OF reads_i32])
  moreover have "reads (opt_bind read_i32 (\<lambda>hi.
       let lo = (if sint (scast ?l :: i64) < 0 then scast ?l + 4294967296 else scast ?l)
       in opt_return (lo + 4294967296 * scast hi))) (le_bytes 4 (i64_hi i) @ []) (i64_wire i)"
    by (rule reads_bind [OF reads_i32])
       (use reads_return join_halves [of ?l "i64_hi i"] i64_halves [of i] in \<open>simp add: Let_def\<close>)
  ultimately have "reads read_i64 (le_bytes 4 ?l @ le_bytes 4 (i64_hi i) @ []) (i64_wire i)"
    unfolding read_i64_def by (rule reads_bind)
  then show ?thesis by simp
qed

section \<open>7-bit integers\<close>

lemma write_7bit_loop_prefix: "write_7bit_loop n (u @ w) = u @ write_7bit_loop n w"
proof (induction n w rule: write_7bit_loop.induct)
  case (1 n w)
  then show ?case
    using write_7bit_loop.simps [of n "u @ w"] write_7bit_loop.simps [of n w] by simp
qed

lemma write_7bit_loop_append: "write_7bit_loop n w = w @ write_7bit_loop n []"
  using write_7bit_loop_prefix [of n w "[]"] by simp

lemma write_7bit_loop_Cons:
  "0x80 \<le> n \<Longrightarrow> write_7bit_loop n [] = (ucast n OR 0x80) # write_7bit_loop (drop_bit 7 n) []"
  using write_7bit_loop.simps [of n "[]"] write_7bit_loop_append [of "drop_bit 7 n" "[ucast n OR 0x80]"]
  by simp

lemma write_7bit_loop_last: "\<not> 0x80 \<le> n \<Longrightarrow> write_7bit_loop n [] = [ucast n]"
  using write_7bit_loop.simps [of n "[]"] by simp

lemma bit_small_word:
  fixes n :: u32
  assumes "n < 2 ^ k" "k \<le> j"
  shows "\<not> bit n j"
proof
  assume j: "bit n j"
  then have "k < 32" using assms(2) bit_imp_le_length [OF j] by simp
  then have "take_bit k n = n" using assms(1) by (simp add: less_mask_eq take_bit_eq_mask take_bit_word_eq_self)
  then show False using j assms(2) by (metis bit_take_bit_iff not_less)
qed

lemma bit_0x80: "bit (0x80 :: int) k \<longleftrightarrow> k = 7"
proof -
  have "(0x80 :: int) = push_bit 7 1" by simp
  then show ?thesis by (simp only: bit_push_bit_iff bit_1_iff) auto
qed

lemma bit_0x7f: "bit (0x7f :: int) k \<longleftrightarrow> k < 7"
proof -
  have "(0x7f :: int) = mask 7" by (simp add: mask_eq_exp_minus_1)
  then show ?thesis by (simp only: bit_mask_iff) auto
qed

lemma low7: "(ucast n OR 0x80 :: u8) AND 0x7f = take_bit 7 (ucast (n :: u32))"
  by (rule bit_word_eqI) (auto simp: bit_simps bit_0x80 bit_0x7f)

lemma low7_and_rest:
  fixes n v :: u32
  shows "(v OR push_bit (7 * i) (ucast ((ucast n OR 0x80 :: u8) AND 0x7f))) OR push_bit (7 * Suc i) (drop_bit 7 n)
    = v OR push_bit (7 * i) n"
proof (rule bit_word_eqI)
  fix j :: nat assume "j < LENGTH(32)"
  consider "j < 7 * i" | m where "j = 7 * i + m" "m < 7" | m where "j = 7 * Suc i + m"
  proof (cases "j < 7 * i")
    case False
    then obtain m where m: "j = 7 * i + m" by (metis le_Suc_ex not_less)
    show ?thesis
    proof (cases "m < 7")
      case False
      then obtain k where "m = 7 + k" by (metis le_Suc_ex not_less)
      then show ?thesis using m that(3) [of k] by simp
    qed (use m that(2) in blast)
  qed (use that(1) in blast)
  then show "bit ((v OR push_bit (7 * i) (ucast ((ucast n OR 0x80 :: u8) AND 0x7f))) OR
      push_bit (7 * Suc i) (drop_bit 7 n)) j = bit (v OR push_bit (7 * i) n) j"
    unfolding low7 using \<open>j < LENGTH(32)\<close> by cases (auto simp: bit_simps add.commute)
qed

lemma high_bit: "(ucast n OR 0x80 :: u8) AND 0x80 \<noteq> 0" for n :: u32
proof
  assume "(ucast n OR 0x80 :: u8) AND 0x80 = 0"
  then have "bit ((ucast n OR 0x80 :: u8) AND 0x80) 7 = bit (0 :: u8) 7" by (rule arg_cong)
  then show False by (simp add: bit_simps)
qed

lemma last_byte:
  fixes n :: u32
  assumes "n < 0x80"
  shows "ucast (ucast n AND 0x7f :: u8) = n" "(ucast n :: u8) AND 0x80 = 0"
proof -
  have b: "j < 7" if "bit n j" for j
    using bit_small_word [of n 7 j] assms that by (cases "7 \<le> j") simp_all
  have b8: "j < 8" if "bit n j" for j using b [OF that] by simp
  show "ucast (ucast n AND 0x7f :: u8) = n"
    by (rule bit_word_eqI) (auto simp: bit_simps bit_0x7f dest: b b8)
  show "(ucast n :: u8) AND 0x80 = 0"
    by (rule bit_word_eqI) (auto simp: bit_simps bit_0x80 dest: b)
qed

lemma small_nibble:
  fixes n :: u32
  assumes "n < 0x10"
  shows "(ucast n :: u8) AND 0xf0 = 0"
proof -
  have b: "\<not> bit n j" if "4 \<le> j" for j using bit_small_word [of n 4 j] assms that by simp
  have m: "(0xf0 :: u8) = push_bit 4 (mask 4)" by (simp add: mask_eq_exp_minus_1)
  show ?thesis unfolding m by (rule bit_word_eqI) (use b in \<open>auto simp: bit_simps\<close>)
qed

text \<open>The word left at index \<open>i\<close> fits the bits the reader still takes.\<close>
definition fits_7bit :: "nat \<Rightarrow> u32 \<Rightarrow> bool" where
  "fits_7bit i n = (i < 5 \<and> unat n < 2 ^ (32 - 7 * i))"

lemma fits_7bit_step: "fits_7bit i n \<Longrightarrow> 0x80 \<le> n \<Longrightarrow> fits_7bit (Suc i) (drop_bit 7 n) \<and> i \<noteq> 4"
proof -
  assume f: "fits_7bit i n" and n: "0x80 \<le> n"
  have u: "128 \<le> unat n" using n by (simp add: word_le_nat_alt)
  have "i < 5" using f by (simp add: fits_7bit_def)
  then consider "i = 0" | "i = 1" | "i = 2" | "i = 3" | "i = 4" by force
  then show ?thesis
    using f u by cases (auto simp: fits_7bit_def unat_drop_bit_eq drop_bit_nat_def)
qed

lemma reads_7bit_loop:
  "fits_7bit i n \<Longrightarrow> reads (read_7bit_loop [i..<5] v) (write_7bit_loop n []) (v OR push_bit (7 * i) n)"
proof (induction "unat n" arbitrary: n i v rule: less_induct)
  case less
  have i: "[i..<5] = i # [Suc i..<5]"
    using less.prems by (simp add: fits_7bit_def upt_conv_Cons)
  show ?case
  proof (cases "0x80 \<le> n")
    case True
    let ?b = "ucast n OR 0x80 :: u8" and ?m = "drop_bit 7 n"
    let ?v = "v OR push_bit (7 * i) (ucast (?b AND 0x7f))"
    have "unat ?m < unat n"
      using True by (simp add: unat_drop_bit_eq drop_bit_nat_def word_le_nat_alt)
    then have "reads (read_7bit_loop [Suc i..<5] ?v) (write_7bit_loop ?m []) (?v OR push_bit (7 * Suc i) ?m)"
      using fits_7bit_step [OF less.prems True] by (intro less.hyps) auto
    then have rest: "reads (read_7bit_loop [Suc i..<5] ?v) (write_7bit_loop ?m []) (v OR push_bit (7 * i) n)"
      by (simp only: low7_and_rest)
    have "reads (read_7bit_loop (i # [Suc i..<5]) v) ([?b] @ write_7bit_loop ?m []) (v OR push_bit (7 * i) n)"
      unfolding read_7bit_loop.simps
      by (rule reads_bind [OF reads_u8])
         (use rest high_bit [of n] fits_7bit_step [OF less.prems True] in \<open>simp add: Let_def mult.commute\<close>)
    then show ?thesis using write_7bit_loop_Cons [OF True] i by simp
  next
    case False
    have lb: "ucast (ucast n AND 0x7f :: u8) = n" "(ucast n :: u8) AND 0x80 = 0"
      using False by (auto intro: last_byte)
    have four: "(ucast n :: u8) AND 0xf0 = 0" if "i = 4"
      using less.prems that by (intro small_nibble) (simp add: fits_7bit_def word_less_nat_alt)
    have "reads (read_7bit_loop (i # [Suc i..<5]) v) ([ucast n] @ []) (v OR push_bit (7 * i) n)"
      unfolding read_7bit_loop.simps
      by (rule reads_bind [OF reads_u8])
         (use four lb in \<open>auto simp: Let_def mult.commute intro: reads_return\<close>)
    then show ?thesis using write_7bit_loop_last [OF False] i by simp
  qed
qed

lemma reads_7bit_word: "reads read_7bit_int (write_7bit_loop n []) n"
  using reads_7bit_loop [of 0 n 0] unat_bound [of n] by (simp add: read_7bit_int_def fits_7bit_def)

definition out_7bit :: "nat \<Rightarrow> bytes" where
  "out_7bit n = write_7bit_loop (word_of_nat n) []"

lemma write_7bit_int_out: "write_7bit_int n w = w @ out_7bit n"
  unfolding write_7bit_int_def out_7bit_def by (rule write_7bit_loop_append)

lemma reads_7bit: "reads read_7bit_int (out_7bit n) (word_of_nat n)"
  unfolding out_7bit_def by (rule reads_7bit_word)

end
