(* ===== verification/Bon_Roundtrip.thy ===== *)
theory Bon_Roundtrip
  imports Bon_Wire
begin

text \<open>
  The decoder inverts the encoder.  \<open>wire v\<close> is what arrives for \<open>v\<close>: every value unchanged,
  except the numbers \<open>i64_wire\<close> and the float conversion of large unsigned numbers change.
  \<open>fits lim depth v\<close> collects what the decoder's limits ask of a value met at that depth.
  The simulation relates the encoder's string table to the decoder's; \<open>decodes\<close> is a forward
  triple over it that composes along the \<open>?\<close> operator.
\<close>

section \<open>What arrives, and what the limits admit\<close>

fun wire_number :: "number \<Rightarrow> json" where
  "wire_number n =
     (case num_as_i64 n of
        Some i \<Rightarrow> if scast (ucast i :: i32) = i then Number (number_from_i64 i)
                  else Number (number_from_i64 (i64_wire i))
      | None \<Rightarrow> (case num_as_f64 n of Some f \<Rightarrow> float_value f | None \<Rightarrow> Null))"

fun wire :: "json \<Rightarrow> json" where
  "wire (Number n) = wire_number n"
| "wire (Array xs) = Array (map wire xs)"
| "wire (Object kvs) = Object (map (\<lambda>kv. (fst kv, wire (snd kv))) kvs)"
| "wire v = v"

declare wire_number.simps [simp del]

definition str_fits :: "limits \<Rightarrow> nat \<Rightarrow> string \<Rightarrow> bool" where
  "str_fits lim depth s = (depth \<le> max_depth lim \<and> str_valid s \<and> length s \<le> max_value_bytes lim)"

fun fits :: "limits \<Rightarrow> nat \<Rightarrow> json \<Rightarrow> bool" where
  "fits lim depth (Number n) = (depth \<le> max_depth lim \<and> wf_number n)"
| "fits lim depth (Str s) = str_fits lim depth s"
| "fits lim depth (Array xs) =
     (depth \<le> max_depth lim \<and> length xs \<le> max_collection_items lim \<and>
      (\<forall>x \<in> set xs. fits lim (Suc depth) x))"
| "fits lim depth (Object kvs) =
     (depth \<le> max_depth lim \<and> length kvs \<le> max_collection_items lim \<and> obj_sorted kvs \<and>
      (\<forall>kv \<in> set kvs. str_fits lim (Suc depth) (fst kv) \<and> fits lim (Suc depth) (snd kv)))"
| "fits lim depth v = (depth \<le> max_depth lim)"

text \<open>The lengths the wire carries are 32 bits wide.\<close>
definition limits_ok :: "limits \<Rightarrow> bool" where
  "limits_ok lim = (max_value_bytes lim < 2 ^ 32 \<and> max_collection_items lim < 2 ^ 32 \<and>
     max_total_nodes lim < 2 ^ 32)"

lemma limits_ok_used: "limits_ok limits_default" "limits_ok limits_proxy"
  by (simp_all add: limits_ok_def limits_default_def limits_proxy_def)

text \<open>What \<open>decode_with_limits\<close> asks of a whole value.\<close>
definition admissible :: "limits \<Rightarrow> json \<Rightarrow> bool" where
  "admissible lim v = (limits_ok lim \<and> fits lim 0 v \<and> json_nodes v \<le> max_total_nodes lim \<and>
     str_bytes_total v \<le> max_total_value_bytes lim)"

section \<open>The decoder by tag\<close>

definition decode_tag :: "(json \<Rightarrow> string) \<Rightarrow> limits \<Rightarrow> nat \<Rightarrow> u8 \<Rightarrow> (decoder, json) opt_state" where
  "decode_tag show lim depth tag =
     (if tag = 0 then opt_return Null
      else if tag = 1 then opt_map (\<lambda>v. Number (number_from_i32 v)) (rd read_i32)
      else if tag = 2 then opt_map (\<lambda>v. Number (number_from_i64 v)) (rd read_i64)
      else if tag = 3 then opt_map (\<lambda>v. float_value (f32_to_f64 v)) (rd read_f32)
      else if tag = 4 then opt_map float_value (rd read_f64)
      else if tag = 5 then
        opt_bind (rd read_7bit_int) (\<lambda>n. let len = unat n in
        if max_value_bytes lim < len then opt_fail
        else opt_bind (take_value_bytes len) (\<lambda>_.
             opt_bind (rd (read_utf_bytes len)) (\<lambda>s.
             opt_bind (push_str s) (\<lambda>_. opt_return (Str s)))))
      else if tag = 6 then opt_map (\<lambda>v. Bool (v = 1)) (rd read_u8)
      else if tag = 7 then
        opt_bind (rd read_7bit_int) (\<lambda>n. let len = unat n in
        if max_value_bytes lim < len then opt_fail
        else opt_bind (take_value_bytes len) (\<lambda>_.
             opt_map (\<lambda>v. Str (base64_encode v)) (rd (read_bytes len))))
      else if tag = 8 then
        opt_bind (rd read_7bit_int) (\<lambda>n. let count = unat n in
        if max_collection_items lim < count then opt_fail
        else opt_map Object (decode_pairs show lim (Suc depth) count []))
      else if tag = 9 then
        opt_bind (rd read_7bit_int) (\<lambda>n. let len = unat n in
        if max_collection_items lim < len then opt_fail
        else opt_map Array (decode_items show lim (Suc depth) len []))
      else if tag = 99 then
        opt_bind (rd read_7bit_int) (\<lambda>n.
        opt_bind (get_str (unat n)) (\<lambda>value.
        opt_bind (take_value_bytes (length value)) (\<lambda>_. opt_return (Str value))))
      else if tag = 10 then opt_map (\<lambda>v. Number (number_from_i64 v)) (rd read_i64)
      else opt_fail)"

lemma decode_at_tag:
  "depth \<le> max_depth lim \<Longrightarrow>
     decode_at show lim depth = opt_bind take_node (\<lambda>_. opt_bind (rd read_u8) (decode_tag show lim depth))"
  by (rule ext) (simp add: decode_at.simps decode_tag_def [abs_def])

lemma decode_at_too_deep: "max_depth lim < depth \<Longrightarrow> decode_at show lim depth = opt_fail"
  by (rule ext) (simp add: decode_at.simps)

lemma decode_items_0: "decode_items show lim depth 0 arr = opt_return arr"
  by (rule ext) (simp add: decode_items.simps)

lemma decode_items_Suc:
  "decode_items show lim depth (Suc n) arr =
     opt_bind (decode_at show lim depth) (\<lambda>v. decode_items show lim depth n (arr @ [v]))"
  by (rule ext) (simp add: decode_items.simps [of _ _ _ "Suc n"])

lemma decode_pairs_0: "decode_pairs show lim depth 0 obj = opt_return obj"
  by (rule ext) (simp add: decode_pairs.simps)

lemma decode_pairs_Suc:
  "decode_pairs show lim depth (Suc n) obj =
     opt_bind (decode_at show lim depth) (\<lambda>kv.
       let k = (case kv of Str s \<Rightarrow> s | other \<Rightarrow> show other)
       in opt_bind (decode_at show lim depth) (\<lambda>v. decode_pairs show lim depth n (obj_insert k v obj)))"
  by (rule ext) (simp add: decode_pairs.simps [of _ _ _ "Suc n"])

lemmas decode_loops = decode_items_0 decode_items_Suc decode_pairs_0 decode_pairs_Suc

section \<open>Forward triples over the string tables\<close>

text \<open>The encoder's map and the decoder's vector hold the same strings under the same indices.\<close>
definition tables :: "(string \<times> nat) list \<Rightarrow> string list \<Rightarrow> bool" where
  "tables t arr = (length t = length arr \<and>
     (\<forall>s i. map_of t s = Some i \<longrightarrow> i < length arr \<and> arr ! i = s))"

lemma tables_Nil: "tables [] []"
  by (simp add: tables_def)

lemma tables_push: "tables t arr \<Longrightarrow> tables ((s, length t) # t) (arr @ [s])"
  by (auto simp: tables_def nth_append less_SucI)

text \<open>In front of \<open>out\<close>, with \<open>n\<close> nodes and \<open>b\<close> value bytes to spend, \<open>m\<close> returns \<open>x\<close>, stops
  right after \<open>out\<close>, spends exactly that and takes the tables from \<open>t\<close> to \<open>t'\<close>.\<close>
definition decodes ::
  "(decoder, 'a) opt_state \<Rightarrow> (string \<times> nat) list \<Rightarrow> bytes \<Rightarrow> (string \<times> nat) list \<Rightarrow> 'a \<Rightarrow> nat \<Rightarrow> nat \<Rightarrow> bool"
where
  "decodes m t out t' x n b =
     (\<forall>d bs. tables t (str_arr d) \<longrightarrow> n \<le> nodes_remaining d \<longrightarrow> b \<le> value_bytes_remaining d \<longrightarrow>
        rd_at (dr d) (out @ bs) \<longrightarrow>
        (\<exists>d'. m d = (Some x, d') \<and> tables t' (str_arr d') \<and> rd_at (dr d') bs \<and>
           nodes_remaining d' = nodes_remaining d - n \<and>
           value_bytes_remaining d' = value_bytes_remaining d - b))"

lemma decodesD:
  assumes "decodes m t out t' x n b" "tables t (str_arr d)" "n \<le> nodes_remaining d"
    "b \<le> value_bytes_remaining d" "rd_at (dr d) (out @ bs)"
  obtains d' where "m d = (Some x, d')" "tables t' (str_arr d')" "rd_at (dr d') bs"
    "nodes_remaining d' = nodes_remaining d - n" "value_bytes_remaining d' = value_bytes_remaining d - b"
proof -
  from assms(1) [unfolded decodes_def, rule_format, OF assms(2-5)]
  show thesis using that by blast
qed

lemma decodes_bind:
  assumes m: "decodes m t o1 t1 x n1 b1" and f: "decodes (f x) t1 o2 t2 y n2 b2"
  shows "decodes (opt_bind m f) t (o1 @ o2) t2 y (n1 + n2) (b1 + b2)"
  unfolding decodes_def
proof (intro allI impI)
  fix d :: decoder and bs
  assume d: "tables t (str_arr d)" "n1 + n2 \<le> nodes_remaining d" "b1 + b2 \<le> value_bytes_remaining d"
    "rd_at (dr d) ((o1 @ o2) @ bs)"
  have "rd_at (dr d) (o1 @ o2 @ bs)" "n1 \<le> nodes_remaining d" "b1 \<le> value_bytes_remaining d"
    using d by simp_all
  from decodesD [OF m d(1) this(2,3,1)]
  obtain d1 where d1: "m d = (Some x, d1)" "tables t1 (str_arr d1)" "rd_at (dr d1) (o2 @ bs)"
    "nodes_remaining d1 = nodes_remaining d - n1" "value_bytes_remaining d1 = value_bytes_remaining d - b1"
    by blast
  have "n2 \<le> nodes_remaining d1" "b2 \<le> value_bytes_remaining d1" using d d1 by simp_all
  from decodesD [OF f d1(2) this d1(3)]
  obtain d2 where "f x d1 = (Some y, d2)" "tables t2 (str_arr d2)" "rd_at (dr d2) bs"
    "nodes_remaining d2 = nodes_remaining d1 - n2" "value_bytes_remaining d2 = value_bytes_remaining d1 - b2"
    by blast
  then show "\<exists>d'. opt_bind m f d = (Some y, d') \<and> tables t2 (str_arr d') \<and> rd_at (dr d') bs \<and>
      nodes_remaining d' = nodes_remaining d - (n1 + n2) \<and>
      value_bytes_remaining d' = value_bytes_remaining d - (b1 + b2)"
    using d1 by (simp add: opt_bind_Some)
qed

lemma decodes_map: "decodes m t out t' x n b \<Longrightarrow> decodes (opt_map f m) t out t' (f x) n b"
  unfolding decodes_def opt_map_def by fastforce

lemma decodes_return: "decodes (opt_return x) t [] t x 0 0"
  by (simp add: decodes_def)

lemma decodes_rd: "reads m out x \<Longrightarrow> decodes (rd m) t out t x 0 0"
  unfolding decodes_def by (fastforce simp: rd_def dest: readsD)

lemma decodes_take_node: "decodes take_node t [] t () 1 0"
  by (auto simp: decodes_def take_node_def checked_sub_def)

lemma decodes_take_bytes: "decodes (take_value_bytes n) t [] t () 0 n"
  by (auto simp: decodes_def take_value_bytes_def checked_sub_def)

lemma decodes_push: "decodes (push_str s) t [] ((s, length t) # t) () 0 0"
  by (auto simp: decodes_def push_str_def tables_push)

lemma decodes_get: "map_of t s = Some i \<Longrightarrow> decodes (get_str i) t [] t s 0 0"
  by (auto simp: decodes_def get_str_def tables_def get_at_def)

lemma decodes_tag:
  assumes "depth \<le> max_depth lim" "decodes (decode_tag show lim depth tag) t out t' x n b"
  shows "decodes (decode_at show lim depth) t (tag # out) t' x (Suc n) b"
proof -
  have "decodes (opt_bind (rd read_u8) (decode_tag show lim depth)) t ([tag] @ out) t' x (0 + n) (0 + b)"
    by (rule decodes_bind) (rule decodes_rd [OF reads_u8], rule assms(2))
  from decodes_bind [OF decodes_take_node this]
  show ?thesis by (simp add: decode_at_tag [OF assms(1)])
qed

section \<open>Encoder step against decoder step\<close>

text \<open>What the encoder step \<open>f\<close> appends, the decoder step \<open>m\<close> reads as \<open>x\<close>, spending \<open>n\<close> nodes and
  \<open>b\<close> value bytes; string indices stay below \<open>2 ^ 32\<close>.\<close>
definition transports ::
  "(encoder \<Rightarrow> encoder) \<Rightarrow> (decoder, 'a) opt_state \<Rightarrow> 'a \<Rightarrow> nat \<Rightarrow> nat \<Rightarrow> bool"
where
  "transports f m x n b =
     (\<forall>t. length t + n \<le> 2 ^ 32 \<longrightarrow>
        (\<exists>out t'. (\<forall>w. f \<lparr>dw = w, str_map = t\<rparr> = \<lparr>dw = w @ out, str_map = t'\<rparr>) \<and>
           length t' \<le> length t + n \<and> decodes m t out t' x n b))"

lemma transportsI:
  assumes "\<And>t. length t + n \<le> 2 ^ 32 \<Longrightarrow>
    \<exists>out t'. (\<forall>w. f \<lparr>dw = w, str_map = t\<rparr> = \<lparr>dw = w @ out, str_map = t'\<rparr>) \<and>
           length t' \<le> length t + n \<and> decodes m t out t' x n b"
  shows "transports f m x n b"
  using assms by (simp add: transports_def)

lemma transportsD:
  assumes "transports f m x n b" "length t + n \<le> 2 ^ 32"
  obtains out t' where "\<And>w. f \<lparr>dw = w, str_map = t\<rparr> = \<lparr>dw = w @ out, str_map = t'\<rparr>"
    "length t' \<le> length t + n" "decodes m t out t' x n b"
  using assms unfolding transports_def by blast

lemma transports_bind:
  assumes f: "transports f m x n1 b1" and g: "transports g (k x) y n2 b2"
  shows "transports (\<lambda>e. g (f e)) (opt_bind m k) y (n1 + n2) (b1 + b2)"
proof (rule transportsI)
  fix t :: "(string \<times> nat) list" assume t: "length t + (n1 + n2) \<le> 2 ^ 32"
  obtain o1 t1 where 1: "\<And>w. f \<lparr>dw = w, str_map = t\<rparr> = \<lparr>dw = w @ o1, str_map = t1\<rparr>"
    "length t1 \<le> length t + n1" "decodes m t o1 t1 x n1 b1"
    using transportsD [OF f, of t] t by auto
  obtain o2 t2 where 2: "\<And>w. g \<lparr>dw = w, str_map = t1\<rparr> = \<lparr>dw = w @ o2, str_map = t2\<rparr>"
    "length t2 \<le> length t1 + n2" "decodes (k x) t1 o2 t2 y n2 b2"
    using transportsD [OF g, of t1] t 1(2) by auto
  have "decodes (opt_bind m k) t (o1 @ o2) t2 y (n1 + n2) (b1 + b2)"
    by (rule decodes_bind) (rule 1, rule 2)
  then show "\<exists>out t'. (\<forall>w. g (f \<lparr>dw = w, str_map = t\<rparr>) = \<lparr>dw = w @ out, str_map = t'\<rparr>) \<and>
      length t' \<le> length t + (n1 + n2) \<and> decodes (opt_bind m k) t out t' y (n1 + n2) (b1 + b2)"
    using 1(1,2) 2(1,2) by (intro exI [of _ "o1 @ o2"] exI [of _ t2]) auto
qed

lemma transports_return: "transports (\<lambda>e. e) (opt_return x) x 0 0"
  by (rule transportsI) (use decodes_return in force)

lemma transports_map: "transports f m x n b \<Longrightarrow> transports f (opt_map g m) (g x) n b"
  unfolding transports_def by (meson decodes_map)

text \<open>Bytes that do not touch the tables.\<close>
lemma transports_put:
  assumes "\<And>w. f w = w @ out" "reads m out x"
  shows "transports (put f) (rd m) x 0 0"
  by (rule transportsI) (use assms decodes_rd in \<open>fastforce simp: put_def\<close>)

lemma transports_tag:
  assumes "depth \<le> max_depth lim" "transports f (decode_tag show lim depth tag) x n b"
  shows "transports (\<lambda>e. f (put (write_u8 tag) e)) (decode_at show lim depth) x (Suc n) b"
proof (rule transportsI)
  fix t :: "(string \<times> nat) list" assume t: "length t + Suc n \<le> 2 ^ 32"
  obtain out t' where o: "\<And>w. f \<lparr>dw = w, str_map = t\<rparr> = \<lparr>dw = w @ out, str_map = t'\<rparr>"
    "length t' \<le> length t + n" "decodes (decode_tag show lim depth tag) t out t' x n b"
    using transportsD [OF assms(2), of t] t by auto
  then show "\<exists>out t'. (\<forall>w. f (put (write_u8 tag) \<lparr>dw = w, str_map = t\<rparr>) = \<lparr>dw = w @ out, str_map = t'\<rparr>) \<and>
      length t' \<le> length t + Suc n \<and> decodes (decode_at show lim depth) t out t' x (Suc n) b"
    using decodes_tag [OF assms(1) o(3)]
    by (intro exI [of _ "tag # out"] exI [of _ t']) (auto simp: put_def write_u8_def)
qed

text \<open>A count in front of a body.\<close>
lemma transports_count:
  assumes "transports f (k (word_of_nat c)) x n b"
  shows "transports (\<lambda>e. f (put (write_7bit_int c) e)) (opt_bind (rd read_7bit_int) k) x n b"
proof -
  have "transports (\<lambda>e. f (put (write_7bit_int c) e)) (opt_bind (rd read_7bit_int) k) x (0 + n) (0 + b)"
    by (rule transports_bind) (rule transports_put [OF write_7bit_int_out reads_7bit], rule assms)
  then show ?thesis by simp
qed

section \<open>Scalars and strings\<close>

lemma u32_lossless: "scast (ucast (i :: i64) :: i32) = i \<Longrightarrow> number_from_i32 (ucast i) = number_from_i64 i"
  by (simp add: number_from_i32_def)

lemma transports_number:
  assumes "depth \<le> max_depth lim"
  shows "transports (encode_number n) (decode_at show lim depth) (wire_number n) 1 0"
proof -
  have tag1: "transports (\<lambda>e. put (write_i32 v) (put (write_u8 1) e)) (decode_at show lim depth)
      (Number (number_from_i32 v)) (Suc 0) 0" for v
    by (rule transports_tag [OF assms])
       (simp add: decode_tag_def, rule transports_map, rule transports_put [OF write_i32_bytes reads_i32])
  have tag2: "transports (\<lambda>e. put (write_i64 v) (put (write_u8 2) e)) (decode_at show lim depth)
      (Number (number_from_i64 (i64_wire v))) (Suc 0) 0" for v
    by (rule transports_tag [OF assms])
       (simp add: decode_tag_def, rule transports_map, rule transports_put [OF write_i64_bytes reads_i64])
  have tag4: "transports (\<lambda>e. put (write_f64 v) (put (write_u8 4) e)) (decode_at show lim depth)
      (float_value v) (Suc 0) 0" for v
    by (rule transports_tag [OF assms])
       (simp add: decode_tag_def, rule transports_map, rule transports_put [OF write_f64_def reads_f64])
  obtain f where f: "num_as_f64 n = Some f" by (cases n) auto
  show ?thesis
  proof (cases "num_as_i64 n")
    case None
    then show ?thesis using tag4 [of f] f
      by (simp add: wire_number.simps encode_number_def [abs_def])
  next
    case (Some i)
    then show ?thesis using tag1 [of "ucast i"] tag2 [of i]
      by (cases "scast (ucast i :: i32) = i")
        (simp_all add: wire_number.simps encode_number_def [abs_def] u32_lossless)
  qed
qed

lemma decodes_count:
  assumes "decodes (k (word_of_nat c)) t out t' x n b"
  shows "decodes (opt_bind (rd read_7bit_int) k) t (out_7bit c @ out) t' x n b"
proof -
  have "decodes (opt_bind (rd read_7bit_int) k) t (out_7bit c @ out) t' x (0 + n) (0 + b)"
    by (rule decodes_bind) (rule decodes_rd [OF reads_7bit], rule assms)
  then show ?thesis by simp
qed

lemma decodes_with_tables: "(\<And>arr. tables t arr \<Longrightarrow> decodes m t out t' x n b) \<Longrightarrow> decodes m t out t' x n b"
  unfolding decodes_def by blast

lemma decodes_ref:
  assumes "map_of t s = Some i" "length t < 2 ^ 32"
  shows "decodes (decode_tag show lim depth 99) t (out_7bit i) t (Str s) 0 (length s)"
proof (rule decodes_with_tables)
  fix arr assume "tables t arr"
  then have "unat (word_of_nat i :: u32) = i"
    using assms by (intro unat_word_of_nat) (fastforce simp: tables_def)
  then have "decodes (opt_bind (get_str (unat (word_of_nat i :: u32))) (\<lambda>value.
      opt_bind (take_value_bytes (length value)) (\<lambda>_. opt_return (Str value)))) t ([] @ [] @ []) t (Str s)
      (0 + (0 + 0)) (0 + (length s + 0))"
    by (simp only:) (rule decodes_bind, rule decodes_get [OF assms(1)], rule decodes_bind,
        rule decodes_take_bytes, rule decodes_return)
  then show "decodes (decode_tag show lim depth 99) t (out_7bit i) t (Str s) 0 (length s)"
    using decodes_count [where c = i and out = "[]"] by (simp add: decode_tag_def)
qed

lemma decodes_new_str:
  assumes "str_fits lim depth s" "max_value_bytes lim < 2 ^ 32"
  shows "decodes (decode_tag show lim depth 5) t (out_7bit (length s) @ str_bytes s) ((s, length t) # t)
      (Str s) 0 (length s)"
proof -
  let ?n = "word_of_nat (length s) :: u32"
  have n: "unat ?n = length s" using assms by (intro unat_word_of_nat) (simp add: str_fits_def)
  have utf: "decodes (rd (read_utf_bytes (length s))) t (str_bytes s) t s 0 0"
    using assms by (intro decodes_rd reads_utf_bytes) (simp add: str_fits_def)
  have "decodes (opt_bind (take_value_bytes (length s)) (\<lambda>_.
      opt_bind (rd (read_utf_bytes (length s))) (\<lambda>s. opt_bind (push_str s) (\<lambda>_. opt_return (Str s)))))
      t ([] @ str_bytes s @ [] @ []) ((s, length t) # t) (Str s) (0 + (0 + (0 + 0))) (length s + (0 + (0 + 0)))"
    by (rule decodes_bind, rule decodes_take_bytes, rule decodes_bind, rule utf, rule decodes_bind,
        rule decodes_push, rule decodes_return)
  then show ?thesis
    unfolding decode_tag_def using assms n
    by simp (rule decodes_count, simp add: str_fits_def Let_def)
qed

lemma transports_str:
  assumes "str_fits lim depth s" "max_value_bytes lim < 2 ^ 32"
  shows "transports (encode_str s) (decode_at show lim depth) (Str s) 1 (length s)"
proof (rule transportsI)
  fix t :: "(string \<times> nat) list" assume t: "length t + 1 \<le> 2 ^ 32"
  have depth: "depth \<le> max_depth lim" using assms(1) by (simp add: str_fits_def)
  show "\<exists>out t'. (\<forall>w. encode_str s \<lparr>dw = w, str_map = t\<rparr> = \<lparr>dw = w @ out, str_map = t'\<rparr>) \<and>
      length t' \<le> length t + 1 \<and> decodes (decode_at show lim depth) t out t' (Str s) 1 (length s)"
  proof (cases "map_of t s")
    case None
    then show ?thesis
      using decodes_tag [OF depth decodes_new_str [OF assms, of "show" t]]
      by (intro exI [of _ "5 # out_7bit (length s) @ str_bytes s"] exI [of _ "(s, length t) # t"])
        (auto simp: encode_str_def put_def write_u8_def write_utf_def write_7bit_int_out)
  next
    case (Some i)
    then show ?thesis
      using decodes_tag [OF depth decodes_ref [OF Some, of "show" lim depth]] t
      by (intro exI [of _ "99 # out_7bit i"] exI [of _ t])
        (auto simp: encode_str_def put_def write_u8_def write_7bit_int_out)
  qed
qed

section \<open>Whole values\<close>

lemma encode_nothing: "encode_items [] = (\<lambda>e. e)" "encode_pairs [] = (\<lambda>e. e)"
  by (rule ext, simp)+

lemma transports_items:
  assumes "\<And>v. v \<in> set vs \<Longrightarrow> transports (encode_value v) (decode_at show lim depth) (wire v) (json_nodes v) (str_bytes_total v)"
  shows "transports (encode_items vs) (decode_items show lim depth (length vs) arr) (arr @ map wire vs)
    (sum_list (map json_nodes vs)) (sum_list (map str_bytes_total vs))"
  using assms
proof (induction vs arbitrary: arr)
  case Nil
  then show ?case
    using transports_return [of arr] by (simp add: decode_loops encode_nothing del: opt_return_eq)
next
  case (Cons v vs)
  have "transports (encode_items vs) (decode_items show lim depth (length vs) (arr @ [wire v])) ((arr @ [wire v]) @ map wire vs)
    (sum_list (map json_nodes vs)) (sum_list (map str_bytes_total vs))"
    by (rule Cons.IH) (simp add: Cons.prems)
  then have "transports (\<lambda>e. encode_items vs (encode_value v e)) (opt_bind (decode_at show lim depth)
      (\<lambda>x. decode_items show lim depth (length vs) (arr @ [x]))) ((arr @ [wire v]) @ map wire vs)
    (json_nodes v + sum_list (map json_nodes vs)) (str_bytes_total v + sum_list (map str_bytes_total vs))"
    by (intro transports_bind [where x = "wire v"] Cons.prems) simp_all
  then show ?case by (simp add: decode_loops)
qed

text \<open>One field of an object: the key, then the value.\<close>
lemma transports_field:
  assumes k: "str_fits lim depth k" "max_value_bytes lim < 2 ^ 32"
    and f: "transports f (decode_at show lim depth) x n b"
    and g: "transports g (decode_pairs show lim depth c (obj_insert k x obj)) y n' b'"
  shows "transports (\<lambda>e. g (f (encode_str k e))) (decode_pairs show lim depth (Suc c) obj) y
    (Suc n + n') (length k + b + b')"
proof -
  let ?next = "\<lambda>k. opt_bind (decode_at show lim depth) (\<lambda>v. decode_pairs show lim depth c (obj_insert k v obj))"
  have 1: "transports (\<lambda>e. g (f e)) (?next k) y (n + n') (b + b')"
    by (rule transports_bind, rule f, rule g)
  have "transports (\<lambda>e. g (f (encode_str k e)))
      (opt_bind (decode_at show lim depth) (\<lambda>kv. ?next (case kv of Str s \<Rightarrow> s | other \<Rightarrow> show other))) y
      (1 + (n + n')) (length k + (b + b'))"
    by (rule transports_bind [where x = "Str k" and k = "\<lambda>kv. ?next (case kv of Str s \<Rightarrow> s | other \<Rightarrow> show other)",
          OF transports_str [OF k]]) (use 1 in simp)
  then show ?thesis by (simp add: decode_loops add.assoc)
qed

lemma transports_pairs:
  assumes "\<And>k v. (k, v) \<in> set kvs \<Longrightarrow> str_fits lim depth k"
    "\<And>k v. (k, v) \<in> set kvs \<Longrightarrow> transports (encode_value v) (decode_at show lim depth) (wire v) (json_nodes v) (str_bytes_total v)"
    "max_value_bytes lim < 2 ^ 32" "obj_sorted kvs" "\<forall>k' \<in> fst ` set obj. \<forall>k \<in> fst ` set kvs. k' < k"
  shows "transports (encode_pairs kvs) (decode_pairs show lim depth (length kvs) obj)
    (obj @ map (\<lambda>kv. (fst kv, wire (snd kv))) kvs)
    (sum_list (map (\<lambda>kv. Suc (json_nodes (snd kv))) kvs))
    (sum_list (map (\<lambda>kv. length (fst kv) + str_bytes_total (snd kv)) kvs))"
  using assms
proof (induction kvs arbitrary: obj)
  case Nil
  then show ?case
    using transports_return [of obj] by (simp add: decode_loops encode_nothing del: opt_return_eq)
next
  case (Cons kv kvs)
  obtain k v where kv: "kv = (k, v)" by (cases kv)
  let ?obj = "obj @ [(k, wire v)]"
  have ins: "obj_insert k (wire v) obj = ?obj"
    using Cons.prems(5) by (intro obj_insert_last) (simp add: kv)
  have "transports (encode_pairs kvs) (decode_pairs show lim depth (length kvs) ?obj)
    (?obj @ map (\<lambda>kv. (fst kv, wire (snd kv))) kvs)
    (sum_list (map (\<lambda>kv. Suc (json_nodes (snd kv))) kvs))
    (sum_list (map (\<lambda>kv. length (fst kv) + str_bytes_total (snd kv)) kvs))"
  proof (rule Cons.IH)
    show "obj_sorted kvs" using Cons.prems(4) by (simp add: kv obj_sorted_Cons)
    show "\<forall>k' \<in> fst ` set ?obj. \<forall>k \<in> fst ` set kvs. k' < k"
      using Cons.prems(4,5) by (auto simp: kv obj_sorted_Cons)
  qed (use Cons.prems(1,2,3) in auto)
  then have rest: "transports (encode_pairs kvs) (decode_pairs show lim depth (length kvs) (obj_insert k (wire v) obj))
    (?obj @ map (\<lambda>kv. (fst kv, wire (snd kv))) kvs)
    (sum_list (map (\<lambda>kv. Suc (json_nodes (snd kv))) kvs))
    (sum_list (map (\<lambda>kv. length (fst kv) + str_bytes_total (snd kv)) kvs))"
    by (simp add: ins)
  have val: "transports (encode_value v) (decode_at show lim depth) (wire v) (json_nodes v) (str_bytes_total v)"
    by (rule Cons.prems(2) [of k]) (simp add: kv)
  have "str_fits lim depth k" using Cons.prems(1) [of k v] by (simp add: kv)
  from transports_field [OF this Cons.prems(3) val rest]
  show ?case by (simp add: kv add.assoc)
qed

text \<open>An object: tag, count, then the fields.\<close>
lemma transports_object:
  assumes "transports f (decode_pairs show lim (Suc depth) c []) kvs n b" "depth \<le> max_depth lim"
    "c \<le> max_collection_items lim" "max_collection_items lim < 2 ^ 32"
  shows "transports (\<lambda>e. f (put (write_7bit_int c) (put (write_u8 8) e))) (decode_at show lim depth)
    (Object kvs) (Suc n) b"
proof -
  have c: "unat (word_of_nat c :: u32) = c" using assms(3,4) by (intro unat_word_of_nat) simp
  have "transports (\<lambda>e. f (put (write_7bit_int c) e)) (decode_tag show lim depth 8) (Object kvs) n b"
    using transports_map [OF assms(1), of Object] assms(3)
    by (simp add: decode_tag_def) (rule transports_count, simp add: c Let_def)
  from transports_tag [OF assms(2) this] show ?thesis .
qed

lemma transports_value:
  assumes "limits_ok lim"
  shows "fits lim depth v \<Longrightarrow>
    transports (encode_value v) (decode_at show lim depth) (wire v) (json_nodes v) (str_bytes_total v)"
proof (induction v arbitrary: depth)
  case Null
  have "transports (\<lambda>e. e) (decode_tag show lim depth 0) Null 0 0"
    by (simp add: decode_tag_def transports_return)
  from transports_tag [OF _ this] Null show ?case by simp
next
  case (Bool b)
  have r: "reads read_u8 [if b then 1 else 0] (if b then 1 else 0)" by (rule reads_u8)
  have "transports (put (write_u8 (if b then 1 else 0))) (decode_tag show lim depth 6) (Bool ((if b then 1 else 0 :: u8) = 1)) 0 0"
  proof -
    have "decode_tag show lim depth 6 = opt_map (\<lambda>v. Bool (v = 1)) (rd read_u8)"
      by (simp add: decode_tag_def)
    then show ?thesis
      by (simp only:) (rule transports_map, rule transports_put [OF write_u8_def r])
  qed
  from transports_tag [OF _ this] Bool show ?case by (cases b) simp_all
next
  case (Number n)
  then show ?case using transports_number [of depth lim n "show"] by simp
next
  case (Str s)
  then show ?case using transports_str [of lim depth s "show"] assms by (simp add: limits_ok_def)
next
  case (Array xs)
  have len: "unat (word_of_nat (length xs) :: u32) = length xs"
    using Array.prems assms by (intro unat_word_of_nat) (simp add: limits_ok_def)
  have "transports (encode_items xs) (decode_items show lim (Suc depth) (length xs) []) ([] @ map wire xs)
    (sum_list (map json_nodes xs)) (sum_list (map str_bytes_total xs))"
    using Array by (intro transports_items) simp
  from transports_map [OF this, of Array]
  have "transports (\<lambda>e. encode_items xs (put (write_7bit_int (length xs)) e)) (decode_tag show lim depth 9)
     (Array (map wire xs)) (sum_list (map json_nodes xs)) (sum_list (map str_bytes_total xs))"
    using Array.prems by (simp add: decode_tag_def) (rule transports_count, simp add: len Let_def)
  from transports_tag [OF _ this] Array.prems show ?case by simp
next
  case (Object kvs)
  have "transports (encode_pairs kvs) (decode_pairs show lim (Suc depth) (length kvs) [])
    ([] @ map (\<lambda>kv. (fst kv, wire (snd kv))) kvs)
    (sum_list (map (\<lambda>kv. Suc (json_nodes (snd kv))) kvs))
    (sum_list (map (\<lambda>kv. length (fst kv) + str_bytes_total (snd kv)) kvs))"
    using Object assms by (intro transports_pairs) (auto simp: limits_ok_def)
  from transports_object [OF this] show ?case using Object.prems assms by (simp add: limits_ok_def)
qed

section \<open>Messages\<close>

lemma decodes_message:
  assumes "decodes (decode_at show lim 0) [] out t' x n b" "n \<le> max_total_nodes lim" "b \<le> max_total_value_bytes lim"
  shows "decode_with_limits show (out @ junk) lim = Some x"
proof -
  let ?d = "decoder_reset (out @ junk) (decoder_with_limits lim)"
  have "rd_at (dr ?d) (out @ junk)"
    by (simp add: decoder_reset_def rd_at_reset)
  moreover have "tables [] (str_arr ?d)" "n \<le> nodes_remaining ?d" "b \<le> value_bytes_remaining ?d"
    using assms(2,3) by (simp_all add: decoder_reset_def decoder_with_limits_def tables_Nil)
  ultimately obtain d' where "decode_at show lim 0 ?d = (Some x, d')"
    using decodesD [OF assms(1), of ?d junk] by metis
  moreover have "dec_limits ?d = lim" by (simp add: decoder_reset_def decoder_with_limits_def)
  ultimately show ?thesis by (simp add: decode_with_limits_def decode_top_def)
qed

lemma decode_transported:
  assumes "transports f (decode_at show lim 0) x n b" "limits_ok lim"
    "n \<le> max_total_nodes lim" "b \<le> max_total_value_bytes lim"
  shows "decode_with_limits show (dw (f encoder_new) @ junk) lim = Some x"
proof -
  have "length ([] :: (string \<times> nat) list) + n \<le> 2 ^ 32"
    using assms(2,3) by (simp add: limits_ok_def)
  then obtain out t' where o: "\<And>w. f \<lparr>dw = w, str_map = []\<rparr> = \<lparr>dw = w @ out, str_map = t'\<rparr>"
    "decodes (decode_at show lim 0) [] out t' x n b"
    using transportsD [OF assms(1)] by metis
  have "dw (f encoder_new) = out" by (simp add: encoder_new_def o(1))
  then show ?thesis using decodes_message [OF o(2) assms(3,4)] by simp
qed

lemma decode_encode:
  assumes "admissible lim v"
  shows "decode_with_limits show (encode v @ junk) lim = Some (wire v)"
proof -
  have "transports (encode_value v) (decode_at show lim 0) (wire v) (json_nodes v) (str_bytes_total v)"
    using assms by (intro transports_value) (simp_all add: admissible_def)
  then show ?thesis
    unfolding encode_def by (rule decode_transported) (use assms in \<open>simp_all add: admissible_def\<close>)
qed

section \<open>Values that survive\<close>

text \<open>Numbers the wire keeps: no unsigned value above \<open>i64::MAX\<close>, no negative multiple of \<open>2 ^ 32\<close>.\<close>
fun number_survives :: "number \<Rightarrow> bool" where
  "number_survives (PosInt n) = (uint n \<le> i64_max)"
| "number_survives (NegInt i) = (sint i < 0 \<and> take_bit 32 i \<noteq> 0)"
| "number_survives (Float f) = f64_finite f"

fun survives :: "json \<Rightarrow> bool" where
  "survives (Number n) = number_survives n"
| "survives (Array xs) = (\<forall>x \<in> set xs. survives x)"
| "survives (Object kvs) = (\<forall>kv \<in> set kvs. survives (snd kv))"
| "survives v = True"

lemma i64_max_sint: "uint (n :: u64) \<le> i64_max \<Longrightarrow> 0 \<le> sint n"
  using sint_uint_cases(1) [of n] sint_ge [of n] by (auto simp: i64_max_def)

lemma wire_number_survives: "number_survives n \<Longrightarrow> wire_number n = Number n"
proof (cases n)
  case (PosInt m)
  assume "number_survives n"
  then show ?thesis using i64_max_sint [of m] PosInt
    by (simp add: wire_number.simps number_from_i64_def i64_wire_def)
qed (auto simp: wire_number.simps number_from_i64_def i64_wire_def float_value_def number_from_f64_def)

lemma wire_survives: "survives v \<Longrightarrow> wire v = v"
  by (induction v) (auto simp: wire_number_survives intro!: map_idI)

text \<open>Conversely, a number the wire keeps is one of those.\<close>

lemma i64_wire_fixed: "i64_wire i = i \<longleftrightarrow> \<not> (sint i < 0 \<and> take_bit 32 i = 0)"
proof -
  have "i - 4294967296 \<noteq> i"
  proof
    assume "i - 4294967296 = i"
    then have "(4294967296 :: i64) = 0" by (metis add_diff_cancel_left' diff_add_cancel diff_self)
    then show False by simp
  qed
  then show ?thesis by (auto simp: i64_wire_def)
qed

lemma i32_fits_low_zero: "scast (ucast (i :: i64) :: i32) = i \<Longrightarrow> take_bit 32 i = 0 \<Longrightarrow> i = 0"
proof -
  assume f: "scast (ucast i :: i32) = i" and z: "take_bit 32 i = 0"
  have "(ucast i :: i32) = ucast (take_bit 32 i)" by (rule bit_word_eqI) (simp add: bit_simps)
  then have "(ucast i :: i32) = 0" using z by simp
  then show "i = 0" using f by simp
qed

lemma number_from_i64_inject [simp]: "number_from_i64 i = number_from_i64 j \<longleftrightarrow> i = j"
  by (auto simp: number_from_i64_def)

lemma wire_number_fixed:
  assumes "wf_number n"
  shows "wire_number n = Number n \<longleftrightarrow> number_survives n"
proof (cases n)
  case (PosInt m)
  then show ?thesis using wire_number_survives [of n]
    by (cases "uint m \<le> i64_max") (auto simp: wire_number.simps float_value_def number_from_f64_def split: if_splits)
next
  case (NegInt i)
  then have neg: "sint i < 0" using assms by simp
  then have n: "NegInt i = number_from_i64 i" by (simp add: number_from_i64_def)
  show ?thesis
  proof (cases "scast (ucast i :: i32) = i")
    case True
    then have "take_bit 32 i \<noteq> 0" using i32_fits_low_zero [OF True] neg by auto
    moreover have "wire_number (NegInt i) = Number (NegInt i)" using True by (simp add: wire_number.simps n [symmetric])
    ultimately show ?thesis using NegInt neg by simp
  next
    case False
    then have "wire_number (NegInt i) = Number (number_from_i64 (i64_wire i))"
      by (simp add: wire_number.simps)
    then have "wire_number (NegInt i) = Number (NegInt i) \<longleftrightarrow> i64_wire i = i" by (simp add: n)
    then show ?thesis using NegInt neg by (simp add: i64_wire_fixed)
  qed
next
  case (Float f)
  then show ?thesis using assms wire_number_survives [of n] by simp
qed

lemma fits_wf: "fits lim depth v \<Longrightarrow> wire v = v \<longleftrightarrow> survives v"
proof (induction v arbitrary: depth)
  case (Number n)
  then show ?case by (simp add: wire_number_fixed)
next
  case (Array xs)
  have "map wire xs = xs \<longleftrightarrow> (\<forall>x \<in> set xs. wire x = x)" by (induction xs) auto
  then show ?case using Array by auto
next
  case (Object kvs)
  have "map (\<lambda>kv. (fst kv, wire (snd kv))) kvs = kvs \<longleftrightarrow> (\<forall>kv \<in> set kvs. wire (snd kv) = snd kv)"
    by (induction kvs) (auto simp: prod_eq_iff)
  moreover have "wire (snd kv) = snd kv \<longleftrightarrow> survives (snd kv)" if "kv \<in> set kvs" for kv
    using Object.IH [of kv "snd kv" "Suc depth"] Object.prems that by (cases kv) auto
  ultimately show ?case by auto
qed simp_all

section \<open>Properties\<close>

text \<open>C1: decoding what \<open>encode\<close> wrote, followed by anything, returns the value itself exactly when
  the value \<open>survives\<close> the wire: no unsigned number above \<open>i64::MAX\<close> and no negative multiple of
  \<open>2 ^ 32\<close> occurs in it.  The value must respect the limits (\<open>admissible\<close>).\<close>
theorem bon_round_trip:
  assumes "admissible lim v"
  shows "decode_with_limits show (encode v @ junk) lim = Some v \<longleftrightarrow> survives v"
  using decode_encode [OF assms, of "show" junk] fits_wf [of lim 0 v] assms by (simp add: admissible_def)

definition sample_value :: json where
  "sample_value = Object [(''a'', Array [Number (PosInt 3), Str ''hi'', Str ''a'', Bool True, Null,
     Number (NegInt (- 7)), Number (PosInt 5000000000)]), (''b'', Object [(''a'', Str ''hi'')])]"

theorem bon_round_trip_witness:
  "decode_with_limits (\<lambda>_. ''?'') (encode sample_value @ [1, 2]) limits_default = Some sample_value"
proof -
  have "admissible limits_default sample_value"
    by (simp add: admissible_def limits_ok_def sample_value_def limits_default_def str_fits_def
        obj_sorted_def str_valid_ascii ascii_def less_char_def)
  moreover have "survives sample_value"
    by (simp add: sample_value_def i64_max_def)
  ultimately show ?thesis using bon_round_trip [of limits_default sample_value "\<lambda>_. ''?''" "[1, 2]"] by simp
qed

text \<open>a negative 64-bit integer outside the \<open>i32\<close> range whose lower half is zero, that is a
  negative multiple of \<open>2 ^ 32\<close>, arrives \<open>2 ^ 32\<close> too small (modulo \<open>2 ^ 64\<close>): \<open>write_i64\<close> complements the
  truncated quotient of \<open>-v\<close>, which is only right when the division leaves a remainder.\<close>
theorem bon_i64_off_by_one:
  assumes "sint i < 0" "take_bit 32 i = 0"
  shows "decode show (encode (Number (number_from_i64 i))) = Some (Number (number_from_i64 (i - 4294967296)))"
proof -
  have ni: "number_from_i64 i = NegInt i" using assms(1) by (simp add: number_from_i64_def)
  have "admissible limits_default (Number (NegInt i))"
    using assms(1) by (simp add: admissible_def limits_ok_used) (simp add: limits_default_def)
  from decode_encode [OF this, of "show" "[]"]
  have "decode show (encode (Number (NegInt i))) = Some (wire_number (NegInt i))" by (simp add: decode_def)
  moreover have "scast (ucast i :: i32) \<noteq> i" using i32_fits_low_zero [of i] assms by auto
  ultimately show ?thesis using assms by (simp add: ni wire_number.simps i64_wire_def)
qed

theorem bon_i64_off_by_one_witness:
  "decode (\<lambda>_. ''?'') (encode (Number (NegInt (- 4294967296)))) = Some (Number (NegInt (- 8589934592)))"
  using bon_i64_off_by_one [of "- 4294967296" "\<lambda>_. ''?''"] by (simp add: number_from_i64_def)

end
