(* ===== verification/Bon_Safety.thy ===== *)
theory Bon_Safety
  imports Bon_Roundtrip
begin

text \<open>
  What the decoder guarantees for arbitrary, possibly hostile bytes: every access is inside the
  buffer (none panics), its budgets only shrink, and a value it returns is well formed, no deeper
  than the depth limit, no larger than the node budget, with no collection above the collection
  limit, no string or string key above four times the limit for one value, and no more bytes of
  strings and string keys than four times the byte budget (a replacement character takes three
  bytes for one, a base 64 group four for at most three).  A key that is not a string is turned into
  its JSON text, which no limit of the decoder covers: such keys are set apart as \<open>key_texts\<close>.
\<close>

section \<open>Well-formed values\<close>

text \<open>The texts of the values, not strings, that the decoder can meet in the place of a key.\<close>
definition key_texts :: "(json \<Rightarrow> string) \<Rightarrow> limits \<Rightarrow> string set" where
  "key_texts show lim = {show w | w. (\<forall>s. w \<noteq> Str s) \<and> json_depth w < max_depth lim \<and>
     json_nodes w \<le> max_total_nodes lim}"

text \<open>In the next definitions, \<open>T\<close> is the set of those texts.\<close>
definition key_ok :: "string set \<Rightarrow> limits \<Rightarrow> string \<Rightarrow> bool" where
  "key_ok T lim k = (str_valid k \<and> (k \<in> T \<or> length k \<le> 4 * max_value_bytes lim))"

fun json_ok :: "string set \<Rightarrow> limits \<Rightarrow> json \<Rightarrow> bool" where
  "json_ok T lim (Number n) = wf_number n"
| "json_ok T lim (Str s) = (str_valid s \<and> length s \<le> 4 * max_value_bytes lim)"
| "json_ok T lim (Array xs) = (length xs \<le> max_collection_items lim \<and> (\<forall>x \<in> set xs. json_ok T lim x))"
| "json_ok T lim (Object kvs) =
     (length kvs \<le> max_collection_items lim \<and> obj_sorted kvs \<and>
      (\<forall>kv \<in> set kvs. key_ok T lim (fst kv) \<and> json_ok T lim (snd kv)))"
| "json_ok T lim v = True"

definition key_bytes :: "string set \<Rightarrow> string \<Rightarrow> nat" where
  "key_bytes T k = (if k \<in> T then 0 else length k)"

text \<open>Bytes of the strings of a value and of its keys outside \<open>T\<close>.\<close>
fun value_bytes :: "string set \<Rightarrow> json \<Rightarrow> nat" where
  "value_bytes T (Str s) = length s"
| "value_bytes T (Array xs) = sum_list (map (value_bytes T) xs)"
| "value_bytes T (Object kvs) = sum_list (map (\<lambda>kv. key_bytes T (fst kv) + value_bytes T (snd kv)) kvs)"
| "value_bytes T v = 0"

definition decoder_ok :: "limits \<Rightarrow> decoder \<Rightarrow> bool" where
  "decoder_ok lim d = (rd_position (dr d) \<le> length (rd_data (dr d)) \<and> nodes_remaining d \<le> max_total_nodes lim \<and>
     (\<forall>s \<in> set (str_arr d). str_valid s \<and> length s \<le> 3 * max_value_bytes lim))"

text \<open>What no step undoes: the buffer is the same, the position moves forward, budgets shrink; and
  no access panics.\<close>
definition spent :: "decoder \<Rightarrow> decoder \<Rightarrow> bool" where
  "spent d d' = (rd_data (dr d') = rd_data (dr d) \<and> rd_position (dr d) \<le> rd_position (dr d') \<and>
     rd_panicked (dr d') = rd_panicked (dr d) \<and>
     nodes_remaining d' \<le> nodes_remaining d \<and> value_bytes_remaining d' \<le> value_bytes_remaining d)"

lemma spent_refl [simp]: "spent d d"
  by (simp add: spent_def)

lemma spent_trans: "spent d d1 \<Longrightarrow> spent d1 d2 \<Longrightarrow> spent d d2"
  by (auto simp: spent_def)

section \<open>Partial triples\<close>

text \<open>\<open>safe lim m Q\<close>: from an ok decoder \<open>m\<close> leaves an ok decoder, and \<open>Q\<close> relates the decoder
  before, the value and the decoder after, when there is a value.\<close>
definition safe :: "limits \<Rightarrow> (decoder, 'a) opt_state \<Rightarrow> (decoder \<Rightarrow> 'a \<Rightarrow> decoder \<Rightarrow> bool) \<Rightarrow> bool" where
  "safe lim m Q = (\<forall>d. decoder_ok lim d \<longrightarrow>
     (case m d of (r, d') \<Rightarrow> decoder_ok lim d' \<and> spent d d' \<and> (\<forall>x. r = Some x \<longrightarrow> Q d x d')))"

lemma safeI:
  "(\<And>d r d'. decoder_ok lim d \<Longrightarrow> m d = (r, d') \<Longrightarrow>
      decoder_ok lim d' \<and> spent d d' \<and> (\<forall>x. r = Some x \<longrightarrow> Q d x d')) \<Longrightarrow> safe lim m Q"
  by (auto simp: safe_def split: prod.splits)

lemma safeD:
  "safe lim m Q \<Longrightarrow> decoder_ok lim d \<Longrightarrow> m d = (r, d') \<Longrightarrow>
     decoder_ok lim d' \<and> spent d d' \<and> (\<forall>x. r = Some x \<longrightarrow> Q d x d')"
  by (auto simp: safe_def split: prod.splits)

lemma safe_mono: "safe lim m Q \<Longrightarrow> (\<And>d x d'. Q d x d' \<Longrightarrow> R d x d') \<Longrightarrow> safe lim m R"
  unfolding safe_def by (fastforce split: prod.splits)

lemma safe_bind:
  assumes m: "safe lim m Q" and f: "\<And>d x d1. decoder_ok lim d \<Longrightarrow> Q d x d1 \<Longrightarrow> safe lim (f x) (R x)"
    and S: "\<And>d x d1 y d2. Q d x d1 \<Longrightarrow> R x d1 y d2 \<Longrightarrow> S d y d2"
  shows "safe lim (opt_bind m f) S"
proof (rule safeI)
  fix d r d' assume d: "decoder_ok lim d" and run: "opt_bind m f d = (r, d')"
  obtain r1 d1 where 1: "m d = (r1, d1)" by fastforce
  note ok1 = safeD [OF m d 1]
  show "decoder_ok lim d' \<and> spent d d' \<and> (\<forall>x. r = Some x \<longrightarrow> S d x d')"
  proof (cases r1)
    case None
    then show ?thesis using run 1 ok1 by (simp add: opt_bind_def)
  next
    case (Some x)
    then have "f x d1 = (r, d')" using run 1 by (simp add: opt_bind_def)
    moreover have "safe lim (f x) (R x)" using d ok1 Some f by blast
    ultimately show ?thesis using safeD [of lim "f x" "R x" d1 r d'] ok1 Some S spent_trans by blast
  qed
qed

lemma safe_map:
  assumes m: "safe lim m Q" and R: "\<And>d x d'. Q d x d' \<Longrightarrow> R d (g x) d'"
  shows "safe lim (opt_map g m) R"
proof (rule safeI)
  fix d r d' assume d: "decoder_ok lim d" and run: "opt_map g m d = (r, d')"
  then obtain r1 where 1: "m d = (r1, d')" "r = map_option g r1"
    by (auto simp: opt_map_def split: prod.splits)
  show "decoder_ok lim d' \<and> spent d d' \<and> (\<forall>x. r = Some x \<longrightarrow> R d x d')"
    using safeD [OF m d 1(1)] R 1(2) by auto
qed

lemma safe_return: "(\<And>d. decoder_ok lim d \<Longrightarrow> Q d x d) \<Longrightarrow> safe lim (opt_return x) Q"
  by (auto simp: safe_def)

lemma safe_fail: "safe lim opt_fail Q"
  by (simp add: safe_def)

text \<open>A read of the reader: it stays in the buffer and only moves forward.\<close>
definition in_buffer :: "reader \<Rightarrow> bool" where
  "in_buffer r = (rd_position r \<le> length (rd_data r))"

definition forward :: "reader \<Rightarrow> reader \<Rightarrow> bool" where
  "forward r r' = (in_buffer r' \<and> rd_panicked r' = rd_panicked r \<and> rd_data r' = rd_data r \<and> rd_position r \<le> rd_position r')"

definition read_ok :: "(reader, 'a) opt_state \<Rightarrow> ('a \<Rightarrow> bool) \<Rightarrow> bool" where
  "read_ok m P = (\<forall>r. in_buffer r \<longrightarrow> forward r (snd (m r)) \<and> pred_option P (fst (m r)))"

lemma forward_trans: "forward r r1 \<Longrightarrow> forward r1 r2 \<Longrightarrow> forward r r2"
  by (auto simp: forward_def)

lemma forward_refl: "in_buffer r \<Longrightarrow> forward r r"
  by (simp add: forward_def)

lemma forward_advance: "validate r n \<Longrightarrow> forward r (advance n r)"
  by (simp add: forward_def validate_def advance_def in_buffer_def)

lemma read_ok_bind:
  assumes m: "read_ok m P" and f: "\<And>x. P x \<Longrightarrow> read_ok (f x) R"
  shows "read_ok (opt_bind m f) R"
  unfolding read_ok_def
proof (intro allI impI)
  fix r assume r: "in_buffer r"
  obtain x r1 where 1: "m r = (x, r1)" by fastforce
  have 2: "forward r r1" "pred_option P x" using m r 1 by (auto simp: read_ok_def)
  show "forward r (snd (opt_bind m f r)) \<and> pred_option R (fst (opt_bind m f r))"
  proof (cases x)
    case None
    then show ?thesis using 1 2 by (simp add: opt_bind_def)
  next
    case (Some y)
    have "in_buffer r1" using 2 by (simp add: forward_def)
    then show ?thesis
      using 1 2 Some f [of y] forward_trans by (auto simp: opt_bind_def read_ok_def)
  qed
qed

lemma read_ok_prim:
  "read_ok read_u8 (\<lambda>_. True)" "read_ok read_i32 (\<lambda>_. True)" "read_ok read_f32 (\<lambda>_. True)"
  "read_ok read_f64 (\<lambda>_. True)" "read_ok (read_bytes n) (\<lambda>bs. length bs = n)"
  "read_ok (read_utf_bytes n) (\<lambda>s. str_valid s \<and> length s \<le> 3 * n)"
  by (auto simp: read_ok_def read_u8_eq read_i32_eq read_f32_eq read_f64_eq read_bytes_eq Let_def
      read_utf_bytes_eq slice_def str_valid_from_utf8_lossy forward_refl forward_advance)
    (auto simp: validate_def str_valid_ascii ascii_def intro: order_trans [OF length_from_utf8_lossy])

lemma read_ok_return: "P x \<Longrightarrow> read_ok (opt_return x) P"
  by (simp add: read_ok_def forward_refl)

lemma read_ok_fail: "read_ok opt_fail P"
  by (simp add: read_ok_def forward_refl)

lemma read_ok_map: "read_ok m (\<lambda>_. True) \<Longrightarrow> read_ok (opt_map f m) (\<lambda>_. True)"
  by (auto simp: read_ok_def opt_map_def split_beta pred_option_def)

lemma read_ok_i64: "read_ok read_i64 (\<lambda>_. True)"
  unfolding read_i64_def
  by (rule read_ok_bind [OF read_ok_map [OF read_ok_prim(2)]], rule read_ok_bind [OF read_ok_prim(2)])
    (simp add: Let_def read_ok_return del: opt_return_eq)

lemma read_ok_7bit: "read_ok read_7bit_int (\<lambda>_. True)"
proof -
  have "read_ok (read_7bit_loop is v) (\<lambda>_. True)" for "is" v
  proof (induction "is" arbitrary: v)
    case (Cons i "is")
    then show ?case
      unfolding read_7bit_loop.simps
      by (intro read_ok_bind [OF read_ok_prim(1)]) (simp add: Let_def read_ok_return read_ok_fail del: opt_return_eq)
  qed (simp add: read_ok_fail)
  then show ?thesis by (simp add: read_7bit_int_def)
qed

lemma safe_rd: "read_ok m P \<Longrightarrow> safe lim (rd m) (\<lambda>d x d'. P x \<and> nodes_remaining d' = nodes_remaining d \<and>
    value_bytes_remaining d' = value_bytes_remaining d)"
proof (rule safeI)
  fix d r d' assume m: "read_ok m P" and d: "decoder_ok lim d" and run: "rd m d = (r, d')"
  have 1: "d' = d\<lparr>dr := snd (m (dr d))\<rparr>" "r = fst (m (dr d))"
    using run by (simp_all add: rd_def split_beta)
  have "in_buffer (dr d)" using d by (simp add: decoder_ok_def in_buffer_def)
  then have "forward (dr d) (dr d')" "pred_option P r" using m 1 by (simp_all add: read_ok_def)
  then show "decoder_ok lim d' \<and> spent d d' \<and> (\<forall>x. r = Some x \<longrightarrow> P x \<and>
      nodes_remaining d' = nodes_remaining d \<and> value_bytes_remaining d' = value_bytes_remaining d)"
    using d 1 by (auto simp: decoder_ok_def spent_def forward_def in_buffer_def pred_option_def)
qed

section \<open>The decoder's steps\<close>

lemma safe_take_node: "safe lim take_node (\<lambda>d x d'. nodes_remaining d = Suc (nodes_remaining d') \<and>
    value_bytes_remaining d' = value_bytes_remaining d)"
  by (auto intro!: safeI simp: take_node_def decoder_ok_def spent_def split: option.splits)

lemma safe_take_bytes: "safe lim (take_value_bytes n) (\<lambda>d x d'. nodes_remaining d' = nodes_remaining d \<and>
    value_bytes_remaining d = n + value_bytes_remaining d')"
  by (auto intro!: safeI simp: take_value_bytes_def decoder_ok_def spent_def split: option.splits)

lemma safe_push: "str_valid s \<Longrightarrow> length s \<le> 3 * max_value_bytes lim \<Longrightarrow> safe lim (push_str s) (\<lambda>d x d'. nodes_remaining d' = nodes_remaining d \<and>
    value_bytes_remaining d' = value_bytes_remaining d)"
  by (auto intro!: safeI simp: push_str_def decoder_ok_def spent_def)

lemma safe_get: "safe lim (get_str i) (\<lambda>d x d'. str_valid x \<and> length x \<le> 3 * max_value_bytes lim \<and> d' = d)"
  by (auto intro!: safeI simp: get_str_def decoder_ok_def get_at_def split: if_splits)

text \<open>What a value returned at \<open>depth\<close> costs and satisfies.\<close>
definition paid :: "string set \<Rightarrow> limits \<Rightarrow> nat \<Rightarrow> nat \<Rightarrow> decoder \<Rightarrow> json \<Rightarrow> decoder \<Rightarrow> bool" where
  "paid T lim depth k d v d' = (json_ok T lim v \<and> depth + json_depth v \<le> max_depth lim \<and>
     json_nodes v + nodes_remaining d' \<le> k + nodes_remaining d \<and>
     value_bytes T v + 4 * value_bytes_remaining d' \<le> 4 * value_bytes_remaining d)"

definition paid_items :: "string set \<Rightarrow> limits \<Rightarrow> nat \<Rightarrow> nat \<Rightarrow> json list \<Rightarrow> decoder \<Rightarrow> json list \<Rightarrow> decoder \<Rightarrow> bool" where
  "paid_items T lim depth n arr d arr' d' = (length arr' = length arr + n \<and>
     (\<forall>v \<in> set arr'. v \<in> set arr \<or> (json_ok T lim v \<and> depth + json_depth v \<le> max_depth lim)) \<and>
     sum_list (map json_nodes arr') + nodes_remaining d' \<le> sum_list (map json_nodes arr) + nodes_remaining d \<and>
     sum_list (map (value_bytes T) arr') + 4 * value_bytes_remaining d' \<le>
       sum_list (map (value_bytes T) arr) + 4 * value_bytes_remaining d)"

definition fields_nodes :: "object \<Rightarrow> nat" where
  "fields_nodes kvs = sum_list (map (\<lambda>kv. Suc (json_nodes (snd kv))) kvs)"

definition fields_bytes :: "string set \<Rightarrow> object \<Rightarrow> nat" where
  "fields_bytes T kvs = sum_list (map (\<lambda>kv. key_bytes T (fst kv) + value_bytes T (snd kv)) kvs)"

definition paid_pairs :: "string set \<Rightarrow> limits \<Rightarrow> nat \<Rightarrow> nat \<Rightarrow> object \<Rightarrow> decoder \<Rightarrow> object \<Rightarrow> decoder \<Rightarrow> bool" where
  "paid_pairs T lim depth n obj d obj' d' = (length obj' \<le> length obj + n \<and> (obj_sorted obj \<longrightarrow> obj_sorted obj') \<and>
     (\<forall>kv \<in> set obj'. kv \<in> set obj \<or>
        (key_ok T lim (fst kv) \<and> json_ok T lim (snd kv) \<and> depth + json_depth (snd kv) \<le> max_depth lim)) \<and>
     fields_nodes obj' + nodes_remaining d' \<le> fields_nodes obj + nodes_remaining d \<and>
     fields_bytes T obj' + 4 * value_bytes_remaining d' \<le> fields_bytes T obj + 4 * value_bytes_remaining d)"

lemma fields_insert:
  "fields_nodes (obj_insert k v obj) \<le> Suc (json_nodes v) + fields_nodes obj"
  "fields_bytes T (obj_insert k v obj) \<le> key_bytes T k + value_bytes T v + fields_bytes T obj"
  by (induction obj) (auto simp: fields_nodes_def fields_bytes_def)

lemma json_nodes_pos: "1 \<le> json_nodes v"
  by (cases v) auto

lemma safe_items:
  assumes "safe lim (decode_at show lim depth) (paid T lim depth 0)"
  shows "safe lim (decode_items show lim depth n arr) (paid_items T lim depth n arr)"
proof (induction n arbitrary: arr)
  case 0
  then show ?case by (simp add: decode_loops safe_return paid_items_def del: opt_return_eq)
next
  case (Suc n)
  show ?case unfolding decode_loops
    by (rule safe_bind [OF assms Suc]) (auto simp: paid_items_def paid_def)
qed

text \<open>One field more.\<close>
lemma paid_field:
  assumes key: "paid T lim depth 0 d kv d1" and k: "key_ok T lim k" "key_bytes T k \<le> value_bytes T kv"
    and v: "paid T lim depth 0 d1 v d2" and r: "paid_pairs T lim depth n (obj_insert k v obj) d2 obj' d3"
  shows "paid_pairs T lim depth (Suc n) obj d obj' d3"
proof -
  have "kv \<in> set obj \<or> (key_ok T lim (fst kv) \<and> json_ok T lim (snd kv) \<and> depth + json_depth (snd kv) \<le> max_depth lim)"
    if "kv \<in> set obj'" for kv
    using that r v k obj_insert_elem [of kv k v obj] by (auto simp: paid_pairs_def paid_def)
  moreover have "fields_nodes obj' + nodes_remaining d3 \<le> fields_nodes obj + nodes_remaining d"
    using r v key json_nodes_pos [of kv] fields_insert(1) [of k v obj] by (simp add: paid_pairs_def paid_def)
  moreover have "fields_bytes T obj' + 4 * value_bytes_remaining d3 \<le> fields_bytes T obj + 4 * value_bytes_remaining d"
    using r v key k(2) fields_insert(2) [of T k v obj] by (simp add: paid_pairs_def paid_def)
  moreover have "length obj' \<le> length obj + Suc n" "obj_sorted obj \<longrightarrow> obj_sorted obj'"
    using r length_obj_insert [of k v obj] obj_sorted_insert [of obj k v] by (auto simp: paid_pairs_def)
  ultimately show ?thesis by (auto simp: paid_pairs_def)
qed

text \<open>A key in front of its value: it is valid, and its bytes are paid for, unless it is such a text.\<close>
lemma paid_key:
  assumes "paid T lim (Suc depth) 0 d kv d1" "decoder_ok lim d" "\<And>v. str_valid (show v)"
    and T: "T = key_texts show lim"
  defines "k \<equiv> (case kv of Str s \<Rightarrow> s | other \<Rightarrow> show other)"
  shows "key_ok T lim k" "key_bytes T k \<le> value_bytes T kv"
proof -
  have w: "json_depth kv < max_depth lim" "json_nodes kv \<le> max_total_nodes lim"
    using assms(1,2) by (auto simp: paid_def decoder_ok_def)
  have "k \<in> T" if "\<forall>s. kv \<noteq> Str s"
    using that w unfolding T key_texts_def k_def by (cases kv) auto
  then show "key_ok T lim k" "key_bytes T k \<le> value_bytes T kv"
    using assms(1,3) by (cases kv; auto simp: key_ok_def key_bytes_def k_def paid_def)+
qed

lemma safe_pairs:
  assumes at: "safe lim (decode_at show lim (Suc depth)) (paid T lim (Suc depth) 0)"
    and s: "\<And>v. str_valid (show v)" and T: "T = key_texts show lim"
  shows "safe lim (decode_pairs show lim (Suc depth) n obj) (paid_pairs T lim (Suc depth) n obj)"
proof (induction n arbitrary: obj)
  case 0
  then show ?case by (simp add: decode_loops safe_return paid_pairs_def del: opt_return_eq)
next
  case (Suc n)
  let ?key = "\<lambda>kv. case kv of Str s \<Rightarrow> s | other \<Rightarrow> show other"
  have val: "safe lim (opt_bind (decode_at show lim (Suc depth)) (\<lambda>v. decode_pairs show lim (Suc depth) n (obj_insert k v obj)))
      (\<lambda>d obj' d'. \<exists>v d1. paid T lim (Suc depth) 0 d v d1 \<and> paid_pairs T lim (Suc depth) n (obj_insert k v obj) d1 obj' d')" for k
    by (rule safe_bind [OF at Suc]) blast
  show ?case unfolding decode_loops Let_def
  proof (rule safe_bind [OF at])
    fix d kv d1 assume "decoder_ok lim d" "paid T lim (Suc depth) 0 d kv d1"
    then show "safe lim (opt_bind (decode_at show lim (Suc depth))
          (\<lambda>v. decode_pairs show lim (Suc depth) n (obj_insert (?key kv) v obj)))
        (\<lambda>d obj' d'. (key_ok T lim (?key kv) \<and> key_bytes T (?key kv) \<le> value_bytes T kv) \<and>
           (\<exists>v d1. paid T lim (Suc depth) 0 d v d1 \<and> paid_pairs T lim (Suc depth) n (obj_insert (?key kv) v obj) d1 obj' d'))"
      by (intro safe_mono [OF val] conjI paid_key [OF _ _ s T])
  next
    fix d kv d1 obj' d3
    assume key: "paid T lim (Suc depth) 0 d kv d1"
      and "(key_ok T lim (?key kv) \<and> key_bytes T (?key kv) \<le> value_bytes T kv) \<and>
        (\<exists>v d2. paid T lim (Suc depth) 0 d1 v d2 \<and> paid_pairs T lim (Suc depth) n (obj_insert (?key kv) v obj) d2 obj' d3)"
    then show "paid_pairs T lim (Suc depth) (Suc n) obj d obj' d3"
      using paid_field [OF key] by blast
  qed
qed

lemma base64_value: "str_valid (base64_encode bs)" "length (base64_encode bs) \<le> 4 * length bs"
proof -
  have "(of_char c :: nat) < 128" if "c \<in> set (base64_encode bs)" for c
    using that base64_encode_alphabet base64_alphabet_ascii by blast
  then show "str_valid (base64_encode bs)" by (intro str_valid_ascii) (simp add: ascii_def list_all_iff)
  show "length (base64_encode bs) \<le> 4 * length bs"
    by (cases bs) (simp_all add: length_base64_encode)
qed

lemma float_value_ok: "json_ok T lim (float_value f)" "json_nodes (float_value f) = 1"
    "value_bytes T (float_value f) = 0" "json_depth (float_value f) = 0"
  by (auto simp: float_value_def number_from_f64_def split: option.splits)

lemma paid_scalar:
  assumes "json_ok T lim v" "json_nodes v = 1" "value_bytes T v = 0" "json_depth v = 0" "depth \<le> max_depth lim"
    "nodes_remaining d' = nodes_remaining d" "value_bytes_remaining d' = value_bytes_remaining d"
  shows "paid T lim depth 1 d v d'"
  using assms by (simp add: paid_def)

lemma safe_read_scalar:
  assumes "read_ok m P" "\<And>x. json_ok T lim (g x)" "\<And>x. json_nodes (g x) = 1" "\<And>x. value_bytes T (g x) = 0"
    "\<And>x. json_depth (g x) = 0" "depth \<le> max_depth lim"
  shows "safe lim (opt_map g (rd m)) (paid T lim depth 1)"
  by (rule safe_map [OF safe_rd [OF assms(1)]]) (use assms in \<open>simp add: paid_def\<close>)

lemma safe_str_tag:
  assumes "depth \<le> max_depth lim" "n \<le> max_value_bytes lim"
  shows "safe lim (opt_bind (take_value_bytes n) (\<lambda>_. opt_bind (rd (read_utf_bytes n)) (\<lambda>s.
    opt_bind (push_str s) (\<lambda>_. opt_return (Str s))))) (paid T lim depth 1)"
proof -
  have "safe lim (opt_bind (push_str s) (\<lambda>_. opt_return (Str s)))
      (\<lambda>d x d'. x = Str s \<and> nodes_remaining d' = nodes_remaining d \<and>
         value_bytes_remaining d' = value_bytes_remaining d)"
    if "str_valid s" "length s \<le> 3 * n" "n \<le> max_value_bytes lim" for s
    by (rule safe_bind [OF safe_push [OF that(1) le_trans [OF that(2) mult_le_mono2 [OF that(3)]]]
        safe_return [where Q = "\<lambda>d x d'. x = Str s \<and> d' = d"]]) auto
  from this [OF _ _ assms(2)]
  have "safe lim (opt_bind (rd (read_utf_bytes n)) (\<lambda>s. opt_bind (push_str s) (\<lambda>_. opt_return (Str s))))
      (\<lambda>d x d'. (\<exists>s. x = Str s \<and> str_valid s \<and> length s \<le> 3 * n) \<and>
         nodes_remaining d' = nodes_remaining d \<and> value_bytes_remaining d' = value_bytes_remaining d)"
    by (rule safe_bind [OF safe_rd [OF read_ok_prim(6)]]) auto
  from this show ?thesis
    by (rule safe_bind [OF safe_take_bytes]) (use assms in \<open>auto simp: paid_def\<close>)
qed

lemma safe_binary_tag:
  assumes "depth \<le> max_depth lim" "n \<le> max_value_bytes lim"
  shows "safe lim (opt_bind (take_value_bytes n) (\<lambda>_. opt_map (\<lambda>v. Str (base64_encode v)) (rd (read_bytes n))))
    (paid T lim depth 1)"
proof -
  have "safe lim (opt_map (\<lambda>v. Str (base64_encode v)) (rd (read_bytes n)))
      (\<lambda>d x d'. (\<exists>s. x = Str s \<and> str_valid s \<and> length s \<le> 4 * n) \<and>
         nodes_remaining d' = nodes_remaining d \<and> value_bytes_remaining d' = value_bytes_remaining d)"
    by (rule safe_map [OF safe_rd [OF read_ok_prim(5)]]) (use base64_value in fastforce)
  then show ?thesis
    by (rule safe_bind [OF safe_take_bytes]) (use assms in \<open>auto simp: paid_def\<close>)
qed

lemma safe_ref_tag:
  assumes "depth \<le> max_depth lim"
  shows "safe lim (opt_bind (get_str i) (\<lambda>s. opt_bind (take_value_bytes (length s)) (\<lambda>_. opt_return (Str s))))
    (paid T lim depth 1)"
proof -
  have "safe lim (opt_bind (take_value_bytes (length s)) (\<lambda>_. opt_return (Str s)))
      (\<lambda>d x d'. x = Str s \<and> nodes_remaining d' = nodes_remaining d \<and>
         value_bytes_remaining d = length s + value_bytes_remaining d')" for s
    by (rule safe_bind [OF safe_take_bytes safe_return [where Q = "\<lambda>d x d'. x = Str s \<and> d' = d"]]) auto
  then show ?thesis
    by (rule safe_bind [OF safe_get]) (use assms in \<open>auto simp: paid_def\<close>)
qed

text \<open>A length or count is read in front of the rest.\<close>
lemma safe_7bit:
  assumes "\<And>n. safe lim (f n) (paid T lim depth 1)"
  shows "safe lim (opt_bind (rd read_7bit_int) f) (paid T lim depth 1)"
  by (rule safe_bind [OF safe_rd [OF read_ok_7bit] assms]) (auto simp: paid_def)

lemma safe_array_tag:
  assumes "safe lim (decode_at show lim (Suc depth)) (paid T lim (Suc depth) 0)" "n \<le> max_collection_items lim"
    "depth \<le> max_depth lim"
  shows "safe lim (opt_map Array (decode_items show lim (Suc depth) n [])) (paid T lim depth 1)"
proof (rule safe_map [OF safe_items [OF assms(1)]])
  fix d arr d' assume "paid_items T lim (Suc depth) n [] d arr d'"
  moreover from this have "json_depth (Array arr) \<le> max_depth lim - depth"
    using assms(3) by (auto simp: json_depth_Array_le paid_items_def)
  ultimately show "paid T lim depth 1 d (Array arr) d'"
    using assms(2,3) by (simp add: paid_items_def paid_def)
qed

lemma safe_object_tag:
  assumes "safe lim (decode_at show lim (Suc depth)) (paid T lim (Suc depth) 0)" "n \<le> max_collection_items lim"
    "depth \<le> max_depth lim" "\<And>v. str_valid (show v)" "T = key_texts show lim"
  shows "safe lim (opt_map Object (decode_pairs show lim (Suc depth) n [])) (paid T lim depth 1)"
proof (rule safe_map [OF safe_pairs [OF assms(1,4,5)]])
  fix d kvs d' assume p: "paid_pairs T lim (Suc depth) n [] d kvs d'"
  from this have "json_depth (Object kvs) \<le> max_depth lim - depth"
    using assms(3) by (auto simp: json_depth_Object_le paid_pairs_def)
  moreover have "json_ok T lim (Object kvs)"
    using p assms(2) by (auto simp: paid_pairs_def key_ok_def)
  ultimately show "paid T lim depth 1 d (Object kvs) d'"
    using p assms(3) by (simp add: paid_pairs_def paid_def fields_nodes_def fields_bytes_def)
qed

lemma safe_tag:
  assumes next_level: "safe lim (decode_at show lim (Suc depth)) (paid T lim (Suc depth) 0)"
    and depth: "depth \<le> max_depth lim" and valid: "\<And>v. str_valid (show v)"
    and T: "T = key_texts show lim"
  shows "safe lim (decode_tag show lim depth tag) (paid T lim depth 1)"
proof -
  have null: "safe lim (opt_return Null) (paid T lim depth 1)"
    by (rule safe_return) (use depth in \<open>simp add: paid_def\<close>)
  have ints: "safe lim (opt_map (\<lambda>v. Number (number_from_i32 v)) (rd read_i32)) (paid T lim depth 1)"
    by (rule safe_read_scalar [OF read_ok_prim(2)]) (use depth in simp_all)
  have longs: "safe lim (opt_map (\<lambda>v. Number (number_from_i64 v)) (rd read_i64)) (paid T lim depth 1)"
    by (rule safe_read_scalar [OF read_ok_i64]) (use depth in simp_all)
  have floats: "safe lim (opt_map (\<lambda>v. float_value (f32_to_f64 v)) (rd read_f32)) (paid T lim depth 1)"
    by (rule safe_read_scalar [OF read_ok_prim(3)]) (use depth float_value_ok in simp_all)
  have doubles: "safe lim (opt_map float_value (rd read_f64)) (paid T lim depth 1)"
    by (rule safe_read_scalar [OF read_ok_prim(4)]) (use depth float_value_ok in simp_all)
  have bools: "safe lim (opt_map (\<lambda>v. Bool (v = 1)) (rd read_u8)) (paid T lim depth 1)"
    by (rule safe_read_scalar [OF read_ok_prim(1)]) (use depth in simp_all)
  note tags = null ints longs floats doubles bools safe_str_tag [OF depth] safe_binary_tag [OF depth] safe_ref_tag [OF depth]
    safe_array_tag [OF next_level _ depth] safe_object_tag [OF next_level _ depth valid T]
  show ?thesis
    unfolding decode_tag_def Let_def
    by (simp add: tags safe_7bit safe_fail not_less del: opt_return_eq opt_fail_eq One_nat_def)
qed

lemma safe_decode_at:
  assumes "\<And>v. str_valid (show v)" "T = key_texts show lim"
  shows "safe lim (decode_at show lim depth) (paid T lim depth 0)"
proof (induction "Suc (max_depth lim) - depth" arbitrary: depth)
  case 0
  then show ?case by (simp add: decode_at_too_deep safe_fail del: opt_fail_eq)
next
  case (Suc k)
  then have depth: "depth \<le> max_depth lim" by simp
  have "safe lim (decode_at show lim (Suc depth)) (paid T lim (Suc depth) 0)"
    using Suc.hyps by (intro Suc.hyps(1)) simp
  from safe_tag [OF this depth assms]
  have "safe lim (opt_bind (rd read_u8) (decode_tag show lim depth)) (paid T lim depth 1)"
    by (rule safe_bind [OF safe_rd [OF read_ok_prim(1)]]) (auto simp: paid_def)
  then show ?case unfolding decode_at_tag [OF depth]
    by (rule safe_bind [OF safe_take_node]) (auto simp: paid_def)
qed

lemma decode_bounded:
  assumes "\<And>v. str_valid (show v)" "decode_with_limits show bs lim = Some v"
  shows "paid (key_texts show lim) lim 0 0 (decoder_reset bs (decoder_with_limits lim)) v
    (snd (decode_at show lim 0 (decoder_reset bs (decoder_with_limits lim))))"
proof -
  let ?d = "decoder_reset bs (decoder_with_limits lim)"
  obtain d' where run: "decode_at show lim 0 ?d = (Some v, d')"
    using assms(2) by (cases "decode_at show lim 0 ?d")
      (auto simp: decode_with_limits_def decode_top_def decoder_reset_def decoder_with_limits_def)
  have "decoder_ok lim ?d"
    by (simp add: decoder_ok_def decoder_reset_def reader_reset_def decoder_with_limits_def)
  from safeD [OF safe_decode_at [OF assms(1) refl] this run] show ?thesis by (simp add: run)
qed

lemma decode_in_buffer:
  assumes "\<And>v. str_valid (show v)" "decode_top show (decoder_reset bs d) = (r, d')"
  shows "rd_data (dr d') = bs \<and> rd_position (dr d') \<le> length bs \<and> rd_panicked (dr d') = rd_panicked (dr d)"
proof -
  have ok: "decoder_ok (dec_limits d) (decoder_reset bs d)"
    by (simp add: decoder_ok_def decoder_reset_def reader_reset_def)
  have run: "decode_at show (dec_limits d) 0 (decoder_reset bs d) = (r, d')"
    using assms(2) by (simp add: decode_top_def decoder_reset_def)
  have "decoder_ok (dec_limits d) d' \<and> spent (decoder_reset bs d) d'"
    using safeD [OF safe_decode_at [of "show", OF assms(1) refl] ok run] by blast
  then show ?thesis by (auto simp: decoder_ok_def spent_def decoder_reset_def reader_reset_def)
qed

text \<open>With no byte left in either limit the text of a key still comes out, however long.  Nested, each
  level escapes the quotes and backslashes of the level below, so that the text can double with the depth.\<close>
definition no_bytes :: limits where
  "no_bytes = \<lparr>max_depth = 1, max_collection_items = 1, max_value_bytes = 0, max_total_nodes = 3,
     max_total_value_bytes = 0\<rparr>"

lemma key_text_not_limited:
  "decode_with_limits show [8, 1, 9, 0, 0] no_bytes = Some (Object [(show (Array []), Null)])"
  by code_simp

section \<open>Properties\<close>

text \<open>C3: whatever bytes arrive, a value the decoder returns is well formed (numbers, sorted objects,
  valid strings), no deeper than the depth limit and has no more nodes than the node budget; each of
  its collections is within the collection limit; each string, and each key that was a string, has at
  most four times the bytes of the limit for one value; and all of these strings and keys together
  have at most four times the bytes of the byte budget.  The keys set apart (\<open>key_texts\<close>) are the
  texts of values that are not strings, within the depth and node limits: the decoder limits the
  value, not its text.  That text (\<open>show\<close>) must be valid UTF-8, as \<open>Display\<close> guarantees.\<close>
theorem decoder_resource_bounds:
  assumes "\<And>v. str_valid (show v)" "decode_with_limits show bs lim = Some v"
  shows "json_ok (key_texts show lim) lim v \<and> json_depth v \<le> max_depth lim \<and>
    json_nodes v \<le> max_total_nodes lim \<and>
    value_bytes (key_texts show lim) v \<le> 4 * max_total_value_bytes lim"
  using decode_bounded [OF assms] by (simp add: paid_def decoder_reset_def decoder_with_limits_def)

definition tiny_limits :: limits where
  "tiny_limits = \<lparr>max_depth = 3, max_collection_items = 4, max_value_bytes = 8, max_total_nodes = 9,
     max_total_value_bytes = 9\<rparr>"

text \<open>An object with the string key \<open>ab\<close> and the key \<open>null\<close>.\<close>
theorem decoder_resource_bounds_witness:
  "json_nodes (Object [(''ab'', Str ''cd''), (''null'', Array [Bool True])]) \<le> max_total_nodes tiny_limits \<and>
   length ''cd'' \<le> 4 * max_value_bytes tiny_limits"
proof -
  let ?bs = "[8, 2, 5, 2, 97, 98, 5, 2, 99, 100, 0, 9, 1, 6, 1] :: bytes"
  let ?v = "Object [(''ab'', Str ''cd''), (''null'', Array [Bool True])]"
  have "str_valid ''null''" by (simp add: str_valid_ascii ascii_def)
  moreover have "decode_with_limits (\<lambda>_. ''null'') ?bs tiny_limits = Some ?v"
    by code_simp
  ultimately show ?thesis
    using decoder_resource_bounds [of "\<lambda>_. ''null''" ?bs tiny_limits ?v] by simp
qed

text \<open>C4: the decoder never reads outside its buffer: whatever the bytes, a run, successful or not,
  makes no access out of range (which would panic and set \<open>rd_panicked\<close>), and leaves the reader on
  the bytes it was reset to, inside them or at their end.\<close>
theorem decoder_stays_in_buffer:
  assumes "\<And>v. str_valid (show v)" "decode_top show (decoder_reset bs d) = (r, d')"
  shows "rd_panicked (dr d') = rd_panicked (dr d) \<and> rd_data (dr d') = bs \<and> rd_position (dr d') \<le> length bs"
  using decode_in_buffer [OF assms] by blast

theorem decoder_stays_in_buffer_witness:
  "\<not> rd_panicked (dr (snd (decode_top (\<lambda>_. ''k'') (decoder_reset [9, 2, 1, 7, 0, 0] (decoder_with_limits limits_proxy)))))"
  using decoder_stays_in_buffer [of "\<lambda>_. ''k''" "[9, 2, 1, 7, 0, 0]" "decoder_with_limits limits_proxy", OF _ surjective_pairing]
  by (simp add: str_valid_ascii ascii_def decoder_with_limits_def reader_new_def)

end
