(* ===== verification/Bon_Packet.thy ===== *)
theory Bon_Packet
  imports Bon_Roundtrip
begin

text \<open>
  Game packets: what a receiver decodes from \<open>encode_game_packet\<close>.  The four header fields are
  written in the order cmd, ack, seq, time, then the body as a binary blob; the decoder's
  \<open>BTreeMap\<close> orders them by name and shows the blob in base 64.
\<close>

lemma transports_binary:
  assumes "depth \<le> max_depth lim" "length bs \<le> max_value_bytes lim" "max_value_bytes lim < 2 ^ 32"
  shows "transports (encode_binary bs) (decode_at show lim depth) (Str (base64_encode bs)) 1 (length bs)"
proof -
  have len: "unat (word_of_nat (length bs) :: u32) = length bs"
    using assms by (intro unat_word_of_nat) simp
  have bytes: "transports (put (write_bytes bs)) (rd (read_bytes (length bs))) bs 0 0"
    by (rule transports_put [OF write_bytes_def reads_bytes])
  have take: "transports (\<lambda>e. e) (take_value_bytes (length bs)) () 0 (length bs)"
    by (rule transportsI) (use decodes_take_bytes in force)
  have "transports (put (write_bytes bs)) (opt_bind (take_value_bytes (length bs)) (\<lambda>_.
      opt_map (\<lambda>v. Str (base64_encode v)) (rd (read_bytes (length bs))))) (Str (base64_encode bs))
      (0 + 0) (length bs + 0)"
    by (rule transports_bind, rule take, rule transports_map, rule bytes)
  then have "transports (\<lambda>e. put (write_bytes bs) (put (write_7bit_int (length bs)) e))
      (decode_tag show lim depth 7) (Str (base64_encode bs)) 0 (length bs)"
    using assms by (simp add: decode_tag_def) (rule transports_count, simp add: len Let_def)
  from transports_tag [OF assms(1) this] show ?thesis
    by (simp add: encode_binary_def [abs_def])
qed

text \<open>The object a receiver sees.\<close>
definition packet_fields :: "string \<Rightarrow> u32 \<Rightarrow> u32 \<Rightarrow> i64 \<Rightarrow> json option \<Rightarrow> object" where
  "packet_fields cmd ack seq time body_params =
     (''ack'', Number (PosInt (ucast ack)))
     # (case body_params of None \<Rightarrow> [] | Some params \<Rightarrow> [(''body'', Str (base64_encode (encode params)))])
     @ [(''cmd'', Str cmd), (''seq'', Number (PosInt (ucast seq))),
        (''time'', wire_number (number_from_i64 time))]"

definition packet_bytes :: "string \<Rightarrow> json option \<Rightarrow> nat" where
  "packet_bytes cmd body_params = length cmd + 13 +
     (case body_params of None \<Rightarrow> 0 | Some params \<Rightarrow> 4 + length (encode params))"

text \<open>What the limits ask of a packet: strings and body within the byte limits.\<close>
definition packet_fits :: "limits \<Rightarrow> string \<Rightarrow> json option \<Rightarrow> bool" where
  "packet_fits lim cmd body_params =
     (limits_ok lim \<and> 1 \<le> max_depth lim \<and> 5 \<le> max_collection_items lim \<and> 11 \<le> max_total_nodes lim \<and>
      4 \<le> max_value_bytes lim \<and> str_valid cmd \<and> length cmd \<le> max_value_bytes lim \<and>
      (case body_params of None \<Rightarrow> True | Some params \<Rightarrow> length (encode params) \<le> max_value_bytes lim) \<and>
      packet_bytes cmd body_params \<le> max_total_value_bytes lim)"

lemma wire_number_u32: "wire_number (number_from_i64 (ucast (a :: u32))) = Number (PosInt (ucast a))"
proof -
  have a: "0 \<le> uint a" "uint a < 4294967296" using uint_bounded [of a] by simp_all
  then have "uint (ucast a :: u64) = uint a" by (simp add: unsigned_ucast_eq take_bit_int_eq_self)
  then have small: "uint (ucast a :: u64) < 4294967296" using a by simp
  then have "0 \<le> sint (ucast a :: u64)"
    using sint_uint_cases(1) [of "ucast a :: u64"] sint_ge [of "ucast a :: u64"] by auto
  then show ?thesis using small
    by (simp add: number_from_i64_def wire_number.simps i64_max_def i64_wire_def)
qed

lemma transports_i64:
  assumes "depth \<le> max_depth lim"
  shows "transports (encode_i64_value i) (decode_at show lim depth) (wire_number (number_from_i64 i)) 1 0"
proof -
  have "encode_i64_value i = encode_number (number_from_i64 i)"
    by (rule ext) (simp add: encode_i64_value_def)
  then show ?thesis using transports_number [OF assms] by simp
qed

lemma field_names_fit:
  assumes "packet_fits lim cmd body"
  shows "str_fits lim 1 ''cmd''" "str_fits lim 1 ''ack''" "str_fits lim 1 ''seq''" "str_fits lim 1 ''time''"
    "str_fits lim 1 ''body''" "str_fits lim 1 cmd"
  using assms by (auto simp: packet_fits_def str_fits_def intro!: str_valid_ascii simp: ascii_def)

lemma packet_insertions:
  "obj_insert ''time'' t (obj_insert ''seq'' s (obj_insert ''ack'' a (obj_insert ''cmd'' c []))) =
     [(''ack'', a), (''cmd'', c), (''seq'', s), (''time'', t)]"
  "obj_insert ''body'' b [(''ack'', a), (''cmd'', c), (''seq'', s), (''time'', t)] =
     [(''ack'', a), (''body'', b), (''cmd'', c), (''seq'', s), (''time'', t)]"
  by (simp_all add: less_char_def)


lemma packet_header:
  fixes ack seq :: u32
  assumes fits: "packet_fits lim cmd body"
    and rest: "transports g (decode_pairs show lim 1 c
       [(''ack'', Number (PosInt (ucast ack))), (''cmd'', Str cmd), (''seq'', Number (PosInt (ucast seq))),
        (''time'', wire_number (number_from_i64 time))]) y n b"
  shows "transports (\<lambda>e. g (encode_i64_value time (encode_str ''time'' (encode_i64_value (ucast seq) (encode_str ''seq''
       (encode_i64_value (ucast ack) (encode_str ''ack'' (encode_str cmd (encode_str ''cmd'' e))))))))) 
     (decode_pairs show lim 1 (Suc (Suc (Suc (Suc c)))) []) y (8 + n) (13 + length cmd + b)"
proof -
  note names = field_names_fit [OF fits]
  have lim: "1 \<le> max_depth lim" "max_value_bytes lim < 2 ^ 32"
    using fits by (simp_all add: packet_fits_def limits_ok_def)
  note int = transports_i64 [OF lim(1), of _ "show"]
  note field = transports_field [OF _ lim(2)]
  have "transports (\<lambda>e. g (encode_i64_value time (encode_str ''time'' e)))
     (decode_pairs show lim 1 (Suc c) [(''ack'', Number (PosInt (ucast ack))), (''cmd'', Str cmd),
        (''seq'', Number (PosInt (ucast seq)))]) y (Suc 1 + n) (length ''time'' + 0 + b)"
    by (rule field, rule names, rule int) (use rest in \<open>simp add: less_char_def\<close>)
  then have "transports (\<lambda>e. g (encode_i64_value time (encode_str ''time'' (encode_i64_value (ucast seq) (encode_str ''seq'' e)))))
     (decode_pairs show lim 1 (Suc (Suc c)) [(''ack'', Number (PosInt (ucast ack))), (''cmd'', Str cmd)]) y
     (Suc 1 + (Suc 1 + n)) (length ''seq'' + 0 + (length ''time'' + 0 + b))"
    by - (rule field, rule names, rule int, simp add: less_char_def wire_number_u32)
  then have "transports (\<lambda>e. g (encode_i64_value time (encode_str ''time'' (encode_i64_value (ucast seq) (encode_str ''seq''
       (encode_i64_value (ucast ack) (encode_str ''ack'' e)))))))
     (decode_pairs show lim 1 (Suc (Suc (Suc c))) [(''cmd'', Str cmd)]) y
     (Suc 1 + (Suc 1 + (Suc 1 + n))) (length ''ack'' + 0 + (length ''seq'' + 0 + (length ''time'' + 0 + b)))"
    by - (rule field, rule names, rule int, simp add: less_char_def wire_number_u32)
  then have "transports (\<lambda>e. g (encode_i64_value time (encode_str ''time'' (encode_i64_value (ucast seq) (encode_str ''seq''
       (encode_i64_value (ucast ack) (encode_str ''ack'' (encode_str cmd (encode_str ''cmd'' e)))))))))
     (decode_pairs show lim 1 (Suc (Suc (Suc (Suc c)))) []) y
     (Suc 1 + (Suc 1 + (Suc 1 + (Suc 1 + n))))
     (length ''cmd'' + length cmd + (length ''ack'' + 0 + (length ''seq'' + 0 + (length ''time'' + 0 + b))))"
    by - (rule field, rule names, rule transports_str, rule names, rule lim, simp)
  moreover have "Suc 1 + (Suc 1 + (Suc 1 + (Suc 1 + n))) = 8 + n"
    "length ''cmd'' + length cmd + (length ''ack'' + 0 + (length ''seq'' + 0 + (length ''time'' + 0 + b))) = 13 + length cmd + b"
    by simp_all
  ultimately show ?thesis by (simp only:)
qed

lemma four: "Suc (Suc (Suc (Suc 0))) = 4" and five: "Suc (Suc (Suc (Suc (Suc 0)))) = 5"
  by simp_all

lemma packet_fields_transported:
  assumes fits: "packet_fits lim cmd body"
  shows "\<exists>f. encode_game_packet cmd ack seq time body = dw (f encoder_new) \<and>
     transports f (decode_at show lim 0) (Object (packet_fields cmd ack seq time body))
       (case body of None \<Rightarrow> 9 | Some _ \<Rightarrow> 11) (packet_bytes cmd body)"
proof -
  have lim: "0 \<le> max_depth lim" "1 \<le> max_depth lim" "max_value_bytes lim < 2 ^ 32"
    "max_collection_items lim < 2 ^ 32" "4 \<le> max_collection_items lim" "5 \<le> max_collection_items lim"
    using fits by (simp_all add: packet_fits_def limits_ok_def)
  let ?hdr = "\<lambda>e. encode_i64_value time (encode_str ''time'' (encode_i64_value (ucast seq) (encode_str ''seq''
       (encode_i64_value (ucast ack) (encode_str ''ack'' (encode_str cmd (encode_str ''cmd'' e)))))))"
  show ?thesis
  proof (cases body)
    case None
    have "transports (\<lambda>e. e) (decode_pairs show lim 1 0
       [(''ack'', Number (PosInt (ucast ack))), (''cmd'', Str cmd), (''seq'', Number (PosInt (ucast seq))),
        (''time'', wire_number (number_from_i64 time))]) (packet_fields cmd ack seq time None) 0 0"
      by (simp add: decode_loops packet_fields_def transports_return del: opt_return_eq)
    from packet_header [OF fits this]
    have "transports ?hdr (decode_pairs show lim (Suc 0) 4 []) (packet_fields cmd ack seq time None)
        (8 + 0) (13 + length cmd + 0)"
      by (simp only: four One_nat_def)
    from transports_object [OF this lim(1,5,4)] show ?thesis
      using None by (intro exI [of _ "\<lambda>e. ?hdr (put (write_7bit_int 4) (put (write_u8 8) e))"])
        (simp add: encode_game_packet_def Let_def packet_bytes_def add.commute)
  next
    case (Some params)
    have body: "transports (encode_binary (encode params)) (decode_at show lim 1) (Str (base64_encode (encode params)))
        1 (length (encode params))"
      using fits Some by (intro transports_binary) (simp_all add: packet_fits_def limits_ok_def)
    have "transports (\<lambda>e. encode_binary (encode params) (encode_str ''body'' e))
       (decode_pairs show lim 1 (Suc 0)
       [(''ack'', Number (PosInt (ucast ack))), (''cmd'', Str cmd), (''seq'', Number (PosInt (ucast seq))),
        (''time'', wire_number (number_from_i64 time))]) (packet_fields cmd ack seq time body)
        (Suc 1 + 0) (length ''body'' + length (encode params) + 0)"
      by (rule transports_field [where g = "\<lambda>e. e"], rule field_names_fit [OF fits], rule lim, rule body)
        (simp add: decode_loops packet_fields_def transports_return Some less_char_def del: opt_return_eq)
    from packet_header [OF fits this]
    have "transports (\<lambda>e. encode_binary (encode params) (encode_str ''body'' (?hdr e)))
        (decode_pairs show lim (Suc 0) 5 []) (packet_fields cmd ack seq time body)
        (8 + (Suc 1 + 0)) (13 + length cmd + (length ''body'' + length (encode params) + 0))"
      by (simp only: five One_nat_def)
    from transports_object [OF this lim(1,6,4)] show ?thesis
      using Some by (intro exI [of _ "\<lambda>e. encode_binary (encode params) (encode_str ''body'' (?hdr (put (write_7bit_int 5) (put (write_u8 8) e))))"])
        (simp add: encode_game_packet_def Let_def packet_bytes_def add.commute)
  qed
qed

lemma decode_game_packet:
  assumes "packet_fits lim cmd body"
  shows "decode_with_limits show (encode_game_packet cmd ack seq time body @ junk) lim =
    Some (Object (packet_fields cmd ack seq time body))"
proof -
  obtain f where f: "encode_game_packet cmd ack seq time body = dw (f encoder_new)"
    "transports f (decode_at show lim 0) (Object (packet_fields cmd ack seq time body))
       (case body of None \<Rightarrow> 9 | Some _ \<Rightarrow> 11) (packet_bytes cmd body)"
    using packet_fields_transported [OF assms, of ack seq time "show"] by blast
  show ?thesis unfolding f(1)
    by (rule decode_transported [OF f(2)]) (use assms in \<open>auto simp: packet_fits_def split: option.splits\<close>)
qed

end
