(* ===== verification/Hortor.thy ===== *)
theory Hortor
  imports Text
begin

text \<open>
  \<open>src/src/hortor_crypto.rs\<close>: the obfuscation of the login payload.  The text in base 64 is XORed
  with a key cut from a shuffled cipher table, then put in base 64 again.  The base 64 of the
  external crate is the parameter \<open>b64\<close>.  The strings are ASCII, so characters are bytes.
\<close>

section \<open>The pipeline\<close>

definition CIPHER_TABLE :: string where
  "CIPHER_TABLE = concat
    [''BYLWeIPgSMOI2VsgfNGDHSilLpVgxgzIjqMiW0bJqX2HafZDOWZOcJyLTMSn66O6'',
     ''s86nnbXY0BWsEcDsINuxmPlwjx8nAsqKysGnWhwrceWZ8QPZNXPcj21uRFo3QvHr'',
     ''zBh4mb4ug426VRYoqERUWNOv7Xov7qBqfkZA7AnHQsWw4ABzX5e4vLOWzYhsQVHp'',
     ''oOE48lQivLYyxqvszdrxMCuFNNHu0eAE5i3tQlMtnciAsuyRnPUxIcGLb47GV6L9'',
     ''Vhu1vDpICktscWatrZlx3eypnNlWA4K8TU7sia19xAeN2yl7Y2H1LvrdWfrOES0Q'',
     ''PB5XidvTJs6mvk0eC94jPr5WhG3AQZu649O5PY2XhToswKN5OhKxHELeFcgkPHy7'',
     ''ZqdEbG8tgJBIbVFf7E3MHzAkVauOvqeXA2qJpQHnZi9RQzJPlXkGKOllalIBlJXh'',
     ''VdUVBIEQ8z2qBTz0DZRah1CcdCAIvY5rSsK6pkDYPfeuwF2jN4zYxp0W2bVIY6RH'',
     ''CTYRLL2iyG6tmCnZwuQrucHbYa0hyADhBu1y8eYldlj3Biv6qbXjSpxRAv59qTQD'',
     ''qgtyNRgWw3VnbFkzyutdjFcToJjpYu2P59ASngIIMb0Z9P8E4SdFQcPtD3XdvFO3'',
     ''HrlOzHIX2ivxkonGrHz8EmnqDOVGjxixSQzgX6dM1fU2jxciZ9o6C0FjETnZrzvB'',
     ''5wdby1oaQLXTzc0G1tTPnIEdHamdj1kJM3mkFDvlMYGrQZZzVE6ALELT0aEkPOeL'',
     ''5Op6AStjjwxEPGG3dHqKQzL5ItJrZipYk8Kb8lIqJ7gVKPeAc1EtmQTGNSHV4Dvy'',
     ''SDQMiGPNzrPleg8qKOv66fwlD9Dt1DuiTL0OpotakaN0lntPPb09yBTMZpyonJ8c'',
     ''HTpyUmAXi0MytClcOm2cT9VkpsYBeW4ULOyZbN5m4OIii9rNDFFsOsZzBHzDtGdX'',
     ''Ei2bje2gDOAtStYqAfHVD8S8WIEi5UsiROVje6lwaJ3BSilgSY3A2BtR7tSuqei2'',
     ''2UX6fCDWzi7DkYdepE2NlCji9FR0YQCFZ9JXpSY2BCKayNslEYKX4sAgedoRpKih'',
     ''STGL8PeTOkYRofOI7MnWJ770m0PmzEewNigjrPloxmJyjiLG53zQbck4kwhUS4l0'',
     ''YmME77hLen7NFayWweAAWHdwOCf0atzW9U9AgUzRM2eptP4nGTmCsGnocULKy7X6'',
     ''CqIj9uD0yi6sirebNN3O1C2NXkVS17gPTUDtLHVO9ddejoglg6H2P8L0pZtzurpR'',
     ''I9yudDFXyPVSYr7fF7114n4R69g1zwGCFzVvzuH7N4ArzJcgjkQOJywJfeWWD6oI'',
     ''Iqlx55sSV4nKGsIWr6UNmjFIC5ZFG3hCUoRgO7AiIZOP22B2JjStsWJU5y7eOMyA'',
     ''4Km82ivotGGL4iQqJyhs03dOh5s9mbPjISLvRJhDfaVtZ5HMhoMBnOfZNw13eRqi'',
     ''NCcTchxvUpVd6vpMf9SNOiYuiJvkGOujw9jVjVXLn8RSo3eq0ZyGdNXbggVEqkWM'',
     ''V4xkGc2KLQPkTIWUgzUCFz3RzkNaLfPChW0ZSw7yeqIeZ1XvEZ3f2O1Q4ztXqruf'',
     ''oqKv7KVVEf2T5MkD2fqVVGBjizxP5kK5Tn6lNR3y1L44cCHOBmDaxT9mpK8BGmxp'',
     ''9Pw7vqIG4Gz7JRn4eG1w7e5w9rJprXsO5WLEM6JYWTThlv6N4FlyJsBSiKgzTyOu'',
     ''PlAlu6Nz8dCnLdyyHe52Ta6PLzPOcFn0gk5Hk30nymrV25NSFiUfo1gEseT4D4Rj'',
     ''QfxHJUSgIx3vbcJcgUpLn3joK1K1PwBH5PqhAbS7r4TN6DHpE7dMbkeH876FSWJE'',
     ''G9nZ3s3Gelg0UNG7Y8fb16PZQaP5b38tJGZxVUkUkL2KM6bQUBmNGs8h6J9wUxLW'',
     ''IThPhOv4w0wuiwZBcwrBn4SdwXkafE0wX5GF5vnjuhTl3TL3QGnc5GxdWCctHp1L'',
     ''dImc9mHMVAVSjfwPjRN8WxB6UTwIKtt4W8DDDFheahGjGjVXgBrsjAuGjIr47rmb'',
     ''OU4rx05HyCM8AUNFShPA6Y3CsSZj8qyM2fmgpenLvzhSXhkYfFWZqnqdebslIRJy'',
     ''xF84SuJuMkB3EpY0IgTnbco3Fhiwiaj2SfRcxFs1HKlznKAVLaeY5aRqDPxLXFWE'',
     ''51ISu6u8cXH8aN8nVUSXI5tVuX5z4yfzSVI98U9uEPerR6EYfE47sCKXR9dmQhGg'',
     ''tpKRqwmjQkn1QRAEGI6VWElj5eTVgCVB3BjmdBLEbhs05v9hpo8WpfpTH3kBRTeo'',
     ''92rLfWSpRSY2SqBujk8moOlmeMPod8G3EPUjE8tN1x2W8xmYvvq56UI5n7x6Z1H5'',
     ''tPSfo0b1Uj0vSixUwbqZa4GEqfUy794oN5VJz9S9ve2NyDnyrkvgSLI0AJrb7V3u'',
     ''rYpq0dqhhEeK8tGqxmLt6vs9HrH3BBoPRCUMXpSAXs1UZEFmFbohGkgHMYmCobej'',
     ''9LwUs4g1Q2Y9re72oEhiItfjSyOFRpDhzDlXHAWg42NXbNwOdRE999kaFU4cjnr2'',
     ''lmVTF2NYDzTFIcOyU8zJP5irbfXmAgkrJ1FIezfvjdpN1YCgYVHlYGwCG1Ipii7g'',
     ''GRtNcjTAhVCyx9eJx08Q3cD4Kzf9zxKSMe6zR8CSZtg5YPaTUE6P7htOMzHtHGU3'',
     ''nHVKaGbltqCDs3xtzymzdnDVShkaeIxCFQNR3hNXmJZPWJrjSBe8RMVAgk0Gkx71'',
     ''CqmHCPmE3a4yDOUsjtKlbmbvqtPxfW66JwIZBFRil7ND3lQ5gluWaNsCcKEu0Ur7'',
     ''wKEkwCXLXAr8Qqoh2ArXMQpHinDW3gkbZ0xYjJMm03D0cUOWWKA1J7QrEmo037RV'',
     ''Qa5NRjytfNrwqyewQbw92sx1OaBR7wkZlpw4sDfQV8fGK5AVyUZj1Nd6s37gCrCH'',
     ''8eRMGEuBo73oGNwHHWcHMaQYquxTxIOPKGpeAKNluABUWJQqwT0CogsvDDfXLpUk'',
     ''Hxy5Acu3IDREX5jZMi9ykMPz84dEawv05jqJAO5NZrbVJy6ahCa4pDdBEVBqQBH1'',
     ''JlLRCHk9nWRawdoHvhxvUyvS8jKip3AxUh8y1hbsuRMzn1IRf8RtS090J6wKwHAA'',
     ''LKxHa8aPHhq1SAm4gSHR8RBsa2i9SWB0zNP9mtJ5patCUKrm5XLDi71szt5vpbbS'',
     ''Mco36RLX7IEuVQzj379wmvMuUQbwqJNovXR85XF3dJ5GuOOGQMXoP9In4ruALwGI'',
     ''az8rLK6zG0xqpGd3EX14ewYSMc8vYOnJTkrdnF6nuoNknOQBXwsicyZXKp9DVvNF'',
     ''083IO8TzH9mWGxvEyCeXIfNcmKAxAzORdoOoSFKoDw3bRPQN6ESerYfSPRAVYXiK'',
     ''QbmvFs940bhEVn1euMtME2BMMhbcO6Ys9w5Rkhx108jBfRNsgDX2HFFAe88IQYEv'',
     ''OydftcZellhehEC7aJs2VwgIZtbH0UEfKPLV6bzpearD9lewhEsiTAY7PE9i1bPM'',
     ''Gvm6dvsY0iORqI6Nzf9IjWUf8axjgKYxqpZja4NrTUjaawti42TboHSo9lo1s0vj'',
     ''V7efGUYnWXGGleb9OlF1uPjAByK0ybDj3uEgZqABVoZx0vr5BzEYfUoyyINnfmY0'',
     ''80a8RLnsjgc38uVVMeRCcyiHF0KLCVQbcMbFHaaJ53IfPucP1KgiMEdlU2XIoD1E'',
     ''rScWufhcyLVwRCXjjEciuWwHDGoXid6uzjqlBo83NCZ6u3mvWfHgZ8TEY5ohcb3h'',
     ''47NpN4o07vZLyVQhPRijkq2Hxb9mErju4HmVc9UUadDRVtY7ys1NqRyYm22lvhHj'',
     ''gwYKIdLG3l5AV6j6lUDkCO9SHsA6tsF8HZ2ZvQdl05cT2eXKnIL5LRRGFiIydmdk'',
     ''R2BYzUbNMXGrASfVIjgYR5GINty8e3iCF63C0VGXj2RJ7CG5758fr5zJZIQX1As8'',
     ''zpVnTvrSRx9ZhajaXy7r5SNI1V084vX9zyG2FnT8VPLvgZ1OmEyo9JgEu5WbrPa0'',
     ''el7WXM7Wlijrr6S7wMioX97Tsihg43PyRtyV5JjR0YdKenXVeCPMl2bAzjroriO7'']"

fun trans_code :: "string \<Rightarrow> nat \<Rightarrow> string" where
  "trans_code s n =
     (if n = 0 \<or> length s mod 2 \<noteq> 0 then s
      else let mid = length s div 2;
               left = take mid s;
               right = drop mid s
           in trans_code right (n - 1) @ trans_code left (n - 1))"

declare trans_code.simps [simp del]

definition get_code_key :: "string \<Rightarrow> nat \<Rightarrow> string" where
  "get_code_key s step = map (\<lambda>i. s ! (i * step)) [0..<length s div step]"

fun deal_loop :: "bytes \<Rightarrow> bytes \<Rightarrow> nat \<Rightarrow> bytes" where
  "deal_loop [] key idx = []"
| "deal_loop (b # bs) key idx =
     (let idx = (if length key \<le> idx then 0 else idx)
      in (b XOR key ! idx) # deal_loop bs key (idx + 1))"

definition deal_with_string :: "bytes \<Rightarrow> bytes \<Rightarrow> nat \<Rightarrow> bytes" where
  "deal_with_string src key shift =
     (if src = [] \<or> key = [] then [] else deal_loop src key (length key div 2 ^ shift))"

definition encode_payload :: "(bytes \<Rightarrow> string) \<Rightarrow> string \<Rightarrow> string" where
  "encode_payload b64 text =
     (let base64_text = b64 (str_bytes text);
          shuffled = trans_code CIPHER_TABLE 6;
          key = get_code_key shuffled 3
      in b64 (deal_with_string (str_bytes base64_text) (str_bytes key) 1))"

section \<open>Shuffling\<close>

lemma trans_code_halves:
  assumes "length a = length b"
  shows "trans_code (a @ b) (Suc t) = trans_code b t @ trans_code a t"
proof -
  have "length (a @ b) = 2 * length a" using assms by simp
  then have "length (a @ b) mod 2 = 0" "length (a @ b) div 2 = length a" by simp_all
  then show ?thesis using trans_code.simps [of "a @ b" "Suc t"] assms by (simp add: Let_def)
qed

text \<open>Swapping halves \<open>t\<close> times over reverses the order of the \<open>2 ^ t\<close> equal pieces.\<close>
lemma trans_code_rev:
  "length xss = 2 ^ t \<Longrightarrow> (\<forall>xs \<in> set xss. length xs = n) \<Longrightarrow> trans_code (concat xss) t = concat (rev xss)"
proof (induction t arbitrary: xss)
  case 0
  then obtain xs where "xss = [xs]" by (auto simp: length_Suc_conv)
  then show ?case by (simp add: trans_code.simps)
next
  case (Suc t)
  let ?l = "take (2 ^ t) xss" and ?r = "drop (2 ^ t) xss"
  have len: "length (concat yss) = length yss * n" if "set yss \<subseteq> set xss" for yss
    using that Suc.prems(2) by (induction yss) auto
  have halves: "concat xss = concat ?l @ concat ?r" by (metis append_take_drop_id concat_append)
  have "set ?l \<subseteq> set xss" by (rule set_take_subset)
  then have ll: "length (concat ?l) = 2 ^ t * n" using Suc.prems(1) by (simp add: len)
  have "set ?r \<subseteq> set xss" by (rule set_drop_subset)
  then have lr: "length (concat ?r) = 2 ^ t * n" using Suc.prems(1) by (simp add: len)
  have "trans_code (concat ?l) t = concat (rev ?l)" "trans_code (concat ?r) t = concat (rev ?r)"
    using Suc.prems by (auto intro!: Suc.IH dest: in_set_takeD in_set_dropD)
  moreover have "trans_code (concat xss) (Suc t) = trans_code (concat ?r) t @ trans_code (concat ?l) t"
    unfolding halves by (rule trans_code_halves) (simp only: ll lr)
  moreover have "concat (rev ?r) @ concat (rev ?l) = concat (rev xss)"
    by (metis append_take_drop_id concat_append rev_append)
  ultimately show ?case by simp
qed

lemma length_trans_code: "length (trans_code s t) = length s"
proof (induction s t rule: trans_code.induct)
  case (1 s n)
  then show ?case by (subst trans_code.simps) (simp add: Let_def min_def)
qed

section \<open>XOR with the key\<close>

lemma deal_loop_twice: "deal_loop (deal_loop bs key idx) key idx = bs"
  by (induction bs arbitrary: idx) (simp_all add: Let_def xor.assoc)

lemma length_deal_loop [simp]: "length (deal_loop bs key idx) = length bs"
  by (induction bs key idx rule: deal_loop.induct) (simp_all add: Let_def)

lemma deal_with_string_twice: "key \<noteq> [] \<Longrightarrow> deal_with_string (deal_with_string src key shift) key shift = src"
  by (cases src) (auto simp: deal_with_string_def deal_loop_twice simp del: deal_loop.simps dest!: arg_cong [of _ _ length])

lemma length_get_code_key: "length (get_code_key s n) = length s div n"
  by (simp add: get_code_key_def)

lemma length_CIPHER_TABLE: "length CIPHER_TABLE = 4096"
  by (simp add: CIPHER_TABLE_def)

section \<open>Properties\<close>

text \<open>shuffling a text of \<open>2 ^ t\<close> equal pieces \<open>t\<close> times reverses the order of the pieces, each piece
  staying as it is.\<close>
theorem shuffle_reverses_pieces:
  assumes "length pieces = 2 ^ t" "\<forall>p \<in> set pieces. length p = n"
  shows "trans_code (concat pieces) t = concat (rev pieces)"
  by (rule trans_code_rev [OF assms])

theorem shuffle_reverses_pieces_witness: "trans_code ''ABCDEFGH'' 2 = ''GHEFCDAB''"
  using shuffle_reverses_pieces [of "[''AB'', ''CD'', ''EF'', ''GH'']" 2 2] by simp

text \<open>the payload can be recovered: for a base 64 decoder that inverts \<open>b64\<close>, undoing the outer base
  64 and XORing once more with the same key gives the base 64 of the text; the key has
  1365 bytes.\<close>
theorem payload_recoverable:
  assumes "\<And>bs. dec (str_bytes (b64 bs)) = bs"
  shows "deal_with_string (dec (str_bytes (encode_payload b64 text)))
      (str_bytes (get_code_key (trans_code CIPHER_TABLE 6) 3)) 1 = str_bytes (b64 (str_bytes text)) \<and>
    length (get_code_key (trans_code CIPHER_TABLE 6) 3) = 1365"
proof -
  have "length (get_code_key (trans_code CIPHER_TABLE 6) 3) = 1365"
    by (simp add: length_get_code_key length_trans_code length_CIPHER_TABLE)
  moreover from this have "str_bytes (get_code_key (trans_code CIPHER_TABLE 6) 3) \<noteq> []"
    by (metis length_str_bytes list.size(3) zero_neq_numeral)
  ultimately show ?thesis
    using deal_with_string_twice by (simp add: encode_payload_def Let_def assms)
qed

theorem payload_recoverable_witness:
  "deal_with_string (str_bytes (encode_payload bytes_str ''code''))
      (str_bytes (get_code_key (trans_code CIPHER_TABLE 6) 3)) 1 = str_bytes ''code''"
  using payload_recoverable [of "\<lambda>bs. bs" bytes_str "''code''"] by simp

end
