(* ===== verification/Calendar.thy ===== *)
theory Calendar
  imports Text
begin

text \<open>
  The local clock as the crate reads it through \<open>chrono\<close>: weekday, time of day, the date and the ISO
  week already formatted, the number of the day (\<open>NaiveDate\<close>, counted from any fixed day) and the Unix
  time in nanoseconds.  A reading of \<open>Local::now()\<close> is a value of \<open>local_now\<close>, an argument of the
  definitions that read the clock.  The weekday has the order of its number from Monday, which
  the configuration's sorting uses.
\<close>

datatype weekday = Mon | Tue | Wed | Thu | Fri | Sat | Sun

fun num_days_from_monday :: "weekday \<Rightarrow> nat" where
  "num_days_from_monday Mon = 0"
| "num_days_from_monday Tue = 1"
| "num_days_from_monday Wed = 2"
| "num_days_from_monday Thu = 3"
| "num_days_from_monday Fri = 4"
| "num_days_from_monday Sat = 5"
| "num_days_from_monday Sun = 6"

lemma num_days_inject [simp]: "num_days_from_monday a = num_days_from_monday b \<longleftrightarrow> a = b"
  by (cases a; cases b) simp_all

instantiation weekday :: linorder
begin

definition less_eq_weekday :: "weekday \<Rightarrow> weekday \<Rightarrow> bool" where
  "less_eq_weekday a b = (num_days_from_monday a \<le> num_days_from_monday b)"

definition less_weekday :: "weekday \<Rightarrow> weekday \<Rightarrow> bool" where
  "less_weekday a b = (num_days_from_monday a < num_days_from_monday b)"

instance
proof
  fix a b c :: weekday
  show "a < b \<longleftrightarrow> a \<le> b \<and> \<not> b \<le> a" by (auto simp: less_eq_weekday_def less_weekday_def)
  show "a \<le> a" by (simp add: less_eq_weekday_def)
  show "a \<le> b \<Longrightarrow> b \<le> c \<Longrightarrow> a \<le> c" by (simp add: less_eq_weekday_def)
  show "a \<le> b \<Longrightarrow> b \<le> a \<Longrightarrow> a = b" by (simp add: less_eq_weekday_def flip: num_days_inject)
  show "a \<le> b \<or> b \<le> a" by (auto simp: less_eq_weekday_def)
qed

end

definition all_weekdays :: "weekday list" where
  "all_weekdays = [Mon, Tue, Wed, Thu, Fri, Sat, Sun]"

lemma in_all_weekdays [simp]: "d \<in> set all_weekdays"
  by (cases d) (simp_all add: all_weekdays_def)

lemma sorted_all_weekdays: "sorted_wrt (<) all_weekdays"
  by (simp add: all_weekdays_def less_weekday_def)

record local_now =
  ln_date :: string
  ln_week :: string
  ln_weekday :: weekday
  ln_hour :: nat
  ln_minute :: nat
  ln_second :: nat
  ln_day :: int
  ln_nanos :: int

fun num_days_from_sunday :: "weekday \<Rightarrow> nat" where
  "num_days_from_sunday Sun = 0"
| "num_days_from_sunday Mon = 1"
| "num_days_from_sunday Tue = 2"
| "num_days_from_sunday Wed = 3"
| "num_days_from_sunday Thu = 4"
| "num_days_from_sunday Fri = 5"
| "num_days_from_sunday Sat = 6"

definition num_seconds_from_midnight :: "local_now \<Rightarrow> nat" where
  "num_seconds_from_midnight now = ln_hour now * 3600 + ln_minute now * 60 + ln_second now"

definition minute_of_day :: "local_now \<Rightarrow> nat" where
  "minute_of_day now = ln_hour now * 60 + ln_minute now"

text \<open>What every reading of the clock satisfies.\<close>
definition clock_ok :: "local_now \<Rightarrow> bool" where
  "clock_ok now = (ln_hour now < 24 \<and> ln_minute now < 60 \<and> ln_second now < 60)"

end
