(* ===== verification/Config.thy ===== *)
theory Config
  imports Calendar Float64 "HOL-Library.AList"
begin

text \<open>
  \<open>src/src/config.rs\<close>: the batch configuration, its conversion from the parsed YAML document
  (\<open>raw_config\<close>; the YAML parser itself is a parameter), the maintenance windows and their
  normalisation, the per-role formations and shop lists, the paths that identify a role, and the
  watcher that reloads the file.  A hash map whose iteration order is not observed is an association
  list updated by \<open>AList.update\<close>; server and team numbers (\<open>u64\<close>) and the hours and minutes (\<open>u32\<close>)
  are natural numbers, no operation on them can overflow.  Warnings that are only logged are left out.
\<close>

section \<open>Data\<close>

record window_config =
  wc_weekday :: string
  wc_start_time :: string
  wc_end_time :: string

record dream_shop_config =
  ds_enabled :: bool
  purchase_list :: "string list"

datatype formation_context = Arena | Tower | Evotower | BossDaily | BossLegion

fun context_as_str :: "formation_context \<Rightarrow> string" where
  "context_as_str Arena = ''arena''"
| "context_as_str Tower = ''tower''"
| "context_as_str Evotower = ''evotower''"
| "context_as_str BossDaily = ''boss_daily''"
| "context_as_str BossLegion = ''boss_legion''"

record formation_defaults =
  fd_arena :: nat
  fd_tower :: nat
  fd_evotower :: nat
  fd_boss_daily :: nat
  fd_boss_legion :: nat

record formation_override =
  fo_arena :: "nat option"
  fo_tower :: "nat option"
  fo_evotower :: "nat option"
  fo_boss_daily :: "nat option"
  fo_boss_legion :: "nat option"

datatype dream_shop_ref = Inline dream_shop_config | Preset string

record yaml_role =
  yr_server_id :: nat
  yr_formations :: "formation_override option"
  yr_dream_shop :: "dream_shop_ref option"
  yr_group :: "string option"

record yaml_bin =
  yb_bin :: string
  yb_roles :: "yaml_role list"

record bin_config =
  bc_bin :: string
  bc_path :: string
  bc_server_ids :: "nat list"

record raw_config =
  rc_concurrency :: nat
  rc_delay_between_ms :: nat
  rc_schedule_time :: string
  rc_friday_daily_start_time :: string
  rc_maintenance_windows :: "window_config list"
  rc_max_daily_retries :: nat
  rc_check_interval_secs :: nat
  rc_hangup_threshold_hours :: f64
  rc_bottle_threshold_hours :: f64
  rc_legacy_interval_hours :: f64
  rc_bin_output_dir :: string
  rc_default_bin_path :: string
  rc_formations :: formation_defaults
  rc_dream_shop_presets :: "(string \<times> dream_shop_config) list"
  rc_groups :: "string list"
  rc_bins :: "yaml_bin list"
  rc_car_enabled :: bool
  rc_weekly_schedule_day :: string
  rc_study_enabled :: bool
  rc_tower_enabled :: bool
  rc_evotower_enabled :: bool
  rc_gacha_enabled :: bool

record batch_config =
  concurrency :: nat
  delay_between_ms :: nat
  schedule_time :: string
  friday_daily_start_time :: string
  maintenance_windows :: "window_config list"
  max_daily_retries :: nat
  check_interval_secs :: nat
  hangup_threshold_hours :: f64
  bottle_threshold_hours :: f64
  legacy_interval_hours :: f64
  bin_output_dir :: string
  default_bin_path :: string
  bins :: "bin_config list"
  formation_default :: formation_defaults
  role_formations :: "(string \<times> (nat \<times> formation_override) list) list"
  role_dream_shop :: "(string \<times> (nat \<times> dream_shop_config) list) list"
  car_enabled :: bool
  weekly_schedule_day :: weekday
  study_enabled :: bool
  tower_enabled :: bool
  evotower_enabled :: bool
  gacha_enabled :: bool
  groups :: "string list"
  role_groups :: "(string \<times> (string \<times> nat) list) list"

definition default_maintenance_windows :: "window_config list" where
  "default_maintenance_windows =
     [\<lparr>wc_weekday = ''Fri'', wc_start_time = ''05:00'', wc_end_time = ''07:00''\<rparr>,
      \<lparr>wc_weekday = ''Sat'', wc_start_time = ''19:15'', wc_end_time = ''21:15''\<rparr>,
      \<lparr>wc_weekday = ''Sun'', wc_start_time = ''19:15'', wc_end_time = ''20:45''\<rparr>]"

text \<open>The document with every field left out: the defaults that \<open>serde\<close> fills in.\<close>

definition default_formation_defaults :: formation_defaults where
  "default_formation_defaults =
     \<lparr>fd_arena = 1, fd_tower = 1, fd_evotower = 1, fd_boss_daily = 1, fd_boss_legion = 1\<rparr>"

definition raw_default :: raw_config where
  "raw_default = \<lparr>rc_concurrency = 5, rc_delay_between_ms = 2000, rc_schedule_time = ''06:00'',
     rc_friday_daily_start_time = ''12:10'', rc_maintenance_windows = default_maintenance_windows,
     rc_max_daily_retries = 3, rc_check_interval_secs = 60, rc_hangup_threshold_hours = u64_to_f64 8,
     rc_bottle_threshold_hours = u64_to_f64 1, rc_legacy_interval_hours = u64_to_f64 4,
     rc_bin_output_dir = ''bins/'', rc_default_bin_path = ''bins'',
     rc_formations = default_formation_defaults, rc_dream_shop_presets = [], rc_groups = [], rc_bins = [],
     rc_car_enabled = True, rc_weekly_schedule_day = ''Sat'', rc_study_enabled = True,
     rc_tower_enabled = True, rc_evotower_enabled = True, rc_gacha_enabled = True\<rparr>"

section \<open>Weekdays and times of day\<close>

definition parse_weekday :: "string \<Rightarrow> weekday option" where
  "parse_weekday raw =
     (let s = to_ascii_lower raw in
      if s \<in> {''mon'', ''monday''} then Some Mon
      else if s \<in> {''tue'', ''tues'', ''tuesday''} then Some Tue
      else if s \<in> {''wed'', ''wednesday''} then Some Wed
      else if s \<in> {''thu'', ''thur'', ''thurs'', ''thursday''} then Some Thu
      else if s \<in> {''fri'', ''friday''} then Some Fri
      else if s \<in> {''sat'', ''saturday''} then Some Sat
      else if s \<in> {''sun'', ''sunday''} then Some Sun
      else None)"

fun weekday_to_short :: "weekday \<Rightarrow> string" where
  "weekday_to_short Mon = ''Mon''"
| "weekday_to_short Tue = ''Tue''"
| "weekday_to_short Wed = ''Wed''"
| "weekday_to_short Thu = ''Thu''"
| "weekday_to_short Fri = ''Fri''"
| "weekday_to_short Sat = ''Sat''"
| "weekday_to_short Sun = ''Sun''"

definition parse_hhmm_strict :: "string \<Rightarrow> (nat \<times> nat) option" where
  "parse_hhmm_strict raw =
     (case split_on (CHR '':'') raw of
        [p0, p1] \<Rightarrow>
          Option.bind (parse_u32 p0) (\<lambda>h. Option.bind (parse_u32 p1) (\<lambda>m.
            if 23 < h \<or> 59 < m then None else Some (h, m)))
      | _ \<Rightarrow> None)"

definition minutes_to_hhmm :: "nat \<Rightarrow> string" where
  "minutes_to_hhmm total_mins = pad2 (total_mins div 60) @ '':'' @ pad2 (total_mins mod 60)"

definition parse_hhmm_with_fallback :: "string \<Rightarrow> nat \<times> nat \<Rightarrow> nat \<times> nat" where
  "parse_hhmm_with_fallback raw fallback = unwrap_or (parse_hhmm_strict raw) fallback"

definition parse_schedule_time :: "batch_config \<Rightarrow> nat \<times> nat" where
  "parse_schedule_time c = parse_hhmm_with_fallback (schedule_time c) (6, 0)"

definition parse_friday_daily_start_time :: "batch_config \<Rightarrow> nat \<times> nat" where
  "parse_friday_daily_start_time c = parse_hhmm_with_fallback (friday_daily_start_time c) (12, 10)"

section \<open>Maintenance windows\<close>

text \<open>Weekday, start hour and minute, end hour and minute.\<close>
type_synonym window = "weekday \<times> nat \<times> nat \<times> nat \<times> nat"

fun parse_windows :: "window_config list \<Rightarrow> window list" where
  "parse_windows [] = []"
| "parse_windows (w # ws) =
     (case (parse_weekday (wc_weekday w), parse_hhmm_strict (wc_start_time w), parse_hhmm_strict (wc_end_time w)) of
        (Some d, Some (sh, sm), Some (eh, em)) \<Rightarrow> (d, sh, sm, eh, em) # parse_windows ws
      | _ \<Rightarrow> parse_windows ws)"

definition parse_maintenance_windows :: "batch_config \<Rightarrow> window list" where
  "parse_maintenance_windows c = parse_windows (maintenance_windows c)"

text \<open>The weekday and the interval in minutes of a window that is kept.\<close>
definition valid_interval :: "window_config \<Rightarrow> (weekday \<times> nat \<times> nat) option" where
  "valid_interval w =
     (case parse_weekday (wc_weekday w) of None \<Rightarrow> None | Some d \<Rightarrow>
     (case parse_hhmm_strict (wc_start_time w) of None \<Rightarrow> None | Some (sh, sm) \<Rightarrow>
     (case parse_hhmm_strict (wc_end_time w) of None \<Rightarrow> None | Some (eh, em) \<Rightarrow>
       let start = sh * 60 + sm; end' = eh * 60 + em
       in if end' \<le> start then None else Some (d, start, end'))))"

text \<open>\<open>grouped.entry(weekday).or_default().push(..)\<close>\<close>
fun group_windows :: "window_config list \<Rightarrow> (weekday \<times> (nat \<times> nat) list) list \<Rightarrow> (weekday \<times> (nat \<times> nat) list) list" where
  "group_windows [] grouped = grouped"
| "group_windows (w # ws) grouped =
     (case valid_interval w of
        None \<Rightarrow> group_windows ws grouped
      | Some (d, i) \<Rightarrow>
          group_windows ws (AList.update d (unwrap_or (map_of grouped d) [] @ [i]) grouped))"

definition merge_step :: "(nat \<times> nat) list \<Rightarrow> nat \<times> nat \<Rightarrow> (nat \<times> nat) list" where
  "merge_step merged i =
     (case i of (start, end') \<Rightarrow>
      if merged = [] then merged @ [(start, end')]
      else (case last merged of (ls, last_end) \<Rightarrow>
        if start \<le> last_end then
          (if last_end < end' then butlast merged @ [(ls, end')] else merged)
        else merged @ [(start, end')]))"

definition merge_intervals :: "(nat \<times> nat) list \<Rightarrow> (nat \<times> nat) list" where
  "merge_intervals intervals = foldl merge_step [] (sort_key fst intervals)"

definition print_window :: "weekday \<Rightarrow> nat \<times> nat \<Rightarrow> window_config" where
  "print_window d i = \<lparr>wc_weekday = weekday_to_short d, wc_start_time = minutes_to_hhmm (fst i),
     wc_end_time = minutes_to_hhmm (snd i)\<rparr>"

definition normalize_windows :: "window_config list \<Rightarrow> window_config list" where
  "normalize_windows ws =
     (if ws = [] then default_maintenance_windows
      else let grouped = sort_key fst (group_windows ws []);
               normalized = concat (map (\<lambda>(d, intervals). map (print_window d) (merge_intervals intervals)) grouped)
           in if normalized = [] then default_maintenance_windows else normalized)"

definition normalize_maintenance_windows :: "batch_config \<Rightarrow> batch_config" where
  "normalize_maintenance_windows c = c\<lparr>maintenance_windows := normalize_windows (maintenance_windows c)\<rparr>"

section \<open>Paths\<close>

text \<open>\<open>Path\<close> compares and cuts paths by components: empty ones are skipped, and \<open>.\<close> except in front.\<close>

definition is_absolute :: "string \<Rightarrow> bool" where
  "is_absolute p = starts_with ''/'' p"

definition path_components :: "string \<Rightarrow> string list" where
  "path_components p =
     (let parts = split_on (CHR ''/'') p
      in (if hd parts = ''.'' then [''.''] else []) @ filter (\<lambda>c. c \<noteq> [] \<and> c \<noteq> ''.'') parts)"

definition file_name :: "string \<Rightarrow> string option" where
  "file_name p =
     (let cs = filter (\<lambda>c. c \<noteq> ''.'') (path_components p)
      in if cs = [] \<or> last cs = ''..'' then None else Some (last cs))"

text \<open>\<open>Path::file_stem\<close>: the file name before its last dot, unless the dot starts the name.\<close>
definition file_stem :: "string \<Rightarrow> string option" where
  "file_stem p =
     (case file_name p of
        None \<Rightarrow> None
      | Some n \<Rightarrow>
          (case rsplit_once (CHR ''.'') n of
             Some (before, after) \<Rightarrow> Some (if before = [] then n else before)
           | None \<Rightarrow> Some n))"

definition replace_backslash :: "string \<Rightarrow> string" where
  "replace_backslash s = replace_char (CHR 0x5C) (CHR ''/'') s"

fun pop_slashes :: "string \<Rightarrow> string" where
  "pop_slashes s =
     (if s \<noteq> [] \<and> last s = CHR ''/'' \<and> 1 < length s then pop_slashes (butlast s) else s)"

declare pop_slashes.simps [simp del]

definition normalize_dir :: "string \<Rightarrow> string" where
  "normalize_dir raw = pop_slashes (replace_backslash raw)"

fun strip_dot_slash :: "string \<Rightarrow> string" where
  "strip_dot_slash (c # d # s) =
     (if c = CHR ''.'' \<and> d = CHR ''/'' then strip_dot_slash s else c # d # s)"
| "strip_dot_slash s = s"

definition normalize_path_for_id :: "string \<Rightarrow> string" where
  "normalize_path_for_id path = strip_dot_slash (replace_backslash path)"

definition build_runtime_bin_path :: "string \<Rightarrow> string \<Rightarrow> string" where
  "build_runtime_bin_path default_path bin =
     (let bin = normalize_path_for_id bin
      in if CHR ''/'' \<in> set bin then bin else default_path @ ''/'' @ bin)"

definition bin_name_from_path :: "string \<Rightarrow> string" where
  "bin_name_from_path path = replace_backslash (unwrap_or (file_name path) path)"

text \<open>A path on the file system: whether it is absolute, and its components.\<close>
type_synonym fs_path = "bool \<times> string list"

definition fs_path :: "string \<Rightarrow> fs_path" where
  "fs_path p = (is_absolute p, path_components p)"

text \<open>\<open>config_path.parent().unwrap_or(".").join(raw)\<close>; joining drops a leading \<open>.\<close> of the second path
  when the first is not empty.\<close>
definition resolve_bin_path :: "string \<Rightarrow> string \<Rightarrow> fs_path" where
  "resolve_bin_path config_path raw_path =
     (if is_absolute raw_path then fs_path raw_path
      else let (abs, cs) = fs_path config_path;
               base = (if cs = [] then (False, [''.'']) else (abs, butlast cs))
           in if base = (False, []) then fs_path raw_path
              else (fst base, snd base @ filter (\<lambda>c. c \<noteq> ''.'') (path_components raw_path)))"

section \<open>Bins, groups and roles\<close>

definition resolve_dream_shop_ref :: "dream_shop_ref \<Rightarrow> (string \<times> dream_shop_config) list \<Rightarrow> dream_shop_config option" where
  "resolve_dream_shop_ref r presets =
     (case r of Inline cfg \<Rightarrow> Some cfg | Preset name \<Rightarrow> map_of presets name)"

type_synonym groups_map = "(string \<times> (string \<times> nat) list) list"
type_synonym formations_map = "(nat \<times> formation_override) list"
type_synonym dream_map = "(nat \<times> dream_shop_config) list"

text \<open>The loop over the roles of one bin.\<close>
fun build_roles ::
  "string list \<Rightarrow> (string \<times> dream_shop_config) list \<Rightarrow> string \<Rightarrow> yaml_role list \<Rightarrow>
   groups_map \<times> formations_map \<times> dream_map \<Rightarrow> groups_map \<times> formations_map \<times> dream_map"
where
  "build_roles valid presets runtime_path [] acc = acc"
| "build_roles valid presets runtime_path (role # roles) (gs, role_map, dream_map) =
     (let gs' = (case yr_group role of
                   None \<Rightarrow> gs
                 | Some g \<Rightarrow>
                     if g \<in> set valid
                     then AList.update g (unwrap_or (map_of gs g) [] @ [(runtime_path, yr_server_id role)]) gs
                     else gs);
          role_map' = (case yr_formations role of
                         None \<Rightarrow> role_map
                       | Some f \<Rightarrow> AList.update (yr_server_id role) f role_map);
          dream_map' = (case yr_dream_shop role of
                          None \<Rightarrow> dream_map
                        | Some r \<Rightarrow>
                            (case resolve_dream_shop_ref r presets of
                               None \<Rightarrow> dream_map
                             | Some cfg \<Rightarrow> AList.update (yr_server_id role) cfg dream_map))
      in build_roles valid presets runtime_path roles (gs', role_map', dream_map'))"

text \<open>The loop over the bins: \<open>self\<close>, of which only \<open>role_groups\<close> changes inside, and the three
  collections under construction.\<close>
fun build_bins_loop ::
  "(string \<times> dream_shop_config) list \<Rightarrow> yaml_bin list \<Rightarrow> bin_config list \<Rightarrow>
   (string \<times> formations_map) list \<Rightarrow> (string \<times> dream_map) list \<Rightarrow> batch_config \<Rightarrow> batch_config"
where
  "build_bins_loop presets [] runtime_bins fmap dmap c =
     c\<lparr>bins := runtime_bins, role_formations := fmap, role_dream_shop := dmap\<rparr>"
| "build_bins_loop presets (bin # bs) runtime_bins fmap dmap c =
     (let normalized_bin = normalize_path_for_id (yb_bin bin);
          runtime_path = build_runtime_bin_path (default_bin_path c) normalized_bin;
          server_ids = map yr_server_id (yb_roles bin);
          (gs, role_map, dream_map) =
            build_roles (groups c) presets runtime_path (yb_roles bin) (role_groups c, [], []);
          fmap' = (if role_map = [] then fmap else AList.update normalized_bin role_map fmap);
          dmap' = (if dream_map = [] then dmap else AList.update normalized_bin dream_map dmap)
      in build_bins_loop presets bs
           (runtime_bins @ [\<lparr>bc_bin = normalized_bin, bc_path = runtime_path, bc_server_ids = server_ids\<rparr>])
           fmap' dmap' (c\<lparr>role_groups := gs\<rparr>))"

definition build_bins :: "yaml_bin list \<Rightarrow> (string \<times> dream_shop_config) list \<Rightarrow> batch_config \<Rightarrow> batch_config" where
  "build_bins bs presets c = build_bins_loop presets bs [] [] [] c"

text \<open>\<open>BatchConfig::load\<close> after the file has been read and parsed.\<close>
definition config_from_raw :: "raw_config \<Rightarrow> batch_config res" where
  "config_from_raw r =
     (case parse_weekday (rc_weekly_schedule_day r) of
        None \<Rightarrow> Err (''Invalid weekly_schedule_day: '' @ [CHR 0x27] @ rc_weekly_schedule_day r @ [CHR 0x27])
      | Some day \<Rightarrow>
          let config = \<lparr>concurrency = rc_concurrency r, delay_between_ms = rc_delay_between_ms r,
                schedule_time = rc_schedule_time r, friday_daily_start_time = rc_friday_daily_start_time r,
                maintenance_windows = rc_maintenance_windows r, max_daily_retries = rc_max_daily_retries r,
                check_interval_secs = rc_check_interval_secs r,
                hangup_threshold_hours = rc_hangup_threshold_hours r,
                bottle_threshold_hours = rc_bottle_threshold_hours r,
                legacy_interval_hours = rc_legacy_interval_hours r,
                bin_output_dir = rc_bin_output_dir r,
                default_bin_path = normalize_dir (rc_default_bin_path r), bins = [],
                formation_default = rc_formations r, role_formations = [], role_dream_shop = [],
                car_enabled = rc_car_enabled r, weekly_schedule_day = day,
                study_enabled = rc_study_enabled r, tower_enabled = rc_tower_enabled r,
                evotower_enabled = rc_evotower_enabled r, gacha_enabled = rc_gacha_enabled r,
                groups = rc_groups r, role_groups = []\<rparr>
          in Ok (build_bins (rc_bins r) (rc_dream_shop_presets r) (normalize_maintenance_windows config)))"

definition override_resolve :: "formation_override \<Rightarrow> formation_context \<Rightarrow> nat option" where
  "override_resolve f ctx =
     (case ctx of Arena \<Rightarrow> fo_arena f | Tower \<Rightarrow> fo_tower f | Evotower \<Rightarrow> fo_evotower f
      | BossDaily \<Rightarrow> fo_boss_daily f | BossLegion \<Rightarrow> fo_boss_legion f)"

definition defaults_resolve :: "formation_defaults \<Rightarrow> formation_context \<Rightarrow> nat" where
  "defaults_resolve f ctx =
     (case ctx of Arena \<Rightarrow> fd_arena f | Tower \<Rightarrow> fd_tower f | Evotower \<Rightarrow> fd_evotower f
      | BossDaily \<Rightarrow> fd_boss_daily f | BossLegion \<Rightarrow> fd_boss_legion f)"

definition resolve_formation_with_source :: "batch_config \<Rightarrow> string \<Rightarrow> nat \<Rightarrow> formation_context \<Rightarrow> nat \<times> string" where
  "resolve_formation_with_source c bin_path server_id ctx =
     (case Option.bind (Option.bind (map_of (role_formations c) (bin_name_from_path bin_path))
             (\<lambda>role_map. map_of role_map server_id)) (\<lambda>f. override_resolve f ctx) of
        Some team_id \<Rightarrow> (team_id, ''role'')
      | None \<Rightarrow> (defaults_resolve (formation_default c) ctx, ''default''))"

definition resolve_formation :: "batch_config \<Rightarrow> string \<Rightarrow> nat \<Rightarrow> formation_context \<Rightarrow> nat" where
  "resolve_formation c bin_path server_id ctx = fst (resolve_formation_with_source c bin_path server_id ctx)"

definition resolve_dream_shop :: "batch_config \<Rightarrow> string \<Rightarrow> nat \<Rightarrow> dream_shop_config option" where
  "resolve_dream_shop c bin_path server_id =
     (case Option.bind (map_of (role_dream_shop c) (bin_name_from_path bin_path))
             (\<lambda>role_map. map_of role_map server_id) of
        Some cfg \<Rightarrow> if ds_enabled cfg \<and> purchase_list cfg \<noteq> [] then Some cfg else None
      | None \<Rightarrow> None)"

definition group_roles :: "batch_config \<Rightarrow> string \<Rightarrow> (string \<times> nat) list res" where
  "group_roles c name =
     ok_or (map_of (role_groups c) name)
       (''group '' @ [CHR 0x27] @ name @ [CHR 0x27] @ '' not found'')"

definition all_roles :: "batch_config \<Rightarrow> (string \<times> nat) list" where
  "all_roles c = concat (map (\<lambda>b. map (\<lambda>sid. (bc_path b, sid)) (bc_server_ids b)) (bins c))"

record daily_formation_plan =
  plan_arena :: nat
  plan_boss_daily :: nat
  plan_boss_legion :: nat

record daily_task_config =
  dtc_formations :: "daily_formation_plan option"
  dtc_dream_shop :: "dream_shop_config option"
  dtc_car_enabled :: bool
  dtc_gacha_enabled :: bool

definition daily_task_config_for :: "batch_config \<Rightarrow> string \<Rightarrow> nat \<Rightarrow> daily_task_config" where
  "daily_task_config_for c bin_path server_id =
     (let (arena_team, arena_source) = resolve_formation_with_source c bin_path server_id Arena;
          (boss_daily_team, boss_daily_source) = resolve_formation_with_source c bin_path server_id BossDaily;
          (boss_legion_team, boss_legion_source) = resolve_formation_with_source c bin_path server_id BossLegion;
          has_role_specific =
            (arena_source = ''role'' \<or> boss_daily_source = ''role'' \<or> boss_legion_source = ''role'')
      in \<lparr>dtc_formations =
            (if has_role_specific
             then Some \<lparr>plan_arena = arena_team, plan_boss_daily = boss_daily_team,
                        plan_boss_legion = boss_legion_team\<rparr>
             else None),
          dtc_dream_shop = resolve_dream_shop c bin_path server_id,
          dtc_car_enabled = car_enabled c, dtc_gacha_enabled = gacha_enabled c\<rparr>)"

section \<open>Role identity\<close>

definition parse_server_id :: "nat \<Rightarrow> nat \<times> nat" where
  "parse_server_id server_id =
     (let (base, idx) = (if 2000000 \<le> server_id then (server_id - 2000000, 2)
                         else if 1000000 \<le> server_id then (server_id - 1000000, 1)
                         else (server_id, 0))
      in (base - 27, idx))"

definition role_key :: "string \<Rightarrow> nat \<Rightarrow> string" where
  "role_key bin_path server_id = bin_path @ '':'' @ nat_str server_id"

definition role_display :: "string \<Rightarrow> nat \<Rightarrow> string \<Rightarrow> string" where
  "role_display bin_path server_id role_name =
     (let filename = unwrap_or (file_stem bin_path) bin_path;
          (server_num, idx) = parse_server_id server_id
      in filename @ ''/'' @ nat_str server_num @ ''-'' @ nat_str idx @ ''-'' @ role_name)"

section \<open>The watcher\<close>

text \<open>\<open>mtime\<close> gives the modification time of a path when its metadata can be read; a time is only
  compared for equality, here a natural number.  \<open>load\<close> is \<open>BatchConfig::load\<close> on the watched path.\<close>

type_synonym file_times = "fs_path \<Rightarrow> nat option"

record config_watcher =
  cw_path :: string
  last_modified :: "nat option"
  current :: batch_config
  bin_modified :: "(string \<times> nat) list"

fun record_bins :: "file_times \<Rightarrow> string \<Rightarrow> bin_config list \<Rightarrow> (string \<times> nat) list \<Rightarrow> (string \<times> nat) list" where
  "record_bins mtime path [] m = m"
| "record_bins mtime path (bin # bs) m =
     record_bins mtime path bs
       (case mtime (resolve_bin_path path (bc_path bin)) of
          None \<Rightarrow> m
        | Some t \<Rightarrow> AList.update (normalize_path_for_id (bc_path bin)) t m)"

definition watcher_new :: "file_times \<Rightarrow> string \<Rightarrow> batch_config \<Rightarrow> config_watcher" where
  "watcher_new mtime path config =
     \<lparr>cw_path = path, last_modified = mtime (fs_path path), current = config,
      bin_modified = record_bins mtime path (bins config) []\<rparr>"

fun check_bins ::
  "file_times \<Rightarrow> string \<Rightarrow> bin_config list \<Rightarrow> (string \<times> nat) list \<Rightarrow> string list \<Rightarrow>
   (string \<times> nat) list \<times> string list"
where
  "check_bins mtime path [] m changed = (m, changed)"
| "check_bins mtime path (bin # bs) m changed =
     (let normalized = normalize_path_for_id (bc_path bin)
      in case mtime (resolve_bin_path path (bc_path bin)) of
           None \<Rightarrow> check_bins mtime path bs m changed
         | Some t \<Rightarrow>
             if map_of m normalized \<noteq> Some t
             then check_bins mtime path bs (AList.update normalized t m) (changed @ [normalized])
             else check_bins mtime path bs m changed)"

definition check_reload ::
  "file_times \<Rightarrow> (string \<Rightarrow> batch_config res) \<Rightarrow> config_watcher \<Rightarrow> (bool \<times> string list) \<times> config_watcher"
where
  "check_reload mtime load w =
     (let (config_changed, w1) =
            (case mtime (fs_path (cw_path w)) of
               None \<Rightarrow> (False, w)
             | Some modified \<Rightarrow>
                 if last_modified w \<noteq> Some modified then
                   (case load (cw_path w) of
                      Inr new_config \<Rightarrow> (True, w\<lparr>last_modified := Some modified, current := new_config\<rparr>)
                    | Inl e \<Rightarrow> (False, w))
                 else (False, w));
          (m, changed_bins) = check_bins mtime (cw_path w1) (bins (current w1)) (bin_modified w1) []
      in ((config_changed, changed_bins), w1\<lparr>bin_modified := m\<rparr>))"

end
