(* ===== verification/Config_Windows.thy ===== *)
theory Config_Windows
  imports Config
begin

text \<open>
  The maintenance windows of \<open>config.rs\<close>: printing and parsing of times of day, and what the
  normalisation does to the set of minutes covered and to the order of the windows.
\<close>

section \<open>Times of day\<close>

lemma parse_digits_pad: "parse_digits (CHR ''0'' # nat_str n) = Some n"
proof -
  have "digit_val (CHR ''0'') = Some 0" by (simp add: digit_val_def)
  then show ?thesis using parse_digits_nat_str [of n] by (simp add: parse_digits_def)
qed

lemma parse_u32_pad2: "n < 100 \<Longrightarrow> parse_u32 (pad2 n) = Some n"
proof (cases "n < 10")
  case True
  then show ?thesis by (simp add: pad2_def parse_u32_def parse_uint_def parse_digits_pad)
next
  case False
  assume "n < 100"
  then show ?thesis using False parse_uint_nat_str [of "2 ^ 32 - 1" n] by (simp add: pad2_def parse_u32_def)
qed

lemma pad2_no_colon: "CHR '':'' \<notin> set (pad2 n)"
proof -
  have "(of_char (CHR '':'') :: nat) = 58" by simp
  then show ?thesis using nat_str_digits [of "CHR '':''" n] by (auto simp: pad2_def)
qed

lemma parse_minutes:
  assumes "t < 1440"
  shows "parse_hhmm_strict (minutes_to_hhmm t) = Some (t div 60, t mod 60)"
proof -
  have t: "t div 60 < 24" "t mod 60 < 60" using assms by simp_all
  have "split_on (CHR '':'') (minutes_to_hhmm t) = [pad2 (t div 60), pad2 (t mod 60)]"
    by (simp add: minutes_to_hhmm_def split_on_append split_on_no_sep pad2_no_colon)
  then show ?thesis using t by (simp add: parse_hhmm_strict_def parse_u32_pad2)
qed

lemma parse_weekday_short [simp]: "parse_weekday (weekday_to_short d) = Some d"
proof -
  have "\<forall>d \<in> set all_weekdays. parse_weekday (weekday_to_short d) = Some d" by code_simp
  then show ?thesis by simp
qed

lemma hhmm_bounds: "parse_hhmm_strict s = Some (h, m) \<Longrightarrow> h < 24 \<and> m < 60"
  by (auto simp: parse_hhmm_strict_def Option.bind_eq_Some_conv split: list.splits if_splits)

lemma valid_interval_bounds: "valid_interval w = Some (d, s, e) \<Longrightarrow> s < e \<and> e < 1440"
  by (auto simp: valid_interval_def Let_def split: option.splits if_splits dest!: hhmm_bounds)

lemma valid_print: "s < e \<Longrightarrow> e < 1440 \<Longrightarrow> valid_interval (print_window d (s, e)) = Some (d, s, e)"
  by (simp add: valid_interval_def print_window_def parse_minutes Let_def)

section \<open>Merging intervals\<close>

definition covered :: "(nat \<times> nat) list \<Rightarrow> nat \<Rightarrow> bool" where
  "covered is t = (\<exists>i \<in> set is. fst i \<le> t \<and> t < snd i)"

text \<open>Non-empty intervals within the day, in order and with a gap between neighbours.\<close>
definition separated :: "(nat \<times> nat) list \<Rightarrow> bool" where
  "separated is = (sorted_wrt (\<lambda>a b. snd a < fst b) is \<and> (\<forall>i \<in> set is. fst i < snd i \<and> snd i < 1440))"

lemma covered_simps [simp]: "covered [] t = False" "covered (is @ js) t = (covered is t \<or> covered js t)"
  "covered (i # is) t = ((fst i \<le> t \<and> t < snd i) \<or> covered is t)"
  by (auto simp: covered_def)

lemma separated_snoc:
  "separated (is @ [i]) \<longleftrightarrow> separated is \<and> (\<forall>j \<in> set is. snd j < fst i) \<and> fst i < snd i \<and> snd i < 1440"
  by (auto simp: separated_def sorted_wrt_append)

lemma merge_step_Nil: "merge_step [] i = [i]"
  by (cases i) (simp add: merge_step_def)

lemma merge_step_snoc:
  "merge_step (is @ [(ls, le)]) (s, e) =
     (if le < s then is @ [(ls, le), (s, e)] else is @ [(ls, max le e)])"
  by (auto simp: merge_step_def)

lemma merge_step_inv:
  assumes "separated acc" "acc \<noteq> [] \<longrightarrow> fst (last acc) \<le> fst i" "fst i < snd i" "snd i < 1440"
  shows "separated (merge_step acc i)" "merge_step acc i \<noteq> []" "fst (last (merge_step acc i)) \<le> fst i"
    "covered (merge_step acc i) t \<longleftrightarrow> covered acc t \<or> (fst i \<le> t \<and> t < snd i)"
proof -
  obtain s e where i: "i = (s, e)" by (cases i)
  have "separated (merge_step acc i) \<and> merge_step acc i \<noteq> [] \<and> fst (last (merge_step acc i)) \<le> fst i \<and>
    (covered (merge_step acc i) t \<longleftrightarrow> covered acc t \<or> (fst i \<le> t \<and> t < snd i))"
  proof (cases acc rule: rev_cases)
    case Nil
    then show ?thesis using assms by (simp add: merge_step_Nil separated_def)
  next
    case (snoc "is" j)
    obtain ls le where j: "j = (ls, le)" by (cases j)
    have f: "separated is" "\<forall>k \<in> set is. snd k < ls" "ls < le" "le < 1440" "ls \<le> s" "s < e" "e < 1440"
      using assms by (simp_all add: snoc j i separated_snoc)
    show ?thesis
    proof (cases "le < s")
      case True
      have "\<forall>k \<in> set is. snd k < s" using f by force
      then have "separated ((is @ [(ls, le)]) @ [(s, e)])"
        using f True by (simp only: separated_snoc) simp
      then show ?thesis using True by (simp add: snoc j i merge_step_snoc)
    next
      case False
      have "separated (is @ [(ls, max le e)])" using f by (simp add: separated_snoc less_max_iff_disj)
      then show ?thesis using f False by (auto simp: snoc j i merge_step_snoc)
    qed
  qed
  then show "separated (merge_step acc i)" "merge_step acc i \<noteq> []" "fst (last (merge_step acc i)) \<le> fst i"
    "covered (merge_step acc i) t \<longleftrightarrow> covered acc t \<or> (fst i \<le> t \<and> t < snd i)"
    by blast+
qed

lemma merge_fold_inv:
  assumes "separated acc" "\<forall>i \<in> set is. (acc \<noteq> [] \<longrightarrow> fst (last acc) \<le> fst i) \<and> fst i < snd i \<and> snd i < 1440"
    "sorted (map fst is)"
  shows "separated (foldl merge_step acc is) \<and> (is \<noteq> [] \<or> acc \<noteq> [] \<longrightarrow> foldl merge_step acc is \<noteq> []) \<and>
    (covered (foldl merge_step acc is) t \<longleftrightarrow> covered acc t \<or> covered is t)"
  using assms
proof (induction "is" arbitrary: acc)
  case (Cons i "is")
  note step = merge_step_inv [of acc i]
  have "separated (merge_step acc i)" "merge_step acc i \<noteq> []" "fst (last (merge_step acc i)) \<le> fst i"
    "covered (merge_step acc i) t \<longleftrightarrow> covered acc t \<or> (fst i \<le> t \<and> t < snd i)"
    using step Cons.prems by auto
  then show ?case using Cons.IH [of "merge_step acc i"] Cons.prems by fastforce
qed simp

lemma merge_intervals_inv:
  assumes "\<forall>i \<in> set is. fst i < snd i \<and> snd i < 1440"
  shows "separated (merge_intervals is)" "is \<noteq> [] \<Longrightarrow> merge_intervals is \<noteq> []"
    "covered (merge_intervals is) t = covered is t"
proof -
  have "covered (sort_key fst is) t = covered is t" by (simp add: covered_def)
  moreover have "sort_key fst is = [] \<longleftrightarrow> is = []" by (metis length_0_conv length_sort)
  ultimately show "separated (merge_intervals is)" "is \<noteq> [] \<Longrightarrow> merge_intervals is \<noteq> []"
    "covered (merge_intervals is) t = covered is t"
    using merge_fold_inv [of "[]" "sort_key fst is" t] assms
    by (auto simp: merge_intervals_def separated_def)
qed

lemma merge_fold_separated: "separated (acc @ is) \<Longrightarrow> foldl merge_step acc is = acc @ is"
proof (induction "is" arbitrary: acc)
  case (Cons i "is")
  have "merge_step acc i = acc @ [i]"
  proof (cases acc rule: rev_cases)
    case (snoc js j)
    then have "snd j < fst i" using Cons.prems by (simp add: separated_def sorted_wrt_append)
    then show ?thesis by (cases i; cases j) (simp add: snoc merge_step_snoc)
  qed (simp add: merge_step_Nil)
  then show ?case using Cons.IH [of "acc @ [i]"] Cons.prems by simp
qed simp

lemma separated_sorted: "separated is \<Longrightarrow> sorted (map fst is)"
  by (induction "is") (auto simp: separated_def intro: less_imp_le order_less_trans)

lemma merge_separated: "separated is \<Longrightarrow> merge_intervals is = is"
  using merge_fold_separated [of "[]" "is"]
  by (simp add: merge_intervals_def sort_key_id_if_sorted separated_sorted)

section \<open>The windows of a weekday\<close>

text \<open>The intervals of the valid windows of \<open>d\<close>, in input order.\<close>
fun day_intervals :: "weekday \<Rightarrow> window_config list \<Rightarrow> (nat \<times> nat) list" where
  "day_intervals d [] = []"
| "day_intervals d (w # ws) =
     (case valid_interval w of
        Some (d', i) \<Rightarrow> if d' = d then i # day_intervals d ws else day_intervals d ws
      | None \<Rightarrow> day_intervals d ws)"

text \<open>Minute \<open>t\<close> of weekday \<open>d\<close> lies in a valid window.\<close>
definition in_window :: "window_config list \<Rightarrow> weekday \<Rightarrow> nat \<Rightarrow> bool" where
  "in_window ws d t = (\<exists>w \<in> set ws. \<exists>s e. valid_interval w = Some (d, s, e) \<and> s \<le> t \<and> t < e)"

lemma day_intervals_append [simp]: "day_intervals d (ws @ vs) = day_intervals d ws @ day_intervals d vs"
  by (induction ws) (auto split: option.splits)

lemma day_intervals_iff: "i \<in> set (day_intervals d ws) \<longleftrightarrow> (\<exists>w \<in> set ws. valid_interval w = Some (d, i))"
  by (induction ws) (auto split: option.splits)

lemma in_window_day: "in_window ws d t = covered (day_intervals d ws) t"
proof -
  have "covered is t \<longleftrightarrow> (\<exists>s e. (s, e) \<in> set is \<and> s \<le> t \<and> t < e)" for "is"
    by (simp add: covered_def Bex_def split_paired_Ex)
  then have "covered (day_intervals d ws) t \<longleftrightarrow> (\<exists>s e. (\<exists>w \<in> set ws. valid_interval w = Some (d, s, e)) \<and> s \<le> t \<and> t < e)"
    by (simp only: day_intervals_iff)
  then show ?thesis unfolding in_window_def by blast
qed

lemma day_intervals_bounds: "\<forall>i \<in> set (day_intervals d ws). fst i < snd i \<and> snd i < 1440"
  by (auto simp: day_intervals_iff dest: valid_interval_bounds)

lemma map_of_group:
  "map_of (group_windows ws g) d =
     (if day_intervals d ws = [] then map_of g d else Some (unwrap_or (map_of g d) [] @ day_intervals d ws))"
proof (induction ws arbitrary: g)
  case (Cons w ws)
  show ?case
  proof (cases "valid_interval w")
    case (Some di)
    then show ?thesis using Cons.IH
      by (cases di) (auto simp: update_conv')
  qed (simp add: Cons.IH)
qed simp

lemma group_keys: "distinct (map fst g) \<Longrightarrow> distinct (map fst (group_windows ws g))"
  by (induction ws arbitrary: g) (auto simp: distinct_update split: option.splits)

definition print_day :: "weekday \<times> (nat \<times> nat) list \<Rightarrow> window_config list" where
  "print_day g = map (print_window (fst g)) (merge_intervals (snd g))"

abbreviation days :: "window_config list \<Rightarrow> (weekday \<times> (nat \<times> nat) list) list" where
  "days ws \<equiv> sort_key fst (group_windows ws [])"

lemma normalize_windows_alt:
  "normalize_windows ws =
     (let n = concat (map print_day (days ws))
      in if ws = [] \<or> n = [] then default_maintenance_windows else n)"
proof -
  have "print_day = (\<lambda>(d, intervals). map (print_window d) (merge_intervals intervals))"
    by (auto simp: print_day_def fun_eq_iff)
  then show ?thesis unfolding normalize_windows_def Let_def by simp
qed

lemma days_distinct: "distinct (map fst (days ws))"
  using group_keys [of "[]" ws] distinct_map [of fst "group_windows ws []"] distinct_map [of fst "days ws"] by simp

lemma map_of_days: "map_of (days ws) d = (if day_intervals d ws = [] then None else Some (day_intervals d ws))"
proof -
  have "map_of (days ws) = map_of (group_windows ws [])"
    using days_distinct [of ws] group_keys [of "[]" ws] by (intro map_of_inject_set [THEN iffD2]) simp_all
  then show ?thesis by (simp add: map_of_group)
qed

lemma days_elem: "g \<in> set (days ws) \<Longrightarrow> snd g = day_intervals (fst g) ws \<and> snd g \<noteq> []"
  using days_distinct [of ws] map_of_days [of ws "fst g"] by (cases g) (auto split: if_splits)

lemma day_intervals_print:
  "separated is \<Longrightarrow> day_intervals d (map (print_window d') is) = (if d' = d then is else [])"
  by (induction "is") (auto simp: separated_def valid_print)

lemma day_intervals_days:
  assumes "distinct (map fst gs)" "\<forall>g \<in> set gs. \<forall>i \<in> set (snd g). fst i < snd i \<and> snd i < 1440"
  shows "day_intervals d (concat (map print_day gs)) =
    (case map_of gs d of None \<Rightarrow> [] | Some is \<Rightarrow> merge_intervals is)"
  using assms
proof (induction gs)
  case (Cons g gs)
  have "separated (merge_intervals (snd g))" using Cons.prems by (intro merge_intervals_inv) simp
  moreover have "map_of gs (fst g) = None" using Cons.prems(1) by (simp add: map_of_eq_None_iff)
  ultimately show ?case
    using Cons by (cases g) (auto simp: print_day_def day_intervals_print)
qed simp

lemma day_intervals_normalized:
  assumes "\<exists>w \<in> set ws. valid_interval w \<noteq> None"
  shows "day_intervals d (normalize_windows ws) = merge_intervals (day_intervals d ws)"
    and "normalize_windows ws = concat (map print_day (days ws))"
proof -
  have bounds: "\<forall>g \<in> set (days ws). \<forall>i \<in> set (snd g). fst i < snd i \<and> snd i < 1440"
    using days_elem day_intervals_bounds by metis
  have all: "day_intervals d (concat (map print_day (days ws))) = merge_intervals (day_intervals d ws)" for d
    using day_intervals_days [OF days_distinct bounds, of d]
    by (simp add: map_of_days merge_intervals_def)
  obtain d' i where "i \<in> set (day_intervals d' ws)"
    using assms by (auto simp: day_intervals_iff)
  then have "merge_intervals (day_intervals d' ws) \<noteq> []"
    using merge_intervals_inv(2) [OF day_intervals_bounds, of d' ws] by (metis empty_iff list.set(1))
  then have "concat (map print_day (days ws)) \<noteq> []" using all [of d'] by (metis day_intervals.simps(1))
  then show n: "normalize_windows ws = concat (map print_day (days ws))"
    using assms by (auto simp: normalize_windows_alt Let_def)
  show "day_intervals d (normalize_windows ws) = merge_intervals (day_intervals d ws)"
    by (simp only: n all)
qed

lemma default_windows_printed:
  "default_maintenance_windows =
     [print_window Fri (300, 420), print_window Sat (1155, 1275), print_window Sun (1155, 1245)]"
  by code_simp

section \<open>Canonical lists of windows\<close>

definition before :: "weekday \<times> nat \<times> nat \<Rightarrow> weekday \<times> nat \<times> nat \<Rightarrow> bool" where
  "before a b = (fst a < fst b \<or> (fst a = fst b \<and> snd (snd a) < fst (snd b)))"

text \<open>All windows valid, days in order, the windows of a day apart and in order.\<close>
definition canonical :: "window_config list \<Rightarrow> bool" where
  "canonical ws = ((\<forall>w \<in> set ws. valid_interval w \<noteq> None) \<and>
     sorted_wrt before (map (\<lambda>w. the (valid_interval w)) ws))"

lemma canonical_append:
  "canonical (ws @ vs) \<longleftrightarrow> canonical ws \<and> canonical vs \<and>
     (\<forall>w \<in> set ws. \<forall>v \<in> set vs. before (the (valid_interval w)) (the (valid_interval v)))"
  by (auto simp: canonical_def sorted_wrt_append)

lemma print_day_elem:
  assumes "\<forall>i \<in> set (snd g). fst i < snd i \<and> snd i < 1440" "w \<in> set (print_day g)"
  shows "\<exists>i. valid_interval w = Some (fst g, i)"
proof -
  have "separated (merge_intervals (snd g))" using assms(1) by (rule merge_intervals_inv)
  then show ?thesis using assms(2) by (auto simp: print_day_def separated_def valid_print)
qed

lemma canonical_print_day:
  assumes "\<forall>i \<in> set (snd g). fst i < snd i \<and> snd i < 1440"
  shows "canonical (print_day g)"
proof -
  have "canonical (map (print_window d) is)" if "separated is" for d "is"
  proof -
    have valid: "valid_interval (print_window d i) = Some (d, i)" if "i \<in> set is" for i
    proof -
      have "fst i < snd i" "snd i < 1440" using that \<open>separated is\<close> by (simp_all add: separated_def)
      from valid_print [OF this, of d] show ?thesis by simp
    qed
    then have m: "map (\<lambda>w. the (valid_interval w)) (map (print_window d) is) = map (Pair d) is" by simp
    have "sorted_wrt before (map (Pair d) is)"
      using that by (simp add: separated_def before_def sorted_wrt_map)
    moreover have "\<forall>w \<in> set (map (print_window d) is). valid_interval w \<noteq> None" using valid by auto
    ultimately show ?thesis unfolding canonical_def m by blast
  qed
  then show ?thesis using merge_intervals_inv(1) [OF assms] by (simp add: print_day_def)
qed

lemma canonical_days:
  assumes "sorted_wrt (<) (map fst gs)" "\<forall>g \<in> set gs. \<forall>i \<in> set (snd g). fst i < snd i \<and> snd i < 1440"
  shows "canonical (concat (map print_day gs))"
  using assms
proof (induction gs)
  case Nil
  then show ?case by (simp add: canonical_def)
next
  case (Cons g gs)
  have "before (the (valid_interval w)) (the (valid_interval v))"
    if "w \<in> set (print_day g)" "g' \<in> set gs" "v \<in> set (print_day g')" for w v g'
    using print_day_elem [of g w] print_day_elem [of g' v] that Cons.prems by (fastforce simp: before_def)
  then show ?case using Cons canonical_print_day [of g] by (auto simp: canonical_append)
qed

lemma days_sorted: "sorted_wrt (<) (map fst (days ws))"
  using days_distinct [of ws] sorted_sort_key [of fst "group_windows ws []"] by (simp add: strict_sorted_iff)

lemma canonical_normalized: "canonical (normalize_windows ws)"
proof -
  have "\<forall>g \<in> set (days ws). \<forall>i \<in> set (snd g). fst i < snd i \<and> snd i < 1440"
    using days_elem day_intervals_bounds by metis
  then have "canonical (concat (map print_day (days ws)))" using days_sorted canonical_days by blast
  moreover have "canonical default_maintenance_windows"
    by (simp add: default_windows_printed canonical_def valid_print before_def less_weekday_def)
  ultimately show ?thesis by (simp add: normalize_windows_alt Let_def)
qed

section \<open>Normalising twice\<close>

lemma update_new: "d \<notin> fst ` set g \<Longrightarrow> AList.update d v g = g @ [(d, v)]"
  by (induction g) auto

lemma update_last: "d \<notin> fst ` set g \<Longrightarrow> AList.update d v (g @ [(d, u)]) = g @ [(d, v)]"
  by (induction g) auto

lemma group_print:
  assumes "separated is" "d \<notin> fst ` set g"
  shows "group_windows (map (print_window d) is @ ws) (g @ [(d, js)]) = group_windows ws (g @ [(d, js @ is)])"
  using assms(1)
proof (induction "is" arbitrary: js)
  case (Cons i "is")
  have "valid_interval (print_window d i) = Some (d, i)"
    using Cons.prems valid_print [of "fst i" "snd i" d] by (simp add: separated_def)
  moreover have "map_of g d = None" using assms(2) by (simp add: map_of_eq_None_iff)
  ultimately show ?case
    using Cons.IH [of "js @ [i]"] Cons.prems assms(2)
    by (simp add: separated_def map_add_def update_last)
qed simp

lemma group_print_new:
  assumes "separated is" "is \<noteq> []" "d \<notin> fst ` set g"
  shows "group_windows (map (print_window d) is @ ws) g = group_windows ws (g @ [(d, is)])"
proof -
  obtain i js where "is": "is = i # js" using assms(2) by (cases "is") auto
  have "valid_interval (print_window d i) = Some (d, i)"
    using assms(1) valid_print [of "fst i" "snd i" d] by (simp add: "is" separated_def)
  moreover have "map_of g d = None" using assms(3) by (simp add: map_of_eq_None_iff)
  moreover have "separated js" using assms(1) by (simp add: "is" separated_def)
  ultimately show ?thesis
    using group_print [of js d g ws "[i]"] assms(3) by (simp add: "is" update_new)
qed

definition merged_days :: "(weekday \<times> (nat \<times> nat) list) list \<Rightarrow> (weekday \<times> (nat \<times> nat) list) list" where
  "merged_days gs = map (\<lambda>g. (fst g, merge_intervals (snd g))) gs"

lemma merged_days_simps [simp]:
  "merged_days [] = []" "merged_days (g # gs) = (fst g, merge_intervals (snd g)) # merged_days gs"
  "fst ` set (merged_days gs) = fst ` set gs"
  by (simp_all add: merged_days_def image_image)

lemma group_printed:
  assumes "distinct (map fst gs)" "fst ` set h \<inter> fst ` set gs = {}"
    "\<forall>g \<in> set gs. snd g \<noteq> [] \<and> (\<forall>i \<in> set (snd g). fst i < snd i \<and> snd i < 1440)"
  shows "group_windows (concat (map print_day gs)) h = h @ merged_days gs"
  using assms
proof (induction gs arbitrary: h)
  case (Cons g gs)
  let ?m = "merge_intervals (snd g)"
  have "separated ?m" "?m \<noteq> []" using Cons.prems(3) merge_intervals_inv by auto
  moreover have "fst g \<notin> fst ` set h" using Cons.prems(2) by auto
  ultimately have "group_windows (concat (map print_day (g # gs))) h =
      group_windows (concat (map print_day gs)) (h @ [(fst g, ?m)])"
    using group_print_new [of ?m "fst g" h] by (simp add: print_day_def)
  also have "\<dots> = (h @ [(fst g, ?m)]) @ merged_days gs"
    using Cons.prems by (intro Cons.IH) auto
  finally show ?case by simp
qed simp

lemma normalize_idem: "normalize_windows (normalize_windows ws) = normalize_windows ws"
proof (cases "concat (map print_day (days ws)) = []")
  case True
  then have "normalize_windows ws = default_maintenance_windows" by (simp add: normalize_windows_alt Let_def)
  moreover have "normalize_windows default_maintenance_windows = default_maintenance_windows"
    by (simp add: normalize_windows_alt default_windows_printed valid_print Let_def print_day_def
        merge_intervals_def merge_step_def less_eq_weekday_def)
  ultimately show ?thesis by simp
next
  case False
  then have n: "normalize_windows ws = concat (map print_day (days ws))"
    by (auto simp: normalize_windows_alt Let_def)
  have b: "\<forall>g \<in> set (days ws). snd g \<noteq> [] \<and> (\<forall>i \<in> set (snd g). fst i < snd i \<and> snd i < 1440)"
    using days_elem day_intervals_bounds by metis
  have "group_windows (normalize_windows ws) [] = merged_days (days ws)"
    using group_printed [OF days_distinct _ b, of "[]"] n by simp
  moreover have "sort_key fst (merged_days (days ws)) = merged_days (days ws)"
    by (rule sort_key_id_if_sorted) (use sorted_sort_key [of fst "group_windows ws []"] in \<open>simp add: merged_days_def comp_def\<close>)
  moreover have "print_day (fst g, merge_intervals (snd g)) = print_day g" if "g \<in> set (days ws)" for g
    using b that merge_intervals_inv(1) [of "snd g"] by (simp add: print_day_def merge_separated)
  then have "map print_day (merged_days (days ws)) = map print_day (days ws)"
    by (simp add: merged_days_def del: set_sort)
  ultimately have "concat (map print_day (days (normalize_windows ws))) = concat (map print_day (days ws))"
    by (simp only:)
  then show ?thesis
    using normalize_windows_alt [of "normalize_windows ws"] False unfolding Let_def n by (simp only:) simp
qed

section \<open>Properties\<close>

text \<open>C19: normalising the maintenance windows keeps exactly the covered minutes of every weekday, as
  long as one configured window is valid: invalid windows never counted, and merging overlapping
  or adjacent ones neither adds nor loses a minute.\<close>
theorem normalize_keeps_coverage:
  assumes "\<exists>w \<in> set ws. valid_interval w \<noteq> None"
  shows "in_window (normalize_windows ws) d t \<longleftrightarrow> in_window ws d t"
  unfolding in_window_day day_intervals_normalized(1) [OF assms]
  using merge_intervals_inv(3) [OF day_intervals_bounds] by simp

definition sample_windows :: "window_config list" where
  "sample_windows = [print_window Sat (600, 700), print_window Fri (60, 120), print_window Sat (650, 800),
     \<lparr>wc_weekday = ''Fooday'', wc_start_time = ''05:00'', wc_end_time = ''07:00''\<rparr>]"

theorem normalize_keeps_coverage_witness: "in_window (normalize_windows sample_windows) Sat 750"
proof -
  have "in_window sample_windows Sat 750" "\<exists>w \<in> set sample_windows. valid_interval w \<noteq> None"
    by (simp_all add: in_window_def sample_windows_def valid_print)
  then show ?thesis using normalize_keeps_coverage [of sample_windows Sat 750] by blast
qed

text \<open>C27: the normalised list is canonical, whatever was configured: every window parses, the days are in
  order from Monday, and the windows of a day are in order with a gap between them; normalising
  it again changes nothing.\<close>
theorem normalize_canonical_idempotent:
  "canonical (normalize_windows ws) \<and> normalize_windows (normalize_windows ws) = normalize_windows ws"
  using canonical_normalized normalize_idem by blast

text \<open>a time of day printed by \<open>minutes_to_hhmm\<close> parses back to its hours and minutes.\<close>
theorem hhmm_round_trip:
  assumes "t < 1440"
  shows "parse_hhmm_strict (minutes_to_hhmm t) = Some (t div 60, t mod 60)"
  by (rule parse_minutes [OF assms])

theorem hhmm_round_trip_witness: "parse_hhmm_strict (minutes_to_hhmm 725) = Some (12, 5)"
  using hhmm_round_trip [of 725] by simp

end
