(* ===== verification/Config_Roles.thy ===== *)
theory Config_Roles
  imports Config
begin

text \<open>
  Roles in \<open>config.rs\<close>: the identity of a role, the groups and the per-role formations that
  \<open>build_bins\<close> collects and the resolution finds again.
\<close>

section \<open>Paths and keys\<close>

lemma strip_dot_slash_idem: "strip_dot_slash (strip_dot_slash s) = strip_dot_slash s"
  by (induction s rule: strip_dot_slash.induct) auto

lemma replace_backslash_idem [simp]: "replace_backslash (replace_backslash s) = replace_backslash s"
  by (auto simp: replace_backslash_def replace_char_def)

lemma strip_dot_slash_suffix: "\<exists>t. s = t @ strip_dot_slash s"
proof (induction s rule: strip_dot_slash.induct)
  case (1 c d s)
  show ?case
  proof (cases "c = CHR ''.'' \<and> d = CHR ''/''")
    case True
    then obtain t where "s = t @ strip_dot_slash s" using 1 by blast
    then have "c # d # s = (c # d # t) @ strip_dot_slash (c # d # s)" using True by simp
    then show ?thesis by blast
  qed auto
qed auto

lemma no_backslash_replaced: "CHR 0x5C \<notin> set (replace_backslash s)"
  by (auto simp: replace_backslash_def replace_char_def split: if_splits)

lemma replace_backslash_id: "CHR 0x5C \<notin> set s \<Longrightarrow> replace_backslash s = s"
  by (auto simp: replace_backslash_def replace_char_def intro!: map_idI)

lemma normalized_no_backslash: "CHR 0x5C \<notin> set (normalize_path_for_id p)"
proof -
  obtain t where "replace_backslash p = t @ normalize_path_for_id p"
    using strip_dot_slash_suffix [of "replace_backslash p"] by (auto simp: normalize_path_for_id_def)
  then show ?thesis using no_backslash_replaced [of p] by (metis Un_iff set_append)
qed

lemma normalize_path_idem: "normalize_path_for_id (normalize_path_for_id p) = normalize_path_for_id p"
  using replace_backslash_id [OF normalized_no_backslash [of p]] strip_dot_slash_idem
  by (metis normalize_path_for_id_def)

lemma nat_str_no_colon: "CHR '':'' \<notin> set (nat_str n)"
proof
  assume "CHR '':'' \<in> set (nat_str n)"
  from nat_str_digits [OF this] show False by simp
qed

lemma rsplit_role_key: "rsplit_once (CHR '':'') (role_key p n) = Some (p, nat_str n)"
  using rsplit_once_append [OF nat_str_no_colon, where s = p] by (simp add: role_key_def)

lemma nat_str_inject [simp]: "nat_str m = nat_str n \<longleftrightarrow> m = n"
  by (metis option.inject parse_digits_nat_str)

lemma role_key_inject: "role_key p n = role_key q m \<longleftrightarrow> p = q \<and> n = m"
proof
  assume "role_key p n = role_key q m"
  then have "Some (p, nat_str n) = Some (q, nat_str m)" by (metis rsplit_role_key)
  then show "p = q \<and> n = m" by simp
qed simp

section \<open>The file name of a runtime path\<close>

lemma split_on_last_piece:
  "CHR ''/'' \<notin> set b \<Longrightarrow> \<exists>x xs. split_on (CHR ''/'') (p @ CHR ''/'' # b) = (x # xs) @ [b]"
proof (induction p)
  case Nil
  then show ?case by (simp add: split_on_no_sep)
next
  case (Cons c p)
  then obtain x xs where "split_on (CHR ''/'') (p @ CHR ''/'' # b) = (x # xs) @ [b]" by blast
  then show ?case by simp
qed

lemma split_on_last:
  "CHR ''/'' \<notin> set b \<Longrightarrow> last (split_on (CHR ''/'') (p @ CHR ''/'' # b)) = b"
  using split_on_last_piece [of b p] by auto

lemma split_on_pieces: "q \<in> set (split_on c s) \<Longrightarrow> c \<notin> set q"
proof (induction s arbitrary: q)
  case (Cons x s)
  then show ?case by (cases "split_on c s") (auto split: if_splits)
qed simp

lemma split_on_chars: "q \<in> set (split_on c s) \<Longrightarrow> set q \<subseteq> set s"
proof (induction s arbitrary: q)
  case (Cons x s)
  obtain p ps where p: "split_on c s = p # ps" using split_on_not_Nil [of c s] by (cases "split_on c s") auto
  have "set p \<subseteq> set s" "\<And>r. r \<in> set ps \<Longrightarrow> set r \<subseteq> set s" using Cons.IH p by simp_all
  then show ?case using Cons.prems p by (auto split: if_splits dest: subsetD)
qed simp

lemma file_name_piece: "file_name p = Some n \<Longrightarrow> n \<in> set (split_on (CHR ''/'') p)"
proof -
  assume "file_name p = Some n"
  then have "n \<in> set (filter (\<lambda>c. c \<noteq> ''.'') (path_components p))"
    using last_in_set [of "filter (\<lambda>c. c \<noteq> ''.'') (path_components p)"]
    by (auto simp: file_name_def Let_def simp del: set_filter split: if_splits)
  then show ?thesis by (auto simp: path_components_def Let_def split: if_splits)
qed

lemmas file_name_no_slash = split_on_pieces [OF file_name_piece]
lemmas file_name_chars = split_on_chars [OF file_name_piece]

text \<open>A bin given by a plain file name.\<close>
definition plain_name :: "string \<Rightarrow> bool" where
  "plain_name b = (b \<notin> {[], ''.'', ''..''} \<and> CHR ''/'' \<notin> set b \<and> CHR 0x5C \<notin> set b)"

lemma last_filter: "xs \<noteq> [] \<Longrightarrow> P (last xs) \<Longrightarrow> last (filter P xs) = last xs \<and> filter P xs \<noteq> []"
  by (induction xs rule: rev_induct) auto

lemma file_name_runtime:
  assumes "plain_name b"
  shows "file_name (p @ ''/'' @ b) = Some b"
proof -
  let ?s = "split_on (CHR ''/'') (p @ CHR ''/'' # b)"
  have l: "last ?s = b" "?s \<noteq> []" using assms by (auto simp: plain_name_def split_on_last)
  have ok: "b \<noteq> []" "b \<noteq> ''.''" "b \<noteq> ''..''" using assms by (auto simp: plain_name_def)
  have 1: "last (filter (\<lambda>c. c \<noteq> [] \<and> c \<noteq> ''.'') ?s) = b" "filter (\<lambda>c. c \<noteq> [] \<and> c \<noteq> ''.'') ?s \<noteq> []"
    using last_filter [of ?s "\<lambda>c. c \<noteq> [] \<and> c \<noteq> ''.''"] l ok by auto
  have "last (path_components (p @ ''/'' @ b)) = b" "path_components (p @ ''/'' @ b) \<noteq> []"
    using 1 by (auto simp: path_components_def Let_def)
  then have "last (filter (\<lambda>c. c \<noteq> ''.'') (path_components (p @ ''/'' @ b))) = b"
    "filter (\<lambda>c. c \<noteq> ''.'') (path_components (p @ ''/'' @ b)) \<noteq> []"
    using last_filter [of "path_components (p @ ''/'' @ b)" "\<lambda>c. c \<noteq> ''.''"] ok by auto
  then show ?thesis using ok by (simp add: file_name_def Let_def)
qed

lemma bin_name_runtime:
  assumes "plain_name b"
  shows "bin_name_from_path (build_runtime_bin_path dir b) = b" "normalize_path_for_id b = b"
proof -
  have r: "replace_backslash b = b" using assms by (auto simp: plain_name_def intro: replace_backslash_id)
  have "strip_dot_slash b = b"
    using assms by (cases b rule: strip_dot_slash.cases) (auto simp: plain_name_def)
  then show n: "normalize_path_for_id b = b" by (simp add: normalize_path_for_id_def r)
  have "build_runtime_bin_path dir b = dir @ ''/'' @ b"
    using assms by (simp add: build_runtime_bin_path_def Let_def n plain_name_def)
  then show "bin_name_from_path (build_runtime_bin_path dir b) = b"
    using file_name_runtime [OF assms, of dir] by (simp add: bin_name_from_path_def r)
qed

section \<open>What \<open>build_bins\<close> collects\<close>

lemma map_of_update [simp]: "map_of (AList.update k v m) = (map_of m)(k \<mapsto> v)"
  by (rule update_conv')

text \<open>The override of server \<open>sid\<close>: the last role of the bin with that server and a formation.\<close>
fun last_formation :: "yaml_role list \<Rightarrow> nat \<Rightarrow> formation_override option" where
  "last_formation [] sid = None"
| "last_formation (r # rs) sid =
     or_else (last_formation rs sid) (if yr_server_id r = sid then yr_formations r else None)"

text \<open>The members of group \<open>g\<close>, in configuration order.\<close>
definition bin_members :: "string \<Rightarrow> yaml_role list \<Rightarrow> string \<Rightarrow> (string \<times> nat) list" where
  "bin_members path roles g = map (\<lambda>r. (path, yr_server_id r)) (filter (\<lambda>r. yr_group r = Some g) roles)"

definition group_members :: "string \<Rightarrow> yaml_bin list \<Rightarrow> string \<Rightarrow> (string \<times> nat) list" where
  "group_members dir bs g =
     concat (map (\<lambda>b. bin_members (build_runtime_bin_path dir (normalize_path_for_id (yb_bin b))) (yb_roles b) g) bs)"

lemma build_roles_formations:
  "build_roles valid presets path roles (gs, fm, dm) = (gs', fm', dm') \<Longrightarrow>
     map_of fm' sid = or_else (last_formation roles sid) (map_of fm sid)"
proof (induction roles arbitrary: gs fm dm)
  case (Cons r roles)
  let ?fm = "case yr_formations r of None \<Rightarrow> fm | Some f \<Rightarrow> AList.update (yr_server_id r) f fm"
  have "map_of fm' sid = or_else (last_formation roles sid) (map_of ?fm sid)"
    by (rule Cons.IH) (use Cons.prems in \<open>simp add: Let_def\<close>)
  then show ?case
    by (cases "last_formation roles sid"; cases "yr_formations r") auto
qed auto

lemma build_roles_groups:
  "build_roles valid presets path roles (gs, fm, dm) = (gs', fm', dm') \<Longrightarrow>
     map_of gs' g = (if g \<in> set valid \<and> bin_members path roles g \<noteq> []
       then Some (unwrap_or (map_of gs g) [] @ bin_members path roles g) else map_of gs g)"
proof (induction roles arbitrary: gs fm dm)
  case Nil
  then show ?case by (simp add: bin_members_def)
next
  case (Cons r roles)
  let ?gs = "case yr_group r of None \<Rightarrow> gs
     | Some h \<Rightarrow> if h \<in> set valid then AList.update h (unwrap_or (map_of gs h) [] @ [(path, yr_server_id r)]) gs else gs"
  have "map_of gs' g = (if g \<in> set valid \<and> bin_members path roles g \<noteq> []
       then Some (unwrap_or (map_of ?gs g) [] @ bin_members path roles g) else map_of ?gs g)"
    by (rule Cons.IH) (use Cons.prems in \<open>simp add: Let_def\<close>)
  then show ?case
    by (cases "yr_group r") (auto simp: bin_members_def split: if_splits)
qed

lemma build_bins_groups:
  "map_of (role_groups (build_bins_loop presets bs rb fm dm c)) g =
     (if g \<in> set (groups c) \<and> group_members (default_bin_path c) bs g \<noteq> []
      then Some (unwrap_or (map_of (role_groups c) g) [] @ group_members (default_bin_path c) bs g)
      else map_of (role_groups c) g)"
proof (induction presets bs rb fm dm c rule: build_bins_loop.induct)
  case (1 presets rb fm dm c)
  then show ?case by (simp add: group_members_def)
next
  case (2 presets b bs rb fm dm c)
  let ?n = "normalize_path_for_id (yb_bin b)"
  let ?p = "build_runtime_bin_path (default_bin_path c) ?n"
  obtain gs fm' dm' where run: "build_roles (groups c) presets ?p (yb_roles b) (role_groups c, [], []) = (gs, fm', dm')"
    by (metis prod_cases3)
  have m: "group_members (default_bin_path c) (b # bs) g = bin_members ?p (yb_roles b) g @ group_members (default_bin_path c) bs g"
    by (simp add: group_members_def)
  show ?case
    using 2 [OF refl refl refl run [symmetric] refl refl refl] build_roles_groups [OF run, of g] run
    by (auto simp: m Let_def)
qed

definition bin_name :: "yaml_bin \<Rightarrow> string" where
  "bin_name b = normalize_path_for_id (yb_bin b)"

definition override_at :: "(string \<times> formations_map) list \<Rightarrow> string \<Rightarrow> nat \<Rightarrow> formation_override option" where
  "override_at fm n sid = Option.bind (map_of fm n) (\<lambda>m. map_of m sid)"

lemma build_bins_formations:
  "distinct (map bin_name bs) \<Longrightarrow> (\<forall>b \<in> set bs. map_of fm (bin_name b) = None) \<Longrightarrow>
     override_at (role_formations (build_bins_loop presets bs rb fm dm c)) n sid =
     (case find (\<lambda>b. bin_name b = n) bs of
        None \<Rightarrow> override_at fm n sid
      | Some b \<Rightarrow> last_formation (yb_roles b) sid)"
proof (induction presets bs rb fm dm c rule: build_bins_loop.induct)
  case (2 presets b bs rb fm dm c)
  let ?n = "normalize_path_for_id (yb_bin b)"
  let ?p = "build_runtime_bin_path (default_bin_path c) ?n"
  obtain gs rm dr where run: "build_roles (groups c) presets ?p (yb_roles b) (role_groups c, [], []) = (gs, rm, dr)"
    by (metis prod_cases3)
  let ?fm = "if rm = [] then fm else AList.update ?n rm fm"
  have rm: "map_of rm s = last_formation (yb_roles b) s" for s
    using build_roles_formations [OF run, of s] by (cases "last_formation (yb_roles b) s") simp_all
  have "bin_name b' \<noteq> bin_name b" if "b' \<in> set bs" for b'
    using "2.prems"(1) that by (metis distinct.simps(2) image_eqI list.simps(9) set_map)
  then have "\<forall>b' \<in> set bs. map_of ?fm (bin_name b') = None"
    using "2.prems"(2) by (simp add: bin_name_def)
  then have IH: "override_at (role_formations (build_bins_loop presets (b # bs) rb fm dm c)) n sid =
     (case find (\<lambda>b. bin_name b = n) bs of
        None \<Rightarrow> override_at ?fm n sid
      | Some b \<Rightarrow> last_formation (yb_roles b) sid)"
    using "2.IH" [OF refl refl refl run [symmetric] refl refl refl] "2.prems" run by (simp add: Let_def)
  show ?case
  proof (cases "bin_name b = n")
    case True
    then have "bin_name b' \<noteq> n" if "b' \<in> set bs" for b'
      using "2.prems"(1) that by (metis distinct.simps(2) image_eqI list.simps(9) set_map)
    then have "find (\<lambda>b. bin_name b = n) bs = None" by (auto simp: find_None_iff)
    moreover have "override_at ?fm n sid = last_formation (yb_roles b) sid"
      using True rm [of sid] "2.prems"(2) by (auto simp: override_at_def bin_name_def)
    ultimately show ?thesis unfolding IH using True by simp
  next
    case False
    then have eq: "override_at ?fm n sid = override_at fm n sid" by (simp add: override_at_def bin_name_def)
    show ?thesis unfolding IH eq using False by simp
  qed
qed simp

lemma build_bins_keeps [simp]:
  "formation_default (build_bins_loop presets bs rb fm dm c) = formation_default c"
  "bins (build_bins_loop presets bs rb fm dm c) = rb @ map (\<lambda>b. \<lparr>bc_bin = bin_name b,
     bc_path = build_runtime_bin_path (default_bin_path c) (bin_name b),
     bc_server_ids = map yr_server_id (yb_roles b)\<rparr>) bs"
  by (induction bs arbitrary: rb fm dm c) (simp_all add: Let_def bin_name_def split: prod.split)

lemma resolve_via_override:
  "resolve_formation_with_source c path sid ctx =
    (case Option.bind (override_at (role_formations c) (bin_name_from_path path) sid) (\<lambda>f. override_resolve f ctx) of
       Some team \<Rightarrow> (team, ''role'') | None \<Rightarrow> (defaults_resolve (formation_default c) ctx, ''default''))"
  by (simp add: resolve_formation_with_source_def override_at_def)

section \<open>Properties\<close>

text \<open>the identity of a role is unambiguous: different path and server give different keys, and the
  key splits back at its last colon into the path and the decimal server number.\<close>
theorem role_key_unambiguous:
  "(role_key p n = role_key q m \<longleftrightarrow> p = q \<and> n = m) \<and>
   rsplit_once (CHR '':'') (role_key p n) = Some (p, nat_str n)"
  using role_key_inject rsplit_role_key by blast

definition sample_config :: batch_config where
  "sample_config = \<lparr>concurrency = 5, delay_between_ms = 2000, schedule_time = ''06:00'',
     friday_daily_start_time = ''12:10'', maintenance_windows = default_maintenance_windows, max_daily_retries = 3,
     check_interval_secs = 60, hangup_threshold_hours = u64_to_f64 8, bottle_threshold_hours = u64_to_f64 1,
     legacy_interval_hours = u64_to_f64 4, bin_output_dir = ''bins/'', default_bin_path = ''bins'', bins = [],
     formation_default = \<lparr>fd_arena = 1, fd_tower = 1, fd_evotower = 1, fd_boss_daily = 1, fd_boss_legion = 1\<rparr>,
     role_formations = [], role_dream_shop = [], car_enabled = True, weekly_schedule_day = Sat,
     study_enabled = True, tower_enabled = True, evotower_enabled = True, gacha_enabled = True,
     groups = [''g''], role_groups = []\<rparr>"

definition sample_role :: yaml_role where
  "sample_role = \<lparr>yr_server_id = 77,
     yr_formations = Some \<lparr>fo_arena = Some 4, fo_tower = None, fo_evotower = None, fo_boss_daily = None,
       fo_boss_legion = None\<rparr>, yr_dream_shop = None, yr_group = Some ''g''\<rparr>"

lemma sample_names:
  "bin_name \<lparr>yb_bin = ''a.bin'', yb_roles = rs\<rparr> = ''a.bin''"
  "bin_name \<lparr>yb_bin = ''x/a.bin'', yb_roles = rs\<rparr> = ''x/a.bin''"
  by (simp_all add: bin_name_def normalize_path_for_id_def replace_backslash_def replace_char_def)

text \<open>a group holds exactly the roles configured for it, in configuration order, each under the
  runtime path of its bin; a group that is not declared in \<open>groups\<close> or has no role is an error.\<close>
theorem group_roles_exact:
  assumes "role_groups c = []"
  shows "group_roles (build_bins bs presets c) g =
    (if g \<in> set (groups c) \<and> group_members (default_bin_path c) bs g \<noteq> []
     then Ok (group_members (default_bin_path c) bs g)
     else Err (''group '' @ [CHR 0x27] @ g @ [CHR 0x27] @ '' not found''))"
  using build_bins_groups [of presets bs "[]" "[]" "[]" c g] assms by (simp add: group_roles_def build_bins_def)

theorem group_roles_exact_witness:
  "group_roles (build_bins [\<lparr>yb_bin = ''a.bin'', yb_roles = [sample_role]\<rparr>] [] sample_config) ''g'' =
     Ok [(''bins/a.bin'', 77)]"
  using group_roles_exact [of sample_config "[\<lparr>yb_bin = ''a.bin'', yb_roles = [sample_role]\<rparr>]" "[]" "''g''"]
    sample_names(1) [of "[sample_role]"]
  by (simp add: sample_config_def sample_role_def group_members_def bin_members_def bin_name_def
      build_runtime_bin_path_def normalize_path_for_id_def replace_backslash_def replace_char_def)

text \<open>for bins given by plain file names, all different, the formation of a role is the one its last
  configuration entry overrides, and the default otherwise.\<close>
theorem formation_of_plain_bin:
  assumes "distinct (map bin_name bs)" "b \<in> set bs" "plain_name (bin_name b)"
  shows "resolve_formation_with_source (build_bins bs presets c)
      (build_runtime_bin_path (default_bin_path c) (bin_name b)) sid ctx =
    (case Option.bind (last_formation (yb_roles b) sid) (\<lambda>f. override_resolve f ctx) of
       Some team \<Rightarrow> (team, ''role'') | None \<Rightarrow> (defaults_resolve (formation_default c) ctx, ''default''))"
proof -
  have "find (\<lambda>b'. bin_name b' = bin_name b) bs = Some b"
    using assms(1,2) by (induction bs) (auto simp: image_iff)
  then show ?thesis
    using build_bins_formations [OF assms(1), of "[]" presets "[]" "[]" c "bin_name b" sid]
      bin_name_runtime(1) [OF assms(3)]
    by (simp add: resolve_via_override build_bins_def split: option.split)
qed

theorem formation_of_plain_bin_witness:
  "resolve_formation_with_source (build_bins [\<lparr>yb_bin = ''a.bin'', yb_roles = [sample_role]\<rparr>] [] sample_config)
     (build_runtime_bin_path ''bins'' ''a.bin'') 77 Arena = (4, ''role'')"
proof -
  have "plain_name ''a.bin''" by (simp add: plain_name_def)
  then show ?thesis
    using formation_of_plain_bin [of "[\<lparr>yb_bin = ''a.bin'', yb_roles = [sample_role]\<rparr>]"
        "\<lparr>yb_bin = ''a.bin'', yb_roles = [sample_role]\<rparr>" "[]" sample_config 77 Arena]
    by (simp add: sample_names sample_role_def override_resolve_def) (simp add: sample_config_def)
qed

text \<open>for a bin given with a directory the role's own formation is never found: the overrides are
  stored under the configured name, which contains the slash, but looked up under the file name
  of the runtime path.  The default formation is used for every role of such a bin.\<close>
theorem formation_of_bin_with_directory_lost:
  assumes "CHR ''/'' \<in> set (bin_name b)" "file_name (bin_name b) \<noteq> None"
  shows "resolve_formation_with_source (build_bins [b] presets c)
      (build_runtime_bin_path (default_bin_path c) (bin_name b)) sid ctx =
    (defaults_resolve (formation_default c) ctx, ''default'')"
proof -
  have p: "build_runtime_bin_path (default_bin_path c) (bin_name b) = bin_name b"
    using assms(1) by (simp add: build_runtime_bin_path_def bin_name_def normalize_path_idem)
  obtain n where n: "file_name (bin_name b) = Some n" using assms(2) by blast
  have "CHR 0x5C \<notin> set n"
    using file_name_chars [OF n] normalized_no_backslash [of "yb_bin b"] by (auto simp: bin_name_def)
  then have "bin_name_from_path (bin_name b) = n" by (simp add: bin_name_from_path_def n replace_backslash_id)
  moreover have "bin_name b \<noteq> n" using file_name_no_slash [OF n] assms(1) by auto
  ultimately show ?thesis
    using build_bins_formations [of "[b]" "[]" presets "[]" "[]" c n sid]
    by (simp add: resolve_via_override build_bins_def p override_at_def del: build_bins_loop.simps)
qed

theorem formation_of_bin_with_directory_lost_witness:
  "resolve_formation_with_source (build_bins [\<lparr>yb_bin = ''x/a.bin'', yb_roles = [sample_role]\<rparr>] [] sample_config)
     ''x/a.bin'' 77 Arena = (1, ''default'')"
proof -
  have "file_name ''x/a.bin'' \<noteq> None" by (simp add: file_name_def path_components_def)
  then show ?thesis
    using formation_of_bin_with_directory_lost [of "\<lparr>yb_bin = ''x/a.bin'', yb_roles = [sample_role]\<rparr>" "[]"
        sample_config 77 Arena] sample_names(2) [of "[sample_role]"]
      normalize_path_idem [of "''x/a.bin''"]
    by (simp add: build_runtime_bin_path_def bin_name_def) (simp add: sample_config_def defaults_resolve_def)
qed

end
