(* ===== verification/Crypto.thy ===== *)
theory Crypto
  imports Text
begin

text \<open>
  \<open>src/src/crypto.rs\<close>: the two packet encryptors, \<open>XorCrypto\<close> ("px" packets) and \<open>Lz4Crypto\<close>
  ("pl" packets), the mask hidden in bytes 2 and 3, and \<open>try_auto_decrypt\<close>, which recognises the
  packet by its two magic bytes.  The random mask and the four random bytes are arguments.  The
  lz4 frame format is third-party code: \<open>compress\<close> (\<open>FrameEncoder\<close>, \<open>None\<close> for an error) and
  \<open>frame_read\<close> (\<open>FrameDecoder\<close> read to the end with at most the given number of bytes taken, the
  error already as text) are parameters, and \<open>lz4_frames\<close> states what the crate documents of them.
\<close>

section \<open>The mask\<close>

definition bit_at :: "u8 \<Rightarrow> nat \<Rightarrow> u8" where
  "bit_at b i = drop_bit i b AND 1"

text \<open>Bytes 2 and 3 carry the mask in their even bits, the upper half first.\<close>
definition hide_hi :: "u8 \<Rightarrow> u8 \<Rightarrow> u8" where
  "hide_hi b key = (b AND 0xAA) OR push_bit 6 (bit_at key 7) OR push_bit 4 (bit_at key 6)
     OR push_bit 2 (bit_at key 5) OR bit_at key 4"

definition hide_lo :: "u8 \<Rightarrow> u8 \<Rightarrow> u8" where
  "hide_lo b key = (b AND 0xAA) OR push_bit 6 (bit_at key 3) OR push_bit 4 (bit_at key 2)
     OR push_bit 2 (bit_at key 1) OR bit_at key 0"

definition extract_mask :: "bytes \<Rightarrow> u8 option" where
  "extract_mask data =
     (if length data < 4 then None
      else let b2 = data ! 2; b3 = data ! 3 in
        Some (push_bit 7 (bit_at b2 6) OR push_bit 6 (bit_at b2 4) OR push_bit 5 (bit_at b2 2)
          OR push_bit 4 (bit_at b2 0) OR push_bit 3 (bit_at b3 6) OR push_bit 2 (bit_at b3 4)
          OR push_bit 1 (bit_at b3 2) OR bit_at b3 0))"

section \<open>XorCrypto\<close>

definition xor_encrypt :: "u8 \<Rightarrow> u32 \<Rightarrow> bytes \<Rightarrow> bytes" where
  "xor_encrypt key rnd data =
     (let n = [ucast rnd, ucast (drop_bit 8 rnd), ucast (drop_bit 16 rnd), ucast (drop_bit 24 rnd)] @ data;
          n = map (\<lambda>b. b XOR key) n
      in n[0 := 112, 1 := 120, 2 := hide_hi (n ! 2) key, 3 := hide_lo (n ! 3) key])"

definition xor_decrypt :: "bytes \<Rightarrow> bytes" where
  "xor_decrypt data =
     (case extract_mask data of
        None \<Rightarrow> []
      | Some key \<Rightarrow> map (\<lambda>b. b XOR key) (drop 4 data))"

section \<open>Lz4Crypto\<close>

definition DEFAULT_MAX_DECOMPRESSED_SIZE :: nat where
  "DEFAULT_MAX_DECOMPRESSED_SIZE = 32 * 1024 * 1024"

text \<open>XOR with the mask on the positions from \<open>lo\<close> up to 100.\<close>
definition mask_head :: "nat \<Rightarrow> u8 \<Rightarrow> bytes \<Rightarrow> bytes" where
  "mask_head lo key bs = take lo bs @ map (\<lambda>b. b XOR key) (drop lo (take 100 bs)) @ drop 100 bs"

definition lz4_encrypt :: "(bytes \<Rightarrow> bytes option) \<Rightarrow> u8 \<Rightarrow> bytes \<Rightarrow> bytes" where
  "lz4_encrypt compress key data =
     (case compress data of
        None \<Rightarrow> []
      | Some compressed \<Rightarrow>
          let encrypted = mask_head 0 key compressed
          in encrypted[0 := 112, 1 := 108, 2 := hide_hi (encrypted ! 2) key, 3 := hide_lo (encrypted ! 3) key])"

definition decrypt_lz4_checked :: "(bytes \<Rightarrow> nat \<Rightarrow> bytes res) \<Rightarrow> bytes \<Rightarrow> nat \<Rightarrow> bytes res" where
  "decrypt_lz4_checked frame_read data max_size =
     (case extract_mask data of
        None \<Rightarrow> Err ''truncated lx payload''
      | Some key \<Rightarrow>
          let decrypted = [4, 34, 77, 24] @ drop 4 (mask_head 2 key data)
          in case frame_read decrypted (max_size + 1) of
               Inl e \<Rightarrow> Err (''LZ4 decode failed: '' @ e)
             | Inr output \<Rightarrow>
                 if max_size < length output
                 then Err (''LZ4 output exceeds limit: '' @ nat_str (length output) @ '' > '' @
                   nat_str max_size @ '' bytes'')
                 else Ok output)"

definition lz4_decrypt :: "(bytes \<Rightarrow> nat \<Rightarrow> bytes res) \<Rightarrow> bytes \<Rightarrow> bytes" where
  "lz4_decrypt frame_read data =
     unwrap_or (ok (decrypt_lz4_checked frame_read data DEFAULT_MAX_DECOMPRESSED_SIZE)) []"

section \<open>By name, and by magic bytes\<close>

datatype encryptor = XorCrypto | Lz4Crypto

definition get_encryptor :: "string \<Rightarrow> encryptor" where
  "get_encryptor name =
     (if name = ''x'' then XorCrypto else if name = ''lx'' then Lz4Crypto else XorCrypto)"

definition encrypt_with :: "(bytes \<Rightarrow> bytes option) \<Rightarrow> encryptor \<Rightarrow> u8 \<Rightarrow> u32 \<Rightarrow> bytes \<Rightarrow> bytes" where
  "encrypt_with compress enc key rnd data =
     (case enc of XorCrypto \<Rightarrow> xor_encrypt key rnd data | Lz4Crypto \<Rightarrow> lz4_encrypt compress key data)"

definition decrypt_with :: "(bytes \<Rightarrow> nat \<Rightarrow> bytes res) \<Rightarrow> encryptor \<Rightarrow> bytes \<Rightarrow> bytes" where
  "decrypt_with frame_read enc data =
     (case enc of XorCrypto \<Rightarrow> xor_decrypt data | Lz4Crypto \<Rightarrow> lz4_decrypt frame_read data)"

definition try_auto_decrypt :: "(bytes \<Rightarrow> nat \<Rightarrow> bytes res) \<Rightarrow> bytes \<Rightarrow> nat \<Rightarrow> bytes res" where
  "try_auto_decrypt frame_read data max_size =
     (if 2 \<le> length data \<and> take 2 data = [112, 108] then decrypt_lz4_checked frame_read data max_size
      else if 2 \<le> length data \<and> take 2 data = [112, 120] then
        if length data < 4 then Err ''truncated x payload''
        else if max_size < length data - 4 then
          Err (''x payload exceeds limit: '' @ nat_str (length data - 4) @ '' > '' @ nat_str max_size @ '' bytes'')
        else Ok (xor_decrypt data)
      else if max_size < length data then
        Err (''plain payload exceeds limit: '' @ nat_str (length data) @ '' > '' @ nat_str max_size @ '' bytes'')
      else Ok data)"

definition auto_decrypt :: "(bytes \<Rightarrow> nat \<Rightarrow> bytes res) \<Rightarrow> bytes \<Rightarrow> bytes" where
  "auto_decrypt frame_read data =
     unwrap_or (ok (try_auto_decrypt frame_read data DEFAULT_MAX_DECOMPRESSED_SIZE)) []"

section \<open>The mask survives\<close>

lemma bit_at_bit: "bit (bit_at b i) n \<longleftrightarrow> n = 0 \<and> bit b i"
  by (auto simp: bit_at_def bit_simps)

lemma word8_cases: "n < 8 \<Longrightarrow> n = 0 \<or> n = 1 \<or> n = 2 \<or> n = 3 \<or> n = 4 \<or> n = 5 \<or> n = 6 \<or> n = (7::nat)"
  by linarith

lemma bits_0xAA: "\<not> bit (0xAA :: int) 0" "\<not> bit (0xAA :: int) 2" "\<not> bit (0xAA :: int) 4" "\<not> bit (0xAA :: int) 6"
  by (simp_all add: bit_iff_odd_drop_bit)

lemma hide_hi_bits:
  "bit (hide_hi b key) 6 = bit key 7" "bit (hide_hi b key) 4 = bit key 6"
  "bit (hide_hi b key) 2 = bit key 5" "bit (hide_hi b key) 0 = bit key 4"
  by (auto simp: hide_hi_def bit_simps bit_at_bit bits_0xAA)

lemma hide_lo_bits:
  "bit (hide_lo b key) 6 = bit key 3" "bit (hide_lo b key) 4 = bit key 2"
  "bit (hide_lo b key) 2 = bit key 1" "bit (hide_lo b key) 0 = bit key 0"
  by (auto simp: hide_lo_def bit_simps bit_at_bit bits_0xAA)

lemma extract_hidden: "extract_mask (b0 # b1 # hide_hi b2 key # hide_lo b3 key # bs) = Some key"
proof -
  have "push_bit 7 (bit_at (hide_hi b2 key) 6) OR push_bit 6 (bit_at (hide_hi b2 key) 4)
      OR push_bit 5 (bit_at (hide_hi b2 key) 2) OR push_bit 4 (bit_at (hide_hi b2 key) 0)
      OR push_bit 3 (bit_at (hide_lo b3 key) 6) OR push_bit 2 (bit_at (hide_lo b3 key) 4)
      OR push_bit 1 (bit_at (hide_lo b3 key) 2) OR bit_at (hide_lo b3 key) 0 = key" (is "?l = key")
  proof (rule bit_word_eqI)
    fix n :: nat assume "n < LENGTH(8)"
    then have "n = 0 \<or> n = 1 \<or> n = 2 \<or> n = 3 \<or> n = 4 \<or> n = 5 \<or> n = 6 \<or> n = 7"
      by (intro word8_cases) simp
    then show "bit ?l n = bit key n"
      by (elim disjE) (simp_all only: bit_or_iff bit_push_bit_iff bit_at_bit hide_hi_bits hide_lo_bits, simp_all)
  qed
  then show ?thesis by (simp add: extract_mask_def numeral_2_eq_2 numeral_3_eq_3)
qed

lemma xor_twice: "map (\<lambda>b. b XOR key) (map (\<lambda>b. b XOR key) bs) = (bs :: bytes)"
  by (induction bs) (simp_all add: xor.assoc)

lemma xor_encrypt_shape:
  "\<exists>b2 b3. xor_encrypt key rnd data =
     112 # 120 # hide_hi b2 key # hide_lo b3 key # map (\<lambda>b. b XOR key) data"
  by (auto simp: xor_encrypt_def Let_def numeral_2_eq_2 numeral_3_eq_3)

lemma xor_decrypt_encrypt: "xor_decrypt (xor_encrypt key rnd data) = data"
proof -
  obtain b2 b3 where "xor_encrypt key rnd data =
     112 # 120 # hide_hi b2 key # hide_lo b3 key # map (\<lambda>b. b XOR key) data"
    using xor_encrypt_shape by blast
  then show ?thesis
    using xor_twice [of key data] by (simp add: xor_decrypt_def extract_hidden numeral_eq_Suc)
qed

lemma length_xor_encrypt: "length (xor_encrypt key rnd data) = length data + 4"
  by (simp add: xor_encrypt_def Let_def)

lemma auto_decrypt_xor:
  "try_auto_decrypt frame_read (xor_encrypt key rnd data) max_size =
     (if length data \<le> max_size then Ok data
      else Err (''x payload exceeds limit: '' @ nat_str (length data) @ '' > '' @ nat_str max_size @ '' bytes''))"
proof -
  obtain b2 b3 where s: "xor_encrypt key rnd data =
     112 # 120 # hide_hi b2 key # hide_lo b3 key # map (\<lambda>b. b XOR key) data"
    using xor_encrypt_shape by blast
  have "take 2 (xor_encrypt key rnd data) = [112, 120]" by (simp add: s numeral_2_eq_2)
  then show ?thesis
    by (simp add: try_auto_decrypt_def length_xor_encrypt xor_decrypt_encrypt)
qed

section \<open>The lz4 packets, given the frame format\<close>

text \<open>A frame starts with the magic number \<open>0x184D2204\<close> in little-endian order and has at least a
  header and an end mark; reading back a frame of \<open>data\<close> with at most \<open>n\<close> bytes taken gives the
  first \<open>n\<close> bytes of \<open>data\<close>.\<close>
definition lz4_frames :: "(bytes \<Rightarrow> bytes option) \<Rightarrow> (bytes \<Rightarrow> nat \<Rightarrow> bytes res) \<Rightarrow> bool" where
  "lz4_frames compress frame_read =
     (\<forall>data frame. compress data = Some frame \<longrightarrow>
        7 \<le> length frame \<and> take 4 frame = [4, 34, 77, 24] \<and> (\<forall>n. frame_read frame n = Ok (take n data)))"

lemma mask_head_frame:
  assumes "7 \<le> length frame" "take 4 frame = [4, 34, 77, 24]"
  shows "\<exists>b2 b3. (mask_head 0 key frame)[0 := 112, 1 := 108, 2 := hide_hi (mask_head 0 key frame ! 2) key,
       3 := hide_lo (mask_head 0 key frame ! 3) key] =
     112 # 108 # hide_hi b2 key # hide_lo b3 key # drop 4 (mask_head 0 key frame)"
proof -
  have "4 \<le> length (mask_head 0 key frame)" using assms by (simp add: mask_head_def)
  then obtain a b c d r where "mask_head 0 key frame = a # b # c # d # r"
    by (auto simp: eval_nat_numeral Suc_le_length_iff)
  then show ?thesis by (auto simp: numeral_2_eq_2 numeral_3_eq_3 eval_nat_numeral)
qed

lemma mask_head_back:
  assumes "4 \<le> length frame" "length xs = 4"
  shows "drop 4 (mask_head 2 key (xs @ drop 4 (mask_head 0 key frame))) = drop 4 frame"
proof -
  obtain hd4 rest where f: "frame = hd4 @ rest" "length hd4 = 4"
    using assms(1) by (metis append_take_drop_id length_take min.absorb2)
  have "drop 4 (mask_head 0 key frame) = map (\<lambda>b. b XOR key) (take 96 rest) @ drop 96 rest"
    using f by (simp add: mask_head_def)
  then have "drop 4 (mask_head 2 key (xs @ drop 4 (mask_head 0 key frame))) =
      map (\<lambda>b. b XOR key) (take 96 (map (\<lambda>b. b XOR key) (take 96 rest) @ drop 96 rest)) @
      drop 96 (map (\<lambda>b. b XOR key) (take 96 rest) @ drop 96 rest)"
    using assms(2) by (simp add: mask_head_def)
  also have "\<dots> = rest"
  proof (cases "length rest \<le> 96")
    case True
    then show ?thesis using xor_twice [of key rest] by simp
  next
    case False
    then show ?thesis using xor_twice [of key "take 96 rest"] by simp
  qed
  finally show ?thesis using f by simp
qed

lemma lz4_decrypt_encrypt:
  assumes "lz4_frames compress frame_read" "compress data = Some frame"
  shows "try_auto_decrypt frame_read (lz4_encrypt compress key data) max_size =
    (if length data \<le> max_size then Ok data
     else Err (''LZ4 output exceeds limit: '' @ nat_str (Suc max_size) @ '' > '' @ nat_str max_size @ '' bytes''))"
proof -
  have f: "7 \<le> length frame" "take 4 frame = [4, 34, 77, 24]" "frame_read frame n = Ok (take n data)" for n
    using assms by (auto simp: lz4_frames_def)
  obtain b2 b3 where e: "lz4_encrypt compress key data =
      112 # 108 # hide_hi b2 key # hide_lo b3 key # drop 4 (mask_head 0 key frame)"
    using mask_head_frame [OF f(1,2), of key] assms(2) by (auto simp: lz4_encrypt_def Let_def)
  have "drop 4 (mask_head 2 key (lz4_encrypt compress key data)) = drop 4 frame"
    using mask_head_back [of frame "[112, 108, hide_hi b2 key, hide_lo b3 key]" key] f(1) by (simp add: e)
  then have frame: "[4, 34, 77, 24] @ drop 4 (mask_head 2 key (lz4_encrypt compress key data)) = frame"
    using f(2) by (metis append_take_drop_id)
  have "take 2 (lz4_encrypt compress key data) = [112, 108]" "2 \<le> length (lz4_encrypt compress key data)"
    by (simp_all add: e numeral_2_eq_2)
  moreover have "extract_mask (lz4_encrypt compress key data) = Some key" by (simp add: e extract_hidden)
  ultimately have "try_auto_decrypt frame_read (lz4_encrypt compress key data) max_size =
      (case frame_read frame (max_size + 1) of
               Inl e \<Rightarrow> Err (''LZ4 decode failed: '' @ e)
             | Inr output \<Rightarrow>
                 if max_size < length output
                 then Err (''LZ4 output exceeds limit: '' @ nat_str (length output) @ '' > '' @
                   nat_str max_size @ '' bytes'')
                 else Ok output)"
    unfolding try_auto_decrypt_def decrypt_lz4_checked_def Let_def using frame by simp
  moreover have "min (length data) (Suc max_size) = Suc max_size" if "max_size < length data"
    using that by simp
  ultimately show ?thesis using f(3) by (cases "length data \<le> max_size") (simp_all add: not_le)
qed

section \<open>Properties\<close>

text \<open>an "x" packet is recognised by its magic bytes and opened whatever the random mask and the
  random bytes were, up to the size limit; beyond it the packet is refused.  It carries its mask and
  is four bytes longer than the data.\<close>
theorem xor_packet_opens:
  "extract_mask (xor_encrypt key rnd data) = Some key \<and>
   length (xor_encrypt key rnd data) = length data + 4 \<and>
   try_auto_decrypt frame_read (xor_encrypt key rnd data) max_size =
     (if length data \<le> max_size then Ok data
      else Err (''x payload exceeds limit: '' @ nat_str (length data) @ '' > '' @ nat_str max_size @ '' bytes''))"
  using xor_encrypt_shape [of key rnd data] by (auto simp: extract_hidden length_xor_encrypt auto_decrypt_xor)

text \<open>an "lx" packet is recognised and opened up to the decompression limit, and refused beyond it,
  given the documented behaviour of the lz4 frame encoder and decoder (\<open>lz4_frames\<close>).\<close>
theorem lz4_packet_opens:
  assumes "lz4_frames compress frame_read" "compress data = Some frame"
  shows "try_auto_decrypt frame_read (lz4_encrypt compress key data) max_size =
    (if length data \<le> max_size then Ok data
     else Err (''LZ4 output exceeds limit: '' @ nat_str (Suc max_size) @ '' > '' @ nat_str max_size @ '' bytes''))"
  by (rule lz4_decrypt_encrypt [OF assms])

text \<open>A frame format without compression, enough to see that the hypotheses can hold.\<close>
definition stored_frame :: "bytes \<Rightarrow> bytes option" where
  "stored_frame data = Some ([4, 34, 77, 24, 0, 0, 0] @ data)"

definition stored_read :: "bytes \<Rightarrow> nat \<Rightarrow> bytes res" where
  "stored_read frame n = Ok (take n (drop 7 frame))"

theorem lz4_packet_opens_witness:
  "try_auto_decrypt stored_read (lz4_encrypt stored_frame 37 [1, 2, 3]) 16 = Ok [1, 2, 3]"
proof -
  have "lz4_frames stored_frame stored_read"
    by (simp add: lz4_frames_def stored_frame_def stored_read_def eval_nat_numeral)
  from lz4_packet_opens [OF this, of "[1, 2, 3]" _ 37 16] show ?thesis by (simp add: stored_frame_def)
qed

text \<open>packets too short to carry a mask are rejected, never indexed out of bounds: the magic of
  either format followed by fewer than two bytes gives an error.\<close>
theorem truncated_packet_rejected:
  assumes "length rest < 2"
  shows "try_auto_decrypt frame_read (112 # 120 # rest) max_size = Err ''truncated x payload'' \<and>
    try_auto_decrypt frame_read (112 # 108 # rest) max_size = Err ''truncated lx payload''"
proof -
  have "take 2 (a # b # rest) = [a, b]" for a b :: u8 by (simp add: numeral_2_eq_2)
  then show ?thesis using assms by (simp add: try_auto_decrypt_def decrypt_lz4_checked_def extract_mask_def)
qed

theorem truncated_packet_rejected_witness:
  "try_auto_decrypt stored_read [112, 120, 7] 100 = Err ''truncated x payload''"
  using truncated_packet_rejected [of "[7]" stored_read 100] by simp

end
