(* ===== verification/Protocol.thy ===== *)
theory Protocol
  imports Bon_Packet Crypto
begin

text \<open>
  \<open>src/src/protocol.rs\<close>: the message object with its field accessors, the decoding of its body
  and the parsing and building of packets.  \<open>frame_read\<close> and \<open>compress\<close> are the lz4 parameters of
  \<open>Crypto\<close>, \<open>show\<close> the decoder's \<open>Display\<close> parameter; the random mask and bytes are arguments.
\<close>

section \<open>Messages\<close>

record proto_msg =
  raw :: object
  body_decode_limits :: limits

definition proto_with_limits :: "object \<Rightarrow> limits \<Rightarrow> proto_msg" where
  "proto_with_limits obj lim = \<lparr>raw = obj, body_decode_limits = lim\<rparr>"

definition proto_new :: "object \<Rightarrow> proto_msg" where
  "proto_new obj = proto_with_limits obj limits_default"

text \<open>\<open>u32::try_from\<close> and \<open>i32::try_from\<close>.\<close>
definition u32_try_from :: "u64 \<Rightarrow> u32 option" where
  "u32_try_from v = (if uint v < 2 ^ 32 then Some (ucast v) else None)"

definition i32_try_from :: "i64 \<Rightarrow> i32 option" where
  "i32_try_from v = (if - (2 ^ 31) \<le> sint v \<and> sint v < 2 ^ 31 then Some (ucast v) else None)"

definition msg_u32 :: "string \<Rightarrow> proto_msg \<Rightarrow> u32" where
  "msg_u32 k m =
     unwrap_or (Option.bind (Option.bind (obj_get (raw m) k) as_u64) u32_try_from) 0"

definition msg_cmd :: "proto_msg \<Rightarrow> string option" where
  "msg_cmd m = Option.bind (obj_get (raw m) ''cmd'') as_str"

definition msg_ack :: "proto_msg \<Rightarrow> u32" where
  "msg_ack m = msg_u32 ''ack'' m"

definition msg_seq :: "proto_msg \<Rightarrow> u32" where
  "msg_seq m = msg_u32 ''seq'' m"

definition msg_time :: "proto_msg \<Rightarrow> i64" where
  "msg_time m = unwrap_or (Option.bind (obj_get (raw m) ''time'') as_i64) 0"

definition msg_code_opt :: "proto_msg \<Rightarrow> i32 option" where
  "msg_code_opt m = Option.bind (Option.bind (obj_get (raw m) ''code'') as_i64) i32_try_from"

definition msg_code :: "proto_msg \<Rightarrow> i32" where
  "msg_code m = unwrap_or (msg_code_opt m) 0"

definition msg_error :: "proto_msg \<Rightarrow> string option" where
  "msg_error m = Option.bind (obj_get (raw m) ''error'') as_str"

definition msg_body :: "proto_msg \<Rightarrow> json option" where
  "msg_body m = obj_get (raw m) ''body''"

definition msg_resp :: "proto_msg \<Rightarrow> u32" where
  "msg_resp m = msg_u32 ''resp'' m"

definition msg_hint :: "proto_msg \<Rightarrow> string option" where
  "msg_hint m = Option.bind (obj_get (raw m) ''hint'') as_str"

definition get_data :: "proto_msg \<Rightarrow> object" where
  "get_data m =
     (case Option.bind (msg_body m) as_object of Some obj \<Rightarrow> obj | None \<Rightarrow> raw m)"

definition raw_data_result :: "(json \<Rightarrow> string) \<Rightarrow> proto_msg \<Rightarrow> json option res" where
  "raw_data_result show m =
     (case msg_body m of
        None \<Rightarrow> Ok None
      | Some (Str s) \<Rightarrow>
          (case base64_decode s of
             None \<Rightarrow> Err ''body base64 decode failed''
           | Some bs \<Rightarrow>
               (case decode_with_limits show bs (body_decode_limits m) of
                  None \<Rightarrow> Err ''body BON decode failed''
                | Some v \<Rightarrow> Ok (Some v)))
      | Some (Object obj) \<Rightarrow> Ok (Some (Object obj))
      | Some Null \<Rightarrow> Ok None
      | Some _ \<Rightarrow> Err ''body is neither BON binary nor an object'')"

definition raw_data :: "(json \<Rightarrow> string) \<Rightarrow> proto_msg \<Rightarrow> json option" where
  "raw_data show m = Option.bind (ok (raw_data_result show m)) (\<lambda>x. x)"

section \<open>Parsing and building packets\<close>

definition DEFAULT_MAX_WIRE_SIZE :: nat where
  "DEFAULT_MAX_WIRE_SIZE = 8 * 1024 * 1024"

definition parse_message_with_limits ::
  "(json \<Rightarrow> string) \<Rightarrow> (bytes \<Rightarrow> nat \<Rightarrow> bytes res) \<Rightarrow> bytes \<Rightarrow> nat \<Rightarrow> nat \<Rightarrow> limits \<Rightarrow> proto_msg res"
where
  "parse_message_with_limits show frame_read data max_wire_size max_decompressed_size lim =
     (if max_wire_size < length data then
        Err (''wire payload exceeds limit: '' @ nat_str (length data) @ '' > '' @ nat_str max_wire_size @ '' bytes'')
      else
        (case try_auto_decrypt frame_read data max_decompressed_size of
           Inl e \<Rightarrow> Err e
         | Inr decrypted \<Rightarrow>
             (case decode_with_limits show decrypted lim of
                None \<Rightarrow> Err ''BON decode failed''
              | Some (Object obj) \<Rightarrow> Ok (proto_with_limits obj lim)
              | Some _ \<Rightarrow> Err ''Expected object'')))"

definition parse_message ::
  "(json \<Rightarrow> string) \<Rightarrow> (bytes \<Rightarrow> nat \<Rightarrow> bytes res) \<Rightarrow> bytes \<Rightarrow> proto_msg res"
where
  "parse_message show frame_read data =
     parse_message_with_limits show frame_read data (32 * 1024 * 1024) DEFAULT_MAX_DECOMPRESSED_SIZE limits_default"

definition parse_message_limited ::
  "(json \<Rightarrow> string) \<Rightarrow> (bytes \<Rightarrow> nat \<Rightarrow> bytes res) \<Rightarrow> bytes \<Rightarrow> nat \<Rightarrow> nat \<Rightarrow> proto_msg res"
where
  "parse_message_limited show frame_read data max_wire_size max_decompressed_size =
     parse_message_with_limits show frame_read data max_wire_size max_decompressed_size limits_proxy"

definition parse_message_enc ::
  "(json \<Rightarrow> string) \<Rightarrow> (bytes \<Rightarrow> nat \<Rightarrow> bytes res) \<Rightarrow> bytes \<Rightarrow> string \<Rightarrow> proto_msg res"
where
  "parse_message_enc show frame_read data enc_name =
     (let decrypted = decrypt_with frame_read (get_encryptor enc_name) data
      in case decode show decrypted of
           None \<Rightarrow> Err ''BON decode failed''
         | Some (Object obj) \<Rightarrow> Ok (proto_new obj)
         | Some _ \<Rightarrow> Err ''Expected object'')"

definition create_message :: "(bytes \<Rightarrow> bytes option) \<Rightarrow> u8 \<Rightarrow> u32 \<Rightarrow> object \<Rightarrow> string option \<Rightarrow> bytes" where
  "create_message compress key rnd data enc_name =
     (let enc = get_encryptor (unwrap_or enc_name ''x'');
          encoded = encode (Object data)
      in encrypt_with compress enc key rnd encoded)"

section \<open>A sealed channel\<close>

text \<open>What the parser relies on: sealed bytes up to a size are recognised and opened.\<close>
locale channel =
  fixes seal :: "bytes \<Rightarrow> bytes"
    and frame_read :: "bytes \<Rightarrow> nat \<Rightarrow> bytes res"
    and overhead :: nat
  assumes opens: "length data \<le> n \<Longrightarrow> try_auto_decrypt frame_read (seal data) n = Ok data"
    and sealed_length: "length (seal data) \<le> length data + overhead"
begin

lemma parse_sealed:
  assumes "length data + overhead \<le> max_wire" "length data \<le> max_plain"
  shows "parse_message_with_limits show frame_read (seal data) max_wire max_plain lim =
    (case decode_with_limits show data lim of
       None \<Rightarrow> Err ''BON decode failed''
     | Some (Object obj) \<Rightarrow> Ok (proto_with_limits obj lim)
     | Some _ \<Rightarrow> Err ''Expected object'')"
proof -
  have "length (seal data) \<le> max_wire" using sealed_length [of data] assms(1) by simp
  then show ?thesis using opens [OF assms(2)] by (simp add: parse_message_with_limits_def)
qed

lemma parse_sealed_object:
  assumes "admissible lim (Object obj)" "survives (Object obj)"
    "length (encode (Object obj)) + overhead \<le> max_wire" "length (encode (Object obj)) \<le> max_plain"
  shows "parse_message_with_limits show frame_read (seal (encode (Object obj))) max_wire max_plain lim =
    Ok (proto_with_limits obj lim)"
  using decode_encode [OF assms(1), of "show" "[]"] wire_survives [OF assms(2)]
  by (simp add: parse_sealed [OF assms(3,4)])

lemma parse_sealed_packet:
  assumes "packet_fits lim cmd body" "length (encode_game_packet cmd ack seq time body) + overhead \<le> max_wire"
    "length (encode_game_packet cmd ack seq time body) \<le> max_plain"
  shows "parse_message_with_limits show frame_read (seal (encode_game_packet cmd ack seq time body)) max_wire max_plain lim =
    Ok (proto_with_limits (packet_fields cmd ack seq time body) lim)"
  using decode_game_packet [OF assms(1), of "show" ack seq time "[]"]
  by (simp add: parse_sealed [OF assms(2,3)])

end

interpretation xor_channel: channel "xor_encrypt key rnd" frame_read 4 for key rnd frame_read
  by unfold_locales (simp_all add: auto_decrypt_xor length_xor_encrypt)

section \<open>What the accessors return for a packet\<close>

lemma u32_try_from_ucast: "u32_try_from (ucast (a :: u32)) = Some a"
proof -
  have a: "0 \<le> uint a" "uint a < 4294967296" using uint_bounded [of a] by simp_all
  then have "uint (ucast a :: u64) = uint a" by (simp add: unsigned_ucast_eq take_bit_int_eq_self)
  moreover have "ucast (ucast a :: u64) = a"
    by (rule bit_word_eqI) (simp add: bit_simps)
  ultimately show ?thesis using a by (simp add: u32_try_from_def)
qed

lemma packet_accessors:
  "msg_cmd (proto_with_limits (packet_fields cmd ack seq time body) lim) = Some cmd"
  "msg_ack (proto_with_limits (packet_fields cmd ack seq time body) lim) = ack"
  "msg_seq (proto_with_limits (packet_fields cmd ack seq time body) lim) = seq"
  "msg_body (proto_with_limits (packet_fields cmd ack seq time body) lim) =
     map_option (\<lambda>params. Str (base64_encode (encode params))) body"
  "msg_code_opt (proto_with_limits (packet_fields cmd ack seq time body) lim) = None"
  by (cases body; simp add: proto_with_limits_def packet_fields_def msg_cmd_def msg_ack_def msg_seq_def msg_u32_def
      msg_body_def msg_code_opt_def as_u64_def u32_try_from_ucast)+

lemma packet_time:
  assumes "number_survives (number_from_i64 time)"
  shows "msg_time (proto_with_limits (packet_fields cmd ack seq time body) lim) = time"
proof -
  have "wire_number (number_from_i64 time) = Number (number_from_i64 time)"
    by (rule wire_number_survives [OF assms])
  moreover have "num_as_i64 (number_from_i64 time) = Some time"
    using assms by (auto simp: number_from_i64_def split: if_splits)
  ultimately show ?thesis
    by (cases body) (simp_all add: proto_with_limits_def packet_fields_def msg_time_def as_i64_def)
qed

lemma packet_raw_data:
  assumes "admissible lim params"
  shows "raw_data_result show (proto_with_limits (packet_fields cmd ack seq time (Some params)) lim) =
    Ok (Some (wire params))"
  using decode_encode [OF assms, of "show" "[]"] packet_accessors(4) [of cmd ack seq time "Some params" lim]
  by (simp add: raw_data_result_def base64_decode_encode) (simp add: proto_with_limits_def)

section \<open>Properties\<close>

text \<open>C2: a packet built by \<open>encode_game_packet\<close> and sealed by \<open>XorCrypto\<close>, with any random mask and bytes,
  parses back to a message whose command, ack, sequence number and time are the ones put in and
  whose body decodes to the parameters, when packet and parameters respect the size limits and the
  numbers are ones the wire keeps.\<close>
theorem packet_end_to_end:
  assumes "packet_fits lim cmd (Some params)" "admissible lim params" "survives params"
    "number_survives (number_from_i64 time)"
    "length (encode_game_packet cmd ack seq time (Some params)) + 4 \<le> max_wire"
    "length (encode_game_packet cmd ack seq time (Some params)) \<le> max_plain"
  shows "\<exists>m. parse_message_with_limits show frame_read
        (xor_encrypt key rnd (encode_game_packet cmd ack seq time (Some params))) max_wire max_plain lim = Ok m \<and>
      msg_cmd m = Some cmd \<and> msg_ack m = ack \<and> msg_seq m = seq \<and> msg_time m = time \<and>
      raw_data_result show m = Ok (Some params)"
  using xor_channel.parse_sealed_packet [OF assms(1,5,6), of "show" frame_read key rnd]
    packet_accessors [of cmd ack seq time "Some params" lim] packet_time [OF assms(4)]
    packet_raw_data [OF assms(2), of "show"] wire_survives [OF assms(3)]
  by simp

definition small_limits :: limits where
  "small_limits = \<lparr>max_depth = 8, max_collection_items = 16, max_value_bytes = 100, max_total_nodes = 20,
     max_total_value_bytes = 200\<rparr>"

theorem packet_end_to_end_witness:
  "\<exists>m. parse_message_with_limits (\<lambda>_. []) stored_read
        (xor_encrypt 37 9 (encode_game_packet ''role_getinfo'' 0 1 1000 (Some (Object [])))) 200 200 small_limits = Ok m \<and>
      msg_cmd m = Some ''role_getinfo'' \<and> raw_data_result (\<lambda>_. []) m = Ok (Some (Object []))"
proof -
  have len: "length (encode_game_packet ''role_getinfo'' 0 1 1000 (Some (Object []))) = 62"
    by code_simp
  have "length (encode (Object [])) = 2" by code_simp
  then have "packet_fits small_limits ''role_getinfo'' (Some (Object []))"
    by (simp add: packet_fits_def limits_ok_def small_limits_def packet_bytes_def str_valid_ascii ascii_def)
  moreover have "admissible small_limits (Object [])" "survives (Object [])"
    by (simp_all add: admissible_def limits_ok_def small_limits_def)
  moreover have "number_survives (number_from_i64 1000)" by (simp add: number_from_i64_def i64_max_def)
  ultimately show ?thesis
    using packet_end_to_end [of small_limits "''role_getinfo''" "Object []" 1000 0 1 200 200 "\<lambda>_. []" stored_read 37 9]
    by (simp add: len) blast
qed

text \<open>what \<open>create_message\<close> builds for an object, \<open>parse_message\<close> reads back as the same object, for the
  default encryptor and every name but "lx", when the object fits the default limits and the numbers
  are ones the wire keeps.\<close>
theorem create_parse_message:
  assumes "admissible limits_default (Object obj)" "survives (Object obj)"
    "length (encode (Object obj)) + 4 \<le> 32 * 1024 * 1024" "enc_name \<noteq> Some ''lx''"
  shows "parse_message show frame_read (create_message compress key rnd obj enc_name) =
    Ok (proto_with_limits obj limits_default)"
proof -
  have "get_encryptor (unwrap_or enc_name ''x'') = XorCrypto"
    using assms(4) by (cases enc_name) (auto simp: get_encryptor_def)
  then have "create_message compress key rnd obj enc_name = xor_encrypt key rnd (encode (Object obj))"
    by (simp add: create_message_def Let_def encrypt_with_def)
  then show ?thesis
    using xor_channel.parse_sealed_object [OF assms(1,2), of "32 * 1024 * 1024" DEFAULT_MAX_DECOMPRESSED_SIZE
        "show" frame_read key rnd] assms(3)
    by (simp add: parse_message_def DEFAULT_MAX_DECOMPRESSED_SIZE_def)
qed

theorem create_parse_message_witness:
  "parse_message (\<lambda>_. []) stored_read (create_message stored_frame 40 7 [(''k'', Str ''v'')] None) =
    Ok (proto_with_limits [(''k'', Str ''v'')] limits_default)"
proof -
  have "admissible limits_default (Object [(''k'', Str ''v'')])"
    by (simp add: admissible_def limits_ok_def limits_default_def str_fits_def str_valid_ascii ascii_def obj_sorted_def)
  moreover have "length (encode (Object [(''k'', Str ''v'')])) = 8" by code_simp
  ultimately show ?thesis by (intro create_parse_message) simp_all
qed

end
