(* ===== verification/F64.thy ===== *)
theory F64
  imports Float64
begin

text \<open>
  Arithmetic and comparison of \<open>f64\<close> on the bit patterns: exact results rounded to nearest, ties to
  even, with infinities and NaN.  A finite magnitude is a whole number of units of \<open>2 ^ -1074\<close>, so
  sums and products are computed on integers.  Rounding is monotone, hence adding or subtracting
  the same number keeps the order: the clock comparisons of the scheduler rest on that.
\<close>

section \<open>Values\<close>

definition f64_mag :: "f64 \<Rightarrow> nat" where
  "f64_mag w = unat w mod 2 ^ 63"

definition inf_mag :: nat where
  "inf_mag = 2047 * 2 ^ 52"

definition f64_nan :: "f64 \<Rightarrow> bool" where
  "f64_nan w = (inf_mag < f64_mag w)"

definition f64_inf :: "f64 \<Rightarrow> bool" where
  "f64_inf w = (f64_mag w = inf_mag)"

text \<open>The magnitude in units of \<open>2 ^ -1074\<close>.\<close>
definition mag_units :: "nat \<Rightarrow> nat" where
  "mag_units m =
     (if m < 2 ^ 52 then m else (2 ^ 52 + m mod 2 ^ 52) * 2 ^ (m div 2 ^ 52 - 1))"

definition f64_units :: "f64 \<Rightarrow> int" where
  "f64_units w = (if f64_negative w then - int (mag_units (f64_mag w)) else int (mag_units (f64_mag w)))"

text \<open>The order of the values, the same on both zeros.\<close>
definition f64_key :: "f64 \<Rightarrow> int" where
  "f64_key w = (if f64_negative w then - int (f64_mag w) else int (f64_mag w))"

definition f64_le :: "f64 \<Rightarrow> f64 \<Rightarrow> bool" where
  "f64_le a b = (\<not> f64_nan a \<and> \<not> f64_nan b \<and> f64_key a \<le> f64_key b)"

definition f64_lt :: "f64 \<Rightarrow> f64 \<Rightarrow> bool" where
  "f64_lt a b = (\<not> f64_nan a \<and> \<not> f64_nan b \<and> f64_key a < f64_key b)"

definition f64_of :: "bool \<Rightarrow> nat \<Rightarrow> f64" where
  "f64_of neg m = word_of_nat ((if neg then 2 ^ 63 else 0) + m)"

definition f64_NAN :: f64 where
  "f64_NAN = 0x7FF8000000000000"

text \<open>Rounding \<open>n\<close> units of \<open>2 ^ (-1074 - k)\<close>: at least \<open>k\<close> bits are dropped, more when the number has
  more than 53 bits left; the carry runs into the exponent.\<close>
definition round_mag :: "nat \<Rightarrow> nat \<Rightarrow> nat" where
  "round_mag k n =
     (if n = 0 then 0
      else let s = max (ilog2 n - 52) k
           in min inf_mag ((s - k) * 2 ^ 52 + round_even n s))"

definition f64_round :: "nat \<Rightarrow> int \<Rightarrow> f64" where
  "f64_round k x = f64_of (x < 0) (round_mag k (nat \<bar>x\<bar>))"

definition f64_neg :: "f64 \<Rightarrow> f64" where
  "f64_neg w = f64_of (\<not> f64_negative w) (f64_mag w)"

definition f64_add :: "f64 \<Rightarrow> f64 \<Rightarrow> f64" where
  "f64_add a b =
     (if f64_nan a \<or> f64_nan b then f64_NAN
      else if f64_inf a then (if f64_inf b \<and> f64_negative a \<noteq> f64_negative b then f64_NAN else a)
      else if f64_inf b then b
      else if f64_mag a = 0 \<and> f64_mag b = 0 \<and> f64_negative a \<and> f64_negative b then a
      else f64_round 0 (f64_units a + f64_units b))"

definition f64_sub :: "f64 \<Rightarrow> f64 \<Rightarrow> f64" where
  "f64_sub a b = f64_add a (f64_neg b)"

text \<open>The exact quotient cut far below the smallest unit, with a last bit that says whether anything was cut.\<close>
definition f64_div :: "f64 \<Rightarrow> f64 \<Rightarrow> f64" where
  "f64_div a b =
     (let neg = (f64_negative a \<noteq> f64_negative b) in
      if f64_nan a \<or> f64_nan b then f64_NAN
      else if f64_inf a then (if f64_inf b then f64_NAN else f64_of neg inf_mag)
      else if f64_inf b then f64_of neg 0
      else if f64_mag b = 0 then (if f64_mag a = 0 then f64_NAN else f64_of neg inf_mag)
      else let n = mag_units (f64_mag a) * 2 ^ 3174; d = mag_units (f64_mag b)
           in f64_of neg (round_mag 2101 (2 * (n div d) + (if n mod d = 0 then 0 else 1))))"

text \<open>\<open>f64::max\<close>\<close>
definition f64_max :: "f64 \<Rightarrow> f64 \<Rightarrow> f64" where
  "f64_max a b = (if f64_nan a then b else if f64_nan b then a else if f64_lt a b then b else a)"

text \<open>The casts \<open>as i64\<close> and \<open>as u64\<close>: towards zero, saturating, NaN to zero.\<close>
definition f64_trunc :: "f64 \<Rightarrow> int" where
  "f64_trunc w =
     (if f64_nan w then 0
      else let m = int (mag_units (f64_mag w) div 2 ^ 1074) in if f64_negative w then - m else m)"

definition f64_as_i64 :: "f64 \<Rightarrow> int" where
  "f64_as_i64 w = max (- (2 ^ 63)) (min (2 ^ 63 - 1) (f64_trunc w))"

definition f64_as_u64 :: "f64 \<Rightarrow> nat" where
  "f64_as_u64 w = nat (min (2 ^ 64 - 1) (f64_trunc w))"

definition f64_mul :: "f64 \<Rightarrow> f64 \<Rightarrow> f64" where
  "f64_mul a b =
     (let neg = (f64_negative a \<noteq> f64_negative b) in
      if f64_nan a \<or> f64_nan b then f64_NAN
      else if f64_inf a \<or> f64_inf b then
        (if f64_mag a = 0 \<or> f64_mag b = 0 then f64_NAN else f64_of neg inf_mag)
      else f64_of neg (round_mag 1074 (mag_units (f64_mag a) * mag_units (f64_mag b))))"

section \<open>Rounding is monotone\<close>

lemma ilog2_mono: "0 < m \<Longrightarrow> m \<le> n \<Longrightarrow> ilog2 m \<le> ilog2 n"
proof -
  assume m: "0 < m" "m \<le> n"
  have "2 ^ ilog2 m \<le> m" "n < 2 ^ Suc (ilog2 n)" using ilog2_bounds [of m] ilog2_bounds [of n] m by auto
  then have "(2 :: nat) ^ ilog2 m < 2 ^ Suc (ilog2 n)" using m by linarith
  then have "ilog2 m < Suc (ilog2 n)" by (rule power_less_imp_less_exp [rotated]) simp
  then show ?thesis by simp
qed

lemma round_even_mono: "m \<le> n \<Longrightarrow> round_even m s \<le> round_even n s"
proof -
  assume le: "m \<le> n"
  have q: "m div 2 ^ s \<le> n div 2 ^ s" using le by (rule div_le_mono)
  show ?thesis
  proof (cases "m div 2 ^ s = n div 2 ^ s")
    case True
    then have "m mod 2 ^ s \<le> n mod 2 ^ s"
      using le div_mult_mod_eq [of m "2 ^ s"] div_mult_mod_eq [of n "2 ^ s"] by (metis add_le_cancel_left)
    then show ?thesis using True by (auto simp: round_even_def Let_def)
  next
    case False
    then have "Suc (m div 2 ^ s) \<le> n div 2 ^ s" using q by simp
    then show ?thesis by (auto simp: round_even_def Let_def)
  qed
qed

lemma round_even_upper: "n < 2 ^ (b + s) \<Longrightarrow> round_even n s \<le> 2 ^ b"
proof -
  assume "n < 2 ^ (b + s)"
  then have "n div 2 ^ s < 2 ^ b" by (simp add: power_add less_mult_imp_div_less)
  then show ?thesis by (auto simp: round_even_def Let_def)
qed

lemma round_even_lower: "2 ^ (b + s) \<le> n \<Longrightarrow> 2 ^ b \<le> round_even n s"
proof -
  assume "2 ^ (b + s) \<le> n"
  then have "2 ^ b \<le> n div 2 ^ s" by (simp add: power_add less_eq_div_iff_mult_less_eq)
  then show ?thesis by (auto simp: round_even_def Let_def)
qed

lemma round_mag_mono: "m \<le> n \<Longrightarrow> round_mag k m \<le> round_mag k n"
proof (cases "m = 0")
  case False
  assume le: "m \<le> n"
  define s t where "s = max (ilog2 m - 52) k" and "t = max (ilog2 n - 52) k"
  have st: "s \<le> t" using ilog2_mono [of m n] False le by (simp add: s_def t_def max.coboundedI1 diff_le_mono)
  have "(s - k) * 2 ^ 52 + round_even m s \<le> (t - k) * 2 ^ 52 + round_even n t"
  proof (cases "s = t")
    case True
    then show ?thesis using round_even_mono [OF le, of s] by simp
  next
    case False
    then have t: "t = ilog2 n - 52" "k < t" "52 \<le> ilog2 n" using st by (auto simp: s_def t_def max_def split: if_splits)
    have "m < 2 ^ Suc (ilog2 m)" using ilog2_bounds [of m] \<open>m \<noteq> 0\<close> by simp
    also have "\<dots> \<le> 2 ^ (53 + s)" by (rule power_increasing) (simp_all add: s_def)
    finally have "round_even m s \<le> 2 ^ 53" by (rule round_even_upper)
    moreover have "2 ^ (52 + t) \<le> n" using ilog2_bounds [of n] t le \<open>m \<noteq> 0\<close> by simp
    then have "2 ^ 52 \<le> round_even n t" by (rule round_even_lower)
    moreover have "(s - k) + 1 \<le> t - k" using False st t(2) by (simp add: s_def)
    then have "((s - k) + 1) * 2 ^ 52 \<le> (t - k) * (2 ^ 52 :: nat)" by (rule mult_le_mono1)
    ultimately show ?thesis by simp
  qed
  then show ?thesis using False le unfolding round_mag_def Let_def s_def [symmetric] t_def [symmetric]
    by (auto simp: min_def)
qed (simp add: round_mag_def)

lemma round_mag_bound: "round_mag k n \<le> inf_mag"
  by (simp add: round_mag_def Let_def)

lemma round_mag_zero [simp]: "round_mag k 0 = 0"
  by (simp add: round_mag_def)

section \<open>Order\<close>

lemma f64_negative_unat: "f64_negative w \<longleftrightarrow> 2 ^ 63 \<le> unat w"
proof -
  have "bit w 63 \<longleftrightarrow> odd (unat w div 2 ^ 63)"
    using bit_unsigned_iff [where 'a = nat, of w 63] by (simp add: bit_iff_odd)
  moreover have "unat w div 2 ^ 63 = (if 2 ^ 63 \<le> unat w then 1 else 0)"
    using unat_bound [of w] by (auto simp: div_nat_eqI)
  ultimately show ?thesis by (simp add: f64_negative_def)
qed

lemma f64_of_parts:
  assumes "m < 2 ^ 63"
  shows "f64_mag (f64_of neg m) = m" "f64_negative (f64_of neg m) = neg"
proof -
  define v where "v = (if neg then 2 ^ 63 else 0) + m"
  have u: "unat (word_of_nat v :: f64) = v" using assms by (intro unat_word_of_nat) (simp add: v_def)
  have "v mod 2 ^ 63 = m" "2 ^ 63 \<le> v \<longleftrightarrow> neg" using assms by (auto simp: v_def)
  then show "f64_mag (f64_of neg m) = m" "f64_negative (f64_of neg m) = neg"
    by (simp_all add: f64_mag_def f64_negative_unat f64_of_def u flip: v_def)
qed

lemma f64_mag_bound: "f64_mag w < 2 ^ 63"
  by (simp add: f64_mag_def)

lemma mag_units_mono: "m \<le> n \<Longrightarrow> mag_units m \<le> mag_units n"
proof -
  assume le: "m \<le> n"
  have norm: "mag_units m \<le> mag_units n" if "2 ^ 52 \<le> m" "m \<le> n" for m n :: nat
  proof (cases "m div 2 ^ 52 = n div 2 ^ 52")
    case True
    then have "m mod 2 ^ 52 \<le> n mod 2 ^ 52"
      using that(2) div_mult_mod_eq [of m "2 ^ 52"] div_mult_mod_eq [of n "2 ^ 52"] by (metis add_le_cancel_left)
    then show ?thesis using True that by (simp add: mag_units_def)
  next
    case False
    have q: "m div 2 ^ 52 < n div 2 ^ 52" using False div_le_mono [OF that(2), of "2 ^ 52"] by simp
    have p: "1 \<le> m div 2 ^ 52" using div_le_mono [OF that(1), of "2 ^ 52"] by simp
    have "(2 ^ 52 + m mod 2 ^ 52) * 2 ^ (m div 2 ^ 52 - 1) \<le> 2 ^ 53 * 2 ^ (m div 2 ^ 52 - 1)"
      by (intro mult_le_mono1) (use mod_less_divisor [of "2 ^ 52" m] in simp)
    also have "\<dots> = 2 ^ 52 * 2 ^ (m div 2 ^ 52)" using p by (simp flip: power_Suc power_add)
    also have "\<dots> \<le> 2 ^ 52 * 2 ^ (n div 2 ^ 52 - 1)"
      by (intro mult_le_mono2 power_increasing) (use q in simp_all)
    also have "\<dots> \<le> (2 ^ 52 + n mod 2 ^ 52) * 2 ^ (n div 2 ^ 52 - 1)" by (intro mult_le_mono1) simp
    finally show ?thesis using that by (simp add: mag_units_def)
  qed
  show ?thesis
  proof (cases "m < 2 ^ 52")
    case True
    show ?thesis
    proof (cases "n < 2 ^ 52")
      case False
      have "m \<le> 2 ^ 52" using True by simp
      also have "2 ^ 52 = mag_units (2 ^ 52)" by (simp add: mag_units_def)
      also have "\<dots> \<le> mag_units n" using False by (intro norm) simp_all
      finally show ?thesis using True by (simp add: mag_units_def)
    qed (use True le in \<open>simp add: mag_units_def\<close>)
  qed (use norm le in simp)
qed

lemma f64_units_mono: "f64_key a \<le> f64_key b \<Longrightarrow> f64_units a \<le> f64_units b"
proof -
  assume le: "f64_key a \<le> f64_key b"
  have zero: "mag_units 0 = 0" by (simp add: mag_units_def)
  show ?thesis
  proof (cases "f64_negative a")
    case True
    then show ?thesis
    proof (cases "f64_negative b")
      assume "f64_negative b"
      then have "f64_mag b \<le> f64_mag a" using True le by (simp add: f64_key_def)
      then show ?thesis using mag_units_mono True \<open>f64_negative b\<close> by (simp add: f64_units_def)
    qed (simp add: f64_units_def)
  next
    case False
    show ?thesis
    proof (cases "f64_negative b")
      case True
      then have "f64_mag a = 0" "f64_mag b = 0" using False le by (simp_all add: f64_key_def)
      then show ?thesis using True False by (simp add: f64_units_def zero)
    next
      assume "\<not> f64_negative b"
      then have "f64_mag a \<le> f64_mag b" using False le by (simp add: f64_key_def)
      then show ?thesis using mag_units_mono False \<open>\<not> f64_negative b\<close> by (simp add: f64_units_def)
    qed
  qed
qed

lemma f64_key_of: "m < 2 ^ 63 \<Longrightarrow> f64_key (f64_of neg m) = (if neg then - int m else int m)"
  by (simp add: f64_key_def f64_of_parts)

lemma f64_key_round: "f64_key (f64_round k x) = (if x < 0 then - int (round_mag k (nat \<bar>x\<bar>)) else int (round_mag k (nat \<bar>x\<bar>)))"
proof -
  have "round_mag k (nat \<bar>x\<bar>) < 2 ^ 63"
    using round_mag_bound [of k "nat \<bar>x\<bar>"] by (simp add: inf_mag_def)
  then show ?thesis by (simp add: f64_round_def f64_key_of)
qed

lemma f64_round_nan: "\<not> f64_nan (f64_round k x)"
proof -
  have "round_mag k (nat \<bar>x\<bar>) < 2 ^ 63" "round_mag k (nat \<bar>x\<bar>) \<le> inf_mag"
    using round_mag_bound [of k "nat \<bar>x\<bar>"] by (simp_all add: inf_mag_def)
  then show ?thesis by (simp add: f64_round_def f64_nan_def f64_of_parts)
qed

lemma f64_round_mono: "x \<le> y \<Longrightarrow> f64_key (f64_round k x) \<le> f64_key (f64_round k y)"
proof -
  assume le: "x \<le> y"
  show ?thesis
  proof (cases "x < 0")
    case True
    show ?thesis
    proof (cases "y < 0")
      assume y: "y < 0"
      then have "nat \<bar>y\<bar> \<le> nat \<bar>x\<bar>" using le by simp
      from round_mag_mono [OF this, of k] show ?thesis using True y by (simp add: f64_key_round)
    qed (use True in \<open>simp add: f64_key_round\<close>)
  next
    case False
    then have "nat \<bar>x\<bar> \<le> nat \<bar>y\<bar>" "\<not> y < 0" using le by simp_all
    with round_mag_mono [OF this(1), of k] False show ?thesis by (simp add: f64_key_round)
  qed
qed

text \<open>A number that is neither infinite nor NaN.\<close>
definition f64_fin :: "f64 \<Rightarrow> bool" where
  "f64_fin w = (f64_mag w < inf_mag)"

lemma f64_fin_simps: "f64_fin w \<Longrightarrow> \<not> f64_nan w" "f64_fin w \<Longrightarrow> \<not> f64_inf w"
  by (simp_all add: f64_fin_def f64_nan_def f64_inf_def)

lemma f64_add_fin:
  assumes "f64_fin a" "f64_fin b"
  shows "f64_key (f64_add a b) = f64_key (f64_round 0 (f64_units a + f64_units b))" "\<not> f64_nan (f64_add a b)"
proof -
  have "f64_units a = 0" if "f64_mag a = 0" for a using that by (simp add: f64_units_def mag_units_def)
  then have "f64_key (f64_add a b) = f64_key (f64_round 0 (f64_units a + f64_units b)) \<and> \<not> f64_nan (f64_add a b)"
    using assms by (simp add: f64_add_def f64_fin_simps f64_round_nan) (simp add: f64_key_def f64_round_def f64_of_parts)
  then show "f64_key (f64_add a b) = f64_key (f64_round 0 (f64_units a + f64_units b))" "\<not> f64_nan (f64_add a b)"
    by simp_all
qed

lemma f64_neg_parts: "f64_mag (f64_neg w) = f64_mag w" "f64_negative (f64_neg w) \<longleftrightarrow> \<not> f64_negative w"
  using f64_of_parts [OF f64_mag_bound] by (simp_all add: f64_neg_def)

lemma f64_sub_mono:
  assumes "f64_le a b" "f64_fin a" "f64_fin b" "f64_fin c"
  shows "f64_le (f64_sub a c) (f64_sub b c)" "f64_le (f64_sub c b) (f64_sub c a)"
proof -
  have c: "f64_fin (f64_neg w)" if "f64_fin w" for w using that by (simp add: f64_fin_def f64_neg_parts)
  have n: "f64_units (f64_neg w) = - f64_units w" for w by (simp add: f64_units_def f64_neg_parts)
  have "f64_units a \<le> f64_units b" using assms(1) f64_units_mono by (simp add: f64_le_def)
  then show "f64_le (f64_sub a c) (f64_sub b c)" "f64_le (f64_sub c b) (f64_sub c a)"
    using assms c f64_add_fin f64_round_mono by (simp_all add: f64_le_def f64_sub_def n)
qed

lemma f64_le_trans: "f64_le a b \<Longrightarrow> f64_le b c \<Longrightarrow> f64_le a c"
  by (auto simp: f64_le_def)

lemma f64_not_le: "\<not> f64_nan a \<Longrightarrow> \<not> f64_nan b \<Longrightarrow> \<not> f64_le a b \<longleftrightarrow> f64_lt b a"
  by (auto simp: f64_le_def f64_lt_def)

end
