(* ===== verification/State.thy ===== *)
theory State
  imports Config_Roles F64 Json
begin

text \<open>
  \<open>src/src/state.rs\<close>: the progress kept per role (daily, periodic and weekly), the round counter, the
  resets at a change of day or week, the synchronisation with the configured roles and the due
  times of the periodic tasks.  The map of roles is an association list; where the code walks over
  the hash map the list order stands for the iteration order, which the map leaves open.  Clock
  readings are arguments: \<open>today\<close> and \<open>week\<close> are the formatted strings, \<open>now\<close> the seconds as \<open>f64\<close>.
  The state's file is the subject of \<open>State_File\<close>.
\<close>

section \<open>Data\<close>

record role_daily =
  d_date :: "string option"
  d_retry_count :: nat
  d_signin :: bool
  d_buy_gold :: bool
  d_share :: bool
  d_friend_gift :: bool
  d_recruit :: bool
  d_hangup_reward :: bool
  d_open_box :: bool
  d_store_purchase :: bool
  d_arena :: bool
  d_bottle_task :: bool
  d_boss :: bool
  d_legion_boss :: bool
  d_legion_signin :: bool
  d_artifact :: bool
  d_genie :: bool
  d_gacha :: bool
  d_discount :: bool
  d_card :: bool
  d_collection :: bool
  d_task_rewards :: bool
  d_mail :: bool
  d_nightmare :: bool
  d_dream_shop :: bool
  d_car_send_done :: bool
  d_next_car_claim_time :: f64
  d_car_claimed_today :: bool

definition daily_default :: role_daily where
  "daily_default = \<lparr>d_date = None, d_retry_count = 0, d_signin = False, d_buy_gold = False, d_share = False,
     d_friend_gift = False, d_recruit = False, d_hangup_reward = False, d_open_box = False,
     d_store_purchase = False, d_arena = False, d_bottle_task = False, d_boss = False,
     d_legion_boss = False, d_legion_signin = False, d_artifact = False, d_genie = False,
     d_gacha = False, d_discount = False, d_card = False, d_collection = False, d_task_rewards = False,
     d_mail = False, d_nightmare = False, d_dream_shop = False, d_car_send_done = False,
     d_next_car_claim_time = 0, d_car_claimed_today = False\<rparr>"

record role_periodic =
  p_hangup_last_time :: f64
  p_hangup_time :: f64
  p_bottle_stop_time :: f64
  p_legacy_last_claim :: f64
  p_hangup_next_check :: f64
  p_tower_next_check :: f64
  p_tower_cleared :: bool
  p_evo_next_check :: f64

definition periodic_default :: role_periodic where
  "periodic_default = \<lparr>p_hangup_last_time = 0, p_hangup_time = 0, p_bottle_stop_time = 0,
     p_legacy_last_claim = 0, p_hangup_next_check = 0, p_tower_next_check = 0, p_tower_cleared = False,
     p_evo_next_check = 0\<rparr>"

record role_weekly =
  w_week :: "string option"
  w_study :: bool

definition weekly_default :: role_weekly where
  "weekly_default = \<lparr>w_week = None, w_study = False\<rparr>"

record role_state =
  rs_role_name :: string
  rs_server_display :: string
  rs_daily :: role_daily
  rs_periodic :: role_periodic
  rs_weekly :: role_weekly

definition role_state_default :: role_state where
  "role_state_default = \<lparr>rs_role_name = [], rs_server_display = [], rs_daily = daily_default,
     rs_periodic = periodic_default, rs_weekly = weekly_default\<rparr>"

type_synonym roles_map = "(string \<times> role_state) list"

record app_state =
  round_date :: "string option"
  round_count :: nat
  roles :: roles_map

definition app_state_default :: app_state where
  "app_state_default = \<lparr>round_date = None, round_count = 0, roles = []\<rparr>"

record round_advance =
  ra_round :: nat
  reset_happened :: bool
  previous_date :: "string option"
  current_date :: string

section \<open>Days, weeks and rounds\<close>

definition ensure_today :: "string \<Rightarrow> role_daily \<Rightarrow> role_daily" where
  "ensure_today today d = (if d_date d \<noteq> Some today then daily_default\<lparr>d_date := Some today\<rparr> else d)"

definition ensure_this_week :: "string \<Rightarrow> role_weekly \<Rightarrow> role_weekly" where
  "ensure_this_week week w = (if w_week w \<noteq> Some week then weekly_default\<lparr>w_week := Some week\<rparr> else w)"

text \<open>The round counter is a \<open>u32\<close>; a day has far fewer than \<open>2 ^ 32\<close> rounds.\<close>
definition next_round :: "string \<Rightarrow> app_state \<Rightarrow> round_advance \<times> app_state" where
  "next_round today st =
     (let previous = round_date st;
          reset = (round_date st \<noteq> Some today);
          st' = (if reset then st\<lparr>round_date := Some today, round_count := 1\<rparr>
                 else st\<lparr>round_count := round_count st + 1\<rparr>)
      in (\<lparr>ra_round = round_count st', reset_happened = reset, previous_date = previous,
           current_date = unwrap_or (round_date st') []\<rparr>, st'))"

definition all_main_done :: "role_daily \<Rightarrow> bool" where
  "all_main_done d = (d_signin d \<and> d_buy_gold d \<and> d_share d \<and> d_friend_gift d \<and> d_recruit d \<and>
     d_hangup_reward d \<and> d_open_box d \<and> d_store_purchase d \<and> d_arena d \<and> d_bottle_task d)"

definition all_done :: "role_daily \<Rightarrow> bool" where
  "all_done d = (all_main_done d \<and> d_boss d \<and> d_legion_boss d \<and> d_legion_signin d \<and> d_artifact d \<and>
     d_genie d \<and> d_discount d \<and> d_card d \<and> d_collection d \<and> d_task_rewards d \<and> d_mail d)"

section \<open>The map of roles\<close>

text \<open>\<open>entry(key).or_insert_with(..)\<close>, then a change of the entry by \<open>f\<close>.\<close>
definition get_or_create :: "string \<Rightarrow> (role_state \<Rightarrow> role_state) \<Rightarrow> app_state \<Rightarrow> app_state" where
  "get_or_create key f st =
     st\<lparr>roles := AList.update key (f (unwrap_or (map_of (roles st) key) role_state_default)) (roles st)\<rparr>"

fun insert_defaults :: "string list \<Rightarrow> roles_map \<Rightarrow> roles_map" where
  "insert_defaults [] m = m"
| "insert_defaults (k # ks) m = insert_defaults ks (AList.update k role_state_default m)"

fun remove_keys :: "string list \<Rightarrow> roles_map \<Rightarrow> roles_map" where
  "remove_keys [] m = m"
| "remove_keys (k # ks) m = remove_keys ks (AList.delete k m)"

definition sync_with_roles :: "string list \<Rightarrow> app_state \<Rightarrow> (string list \<times> string list) \<times> app_state" where
  "sync_with_roles new_keys st =
     (let old_keys = map fst (roles st);
          added = filter (\<lambda>k. k \<notin> set old_keys) new_keys;
          removed = filter (\<lambda>k. k \<notin> set new_keys) old_keys
      in ((added, removed), st\<lparr>roles := remove_keys removed (insert_defaults added (roles st))\<rparr>))"

definition normalize_key :: "string \<Rightarrow> string" where
  "normalize_key key =
     (case rsplit_once (CHR '':'') key of
        Some (path_part, sid_part) \<Rightarrow>
          if parse_u64 sid_part \<noteq> None then normalize_path_for_id path_part @ '':'' @ sid_part else key
      | None \<Rightarrow> key)"

text \<open>The loop: an entry already present is kept (\<open>or_insert\<close>).\<close>
fun normalize_loop :: "roles_map \<Rightarrow> roles_map \<Rightarrow> nat \<Rightarrow> roles_map \<times> nat" where
  "normalize_loop [] new migrated = (new, migrated)"
| "normalize_loop ((key, s) # old) new migrated =
     (let normalized_key = normalize_key key;
          migrated' = (if normalized_key \<noteq> key then migrated + 1 else migrated);
          new' = (if map_of new normalized_key = None then AList.update normalized_key s new else new)
      in normalize_loop old new' migrated')"

definition normalize_role_keys :: "app_state \<Rightarrow> nat \<times> app_state" where
  "normalize_role_keys st =
     (case normalize_loop (roles st) [] 0 of (new, migrated) \<Rightarrow> (migrated, st\<lparr>roles := new\<rparr>))"

section \<open>Periodic tasks\<close>

definition f3600 :: f64 where "f3600 = u64_to_f64 3600"

definition needs_hangup :: "f64 \<Rightarrow> f64 \<Rightarrow> role_periodic \<Rightarrow> bool" where
  "needs_hangup now threshold_hours p =
     (if f64_lt 0 (p_hangup_next_check p) then f64_le (p_hangup_next_check p) now
      else if f64_le (p_hangup_last_time p) 0 then True
      else f64_le (f64_mul threshold_hours f3600) (f64_sub now (p_hangup_last_time p)))"

definition needs_bottle :: "f64 \<Rightarrow> f64 \<Rightarrow> role_periodic \<Rightarrow> bool" where
  "needs_bottle now threshold_hours p =
     (if f64_le (p_bottle_stop_time p) 0 then True
      else f64_le (f64_sub (p_bottle_stop_time p) now) (f64_mul threshold_hours f3600))"

definition needs_legacy :: "f64 \<Rightarrow> f64 \<Rightarrow> role_periodic \<Rightarrow> bool" where
  "needs_legacy now interval_hours p =
     (if f64_le (p_legacy_last_claim p) 0 then True
      else f64_le (f64_mul interval_hours f3600) (f64_sub now (p_legacy_last_claim p)))"

definition needs_tower :: "f64 \<Rightarrow> role_periodic \<Rightarrow> bool" where
  "needs_tower now p =
     (\<not> p_tower_cleared p \<and> (f64_le (p_tower_next_check p) 0 \<or> f64_le (p_tower_next_check p) now))"

definition needs_evotower :: "f64 \<Rightarrow> role_periodic \<Rightarrow> bool" where
  "needs_evotower now p = (f64_le (p_evo_next_check p) 0 \<or> f64_le (p_evo_next_check p) now)"

definition field_f64 :: "json \<Rightarrow> string \<Rightarrow> f64 option" where
  "field_f64 v k = Option.bind (jget v k) as_f64"

definition update_hangup_from_role :: "f64 \<Rightarrow> json \<Rightarrow> role_periodic \<Rightarrow> role_periodic" where
  "update_hangup_from_role now role_info p =
     (case or_else (pointer [''role'', ''hangUp''] role_info) (pointer [''hangUp''] role_info) of
        None \<Rightarrow> p
      | Some obj \<Rightarrow>
          let p1 = (case field_f64 obj ''lastTime'' of None \<Rightarrow> p | Some v \<Rightarrow> p\<lparr>p_hangup_last_time := v\<rparr>);
              p2 = (case field_f64 obj ''hangUpTime'' of None \<Rightarrow> p1 | Some v \<Rightarrow> p1\<lparr>p_hangup_time := v\<rparr>);
              remaining = f64_sub (p_hangup_time p2) (f64_sub now (p_hangup_last_time p2))
          in p2\<lparr>p_hangup_next_check :=
                 (if f64_lt 0 (p_hangup_last_time p2) \<and> f64_lt f3600 remaining
                  then f64_sub (f64_add now remaining) f3600 else 0)\<rparr>)"

definition update_bottle_from_role :: "json \<Rightarrow> role_periodic \<Rightarrow> role_periodic" where
  "update_bottle_from_role role_info p =
     (case or_else (pointer [''role'', ''bottleHelpers''] role_info) (pointer [''bottleHelpers''] role_info) of
        None \<Rightarrow> p
      | Some obj \<Rightarrow>
          (case field_f64 obj ''helperStopTime'' of None \<Rightarrow> p | Some v \<Rightarrow> p\<lparr>p_bottle_stop_time := v\<rparr>))"

end
