(* ===== verification/State_Facts.thy ===== *)
theory State_Facts
  imports State
begin

text \<open>
  What \<open>state.rs\<close> promises: the role map follows the configured roles without touching the progress
  of the roles that stay, the migration of old keys loses no role whose normalised key is its own,
  a new day starts the round counter at one, and a periodic task that is due stays due as the clock
  advances.
\<close>

section \<open>Association lists as maps\<close>

lemma map_of_delete [simp]: "map_of (AList.delete k m) = (map_of m)(k := None)"
  by (simp add: AList.delete_conv')

lemma map_of_insert_defaults:
  "map_of (insert_defaults ks m) k = (if k \<in> set ks then Some role_state_default else map_of m k)"
  by (induction ks m rule: insert_defaults.induct) auto

lemma map_of_remove_keys: "map_of (remove_keys ks m) k = (if k \<in> set ks then None else map_of m k)"
  by (induction ks m rule: remove_keys.induct) auto

lemma map_of_keys: "map_of m k = None \<longleftrightarrow> k \<notin> set (map fst m)"
  by (simp add: map_of_eq_None_iff)

lemma map_of_None_iff: "map_of m k = None \<longleftrightarrow> (\<forall>v. (k, v) \<notin> set m)"
  by (force simp: map_of_eq_None_iff)

lemma map_of_known: "map_of m k = Some v \<Longrightarrow> k \<in> fst ` set m"
  by (force dest: map_of_SomeD)

lemma map_of_get_or_create:
  "map_of (roles (get_or_create key f st)) k =
     (if k = key then Some (f (unwrap_or (map_of (roles st) key) role_state_default)) else map_of (roles st) k)"
  by (simp add: get_or_create_def)

section \<open>Synchronisation\<close>

text \<open>After \<open>sync_with_roles\<close> exactly the configured roles have a state: a role that was there
  keeps its progress, a new one starts from the default state, any other is gone; the two lists
  returned are the keys added and the keys removed.\<close>
theorem sync_follows_config:
  "(case sync_with_roles new_keys st of ((added, removed), st') \<Rightarrow>
      (\<forall>k. map_of (roles st') k =
             (if k \<notin> set new_keys then None
              else Some (unwrap_or (map_of (roles st) k) role_state_default))) \<and>
      set added = set new_keys - set (map fst (roles st)) \<and>
      set removed = set (map fst (roles st)) - set new_keys \<and>
      round_date st' = round_date st \<and> round_count st' = round_count st)"
  by (auto simp: sync_with_roles_def Let_def map_of_remove_keys map_of_insert_defaults map_of_known map_of_None_iff
      unwrap_or_def split: option.split)

section \<open>Normalising the keys\<close>

lemma normalize_key_role_key:
  "n < 2 ^ 64 \<Longrightarrow> normalize_key (role_key p n) = role_key (normalize_path_for_id p) n"
  by (simp add: normalize_key_def rsplit_role_key parse_u64_nat_str) (simp add: role_key_def)

lemma normalize_key_idem: "normalize_key (normalize_key k) = normalize_key k"
proof (cases "rsplit_once (CHR '':'') k")
  case (Some ps)
  obtain p s where ps: "ps = (p, s)" by (cases ps)
  have nc: "CHR '':'' \<notin> set s" using rsplit_once_Some [of "CHR '':''" k p s] Some ps by simp
  show ?thesis
    using Some ps rsplit_once_append [OF nc, of "normalize_path_for_id p"]
    by (simp add: normalize_key_def normalize_path_idem)
qed (simp add: normalize_key_def)

lemma normalize_loop_spec:
  assumes "normalize_loop old new n = (new', n')"
  shows "set (map fst new') = set (map fst new) \<union> normalize_key ` set (map fst old)" (is ?dom)
    and "map_of new k = Some s \<Longrightarrow> map_of new' k = Some s" (is "?pre1 \<Longrightarrow> ?keep")
    and "map_of new' k = Some s \<Longrightarrow>
         map_of new k = Some s \<or> (\<exists>j. (j, s) \<in> set old \<and> normalize_key j = k)" (is "?pre2 \<Longrightarrow> ?from")
    and "distinct (map fst new) \<Longrightarrow> distinct (map fst new')" (is "?pre3 \<Longrightarrow> ?dist")
    and "n' = n + length (filter (\<lambda>(j, s). normalize_key j \<noteq> j) old)" (is ?count)
proof -
  have "?dom \<and> (?pre1 \<longrightarrow> ?keep) \<and> (?pre2 \<longrightarrow> ?from) \<and> (?pre3 \<longrightarrow> ?dist) \<and> ?count"
    using assms
  proof (induction old new n rule: normalize_loop.induct)
    case (1 new m) then show ?case by auto
  next
    case (2 key st old new m)
    define new2 where
      "new2 = (if map_of new (normalize_key key) = None then AList.update (normalize_key key) st new else new)"
    define m2 where "m2 = (if normalize_key key \<noteq> key then m + 1 else m)"
    have step: "normalize_loop old new2 m2 = (new', n')"
      using "2.prems" by (simp add: new2_def m2_def Let_def)
    note ih = "2.IH" [OF refl refl refl, folded new2_def m2_def, OF step]
    have keys: "set (map fst new2) = insert (normalize_key key) (set (map fst new))"
      by (auto simp: new2_def dom_update [unfolded dom_map_of_conv_image_fst] map_of_eq_None_iff
          update_keys intro: rev_image_eqI split: if_splits)
    have lk: "map_of new2 k =
        (if k = normalize_key key \<and> map_of new k = None then Some st else map_of new k)"
      by (auto simp: new2_def)
    have dist: "distinct (map fst new) \<Longrightarrow> distinct (map fst new2)"
      by (simp add: new2_def distinct_update)
    from ih keys lk dist show ?case by (auto simp: m2_def split: if_splits)
  qed
  then show ?dom "?pre1 \<Longrightarrow> ?keep" "?pre2 \<Longrightarrow> ?from" "?pre3 \<Longrightarrow> ?dist" ?count by blast+
qed

lemma update_fresh: "k \<notin> set (map fst m) \<Longrightarrow> AList.update k v m = m @ [(k, v)]"
  by (induction m) auto

lemma normalize_loop_fixed:
  "\<forall>k \<in> set (map fst (new @ old)). normalize_key k = k \<Longrightarrow> distinct (map fst (new @ old)) \<Longrightarrow>
   normalize_loop old new n = (new @ old, n)"
proof (induction old new n rule: normalize_loop.induct)
  case (2 key s old new m)
  have fresh: "map_of new key = None" "key \<notin> set (map fst new)"
    using "2.prems"(2) by (auto simp: map_of_eq_None_iff)
  have "normalize_loop old (new @ [(key, s)]) m = ((new @ [(key, s)]) @ old, m)"
    using "2.IH" [OF refl refl refl] "2.prems" fresh by (simp add: update_fresh)
  then show ?case using "2.prems" fresh by (simp add: update_fresh Let_def)
qed simp

lemma normalize_role_keys_facts:
  assumes "distinct (map fst (roles st))" "normalize_role_keys st = (migrated, st')"
  shows "set (map fst (roles st')) = normalize_key ` set (map fst (roles st))"
    and "distinct (map fst (roles st'))"
    and "map_of (roles st') k = Some s \<Longrightarrow> \<exists>j. map_of (roles st) j = Some s \<and> normalize_key j = k"
    and "map_of (roles st) j = Some s \<Longrightarrow>
         (\<forall>i \<in> set (map fst (roles st)). normalize_key i = normalize_key j \<longrightarrow> i = j) \<Longrightarrow>
         map_of (roles st') (normalize_key j) = Some s"
    and "migrated = length (filter (\<lambda>(j, s). normalize_key j \<noteq> j) (roles st))"
    and "normalize_role_keys st' = (0, st')"
proof -
  have loop: "normalize_loop (roles st) [] 0 = (roles st', migrated)" and rest: "st' = st\<lparr>roles := roles st'\<rparr>"
    using assms(2) by (auto simp: normalize_role_keys_def split: prod.splits)
  note spec = normalize_loop_spec [OF loop]
  show dom: "set (map fst (roles st')) = normalize_key ` set (map fst (roles st))" using spec(1) by simp
  show dist: "distinct (map fst (roles st'))" using spec(4) by simp
  show from_old: "\<exists>j. map_of (roles st) j = Some s \<and> normalize_key j = k"
    if look: "map_of (roles st') k = Some s" for k s
  proof -
    obtain j where "(j, s) \<in> set (roles st)" "normalize_key j = k" using spec(3) [OF look] by auto
    then show ?thesis using map_of_is_SomeI [OF assms(1)] by blast
  qed
  show "map_of (roles st') (normalize_key j) = Some s"
    if j: "map_of (roles st) j = Some s"
      and uniq: "\<forall>i \<in> set (map fst (roles st)). normalize_key i = normalize_key j \<longrightarrow> i = j" for j s
  proof -
    have "j \<in> set (map fst (roles st))" using map_of_SomeD [OF j] by force
    then have "normalize_key j \<in> set (map fst (roles st'))" unfolding dom by (rule imageI)
    then obtain t where t: "map_of (roles st') (normalize_key j) = Some t"
      using map_of_keys [of "roles st'" "normalize_key j"] by (meson not_Some_eq)
    from from_old [OF t] obtain i where i: "map_of (roles st) i = Some t" "normalize_key i = normalize_key j" by blast
    have "i \<in> set (map fst (roles st))" using map_of_SomeD [OF i(1)] by force
    then have "i = j" using uniq i(2) by blast
    then show ?thesis using i(1) j t by simp
  qed
  show "migrated = length (filter (\<lambda>(j, s). normalize_key j \<noteq> j) (roles st))" using spec(5) by simp
  have "\<forall>k \<in> set (map fst (roles st')). normalize_key k = k" unfolding dom by (auto simp: normalize_key_idem)
  then have "normalize_loop (roles st') [] 0 = (roles st', 0)"
    using normalize_loop_fixed [of "[]" "roles st'" 0] dist by simp
  then show "normalize_role_keys st' = (0, st')" by (simp add: normalize_role_keys_def)
qed

text \<open>The migration of the role keys gives every role its normalised key, invents no state and
  keeps the state of every role whose normalised key no other role shares; it counts the keys it
  changed, and a second run changes nothing.\<close>
theorem normalize_role_keys_migrates:
  assumes "distinct (map fst (roles st))" "normalize_role_keys st = (migrated, st')"
  shows "set (map fst (roles st')) = normalize_key ` set (map fst (roles st)) \<and>
    distinct (map fst (roles st')) \<and>
    (\<forall>k s. map_of (roles st') k = Some s \<longrightarrow> (\<exists>j. map_of (roles st) j = Some s \<and> normalize_key j = k)) \<and>
    (\<forall>j s. map_of (roles st) j = Some s \<longrightarrow>
       (\<forall>i \<in> set (map fst (roles st)). normalize_key i = normalize_key j \<longrightarrow> i = j) \<longrightarrow>
       map_of (roles st') (normalize_key j) = Some s) \<and>
    migrated = length (filter (\<lambda>(j, s). normalize_key j \<noteq> j) (roles st)) \<and>
    normalize_role_keys st' = (0, st')"
  using normalize_role_keys_facts [OF assms] by blast

theorem normalize_role_keys_migrates_witness:
  "(let st = app_state_default\<lparr>roles := [(''./a.bin:7'', role_state_default), (''b'', role_state_default)]\<rparr>
    in fst (normalize_role_keys st) = 1 \<and>
       map_of (roles (snd (normalize_role_keys st))) ''a.bin:7'' = Some role_state_default)"
proof -
  define st where "st = app_state_default\<lparr>roles := [(''./a.bin:7'', role_state_default), (''b'', role_state_default)]\<rparr>"
  have d: "distinct (map fst (roles st))" by (simp add: st_def)
  have p: "normalize_role_keys st = (fst (normalize_role_keys st), snd (normalize_role_keys st))" by simp
  have "role_key ''./a.bin'' 7 = ''./a.bin:7''" "role_key ''a.bin'' 7 = ''a.bin:7''"
      "normalize_path_for_id ''./a.bin'' = ''a.bin''" by code_simp+
  then have keys: "normalize_key ''./a.bin:7'' = ''a.bin:7''" "normalize_key ''b'' = ''b''"
    using normalize_key_role_key [of 7 "''./a.bin''"] by (simp_all add: normalize_key_def)
  note mig = normalize_role_keys_migrates [OF d p]
  have uniq: "\<forall>i \<in> set (map fst (roles st)). normalize_key i = normalize_key ''./a.bin:7'' \<longrightarrow> i = ''./a.bin:7''"
    by (simp add: st_def keys)
  have "map_of (roles st) ''./a.bin:7'' = Some role_state_default" by (simp add: st_def)
  with mig uniq have "map_of (roles (snd (normalize_role_keys st))) (normalize_key ''./a.bin:7'') = Some role_state_default"
    by blast
  then have "map_of (roles (snd (normalize_role_keys st))) ''a.bin:7'' = Some role_state_default"
    unfolding keys .
  moreover have "fst (normalize_role_keys st) = length (filter (\<lambda>(j, s). normalize_key j \<noteq> j) (roles st))"
    using mig by blast
  then have "fst (normalize_role_keys st) = 1" by (simp add: st_def keys)
  ultimately show ?thesis unfolding st_def [symmetric] by simp
qed

section \<open>Rounds\<close>

text \<open>The rounds of a day, one after the other.\<close>
definition rounds :: "string \<Rightarrow> nat \<Rightarrow> app_state \<Rightarrow> app_state" where
  "rounds today n = (\<lambda>st. snd (next_round today st)) ^^ n"

lemma next_round_state:
  "snd (next_round today st) = st\<lparr>round_date := Some today,
      round_count := (if round_date st = Some today then round_count st + 1 else 1)\<rparr>"
  by (cases st) (simp add: next_round_def Let_def)

text \<open>The first round of a day is round one and reports the reset with the date it leaves behind;
  the rounds that follow on that day count up without another reset, and no role's state changes.\<close>
theorem rounds_count_the_day:
  assumes "round_date st \<noteq> Some today"
  shows "fst (next_round today (rounds today n st)) =
      \<lparr>ra_round = Suc n, reset_happened = (n = 0),
       previous_date = (if n = 0 then round_date st else Some today), current_date = today\<rparr> \<and>
    roles (rounds today n st) = roles st"
proof -
  have "rounds today n st = (if n = 0 then st else st\<lparr>round_date := Some today, round_count := n\<rparr>)"
    using assms by (induction n) (auto simp: rounds_def next_round_state)
  then show ?thesis using assms by (simp add: next_round_def Let_def)
qed

theorem rounds_count_the_day_witness:
  "ra_round (fst (next_round ''2026-05-02'' (rounds ''2026-05-02'' 2 app_state_default))) = 3"
  using rounds_count_the_day [of app_state_default "''2026-05-02''" 2] by (simp add: app_state_default_def)

section \<open>Periodic tasks\<close>

text \<open>The times of a role as the code keeps them: finite numbers.\<close>
definition periodic_fin :: "role_periodic \<Rightarrow> bool" where
  "periodic_fin p = (\<forall>x \<in> {p_hangup_last_time p, p_hangup_time p, p_bottle_stop_time p, p_legacy_last_claim p,
     p_hangup_next_check p, p_tower_next_check p, p_evo_next_check p}. f64_fin x)"

lemma due_stays_due_each:
  assumes "periodic_fin p" "f64_fin now" "f64_fin later" "f64_le now later"
  shows "needs_hangup now h p \<Longrightarrow> needs_hangup later h p"
    and "needs_bottle now h p \<Longrightarrow> needs_bottle later h p"
    and "needs_legacy now h p \<Longrightarrow> needs_legacy later h p"
    and "needs_tower now p \<Longrightarrow> needs_tower later p"
    and "needs_evotower now p \<Longrightarrow> needs_evotower later p"
proof -
  note mono = f64_sub_mono [OF assms(4) assms(2,3)]
  show "needs_hangup now h p \<Longrightarrow> needs_hangup later h p"
    using f64_le_trans [OF _ mono(1), of _ "p_hangup_last_time p"] f64_le_trans [OF _ assms(4)] assms(1)
    by (auto simp: needs_hangup_def periodic_fin_def split: if_splits)
  show "needs_bottle now h p \<Longrightarrow> needs_bottle later h p"
    using f64_le_trans [OF mono(2), of "p_bottle_stop_time p"] assms(1)
    by (auto simp: needs_bottle_def periodic_fin_def split: if_splits)
  show "needs_legacy now h p \<Longrightarrow> needs_legacy later h p"
    using f64_le_trans [OF _ mono(1), of _ "p_legacy_last_claim p"] assms(1)
    by (auto simp: needs_legacy_def periodic_fin_def split: if_splits)
  show "needs_tower now p \<Longrightarrow> needs_tower later p"
    using f64_le_trans [OF _ assms(4)] by (auto simp: needs_tower_def)
  show "needs_evotower now p \<Longrightarrow> needs_evotower later p"
    using f64_le_trans [OF _ assms(4)] by (auto simp: needs_evotower_def)
qed

text \<open>A periodic task that is due stays due while the clock advances, whatever its threshold:
  the floating point comparisons are monotone in the time of day.\<close>
theorem due_stays_due:
  assumes "periodic_fin p" "f64_fin now" "f64_fin later" "f64_le now later"
  shows "(needs_hangup now h p \<longrightarrow> needs_hangup later h p) \<and> (needs_bottle now h p \<longrightarrow> needs_bottle later h p) \<and>
    (needs_legacy now h p \<longrightarrow> needs_legacy later h p) \<and> (needs_tower now p \<longrightarrow> needs_tower later p) \<and>
    (needs_evotower now p \<longrightarrow> needs_evotower later p)"
  using due_stays_due_each [OF assms] by blast

lemma f64_samples:
  "f64_fin 0x3FF0000000000000" "f64_fin 0x4000000000000000" "f64_fin 0x4008000000000000" "f64_fin 0"
  "f64_le 0x3FF0000000000000 0x4000000000000000" "f64_le 0x4000000000000000 0x4008000000000000"
  by (simp_all add: f64_fin_def f64_le_def f64_nan_def f64_mag_def f64_key_def f64_negative_def inf_mag_def)

text \<open>The tower is due from second 1 on; it is at second 2, hence at second 3.\<close>
theorem due_stays_due_witness:
  "needs_tower 0x4008000000000000 (periodic_default\<lparr>p_tower_next_check := 0x3FF0000000000000\<rparr>)"
proof -
  let ?p = "periodic_default\<lparr>p_tower_next_check := 0x3FF0000000000000\<rparr>"
  have "periodic_fin ?p" "needs_tower 0x4000000000000000 ?p"
    by (simp_all add: periodic_fin_def periodic_default_def needs_tower_def f64_samples)
  then show ?thesis using due_stays_due [of ?p] f64_samples by blast
qed

end
