(* ===== verification/ErrorCodes.thy ===== *)
theory ErrorCodes
  imports Text
begin

text \<open>
  \<open>src/src/error_codes.rs\<close>: the table of server error codes, the text an error is turned into
  (\<open>"[code] description"\<close>), the codes that end a task for the day, and the way back from the text
  to the code, which the flows use to decide whether a failed task is done.  Codes are \<open>i32\<close>,
  here integers; \<open>HashMap::insert\<close> lets the last entry of a key win.
\<close>

section \<open>Tables\<close>

definition ERROR_CODE_MAP :: "(int \<times> string) list" where
  "ERROR_CODE_MAP =
    [(200020, ''Something went wrong; try restarting the client''),
     (200160, ''Feature not unlocked''),
     (200330, ''Invalid ID''),
     (200400, ''Action performed too quickly; try again later''),
     (200750, ''Arena battle attempts exhausted''),
     (200760, ''Interface state changed; log in again''),
     (400000, ''Item does not exist''),
     (400010, ''Insufficient item quantity''),
     (400030, ''Daily free attempts exhausted''),
     (400190, ''No check-in rewards available to claim''),
     (400340, ''Attempts exhausted''),
     (700010, ''Task completion conditions not met''),
     (700020, ''Task already claimed''),
     (1000020, ''Today's reward already claimed''),
     (1300040, ''No Black Market purchase option is configured''),
     (1300050, ''Adjust the purchase quantity''),
     (1400010, ''No monthly card purchased; cannot claim daily rewards''),
     (2600040, ''Salted-Fish King Dreamscape challenge attempts exhausted''),
     (2600050, ''Salted-Fish King Dreamscape cleared or needs no further action''),
     (2600080, ''Salted-Fish King Dreamscape cleared or needs no further action''),
     (1500010, ''All floors cleared''),
     (1500020, ''Insufficient energy''),
     (1500040, ''Previous tower reward has not been claimed''),
     (2100010, ''Evo Tower event is not active or has ended''),
     (12200020, ''Evo Tower has pending chapter rewards or challenge state''),
     (12200040, ''Evo Tower task conditions are not met; cannot claim yet''),
     (12200050, ''Evo Tower task already claimed; cannot claim again''),
     (2300070, ''Not a club member''),
     (2300190, ''Already checked in today''),
     (2300250, ''Today's Club Boss attempts exhausted''),
     (2300370, ''Club purchase limit exceeded''),
     (3300050, ''Purchase limit exceeded''),
     (3300060, ''Sweep conditions not met''),
     (3500020, ''No rewards available to claim''),
     (7500100, ''Incorrect password''),
     (7500120, ''Password attempt limit reached''),
     (7500140, ''Enter the password first''),
     (7900023, ''Usage limit reached''),
     (- 10006, ''Today's reward already claimed or attempts exhausted''),
     (12000050, ''Daily vehicle dispatch limit reached''),
     (12000060, ''Outside the vehicle dispatch window''),
     (12000116, ''Today's free reward already claimed''),
     (200120, ''Reward does not exist or cannot be claimed''),
     (12300040, ''No empty slots remain''),
     (12300080, ''Unlock conditions not met''),
     (12400000, ''Hangup rewards are being claimed too frequently'')]"

definition lookup_code :: "int \<Rightarrow> string option" where
  "lookup_code code = map_of (rev ERROR_CODE_MAP) code"

definition format_error :: "int \<Rightarrow> string option \<Rightarrow> string" where
  "format_error code hint =
     (case lookup_code code of
        Some desc \<Rightarrow> ''['' @ int_str code @ ''] '' @ desc
      | None \<Rightarrow>
          (case hint of
             Some h \<Rightarrow> ''['' @ int_str code @ ''] '' @ h
           | None \<Rightarrow> ''['' @ int_str code @ ''] unknown code''))"

definition DONE_ERROR_CODES :: "int list" where
  "DONE_ERROR_CODES =
    [400030, 400190, 400340, 700020, 1000020, 2300190, 2300250, 3300050, 3500020, 7900023, - 10006, 12000116, 200750, 12400000, 200020, 200120, 200160, 2100010, 12200050, 400000, 400010, 1300040, 1300050, 1400010, 2600040, 2600050, 2600080, 2300070, 2300370, 3300060]"

definition is_done_error :: "int \<Rightarrow> bool" where
  "is_done_error code = (code \<in> set DONE_ERROR_CODES)"

text \<open>The text up to the first \<open>]\<close>, when there is one.\<close>
definition extract_code_from_error :: "string \<Rightarrow> int option" where
  "extract_code_from_error err =
     (if starts_with ''['' err then
        (case split_once (CHR '']'') err of
           Some (before, after) \<Rightarrow> parse_i32 (drop 1 before)
         | None \<Rightarrow> None)
      else None)"

definition is_done_result :: "'a res \<Rightarrow> bool" where
  "is_done_result result =
     (case result of
        Inr _ \<Rightarrow> True
      | Inl e \<Rightarrow> (case extract_code_from_error e of Some code \<Rightarrow> is_done_error code | None \<Rightarrow> False))"

section \<open>From code to text and back\<close>

lemma format_error_shape: "\<exists>t. format_error code hint = CHR ''['' # int_str code @ CHR '']'' # t"
  by (auto simp: format_error_def split: option.splits)

lemma extract_bracketed:
  assumes "- (2 ^ 31) \<le> code" "code < 2 ^ 31"
  shows "extract_code_from_error (CHR ''['' # int_str code @ CHR '']'' # t) = Some code"
proof -
  have "CHR '']'' \<notin> set (CHR ''['' # int_str code)" using int_str_chars by auto
  from split_once_append [OF this, of t]
  have "split_once (CHR '']'') (CHR ''['' # int_str code @ CHR '']'' # t) = Some (CHR ''['' # int_str code, t)"
    by (simp only: append_Cons)
  then show ?thesis using parse_i32_int_str [of code] assms
    by (simp add: extract_code_from_error_def starts_with_def del: split_once.simps)
qed

lemma extract_format:
  assumes "- (2 ^ 31) \<le> code" "code < 2 ^ 31"
  shows "extract_code_from_error (format_error code hint) = Some code"
  using format_error_shape [of code hint] extract_bracketed [OF assms] by auto

lemma done_codes_described: "list_all (\<lambda>c. lookup_code c \<noteq> None) DONE_ERROR_CODES"
  by code_simp

lemma code_table_distinct: "distinct (map fst ERROR_CODE_MAP)"
  by (simp add: ERROR_CODE_MAP_def)

section \<open>Properties\<close>

text \<open>C24: the decision whether a failed task is done survives the detour through the error text: for every
  \<open>i32\<close> code the text carries the code back, and the failed result counts as done exactly for the
  listed codes, whatever the hint.\<close>
theorem error_text_round_trip:
  assumes "- (2 ^ 31) \<le> code" "code < 2 ^ 31"
  shows "extract_code_from_error (format_error code hint) = Some code \<and>
    is_done_result (Inl (format_error code hint) :: 'a res) = is_done_error code"
  using extract_format [OF assms] by (simp add: is_done_result_def)

theorem error_text_round_trip_witness:
  "is_done_result (Inl (format_error (- 10006) None) :: nat res)"
  using error_text_round_trip [where 'a = nat, of "- 10006" None] by (simp add: is_done_error_def DONE_ERROR_CODES_def)

text \<open>every code that ends a task has a description of its own, so its text never depends on the
  server's hint; no code is listed twice in the table.\<close>
theorem done_codes_have_text:
  "(\<forall>code. is_done_error code \<longrightarrow> (\<exists>desc. lookup_code code = Some desc \<and>
      format_error code hint = ''['' @ int_str code @ ''] '' @ desc)) \<and> distinct (map fst ERROR_CODE_MAP)"
  using done_codes_described code_table_distinct
  by (auto simp: list_all_iff is_done_error_def format_error_def split: option.splits)

theorem done_codes_have_text_witness: "format_error 400030 (Some ''hint'') = format_error 400030 None"
proof -
  have "is_done_error 400030" by (simp add: is_done_error_def DONE_ERROR_CODES_def)
  then show ?thesis
    using done_codes_have_text [of "Some ''hint''"] done_codes_have_text [of None] by (metis option.inject)
qed

end
