(* ===== verification/Game.thy ===== *)
theory Game
  imports State_Facts ErrorCodes
begin

text \<open>
  The world of \<open>src/src/kpi.rs\<close> and its \<open>GameClient\<close>: a session sends commands to the game server and
  sleeps; the server, the network and the clocks answer as they like.  They are an \<open>env\<close>, functions of
  everything the session has done so far, so that an answer may depend on all that went before.  A flow
  is an \<open>io\<close>: a function on the session's state that returns a value and the new state, or \<open>None\<close>
  when it never returns (the loops without a bound are \<open>partial_function\<close>s) or panics (\<open>expect\<close>).  Time zones and the Gregorian
  calendar, which \<open>chrono\<close> provides, are part of the \<open>env\<close>.  Log lines are left out.
\<close>

section \<open>Sessions\<close>

text \<open>What a session does: a command with its time limit, a command without waiting, a pause, the end.\<close>
datatype event =
    Request string json nat
  | Notify string json
  | Sleep nat
  | Disconnect

type_synonym trace = "event list"

text \<open>\<open>answer tr\<close> is the outcome of the request that ends \<open>tr\<close>, \<open>sent tr\<close> that of the notification that ends
  \<open>tr\<close>; \<open>clock\<close> is \<open>now_secs()\<close>, \<open>wall\<close> is \<open>Local::now()\<close>; \<open>ymd\<close> are year, month and day of a date,
  \<open>day_of_ymd\<close> is \<open>NaiveDate::from_ymd_opt\<close>, \<open>unix_of\<close> the Unix time of a local date and second of the
  day, \<open>day_of_unix\<close> the local date of a Unix time in range.\<close>
record env =
  answer :: "trace \<Rightarrow> json res"
  sent :: "trace \<Rightarrow> u32 res"
  clock :: "trace \<Rightarrow> f64"
  wall :: "trace \<Rightarrow> local_now"
  ymd :: "int \<Rightarrow> int \<times> nat \<times> nat"
  day_of_ymd :: "int \<Rightarrow> nat \<Rightarrow> nat \<Rightarrow> int option"
  unix_of :: "int \<Rightarrow> nat \<Rightarrow> int option"
  day_of_unix :: "int \<Rightarrow> int option"

text \<open>\<open>GameClient\<close>, with the history of its session in place of the socket.\<close>
record game =
  ws :: trace
  role_info :: "json option"
  battle_version :: "i64 option"

text \<open>The client of a socket just opened.\<close>
definition new_game :: game where
  "new_game = \<lparr>ws = [], role_info = None, battle_version = None\<rparr>"

type_synonym 'a io = "game \<Rightarrow> ('a \<times> game) option"

definition io_return :: "'a \<Rightarrow> 'a io" where
  "io_return x g = Some (x, g)"

definition io_bind :: "'a io \<Rightarrow> ('a \<Rightarrow> 'b io) \<Rightarrow> 'b io" where
  "io_bind m f g = (case m g of None \<Rightarrow> None | Some (x, g') \<Rightarrow> f x g')"

text \<open>An \<open>unwrap\<close> or \<open>expect\<close> that finds nothing panics: the flow has no outcome.\<close>
definition expect :: "'a option \<Rightarrow> 'a io" where
  "expect x g = map_option (\<lambda>v. (v, g)) x"

text \<open>Reading the session: \<open>game\<close> is the client, \<open>now\<close> and \<open>local\<close> the clocks.\<close>
definition io_read :: "(game \<Rightarrow> 'a) \<Rightarrow> 'a io" where
  "io_read f g = Some (f g, g)"

definition read_game :: "game io" where
  "read_game = io_read (\<lambda>g. g)"

definition read_now :: "env \<Rightarrow> f64 io" where
  "read_now E = io_read (\<lambda>g. clock E (ws g))"

definition read_local :: "env \<Rightarrow> local_now io" where
  "read_local E = io_read (\<lambda>g. wall E (ws g))"

definition set_role_info :: "json \<Rightarrow> unit io" where
  "set_role_info info g = Some ((), g\<lparr>role_info := Some info\<rparr>)"

definition happen :: "event \<Rightarrow> game \<Rightarrow> game" where
  "happen e g = g\<lparr>ws := ws g @ [e]\<rparr>"

text \<open>\<open>self.ws.send_with_response\<close>, \<open>self.ws.send\<close> and \<open>tokio::time::sleep\<close>.\<close>
definition send_with_response :: "env \<Rightarrow> string \<Rightarrow> json \<Rightarrow> nat \<Rightarrow> json res io" where
  "send_with_response E name params timeout_ms g =
     (let g' = happen (Request name params timeout_ms) g in Some (answer E (ws g'), g'))"

definition send :: "env \<Rightarrow> string \<Rightarrow> json \<Rightarrow> u32 res io" where
  "send E name params g = (let g' = happen (Notify name params) g in Some (sent E (ws g'), g'))"

definition sleep :: "nat \<Rightarrow> unit io" where
  "sleep ms g = Some ((), happen (Sleep ms) g)"

text \<open>Half a second: the \<open>delay()\<close> of the flows.\<close>
definition delay :: "unit io" where
  "delay = sleep 500"

text \<open>Repetition over a list: \<open>for x in xs { acc = f x acc }\<close>.\<close>
fun io_for :: "'a list \<Rightarrow> ('a \<Rightarrow> 's \<Rightarrow> 's io) \<Rightarrow> 's \<Rightarrow> 's io" where
  "io_for [] f s = io_return s"
| "io_for (x # xs) f s = io_bind (f x s) (io_for xs f)"

text \<open>A loop whose body goes on with a new state (\<open>Inl\<close>) or breaks with a result (\<open>Inr\<close>).\<close>
partial_function (option) io_loop :: "('s \<Rightarrow> ('s + 'r) io) \<Rightarrow> 's \<Rightarrow> 'r io" where
  "io_loop body s g =
     Option.bind (body s g) (\<lambda>(r, g').
       case r of Inl s' \<Rightarrow> io_loop body s' g' | Inr x \<Rightarrow> Some (x, g'))"

section \<open>JSON literals and readings\<close>

text \<open>\<open>json!({..})\<close>, and \<open>json!(n)\<close> for the integer types.\<close>
definition jobj :: "(string \<times> json) list \<Rightarrow> json" where
  "jobj kvs = Object (foldl (\<lambda>m (k, v). obj_insert k v m) [] kvs)"

definition jnum :: "nat \<Rightarrow> json" where
  "jnum n = Number (number_from_u64 (word_of_nat n))"

definition jint :: "int \<Rightarrow> json" where
  "jint i = Number (number_from_i64 (word_of_int i))"

definition as_nat :: "json \<Rightarrow> nat option" where
  "as_nat v = map_option unat (as_u64 v)"

definition as_int :: "json \<Rightarrow> int option" where
  "as_int v = map_option sint (as_i64 v)"

text \<open>\<open>v as u32\<close>\<close>
definition nat_as_u32 :: "nat \<Rightarrow> nat" where
  "nat_as_u32 n = n mod 2 ^ 32"

definition int_as_u32 :: "int \<Rightarrow> nat" where
  "int_as_u32 i = nat (i mod 2 ^ 32)"

section \<open>Commands\<close>

definition T_DEFAULT :: nat where "T_DEFAULT = 8000"
definition T_FIGHT :: nat where "T_FIGHT = 12000"
definition T_SKINC :: nat where "T_SKINC = 5000"

definition cmd_with_timeout :: "env \<Rightarrow> string \<Rightarrow> json \<Rightarrow> nat \<Rightarrow> json res io" where
  "cmd_with_timeout E name params timeout_ms = send_with_response E name params timeout_ms"

definition cmd :: "env \<Rightarrow> string \<Rightarrow> json \<Rightarrow> json res io" where
  "cmd E name params = cmd_with_timeout E name params T_DEFAULT"

definition cmd_fire :: "env \<Rightarrow> string \<Rightarrow> json \<Rightarrow> u32 res io" where
  "cmd_fire E name params = send E name params"

text \<open>\<open>if let Some(obj) = params.as_object_mut() { obj.insert(..) }\<close>\<close>
definition insert_param :: "string \<Rightarrow> json \<Rightarrow> json \<Rightarrow> json" where
  "insert_param k v params = (case params of Object obj \<Rightarrow> Object (obj_insert k v obj) | _ \<Rightarrow> params)"

definition cmd_fight :: "env \<Rightarrow> string \<Rightarrow> json \<Rightarrow> json res io" where
  "cmd_fight E name params =
     io_bind read_game (\<lambda>g.
       let params = (case battle_version g of
                       Some bv \<Rightarrow> insert_param ''battleVersion'' (Number (number_from_i64 bv)) params
                     | None \<Rightarrow> params)
       in send_with_response E name params T_FIGHT)"

definition disconnect :: "unit io" where
  "disconnect g = Some ((), happen Disconnect g)"

section \<open>Equations and rules\<close>

lemma expect_simps [simp]: "expect (Some v) g = Some (v, g)" "expect None g = None"
  by (simp_all add: expect_def)

lemma io_simps [simp]:
  "io_return x g = Some (x, g)"
  "io_read f g = Some (f g, g)"
  "read_game g = Some (g, g)"
  "read_now E g = Some (clock E (ws g), g)"
  "read_local E g = Some (wall E (ws g), g)"
  "set_role_info info g = Some ((), g\<lparr>role_info := Some info\<rparr>)"
  "sleep ms g = Some ((), happen (Sleep ms) g)"
  "delay g = Some ((), happen (Sleep 500) g)"
  "disconnect g = Some ((), happen Disconnect g)"
  by (simp_all add: io_return_def io_read_def read_game_def read_now_def read_local_def set_role_info_def
      sleep_def delay_def disconnect_def)

lemma happen_simps [simp]:
  "ws (happen e g) = ws g @ [e]" "role_info (happen e g) = role_info g"
  "battle_version (happen e g) = battle_version g"
  by (simp_all add: happen_def)

lemma io_bind_Some [simp]: "m g = Some (x, g') \<Longrightarrow> io_bind m f g = f x g'"
  by (simp add: io_bind_def)

lemma io_bind_cases:
  assumes "io_bind m f g = Some (y, h)"
  obtains x g' where "m g = Some (x, g')" "f x g' = Some (y, h)"
  using assms by (auto simp: io_bind_def split: option.splits)

text \<open>Induction over the rounds of a loop that ends.\<close>
lemma io_loop_induct:
  fixes body :: "'s \<Rightarrow> ('s + 'r) io" and P :: "'s \<Rightarrow> game \<Rightarrow> 'r \<Rightarrow> game \<Rightarrow> bool"
  assumes "io_loop body s g = Some (x, g')"
    and "\<And>s g x g'. body s g = Some (Inr x, g') \<Longrightarrow> P s g x g'"
    and "\<And>s g s1 g1 x g'. body s g = Some (Inl s1, g1) \<Longrightarrow> P s1 g1 x g' \<Longrightarrow> P s g x g'"
  shows "P s g x g'"
proof -
  define ends where "ends body0 = (\<forall>s g x g'. body0 s g = Some (Inr x, g') \<longrightarrow> P s g x g')"
    for body0 :: "'s \<Rightarrow> ('s + 'r) io"
  define goes where "goes body0 = (\<forall>s g s1 g1 x g'. body0 s g = Some (Inl s1, g1) \<longrightarrow> P s1 g1 x g' \<longrightarrow> P s g x g')"
    for body0 :: "'s \<Rightarrow> ('s + 'r) io"
  have "ends body \<longrightarrow> goes body \<longrightarrow> P s g (fst (x, g')) (snd (x, g'))"
  proof (rule io_loop.raw_induct [where P = "\<lambda>body s g r. ends body \<longrightarrow> goes body \<longrightarrow> P s g (fst r) (snd r)"])
    show "io_loop body s g = Some (x, g')" by (rule assms(1))
    fix F body s g r
    assume ih: "\<And>body s g r. F body s g = Some r \<Longrightarrow> ends body \<longrightarrow> goes body \<longrightarrow> P s g (fst r) (snd r)"
      and step: "Option.bind (body s g) (\<lambda>(r, g'). case r of Inl s' \<Rightarrow> F body s' g' | Inr x \<Rightarrow> Some (x, g')) = Some r"
    show "ends body \<longrightarrow> goes body \<longrightarrow> P s g (fst r) (snd r)"
    proof (intro impI)
      assume "ends body" "goes body"
      obtain q h where b: "body s g = Some (q, h)" using step by (auto simp: bind_eq_Some_conv)
      show "P s g (fst r) (snd r)"
      proof (cases q)
        case (Inl s1)
        then have "P s1 h (fst r) (snd r)" using ih [of body s1 h r] step b \<open>ends body\<close> \<open>goes body\<close> by simp
        then show ?thesis using \<open>goes body\<close> b Inl by (auto simp: goes_def)
      next
        case (Inr y)
        then show ?thesis using \<open>ends body\<close> step b by (auto simp: ends_def)
      qed
    qed
  qed
  then show ?thesis using assms(2,3) by (auto simp: ends_def goes_def)
qed

lemma io_loop_unfold:
  "body s g = Some (Inl s', g') \<Longrightarrow> io_loop body s g = io_loop body s' g'"
  "body s g = Some (Inr x, g') \<Longrightarrow> io_loop body s g = Some (x, g')"
  "body s g = None \<Longrightarrow> io_loop body s g = None"
  by (simp_all add: io_loop.simps)

section \<open>Relations a flow obeys\<close>

text \<open>A flow obeys a relation when it only ever moves the session along it.\<close>
definition obeys :: "(game \<Rightarrow> game \<Rightarrow> bool) \<Rightarrow> 'a io \<Rightarrow> bool" where
  "obeys R m = (\<forall>g x g'. m g = Some (x, g') \<longrightarrow> R g g')"

lemma obeysI: "(\<And>g x g'. m g = Some (x, g') \<Longrightarrow> R g g') \<Longrightarrow> obeys R m"
  by (simp add: obeys_def)

lemma obeysD: "obeys R m \<Longrightarrow> m g = Some (x, g') \<Longrightarrow> R g g'"
  by (simp add: obeys_def)

text \<open>The interface the flows' proofs use: what holds of every single step holds of whole flows.\<close>
locale session_relation =
  fixes R :: "game \<Rightarrow> game \<Rightarrow> bool"
  assumes refl: "R g g"
    and trans: "R g h \<Longrightarrow> R h k \<Longrightarrow> R g k"
begin

lemma return_obeys: "obeys R (io_return x)"
  by (auto simp: obeys_def refl)

lemma read_obeys: "obeys R (io_read f)" "obeys R read_game" "obeys R (read_now E)" "obeys R (read_local E)"
  by (auto simp: obeys_def refl)

lemma bind_obeys:
  assumes "obeys R m" "\<And>x. obeys R (f x)"
  shows "obeys R (io_bind m f)"
  using assms trans by (fastforce simp: obeys_def elim: io_bind_cases)

lemma for_obeys: "(\<And>x s. obeys R (f x s)) \<Longrightarrow> obeys R (io_for xs f s)"
proof (induction xs arbitrary: s)
  case (Cons x xs)
  then show ?case by (auto intro: bind_obeys)
qed (simp add: return_obeys)

lemma loop_obeys:
  assumes "\<And>s. obeys R (body s)"
  shows "obeys R (io_loop body s)"
proof (rule obeysI)
  fix g x g'
  assume "io_loop body s g = Some (x, g')"
  then show "R g g'"
    by (rule io_loop_induct [where P = "\<lambda>s g x g'. R g g'"])
      (use assms in \<open>auto dest!: obeysD intro: trans\<close>)
qed

lemmas composed = return_obeys read_obeys bind_obeys for_obeys loop_obeys

end

text \<open>The history grows by events that satisfy \<open>P\<close>.\<close>
definition extends :: "(event \<Rightarrow> bool) \<Rightarrow> game \<Rightarrow> game \<Rightarrow> bool" where
  "extends P g g' = (\<exists>es. ws g' = ws g @ es \<and> list_all P es)"

interpretation emitting: session_relation "extends P" for P
proof
  show "extends P g g" for g by (simp add: extends_def)
  show "extends P g h \<Longrightarrow> extends P h k \<Longrightarrow> extends P g k" for g h k
    by (force simp: extends_def)
qed

lemma emits_basic:
  "P (Sleep ms) \<Longrightarrow> obeys (extends P) (sleep ms)"
  "P (Sleep 500) \<Longrightarrow> obeys (extends P) delay"
  "P Disconnect \<Longrightarrow> obeys (extends P) disconnect"
  "obeys (extends P) (set_role_info info)"
  "P (Request name params t) \<Longrightarrow> obeys (extends P) (send_with_response E name params t)"
  "P (Notify name params) \<Longrightarrow> obeys (extends P) (send E name params)"
  by (auto simp: obeys_def extends_def send_with_response_def send_def Let_def happen_def)

lemma expect_emits: "obeys (extends P) (expect x)"
  by (auto simp: obeys_def expect_def extends_def)

lemma extends_mono: "obeys (extends P) m \<Longrightarrow> (\<And>e. P e \<Longrightarrow> Q e) \<Longrightarrow> obeys (extends Q) m"
  by (fastforce simp: obeys_def extends_def list_all_iff)

section \<open>Results and termination\<close>

text \<open>Every value the flow may return satisfies \<open>Q\<close>.\<close>
definition yields :: "('a \<Rightarrow> bool) \<Rightarrow> 'a io \<Rightarrow> bool" where
  "yields Q m = (\<forall>g x g'. m g = Some (x, g') \<longrightarrow> Q x)"

lemma yields_return: "yields Q (io_return x) \<longleftrightarrow> Q x"
  by (auto simp: yields_def)

lemma yields_bind: "(\<And>x. yields Q (f x)) \<Longrightarrow> yields Q (io_bind m f)"
  by (fastforce simp: yields_def elim: io_bind_cases)

lemma yields_bind_with: "yields P m \<Longrightarrow> (\<And>x. P x \<Longrightarrow> yields Q (f x)) \<Longrightarrow> yields Q (io_bind m f)"
  by (fastforce simp: yields_def elim: io_bind_cases)

lemma yields_mono: "yields P m \<Longrightarrow> (\<And>x. P x \<Longrightarrow> Q x) \<Longrightarrow> yields Q m"
  by (auto simp: yields_def)

lemma yields_for: "P s \<Longrightarrow> (\<And>x s. x \<in> set xs \<Longrightarrow> P s \<Longrightarrow> yields P (f x s)) \<Longrightarrow> yields P (io_for xs f s)"
proof (induction xs arbitrary: s)
  case (Cons x xs)
  then show ?case by (auto intro: yields_bind_with)
qed (simp add: yields_return)

text \<open>The flow returns, whatever the server answers.\<close>
definition returns :: "'a io \<Rightarrow> bool" where
  "returns m = (\<forall>g. m g \<noteq> None)"

lemma returns_basic [simp]:
  "returns (io_return x)" "returns (io_read f)" "returns read_game" "returns (read_now E)" "returns (read_local E)"
  "returns (sleep ms)" "returns delay" "returns disconnect" "returns (set_role_info info)"
  "returns (send_with_response E name params t)" "returns (send E name params)"
  by (auto simp: returns_def send_with_response_def send_def Let_def)

lemma returns_bind: "returns m \<Longrightarrow> (\<And>x. returns (f x)) \<Longrightarrow> returns (io_bind m f)"
  by (fastforce simp: returns_def io_bind_def split: option.splits)

lemma expect_returns: "x \<noteq> None \<Longrightarrow> returns (expect x)"
  by (auto simp: returns_def)

lemma returns_for: "(\<And>x s. returns (f x s)) \<Longrightarrow> returns (io_for xs f s)"
  by (induction xs arbitrary: s) (auto intro: returns_bind)

text \<open>A loop returns when its body does and a measure of its state falls in every round that goes on.\<close>
lemma returns_loop:
  fixes measure_of :: "'s \<Rightarrow> nat"
  assumes "\<And>s. returns (body s)"
    and "\<And>s. yields (\<lambda>r. case r of Inl s' \<Rightarrow> measure_of s' < measure_of s | Inr _ \<Rightarrow> True) (body s)"
  shows "returns (io_loop body s)"
proof (induction "measure_of s" arbitrary: s rule: less_induct)
  case less
  show ?case
    unfolding returns_def
  proof
    fix g
    obtain r g' where b: "body s g = Some (r, g')" using assms(1) by (fastforce simp: returns_def)
    show "io_loop body s g \<noteq> None"
    proof (cases r)
      case (Inl s')
      then have "measure_of s' < measure_of s" using assms(2) b by (fastforce simp: yields_def)
      from less [OF this] show ?thesis using io_loop_unfold(1) b Inl by (fastforce simp: returns_def)
    next
      case (Inr x)
      then show ?thesis using io_loop_unfold(2) b by fastforce
    qed
  qed
qed

section \<open>Rules for the shapes of a flow\<close>

text \<open>The three judgements go through conditionals, cases and local definitions; with these rules the proof
  that a flow obeys, yields or returns is a descent into its text.\<close>

named_theorems emits_rules \<open>what flows add to the history\<close>
named_theorems returns_rules \<open>flows that return\<close>
named_theorems yields_rules \<open>results of flows\<close>

lemma obeys_shapes [emits_rules]:
  "(b \<Longrightarrow> obeys R m) \<Longrightarrow> (\<not> b \<Longrightarrow> obeys R n) \<Longrightarrow> obeys R (if b then m else n)"
  "(\<And>a c. obeys R (f a c)) \<Longrightarrow> obeys R (case p of (a, c) \<Rightarrow> f a c)"
  "(\<And>a c. obeys R (h' a c s)) \<Longrightarrow> obeys R ((case p of (a, c) \<Rightarrow> h' a c) s)"
  "obeys R m \<Longrightarrow> (\<And>x. obeys R (k x)) \<Longrightarrow> obeys R (case q of None \<Rightarrow> m | Some x \<Rightarrow> k x)"
  "(\<And>e. obeys R (h e)) \<Longrightarrow> (\<And>y. obeys R (l y)) \<Longrightarrow> obeys R (case r of Inl e \<Rightarrow> h e | Inr y \<Rightarrow> l y)"
  "obeys R (w t) \<Longrightarrow> obeys R (Let t w)"
  by (auto split: prod.split option.split sum.split)

lemma returns_shapes [returns_rules]:
  "returns m \<Longrightarrow> returns n \<Longrightarrow> returns (if b then m else n)"
  "(\<And>a c. returns (f a c)) \<Longrightarrow> returns (case p of (a, c) \<Rightarrow> f a c)"
  "(\<And>a c. returns (h' a c s)) \<Longrightarrow> returns ((case p of (a, c) \<Rightarrow> h' a c) s)"
  "returns m \<Longrightarrow> (\<And>x. returns (k x)) \<Longrightarrow> returns (case q of None \<Rightarrow> m | Some x \<Rightarrow> k x)"
  "(\<And>e. returns (h e)) \<Longrightarrow> (\<And>y. returns (l y)) \<Longrightarrow> returns (case r of Inl e \<Rightarrow> h e | Inr y \<Rightarrow> l y)"
  "returns (w t) \<Longrightarrow> returns (Let t w)"
  by (auto split: prod.split option.split sum.split)

lemma yields_shapes [yields_rules]:
  "(b \<Longrightarrow> yields Q m) \<Longrightarrow> (\<not> b \<Longrightarrow> yields Q n) \<Longrightarrow> yields Q (if b then m else n)"
  "(\<And>a c. yields Q (f a c)) \<Longrightarrow> yields Q (case p of (a, c) \<Rightarrow> f a c)"
  "(\<And>a c. yields Q (h' a c s)) \<Longrightarrow> yields Q ((case p of (a, c) \<Rightarrow> h' a c) s)"
  "yields Q m \<Longrightarrow> (\<And>x. yields Q (k x)) \<Longrightarrow> yields Q (case q of None \<Rightarrow> m | Some x \<Rightarrow> k x)"
  "(\<And>e. yields Q (h e)) \<Longrightarrow> (\<And>y. yields Q (l y)) \<Longrightarrow> yields Q (case r of Inl e \<Rightarrow> h e | Inr y \<Rightarrow> l y)"
  "yields Q (w t) \<Longrightarrow> yields Q (Let t w)"
  by (auto split: prod.split option.split sum.split)

lemmas [emits_rules] = emitting.composed emits_basic expect_emits
lemmas [returns_rules] = returns_basic returns_bind returns_for
lemmas [yields_rules] = yields_bind yields_return [THEN iffD2]

end
