(* ===== verification/GameApi.thy ===== *)
theory GameApi
  imports Game
begin

text \<open>
  The commands of \<open>GameClient\<close> (\<open>src/src/kpi.rs\<close>), one definition per method: the name sent, the
  parameters and the kind of request (plain, fight, skin challenge).  \<open>api\<close> lists them with their names; every one
  sends exactly one request and returns its answer.
\<close>

section \<open>Commands\<close>

subsection \<open>System/login (system_*)\<close>

definition role_getroleinfo :: "env \<Rightarrow> json res io" where
  "role_getroleinfo E =
     cmd E ''role_getroleinfo''
       (jobj [(''clientVersion'', Str ''2.21.2-fa918e1997301834-wx''), (''inviteUid'', jnum 0),
         (''platform'', Str ''hortor''), (''platformExt'', Str ''mix''), (''scene'', Str '''')])"

definition system_getdatabundlever :: "env \<Rightarrow> json res io" where
  "system_getdatabundlever E = cmd E ''system_getdatabundlever'' (jobj [(''isAudit'', Bool False)])"

definition system_custom :: "env \<Rightarrow> string \<Rightarrow> json \<Rightarrow> json res io" where
  "system_custom E key v = cmd E ''system_custom'' (jobj [(''key'', Str key), (''value'', v)])"

definition system_signinreward :: "env \<Rightarrow> json res io" where
  "system_signinreward E = cmd E ''system_signinreward'' (jobj [])"

definition system_buygold :: "env \<Rightarrow> json res io" where
  "system_buygold E = cmd E ''system_buygold'' (jobj [(''buyNum'', jnum 1)])"

definition system_claimhangupreward :: "env \<Rightarrow> json res io" where
  "system_claimhangupreward E = cmd E ''system_claimhangupreward'' (jobj [])"

definition system_mysharecallback :: "env \<Rightarrow> json res io" where
  "system_mysharecallback E =
     cmd E ''system_mysharecallback''
       (jobj [(''isSkipShareCard'', Bool True), (''type'', jnum 2)])"

definition system_sendchatmessage :: "env \<Rightarrow> json \<Rightarrow> json res io" where
  "system_sendchatmessage E params = cmd E ''system_sendchatmessage'' params"

definition role_commitpassword :: "env \<Rightarrow> string \<Rightarrow> int \<Rightarrow> json res io" where
  "role_commitpassword E password password_type =
     cmd E ''role_commitpassword''
       (jobj [(''password'', Str password), (''passwordType'', jint password_type)])"

subsection \<open>friend (friend_*)\<close>

definition friend_batch :: "env \<Rightarrow> json res io" where
  "friend_batch E = cmd E ''friend_batch'' (jobj [(''friendId'', jnum 0)])"

subsection \<open>hero (hero_*)\<close>

definition hero_recruit :: "env \<Rightarrow> nat \<Rightarrow> nat \<Rightarrow> json res io" where
  "hero_recruit E recruit_type recruit_number =
     cmd E ''hero_recruit''
       (jobj [(''byClub'', Bool False), (''recruitNumber'', jnum recruit_number), (''recruitType'', jnum recruit_type)])"

definition hero_exchange :: "env \<Rightarrow> json \<Rightarrow> json res io" where
  "hero_exchange E params = cmd E ''hero_exchange'' params"

definition hero_gointobattle :: "env \<Rightarrow> json \<Rightarrow> json res io" where
  "hero_gointobattle E params = cmd E ''hero_gointobattle'' params"

definition hero_gobackbattle :: "env \<Rightarrow> json \<Rightarrow> json res io" where
  "hero_gobackbattle E params = cmd E ''hero_gobackbattle'' params"

definition hero_heroupgradelevel :: "env \<Rightarrow> json \<Rightarrow> json res io" where
  "hero_heroupgradelevel E params = cmd E ''hero_heroupgradelevel'' params"

definition hero_heroupgradeorder :: "env \<Rightarrow> json \<Rightarrow> json res io" where
  "hero_heroupgradeorder E params = cmd E ''hero_heroupgradeorder'' params"

definition hero_heroupgradestar :: "env \<Rightarrow> json \<Rightarrow> json res io" where
  "hero_heroupgradestar E params = cmd E ''hero_heroupgradestar'' params"

definition hero_rebirth :: "env \<Rightarrow> json \<Rightarrow> json res io" where
  "hero_rebirth E params = cmd E ''hero_rebirth'' params"

subsection \<open>cargo/box (item_*)\<close>

definition item_openbox :: "env \<Rightarrow> nat \<Rightarrow> nat \<Rightarrow> json res io" where
  "item_openbox E item_id number =
     cmd E ''item_openbox''
       (jobj [(''itemId'', jnum item_id), (''number'', jnum number)])"

definition item_batchclaimboxpointreward :: "env \<Rightarrow> json res io" where
  "item_batchclaimboxpointreward E = cmd E ''item_batchclaimboxpointreward'' (jobj [])"

definition item_openpack :: "env \<Rightarrow> json \<Rightarrow> json res io" where
  "item_openpack E params = cmd E ''item_openpack'' params"

subsection \<open>arena (arena_*)\<close>

definition arena_startarea :: "env \<Rightarrow> json res io" where
  "arena_startarea E = cmd E ''arena_startarea'' (jobj [])"

definition arena_getareatarget :: "env \<Rightarrow> json res io" where
  "arena_getareatarget E = cmd E ''arena_getareatarget'' (jobj [(''refresh'', Bool False)])"

definition arena_getarearank :: "env \<Rightarrow> json res io" where
  "arena_getarearank E = cmd E ''arena_getarearank'' (jobj [])"

subsection \<open>Fight (fight_*)\<close>

definition fight_startareaarena :: "env \<Rightarrow> nat \<Rightarrow> json res io" where
  "fight_startareaarena E target_id = cmd_fight E ''fight_startareaarena'' (jobj [(''targetId'', jnum target_id)])"

definition fight_startboss :: "env \<Rightarrow> nat \<Rightarrow> json res io" where
  "fight_startboss E boss_id = cmd_fight E ''fight_startboss'' (jobj [(''bossId'', jnum boss_id)])"

definition fight_startlegionboss :: "env \<Rightarrow> json res io" where
  "fight_startlegionboss E = cmd_fight E ''fight_startlegionboss'' (jobj [])"

definition fight_startpvp :: "env \<Rightarrow> json \<Rightarrow> json res io" where
  "fight_startpvp E params = cmd_fight E ''fight_startpvp'' params"

definition fight_starttower :: "env \<Rightarrow> json res io" where
  "fight_starttower E = cmd_fight E ''fight_starttower'' (jobj [])"

definition fight_startdungeon :: "env \<Rightarrow> json \<Rightarrow> json res io" where
  "fight_startdungeon E params = cmd_fight E ''fight_startdungeon'' params"

definition fight_startlevel :: "env \<Rightarrow> json \<Rightarrow> json res io" where
  "fight_startlevel E params = cmd_fight E ''fight_startlevel'' params"

subsection \<open>TASK (task_*)\<close>

definition task_claimdailypoint :: "env \<Rightarrow> nat \<Rightarrow> json res io" where
  "task_claimdailypoint E task_id = cmd E ''task_claimdailypoint'' (jobj [(''taskId'', jnum task_id)])"

definition task_claimdailyreward :: "env \<Rightarrow> json res io" where
  "task_claimdailyreward E = cmd E ''task_claimdailyreward'' (jobj [(''rewardId'', jnum 0)])"

definition task_claimweekreward :: "env \<Rightarrow> json res io" where
  "task_claimweekreward E = cmd E ''task_claimweekreward'' (jobj [(''rewardId'', jnum 0)])"

subsection \<open>Store (store_*)\<close>

definition store_goodslist :: "env \<Rightarrow> nat \<Rightarrow> json res io" where
  "store_goodslist E store_id = cmd E ''store_goodslist'' (jobj [(''storeId'', jnum store_id)])"

definition store_buy :: "env \<Rightarrow> nat \<Rightarrow> json res io" where
  "store_buy E goods_id = cmd E ''store_buy'' (jobj [(''goodsId'', jnum goods_id)])"

definition store_purchase :: "env \<Rightarrow> nat \<Rightarrow> json res io" where
  "store_purchase E goods_id = cmd E ''store_purchase'' (jobj [(''goodsId'', jnum goods_id)])"

definition store_refresh :: "env \<Rightarrow> nat \<Rightarrow> json res io" where
  "store_refresh E store_id = cmd E ''store_refresh'' (jobj [(''storeId'', jnum store_id)])"

subsection \<open>Legion (legion_*)\<close>

definition legion_signin :: "env \<Rightarrow> json res io" where
  "legion_signin E = cmd E ''legion_signin'' (jobj [])"

definition legion_getinfo :: "env \<Rightarrow> json res io" where
  "legion_getinfo E = cmd E ''legion_getinfo'' (jobj [])"

definition legion_getinfobyid :: "env \<Rightarrow> json \<Rightarrow> json res io" where
  "legion_getinfobyid E params = cmd E ''legion_getinfobyid'' params"

definition legion_getwarrank :: "env \<Rightarrow> json res io" where
  "legion_getwarrank E = cmd E ''legion_getwarrank'' (jobj [])"

definition legionwar_getdetails :: "env \<Rightarrow> json res io" where
  "legionwar_getdetails E = cmd E ''legionwar_getdetails'' (jobj [])"

definition legion_storebuygoods :: "env \<Rightarrow> json \<Rightarrow> json res io" where
  "legion_storebuygoods E params = cmd E ''legion_storebuygoods'' params"

definition legion_kickout :: "env \<Rightarrow> json \<Rightarrow> json res io" where
  "legion_kickout E params = cmd E ''legion_kickout'' params"

definition legion_applylist :: "env \<Rightarrow> json res io" where
  "legion_applylist E = cmd E ''legion_applylist'' (jobj [])"

definition legion_approveapply :: "env \<Rightarrow> json \<Rightarrow> json res io" where
  "legion_approveapply E params = cmd E ''legion_approveapply'' params"

definition legion_refuseapply :: "env \<Rightarrow> json \<Rightarrow> json res io" where
  "legion_refuseapply E params = cmd E ''legion_refuseapply'' params"

definition legion_agree :: "env \<Rightarrow> json \<Rightarrow> json res io" where
  "legion_agree E params = cmd E ''legion_agree'' params"

definition legion_ignore :: "env \<Rightarrow> json \<Rightarrow> json res io" where
  "legion_ignore E params = cmd E ''legion_ignore'' params"

definition legion_research :: "env \<Rightarrow> json \<Rightarrow> json res io" where
  "legion_research E params = cmd E ''legion_research'' params"

definition legion_resetresearch :: "env \<Rightarrow> json \<Rightarrow> json res io" where
  "legion_resetresearch E params = cmd E ''legion_resetresearch'' params"

definition legion_getarearank :: "env \<Rightarrow> json res io" where
  "legion_getarearank E = cmd E ''legion_getarearank'' (jobj [])"

definition legion_getopponent :: "env \<Rightarrow> json res io" where
  "legion_getopponent E = cmd E ''legion_getopponent'' (jobj [])"

definition legion_getbattlefield :: "env \<Rightarrow> json res io" where
  "legion_getbattlefield E = cmd E ''legion_getbattlefield'' (jobj [])"

definition legion_signup :: "env \<Rightarrow> json res io" where
  "legion_signup E = cmd E ''legion_signup'' (jobj [])"

definition legionwar_getgoldmonthwarrank :: "env \<Rightarrow> json res io" where
  "legionwar_getgoldmonthwarrank E = cmd E ''legionwar_getgoldmonthwarrank'' (jobj [])"

definition legionmatch_rolesignup :: "env \<Rightarrow> json res io" where
  "legionmatch_rolesignup E = cmd E ''legionmatch_rolesignup'' (jobj [])"

subsection \<open>Peach/Payload (legion_payload*)\<close>

definition legion_claimpayloadtask :: "env \<Rightarrow> json \<Rightarrow> json res io" where
  "legion_claimpayloadtask E params = cmd E ''legion_claimpayloadtask'' params"

definition legion_claimpayloadtaskprogress :: "env \<Rightarrow> json \<Rightarrow> json res io" where
  "legion_claimpayloadtaskprogress E params = cmd E ''legion_claimpayloadtaskprogress'' params"

definition legion_getpayloadtask :: "env \<Rightarrow> json res io" where
  "legion_getpayloadtask E = cmd E ''legion_getpayloadtask'' (jobj [])"

definition legion_getpayloadkillrecord :: "env \<Rightarrow> json res io" where
  "legion_getpayloadkillrecord E = cmd E ''legion_getpayloadkillrecord'' (jobj [])"

definition legion_getpayloadbf :: "env \<Rightarrow> json res io" where
  "legion_getpayloadbf E = cmd E ''legion_getpayloadbf'' (jobj [])"

definition legion_getpayloadrecord :: "env \<Rightarrow> json res io" where
  "legion_getpayloadrecord E = cmd E ''legion_getpayloadrecord'' (jobj [])"

definition legion_payloadsignup :: "env \<Rightarrow> json res io" where
  "legion_payloadsignup E = cmd E ''legion_payloadsignup'' (jobj [])"

subsection \<open>Salt Road/Salt Field (saltroad_*)\<close>

definition saltroad_getsaltroadwartotalrank :: "env \<Rightarrow> json res io" where
  "saltroad_getsaltroadwartotalrank E = cmd E ''saltroad_getsaltroadwartotalrank'' (jobj [])"

definition saltroad_getsaltroadwargrouprank :: "env \<Rightarrow> json res io" where
  "saltroad_getsaltroadwargrouprank E = cmd E ''saltroad_getsaltroadwargrouprank'' (jobj [])"

definition saltroad_getwartype :: "env \<Rightarrow> json res io" where
  "saltroad_getwartype E = cmd E ''saltroad_getwartype'' (jobj [])"

subsection \<open>League (league_*)\<close>

definition league_getbattlefield :: "env \<Rightarrow> json res io" where
  "league_getbattlefield E = cmd E ''league_getbattlefield'' (jobj [])"

definition league_getgroupopponent :: "env \<Rightarrow> json res io" where
  "league_getgroupopponent E = cmd E ''league_getgroupopponent'' (jobj [])"

subsection \<open>Mail (mail_*)\<close>

definition mail_getlist :: "env \<Rightarrow> json res io" where
  "mail_getlist E =
     cmd E ''mail_getlist''
       (jobj [(''category'', Array [jnum 0, jnum 4, jnum 5]), (''lastId'', jnum 0), (''size'', jnum 60)])"

definition mail_claimallattachment :: "env \<Rightarrow> int \<Rightarrow> json res io" where
  "mail_claimallattachment E category = cmd E ''mail_claimallattachment'' (jobj [(''category'', jint category)])"

definition mail_getmtlinfo :: "env \<Rightarrow> json res io" where
  "mail_getmtlinfo E = cmd E ''mail_getmtlinfo'' (jobj [])"

definition mail_getmtlshortinfo :: "env \<Rightarrow> json res io" where
  "mail_getmtlshortinfo E = cmd E ''mail_getmtlshortinfo'' (jobj [])"

subsection \<open>Quiz/Study (study_*)\<close>

definition study_startgame :: "env \<Rightarrow> json res io" where
  "study_startgame E = cmd E ''study_startgame'' (jobj [])"

definition study_answer :: "env \<Rightarrow> json \<Rightarrow> json res io" where
  "study_answer E params = cmd E ''study_answer'' params"

definition study_claimreward :: "env \<Rightarrow> nat \<Rightarrow> json res io" where
  "study_claimreward E reward_id = cmd E ''study_claimreward'' (jobj [(''rewardId'', jnum reward_id)])"

subsection \<open>Artifacts/Fishing (artifact_*)\<close>

definition artifact_lottery :: "env \<Rightarrow> json res io" where
  "artifact_lottery E =
     cmd E ''artifact_lottery''
       (jobj [(''lotteryNumber'', jnum 1), (''newFree'', Bool True), (''type'', jnum 1)])"

definition artifact_exchange :: "env \<Rightarrow> json \<Rightarrow> json res io" where
  "artifact_exchange E params = cmd E ''artifact_exchange'' params"

definition artifact_load :: "env \<Rightarrow> json \<Rightarrow> json res io" where
  "artifact_load E params = cmd E ''artifact_load'' params"

definition artifact_unload :: "env \<Rightarrow> json \<Rightarrow> json res io" where
  "artifact_unload E params = cmd E ''artifact_unload'' params"

subsection \<open>Genie (genie_*)\<close>

definition genie_sweep :: "env \<Rightarrow> nat \<Rightarrow> json res io" where
  "genie_sweep E genie_id = cmd E ''genie_sweep'' (jobj [(''genieId'', jnum genie_id)])"

definition genie_buysweep :: "env \<Rightarrow> json res io" where
  "genie_buysweep E = cmd E ''genie_buysweep'' (jobj [])"

definition gacha_drawreward :: "env \<Rightarrow> json res io" where
  "gacha_drawreward E = cmd E ''gacha_drawreward'' (jobj [(''num'', jnum 1), (''isGroup'', Bool False)])"

subsection \<open>Discounts/Gift Packs (discount_*)\<close>

definition discount_claimreward :: "env \<Rightarrow> json res io" where
  "discount_claimreward E = cmd E ''discount_claimreward'' (jobj [(''discountId'', jnum 1)])"

definition discount_getdiscountinfo :: "env \<Rightarrow> json res io" where
  "discount_getdiscountinfo E = cmd E ''discount_getdiscountinfo'' (jobj [])"

subsection \<open>Treasure Pavilion (collection_*)\<close>

definition collection_claimfreereward :: "env \<Rightarrow> json res io" where
  "collection_claimfreereward E = cmd E ''collection_claimfreereward'' (jobj [])"

definition collection_goodslist :: "env \<Rightarrow> json res io" where
  "collection_goodslist E = cmd E ''collection_goodslist'' (jobj [])"

subsection \<open>Cards/Gift Cards (card_*)\<close>

definition card_claimfree :: "env \<Rightarrow> json res io" where
  "card_claimfree E = cmd E ''card_claimreward'' (jobj [(''cardId'', jnum 1)])"

definition card_claimreward :: "env \<Rightarrow> nat \<Rightarrow> json res io" where
  "card_claimreward E card_id = cmd E ''card_claimreward'' (jobj [(''cardId'', jnum card_id)])"

subsection \<open>Salt Jar/Drift Bottle (bottlehelper_*)\<close>

definition bottlehelper_claim :: "env \<Rightarrow> json res io" where
  "bottlehelper_claim E = cmd E ''bottlehelper_claim'' (jobj [])"

definition bottlehelper_start :: "env \<Rightarrow> json res io" where
  "bottlehelper_start E = cmd E ''bottlehelper_start'' (jobj [(''bottleType'', jint (-1))])"

definition bottlehelper_stop :: "env \<Rightarrow> json res io" where
  "bottlehelper_stop E = cmd E ''bottlehelper_stop'' (jobj [(''bottleType'', jint (-1))])"

subsection \<open>Salted-Fish General Tower (tower_*)\<close>

definition tower_getinfo :: "env \<Rightarrow> json res io" where
  "tower_getinfo E = cmd E ''tower_getinfo'' (jobj [])"

definition tower_claimreward :: "env \<Rightarrow> nat \<Rightarrow> json res io" where
  "tower_claimreward E reward_id = cmd E ''tower_claimreward'' (jobj [(''rewardId'', jnum reward_id)])"

subsection \<open>Evo Tower (evotower_*)\<close>

definition evotower_getinfo :: "env \<Rightarrow> json res io" where
  "evotower_getinfo E = cmd E ''evotower_getinfo'' (jobj [])"

definition evotower_fight :: "env \<Rightarrow> json \<Rightarrow> json res io" where
  "evotower_fight E params = cmd E ''evotower_fight'' params"

definition evotower_getlegionjoinmembers :: "env \<Rightarrow> json res io" where
  "evotower_getlegionjoinmembers E = cmd E ''evotower_getlegionjoinmembers'' (jobj [])"

definition evotower_readyfight :: "env \<Rightarrow> json \<Rightarrow> json res io" where
  "evotower_readyfight E params = cmd E ''evotower_readyfight'' params"

definition evotower_claimreward :: "env \<Rightarrow> json \<Rightarrow> json res io" where
  "evotower_claimreward E params = cmd E ''evotower_claimreward'' params"

definition evotower_claimtask :: "env \<Rightarrow> nat \<Rightarrow> json res io" where
  "evotower_claimtask E task_id = cmd E ''evotower_claimtask'' (jobj [(''taskId'', jnum task_id)])"

subsection \<open>Salted-Fish King Treasury (bosstower_*)\<close>

definition bosstower_getinfo :: "env \<Rightarrow> json res io" where
  "bosstower_getinfo E = cmd E ''bosstower_getinfo'' (jobj [])"

definition bosstower_startboss :: "env \<Rightarrow> json \<Rightarrow> json res io" where
  "bosstower_startboss E params = cmd E ''bosstower_startboss'' params"

definition bosstower_startbox :: "env \<Rightarrow> json \<Rightarrow> json res io" where
  "bosstower_startbox E params = cmd E ''bosstower_startbox'' params"

definition bosstower_gethelprank :: "env \<Rightarrow> json res io" where
  "bosstower_gethelprank E = cmd E ''bosstower_gethelprank'' (jobj [])"

subsection \<open>Merge Box (mergebox_*)\<close>

definition mergebox_getinfo :: "env \<Rightarrow> nat \<Rightarrow> json res io" where
  "mergebox_getinfo E act_type = cmd E ''mergebox_getinfo'' (jobj [(''actType'', jnum act_type)])"

definition mergebox_claimfreeenergy :: "env \<Rightarrow> nat \<Rightarrow> json res io" where
  "mergebox_claimfreeenergy E act_type = cmd E ''mergebox_claimfreeenergy'' (jobj [(''actType'', jnum act_type)])"

definition mergebox_openbox :: "env \<Rightarrow> json \<Rightarrow> json res io" where
  "mergebox_openbox E params = cmd E ''mergebox_openbox'' params"

definition mergebox_automergeitem :: "env \<Rightarrow> nat \<Rightarrow> json res io" where
  "mergebox_automergeitem E act_type = cmd E ''mergebox_automergeitem'' (jobj [(''actType'', jnum act_type)])"

definition mergebox_mergeitem :: "env \<Rightarrow> json \<Rightarrow> json res io" where
  "mergebox_mergeitem E params = cmd E ''mergebox_mergeitem'' params"

definition mergebox_claimcostprogress :: "env \<Rightarrow> nat \<Rightarrow> json res io" where
  "mergebox_claimcostprogress E act_type = cmd E ''mergebox_claimcostprogress'' (jobj [(''actType'', jnum act_type)])"

definition mergebox_claimmergeprogress :: "env \<Rightarrow> nat \<Rightarrow> nat \<Rightarrow> json res io" where
  "mergebox_claimmergeprogress E act_type task_id =
     cmd E ''mergebox_claimmergeprogress''
       (jobj [(''actType'', jnum act_type), (''taskId'', jnum task_id)])"

subsection \<open>Preset Formations (presetteam_*)\<close>

definition presetteam_getinfo :: "env \<Rightarrow> json res io" where
  "presetteam_getinfo E = cmd E ''presetteam_getinfo'' (jobj [])"

definition presetteam_saveteam :: "env \<Rightarrow> nat \<Rightarrow> json res io" where
  "presetteam_saveteam E team_id = cmd E ''presetteam_saveteam'' (jobj [(''teamId'', jnum team_id)])"

definition presetteam_setteam :: "env \<Rightarrow> json \<Rightarrow> json res io" where
  "presetteam_setteam E params = cmd E ''presetteam_setteam'' params"

subsection \<open>Rankings (rank_*)\<close>

definition rank_getserverrank :: "env \<Rightarrow> json res io" where
  "rank_getserverrank E = cmd E ''rank_getserverrank'' (jobj [])"

definition rank_getroleinfo :: "env \<Rightarrow> json \<Rightarrow> json res io" where
  "rank_getroleinfo E params = cmd E ''rank_getroleinfo'' params"

definition role_gettargetteam :: "env \<Rightarrow> json \<Rightarrow> json res io" where
  "role_gettargetteam E params = cmd E ''role_gettargetteam'' params"

subsection \<open>Nightmare/Dungeon (dungeon_*, nightmare_*)\<close>

definition nightmare_getroleinfo :: "env \<Rightarrow> json res io" where
  "nightmare_getroleinfo E = cmd E ''nightmare_getroleinfo'' (jobj [])"

definition dungeon_selecthero :: "env \<Rightarrow> json \<Rightarrow> json res io" where
  "dungeon_selecthero E params = cmd E ''dungeon_selecthero'' params"

definition dungeon_buymerchant :: "env \<Rightarrow> json \<Rightarrow> json res io" where
  "dungeon_buymerchant E params = cmd E ''dungeon_buymerchant'' params"

subsection \<open>Vehicles/Dispatch (car_*)\<close>

definition car_getrolecar :: "env \<Rightarrow> json res io" where
  "car_getrolecar E = cmd E ''car_getrolecar'' (jobj [])"

definition car_refresh :: "env \<Rightarrow> string \<Rightarrow> json res io" where
  "car_refresh E car_id = cmd E ''car_refresh'' (jobj [(''carId'', Str car_id)])"

definition car_claim :: "env \<Rightarrow> string \<Rightarrow> json res io" where
  "car_claim E car_id = cmd E ''car_claim'' (jobj [(''carId'', Str car_id)])"

definition car_send :: "env \<Rightarrow> string \<Rightarrow> nat \<Rightarrow> string \<Rightarrow> json res io" where
  "car_send E car_id helper_id text =
     cmd E ''car_send''
       (jobj [(''carId'', Str car_id), (''helperId'', jnum helper_id), (''text'', Str text), (''isUpgrade'', Bool False)])"

definition car_getmemberhelpingcnt :: "env \<Rightarrow> json res io" where
  "car_getmemberhelpingcnt E = cmd E ''car_getmemberhelpingcnt'' (jobj [])"

definition car_getmemberrank :: "env \<Rightarrow> json res io" where
  "car_getmemberrank E = cmd E ''car_getmemberrank'' (jobj [])"

definition car_research :: "env \<Rightarrow> json \<Rightarrow> json res io" where
  "car_research E params = cmd E ''car_research'' params"

definition car_claimpartconsumereward :: "env \<Rightarrow> json res io" where
  "car_claimpartconsumereward E = cmd E ''car_claimpartconsumereward'' (jobj [])"

subsection \<open>Cultivation Techniques (legacy_*)\<close>

definition legacy_getinfo :: "env \<Rightarrow> json res io" where
  "legacy_getinfo E = cmd E ''legacy_getinfo'' (jobj [])"

definition legacy_claimhangup :: "env \<Rightarrow> json res io" where
  "legacy_claimhangup E = cmd E ''legacy_claimhangup'' (jobj [])"

definition legacy_gift_getlist :: "env \<Rightarrow> json res io" where
  "legacy_gift_getlist E = cmd E ''legacy_gift_getlist'' (jobj [])"

definition legacy_gift_send :: "env \<Rightarrow> nat \<Rightarrow> nat \<Rightarrow> nat \<Rightarrow> json res io" where
  "legacy_gift_send E recipient_id item_id quantity =
     cmd E ''legacy_gift_send''
       (jobj [(''recipientId'', jnum recipient_id), (''itemId'', jnum item_id), (''quantity'', jnum quantity)])"

definition legacy_gift_received :: "env \<Rightarrow> json res io" where
  "legacy_gift_received E = cmd E ''legacy_gift_received'' (jobj [])"

definition legacy_sendgift :: "env \<Rightarrow> json \<Rightarrow> json res io" where
  "legacy_sendgift E params = cmd E ''legacy_sendgift'' params"

subsection \<open>Equipment (equipment_*)\<close>

definition equipment_confirm :: "env \<Rightarrow> json \<Rightarrow> json res io" where
  "equipment_confirm E params = cmd E ''equipment_confirm'' params"

definition equipment_quench :: "env \<Rightarrow> json \<Rightarrow> json res io" where
  "equipment_quench E params = cmd E ''equipment_quench'' params"

definition equipment_updatequenchlock :: "env \<Rightarrow> json \<Rightarrow> json res io" where
  "equipment_updatequenchlock E params = cmd E ''equipment_updatequenchlock'' params"

subsection \<open>Pearls (pearl_*)\<close>

definition pearl_replaceskill :: "env \<Rightarrow> json \<Rightarrow> json res io" where
  "pearl_replaceskill E params = cmd E ''pearl_replaceskill'' params"

definition pearl_exchangeskill :: "env \<Rightarrow> json \<Rightarrow> json res io" where
  "pearl_exchangeskill E params = cmd E ''pearl_exchangeskill'' params"

definition pearl_unloadskill :: "env \<Rightarrow> json \<Rightarrow> json res io" where
  "pearl_unloadskill E params = cmd E ''pearl_unloadskill'' params"

subsection \<open>Codex (book_*)\<close>

definition book_upgrade :: "env \<Rightarrow> json \<Rightarrow> json res io" where
  "book_upgrade E params = cmd E ''book_upgrade'' params"

definition book_claimpointreward :: "env \<Rightarrow> json \<Rightarrow> json res io" where
  "book_claimpointreward E params = cmd E ''book_claimpointreward'' params"

subsection \<open>Lord Weapon (lordweapon_*)\<close>

definition lordweapon_changedefaultweapon :: "env \<Rightarrow> json \<Rightarrow> json res io" where
  "lordweapon_changedefaultweapon E params = cmd E ''lordweapon_changedefaultweapon'' params"

subsection \<open>Team Matching (matchteam_*)\<close>

definition matchteam_getroleteaminfo :: "env \<Rightarrow> json res io" where
  "matchteam_getroleteaminfo E = cmd E ''matchteam_getroleteaminfo'' (jobj [])"

subsection \<open>Activities (activity_*)\<close>

definition activity_get :: "env \<Rightarrow> json res io" where
  "activity_get E = cmd E ''activity_get'' (jobj [])"

definition activity_recyclewarorderrewardclaim :: "env \<Rightarrow> json res io" where
  "activity_recyclewarorderrewardclaim E = cmd E ''activity_recyclewarorderrewardclaim'' (jobj [])"

subsection \<open>Predictions (warguess_*)\<close>

definition warguess_getrank :: "env \<Rightarrow> json res io" where
  "warguess_getrank E = cmd E ''warguess_getrank'' (jobj [])"

definition warguess_startguess :: "env \<Rightarrow> json \<Rightarrow> json res io" where
  "warguess_startguess E params = cmd E ''warguess_startguess'' params"

definition warguess_getguesscoinreward :: "env \<Rightarrow> json res io" where
  "warguess_getguesscoinreward E = cmd E ''warguess_getguesscoinreward'' (jobj [])"

subsection \<open>Skin Challenge (towers_*)\<close>

text \<open>\<open>YYMMDD1\<close> of the latest Friday.\<close>
definition get_tower_act_id :: "env \<Rightarrow> local_now \<Rightarrow> nat" where
  "get_tower_act_id E now =
     (let days_since_friday = (num_days_from_monday (ln_weekday now) + 7 - num_days_from_monday Fri) mod 7;
          (y, m, d) = ymd E (ln_day now - int days_since_friday);
          id_str = pad2 (nat (y mod 100)) @ pad2 m @ pad2 d @ ''1''
      in unwrap_or (parse_u64 id_str) 0)"

definition towers_getinfo :: "env \<Rightarrow> json res io" where
  "towers_getinfo E =
     io_bind (read_local E) (\<lambda>now.
       cmd_with_timeout E ''towers_getinfo'' (jobj [(''actId'', jnum (get_tower_act_id E now))]) T_SKINC)"

definition towers_start :: "env \<Rightarrow> json \<Rightarrow> json res io" where
  "towers_start E params =
     io_bind (read_local E) (\<lambda>now.
       cmd_with_timeout E ''towers_start'' (insert_param ''actId'' (jnum (get_tower_act_id E now)) params) T_SKINC)"

definition towers_fight :: "env \<Rightarrow> json \<Rightarrow> json res io" where
  "towers_fight E params =
     io_bind (read_local E) (\<lambda>now.
       cmd_with_timeout E ''towers_fight'' (insert_param ''actId'' (jnum (get_tower_act_id E now)) params) T_SKINC)"

section \<open>All commands\<close>

lemmas api_defs =
  role_getroleinfo_def system_getdatabundlever_def system_custom_def system_signinreward_def system_buygold_def
  system_claimhangupreward_def system_mysharecallback_def system_sendchatmessage_def role_commitpassword_def
  friend_batch_def hero_recruit_def hero_exchange_def hero_gointobattle_def hero_gobackbattle_def
  hero_heroupgradelevel_def hero_heroupgradeorder_def hero_heroupgradestar_def hero_rebirth_def item_openbox_def
  item_batchclaimboxpointreward_def item_openpack_def arena_startarea_def arena_getareatarget_def
  arena_getarearank_def fight_startareaarena_def fight_startboss_def fight_startlegionboss_def fight_startpvp_def
  fight_starttower_def fight_startdungeon_def fight_startlevel_def task_claimdailypoint_def
  task_claimdailyreward_def task_claimweekreward_def store_goodslist_def store_buy_def store_purchase_def
  store_refresh_def legion_signin_def legion_getinfo_def legion_getinfobyid_def legion_getwarrank_def
  legionwar_getdetails_def legion_storebuygoods_def legion_kickout_def legion_applylist_def
  legion_approveapply_def legion_refuseapply_def legion_agree_def legion_ignore_def legion_research_def
  legion_resetresearch_def legion_getarearank_def legion_getopponent_def legion_getbattlefield_def
  legion_signup_def legionwar_getgoldmonthwarrank_def legionmatch_rolesignup_def legion_claimpayloadtask_def
  legion_claimpayloadtaskprogress_def legion_getpayloadtask_def legion_getpayloadkillrecord_def
  legion_getpayloadbf_def legion_getpayloadrecord_def legion_payloadsignup_def
  saltroad_getsaltroadwartotalrank_def saltroad_getsaltroadwargrouprank_def saltroad_getwartype_def
  league_getbattlefield_def league_getgroupopponent_def mail_getlist_def mail_claimallattachment_def
  mail_getmtlinfo_def mail_getmtlshortinfo_def study_startgame_def study_answer_def study_claimreward_def
  artifact_lottery_def artifact_exchange_def artifact_load_def artifact_unload_def genie_sweep_def
  genie_buysweep_def gacha_drawreward_def discount_claimreward_def discount_getdiscountinfo_def
  collection_claimfreereward_def collection_goodslist_def card_claimfree_def card_claimreward_def
  bottlehelper_claim_def bottlehelper_start_def bottlehelper_stop_def tower_getinfo_def tower_claimreward_def
  evotower_getinfo_def evotower_fight_def evotower_getlegionjoinmembers_def evotower_readyfight_def
  evotower_claimreward_def evotower_claimtask_def bosstower_getinfo_def bosstower_startboss_def
  bosstower_startbox_def bosstower_gethelprank_def mergebox_getinfo_def mergebox_claimfreeenergy_def
  mergebox_openbox_def mergebox_automergeitem_def mergebox_mergeitem_def mergebox_claimcostprogress_def
  mergebox_claimmergeprogress_def presetteam_getinfo_def presetteam_saveteam_def presetteam_setteam_def
  rank_getserverrank_def rank_getroleinfo_def role_gettargetteam_def nightmare_getroleinfo_def
  dungeon_selecthero_def dungeon_buymerchant_def car_getrolecar_def car_refresh_def car_claim_def car_send_def
  car_getmemberhelpingcnt_def car_getmemberrank_def car_research_def car_claimpartconsumereward_def
  legacy_getinfo_def legacy_claimhangup_def legacy_gift_getlist_def legacy_gift_send_def legacy_gift_received_def
  legacy_sendgift_def equipment_confirm_def equipment_quench_def equipment_updatequenchlock_def
  pearl_replaceskill_def pearl_exchangeskill_def pearl_unloadskill_def book_upgrade_def book_claimpointreward_def
  lordweapon_changedefaultweapon_def matchteam_getroleteaminfo_def activity_get_def
  activity_recyclewarorderrewardclaim_def warguess_getrank_def warguess_startguess_def
  warguess_getguesscoinreward_def towers_getinfo_def towers_start_def towers_fight_def

text \<open>The methods with their own names, their arguments given as \<open>p\<close> (JSON), \<open>a b c\<close> (numbers), \<open>i\<close> (signed), \<open>s t\<close>
  (strings); \<open>card_claimfree\<close> is the one that sends another method's command.\<close>
definition api :: "env \<Rightarrow> json \<Rightarrow> nat \<Rightarrow> nat \<Rightarrow> nat \<Rightarrow> int \<Rightarrow> string \<Rightarrow> string \<Rightarrow> (string \<times> json res io) list" where
  "api E p a b c i s t =
    [(''role_getroleinfo'', role_getroleinfo E), (''system_getdatabundlever'', system_getdatabundlever E),
     (''system_custom'', system_custom E s p), (''system_signinreward'', system_signinreward E),
     (''system_buygold'', system_buygold E), (''system_claimhangupreward'', system_claimhangupreward E),
     (''system_mysharecallback'', system_mysharecallback E),
     (''system_sendchatmessage'', system_sendchatmessage E p),
     (''role_commitpassword'', role_commitpassword E s i), (''friend_batch'', friend_batch E),
     (''hero_recruit'', hero_recruit E a b), (''hero_exchange'', hero_exchange E p),
     (''hero_gointobattle'', hero_gointobattle E p), (''hero_gobackbattle'', hero_gobackbattle E p),
     (''hero_heroupgradelevel'', hero_heroupgradelevel E p),
     (''hero_heroupgradeorder'', hero_heroupgradeorder E p),
     (''hero_heroupgradestar'', hero_heroupgradestar E p), (''hero_rebirth'', hero_rebirth E p),
     (''item_openbox'', item_openbox E a b),
     (''item_batchclaimboxpointreward'', item_batchclaimboxpointreward E),
     (''item_openpack'', item_openpack E p), (''arena_startarea'', arena_startarea E),
     (''arena_getareatarget'', arena_getareatarget E), (''arena_getarearank'', arena_getarearank E),
     (''fight_startareaarena'', fight_startareaarena E a), (''fight_startboss'', fight_startboss E a),
     (''fight_startlegionboss'', fight_startlegionboss E), (''fight_startpvp'', fight_startpvp E p),
     (''fight_starttower'', fight_starttower E), (''fight_startdungeon'', fight_startdungeon E p),
     (''fight_startlevel'', fight_startlevel E p), (''task_claimdailypoint'', task_claimdailypoint E a),
     (''task_claimdailyreward'', task_claimdailyreward E), (''task_claimweekreward'', task_claimweekreward E),
     (''store_goodslist'', store_goodslist E a), (''store_buy'', store_buy E a),
     (''store_purchase'', store_purchase E a), (''store_refresh'', store_refresh E a),
     (''legion_signin'', legion_signin E), (''legion_getinfo'', legion_getinfo E),
     (''legion_getinfobyid'', legion_getinfobyid E p), (''legion_getwarrank'', legion_getwarrank E),
     (''legionwar_getdetails'', legionwar_getdetails E), (''legion_storebuygoods'', legion_storebuygoods E p),
     (''legion_kickout'', legion_kickout E p), (''legion_applylist'', legion_applylist E),
     (''legion_approveapply'', legion_approveapply E p), (''legion_refuseapply'', legion_refuseapply E p),
     (''legion_agree'', legion_agree E p), (''legion_ignore'', legion_ignore E p),
     (''legion_research'', legion_research E p), (''legion_resetresearch'', legion_resetresearch E p),
     (''legion_getarearank'', legion_getarearank E), (''legion_getopponent'', legion_getopponent E),
     (''legion_getbattlefield'', legion_getbattlefield E), (''legion_signup'', legion_signup E),
     (''legionwar_getgoldmonthwarrank'', legionwar_getgoldmonthwarrank E),
     (''legionmatch_rolesignup'', legionmatch_rolesignup E),
     (''legion_claimpayloadtask'', legion_claimpayloadtask E p),
     (''legion_claimpayloadtaskprogress'', legion_claimpayloadtaskprogress E p),
     (''legion_getpayloadtask'', legion_getpayloadtask E),
     (''legion_getpayloadkillrecord'', legion_getpayloadkillrecord E),
     (''legion_getpayloadbf'', legion_getpayloadbf E), (''legion_getpayloadrecord'', legion_getpayloadrecord E),
     (''legion_payloadsignup'', legion_payloadsignup E),
     (''saltroad_getsaltroadwartotalrank'', saltroad_getsaltroadwartotalrank E),
     (''saltroad_getsaltroadwargrouprank'', saltroad_getsaltroadwargrouprank E),
     (''saltroad_getwartype'', saltroad_getwartype E), (''league_getbattlefield'', league_getbattlefield E),
     (''league_getgroupopponent'', league_getgroupopponent E), (''mail_getlist'', mail_getlist E),
     (''mail_claimallattachment'', mail_claimallattachment E i), (''mail_getmtlinfo'', mail_getmtlinfo E),
     (''mail_getmtlshortinfo'', mail_getmtlshortinfo E), (''study_startgame'', study_startgame E),
     (''study_answer'', study_answer E p), (''study_claimreward'', study_claimreward E a),
     (''artifact_lottery'', artifact_lottery E), (''artifact_exchange'', artifact_exchange E p),
     (''artifact_load'', artifact_load E p), (''artifact_unload'', artifact_unload E p),
     (''genie_sweep'', genie_sweep E a), (''genie_buysweep'', genie_buysweep E),
     (''gacha_drawreward'', gacha_drawreward E), (''discount_claimreward'', discount_claimreward E),
     (''discount_getdiscountinfo'', discount_getdiscountinfo E),
     (''collection_claimfreereward'', collection_claimfreereward E),
     (''collection_goodslist'', collection_goodslist E), (''card_claimreward'', card_claimfree E),
     (''card_claimreward'', card_claimreward E a), (''bottlehelper_claim'', bottlehelper_claim E),
     (''bottlehelper_start'', bottlehelper_start E), (''bottlehelper_stop'', bottlehelper_stop E),
     (''tower_getinfo'', tower_getinfo E), (''tower_claimreward'', tower_claimreward E a),
     (''evotower_getinfo'', evotower_getinfo E), (''evotower_fight'', evotower_fight E p),
     (''evotower_getlegionjoinmembers'', evotower_getlegionjoinmembers E),
     (''evotower_readyfight'', evotower_readyfight E p), (''evotower_claimreward'', evotower_claimreward E p),
     (''evotower_claimtask'', evotower_claimtask E a), (''bosstower_getinfo'', bosstower_getinfo E),
     (''bosstower_startboss'', bosstower_startboss E p), (''bosstower_startbox'', bosstower_startbox E p),
     (''bosstower_gethelprank'', bosstower_gethelprank E), (''mergebox_getinfo'', mergebox_getinfo E a),
     (''mergebox_claimfreeenergy'', mergebox_claimfreeenergy E a), (''mergebox_openbox'', mergebox_openbox E p),
     (''mergebox_automergeitem'', mergebox_automergeitem E a), (''mergebox_mergeitem'', mergebox_mergeitem E p),
     (''mergebox_claimcostprogress'', mergebox_claimcostprogress E a),
     (''mergebox_claimmergeprogress'', mergebox_claimmergeprogress E a b),
     (''presetteam_getinfo'', presetteam_getinfo E), (''presetteam_saveteam'', presetteam_saveteam E a),
     (''presetteam_setteam'', presetteam_setteam E p), (''rank_getserverrank'', rank_getserverrank E),
     (''rank_getroleinfo'', rank_getroleinfo E p), (''role_gettargetteam'', role_gettargetteam E p),
     (''nightmare_getroleinfo'', nightmare_getroleinfo E), (''dungeon_selecthero'', dungeon_selecthero E p),
     (''dungeon_buymerchant'', dungeon_buymerchant E p), (''car_getrolecar'', car_getrolecar E),
     (''car_refresh'', car_refresh E s), (''car_claim'', car_claim E s), (''car_send'', car_send E s a t),
     (''car_getmemberhelpingcnt'', car_getmemberhelpingcnt E), (''car_getmemberrank'', car_getmemberrank E),
     (''car_research'', car_research E p), (''car_claimpartconsumereward'', car_claimpartconsumereward E),
     (''legacy_getinfo'', legacy_getinfo E), (''legacy_claimhangup'', legacy_claimhangup E),
     (''legacy_gift_getlist'', legacy_gift_getlist E), (''legacy_gift_send'', legacy_gift_send E a b c),
     (''legacy_gift_received'', legacy_gift_received E), (''legacy_sendgift'', legacy_sendgift E p),
     (''equipment_confirm'', equipment_confirm E p), (''equipment_quench'', equipment_quench E p),
     (''equipment_updatequenchlock'', equipment_updatequenchlock E p),
     (''pearl_replaceskill'', pearl_replaceskill E p), (''pearl_exchangeskill'', pearl_exchangeskill E p),
     (''pearl_unloadskill'', pearl_unloadskill E p), (''book_upgrade'', book_upgrade E p),
     (''book_claimpointreward'', book_claimpointreward E p),
     (''lordweapon_changedefaultweapon'', lordweapon_changedefaultweapon E p),
     (''matchteam_getroleteaminfo'', matchteam_getroleteaminfo E), (''activity_get'', activity_get E),
     (''activity_recyclewarorderrewardclaim'', activity_recyclewarorderrewardclaim E),
     (''warguess_getrank'', warguess_getrank E), (''warguess_startguess'', warguess_startguess E p),
     (''warguess_getguesscoinreward'', warguess_getguesscoinreward E), (''towers_getinfo'', towers_getinfo E),
     (''towers_start'', towers_start E p), (''towers_fight'', towers_fight E p)]"

definition sends_one :: "env \<Rightarrow> string \<Rightarrow> json res io \<Rightarrow> bool" where
  "sends_one E name m =
     (\<forall>g. \<exists>params t. m g = Some (answer E (ws g @ [Request name params t]), happen (Request name params t) g))"

lemma sends_one_cmd:
  "sends_one E name (cmd_with_timeout E name params t)" "sends_one E name (cmd E name params)"
  "sends_one E name (cmd_fight E name params)"
  by (auto simp: sends_one_def cmd_def cmd_with_timeout_def cmd_fight_def send_with_response_def Let_def)

lemma sends_one_read: "(\<And>now. sends_one E name (f now)) \<Longrightarrow> sends_one E name (io_bind (read_local E) f)"
  by (auto simp: sends_one_def)

text \<open>Every method of the client sends exactly one request, under its own name (the free gift card as a card
  claim), adds nothing else to the session and returns the server's answer to that request.\<close>
theorem api_one_request: "list_all (\<lambda>(name, m). sends_one E name m) (api E p a b c i s t)"
  by (simp add: api_def api_defs sends_one_cmd sends_one_read)

text \<open>What a request of one name may add to the history.\<close>
definition requests :: "string set \<Rightarrow> event \<Rightarrow> bool" where
  "requests S e = (case e of Request name params t \<Rightarrow> name \<in> S | Notify name params \<Rightarrow> name \<in> S | _ \<Rightarrow> True)"

lemma requests_simps [simp]:
  "requests S (Request name params t) \<longleftrightarrow> name \<in> S" "requests S (Sleep ms)" "requests S Disconnect"
  "requests S (Notify name params) \<longleftrightarrow> name \<in> S"
  by (simp_all add: requests_def)

lemma cmd_emits [emits_rules]:
  "name \<in> S \<Longrightarrow> obeys (extends (requests S)) (cmd_with_timeout E name params t)"
  "name \<in> S \<Longrightarrow> obeys (extends (requests S)) (cmd E name params)"
  "name \<in> S \<Longrightarrow> obeys (extends (requests S)) (cmd_fight E name params)"
  by (auto simp: cmd_def cmd_with_timeout_def cmd_fight_def Let_def intro!: emits_basic emitting.composed
      split: option.split)

lemma cmd_returns [returns_rules]:
  "returns (cmd_with_timeout E name params t)" "returns (cmd E name params)" "returns (cmd_fight E name params)"
  by (auto simp: cmd_def cmd_with_timeout_def cmd_fight_def Let_def intro!: returns_bind)

end
