(* ===== verification/Reports.thy ===== *)
theory Reports
  imports GameApi
begin

text \<open>
  What the flows of \<open>src/src/kpi.rs\<close> read and report: the status of hangup, bottle and the daily tasks as read
  from the role info, the report a run of tasks builds, and the helpers that look into role info and responses.
  Names in Chinese are their code points, encoded by \<open>zh\<close>.
\<close>

section \<open>Texts\<close>

text \<open>UTF-8 of a code point below 65536.\<close>
definition utf8_char :: "nat \<Rightarrow> string" where
  "utf8_char n =
     (if n < 0x80 then [char_of n]
      else if n < 0x800 then [char_of (0xC0 + n div 64), char_of (0x80 + n mod 64)]
      else [char_of (0xE0 + n div 4096), char_of (0x80 + n div 64 mod 64), char_of (0x80 + n mod 64)])"

definition zh :: "nat list \<Rightarrow> string" where
  "zh ns = concat (map utf8_char ns)"

text \<open>\<open>{:>2}\<close>\<close>
definition right2 :: "string \<Rightarrow> string" where
  "right2 s = replicate (2 - length s) (CHR '' '') @ s"

section \<open>Reports\<close>

datatype task_result = TaskOk string | Skipped string | Failed string string

type_synonym report = "task_result list"

definition report_new :: report where
  "report_new = []"

text \<open>\<open>run\<close>, \<open>skip\<close> and \<open>fail\<close> push one result; a failure whose code says that there is nothing left to do counts as skipped.\<close>
definition report_run :: "string \<Rightarrow> json res \<Rightarrow> report \<Rightarrow> report" where
  "report_run name result rep =
     (case result of
        Inr _ \<Rightarrow> rep @ [TaskOk name]
      | Inl e \<Rightarrow>
          (case extract_code_from_error e of
             Some code \<Rightarrow> if is_done_error code then rep @ [Skipped name] else rep @ [Failed name e]
           | None \<Rightarrow> rep @ [Failed name e]))"

definition report_skip :: "string \<Rightarrow> report \<Rightarrow> report" where
  "report_skip name rep = rep @ [Skipped name]"

definition report_fail :: "string \<Rightarrow> string \<Rightarrow> report \<Rightarrow> report" where
  "report_fail name err rep = rep @ [Failed name err]"

text \<open>The variants with a log prefix, which is not used.\<close>
definition run_with_prefix :: "string \<Rightarrow> string \<Rightarrow> json res \<Rightarrow> report \<Rightarrow> report" where
  "run_with_prefix prefix name result rep =
     (case result of
        Inr _ \<Rightarrow> rep @ [TaskOk name]
      | Inl e \<Rightarrow>
          (case extract_code_from_error e of
             Some code \<Rightarrow> if is_done_error code then rep @ [Skipped name] else rep @ [Failed name e]
           | None \<Rightarrow> rep @ [Failed name e]))"

definition skip_with_prefix :: "string \<Rightarrow> string \<Rightarrow> report \<Rightarrow> report" where
  "skip_with_prefix prefix name rep = rep @ [Skipped name]"

definition fail_with_prefix :: "string \<Rightarrow> string \<Rightarrow> string \<Rightarrow> report \<Rightarrow> report" where
  "fail_with_prefix prefix name err rep = rep @ [Failed name err]"

definition ok_count :: "report \<Rightarrow> nat" where
  "ok_count rep = length (filter (\<lambda>r. case r of TaskOk _ \<Rightarrow> True | _ \<Rightarrow> False) rep)"

definition skip_count :: "report \<Rightarrow> nat" where
  "skip_count rep = length (filter (\<lambda>r. case r of Skipped _ \<Rightarrow> True | _ \<Rightarrow> False) rep)"

definition fail_count :: "report \<Rightarrow> nat" where
  "fail_count rep = length (filter (\<lambda>r. case r of Failed _ _ \<Rightarrow> True | _ \<Rightarrow> False) rep)"

definition report_summary :: "report \<Rightarrow> string" where
  "report_summary rep =
     ''=== TASK DONE: '' @ nat_str (ok_count rep) @ '' Succ, '' @ nat_str (skip_count rep) @ '' Skipped, '' @
     nat_str (fail_count rep) @ '' Failed, Total '' @ nat_str (length rep) @ '' ===''"

section \<open>Hangup and bottle\<close>

definition h3600 :: f64 where "h3600 = u64_to_f64 3600"

text \<open>\<open>HH:MM:SS\<close>\<close>
definition hangup_fmt_time :: "f64 \<Rightarrow> string" where
  "hangup_fmt_time seconds =
     (let total = f64_as_u64 (f64_max seconds 0); h = total div 3600; m = (total mod 3600) div 60; s = total mod 60
      in pad2 h @ '':'' @ pad2 m @ '':'' @ pad2 s)"

definition bottle_fmt_time :: "f64 \<Rightarrow> string" where
  "bottle_fmt_time seconds =
     (let total = f64_as_u64 (f64_max seconds 0); h = total div 3600; m = (total mod 3600) div 60; s = total mod 60
      in pad2 h @ '':'' @ pad2 m @ '':'' @ pad2 s)"

record hangup_status =
  hs_last_time :: f64
  hs_hangup_time :: f64
  hs_elapsed :: f64
  hs_remaining :: f64
  hs_is_active :: bool

definition hangup_status_default :: hangup_status where
  "hangup_status_default = \<lparr>hs_last_time = 0, hs_hangup_time = 0, hs_elapsed = 0, hs_remaining = 0, hs_is_active = False\<rparr>"

record bottle_status =
  bs_stop_time :: f64
  bs_remaining :: f64
  bs_is_running :: bool

definition bottle_status_default :: bottle_status where
  "bottle_status_default = \<lparr>bs_stop_time = 0, bs_remaining = 0, bs_is_running = False\<rparr>"

definition elapsed_hours :: "hangup_status \<Rightarrow> f64" where
  "elapsed_hours s = f64_div (hs_elapsed s) h3600"

definition remaining_hours :: "hangup_status \<Rightarrow> f64" where
  "remaining_hours s = f64_div (hs_remaining s) h3600"

definition hangup_hours :: "hangup_status \<Rightarrow> f64" where
  "hangup_hours s = f64_div (hs_hangup_time s) h3600"

definition needs_extend :: "hangup_status \<Rightarrow> bool" where
  "needs_extend s = f64_lt (hs_elapsed s) (f64_mul (u64_to_f64 8) h3600)"

definition hangup_summary :: "hangup_status \<Rightarrow> string" where
  "hangup_summary s =
     ''Hangup: '' @ (if hs_is_active s then ''in processing'' else ''suspend'') @ '' | Elapsed'' @
     hangup_fmt_time (hs_elapsed s) @ '' / Total'' @ hangup_fmt_time (hs_hangup_time s) @ '' | Remaining'' @
     hangup_fmt_time (hs_remaining s) @ '' | '' @ (if needs_extend s then ''need extend'' else ''enough time'')"

definition bottle_summary :: "bottle_status \<Rightarrow> string" where
  "bottle_summary s =
     ''Bottle: '' @ (if bs_is_running s then ''Running'' else ''Suspend'') @ '' | Remaining '' @
     bottle_fmt_time (bs_remaining s)"

text \<open>\<open>now\<close> is the reading of the clock inside.\<close>
definition get_hangup_status :: "f64 \<Rightarrow> game \<Rightarrow> hangup_status" where
  "get_hangup_status now g =
     (case role_info g of
        None \<Rightarrow> hangup_status_default
      | Some info \<Rightarrow>
          (case or_else (pointer [''role'', ''hangUp''] info) (pointer [''hangUp''] info) of
             None \<Rightarrow> hangup_status_default
           | Some obj \<Rightarrow>
               let last = unwrap_or (field_f64 obj ''lastTime'') 0;
                   hangup_time = unwrap_or (field_f64 obj ''hangUpTime'') 0;
                   elapsed = f64_sub now last
               in if f64_le elapsed hangup_time
                  then \<lparr>hs_last_time = last, hs_hangup_time = hangup_time, hs_elapsed = elapsed,
                        hs_remaining = f64_sub hangup_time elapsed, hs_is_active = True\<rparr>
                  else \<lparr>hs_last_time = last, hs_hangup_time = hangup_time, hs_elapsed = hangup_time,
                        hs_remaining = 0, hs_is_active = False\<rparr>))"

definition get_bottle_status :: "f64 \<Rightarrow> game \<Rightarrow> bottle_status" where
  "get_bottle_status now g =
     (case role_info g of
        None \<Rightarrow> bottle_status_default
      | Some info \<Rightarrow>
          (case or_else (pointer [''role'', ''bottleHelpers''] info) (pointer [''bottleHelpers''] info) of
             None \<Rightarrow> bottle_status_default
           | Some obj \<Rightarrow>
               let stop = unwrap_or (field_f64 obj ''helperStopTime'') 0
               in if f64_lt now stop
                  then \<lparr>bs_stop_time = stop, bs_remaining = f64_sub stop now, bs_is_running = True\<rparr>
                  else \<lparr>bs_stop_time = stop, bs_remaining = 0, bs_is_running = False\<rparr>))"

section \<open>Looking into role info\<close>

definition level_id :: "game \<Rightarrow> nat" where
  "level_id g =
     unwrap_or (Option.bind (Option.bind (role_info g) (\<lambda>info.
       or_else (pointer [''role'', ''levelId''] info) (pointer [''levelId''] info))) as_nat) 0"

definition is_evotower_unlocked :: "game \<Rightarrow> bool" where
  "is_evotower_unlocked g = (4001 \<le> level_id g)"

text \<open>Tower identifiers are ten times the floor; floor 450 is the last.\<close>
definition TOWER_CLEAR_ID :: nat where "TOWER_CLEAR_ID = 4500"

definition tower_id_from_role_info :: "json \<Rightarrow> nat option" where
  "tower_id_from_role_info info =
     Option.bind (or_else (pointer [''role'', ''tower'', ''id''] info) (pointer [''tower'', ''id''] info)) as_nat"

definition tower_is_cleared :: "json \<Rightarrow> bool" where
  "tower_is_cleared info = (TOWER_CLEAR_ID \<le> unwrap_or (tower_id_from_role_info info) 0)"

definition update_periodic_state :: "f64 \<Rightarrow> game \<Rightarrow> role_periodic \<Rightarrow> role_periodic" where
  "update_periodic_state now g p =
     (case role_info g of
        None \<Rightarrow> p
      | Some info \<Rightarrow>
          let p = update_bottle_from_role info (update_hangup_from_role now info p)
          in if tower_is_cleared info then p\<lparr>p_tower_cleared := True, p_tower_next_check := 0\<rparr> else p)"

definition extract_last_login :: "json \<Rightarrow> i64 option" where
  "extract_last_login resp =
     Option.bind (or_else (or_else (pointer [''statistics'', ''lastLoginTime''] resp)
       (pointer [''role'', ''statistics'', ''lastLoginTime''] resp)) (pointer [''role'', ''lastLoginAt''] resp)) as_i64"

text \<open>The first \<open>useTeamId\<close> that is a number, depth first.\<close>
fun find_use_team_id_rec :: "json \<Rightarrow> nat option"
  and find_in_list :: "json list \<Rightarrow> nat option"
  and find_in_object :: "(string \<times> json) list \<Rightarrow> nat option"
where
  "find_use_team_id_rec v =
     (case v of
        Object m \<Rightarrow>
          (case Option.bind (obj_get m ''useTeamId'') as_nat of
             Some team_id \<Rightarrow> Some team_id
           | None \<Rightarrow> find_in_object m)
      | Array items \<Rightarrow> find_in_list items
      | _ \<Rightarrow> None)"
| "find_in_list [] = None"
| "find_in_list (x # xs) = (case find_use_team_id_rec x of Some t \<Rightarrow> Some t | None \<Rightarrow> find_in_list xs)"
| "find_in_object [] = None"
| "find_in_object ((k, x) # xs) = (case find_use_team_id_rec x of Some t \<Rightarrow> Some t | None \<Rightarrow> find_in_object xs)"

declare find_use_team_id_rec.simps [simp del]

section \<open>The random seed\<close>

definition XOR_A :: u32 where "XOR_A = 2118920861"
definition XOR_B :: u32 where "XOR_B = 797788954"
definition XOR_C :: u32 where "XOR_C = 1513922175"

definition generate_random_seed :: "i64 \<Rightarrow> u32" where
  "generate_random_seed last_login_time =
     (let seed = ucast last_login_time XOR XOR_A;
          seed = push_bit 16 seed OR drop_bit 16 seed
      in (seed XOR XOR_B) XOR XOR_C)"

section \<open>Daily task status\<close>

text \<open>\<open>today\<close> is the local date.\<close>
definition is_today_available :: "env \<Rightarrow> local_now \<Rightarrow> json option \<Rightarrow> bool" where
  "is_today_available E now ts =
     (case Option.bind ts (\<lambda>v. or_else (as_int v) (map_option f64_as_i64 (as_f64 v))) of
        None \<Rightarrow> True
      | Some ts \<Rightarrow>
          (case day_of_unix E ts of
             Some d \<Rightarrow> ln_day now \<noteq> d
           | None \<Rightarrow> True))"

record daily_status =
  st_login :: bool
  st_share :: bool
  st_friend_gift :: bool
  st_recruit :: bool
  st_hangup_reward :: bool
  st_buy_gold :: bool
  st_open_box :: bool
  st_store_purchase :: bool
  st_arena :: bool
  st_bottle :: bool
  st_legion_boss_done :: nat
  st_arena_done_today :: nat
  st_buy_gold_today :: bool
  st_artifact_lottery_today :: bool
  st_genie_1_today :: bool
  st_genie_2_today :: bool
  st_genie_3_today :: bool
  st_genie_4_today :: bool
  st_gacha_today :: bool

definition daily_status_default :: daily_status where
  "daily_status_default = \<lparr>st_login = False, st_share = False, st_friend_gift = False, st_recruit = False,
     st_hangup_reward = False, st_buy_gold = False, st_open_box = False, st_store_purchase = False,
     st_arena = False, st_bottle = False, st_legion_boss_done = 0, st_arena_done_today = 0,
     st_buy_gold_today = False, st_artifact_lottery_today = False, st_genie_1_today = False,
     st_genie_2_today = False, st_genie_3_today = False, st_genie_4_today = False, st_gacha_today = False\<rparr>"

definition note_task :: "nat \<Rightarrow> bool \<Rightarrow> daily_status \<Rightarrow> daily_status" where
  "note_task task_id d s =
     (if task_id = 1 then s\<lparr>st_login := d\<rparr> else if task_id = 2 then s\<lparr>st_share := d\<rparr>
      else if task_id = 3 then s\<lparr>st_friend_gift := d\<rparr> else if task_id = 4 then s\<lparr>st_recruit := d\<rparr>
      else if task_id = 5 then s\<lparr>st_hangup_reward := d\<rparr> else if task_id = 6 then s\<lparr>st_buy_gold := d\<rparr>
      else if task_id = 7 then s\<lparr>st_open_box := d\<rparr> else if task_id = 12 then s\<lparr>st_store_purchase := d\<rparr>
      else if task_id = 13 then s\<lparr>st_arena := d\<rparr> else if task_id = 14 then s\<lparr>st_bottle := d\<rparr> else s)"

fun note_tasks :: "object \<Rightarrow> daily_status \<Rightarrow> daily_status" where
  "note_tasks [] s = s"
| "note_tasks ((k, v) # kvs) s =
     note_tasks kvs (note_task (unwrap_or (parse_u32 k) 0) (as_int v = Some (- 1)) s)"

definition note_statistics :: "json \<Rightarrow> daily_status \<Rightarrow> daily_status" where
  "note_statistics stats s =
     (let s = (case Option.bind (jget stats ''legion:boss'') as_int of
                 Some v \<Rightarrow> s\<lparr>st_legion_boss_done := int_as_u32 v\<rparr> | None \<Rightarrow> s)
      in case Option.bind (jget stats ''area:arena:last'') as_int of
           Some v \<Rightarrow> s\<lparr>st_arena_done_today := int_as_u32 v\<rparr> | None \<Rightarrow> s)"

definition note_times :: "env \<Rightarrow> local_now \<Rightarrow> json option \<Rightarrow> json \<Rightarrow> daily_status \<Rightarrow> daily_status" where
  "note_times E now statistics st s =
     (let run = (\<lambda>k. \<not> is_today_available E now (jget st k));
          s = s\<lparr>st_buy_gold_today := run ''buy:gold'',
                st_artifact_lottery_today := run ''artifact:normal:lottery:time'',
                st_genie_1_today := run ''genie:daily:free:1'', st_genie_2_today := run ''genie:daily:free:2'',
                st_genie_3_today := run ''genie:daily:free:3'', st_genie_4_today := run ''genie:daily:free:4'',
                st_gacha_today := \<not> is_today_available E now (or_else (jget st ''gacha:free'')
                  (Option.bind statistics (\<lambda>s. jget s ''gacha:free'')))\<rparr>;
          s = (if is_today_available E now (jget st ''legion:boss'') then s\<lparr>st_legion_boss_done := 0\<rparr> else s)
      in if is_today_available E now (jget st ''area:arena:last'') then s\<lparr>st_arena_done_today := 0\<rparr> else s)"

definition get_daily_task_status :: "env \<Rightarrow> local_now \<Rightarrow> game \<Rightarrow> daily_status" where
  "get_daily_task_status E now g =
     (case role_info g of
        None \<Rightarrow> daily_status_default
      | Some info \<Rightarrow>
          let complete = or_else (pointer [''role'', ''dailyTask'', ''complete''] info)
                           (pointer [''dailyTask'', ''complete''] info);
              statistics = or_else (pointer [''role'', ''statistics''] info) (pointer [''statistics''] info);
              statistics_time = or_else (pointer [''role'', ''statisticsTime''] info) (pointer [''statisticsTime''] info);
              s = (case Option.bind complete as_object of
                     Some obj \<Rightarrow> note_tasks obj daily_status_default | None \<Rightarrow> daily_status_default);
              s = (case statistics of Some stats \<Rightarrow> note_statistics stats s | None \<Rightarrow> s)
          in case statistics_time of Some st \<Rightarrow> note_times E now statistics st s | None \<Rightarrow> s)"

definition completed_count :: "daily_status \<Rightarrow> nat" where
  "completed_count s =
     length (filter (\<lambda>x. x) [st_login s, st_share s, st_friend_gift s, st_recruit s, st_hangup_reward s,
       st_buy_gold s, st_open_box s, st_store_purchase s, st_arena s, st_bottle s])"

definition pending_task_ids :: "daily_status \<Rightarrow> nat list" where
  "pending_task_ids s =
     map fst (filter (\<lambda>(i, d). \<not> d) [(1, st_login s), (2, st_share s), (3, st_friend_gift s), (4, st_recruit s),
       (5, st_hangup_reward s), (6, st_buy_gold s), (7, st_open_box s), (12, st_store_purchase s),
       (13, st_arena s), (14, st_bottle s)])"

definition status_summary :: "daily_status \<Rightarrow> string" where
  "status_summary s =
     (let tasks = [(1 :: nat, zh [0x767B, 0x5F55, 0x6E38, 0x620F], st_login s), (2, zh [0x5206, 0x4EAB, 0x6E38, 0x620F], st_share s),
            (3, zh [0x8D60, 0x9001, 0x597D, 0x53CB, 0x91D1, 0x5E01], st_friend_gift s), (4, zh [0x8FDB, 0x884C, 0x62DB, 0x52DF], st_recruit s),
            (5, zh [0x6302, 0x673A, 0x5956, 0x52B1], st_hangup_reward s), (6, zh [0x514D, 0x8D39, 0x70B9, 0x91D1], st_buy_gold s),
            (7, zh [0x5F00, 0x542F, 0x5B9D, 0x7BB1], st_open_box s), (12, zh [0x9ED1, 0x5E02, 0x91C7, 0x8D2D], st_store_purchase s),
            (13, zh [0x7ADE, 0x6280, 0x573A, 0x6218, 0x6597], st_arena s), (14, zh [0x76D0, 0x7F50, 0x6536, 0x83B7], st_bottle s)];
          lines = map (\<lambda>(i, name, d). ''  ['' @ (if d then ''+'' else ''-'') @ ''] '' @ right2 (nat_str i) @ ''. '' @ name) tasks
      in concat (map (\<lambda>l. l @ [CHR 0x0A]) lines) @ ''  DONE: '' @ nat_str (completed_count s) @ ''/10'')"

end
