(* ===== verification/Flows.thy ===== *)
theory Flows
  imports Reports "HOL-Library.Product_Lexorder"
begin

text \<open>
  The small flows of \<open>src/src/kpi.rs\<close> that the daily and periodic runs are made of: login, the preset teams and
  their switching, hangup, bottle, the dream shop, and the plain run of the daily tasks.  A mutable report is
  passed in and returned.
\<close>

section \<open>Login\<close>

text \<open>\<open>connected\<close> is the outcome of opening the socket.\<close>
definition login :: "env \<Rightarrow> unit res \<Rightarrow> unit res io" where
  "login E connected =
     (case connected of
        Inl e \<Rightarrow> io_return (Inl e)
      | Inr _ \<Rightarrow>
          io_bind (send_with_response E ''role_getroleinfo''
              (jobj [(''clientVersion'', Str ''2.21.2-fa918e1997301834-wx''), (''inviteUid'', jnum 0),
                 (''platform'', Str ''hortor''), (''platformExt'', Str ''mix''), (''scene'', Str '''')]) 10000) (\<lambda>r.
          case r of
            Inl e \<Rightarrow> io_return (Inl e)
          | Inr role_resp \<Rightarrow>
              io_bind (send_with_response E ''fight_startlevel'' (jobj []) 8000) (\<lambda>r.
              let battle_version = (case r of
                      Inr resp \<Rightarrow> Option.bind (pointer [''battleData'', ''version''] resp) as_i64
                    | Inl _ \<Rightarrow> Option.bind (pointer [''battleVersion''] role_resp) as_i64);
                  finish = (\<lambda>g. Some (Inr (), g\<lparr>role_info := Some role_resp, battle_version := battle_version\<rparr>))
              in case extract_last_login role_resp of
                   None \<Rightarrow> finish
                 | Some ts \<Rightarrow>
                     io_bind (send E ''system_custom''
                         (jobj [(''key'', Str ''randomSeed''), (''value'', Number (PosInt (ucast (generate_random_seed ts))))])) (\<lambda>r.
                     case r of Inl e \<Rightarrow> io_return (Inl e) | Inr _ \<Rightarrow> finish))))"

section \<open>Teams\<close>

text \<open>The team in use as a response of \<open>presetteam_getinfo\<close> has it, team 1 when it cannot be found.\<close>
definition team_in_use :: "json \<Rightarrow> nat" where
  "team_in_use info =
     (let root = unwrap_or (jget info ''presetTeamInfo'') info
      in unwrap_or (or_else
           (Option.bind (or_else (jget root ''useTeamId'') (pointer [''presetTeamInfo'', ''useTeamId''] root)) as_nat)
           (find_use_team_id_rec root)) 1)"

definition current_team_id :: "env \<Rightarrow> nat res io" where
  "current_team_id E =
     io_bind (presetteam_getinfo E) (\<lambda>r.
       case r of
         Inl e \<Rightarrow> io_return (Inl e)
       | Inr info \<Rightarrow> io_return (Inr (team_in_use info)))"

definition switch_team :: "env \<Rightarrow> nat \<Rightarrow> unit res io" where
  "switch_team E team_id =
     io_bind (presetteam_saveteam E team_id) (\<lambda>r. io_return (case r of Inl e \<Rightarrow> Inl e | Inr _ \<Rightarrow> Inr ()))"

definition switch_to_context_formation :: "env \<Rightarrow> nat \<Rightarrow> nat option \<Rightarrow> bool res io" where
  "switch_to_context_formation E target_team original_team =
     (case original_team of
        None \<Rightarrow> io_return (Inr False)
      | Some orig \<Rightarrow>
          if orig = target_team then io_return (Inr False)
          else io_bind (switch_team E target_team) (\<lambda>r.
                 io_return (case r of Inl e \<Rightarrow> Inl e | Inr _ \<Rightarrow> Inr True)))"

definition restore_context_formation :: "env \<Rightarrow> bool \<Rightarrow> nat option \<Rightarrow> unit res io" where
  "restore_context_formation E switched original_team =
     (if \<not> switched then io_return (Inr ())
      else case original_team of
             None \<Rightarrow> io_return (Inr ())
           | Some orig \<Rightarrow>
               io_bind (current_team_id E) (\<lambda>r.
                 case r of
                   Inl e \<Rightarrow> io_return (Inl e)
                 | Inr current_team \<Rightarrow>
                     if current_team = orig then io_return (Inr ()) else switch_team E orig))"

section \<open>Hangup and bottle\<close>

definition extend_hangup :: "env \<Rightarrow> string \<Rightarrow> report \<Rightarrow> report io" where
  "extend_hangup E label rep =
     io_for [1..<5] (\<lambda>i rep.
       io_bind (system_mysharecallback E) (\<lambda>r.
       io_bind delay (\<lambda>_. io_return (report_run (label @ nat_str i @ ''/4'') r rep)))) rep"

definition smart_hangup :: "env \<Rightarrow> report \<Rightarrow> report io" where
  "smart_hangup E rep =
     io_bind read_game (\<lambda>g. io_bind (read_now E) (\<lambda>now.
       let status = get_hangup_status now g;
           one_hour = u64_to_f64 3600;
           eight_hours = f64_mul (u64_to_f64 8) (u64_to_f64 3600);
           need_claim = (\<not> hs_is_active status \<or> f64_le (hs_remaining status) one_hour)
       in if need_claim then
            io_bind (system_claimhangupreward E) (\<lambda>r.
              extend_hangup E ''Extend hangup time #'' (report_run ''Claim rewards for Hangup'' r rep))
          else if f64_le (hs_hangup_time status) eight_hours then extend_hangup E ''Extend time #'' rep
          else io_return rep))"

definition smart_bottle :: "env \<Rightarrow> report \<Rightarrow> report io" where
  "smart_bottle E rep =
     io_bind (bottlehelper_stop E) (\<lambda>r1. io_bind delay (\<lambda>_.
     io_bind (bottlehelper_start E) (\<lambda>r2. io_bind delay (\<lambda>_.
       io_return (report_run ''START Bottle'' r2 (report_run ''STOP Bottle'' r1 rep))))))"

section \<open>Dream shop\<close>

definition parse_dream_purchase_key :: "string \<Rightarrow> (nat \<times> nat) option" where
  "parse_dream_purchase_key raw =
     (case split_once (CHR ''-'') raw of
        None \<Rightarrow> None
      | Some (merchant_id, item_index) \<Rightarrow>
          Option.bind (parse_u64 merchant_id) (\<lambda>m. map_option (\<lambda>i. (m, i)) (parse_u64 item_index)))"

text \<open>The positions on sale of the items on the list, in the order of the list.\<close>
fun dream_operations :: "object \<Rightarrow> string list \<Rightarrow> (nat \<times> nat \<times> nat) list" where
  "dream_operations merchant [] = []"
| "dream_operations merchant (key # keys) =
     (case parse_dream_purchase_key key of
        None \<Rightarrow> dream_operations merchant keys
      | Some (merchant_id, item_index) \<Rightarrow>
          (case Option.bind (obj_get merchant (nat_str merchant_id)) as_array of
             None \<Rightarrow> dream_operations merchant keys
           | Some merchant_items \<Rightarrow>
               map (\<lambda>(pos, item). (merchant_id, item_index, pos))
                 (filter (\<lambda>(pos, item). as_nat item = Some item_index) (enumerate 0 merchant_items))
               @ dream_operations merchant keys))"

text \<open>By merchant, the last position first, so that a purchase does not move the ones still to come.\<close>
definition sort_operations :: "(nat \<times> nat \<times> nat) list \<Rightarrow> (nat \<times> nat \<times> nat) list" where
  "sort_operations ops = sort_key (\<lambda>(merchant_id, item_index, pos). (merchant_id, - int pos)) ops"

definition buy_operation ::
  "env \<Rightarrow> nat \<times> nat \<times> nat \<Rightarrow> nat \<times> nat \<times> nat \<Rightarrow> (nat \<times> nat \<times> nat) io"
where
  "buy_operation E op counts =
     (case op of (merchant_id, item_index, pos) \<Rightarrow> case counts of (success, skipped, failed) \<Rightarrow>
      io_bind (dungeon_buymerchant E (jobj [(''id'', jnum merchant_id), (''index'', jnum item_index), (''pos'', jnum pos)])) (\<lambda>result.
      io_bind (sleep 500) (\<lambda>_.
        io_return (case result of
          Inr resp \<Rightarrow> if jget resp ''reward'' \<noteq> None then (success + 1, skipped, failed) else (success, skipped + 1, failed)
        | Inl e \<Rightarrow> if is_done_result result then (success, skipped + 1, failed) else (success, skipped, failed + 1)))))"

definition run_dream_shop_daily :: "env \<Rightarrow> string \<Rightarrow> dream_shop_config \<Rightarrow> report \<Rightarrow> report io" where
  "run_dream_shop_daily E prefix dream_shop rep =
     (if purchase_list dream_shop = [] then io_return (skip_with_prefix prefix ''dream_shopping (empty list)'' rep)
      else io_bind (role_getroleinfo E) (\<lambda>r.
        case r of
          Inl e \<Rightarrow> io_return (fail_with_prefix prefix ''dream_shopping (get role_info)'' e rep)
        | Inr info \<Rightarrow>
            io_bind read_game (\<lambda>g.
              if level_id g < 1000 then io_return (skip_with_prefix prefix ''dream_shopping (level_id < 1000)'' rep)
              else case Option.bind (pointer [''role'', ''dungeon'', ''merchant''] info) as_object of
                None \<Rightarrow> io_return (skip_with_prefix prefix ''dream_shopping (no shop info)'' rep)
              | Some merchant \<Rightarrow>
                  let operations = dream_operations merchant (purchase_list dream_shop)
                  in if operations = [] then io_return (skip_with_prefix prefix ''dream_shopping (no goods matching)'' rep)
                     else io_bind (io_for (sort_operations operations) (buy_operation E) (0, 0, 0)) (\<lambda>(success, skipped, failed).
                       io_return (run_with_prefix prefix
                         (''dream_shopping (Success'' @ nat_str success @ '' Skipped'' @ nat_str skipped @
                          '' Failed'' @ nat_str failed @ '')'') (Inr (jobj [])) rep)))))"

section \<open>The plain daily run\<close>

definition DAY_BOSS_MAP :: "nat list" where
  "DAY_BOSS_MAP = [9904, 9905, 9901, 9902, 9903, 9904, 9905]"

text \<open>\<open>report.run(name, action.await); delay().await\<close>\<close>
definition run_step :: "string \<Rightarrow> json res io \<Rightarrow> report \<Rightarrow> report io" where
  "run_step name action rep =
     io_bind action (\<lambda>r. io_bind delay (\<lambda>_. io_return (report_run name r rep)))"

definition run_unless :: "bool \<Rightarrow> string \<Rightarrow> string \<Rightarrow> json res io \<Rightarrow> report \<Rightarrow> report io" where
  "run_unless finished skip_name name action rep =
     (if \<not> finished then run_step name action rep else io_return (report_skip skip_name rep))"

text \<open>One arena fight: the first opponent offered; \<open>Inr\<close> stops.\<close>
definition arena_target :: "json \<Rightarrow> nat" where
  "arena_target targets =
     unwrap_or (Option.bind (or_else (pointer [''roleList'', ''0'', ''roleId''] targets)
       (pointer [''0'', ''roleId''] targets)) as_nat) 0"

definition plain_arena_fight :: "env \<Rightarrow> nat \<Rightarrow> nat \<times> report \<Rightarrow> (nat \<times> report + report) io" where
  "plain_arena_fight E remaining s =
     (case s of (i, rep) \<Rightarrow>
      if remaining < i then io_return (Inr rep)
      else io_bind (arena_getareatarget E) (\<lambda>r.
        case r of
          Inl e \<Rightarrow> io_return (Inr (report_fail (zh [0x83B7, 0x53D6, 0x5BF9, 0x624B] @ '' #'' @ nat_str i @ ''/'' @ nat_str remaining) e rep))
        | Inr targets \<Rightarrow>
            let target_id = arena_target targets
            in if 0 < target_id then
                 io_bind (fight_startareaarena E target_id) (\<lambda>r. io_bind delay (\<lambda>_.
                   io_return (Inl (i + 1, report_run (zh [0x7ADE, 0x6280, 0x573A, 0x6218, 0x6597] @ '' #'' @ nat_str i @ ''/'' @ nat_str remaining @
                     '' (vs '' @ nat_str target_id @ '')'') r rep))))
               else io_bind delay (\<lambda>_.
                   io_return (Inl (i + 1, report_skip (zh [0x7ADE, 0x6280, 0x573A, 0x6218, 0x6597] @ '' #'' @ nat_str i @ ''/'' @ nat_str remaining @
                     '' ('' @ zh [0x65E0, 0x5BF9, 0x624B] @ '')'') rep)))))"

definition plain_arena :: "env \<Rightarrow> daily_status \<Rightarrow> report \<Rightarrow> report io" where
  "plain_arena E status rep =
     (if st_arena status then io_return (report_skip (zh [0x7ADE, 0x6280, 0x573A]) rep)
      else let arena_free = 3; arena_remaining = arena_free - st_arena_done_today status
           in if arena_remaining = 0 then
                io_return (report_skip (zh [0x7ADE, 0x6280, 0x573A] @ '' ('' @ zh [0x5DF2, 0x6253] @ nat_str (st_arena_done_today status) @ ''/'' @ nat_str arena_free @ '')'') rep)
              else io_bind (run_step (zh [0x8FDB, 0x5165, 0x7ADE, 0x6280, 0x573A]) (arena_startarea E) rep) (\<lambda>rep.
                     io_loop (plain_arena_fight E arena_remaining) (1, rep)))"

definition plain_boss :: "env \<Rightarrow> report \<Rightarrow> report io" where
  "plain_boss E rep =
     io_bind (read_local E) (\<lambda>now.
       let boss_id = DAY_BOSS_MAP ! num_days_from_sunday (ln_weekday now)
       in io_for [1..<4] (\<lambda>i. run_step (''Boss'' @ zh [0x6218] @ '' #'' @ nat_str i @ ''/3 (id='' @ nat_str boss_id @ '')'') (fight_startboss E boss_id)) rep)"

definition plain_legion_boss :: "env \<Rightarrow> daily_status \<Rightarrow> report \<Rightarrow> report io" where
  "plain_legion_boss E status rep =
     (let legion_boss_max = 2; remaining = legion_boss_max - st_legion_boss_done status;
          so_far = '' ('' @ zh [0x5DF2, 0x6253] @ nat_str (st_legion_boss_done status) @ ''/'' @ nat_str legion_boss_max @ '')''
      in io_bind
           (if 0 < remaining then
              io_for [1..<Suc remaining] (\<lambda>i. run_step (zh [0x4FF1, 0x4E50, 0x90E8] @ ''Boss #'' @ nat_str i @ ''/'' @ nat_str remaining @ so_far)
                (fight_startlegionboss E)) rep
            else io_return (report_skip (zh [0x4FF1, 0x4E50, 0x90E8] @ ''Boss'' @ so_far) rep))
           (\<lambda>rep. io_bind delay (\<lambda>_. io_return rep)))"

definition kingdoms :: "daily_status \<Rightarrow> (nat \<times> string \<times> bool) list" where
  "kingdoms status = [(1, zh [0x9B4F, 0x56FD], st_genie_1_today status), (2, zh [0x8700, 0x56FD], st_genie_2_today status),
     (3, zh [0x5434, 0x56FD], st_genie_3_today status), (4, zh [0x7FA4, 0x96C4], st_genie_4_today status)]"

definition plain_genie :: "env \<Rightarrow> daily_status \<Rightarrow> report \<Rightarrow> report io" where
  "plain_genie E status rep =
     io_bind (io_for (kingdoms status) (\<lambda>(k, name, finished). run_unless finished (name @ zh [0x706F, 0x795E, 0x626B, 0x8361]) (name @ zh [0x706F, 0x795E, 0x626B, 0x8361])
       (genie_sweep E k)) rep) (\<lambda>rep.
     io_for [1..<4] (\<lambda>i. run_step (zh [0x514D, 0x8D39, 0x626B, 0x8361, 0x5377] @ '' #'' @ nat_str i @ ''/3'') (genie_buysweep E)) rep)"

text \<open>The points and rewards of the tasks, their outcome not reported.\<close>
definition plain_rewards :: "env \<Rightarrow> report \<Rightarrow> report io" where
  "plain_rewards E rep =
     io_bind (io_for [1..<11] (\<lambda>task_id _. io_bind (task_claimdailypoint E task_id) (\<lambda>_. io_return ())) ()) (\<lambda>_.
     io_bind (task_claimdailyreward E) (\<lambda>_. io_bind (task_claimweekreward E) (\<lambda>_.
     io_bind (activity_recyclewarorderrewardclaim E) (\<lambda>_.
     io_bind (mail_claimallattachment E 0) (\<lambda>r.
       io_return (report_run (zh [0x9886, 0x53D6, 0x90AE, 0x4EF6]) r (report_run (zh [0x9886, 0x53D6, 0x4EFB, 0x52A1, 0x5956, 0x52B1]) (Inr (jobj [])) rep)))))))"

definition nightmare_open :: "nat \<Rightarrow> bool" where
  "nightmare_open day = (day \<in> {0, 1, 3, 4})"

definition hero_107 :: json where
  "hero_107 = jobj [(''battleTeam'', jobj [(''0'', jnum 107)])]"

definition plain_nightmare :: "env \<Rightarrow> report \<Rightarrow> report io" where
  "plain_nightmare E rep =
     io_bind (read_local E) (\<lambda>now.
       if nightmare_open (num_days_from_sunday (ln_weekday now))
       then run_step (zh [0x54B8, 0x738B, 0x68A6, 0x5883]) (dungeon_selecthero E hero_107) rep
       else io_return (report_skip (zh [0x54B8, 0x738B, 0x68A6, 0x5883] @ '' ('' @ zh [0x5F53, 0x524D, 0x672A, 0x5F00, 0x653E] @ '')'') rep))"

text \<open>Steps that pass their state on.\<close>
definition io_chain :: "('s \<Rightarrow> 's io) list \<Rightarrow> 's \<Rightarrow> 's io" where
  "io_chain fs s = io_for fs (\<lambda>f s. f s) s"

definition daily_steps :: "env \<Rightarrow> daily_status \<Rightarrow> (report \<Rightarrow> report io) list" where
  "daily_steps E status =
    [run_unless (st_share status) (zh [0x5206, 0x4EAB, 0x6E38, 0x620F]) (zh [0x5206, 0x4EAB, 0x6E38, 0x620F]) (system_mysharecallback E),
     run_unless (st_friend_gift status) (zh [0x8D60, 0x9001, 0x597D, 0x53CB, 0x91D1, 0x5E01]) (zh [0x8D60, 0x9001, 0x597D, 0x53CB, 0x91D1, 0x5E01]) (friend_batch E),
     run_unless (st_recruit status) (zh [0x514D, 0x8D39, 0x62DB, 0x52DF]) (zh [0x514D, 0x8D39, 0x62DB, 0x52DF]) (hero_recruit E 3 1),
     smart_hangup E,
     (\<lambda>rep. if \<not> st_buy_gold status
            then io_for [1..<4] (\<lambda>i. run_step (zh [0x514D, 0x8D39, 0x70B9, 0x91D1] @ '' #'' @ nat_str i @ ''/3'') (system_buygold E)) rep
            else io_return (report_skip (zh [0x514D, 0x8D39, 0x70B9, 0x91D1]) rep)),
     run_unless (st_open_box status) (zh [0x5F00, 0x542F, 0x5B9D, 0x7BB1]) (zh [0x5F00, 0x542F, 0x5B9D, 0x7BB1] @ ''x10'') (item_openbox E 2001 10),
     run_unless (st_store_purchase status) (zh [0x9ED1, 0x5E02, 0x91C7, 0x8D2D]) (zh [0x9ED1, 0x5E02, 0x91C7, 0x8D2D]) (store_purchase E 1),
     smart_bottle E,
     plain_arena E status,
     plain_boss E,
     plain_legion_boss E status,
     run_step (zh [0x798F, 0x5229, 0x7B7E, 0x5230]) (system_signinreward E),
     run_step (zh [0x4FF1, 0x4E50, 0x90E8, 0x7B7E, 0x5230]) (legion_signin E),
     run_step (zh [0x6BCF, 0x65E5, 0x6298, 0x6263, 0x793C, 0x5305]) (discount_claimreward E),
     run_step (zh [0x514D, 0x8D39, 0x793C, 0x5305, 0x5361]) (card_claimfree E),
     run_step (zh [0x6C38, 0x4E45, 0x5361, 0x793C, 0x5305]) (card_claimreward E 4003),
     run_step (zh [0x73CD, 0x5B9D, 0x9601, 0x514D, 0x8D39, 0x5956, 0x52B1]) (collection_claimfreereward E),
     (\<lambda>rep. if \<not> st_artifact_lottery_today status
            then io_for [1..<4] (\<lambda>i. run_step (zh [0x514D, 0x8D39, 0x9493, 0x9C7C] @ '' #'' @ nat_str i @ ''/3'') (artifact_lottery E)) rep
            else io_return (report_skip (zh [0x514D, 0x8D39, 0x9493, 0x9C7C]) rep)),
     plain_genie E status,
     (\<lambda>rep. io_bind read_game (\<lambda>g.
        if 8000 < level_id g then run_step (zh [0x9886, 0x53D6, 0x529F, 0x6CD5, 0x6B8B, 0x5377]) (legacy_claimhangup E) rep
        else io_bind delay (\<lambda>_. io_return (report_skip (zh [0x9886, 0x53D6, 0x529F, 0x6CD5, 0x6B8B, 0x5377] @ '' ('' @ zh [0x5173, 0x5361, 0x2264] @ ''8000)'') rep)))),
     plain_rewards E,
     plain_nightmare E]"

definition run_daily_tasks :: "env \<Rightarrow> report io" where
  "run_daily_tasks E =
     io_bind read_game (\<lambda>g. io_bind (read_local E) (\<lambda>now.
       io_chain (daily_steps E (get_daily_task_status E now g)) report_new))"

end
