(* ===== verification/Cars.thy ===== *)
theory Cars
  imports Flows
begin

text \<open>
  The vehicles of \<open>src/src/kpi.rs\<close>: reading the list of cars, deciding whether to send or to refresh one,
  sending all of them with helpers, and claiming the ones that came back.  The refresh loop of a car is bounded only by
  what the server answers, so it is an \<open>io_loop\<close>.
\<close>

section \<open>Cars and prizes\<close>

text \<open>Identifier, colour, time sent, refresh count, rewards, helper.\<close>
type_synonym car = "string \<times> nat \<times> nat \<times> nat \<times> json list \<times> nat"

definition int_as_i32 :: "int \<Rightarrow> int" where
  "int_as_i32 i = (i + 2 ^ 31) mod 2 ^ 32 - 2 ^ 31"

definition BIG_PRIZES :: "(int \<times> int \<times> nat) list" where
  "BIG_PRIZES = [(3, 3201, 10), (3, 1001, 10), (3, 1022, 2000), (2, 0, 2000), (3, 1023, 5), (3, 1022, 2500), (3, 1001, 12)]"

definition CAR_RESEARCH_COSTS :: "nat list" where
  "CAR_RESEARCH_COSTS =
    [20, 21, 22, 23, 24, 26, 28, 30, 32, 34, 36, 38, 40, 42, 44, 47, 50, 53, 56,
     59, 62, 65, 68, 71, 74, 78, 82, 86, 90, 94, 99, 104, 109, 114, 119, 126, 133,
     140, 147, 154, 163, 172, 181, 190, 199, 210, 221, 232, 243, 369, 393, 422,
     457, 498, 548, 607, 678, 763, 865, 1011]"

definition grade_label :: "nat \<Rightarrow> string" where
  "grade_label color =
     (if color = 1 then ''Green '' @ zh [0x00B7] @ '' Common'' else if color = 2 then ''Blue '' @ zh [0x00B7] @ '' Rare''
      else if color = 3 then ''Purple '' @ zh [0x00B7] @ '' Epic'' else if color = 4 then ''Orange '' @ zh [0x00B7] @ '' Legend''
      else if color = 5 then ''Red '' @ zh [0x00B7] @ '' Mythic'' else if color = 6 then ''Gold '' @ zh [0x00B7] @ '' Legendary'' else ''Unknown'')"

definition is_big_prize :: "json list \<Rightarrow> bool" where
  "is_big_prize rewards =
     list_ex (\<lambda>r.
       let r_type = int_as_i32 (unwrap_or (Option.bind (jget r ''type'') as_int) 0);
           r_item = int_as_i32 (unwrap_or (Option.bind (jget r ''itemId'') as_int) 0);
           r_value = nat_as_u32 (unwrap_or (Option.bind (jget r ''value'') as_nat) 0)
       in list_ex (\<lambda>(p_type, p_item, p_value). r_type = p_type \<and> r_item = p_item \<and> p_value \<le> r_value) BIG_PRIZES) rewards"

definition has_refresh_ticket :: "json list \<Rightarrow> bool" where
  "has_refresh_ticket rewards =
     list_ex (\<lambda>r. Option.bind (jget r ''type'') as_int = Some 3 \<and> Option.bind (jget r ''itemId'') as_int = Some 35002 \<and>
       0 < unwrap_or (Option.bind (jget r ''value'') as_nat) 0) rewards"

definition read_car :: "string \<times> json \<Rightarrow> car" where
  "read_car entry =
     (case entry of (car_id, info) \<Rightarrow>
      (car_id,
       nat_as_u32 (unwrap_or (Option.bind (jget info ''color'') as_nat) 0),
       unwrap_or (Option.bind (jget info ''sendAt'') as_nat) 0,
       nat_as_u32 (unwrap_or (Option.bind (jget info ''refreshCount'') as_nat) 0),
       unwrap_or (Option.bind (jget info ''rewards'') as_array) [],
       unwrap_or (Option.bind (jget info ''helperId'') as_nat) 0))"

definition normalize_car_list :: "json \<Rightarrow> car list" where
  "normalize_car_list resp =
     (let root = unwrap_or (jget resp ''body'') resp;
          role_car = unwrap_or (or_else (jget root ''roleCar'') (jget root ''rolecar'')) Null
      in case Option.bind (or_else (jget role_car ''carDataMap'') (jget role_car ''cardatamap'')) as_object of
           Some m \<Rightarrow> map read_car m
         | None \<Rightarrow> [])"

definition can_claim_car :: "local_now \<Rightarrow> nat \<Rightarrow> bool" where
  "can_claim_car now send_at =
     (if send_at = 0 then False
      else let ts_ms = (if send_at < 1000000000000 then send_at * 1000 else send_at);
               now_ms = nat (ln_nanos now div 1000000)
           in 4 * 3600 * 1000 \<le> now_ms - ts_ms)"

definition is_car_send_window :: "local_now \<Rightarrow> bool" where
  "is_car_send_window now = (num_days_from_monday (ln_weekday now) \<le> 2 \<and> ln_hour now < 20)"

section \<open>Sending\<close>

definition worth_sending :: "bool \<Rightarrow> json list \<Rightarrow> bool" where
  "worth_sending is_wed rewards =
     (if is_wed then is_big_prize rewards else has_refresh_ticket rewards \<or> is_big_prize rewards)"

definition send_reason :: "json list \<Rightarrow> string" where
  "send_reason rewards = (if is_big_prize rewards then ''BINGO'' else ''tickets'')"

text \<open>Helpers: identifier, name, strength; \<open>used\<close> counts how often each has helped.\<close>
type_synonym helpers = "(string \<times> string \<times> nat) list"

definition read_helpers :: "string option \<Rightarrow> json \<Rightarrow> helpers" where
  "read_helpers current_role_id legion =
     (case Option.bind (or_else (pointer [''info'', ''members''] legion) (pointer [''body'', ''info'', ''members''] legion)) as_object of
        None \<Rightarrow> []
      | Some members \<Rightarrow>
          let others = filter (\<lambda>m.
                case current_role_id of None \<Rightarrow> True
                | Some rid \<Rightarrow>
                    (case Option.bind (jget m ''roleId'') as_nat of None \<Rightarrow> True | Some i \<Rightarrow> nat_str i \<noteq> rid)) (map snd members);
              entries = map (\<lambda>m.
                (nat_str (unwrap_or (Option.bind (jget m ''roleId'') as_nat) 0),
                 unwrap_or (Option.bind (or_else (jget m ''name'') (jget m ''nickname'')) as_str) ''?'',
                 nat_as_u32 (unwrap_or (Option.bind (pointer [''custom'', ''red_quench_cnt''] m) as_nat) 0))) others
          in sort_key (\<lambda>(i, name, rq). - int rq) entries)"

definition read_helping :: "json \<Rightarrow> (string \<times> nat) list" where
  "read_helping usage =
     (case Option.bind (jget usage ''memberHelpingCntMap'') as_object of
        None \<Rightarrow> []
      | Some m \<Rightarrow> map (\<lambda>(k, v). (k, nat_as_u32 (unwrap_or (as_nat v) 0))) m)"

text \<open>A red or golden car gets the strongest helper who has helped fewer than four times.\<close>
definition choose_helper :: "nat \<Rightarrow> helpers \<Rightarrow> (string \<times> nat) list \<Rightarrow> nat \<times> (string \<times> nat) list" where
  "choose_helper color sorted_helpers used =
     (if 5 \<le> color then
        (case find (\<lambda>(i, _). unwrap_or (map_of used i) 0 < 4) sorted_helpers of
           Some (i, _) \<Rightarrow> (unwrap_or (parse_u64 i) 0, AList.update i (unwrap_or (map_of used i) 0 + 1) used)
         | None \<Rightarrow> (0, used))
      else (0, used))"

record car_loop =
  cl_color :: nat
  cl_refresh_count :: nat
  cl_rewards :: "json list"
  cl_tickets :: nat
  cl_report :: report

definition apply_refresh :: "json \<Rightarrow> car_loop \<Rightarrow> car_loop" where
  "apply_refresh data s =
     (let car_data = unwrap_or (jget data ''car'') data;
          s = (case Option.bind (jget car_data ''color'') as_nat of Some c \<Rightarrow> s\<lparr>cl_color := nat_as_u32 c\<rparr> | None \<Rightarrow> s);
          s = (case Option.bind (jget car_data ''refreshCount'') as_nat of
                 Some c \<Rightarrow> s\<lparr>cl_refresh_count := nat_as_u32 c\<rparr> | None \<Rightarrow> s)
      in case Option.bind (jget car_data ''rewards'') as_array of Some r \<Rightarrow> s\<lparr>cl_rewards := r\<rparr> | None \<Rightarrow> s)"

text \<open>One round of the refresh loop of a car.\<close>
definition refresh_round :: "env \<Rightarrow> string \<Rightarrow> bool \<Rightarrow> string \<Rightarrow> nat \<Rightarrow> car_loop \<Rightarrow> (car_loop + car_loop) io" where
  "refresh_round E prefix is_wed car_id helper_id s =
     (let free_refresh = (cl_refresh_count s = 0);
          can_refresh = (free_refresh \<or> 0 < cl_tickets s)
      in if \<not> can_refresh then
           io_bind (car_send E car_id helper_id []) (\<lambda>r. io_bind delay (\<lambda>_.
             io_return (Inr (s\<lparr>cl_report := run_with_prefix prefix
               (''CarSend ['' @ grade_label (cl_color s) @ ''] tickets exhausted'') r (cl_report s)\<rparr>))))
         else io_bind (car_refresh E car_id) (\<lambda>refresh_r.
           case refresh_r of
             Inl e \<Rightarrow> io_return (Inr (s\<lparr>cl_report := fail_with_prefix prefix ''Car Refresh'' e (cl_report s)\<rparr>))
           | Inr data \<Rightarrow>
               let s = apply_refresh data s;
                   s = (if \<not> free_refresh then s\<lparr>cl_tickets := cl_tickets s - 1\<rparr> else s)
               in if worth_sending is_wed (cl_rewards s) then
                    io_bind (car_send E car_id helper_id []) (\<lambda>r. io_bind delay (\<lambda>_.
                      io_return (Inr (s\<lparr>cl_report := run_with_prefix prefix
                        (''CarSend ['' @ grade_label (cl_color s) @ ''] After Refresh'' @ send_reason (cl_rewards s)) r (cl_report s)\<rparr>))))
                  else io_bind delay (\<lambda>_. io_return (Inl s))))"

text \<open>One car of the list; the state carried on is the tickets, the helpers used and the report.\<close>
definition send_one_car ::
  "env \<Rightarrow> string \<Rightarrow> bool \<Rightarrow> helpers \<Rightarrow> car \<Rightarrow> nat \<times> (string \<times> nat) list \<times> report \<Rightarrow>
   (nat \<times> (string \<times> nat) list \<times> report) io"
where
  "send_one_car E prefix is_wed sorted_helpers c acc =
     (case c of (car_id, color, send_at, refresh_count, rewards, _) \<Rightarrow> case acc of (tickets, used, rep) \<Rightarrow>
      if send_at \<noteq> 0 then io_return (tickets, used, rep)
      else let (helper_id, used) = choose_helper color sorted_helpers used
           in if worth_sending is_wed rewards then
                io_bind (car_send E car_id helper_id []) (\<lambda>r. io_bind delay (\<lambda>_.
                  io_return (tickets, used, run_with_prefix prefix
                    (''CarSend ['' @ grade_label color @ ''] '' @ send_reason rewards) r rep)))
              else
                io_bind (io_loop (refresh_round E prefix is_wed car_id helper_id)
                    \<lparr>cl_color = color, cl_refresh_count = refresh_count, cl_rewards = rewards, cl_tickets = tickets,
                     cl_report = rep\<rparr>) (\<lambda>s.
                  io_return (cl_tickets s, used, cl_report s)))"

definition role_car_of :: "json \<Rightarrow> json option" where
  "role_car_of resp = or_else (jget resp ''roleCar'') (Option.bind (jget resp ''body'') (\<lambda>b. jget b ''roleCar''))"

definition smart_send_car :: "env \<Rightarrow> string \<Rightarrow> report io" where
  "smart_send_car E prefix =
     io_bind (read_local E) (\<lambda>now.
       if \<not> is_car_send_window now then io_return (skip_with_prefix prefix ''Smart CarSend (invalid time)'' report_new)
       else let is_wed = (num_days_from_monday (ln_weekday now) = 2) in
         io_bind (car_getrolecar E) (\<lambda>r.
           case r of
             Inl e \<Rightarrow> io_return (fail_with_prefix prefix ''acquire car infomation'' e report_new)
           | Inr car_resp \<Rightarrow>
             io_bind (read_local E) (\<lambda>now.
               let car_list = normalize_car_list car_resp;
                   total_cars = length car_list;
                   role_car = role_car_of car_resp;
                   send_cnt = nat_as_u32 (unwrap_or (Option.bind (Option.bind role_car (\<lambda>rc. jget rc ''sendCnt'')) as_nat) 0);
                   send_cnt_reset_time = unwrap_or (Option.bind (Option.bind role_car (\<lambda>rc. jget rc ''sendCntResetTime'')) as_nat) 0;
                   today_start = (case unix_of E (ln_day now) 0 of Some t \<Rightarrow> nat (t mod 2 ^ 64) | None \<Rightarrow> 0);
                   effective_send_cnt = (if today_start \<le> send_cnt_reset_time then send_cnt else 0);
                   unsent_cars = length (filter (\<lambda>(_, _, send_at, _). send_at = 0) car_list)
               in if total_cars \<le> effective_send_cnt then
                    io_return (skip_with_prefix prefix ''Smart CarSend (already done)'' report_new)
                  else if unsent_cars = 0 then
                    io_return (skip_with_prefix prefix ''Smart CarSend (no pending car)'' report_new)
                  else
                    io_bind (role_getroleinfo E) (\<lambda>info_r.
                      let refresh_tickets = (case info_r of
                              Inr info \<Rightarrow> nat_as_u32 (unwrap_or (Option.bind
                                (pointer [''role'', ''items'', ''35002'', ''quantity''] info) as_nat) 0)
                            | Inl _ \<Rightarrow> 0);
                          current_role_id = (case info_r of
                              Inr info \<Rightarrow> map_option nat_str (Option.bind (pointer [''role'', ''roleId''] info) as_nat)
                            | Inl _ \<Rightarrow> None)
                      in io_bind (car_getmemberhelpingcnt E) (\<lambda>usage_r.
                         io_bind (legion_getinfo E) (\<lambda>legion_r.
                           let helper_map = (case usage_r of Inr usage \<Rightarrow> read_helping usage | Inl _ \<Rightarrow> []);
                               sorted_helpers = (case legion_r of Inr legion \<Rightarrow> read_helpers current_role_id legion | Inl _ \<Rightarrow> [])
                           in io_bind (io_for car_list (send_one_car E prefix is_wed sorted_helpers)
                                  (refresh_tickets, helper_map, report_new)) (\<lambda>(_, _, rep). io_return rep)))))))"

section \<open>Claiming\<close>

definition pieces_of :: "json \<Rightarrow> nat" where
  "pieces_of info = nat_as_u32 (unwrap_or (Option.bind (pointer [''role'', ''items'', ''35009'', ''quantity''] info) as_nat) 0)"

text \<open>One round of the engine upgrade: the level, the pieces left and the report.\<close>
definition research_round :: "env \<Rightarrow> string \<Rightarrow> nat \<times> nat \<times> report \<Rightarrow> (nat \<times> nat \<times> report + nat \<times> report) io" where
  "research_round E prefix s =
     (case s of (research_level, pieces, rep) \<Rightarrow>
      if research_level < length CAR_RESEARCH_COSTS \<and> CAR_RESEARCH_COSTS ! research_level \<le> pieces then
        io_bind (car_research E (jobj [(''researchId'', jnum 1)])) (\<lambda>r.
          case r of
            Inr _ \<Rightarrow>
              io_bind (role_getroleinfo E) (\<lambda>info_r. io_bind delay (\<lambda>_.
                io_return (Inl (research_level + 1, (case info_r of Inr info \<Rightarrow> pieces_of info | Inl _ \<Rightarrow> pieces), rep))))
          | Inl e \<Rightarrow> io_return (Inr (research_level, fail_with_prefix prefix ''Update engine'' e rep)))
      else io_return (Inr (research_level, rep)))"

definition claim_one_car :: "env \<Rightarrow> string \<Rightarrow> car \<Rightarrow> nat \<times> nat \<times> report \<Rightarrow> (nat \<times> nat \<times> report) io" where
  "claim_one_car E prefix c acc =
     (case c of (car_id, color, send_at, _) \<Rightarrow> case acc of (research_level, claimed, rep) \<Rightarrow>
      io_bind (read_local E) (\<lambda>now.
        if \<not> can_claim_car now send_at then io_return acc
        else io_bind (car_claim E car_id) (\<lambda>r.
          case r of
            Inl e \<Rightarrow>
              io_bind delay (\<lambda>_. io_return (research_level, claimed,
                fail_with_prefix prefix (''CarClaim ['' @ grade_label color @ '']'') e rep))
          | Inr _ \<Rightarrow>
              let rep = run_with_prefix prefix (''CarClaim ['' @ grade_label color @ '']'') (Inr (jobj [])) rep in
              io_bind delay (\<lambda>_. io_bind (role_getroleinfo E) (\<lambda>info_r.
                let pieces = (case info_r of Inr info \<Rightarrow> pieces_of info | Inl _ \<Rightarrow> 0) in
                io_bind (io_loop (research_round E prefix) (research_level, pieces, rep)) (\<lambda>(research_level, rep).
                io_bind (car_claimpartconsumereward E) (\<lambda>_.
                  io_return (research_level, claimed + 1, rep))))))))"

definition f64_zero :: "f64 \<Rightarrow> bool" where
  "f64_zero w = (f64_mag w = 0)"

text \<open>The earliest time at which a car that is out can be claimed; zero when none is out.\<close>
definition next_claim_time :: "car list \<Rightarrow> f64" where
  "next_claim_time car_list =
     foldl (\<lambda>a b. if f64_zero a \<or> f64_lt b a then b else a) 0
       (map (\<lambda>(_, _, send_at, _).
          let secs = u64_to_f64 (word_of_nat send_at);
              ts = (if send_at < 1000000000000 then secs else f64_div secs (u64_to_f64 1000))
          in f64_add ts (f64_mul (u64_to_f64 4) h3600))
        (filter (\<lambda>(_, _, send_at, _). send_at \<noteq> 0) car_list))"

definition claim_all_cars :: "env \<Rightarrow> string \<Rightarrow> (report \<times> f64) io" where
  "claim_all_cars E prefix =
     io_bind (car_getrolecar E) (\<lambda>r.
       case r of
         Inl e \<Rightarrow> io_return (fail_with_prefix prefix ''Obtail Car Info'' e report_new, 0)
       | Inr car_resp \<Rightarrow>
           let car_list = normalize_car_list car_resp;
               research_level = nat_as_u32 (unwrap_or (Option.bind (Option.bind (role_car_of car_resp)
                 (pointer [''research'', ''1''])) as_nat) 0)
           in io_bind (io_for car_list (claim_one_car E prefix) (research_level, 0, report_new)) (\<lambda>(_, claimed, rep).
                io_return (if claimed = 0 then skip_with_prefix prefix ''Car Cliaim (No Car)'' rep else rep,
                  next_claim_time car_list)))"

end
