(* ===== verification/Daily.thy ===== *)
theory Daily
  imports Cars
begin

text \<open>
  \<open>run_daily_tasks_stateful\<close> of \<open>src/src/kpi.rs\<close>: the daily run of the scheduler, which keeps a flag per task in the
  role's daily state.  Every block of the function is a step on the pair of that state and the report; the run is
  the chain of the blocks in the order of the code.
\<close>

section \<open>Blocks\<close>

type_synonym daily = "role_daily \<times> report"
type_synonym block = "daily \<Rightarrow> daily io"

text \<open>The macro \<open>do_task!\<close>: a flag read by \<open>flag\<close> and set by \<open>finish\<close>.\<close>
definition do_task :: "string \<Rightarrow> (role_daily \<Rightarrow> bool) \<Rightarrow> (role_daily \<Rightarrow> role_daily) \<Rightarrow> string \<Rightarrow> json res io \<Rightarrow> block" where
  "do_task prefix flag finish name action = (\<lambda>(d, rep).
     if \<not> flag d then
       io_bind action (\<lambda>result. io_bind delay (\<lambda>_.
         io_return (if is_done_result result then finish d else d, run_with_prefix prefix name result rep)))
     else io_return (d, skip_with_prefix prefix name rep))"

text \<open>\<open>if status.x { daily.x = true; }\<close>\<close>
definition adopt :: "bool \<Rightarrow> (role_daily \<Rightarrow> role_daily) \<Rightarrow> block" where
  "adopt known finish = (\<lambda>(d, rep). io_return (if known then finish d else d, rep))"

text \<open>A numbered action, reported and followed by the pause; the outcome is handed on.\<close>
definition act :: "string \<Rightarrow> string \<Rightarrow> json res io \<Rightarrow> report \<Rightarrow> (json res \<times> report) io" where
  "act prefix name action rep =
     io_bind action (\<lambda>r. io_bind delay (\<lambda>_. io_return (r, run_with_prefix prefix name r rep)))"

definition act_only :: "string \<Rightarrow> string \<Rightarrow> json res io \<Rightarrow> report \<Rightarrow> report io" where
  "act_only prefix name action rep =
     io_bind (act prefix name action rep) (\<lambda>(r, rep). io_return rep)"

definition hangup_block :: "env \<Rightarrow> block" where
  "hangup_block E = (\<lambda>(d, rep). io_bind (smart_hangup E rep) (\<lambda>rep. io_return (d\<lparr>d_hangup_reward := True\<rparr>, rep)))"

definition bottle_block :: "env \<Rightarrow> block" where
  "bottle_block E = (\<lambda>(d, rep). io_bind (smart_bottle E rep) (\<lambda>rep. io_return (d\<lparr>d_bottle_task := True\<rparr>, rep)))"

definition gold_block :: "env \<Rightarrow> string \<Rightarrow> block" where
  "gold_block E prefix = (\<lambda>(d, rep).
     if \<not> d_buy_gold d then
       io_bind (io_for [1..<4] (\<lambda>i (all_ok, rep).
           io_bind (act prefix (zh [0x514D, 0x8D39, 0x70B9, 0x91D1] @ '' #'' @ nat_str i @ ''/3'') (system_buygold E) rep) (\<lambda>(r, rep).
             io_return (all_ok \<and> is_done_result r, rep))) (True, rep)) (\<lambda>(all_ok, rep).
         io_return (if all_ok then d\<lparr>d_buy_gold := True\<rparr> else d, rep))
     else io_return (d, skip_with_prefix prefix (zh [0x514D, 0x8D39, 0x70B9, 0x91D1]) rep))"

section \<open>Formations around fights\<close>

text \<open>Switching to the team of a plan, if there is one; a failure is reported and counts as not switched.\<close>
definition enter_formation ::
  "env \<Rightarrow> string \<Rightarrow> string \<Rightarrow> nat option \<Rightarrow> nat option \<Rightarrow> report \<Rightarrow> (bool \<times> report) io"
where
  "enter_formation E prefix label team original_team rep =
     (case team of
        None \<Rightarrow> io_return (False, rep)
      | Some target \<Rightarrow>
          io_bind (switch_to_context_formation E target original_team) (\<lambda>r.
            case r of
              Inr v \<Rightarrow> io_return (v, rep)
            | Inl e \<Rightarrow> io_return (False, fail_with_prefix prefix label e rep)))"

definition leave_formation :: "env \<Rightarrow> string \<Rightarrow> string \<Rightarrow> bool \<Rightarrow> nat option \<Rightarrow> report \<Rightarrow> report io" where
  "leave_formation E prefix label switched original_team rep =
     io_bind (restore_context_formation E switched original_team) (\<lambda>r.
       case r of Inr _ \<Rightarrow> io_return rep | Inl e \<Rightarrow> io_return (fail_with_prefix prefix label e rep))"

text \<open>The arena fights: the loop stops when an opponent cannot be fetched or no attempt is left.\<close>
definition arena_fight :: "env \<Rightarrow> string \<Rightarrow> nat \<Rightarrow> nat \<times> report \<Rightarrow> (nat \<times> report + report) io" where
  "arena_fight E prefix remaining s =
     (case s of (i, rep) \<Rightarrow>
      if remaining < i then io_return (Inr rep)
      else io_bind (arena_getareatarget E) (\<lambda>r.
        case r of
          Inl e \<Rightarrow>
            io_return (Inr (fail_with_prefix prefix (zh [0x83B7, 0x53D6, 0x5BF9, 0x624B] @ '' #'' @ nat_str i @ ''/'' @ nat_str remaining) e rep))
        | Inr targets \<Rightarrow>
            let target_id = arena_target targets
            in if 0 < target_id then
                 io_bind (fight_startareaarena E target_id) (\<lambda>r.
                   let rep = run_with_prefix prefix (zh [0x7ADE, 0x6280, 0x573A, 0x6218, 0x6597] @ '' #'' @ nat_str i @ ''/'' @ nat_str remaining @
                         '' (vs '' @ nat_str target_id @ '')'') r rep
                   in if (case r of Inl e \<Rightarrow> str_contains e ''200750'' | Inr _ \<Rightarrow> False) then io_return (Inr rep)
                      else io_bind delay (\<lambda>_. io_return (Inl (i + 1, rep))))
               else io_bind delay (\<lambda>_. io_return (Inl (i + 1, rep)))))"

definition arena_fights :: "env \<Rightarrow> string \<Rightarrow> daily_status \<Rightarrow> nat option \<Rightarrow> nat option \<Rightarrow> report \<Rightarrow> report io" where
  "arena_fights E prefix status team original_team rep =
     (let arena_free = 3; arena_remaining = arena_free - st_arena_done_today status
      in if arena_remaining = 0 then
           io_return (skip_with_prefix prefix
             (zh [0x7ADE, 0x6280, 0x573A] @ '' ('' @ zh [0x5DF2, 0x6253] @ nat_str (st_arena_done_today status) @ ''/'' @ nat_str arena_free @ '')'') rep)
         else
           io_bind (enter_formation E prefix (zh [0x5207, 0x6362, 0x7ADE, 0x6280, 0x573A, 0x9635, 0x5BB9]) team original_team rep) (\<lambda>(switched, rep).
           io_bind (act prefix (zh [0x8FDB, 0x5165, 0x7ADE, 0x6280, 0x573A] @ '' ('' @ zh [0x5269, 0x4F59] @ nat_str arena_remaining @ ''/'' @ nat_str arena_free @ '')'')
               (arena_startarea E) rep) (\<lambda>(r, rep).
           io_bind (if is_ok r then io_loop (arena_fight E prefix arena_remaining) (1, rep) else io_return rep) (\<lambda>rep.
             leave_formation E prefix (zh [0x6062, 0x590D, 0x7ADE, 0x6280, 0x573A, 0x9635, 0x5BB9]) switched original_team rep))))"

definition arena_block :: "env \<Rightarrow> string \<Rightarrow> daily_status \<Rightarrow> nat option \<Rightarrow> nat option \<Rightarrow> block" where
  "arena_block E prefix status team original_team = (\<lambda>(d, rep).
     if \<not> d_arena d then
       io_bind read_game (\<lambda>g.
         if level_id g < 400 then
           io_return (d\<lparr>d_arena := True\<rparr>, skip_with_prefix prefix (zh [0x7ADE, 0x6280, 0x573A] @ '' ('' @ zh [0x5173, 0x5361] @ ''<400)'') rep)
         else io_bind (arena_fights E prefix status team original_team rep) (\<lambda>rep.
           io_return (d\<lparr>d_arena := True\<rparr>, rep)))
     else io_return (d, skip_with_prefix prefix (zh [0x7ADE, 0x6280, 0x573A]) rep))"

definition boss_block :: "env \<Rightarrow> string \<Rightarrow> nat option \<Rightarrow> nat option \<Rightarrow> block" where
  "boss_block E prefix team original_team = (\<lambda>(d, rep).
     if \<not> d_boss d then
       io_bind (read_local E) (\<lambda>now.
         let boss_id = DAY_BOSS_MAP ! num_days_from_sunday (ln_weekday now) in
         io_bind (enter_formation E prefix (zh [0x5207, 0x6362, 0x6BCF, 0x65E5] @ ''BOSS'' @ zh [0x9635, 0x5BB9]) team original_team rep) (\<lambda>(switched, rep).
         io_bind (io_for [1..<4] (\<lambda>i. act_only prefix (''Boss'' @ zh [0x6218] @ '' #'' @ nat_str i @ ''/3 (id='' @ nat_str boss_id @ '')'')
             (fight_startboss E boss_id)) rep) (\<lambda>rep.
         io_bind (leave_formation E prefix (zh [0x6062, 0x590D, 0x6BCF, 0x65E5] @ ''BOSS'' @ zh [0x9635, 0x5BB9]) switched original_team rep) (\<lambda>rep.
           io_return (d\<lparr>d_boss := True\<rparr>, rep)))))
     else io_return (d, skip_with_prefix prefix (''Boss'' @ zh [0x6218]) rep))"

definition legion_boss_block :: "env \<Rightarrow> string \<Rightarrow> daily_status \<Rightarrow> nat option \<Rightarrow> nat option \<Rightarrow> block" where
  "legion_boss_block E prefix status team original_team = (\<lambda>(d, rep).
     if \<not> d_legion_boss d then
       let remaining = 2 - st_legion_boss_done status in
       io_bind (if 0 < remaining then enter_formation E prefix (zh [0x5207, 0x6362, 0x519B, 0x56E2] @ ''BOSS'' @ zh [0x9635, 0x5BB9]) team original_team rep
                else io_return (False, rep)) (\<lambda>(switched, rep).
       io_bind (io_for [1..<Suc remaining] (\<lambda>i. act_only prefix (zh [0x4FF1, 0x4E50, 0x90E8] @ ''Boss #'' @ nat_str i @ ''/'' @ nat_str remaining)
           (fight_startlegionboss E)) rep) (\<lambda>rep.
       io_bind (leave_formation E prefix (zh [0x6062, 0x590D, 0x519B, 0x56E2] @ ''BOSS'' @ zh [0x9635, 0x5BB9]) switched original_team rep) (\<lambda>rep.
         io_return (d\<lparr>d_legion_boss := True\<rparr>, rep))))
     else io_return (d, skip_with_prefix prefix (zh [0x4FF1, 0x4E50, 0x90E8] @ ''Boss'') rep))"

section \<open>The other tasks\<close>

definition card_block :: "env \<Rightarrow> string \<Rightarrow> block" where
  "card_block E prefix = (\<lambda>(d, rep).
     if \<not> d_card d then
       io_bind (act prefix (zh [0x514D, 0x8D39, 0x793C, 0x5305, 0x5361]) (card_claimfree E) rep) (\<lambda>(r1, rep).
       io_bind (act prefix (zh [0x6C38, 0x4E45, 0x5361, 0x793C, 0x5305]) (card_claimreward E 4003) rep) (\<lambda>(r2, rep).
         io_return (if is_done_result r1 \<and> is_done_result r2 then d\<lparr>d_card := True\<rparr> else d, rep)))
     else io_return (d, skip_with_prefix prefix (zh [0x5361, 0x724C, 0x793C, 0x5305]) rep))"

definition fishing_block :: "env \<Rightarrow> string \<Rightarrow> daily_status \<Rightarrow> block" where
  "fishing_block E prefix status = (\<lambda>(d, rep).
     if \<not> d_artifact d \<and> \<not> st_artifact_lottery_today status then
       io_bind (io_for [1..<4] (\<lambda>i. act_only prefix (zh [0x514D, 0x8D39, 0x9493, 0x9C7C] @ '' #'' @ nat_str i @ ''/3'') (artifact_lottery E)) rep) (\<lambda>rep.
         io_return (d\<lparr>d_artifact := True\<rparr>, rep))
     else io_return (if st_artifact_lottery_today status then d\<lparr>d_artifact := True\<rparr> else d,
            skip_with_prefix prefix (zh [0x514D, 0x8D39, 0x9493, 0x9C7C]) rep))"

definition genie_block :: "env \<Rightarrow> string \<Rightarrow> daily_status \<Rightarrow> block" where
  "genie_block E prefix status = (\<lambda>(d, rep).
     if \<not> d_genie d then
       io_bind read_game (\<lambda>g.
         if level_id g < 3000 then
           io_return (d\<lparr>d_genie := True\<rparr>, skip_with_prefix prefix (zh [0x706F, 0x795E, 0x626B, 0x8361] @ '' ('' @ zh [0x5173, 0x5361] @ ''<3000)'') rep)
         else
           io_bind (io_for (kingdoms status) (\<lambda>(k, name, finished) rep.
               if \<not> finished then act_only prefix (name @ zh [0x706F, 0x795E, 0x626B, 0x8361]) (genie_sweep E k) rep else io_return rep) rep) (\<lambda>rep.
           io_bind (io_for [1..<4] (\<lambda>i. act_only prefix (zh [0x514D, 0x8D39, 0x626B, 0x8361, 0x5377] @ '' #'' @ nat_str i @ ''/3'') (genie_buysweep E)) rep) (\<lambda>rep.
             io_return (d\<lparr>d_genie := True\<rparr>, rep))))
     else io_return (d, skip_with_prefix prefix (zh [0x706F, 0x795E, 0x626B, 0x8361]) rep))"

definition gacha_block :: "env \<Rightarrow> string \<Rightarrow> daily_status \<Rightarrow> bool \<Rightarrow> block" where
  "gacha_block E prefix status enabled = (\<lambda>(d, rep).
     if enabled \<and> \<not> d_gacha d then
       io_bind
         (if \<not> st_gacha_today status then
            io_bind (gacha_drawreward E) (\<lambda>r. io_return (run_with_prefix prefix (zh [0x514D, 0x8D39, 0x626D, 0x86CB]) r rep))
          else io_return (skip_with_prefix prefix (zh [0x514D, 0x8D39, 0x626D, 0x86CB] @ '' ('' @ zh [0x5DF2, 0x5B8C, 0x6210] @ '')'') rep)) (\<lambda>rep.
         io_return (d\<lparr>d_gacha := True\<rparr>, rep))
     else io_return (d, rep))"

definition rewards_block :: "env \<Rightarrow> string \<Rightarrow> block" where
  "rewards_block E prefix = (\<lambda>(d, rep).
     if \<not> d_task_rewards d then
       io_bind (io_for [1..<11] (\<lambda>task_id. act_only prefix (zh [0x9886, 0x53D6, 0x4EFB, 0x52A1] @ nat_str task_id @ zh [0x79EF, 0x5206])
           (task_claimdailypoint E task_id)) rep) (\<lambda>rep.
       io_bind (act_only prefix (zh [0x9886, 0x53D6, 0x6BCF, 0x65E5, 0x4EFB, 0x52A1, 0x5956, 0x52B1]) (task_claimdailyreward E) rep) (\<lambda>rep.
       io_bind (act_only prefix (zh [0x9886, 0x53D6, 0x6BCF, 0x5468, 0x4EFB, 0x52A1, 0x5956, 0x52B1]) (task_claimweekreward E) rep) (\<lambda>rep.
       io_bind (act_only prefix (zh [0x9886, 0x53D6, 0x6218, 0x4EE4, 0x5956, 0x52B1]) (activity_recyclewarorderrewardclaim E) rep) (\<lambda>rep.
         io_return (d\<lparr>d_task_rewards := True\<rparr>, rep)))))
     else io_return (d, skip_with_prefix prefix (zh [0x4EFB, 0x52A1, 0x5956, 0x52B1]) rep))"

text \<open>\<open>day\<close> is the weekday read before the block, counted from Sunday.\<close>
definition nightmare_block :: "env \<Rightarrow> string \<Rightarrow> nat \<Rightarrow> block" where
  "nightmare_block E prefix day = (\<lambda>(d, rep).
     if \<not> d_nightmare d then
       if nightmare_open day then
         io_bind (act prefix (zh [0x54B8, 0x738B, 0x68A6, 0x5883]) (dungeon_selecthero E hero_107) rep) (\<lambda>(r, rep).
           io_return (if is_done_result r then d\<lparr>d_nightmare := True\<rparr> else d, rep))
       else io_return (d, skip_with_prefix prefix (zh [0x54B8, 0x738B, 0x68A6, 0x5883] @ '' ('' @ zh [0x5F53, 0x524D, 0x672A, 0x5F00, 0x653E] @ '')'') rep)
     else io_return (d, skip_with_prefix prefix (zh [0x54B8, 0x738B, 0x68A6, 0x5883]) rep))"

definition dream_shop_block :: "env \<Rightarrow> string \<Rightarrow> nat \<Rightarrow> dream_shop_config option \<Rightarrow> block" where
  "dream_shop_block E prefix day shop = (\<lambda>(d, rep).
     case shop of
       None \<Rightarrow> io_return (d, rep)
     | Some dream_shop \<Rightarrow>
         if \<not> d_dream_shop d then
           if nightmare_open day then
             io_bind (run_dream_shop_daily E prefix dream_shop rep) (\<lambda>rep. io_return (d\<lparr>d_dream_shop := True\<rparr>, rep))
           else io_return (d, skip_with_prefix prefix (zh [0x68A6, 0x5883, 0x5546, 0x5E97, 0x8D2D, 0x4E70] @ '' ('' @ zh [0x5F53, 0x524D, 0x672A, 0x5F00, 0x653E] @ '')'') rep)
         else io_return (d, skip_with_prefix prefix (zh [0x68A6, 0x5883, 0x5546, 0x5E97, 0x8D2D, 0x4E70]) rep))"

definition next_car_time :: "f64 \<Rightarrow> f64 \<Rightarrow> f64" where
  "next_car_time now next_claim =
     (let post_send = f64_add now (f64_mul (u64_to_f64 4) h3600)
      in if f64_lt 0 next_claim \<and> f64_lt next_claim post_send then next_claim else post_send)"

definition car_block :: "env \<Rightarrow> string \<Rightarrow> bool \<Rightarrow> block" where
  "car_block E prefix enabled = (\<lambda>(d, rep).
     if \<not> enabled then io_return (d, rep)
     else if \<not> d_car_send_done d then
       io_bind (read_local E) (\<lambda>now.
         if is_car_send_window now then
           io_bind (claim_all_cars E prefix) (\<lambda>(claim_report, next_claim).
           io_bind (smart_send_car E prefix) (\<lambda>send_report.
           io_bind (read_now E) (\<lambda>now.
             io_return (d\<lparr>d_car_send_done := True, d_next_car_claim_time := next_car_time now next_claim\<rparr>,
               rep @ claim_report @ send_report))))
         else io_return (d, skip_with_prefix prefix (zh [0x53D1, 0x8F66] @ '' ('' @ zh [0x4E0D, 0x5728, 0x53D1, 0x8F66, 0x7A97, 0x53E3] @ '')'') rep))
     else io_return (d, skip_with_prefix prefix (zh [0x53D1, 0x8F66] @ ''/'' @ zh [0x6536, 0x8F66]) rep))"

section \<open>The run\<close>

text \<open>All blocks in the order of the code; the weekday is read between mail and nightmare, but no step before the
  nightmare block depends on it.\<close>
definition main_blocks ::
  "env \<Rightarrow> string \<Rightarrow> daily_task_config \<Rightarrow> daily_status \<Rightarrow> nat option \<Rightarrow> block list"
where
  "main_blocks E prefix config status original_team =
     (let team = (\<lambda>f. map_option f (dtc_formations config)) in
    [adopt (st_share status) (d_share_update (\<lambda>_. True)),
     do_task prefix d_share (d_share_update (\<lambda>_. True)) (zh [0x5206, 0x4EAB, 0x6E38, 0x620F]) (system_mysharecallback E),
     adopt (st_friend_gift status) (d_friend_gift_update (\<lambda>_. True)),
     do_task prefix d_friend_gift (d_friend_gift_update (\<lambda>_. True)) (zh [0x8D60, 0x9001, 0x597D, 0x53CB, 0x91D1, 0x5E01]) (friend_batch E),
     adopt (st_recruit status) (d_recruit_update (\<lambda>_. True)),
     do_task prefix d_recruit (d_recruit_update (\<lambda>_. True)) (zh [0x514D, 0x8D39, 0x62DB, 0x52DF]) (hero_recruit E 3 1),
     adopt (st_hangup_reward status) (d_hangup_reward_update (\<lambda>_. True)),
     hangup_block E,
     adopt (st_buy_gold status) (d_buy_gold_update (\<lambda>_. True)),
     gold_block E prefix,
     adopt (st_open_box status) (d_open_box_update (\<lambda>_. True)),
     do_task prefix d_open_box (d_open_box_update (\<lambda>_. True)) (zh [0x5F00, 0x542F, 0x5B9D, 0x7BB1] @ ''x10'') (item_openbox E 2001 10),
     adopt (st_store_purchase status) (d_store_purchase_update (\<lambda>_. True)),
     do_task prefix d_store_purchase (d_store_purchase_update (\<lambda>_. True)) (zh [0x9ED1, 0x5E02, 0x91C7, 0x8D2D]) (store_purchase E 1),
     adopt (st_bottle status) (d_bottle_task_update (\<lambda>_. True)),
     bottle_block E,
     adopt (st_arena status) (d_arena_update (\<lambda>_. True)),
     arena_block E prefix status (team plan_arena) original_team,
     boss_block E prefix (team plan_boss_daily) original_team,
     legion_boss_block E prefix status (team plan_boss_legion) original_team,
     do_task prefix d_signin (d_signin_update (\<lambda>_. True)) (zh [0x798F, 0x5229, 0x7B7E, 0x5230]) (system_signinreward E),
     do_task prefix d_legion_signin (d_legion_signin_update (\<lambda>_. True)) (zh [0x4FF1, 0x4E50, 0x90E8, 0x7B7E, 0x5230]) (legion_signin E),
     do_task prefix d_discount (d_discount_update (\<lambda>_. True)) (zh [0x6BCF, 0x65E5, 0x6298, 0x6263, 0x793C, 0x5305]) (discount_claimreward E),
     card_block E prefix,
     do_task prefix d_collection (d_collection_update (\<lambda>_. True)) (zh [0x73CD, 0x5B9D, 0x9601, 0x514D, 0x8D39, 0x5956, 0x52B1]) (collection_claimfreereward E),
     fishing_block E prefix status,
     genie_block E prefix status,
     gacha_block E prefix status (dtc_gacha_enabled config),
     rewards_block E prefix,
     do_task prefix d_mail (d_mail_update (\<lambda>_. True)) (zh [0x9886, 0x53D6, 0x90AE, 0x4EF6]) (mail_claimallattachment E 0)])"

definition late_blocks :: "env \<Rightarrow> string \<Rightarrow> daily_task_config \<Rightarrow> nat \<Rightarrow> block list" where
  "late_blocks E prefix config day =
    [nightmare_block E prefix day,
     dream_shop_block E prefix day (dtc_dream_shop config),
     car_block E prefix (dtc_car_enabled config)]"

text \<open>The team in use, read only when the role has formations of its own.\<close>
definition read_original_team :: "env \<Rightarrow> string \<Rightarrow> daily_task_config \<Rightarrow> report \<Rightarrow> (nat option \<times> report) io" where
  "read_original_team E prefix config rep =
     (if dtc_formations config \<noteq> None then
        io_bind (current_team_id E) (\<lambda>r.
          case r of
            Inr team_id \<Rightarrow> io_return (Some team_id, rep)
          | Inl e \<Rightarrow> io_return (None, fail_with_prefix prefix (zh [0x8BFB, 0x53D6, 0x5F53, 0x524D, 0x9635, 0x5BB9]) e rep))
      else io_return (None, rep))"

definition run_daily_tasks_stateful :: "env \<Rightarrow> role_daily \<Rightarrow> string \<Rightarrow> daily_task_config \<Rightarrow> (role_daily \<times> report) io" where
  "run_daily_tasks_stateful E d prefix config =
     io_bind read_game (\<lambda>g. io_bind (read_local E) (\<lambda>now.
       let status = get_daily_task_status E now g;
           d = ensure_today (ln_date now) d
       in io_bind (read_original_team E prefix config report_new) (\<lambda>(original_team, rep).
          io_bind (io_chain (main_blocks E prefix config status original_team) (d, rep)) (\<lambda>s.
          io_bind (read_local E) (\<lambda>now.
            io_chain (late_blocks E prefix config (num_days_from_sunday (ln_weekday now))) s)))))"

end
