(* ===== verification/Flow_Facts.thy ===== *)
theory Flow_Facts
  imports Daily
begin

text \<open>
  Which commands the small flows of \<open>kpi.rs\<close> send, and that they return whatever the server answers: the building
  blocks of the proofs about the daily and periodic runs.
\<close>

section \<open>Commands sent\<close>

lemma login_emits [emits_rules]:
  "{''role_getroleinfo'', ''fight_startlevel'', ''system_custom''} \<subseteq> S \<Longrightarrow> obeys (extends (requests S)) (login E connected)"
  unfolding login_def Let_def
  by (intro emits_rules; simp add: obeys_def extends_def)

lemma team_emits [emits_rules]:
  "''presetteam_getinfo'' \<in> S \<Longrightarrow> obeys (extends (requests S)) (current_team_id E)"
  "''presetteam_saveteam'' \<in> S \<Longrightarrow> obeys (extends (requests S)) (switch_team E team_id)"
  "''presetteam_saveteam'' \<in> S \<Longrightarrow> obeys (extends (requests S)) (switch_to_context_formation E target original_team)"
  unfolding current_team_id_def switch_team_def switch_to_context_formation_def api_defs
  by (intro emits_rules; simp)+

lemma restore_emits [emits_rules]:
  "{''presetteam_getinfo'', ''presetteam_saveteam''} \<subseteq> S \<Longrightarrow>
   obeys (extends (requests S)) (restore_context_formation E switched original_team)"
  unfolding restore_context_formation_def by (intro emits_rules; simp)

lemma smart_emits [emits_rules]:
  "''system_mysharecallback'' \<in> S \<Longrightarrow> obeys (extends (requests S)) (extend_hangup E label rep)"
  "{''system_claimhangupreward'', ''system_mysharecallback''} \<subseteq> S \<Longrightarrow> obeys (extends (requests S)) (smart_hangup E rep)"
  "{''bottlehelper_stop'', ''bottlehelper_start''} \<subseteq> S \<Longrightarrow> obeys (extends (requests S)) (smart_bottle E rep)"
  unfolding smart_hangup_def smart_bottle_def extend_hangup_def api_defs
  by (intro emits_rules; simp)+

lemma dream_emits [emits_rules]:
  "{''role_getroleinfo'', ''dungeon_buymerchant''} \<subseteq> S \<Longrightarrow>
   obeys (extends (requests S)) (run_dream_shop_daily E prefix shop rep)"
  unfolding run_dream_shop_daily_def buy_operation_def api_defs
  by (intro emits_rules; simp)

lemma car_emits [emits_rules]:
  "{''car_getrolecar'', ''car_claim'', ''role_getroleinfo'', ''car_research'', ''car_claimpartconsumereward''} \<subseteq> S \<Longrightarrow>
   obeys (extends (requests S)) (claim_all_cars E prefix)"
  "{''car_getrolecar'', ''role_getroleinfo'', ''car_getmemberhelpingcnt'', ''legion_getinfo'', ''car_refresh'', ''car_send''} \<subseteq> S \<Longrightarrow>
   obeys (extends (requests S)) (smart_send_car E prefix)"
  unfolding claim_all_cars_def smart_send_car_def claim_one_car_def research_round_def send_one_car_def refresh_round_def api_defs
  by (intro emits_rules; simp)+

end
