(* ===== verification/Daily_Facts.thy ===== *)
theory Daily_Facts
  imports Flow_Facts
begin

text \<open>
  What the daily run promises: a task marked done is not attempted again on that day and no mark is taken back, and
  what its marks mean.
\<close>

section \<open>The tasks, their marks and their commands\<close>

datatype task =
    TShare | TFriendGift | TRecruit | THangup | TBuyGold | TOpenBox | TStorePurchase | TBottle | TArena | TBoss
  | TLegionBoss | TSignin | TLegionSignin | TDiscount | TCard | TCollection | TArtifact | TGenie | TGacha
  | TTaskRewards | TMail | TNightmare | TDreamShop | TCarSend

fun marked :: "task \<Rightarrow> role_daily \<Rightarrow> bool" where
  "marked TShare d = d_share d"
| "marked TFriendGift d = d_friend_gift d"
| "marked TRecruit d = d_recruit d"
| "marked THangup d = d_hangup_reward d"
| "marked TBuyGold d = d_buy_gold d"
| "marked TOpenBox d = d_open_box d"
| "marked TStorePurchase d = d_store_purchase d"
| "marked TBottle d = d_bottle_task d"
| "marked TArena d = d_arena d"
| "marked TBoss d = d_boss d"
| "marked TLegionBoss d = d_legion_boss d"
| "marked TSignin d = d_signin d"
| "marked TLegionSignin d = d_legion_signin d"
| "marked TDiscount d = d_discount d"
| "marked TCard d = d_card d"
| "marked TCollection d = d_collection d"
| "marked TArtifact d = d_artifact d"
| "marked TGenie d = d_genie d"
| "marked TGacha d = d_gacha d"
| "marked TTaskRewards d = d_task_rewards d"
| "marked TMail d = d_mail d"
| "marked TNightmare d = d_nightmare d"
| "marked TDreamShop d = d_dream_shop d"
| "marked TCarSend d = d_car_send_done d"

text \<open>The commands of a task.  What several tasks share is left out (the role info, and reading and switching the team), but
  for the sharing of the game, which is also how hangup is extended.\<close>
fun commands :: "task \<Rightarrow> string list" where
  "commands TFriendGift = [''friend_batch'']"
| "commands TRecruit = [''hero_recruit'']"
| "commands TBuyGold = [''system_buygold'']"
| "commands TOpenBox = [''item_openbox'']"
| "commands TStorePurchase = [''store_purchase'']"
| "commands TArena = [''arena_startarea'', ''arena_getareatarget'', ''fight_startareaarena'']"
| "commands TBoss = [''fight_startboss'']"
| "commands TLegionBoss = [''fight_startlegionboss'']"
| "commands TSignin = [''system_signinreward'']"
| "commands TLegionSignin = [''legion_signin'']"
| "commands TDiscount = [''discount_claimreward'']"
| "commands TCard = [''card_claimreward'']"
| "commands TCollection = [''collection_claimfreereward'']"
| "commands TArtifact = [''artifact_lottery'']"
| "commands TGenie = [''genie_sweep'', ''genie_buysweep'']"
| "commands TGacha = [''gacha_drawreward'']"
| "commands TTaskRewards = [''task_claimdailypoint'', ''task_claimdailyreward'', ''task_claimweekreward'',
     ''activity_recyclewarorderrewardclaim'']"
| "commands TMail = [''mail_claimallattachment'']"
| "commands TNightmare = [''dungeon_selecthero'']"
| "commands TDreamShop = [''dungeon_buymerchant'']"
| "commands TCarSend = [''car_getrolecar'', ''car_claim'', ''car_research'', ''car_claimpartconsumereward'',
     ''car_getmemberhelpingcnt'', ''legion_getinfo'', ''car_refresh'', ''car_send'']"
| "commands TShare = [''system_mysharecallback'']"
| "commands THangup = [''system_claimhangupreward'', ''system_mysharecallback'']"
| "commands TBottle = [''bottlehelper_stop'', ''bottlehelper_start'']"

text \<open>The tasks whose flow runs in every daily run, marked or not.\<close>
definition unconditional :: "task set" where
  "unconditional = {THangup, TBottle}"

text \<open>How many requests with the commands of a task the others make: hangup is extended by four shares.\<close>
fun shared :: "task \<Rightarrow> nat" where
  "shared TShare = 4"
| "shared t = 0"

text \<open>The requests with one of these commands, among what was done.\<close>
fun asks :: "string set \<Rightarrow> event \<Rightarrow> bool" where
  "asks C (Request name params ms) = (name \<in> C)"
| "asks C e = False"

definition asked_for :: "string list \<Rightarrow> event list \<Rightarrow> nat" where
  "asked_for cs es = length (filter (asks (set cs)) es)"

lemma asked_for_simps [simp]: "asked_for cs [] = 0" "asked_for cs (es @ fs) = asked_for cs es + asked_for cs fs"
  "asked_for cs (e # es) = (if asks (set cs) e then 1 else 0) + asked_for cs es"
  by (simp_all add: asked_for_def)

text \<open>The history grows, with at most \<open>n\<close> such requests.\<close>
definition asks_at_most :: "string list \<Rightarrow> nat \<Rightarrow> game \<Rightarrow> game \<Rightarrow> bool" where
  "asks_at_most cs n g g' = (\<exists>es. ws g' = ws g @ es \<and> asked_for cs es \<le> n)"

lemma asks_at_most_trans: "asks_at_most cs m g h \<Longrightarrow> asks_at_most cs n h k \<Longrightarrow> asks_at_most cs (m + n) g k"
  by (fastforce simp: asks_at_most_def)

text \<open>No mark is lost and the date stays.\<close>
definition marks_grow :: "role_daily \<Rightarrow> role_daily \<Rightarrow> bool" where
  "marks_grow d d' = ((\<forall>t. marked t d \<longrightarrow> marked t d') \<and> d_date d' = d_date d)"

lemma marks_grow_refl [simp]: "marks_grow d d"
  by (simp add: marks_grow_def)

lemma marks_grow_trans: "marks_grow d e \<Longrightarrow> marks_grow e f \<Longrightarrow> marks_grow d f"
  by (simp add: marks_grow_def)

lemma all_tasks: "(\<forall>t. P t) \<longleftrightarrow> P TShare \<and> P TFriendGift \<and> P TRecruit \<and> P THangup \<and> P TBuyGold \<and> P TOpenBox \<and>
    P TStorePurchase \<and> P TBottle \<and> P TArena \<and> P TBoss \<and> P TLegionBoss \<and> P TSignin \<and> P TLegionSignin \<and> P TDiscount \<and>
    P TCard \<and> P TCollection \<and> P TArtifact \<and> P TGenie \<and> P TGacha \<and> P TTaskRewards \<and> P TMail \<and> P TNightmare \<and>
    P TDreamShop \<and> P TCarSend"
  (is "_ = ?conj")
proof
  show "?conj" if "\<forall>t. P t" using that by simp
  show "\<forall>t. P t" if "?conj"
  proof
    show "P t" for t using that by (cases t) simp_all
  qed
qed

section \<open>What a block does\<close>

definition keeps :: "block \<Rightarrow> bool" where
  "keeps b = (\<forall>d rep. yields (\<lambda>(d', _). marks_grow d d') (b (d, rep)))"

definition marks :: "task \<Rightarrow> block \<Rightarrow> bool" where
  "marks t b = (\<forall>s. yields (\<lambda>(d', _). marked t d') (b s))"

text \<open>The block sends commands of \<open>S\<close>, none when the task is marked.\<close>
definition works_on :: "task \<Rightarrow> string list \<Rightarrow> block \<Rightarrow> bool" where
  "works_on t S b = (\<forall>d rep. obeys (extends (requests (if marked t d then {} else set S))) (b (d, rep)))"

definition always_sends :: "string list \<Rightarrow> block \<Rightarrow> bool" where
  "always_sends S b = (\<forall>s. obeys (extends (requests (set S))) (b s))"

text \<open>With the task marked, at most \<open>n\<close> requests with its commands are made.\<close>
definition idle :: "task \<Rightarrow> nat \<Rightarrow> block \<Rightarrow> bool" where
  "idle t n b = (\<forall>d rep. marked t d \<longrightarrow> obeys (asks_at_most (commands t) n) (b (d, rep)))"

lemma requests_mono: "requests S e \<Longrightarrow> S \<subseteq> T \<Longrightarrow> requests T e"
  by (auto simp: requests_def split: event.splits)

lemma others_ask_nothing:
  assumes "obeys (extends (requests S)) m" "S \<inter> set cs = {}"
  shows "obeys (asks_at_most cs 0) m"
proof (rule obeysI)
  fix g x g'
  assume "m g = Some (x, g')"
  from obeysD [OF assms(1) this] obtain es where es: "ws g' = ws g @ es" "list_all (requests S) es"
    by (auto simp: extends_def)
  have "\<not> asks (set cs) e" if "e \<in> set es" for e
  proof -
    have "requests S e" using that es(2) by (simp add: list_all_iff)
    then show ?thesis using assms(2) by (cases e) auto
  qed
  then have "filter (asks (set cs)) es = []" by (simp add: filter_empty_conv)
  then show "asks_at_most cs 0 g g'" using es(1) by (auto simp: asks_at_most_def asked_for_def)
qed

lemma idle_of_works_on:
  assumes "works_on u S b" "u = t \<or> list_all (\<lambda>c. c \<notin> set (commands t)) S"
  shows "idle t 0 b"
  unfolding idle_def
proof (intro allI impI)
  fix d rep
  assume "marked t d"
  then have "(if marked u d then {} else set S) \<inter> set (commands t) = {}" using assms(2) by (auto simp: list_all_iff)
  moreover have "obeys (extends (requests (if marked u d then {} else set S))) (b (d, rep))"
    using assms(1) by (simp add: works_on_def)
  ultimately show "obeys (asks_at_most (commands t) 0) (b (d, rep))" by (rule others_ask_nothing [rotated])
qed

lemma idle_of_sends: "always_sends S b \<Longrightarrow> list_all (\<lambda>c. c \<notin> set (commands t)) S \<Longrightarrow> idle t 0 b"
  unfolding always_sends_def idle_def list_all_iff by (auto intro!: others_ask_nothing)

section \<open>Every block\<close>

lemmas block_defs = do_task_def adopt_def hangup_block_def bottle_block_def gold_block_def arena_block_def
  boss_block_def legion_boss_block_def card_block_def fishing_block_def genie_block_def gacha_block_def
  rewards_block_def nightmare_block_def dream_shop_block_def car_block_def act_def act_only_def arena_fights_def
  enter_formation_def leave_formation_def

lemma keeps_do_task:
  assumes "\<And>d. marks_grow d (finish d)"
  shows "keeps (do_task prefix flag finish name action)" "keeps (adopt known finish)"
  unfolding keeps_def do_task_def adopt_def by (auto intro!: yields_rules simp: assms)

lemma keeps_blocks:
  "keeps (hangup_block E)" "keeps (bottle_block E)" "keeps (gold_block E prefix)"
  "keeps (arena_block E prefix status team original)" "keeps (boss_block E prefix team original)"
  "keeps (legion_boss_block E prefix status team original)" "keeps (card_block E prefix)"
  "keeps (fishing_block E prefix status)" "keeps (genie_block E prefix status)"
  "keeps (gacha_block E prefix status enabled)" "keeps (rewards_block E prefix)"
  "keeps (nightmare_block E prefix day)" "keeps (dream_shop_block E prefix day shop)" "keeps (car_block E prefix enabled)"
  unfolding keeps_def hangup_block_def bottle_block_def gold_block_def arena_block_def
    boss_block_def legion_boss_block_def card_block_def fishing_block_def genie_block_def gacha_block_def
    rewards_block_def nightmare_block_def dream_shop_block_def car_block_def prod.case
  by (intro allI yields_rules; simp add: marks_grow_def all_tasks)+

lemma works_on_do_task:
  assumes "\<And>d. flag d = marked t d" "obeys (extends (requests (set S))) action"
  shows "works_on t S (do_task prefix flag finish name action)"
  unfolding works_on_def do_task_def prod.case
  by (intro allI emits_rules; simp add: assms)

lemma works_on_blocks:
  "works_on TBuyGold [''system_buygold''] (gold_block E prefix)"
  "works_on TArena [''presetteam_getinfo'', ''presetteam_saveteam'', ''arena_startarea'', ''arena_getareatarget'', ''fight_startareaarena'']
     (arena_block E prefix status team original)"
  "works_on TBoss [''presetteam_getinfo'', ''presetteam_saveteam'', ''fight_startboss''] (boss_block E prefix team original)"
  "works_on TLegionBoss [''presetteam_getinfo'', ''presetteam_saveteam'', ''fight_startlegionboss'']
     (legion_boss_block E prefix status team original)"
  "works_on TCard [''card_claimreward''] (card_block E prefix)"
  "works_on TArtifact [''artifact_lottery''] (fishing_block E prefix status)"
  "works_on TGenie [''genie_sweep'', ''genie_buysweep''] (genie_block E prefix status)"
  "works_on TGacha [''gacha_drawreward''] (gacha_block E prefix status enabled)"
  "works_on TTaskRewards [''task_claimdailypoint'', ''task_claimdailyreward'', ''task_claimweekreward'',
     ''activity_recyclewarorderrewardclaim''] (rewards_block E prefix)"
  "works_on TNightmare [''dungeon_selecthero''] (nightmare_block E prefix day)"
  "works_on TDreamShop [''role_getroleinfo'', ''dungeon_buymerchant''] (dream_shop_block E prefix day shop)"
  "works_on TCarSend [''car_getrolecar'', ''car_claim'', ''role_getroleinfo'', ''car_research'', ''car_claimpartconsumereward'',
     ''car_getmemberhelpingcnt'', ''legion_getinfo'', ''car_refresh'', ''car_send''] (car_block E prefix enabled)"
  unfolding works_on_def block_defs arena_fight_def api_defs prod.case
  by (intro allI emits_rules; simp)+

lemma always_sends_blocks:
  "always_sends [] (adopt known finish)"
  "always_sends [''system_claimhangupreward'', ''system_mysharecallback''] (hangup_block E)"
  "always_sends [''bottlehelper_stop'', ''bottlehelper_start''] (bottle_block E)"
  unfolding always_sends_def block_defs
  by (intro allI emits_rules; simp)+

section \<open>Chains of blocks\<close>

lemma chain_Cons: "io_chain (b # bs) s = io_bind (b s) (io_chain bs)"
  by (simp add: io_chain_def [abs_def])

lemma chain_Nil: "io_chain [] s = io_return s"
  by (simp add: io_chain_def)

lemma yields_Some: "yields Q m \<Longrightarrow> m g = Some (x, g') \<Longrightarrow> Q x"
  unfolding yields_def by blast

lemma keeps_step: "keeps b \<Longrightarrow> b (d, rep) g = Some ((e, r), h) \<Longrightarrow> marks_grow d e"
  by (fastforce simp: keeps_def yields_def)

lemma chain_keeps:
  assumes "list_all keeps bs"
  shows "yields (\<lambda>(d', _). marks_grow d d') (io_chain bs (d, rep))"
  using assms
proof (induction bs arbitrary: d rep)
  case (Cons b bs)
  have "yields (\<lambda>(d', _). marks_grow d d') (b (d, rep))" using Cons.prems by (simp add: keeps_def)
  moreover have "yields (\<lambda>(d', _). marks_grow d d') (io_chain bs s)" if "case s of (e, _) \<Rightarrow> marks_grow d e" for s
    using Cons that by (cases s) (auto intro: yields_mono marks_grow_trans)
  ultimately show ?case unfolding chain_Cons by (rule yields_bind_with)
qed (simp add: chain_Nil yields_return)

lemma chain_idle:
  assumes "list_all keeps bs" "list_all2 (idle t) ns bs" "marked t d"
  shows "obeys (asks_at_most (commands t) (sum_list ns)) (io_chain bs (d, rep))"
  using assms
proof (induction bs arbitrary: ns d rep)
  case (Cons b bs)
  from Cons.prems(2) obtain n ms where ns: "ns = n # ms" "idle t n b" "list_all2 (idle t) ms bs"
    by (auto simp: list_all2_Cons2)
  show ?case
  proof (rule obeysI)
    fix g x g'
    assume "io_chain (b # bs) (d, rep) g = Some (x, g')"
    then obtain e r h where b: "b (d, rep) g = Some ((e, r), h)" and bs: "io_chain bs (e, r) h = Some (x, g')"
      unfolding chain_Cons by (elim io_bind_cases) auto
    have "marks_grow d e"
      by (rule keeps_step [where b = b and d = d and rep = rep and g = g and h = h])
        (use Cons.prems(1) b in simp_all)
    then have "marked t e" using Cons.prems(3) by (simp add: marks_grow_def)
    then have rest: "obeys (asks_at_most (commands t) (sum_list ms)) (io_chain bs (e, r))"
      using Cons ns(3) by simp
    have first: "obeys (asks_at_most (commands t) n) (b (d, rep))"
      using Cons.prems(3) ns(2) by (simp add: idle_def)
    from asks_at_most_trans [OF obeysD [OF first b] obeysD [OF rest bs]]
    show "asks_at_most (commands t) (sum_list ns) g g'" by (simp add: ns(1))
  qed
qed (auto simp: chain_Nil obeys_def asks_at_most_def)

lemma chain_marks:
  assumes "list_all keeps bs" "b \<in> set bs" "marks t b"
  shows "yields (\<lambda>(d', _). marked t d') (io_chain bs (d, rep))"
  using assms
proof (induction bs arbitrary: d rep)
  case (Cons c bs)
  show ?case
    unfolding chain_Cons
  proof (cases "b = c")
    case True
    have "yields (\<lambda>(d', _). marked t d') (c (d, rep))" using Cons.prems(3) True by (simp add: marks_def)
    moreover have "yields (\<lambda>(d', _). marked t d') (io_chain bs s)" if "case s of (e, _) \<Rightarrow> marked t e" for s
      using chain_keeps [of bs "fst s" "snd s"] Cons.prems(1) that
      by (cases s) (auto intro: yields_mono simp: marks_grow_def)
    ultimately show "yields (\<lambda>(d', _). marked t d') (io_bind (c (d, rep)) (io_chain bs))"
      by (rule yields_bind_with)
  next
    case False
    then have "yields (\<lambda>(d', _). marked t d') (io_chain bs s)" for s using Cons by (cases s) auto
    then show "yields (\<lambda>(d', _). marked t d') (io_bind (c (d, rep)) (io_chain bs))" by (rule yields_bind)
  qed
qed simp

section \<open>The blocks of the run\<close>

lemma main_keeps: "list_all keeps (main_blocks E prefix config status original)"
  by (simp add: main_blocks_def keeps_do_task keeps_blocks marks_grow_def all_tasks)

lemma late_keeps: "list_all keeps (late_blocks E prefix config day)"
  by (simp add: late_blocks_def keeps_blocks)

text \<open>For each block its task, if it has one that stops it, and the commands it sends.\<close>
fun fits :: "task option \<times> string list \<Rightarrow> block \<Rightarrow> bool" where
  "fits (Some u, S) b = works_on u S b"
| "fits (None, S) b = always_sends S b"

fun harmless :: "task \<Rightarrow> task option \<times> string list \<Rightarrow> bool" where
  "harmless t (u, S) = (u = Some t \<or> list_all (\<lambda>c. c \<notin> set (commands t)) S)"

lemma idle_of_fits: "fits p b \<Longrightarrow> harmless t p \<Longrightarrow> idle t 0 b"
  by (cases p; cases "fst p") (auto intro: idle_of_works_on idle_of_sends)

definition main_specs :: "(task option \<times> string list) list" where
  "main_specs =
    [(None, []), (Some TShare, [''system_mysharecallback'']),
     (None, []), (Some TFriendGift, [''friend_batch'']),
     (None, []), (Some TRecruit, [''hero_recruit'']),
     (None, []), (None, [''system_claimhangupreward'', ''system_mysharecallback'']),
     (None, []), (Some TBuyGold, [''system_buygold'']),
     (None, []), (Some TOpenBox, [''item_openbox'']),
     (None, []), (Some TStorePurchase, [''store_purchase'']),
     (None, []), (None, [''bottlehelper_stop'', ''bottlehelper_start'']),
     (None, []), (Some TArena, [''presetteam_getinfo'', ''presetteam_saveteam'', ''arena_startarea'', ''arena_getareatarget'',
        ''fight_startareaarena'']),
     (Some TBoss, [''presetteam_getinfo'', ''presetteam_saveteam'', ''fight_startboss'']),
     (Some TLegionBoss, [''presetteam_getinfo'', ''presetteam_saveteam'', ''fight_startlegionboss'']),
     (Some TSignin, [''system_signinreward'']), (Some TLegionSignin, [''legion_signin'']),
     (Some TDiscount, [''discount_claimreward'']), (Some TCard, [''card_claimreward'']),
     (Some TCollection, [''collection_claimfreereward'']), (Some TArtifact, [''artifact_lottery'']),
     (Some TGenie, [''genie_sweep'', ''genie_buysweep'']), (Some TGacha, [''gacha_drawreward'']),
     (Some TTaskRewards, [''task_claimdailypoint'', ''task_claimdailyreward'', ''task_claimweekreward'',
        ''activity_recyclewarorderrewardclaim'']),
     (Some TMail, [''mail_claimallattachment''])]"

definition late_specs :: "(task option \<times> string list) list" where
  "late_specs =
    [(Some TNightmare, [''dungeon_selecthero'']), (Some TDreamShop, [''role_getroleinfo'', ''dungeon_buymerchant'']),
     (Some TCarSend, [''car_getrolecar'', ''car_claim'', ''role_getroleinfo'', ''car_research'', ''car_claimpartconsumereward'',
        ''car_getmemberhelpingcnt'', ''legion_getinfo'', ''car_refresh'', ''car_send''])]"

lemma works_on_one:
  assumes "\<And>d. flag d = marked t d" "\<And>S. name \<in> S \<Longrightarrow> obeys (extends (requests S)) action"
  shows "works_on t [name] (do_task prefix flag finish title action)"
  by (rule works_on_do_task) (simp_all add: assms)

lemma api_emits:
  "name \<in> S \<Longrightarrow> obeys (extends (requests S)) (cmd E name params)"
  by (rule cmd_emits)

lemma main_fits: "list_all2 fits main_specs (main_blocks E prefix config status original)"
  unfolding main_specs_def main_blocks_def Let_def list_all2_Cons list_all2_Nil2 fits.simps
  by (intro conjI works_on_blocks always_sends_blocks refl; rule works_on_one; simp add: api_defs cmd_emits)

lemma late_fits: "list_all2 fits late_specs (late_blocks E prefix config day)"
  unfolding late_specs_def late_blocks_def list_all2_Cons list_all2_Nil2 fits.simps
  by (intro conjI works_on_blocks refl)

definition hangup_spec :: "task option \<times> string list" where
  "hangup_spec = (None, [''system_claimhangupreward'', ''system_mysharecallback''])"

text \<open>The one block that uses a command of another task: hangup, extended by sharing.\<close>
definition share_cost :: "task \<Rightarrow> task option \<times> string list \<Rightarrow> nat" where
  "share_cost t p = (if p = hangup_spec then shared t else 0)"

lemma smart_hangup_shares:
  assumes "smart_hangup E rep g = Some (x, g')"
  shows "\<exists>es. ws g' = ws g @ es \<and> asked_for [''system_mysharecallback''] es \<le> 4"
proof -
  have extends: "\<exists>es. ws h' = ws h @ es \<and> asked_for [''system_mysharecallback''] es \<le> 4"
    if "extend_hangup E label rep h = Some (y, h')" for label rep h y h'
    using that by (auto simp: extend_hangup_def api_defs cmd_def cmd_with_timeout_def send_with_response_def Let_def
        io_bind_def upt_rec)
  show ?thesis
  proof (cases "hs_is_active (get_hangup_status (clock E (ws g)) g) \<and>
      \<not> f64_le (hs_remaining (get_hangup_status (clock E (ws g)) g)) (u64_to_f64 3600)")
    case True
    then show ?thesis
      using assms extends by (auto simp: smart_hangup_def Let_def io_bind_def split: if_splits)
  next
    case False
    then show ?thesis
      using assms extends by (fastforce simp: smart_hangup_def Let_def io_bind_def api_defs cmd_def cmd_with_timeout_def
          send_with_response_def split: option.splits)
  qed
qed

lemma hangup_idle: "t \<notin> unconditional \<Longrightarrow> idle t (shared t) (hangup_block E)"
proof (cases "t = TShare")
  case True
  show ?thesis
    unfolding True idle_def hangup_block_def
    by (auto simp: obeys_def asks_at_most_def elim!: io_bind_cases dest: smart_hangup_shares)
next
  case False
  assume "t \<notin> unconditional"
  with False have "shared t = 0" "list_all (\<lambda>c. c \<notin> set (commands t)) [''system_claimhangupreward'', ''system_mysharecallback'']"
    by (cases t; simp add: unconditional_def)+
  then show ?thesis using idle_of_sends [OF always_sends_blocks(2)] by simp
qed

lemma specs_harmless:
  "t \<notin> unconditional \<Longrightarrow> list_all (\<lambda>p. p = hangup_spec \<or> harmless t p) (main_specs @ late_specs)"
  by (cases t) (simp_all add: main_specs_def late_specs_def hangup_spec_def unconditional_def)

lemma hangup_fits: "list_all2 (\<lambda>p b. p = hangup_spec \<longrightarrow> b = hangup_block E) main_specs (main_blocks E prefix config status original)"
  unfolding main_specs_def main_blocks_def Let_def list_all2_Cons list_all2_Nil2 hangup_spec_def by simp

lemma main_idle:
  assumes "t \<notin> unconditional"
  shows "list_all2 (idle t) (map (share_cost t) main_specs) (main_blocks E prefix config status original)"
proof -
  have share_cost: "idle t (share_cost t p) b"
    if p: "p \<in> set main_specs" and "fits p b \<and> (p = hangup_spec \<longrightarrow> b = hangup_block E)" for p b
  proof (cases "p = hangup_spec")
    case True
    then show ?thesis using that hangup_idle [OF assms] by (simp add: share_cost_def)
  next
    case False
    then have "harmless t p" using specs_harmless [OF assms] p by (auto simp: list_all_iff)
    with False show ?thesis using idle_of_fits that(2) by (simp add: share_cost_def)
  qed
  have "list_all2 (\<lambda>p b. fits p b \<and> (p = hangup_spec \<longrightarrow> b = hangup_block E)) main_specs (main_blocks E prefix config status original)"
    using main_fits hangup_fits unfolding list_all2_conv_all_nth by blast
  then show ?thesis
    unfolding list.rel_map by (rule list.rel_mono_strong) (rule share_cost)
qed

lemma late_idle:
  assumes "t \<notin> unconditional"
  shows "list_all2 (idle t) [0, 0, 0] (late_blocks E prefix config day)"
proof -
  have harmless: "harmless t p" if "p \<in> set late_specs" for p
  proof -
    have "p \<noteq> hangup_spec" using that by (auto simp: late_specs_def hangup_spec_def)
    then show ?thesis using specs_harmless [OF assms] that by (auto simp: list_all_iff)
  qed
  have "list_all2 (\<lambda>p. idle t 0) late_specs (late_blocks E prefix config day)"
    using late_fits by (rule list.rel_mono_strong) (rule idle_of_fits, assumption, rule harmless)
  then show ?thesis by (simp add: late_specs_def late_blocks_def)
qed

lemma main_cost: "sum_list (map (share_cost t) main_specs) = shared t"
  by (simp add: main_specs_def share_cost_def hangup_spec_def)

text \<open>The bottle is stopped and started.\<close>
lemma bottle_events:
  "bottle_block E s g = Some (x, g') \<Longrightarrow>
     \<exists>p q. ws g' = ws g @ [Request ''bottlehelper_stop'' p 8000, Sleep 500, Request ''bottlehelper_start'' q 8000, Sleep 500]"
  by (cases s) (auto simp: bottle_block_def smart_bottle_def api_defs cmd_def cmd_with_timeout_def send_with_response_def
      Let_def io_bind_def T_DEFAULT_def)

lemma grows: "fits p b \<Longrightarrow> obeys (extends (\<lambda>_. True)) (b s)"
  by (cases p; cases "fst p"; cases s)
    (auto simp: works_on_def always_sends_def intro: extends_mono)

lemma chain_grows: "list_all2 fits ps bs \<Longrightarrow> obeys (extends (\<lambda>_. True)) (io_chain bs s)"
proof (induction arbitrary: s rule: list_all2_induct)
  case (Cons p ps b bs)
  then show ?case unfolding chain_Cons by (intro emits_rules grows [OF Cons.hyps(1)])
qed (simp add: chain_Nil emits_rules)

lemma chain_includes:
  assumes "list_all2 fits ps bs" "b \<in> set bs" "io_chain bs s g = Some (x, g')"
  shows "\<exists>s h y h' fs es. b s h = Some (y, h') \<and> ws h = ws g @ fs \<and> ws g' = ws h' @ es"
  using assms
proof (induction arbitrary: s g rule: list_all2_induct)
  case (Cons p ps c bs)
  from Cons.prems(2) obtain s1 g1 where c: "c s g = Some (s1, g1)" and bs: "io_chain bs s1 g1 = Some (x, g')"
    unfolding chain_Cons by (elim io_bind_cases) auto
  note all = chain_grows [OF Cons.hyps(2)]
  show ?case
  proof (cases "b = c")
    case True
    then show ?thesis using c obeysD [OF all bs] by (fastforce simp: extends_def)
  next
    case False
    then obtain s h y h' fs es where "b s h = Some (y, h')" "ws h = ws g1 @ fs" "ws g' = ws h' @ es"
      using Cons.IH [of s1 g1] Cons.prems(1) bs by auto
    then show ?thesis using obeysD [OF grows [OF Cons.hyps(1)] c] by (fastforce simp: extends_def)
  qed
qed simp

section \<open>The whole run\<close>

lemma read_original_team_emits [emits_rules]:
  "''presetteam_getinfo'' \<in> S \<Longrightarrow> obeys (extends (requests S)) (read_original_team E prefix config rep)"
  unfolding read_original_team_def by (intro emits_rules; simp)

lemma run_marks_grow:
  "yields (\<lambda>(d', _). marks_grow d d')
     (io_bind (io_chain (main_blocks E prefix config status original) (d, rep)) (\<lambda>s.
      io_bind (read_local E) (\<lambda>now. io_chain (late_blocks E prefix config (num_days_from_sunday (ln_weekday now))) s)))"
  by (rule yields_bind_with [OF chain_keeps [OF main_keeps]])
    (auto intro!: yields_bind intro: yields_mono [OF chain_keeps [OF late_keeps]] marks_grow_trans)

lemma run_idle:
  assumes "marked t d" "t \<notin> unconditional"
  shows "obeys (asks_at_most (commands t) (shared t))
     (io_bind (io_chain (main_blocks E prefix config status original) (d, rep)) (\<lambda>s.
      io_bind (read_local E) (\<lambda>now. io_chain (late_blocks E prefix config (num_days_from_sunday (ln_weekday now))) s)))"
proof (rule obeysI)
  fix g x g'
  assume "io_bind (io_chain (main_blocks E prefix config status original) (d, rep)) (\<lambda>s.
      io_bind (read_local E) (\<lambda>now. io_chain (late_blocks E prefix config (num_days_from_sunday (ln_weekday now))) s)) g = Some (x, g')"
  then obtain e r h where main: "io_chain (main_blocks E prefix config status original) (d, rep) g = Some ((e, r), h)"
    and late: "io_chain (late_blocks E prefix config (num_days_from_sunday (ln_weekday (wall E (ws h))))) (e, r) h = Some (x, g')"
    by (elim io_bind_cases) auto
  have "marks_grow d e"
    using yields_Some [OF chain_keeps [OF main_keeps], of E prefix config status original d rep g "(e, r)" h] main by simp
  then have "marked t e" using assms(1) by (simp add: marks_grow_def)
  from obeysD [OF chain_idle [OF late_keeps late_idle [OF assms(2)] this] late]
  have "asks_at_most (commands t) 0 h g'" by simp
  moreover have "asks_at_most (commands t) (shared t) g h"
    using obeysD [OF chain_idle [OF main_keeps main_idle [OF assms(2)] assms(1)] main] by (simp only: main_cost)
  ultimately show "asks_at_most (commands t) (shared t) g g'" using asks_at_most_trans by fastforce
qed

lemma run_bottle:
  assumes "io_bind (io_chain (main_blocks E prefix config status original) (d, rep)) (\<lambda>s.
      io_bind (read_local E) (\<lambda>now. io_chain (late_blocks E prefix config (num_days_from_sunday (ln_weekday now))) s)) g = Some (x, g')"
  shows "\<exists>es p q. ws g' = ws g @ es \<and> Request ''bottlehelper_stop'' p 8000 \<in> set es \<and> Request ''bottlehelper_start'' q 8000 \<in> set es"
proof -
  from assms obtain s h where main: "io_chain (main_blocks E prefix config status original) (d, rep) g = Some (s, h)"
    and late: "io_chain (late_blocks E prefix config (num_days_from_sunday (ln_weekday (wall E (ws h))))) s h = Some (x, g')"
    by (elim io_bind_cases) auto
  have "bottle_block E \<in> set (main_blocks E prefix config status original)" by (simp add: main_blocks_def Let_def)
  from chain_includes [OF main_fits this main] obtain s1 k y k' fs es where b: "bottle_block E s1 k = Some (y, k')"
    "ws k = ws g @ fs" "ws h = ws k' @ es" by blast
  obtain cs where "ws g' = ws h @ cs" using obeysD [OF chain_grows [OF late_fits] late] by (auto simp: extends_def)
  then show ?thesis using bottle_events [OF b(1)] b(2,3) by fastforce
qed

lemma commands_no_team: "''presetteam_getinfo'' \<notin> set (commands t)"
  by (cases t) simp_all

text \<open>What the run does after the status is read.\<close>
lemma run_parts:
  assumes "run_daily_tasks_stateful E d prefix config g = Some (s', g')"
  obtains original rep h where
    "read_original_team E prefix config report_new g = Some ((original, rep), h)"
    "io_bind (io_chain (main_blocks E prefix config (get_daily_task_status E (wall E (ws g)) g) original)
        (ensure_today (ln_date (wall E (ws g))) d, rep)) (\<lambda>s.
      io_bind (read_local E) (\<lambda>now. io_chain (late_blocks E prefix config (num_days_from_sunday (ln_weekday now))) s)) h
      = Some (s', g')"
proof -
  from assms have "io_bind (read_original_team E prefix config report_new) (\<lambda>(original, rep).
      io_bind (io_chain (main_blocks E prefix config (get_daily_task_status E (wall E (ws g)) g) original)
        (ensure_today (ln_date (wall E (ws g))) d, rep)) (\<lambda>s.
      io_bind (read_local E) (\<lambda>now. io_chain (late_blocks E prefix config (num_days_from_sunday (ln_weekday now))) s))) g
      = Some (s', g')"
    by (simp add: run_daily_tasks_stateful_def Let_def)
  then obtain x h where "read_original_team E prefix config report_new g = Some (x, h)"
    "(case x of (original, rep) \<Rightarrow>
      io_bind (io_chain (main_blocks E prefix config (get_daily_task_status E (wall E (ws g)) g) original)
        (ensure_today (ln_date (wall E (ws g))) d, rep)) (\<lambda>s.
      io_bind (read_local E) (\<lambda>now. io_chain (late_blocks E prefix config (num_days_from_sunday (ln_weekday now))) s))) h
      = Some (s', g')"
    by (rule io_bind_cases)
  then show thesis using that by (cases x) auto
qed

lemma extends_no_request:
  "extends (requests (- C)) g g' \<Longrightarrow> \<exists>es. ws g' = ws g @ es \<and> (\<forall>name \<in> C. \<forall>params ms. Request name params ms \<notin> set es)"
  by (fastforce simp: extends_def list_all_iff)

section \<open>Termination\<close>

lemma api_returns [returns_rules]: "list_all (\<lambda>(_, m). returns m) (api E p a b c i s t)"
  by (simp add: api_def api_defs cmd_returns returns_bind)

lemma flow_returns [returns_rules]:
  "returns (current_team_id E)" "returns (switch_team E n)" "returns (switch_to_context_formation E n original)"
  "returns (restore_context_formation E switched original)" "returns (extend_hangup E label rep)"
  "returns (smart_hangup E rep)" "returns (smart_bottle E rep)" "returns (run_dream_shop_daily E prefix shop rep)"
  unfolding current_team_id_def switch_team_def switch_to_context_formation_def restore_context_formation_def
    extend_hangup_def smart_hangup_def smart_bottle_def run_dream_shop_daily_def buy_operation_def api_defs
  by (intro returns_rules)+

lemma arena_loop_returns [returns_rules]:
  "returns (io_loop (plain_arena_fight E remaining) s)" "returns (io_loop (arena_fight E prefix remaining) s)"
proof -
  let ?left = "\<lambda>s :: nat \<times> report. Suc remaining - fst s"
  show "returns (io_loop (plain_arena_fight E remaining) s)"
  proof (rule returns_loop [where measure_of = ?left])
    show "returns (plain_arena_fight E remaining s)" for s
      unfolding plain_arena_fight_def api_defs by (intro returns_rules)
    show "yields (\<lambda>r. case r of Inl s' \<Rightarrow> ?left s' < ?left s | Inr _ \<Rightarrow> True) (plain_arena_fight E remaining s)" for s
      unfolding plain_arena_fight_def by (cases s) (auto intro!: yields_rules)
  qed
  show "returns (io_loop (arena_fight E prefix remaining) s)"
  proof (rule returns_loop [where measure_of = ?left])
    show "returns (arena_fight E prefix remaining s)" for s
      unfolding arena_fight_def api_defs by (intro returns_rules)
    show "yields (\<lambda>r. case r of Inl s' \<Rightarrow> ?left s' < ?left s | Inr _ \<Rightarrow> True) (arena_fight E prefix remaining s)" for s
      unfolding arena_fight_def by (cases s) (auto intro!: yields_rules)
  qed
qed

lemma chain_returns: "(\<And>b s. b \<in> set bs \<Longrightarrow> returns (b s)) \<Longrightarrow> returns (io_chain bs s)"
  by (induction bs arbitrary: s) (auto simp: chain_Cons chain_Nil intro: returns_bind)

lemma daily_steps_return: "f \<in> set (daily_steps E status) \<Longrightarrow> returns (f rep)"
  unfolding daily_steps_def run_unless_def run_step_def plain_arena_def plain_boss_def plain_legion_boss_def plain_genie_def
    plain_rewards_def plain_nightmare_def api_defs list.set insert_iff empty_iff
  by (elim disjE FalseE; simp only: ; intro returns_rules)

lemma main_blocks_return: "b \<in> set (main_blocks E prefix config status original) \<Longrightarrow> returns (b s)"
  unfolding main_blocks_def block_defs api_defs list.set insert_iff empty_iff Let_def
  by (cases s; elim disjE FalseE; simp only: prod.case; intro returns_rules)

lemma late_blocks_return:
  "\<not> dtc_car_enabled config \<Longrightarrow> b \<in> set (late_blocks E prefix config day) \<Longrightarrow> returns (b s)"
  unfolding late_blocks_def block_defs api_defs list.set insert_iff empty_iff
  by (cases s; elim disjE FalseE; simp only: prod.case not_False_eq_True if_True; intro returns_rules)

section \<open>Properties\<close>

text \<open>All of the run, the team it reads first included.\<close>
lemma run_asks:
  assumes "run_daily_tasks_stateful E d prefix config g = Some (s', g')"
  shows "\<exists>es. ws g' = ws g @ es \<and>
    (t \<notin> unconditional \<longrightarrow> marked t (ensure_today (ln_date (wall E (ws g))) d) \<longrightarrow> asked_for (commands t) es \<le> shared t) \<and>
    (\<exists>p q. Request ''bottlehelper_stop'' p 8000 \<in> set es \<and> Request ''bottlehelper_start'' q 8000 \<in> set es)"
proof -
  obtain original rep h where
    team: "read_original_team E prefix config report_new g = Some ((original, rep), h)" and
    rest: "io_bind (io_chain (main_blocks E prefix config (get_daily_task_status E (wall E (ws g)) g) original)
        (ensure_today (ln_date (wall E (ws g))) d, rep)) (\<lambda>s.
      io_bind (read_local E) (\<lambda>now. io_chain (late_blocks E prefix config (num_days_from_sunday (ln_weekday now))) s)) h
      = Some (s', g')"
    by (rule run_parts [OF assms])
  have "obeys (extends (requests {''presetteam_getinfo''})) (read_original_team E prefix config report_new)"
    by (rule read_original_team_emits) simp
  from others_ask_nothing [OF this] have "obeys (asks_at_most (commands t) 0) (read_original_team E prefix config report_new)"
    using commands_no_team [of t] by simp
  from obeysD [OF this team] obtain fs where fs: "ws h = ws g @ fs" "asked_for (commands t) fs = 0"
    by (auto simp: asks_at_most_def)
  from run_bottle [OF rest] obtain es p q where es: "ws g' = ws h @ es"
    "Request ''bottlehelper_stop'' p 8000 \<in> set es" "Request ''bottlehelper_start'' q 8000 \<in> set es" by blast
  have "asked_for (commands t) es \<le> shared t"
    if "t \<notin> unconditional" "marked t (ensure_today (ln_date (wall E (ws g))) d)"
    using obeysD [OF run_idle [OF that(2,1)] rest] es(1) by (auto simp: asks_at_most_def)
  then show ?thesis using fs es by (intro exI [of _ "fs @ es"]) auto
qed

text \<open>C12: A task already marked done for the day is not attempted again, with two exceptions.  In a daily run, whatever the
  server answers and whatever is configured, none of the requests that do its work is made; of the shares those four
  that extend the hangup may be made.  The exceptions are hangup and bottle, which do not look at their mark: the bottle is
  stopped and started in every run that returns.\<close>
theorem marked_task_not_repeated:
  assumes "run_daily_tasks_stateful E d prefix config g = Some (s', g')"
    and "marked t d" "d_date d = Some (ln_date (wall E (ws g)))" "t \<notin> {THangup, TBottle}"
  shows "\<exists>es. ws g' = ws g @ es \<and> asked_for (commands t) es \<le> (if t = TShare then 4 else 0) \<and>
    (\<exists>p q. Request ''bottlehelper_stop'' p 8000 \<in> set es \<and> Request ''bottlehelper_start'' q 8000 \<in> set es)"
proof -
  have "shared t = (if t = TShare then 4 else 0)" by (cases t) simp_all
  then show ?thesis using run_asks [OF assms(1), of t] assms(2-4) by (auto simp: unconditional_def ensure_today_def)
qed

text \<open>The marks of a day only grow: after a daily run the state is of today, every mark that was set
  today is still set, and marks of another day are gone first.\<close>
theorem marks_only_grow:
  assumes "run_daily_tasks_stateful E d prefix config g = Some ((d', rep), g')"
  shows "marks_grow (ensure_today (ln_date (wall E (ws g))) d) d' \<and> d_date d' = Some (ln_date (wall E (ws g)))"
proof -
  have "marks_grow (ensure_today (ln_date (wall E (ws g))) d) d'"
    using run_parts [OF assms] yields_Some [OF run_marks_grow] by (metis (no_types, lifting) case_prod_conv)
  then show ?thesis by (auto simp: marks_grow_def ensure_today_def)
qed

lemma fight_blocks_mark:
  "marks THangup (hangup_block E)" "marks TBottle (bottle_block E)" "marks TArena (arena_block E prefix status team original)"
  "marks TBoss (boss_block E prefix team original)" "marks TLegionBoss (legion_boss_block E prefix status team original)"
  "marks TArtifact (fishing_block E prefix status)" "marks TGenie (genie_block E prefix status)"
  "marks TTaskRewards (rewards_block E prefix)"
  unfolding marks_def hangup_block_def bottle_block_def arena_block_def boss_block_def legion_boss_block_def fishing_block_def
    genie_block_def rewards_block_def
  by (intro allI yields_rules; auto)+

lemma chain_marked: 
  assumes "marks t b" "b \<in> set (main_blocks E prefix config status original)"
  shows "yields (\<lambda>(d', _). marked t d')
     (io_bind (io_chain (main_blocks E prefix config status original) (d, rep)) (\<lambda>s.
      io_bind (read_local E) (\<lambda>now. io_chain (late_blocks E prefix config (num_days_from_sunday (ln_weekday now))) s)))"
  by (rule yields_bind_with [OF chain_marks [OF main_keeps assms(2,1)]])
    (auto intro!: yields_bind intro: yields_mono [OF chain_keeps [OF late_keeps]] simp: marks_grow_def)

definition attempted_once :: "task list" where
  "attempted_once = [THangup, TBottle, TArena, TBoss, TLegionBoss, TArtifact, TGenie, TTaskRewards]"

text \<open>C28: Hangup, bottle, arena, both bosses, fishing, genie and the task rewards are marked done by every daily run that
  returns, even one in which every request fails: these tasks are attempted once a day and never retried, contrary
  to the comment of the function (network and timeout errors leave a task unmarked).\<close>
theorem fights_marked_whatever_happens:
  assumes "run_daily_tasks_stateful E d prefix config g = Some ((d', rep), g')"
  shows "list_all (\<lambda>t. marked t d') attempted_once"
proof -
  obtain original rep' h where rest:
    "io_bind (io_chain (main_blocks E prefix config (get_daily_task_status E (wall E (ws g)) g) original)
        (ensure_today (ln_date (wall E (ws g))) d, rep')) (\<lambda>s.
      io_bind (read_local E) (\<lambda>now. io_chain (late_blocks E prefix config (num_days_from_sunday (ln_weekday now))) s)) h
      = Some ((d', rep), g')"
    by (rule run_parts [OF assms])
  have m: "marked t d'" if "marks t b" "b \<in> set (main_blocks E prefix config (get_daily_task_status E (wall E (ws g)) g) original)" for t b
    using yields_Some [OF chain_marked [OF that] rest] by simp
  let ?status = "get_daily_task_status E (wall E (ws g)) g"
  let ?team = "\<lambda>f. map_option f (dtc_formations config)"
  let ?blocks = "set (main_blocks E prefix config ?status original)"
  have "hangup_block E \<in> ?blocks" "bottle_block E \<in> ?blocks"
      "arena_block E prefix ?status (?team plan_arena) original \<in> ?blocks"
      "boss_block E prefix (?team plan_boss_daily) original \<in> ?blocks"
      "legion_boss_block E prefix ?status (?team plan_boss_legion) original \<in> ?blocks"
      "fishing_block E prefix ?status \<in> ?blocks" "genie_block E prefix ?status \<in> ?blocks" "rewards_block E prefix \<in> ?blocks"
    by (simp_all add: main_blocks_def Let_def)
  note in_run = this
  show ?thesis
    by (simp add: attempted_once_def m [OF fight_blocks_mark(1) in_run(1)] m [OF fight_blocks_mark(2) in_run(2)]
      m [OF fight_blocks_mark(3) in_run(3)] m [OF fight_blocks_mark(4) in_run(4)] m [OF fight_blocks_mark(5) in_run(5)]
      m [OF fight_blocks_mark(6) in_run(6)] m [OF fight_blocks_mark(7) in_run(7)] m [OF fight_blocks_mark(8) in_run(8)]
      flip: marked.simps)
qed

text \<open>Both daily runs return whatever the server answers: the plain run always, the stateful one when cars are disabled
  (a car is refreshed for as long as the server reports no refresh used up).\<close>
theorem daily_runs_return:
  "returns (run_daily_tasks E) \<and> (\<not> dtc_car_enabled config \<longrightarrow> returns (run_daily_tasks_stateful E d prefix config))"
proof
  show "returns (run_daily_tasks E)"
    unfolding run_daily_tasks_def by (intro returns_rules chain_returns daily_steps_return)
  show "\<not> dtc_car_enabled config \<longrightarrow> returns (run_daily_tasks_stateful E d prefix config)"
    unfolding run_daily_tasks_stateful_def read_original_team_def
    by (intro impI returns_rules chain_returns main_blocks_return late_blocks_return)
qed

section \<open>Runs against a server that never answers\<close>

definition sample_now :: local_now where
  "sample_now = \<lparr>ln_date = ''2026-05-04'', ln_week = ''2026-W19'', ln_weekday = Mon, ln_hour = 9, ln_minute = 30,
     ln_second = 0, ln_day = 20577, ln_nanos = 1777858200000000000\<rparr>"

definition dead_env :: env where
  "dead_env = \<lparr>answer = (\<lambda>_. Err ''Timeout after 8000ms''), sent = (\<lambda>_. Err ''channel closed''), clock = (\<lambda>_. 0),
     wall = (\<lambda>_. sample_now), ymd = (\<lambda>_. (2026, 5, 4)), day_of_ymd = (\<lambda>_ _ _. None), unix_of = (\<lambda>_ _. None),
     day_of_unix = (\<lambda>_. None)\<rparr>"

definition plain_config :: daily_task_config where
  "plain_config = \<lparr>dtc_formations = None, dtc_dream_shop = None, dtc_car_enabled = False, dtc_gacha_enabled = True\<rparr>"

definition signed_in :: role_daily where
  "signed_in = daily_default\<lparr>d_date := Some ''2026-05-04'', d_signin := True\<rparr>"

theorem daily_runs_return_witness: "returns (run_daily_tasks_stateful dead_env signed_in ''[R1]'' plain_config)"
  using daily_runs_return [of dead_env plain_config signed_in "''[R1]''"] by (simp add: plain_config_def)

lemma sample_run:
  obtains d' rep g' where "run_daily_tasks_stateful dead_env signed_in ''[R1]'' plain_config new_game = Some ((d', rep), g')"
proof -
  have "returns (run_daily_tasks_stateful dead_env signed_in ''[R1]'' plain_config)"
    unfolding run_daily_tasks_stateful_def read_original_team_def
    by (intro returns_rules chain_returns main_blocks_return late_blocks_return) (simp_all add: plain_config_def)
  then show thesis using that by (fastforce simp: returns_def)
qed

theorem marked_task_not_repeated_witness:
  "\<exists>s' g'. run_daily_tasks_stateful dead_env signed_in ''[R1]'' plain_config new_game = Some (s', g') \<and>
     asked_for [''system_signinreward''] (ws g') = 0 \<and> (\<exists>p. Request ''bottlehelper_stop'' p 8000 \<in> set (ws g'))"
proof -
  obtain d' rep g' where run: "run_daily_tasks_stateful dead_env signed_in ''[R1]'' plain_config new_game = Some ((d', rep), g')"
    by (rule sample_run)
  have "marked TSignin signed_in" "d_date signed_in = Some (ln_date (wall dead_env (ws new_game)))"
    by (simp_all add: signed_in_def dead_env_def sample_now_def)
  from marked_task_not_repeated [OF run this] show ?thesis using run by (auto simp: new_game_def)
qed

theorem marks_only_grow_witness:
  "\<exists>d' rep g'. run_daily_tasks_stateful dead_env signed_in ''[R1]'' plain_config new_game = Some ((d', rep), g') \<and>
     d_signin d' \<and> d_date d' = Some ''2026-05-04''"
proof -
  obtain d' rep g' where run: "run_daily_tasks_stateful dead_env signed_in ''[R1]'' plain_config new_game = Some ((d', rep), g')"
    by (rule sample_run)
  have "marked TSignin signed_in" "ensure_today (ln_date (wall dead_env (ws new_game))) signed_in = signed_in"
      "ln_date (wall dead_env (ws new_game)) = ''2026-05-04''"
    by (simp_all add: signed_in_def dead_env_def sample_now_def ensure_today_def)
  with marks_only_grow [OF run] have g: "marks_grow signed_in d'" and "d_date d' = Some ''2026-05-04''" by simp_all
  moreover from g have "marked TSignin signed_in \<longrightarrow> marked TSignin d'" unfolding marks_grow_def by blast
  then have "d_signin d'" by (simp add: signed_in_def)
  ultimately show ?thesis using run by blast
qed

theorem fights_marked_whatever_happens_witness:
  "\<exists>d' rep g'. run_daily_tasks_stateful dead_env signed_in ''[R1]'' plain_config new_game = Some ((d', rep), g') \<and>
     d_arena d' \<and> d_boss d' \<and> d_legion_boss d'"
proof -
  obtain d' rep g' where run: "run_daily_tasks_stateful dead_env signed_in ''[R1]'' plain_config new_game = Some ((d', rep), g')"
    by (rule sample_run)
  from fights_marked_whatever_happens [OF run] have "d_arena d' \<and> d_boss d' \<and> d_legion_boss d'"
    by (simp add: attempted_once_def)
  then show ?thesis using run by blast
qed

end
