(* ===== verification/Towers.thy ===== *)
theory Towers
  imports Daily_Facts
begin

text \<open>
  The climbs and the periodic run of \<open>src/src/kpi.rs\<close>: the tower, the evo tower with its merge boxes, the skin
  challenge, and \<open>run_periodic_tasks\<close>.  Their loops end when the server says so, hence they are \<open>io_loop\<close>s and may not
  return.
\<close>

section \<open>The tower\<close>

definition MAX_CLIMBS :: nat where "MAX_CLIMBS = 100"

definition tower_energy :: "json \<Rightarrow> int option" where
  "tower_energy info =
     Option.bind (or_else (pointer [''role'', ''tower'', ''energy''] info) (pointer [''tower'', ''energy''] info)) as_int"

text \<open>\<open>if let Ok(info) = self.role_getroleinfo().await { self.role_info = Some(info); }\<close>\<close>
definition refresh_role_info :: "env \<Rightarrow> bool io" where
  "refresh_role_info E =
     io_bind (role_getroleinfo E) (\<lambda>r.
       case r of Inr info \<Rightarrow> io_bind (set_role_info info) (\<lambda>_. io_return True) | Inl e \<Rightarrow> io_return False)"

text \<open>Energy and tower as the role info has them, else as they were.\<close>
definition read_energy :: "game \<Rightarrow> int \<Rightarrow> int" where
  "read_energy g energy = unwrap_or (Option.bind (role_info g) tower_energy) energy"

definition read_tower_id :: "game \<Rightarrow> nat \<Rightarrow> nat" where
  "read_tower_id g tower_id = unwrap_or (Option.bind (role_info g) tower_id_from_role_info) tower_id"

record climb =
  cb_energy :: int
  cb_tower_id :: nat
  cb_climb_count :: nat
  cb_failures :: nat
  cb_periodic :: role_periodic
  cb_report :: report

definition tower_clear :: "role_periodic \<Rightarrow> role_periodic" where
  "tower_clear p = p\<lparr>p_tower_cleared := True, p_tower_next_check := 0\<rparr>"

text \<open>What the climbing loop does with the outcome of a fight; \<open>Inr\<close> leaves the loop.\<close>
definition after_fight :: "env \<Rightarrow> string \<Rightarrow> climb \<Rightarrow> json res \<Rightarrow> (climb + climb) io" where
  "after_fight E prefix s r =
    (case r of
       Inr resp \<Rightarrow>
         io_bind delay (\<lambda>_. io_return (Inl (s\<lparr>cb_climb_count := cb_climb_count s + 1, cb_failures := 0,
           cb_energy := cb_energy s - 1,
           cb_tower_id := unwrap_or (Option.bind (pointer [''battleData'', ''options'', ''towerId''] resp) as_nat)
             (cb_tower_id s)\<rparr>)))
     | Inl e \<Rightarrow>
         let code = extract_code_from_error e in
         if code = Some 1500040 then
           let reward_floor = cb_tower_id s div 10 in
           io_bind (if 0 < reward_floor then
                      io_bind (tower_claimreward E reward_floor) (\<lambda>r.
                        io_return (run_with_prefix prefix (''tower_claimreward '' @ nat_str reward_floor) r (cb_report s)))
                    else io_return (cb_report s)) (\<lambda>rep.
           io_bind delay (\<lambda>_. io_bind (refresh_role_info E) (\<lambda>_. io_bind read_game (\<lambda>g.
             io_return (Inl (s\<lparr>cb_report := rep, cb_energy := read_energy g (cb_energy s),
               cb_tower_id := read_tower_id g (cb_tower_id s), cb_failures := 0\<rparr>))))))
         else if code = Some 1500010 then io_return (Inr (s\<lparr>cb_periodic := tower_clear (cb_periodic s)\<rparr>))
         else if code = Some 1500020 then io_return (Inr s)
         else if code = Some 200400 then io_bind (sleep 5000) (\<lambda>_. io_return (Inl s))
         else
           let s = s\<lparr>cb_failures := cb_failures s + 1, cb_report := fail_with_prefix prefix ''tower fight'' e (cb_report s)\<rparr> in
           if 3 \<le> cb_failures s then io_return (Inr s)
           else io_bind delay (\<lambda>_. io_bind delay (\<lambda>_. io_return (Inl s))))"

definition climb_round :: "env \<Rightarrow> string \<Rightarrow> climb \<Rightarrow> (climb + climb) io" where
  "climb_round E prefix s =
     (if 0 < cb_energy s \<and> cb_climb_count s < MAX_CLIMBS then io_bind (fight_starttower E) (after_fight E prefix s)
      else io_return (Inr s))"

text \<open>The switch to a team before a climb: the original team if it could be read, and whether it was left.\<close>
definition enter_team :: "env \<Rightarrow> nat \<Rightarrow> (nat option \<times> bool) io" where
  "enter_team E team =
     io_bind (current_team_id E) (\<lambda>r.
       case r of
         Inl e \<Rightarrow> io_return (None, False)
       | Inr orig \<Rightarrow>
           if orig \<noteq> team then io_bind (switch_team E team) (\<lambda>_. io_return (Some orig, True))
           else io_return (Some orig, False))"

definition leave_team :: "env \<Rightarrow> nat \<Rightarrow> nat option \<times> bool \<Rightarrow> unit io" where
  "leave_team E team entered =
     (case entered of (original_team, switched) \<Rightarrow>
      if switched then io_bind (switch_team E (unwrap_or original_team team)) (\<lambda>_. io_return ()) else io_return ())"

text \<open>\<open>now_secs() + (10.saturating_sub(energy) as f64 * 1800.0)\<close>\<close>
definition next_check_time :: "f64 \<Rightarrow> int \<Rightarrow> f64" where
  "next_check_time now energy =
     f64_add now (f64_mul (i64_to_f64 (word_of_int (min (2 ^ 63 - 1) (max (- (2 ^ 63)) (10 - energy))))) (u64_to_f64 1800))"

text \<open>The reward of a floor just finished, before the climb.\<close>
definition claim_previous :: "env \<Rightarrow> string \<Rightarrow> climb \<Rightarrow> climb io" where
  "claim_previous E prefix s =
     (if 0 < cb_tower_id s \<and> cb_tower_id s mod 10 = 0 then
        let reward_floor = cb_tower_id s div 10 in
        if 0 < reward_floor then
          io_bind (tower_claimreward E reward_floor) (\<lambda>r. io_bind delay (\<lambda>_. io_bind (refresh_role_info E) (\<lambda>_. io_bind read_game (\<lambda>g.
            io_return (s\<lparr>cb_report := run_with_prefix prefix (''claim tower reward '' @ nat_str reward_floor) r (cb_report s),
              cb_energy := read_energy g (cb_energy s), cb_tower_id := read_tower_id g (cb_tower_id s)\<rparr>)))))
        else io_return s
      else io_return s)"

text \<open>After the climb: the role info once more, the clear state and the time of the next check.\<close>
definition finish_climb :: "env \<Rightarrow> climb \<Rightarrow> climb io" where
  "finish_climb E s =
     io_bind (refresh_role_info E) (\<lambda>fresh. io_bind read_game (\<lambda>g. io_bind (read_now E) (\<lambda>now.
       let s = (if fresh then s\<lparr>cb_energy := read_energy g (cb_energy s),
                  cb_periodic := update_periodic_state now g (cb_periodic s)\<rparr> else s);
           s = (if TOWER_CLEAR_ID \<le> cb_tower_id s then s\<lparr>cb_periodic := tower_clear (cb_periodic s)\<rparr> else s)
       in io_bind (read_now E) (\<lambda>now.
            io_return (if \<not> p_tower_cleared (cb_periodic s)
              then s\<lparr>cb_periodic := (cb_periodic s)\<lparr>p_tower_next_check := next_check_time now (cb_energy s)\<rparr>\<rparr> else s)))))"

definition run_tower_climb :: "env \<Rightarrow> role_periodic \<Rightarrow> nat \<Rightarrow> string \<Rightarrow> report \<Rightarrow> (role_periodic \<times> report) io" where
  "run_tower_climb E p tower_team prefix rep =
     io_bind read_game (\<lambda>g.
       if (case role_info g of None \<Rightarrow> False | Some info \<Rightarrow> tower_is_cleared info) then io_return (tower_clear p, rep)
       else
         io_bind (tower_getinfo E) (\<lambda>_. io_bind (refresh_role_info E) (\<lambda>_. io_bind read_game (\<lambda>g.
           let energy = read_energy g 0; tower_id = read_tower_id g 0 in
           if TOWER_CLEAR_ID \<le> tower_id then io_return (tower_clear p, rep)
           else
             io_bind (enter_team E tower_team) (\<lambda>entered.
             io_bind (claim_previous E prefix \<lparr>cb_energy = energy, cb_tower_id = tower_id, cb_climb_count = 0,
                 cb_failures = 0, cb_periodic = p, cb_report = rep\<rparr>) (\<lambda>s.
             io_bind (io_loop (climb_round E prefix) s) (\<lambda>s.
             io_bind (finish_climb E s) (\<lambda>s.
             io_bind (leave_team E tower_team entered) (\<lambda>_.
               io_return (cb_periodic s, cb_report s))))))))))"

section \<open>Merge boxes\<close>

definition merge_delay :: "unit io" where
  "merge_delay = sleep 300"

definition box_position :: "int \<Rightarrow> json" where
  "box_position cost_total =
     (if cost_total < 2 then jobj [(''gridX'', jnum 4), (''gridY'', jnum 5)]
      else if cost_total < 102 then jobj [(''gridX'', jnum 7), (''gridY'', jnum 3)]
      else jobj [(''gridX'', jnum 6), (''gridY'', jnum 3)])"

text \<open>One turn of the opening loop; the state is the boxes left.\<close>
definition box_round :: "env \<Rightarrow> int \<Rightarrow> (int + unit) io" where
  "box_round E lottery_left =
     (if 0 < lottery_left then
        io_bind (mergebox_getinfo E 1) (\<lambda>r.
          case r of
            Inl e \<Rightarrow> io_return (Inr ())
          | Inr merge_info \<Rightarrow>
              let cost_total = unwrap_or (Option.bind (pointer [''mergeBox'', ''costTotalCnt''] merge_info) as_int) 0 in
              io_bind (mergebox_openbox E (jobj [(''actType'', jnum 1), (''pos'', box_position cost_total)])) (\<lambda>r.
                case r of
                  Inr _ \<Rightarrow>
                    io_bind (mergebox_claimcostprogress E 1) (\<lambda>_. io_bind merge_delay (\<lambda>_. io_return (Inl (lottery_left - 1))))
                | Inl e \<Rightarrow>
                    io_bind (mergebox_automergeitem E 1) (\<lambda>_. io_bind merge_delay (\<lambda>_.
                    io_bind (mergebox_claimmergeprogress E 1 1) (\<lambda>_. io_bind merge_delay (\<lambda>_. io_return (Inl lottery_left)))))))
      else io_return (Inr ()))"

definition run_mergebox_tail :: "env \<Rightarrow> unit io" where
  "run_mergebox_tail E =
     io_bind (mergebox_getinfo E 1) (\<lambda>r.
     io_bind (case r of
         Inl e \<Rightarrow> io_return ()
       | Inr info \<Rightarrow>
           if 0 < unwrap_or (Option.bind (pointer [''mergeBox'', ''freeEnergy''] info) as_int) 0
           then io_bind (mergebox_claimfreeenergy E 1) (\<lambda>_. merge_delay) else io_return ()) (\<lambda>_.
     io_bind (evotower_getinfo E) (\<lambda>r.
     io_bind (case r of
         Inl e \<Rightarrow> io_return ()
       | Inr evo_info \<Rightarrow>
           io_loop (box_round E) (unwrap_or (Option.bind (pointer [''evoTower'', ''lotteryLeftCnt''] evo_info) as_int) 0)) (\<lambda>_.
     io_bind (mergebox_getinfo E 1) (\<lambda>r.
       case r of
         Inl e \<Rightarrow> io_return ()
       | Inr _ \<Rightarrow>
           io_bind (mergebox_automergeitem E 1) (\<lambda>_. io_bind merge_delay (\<lambda>_.
           io_bind (mergebox_claimmergeprogress E 1 1) (\<lambda>_.
           io_bind (mergebox_claimcostprogress E 1) (\<lambda>_. io_return ()))))))))) "

section \<open>The evo tower\<close>

record evo_climb =
  ec_energy :: int
  ec_tower_id :: nat
  ec_climb_count :: nat
  ec_report :: report

definition evo_energy :: "json \<Rightarrow> int option" where
  "evo_energy info = Option.bind (pointer [''evoTower'', ''energy''] info) as_int"

definition evo_tower_id :: "json \<Rightarrow> nat option" where
  "evo_tower_id info = Option.bind (pointer [''evoTower'', ''towerId''] info) as_nat"

definition evo_task :: "nat \<Rightarrow> nat option" where
  "evo_task climb_count =
     (if climb_count = 3 then Some 1 else if climb_count = 6 then Some 2 else if climb_count = 10 then Some 3 else None)"

definition evo_round :: "env \<Rightarrow> string \<Rightarrow> evo_climb \<Rightarrow> (evo_climb + evo_climb) io" where
  "evo_round E prefix s =
     (if 0 < ec_energy s then
        io_bind (evotower_readyfight E (jobj [])) (\<lambda>_. io_bind delay (\<lambda>_.
        io_bind (evotower_fight E (jobj [(''battleNum'', jnum 1), (''winNum'', jnum 1)])) (\<lambda>r.
          case r of
            Inl e \<Rightarrow> io_return (Inr (s\<lparr>ec_report := fail_with_prefix prefix ''evotower fight'' e (ec_report s)\<rparr>))
          | Inr fight_resp \<Rightarrow>
              let s = s\<lparr>ec_climb_count := ec_climb_count s + 1, ec_energy := ec_energy s - 1\<rparr>;
                  won = unwrap_or (Option.bind (pointer [''winList'', ''0''] fight_resp) as_bool) False
              in io_bind (evotower_getinfo E) (\<lambda>r.
                 let s = (case r of
                        Inr info \<Rightarrow> s\<lparr>ec_energy := unwrap_or (evo_energy info) (ec_energy s),
                                     ec_tower_id := unwrap_or (evo_tower_id info) (ec_tower_id s)\<rparr>
                      | Inl e \<Rightarrow> s)
                 in io_bind (case evo_task (ec_climb_count s) of
                        Some tid \<Rightarrow> io_bind (evotower_claimtask E tid) (\<lambda>_. io_return ())
                      | None \<Rightarrow> io_return ()) (\<lambda>_.
                    io_bind (if won \<and> 0 < ec_tower_id s \<and> ec_tower_id s mod 10 + 1 = 1
                             then io_bind (evotower_claimreward E (jobj [])) (\<lambda>_. io_return ()) else io_return ()) (\<lambda>_.
                    io_bind delay (\<lambda>_. io_return (Inl s))))))))
      else io_return (Inr s))"

definition run_evotower_climb :: "env \<Rightarrow> role_periodic \<Rightarrow> nat \<Rightarrow> string \<Rightarrow> report \<Rightarrow> (role_periodic \<times> report) io" where
  "run_evotower_climb E p evotower_team prefix rep =
     io_bind (enter_team E evotower_team) (\<lambda>entered.
     io_bind (evotower_getinfo E) (\<lambda>r.
       case r of
         Inl e \<Rightarrow> io_bind (leave_team E evotower_team entered) (\<lambda>_. io_return (p, rep))
       | Inr evo_info \<Rightarrow>
           let energy = unwrap_or (evo_energy evo_info) 0; tower_id = unwrap_or (evo_tower_id evo_info) 0 in
           io_bind (if 0 < tower_id \<and> tower_id mod 10 = 0
                    then io_bind (evotower_claimreward E (jobj [])) (\<lambda>_. delay) else io_return ()) (\<lambda>_.
           io_bind (io_loop (evo_round E prefix)
               \<lparr>ec_energy = energy, ec_tower_id = tower_id, ec_climb_count = 0, ec_report = rep\<rparr>) (\<lambda>s.
           io_bind (run_mergebox_tail E) (\<lambda>_.
           io_bind (read_now E) (\<lambda>now.
           io_bind (leave_team E evotower_team entered) (\<lambda>_.
             io_return (p\<lparr>p_evo_next_check := next_check_time now (ec_energy s)\<rparr>, ec_report s))))))))"

section \<open>The skin challenge\<close>

definition skinc_remaining_hp :: "json \<Rightarrow> f64 option" where
  "skinc_remaining_hp response =
     Option.bind (pointer [''battleData'', ''result'', ''accept'', ''ext'', ''curHP''] response) as_f64"

definition skinc_current_floor :: "nat \<Rightarrow> object \<Rightarrow> nat" where
  "skinc_current_floor tower_type level_reward_map =
     (case find (\<lambda>floor. obj_get level_reward_map (nat_str tower_type @ ''00'' @ nat_str floor) \<noteq> None) (rev [1..<9]) of
        Some floor \<Rightarrow> if floor = 8 then 8 else floor + 1
      | None \<Rightarrow> 1)"

definition level_rewards :: "json \<Rightarrow> object" where
  "level_rewards info =
     unwrap_or (Option.bind (or_else (pointer [''levelRewardMap''] info) (pointer [''towerData'', ''levelRewardMap''] info))
       as_object) []"

definition open_towers :: "nat \<Rightarrow> nat list" where
  "open_towers today_weekday =
     (if today_weekday = 5 then [1] else if today_weekday = 6 then [2] else if today_weekday = 0 then [3]
      else if today_weekday = 1 then [4] else if today_weekday = 2 then [5] else if today_weekday = 3 then [6]
      else if today_weekday = 4 then [1, 2, 3, 4, 5, 6] else [])"

text \<open>The activity is over when its first day, written in the identifier, is in the future or seven days past; an
  identifier that is not a date is not checked.  Seven days are counted as days of 24 hours.  \<open>None\<close> is the panic of the
  second \<open>unwrap\<close>: the time zone has no such midnight, or two.\<close>
definition activity_ended :: "env \<Rightarrow> local_now \<Rightarrow> nat \<Rightarrow> bool option" where
  "activity_ended E now act_id =
     (let act_str = nat_str act_id;
          year = unwrap_or (parse_i32 (''20'' @ take 2 act_str)) 0;
          month = unwrap_or (parse_u32 (take 2 (drop 2 act_str))) 0;
          day = unwrap_or (parse_u32 (take 2 (drop 4 act_str))) 0
      in if length act_str < 6 then Some False
         else case day_of_ymd E year month day of
                None \<Rightarrow> Some False
              | Some start_date \<Rightarrow>
                  map_option (\<lambda>start. ln_nanos now < start * 1000000000 \<or> (start + 7 * 86400) * 1000000000 \<le> ln_nanos now)
                    (unix_of E start_date 0))"

record skin_fight =
  sf_map :: object
  sf_need_start :: bool
  sf_fail_count :: nat

text \<open>One challenge; \<open>Inr\<close> leaves the loop with the map, or with the error of the whole flow.\<close>
definition skin_round :: "env \<Rightarrow> nat \<Rightarrow> skin_fight \<Rightarrow> (skin_fight + object res) io" where
  "skin_round E t s =
     io_bind (if sf_need_start s then
         io_bind (towers_start E (jobj [(''towerType'', jnum t)])) (\<lambda>r.
           case r of
             Inl e \<Rightarrow> io_return (Inl (''Boss '' @ nat_str t @ '' start failed: '' @ e))
           | Inr _ \<Rightarrow> io_bind (sleep 500) (\<lambda>_. io_return (Inr ())))
       else io_return (Inr ())) (\<lambda>started.
     case started of
       Inl e \<Rightarrow> io_return (Inr (Err e))
     | Inr _ \<Rightarrow>
         io_bind (towers_fight E (jobj [(''towerType'', jnum t)])) (\<lambda>r.
           case r of
             Inl e \<Rightarrow> io_return (Inr (Err (''Boss '' @ nat_str t @ '' fight failed: '' @ e)))
           | Inr fight_res \<Rightarrow>
               if (case skinc_remaining_hp fight_res of Some hp \<Rightarrow> f64_zero hp | None \<Rightarrow> False) then
                 io_bind (towers_getinfo E) (\<lambda>r.
                   case r of
                     Inl e \<Rightarrow> io_return (Inr (Err (''Boss '' @ nat_str t @ '' refresh failed: '' @ e)))
                   | Inr res \<Rightarrow>
                       let m = level_rewards res in
                       if obj_get m (nat_str t @ ''008'') \<noteq> None then io_return (Inr (Ok m))
                       else io_bind (sleep 1000) (\<lambda>_. io_return (Inl \<lparr>sf_map = m, sf_need_start = False, sf_fail_count = 0\<rparr>)))
               else if 3 \<le> sf_fail_count s + 1 then io_return (Inr (Ok (sf_map s)))
               else io_bind (sleep 1000) (\<lambda>_.
                      io_return (Inl (s\<lparr>sf_need_start := True, sf_fail_count := sf_fail_count s + 1\<rparr>)))))"

fun challenge_towers :: "env \<Rightarrow> nat list \<Rightarrow> object \<Rightarrow> unit res io" where
  "challenge_towers E [] m = io_return (Ok ())"
| "challenge_towers E (t # ts) m =
     io_bind (io_loop (skin_round E t) \<lparr>sf_map = m, sf_need_start = True, sf_fail_count = 0\<rparr>) (\<lambda>r.
       case r of Inl e \<Rightarrow> io_return (Err e) | Inr m \<Rightarrow> challenge_towers E ts m)"

definition run_skinc_climb :: "env \<Rightarrow> unit res io" where
  "run_skinc_climb E =
     io_bind (towers_getinfo E) (\<lambda>r.
       case r of
         Inl e \<Rightarrow> io_return (if str_contains e ''7900021'' then Ok () else Err e)
       | Inr info \<Rightarrow>
           let act_id = unwrap_or (Option.bind (or_else (pointer [''actId''] info) (pointer [''towerData'', ''actId''] info))
                 as_nat) 0
           in if act_id < 100000 then io_return (Ok ())
              else io_bind (read_local E) (\<lambda>now. io_bind (expect (activity_ended E now act_id)) (\<lambda>ended.
                if ended then io_return (Ok ())
                else
                  let m = level_rewards info;
                      target_towers = filter (\<lambda>t. obj_get m (nat_str t @ ''008'') = None)
                        (open_towers (num_days_from_sunday (ln_weekday now)))
                  in if target_towers = [] then io_return (Ok ()) else challenge_towers E target_towers m)))"

section \<open>The periodic run\<close>

text \<open>The third week of the cycle is the first: one week active, two weeks not, from 12 December 2025 noon.
  \<open>None\<close> is a panic: the time zone does not have that noon, or has it twice.\<close>
definition is_evotower_active :: "env \<Rightarrow> local_now \<Rightarrow> bool option" where
  "is_evotower_active E now =
     map_option (\<lambda>start.
          let elapsed = ln_nanos now - start * 1000000000;
              num_seconds = elapsed sdiv 1000000000
          in if num_seconds < 0 then False
             else num_seconds mod (3 * (7 * 24 * 3600)) < 7 * 24 * 3600)
       (Option.bind (day_of_ymd E 2025 12 12) (\<lambda>d. unix_of E d (12 * 3600)))"

definition hangup_part :: "env \<Rightarrow> batch_config \<Rightarrow> role_periodic \<times> report \<times> bool \<Rightarrow> (role_periodic \<times> report \<times> bool) io" where
  "hangup_part E config s =
     (case s of (p, rep, refresh) \<Rightarrow>
      io_bind (read_now E) (\<lambda>now.
        if needs_hangup now (hangup_threshold_hours config) p
        then io_bind (smart_hangup E rep) (\<lambda>rep. io_return (p, rep, True))
        else io_return s))"

text \<open>Whether the bottle was renewed is handed to the legacy part.\<close>
definition bottle_part ::
  "env \<Rightarrow> batch_config \<Rightarrow> role_periodic \<times> report \<times> bool \<Rightarrow> ((role_periodic \<times> report \<times> bool) \<times> bool) io"
where
  "bottle_part E config s =
     (case s of (p, rep, refresh) \<Rightarrow>
      io_bind (read_now E) (\<lambda>now.
        if needs_bottle now (bottle_threshold_hours config) p
        then io_bind (smart_bottle E rep) (\<lambda>rep. io_return ((p, rep, True), True))
        else io_return (s, False)))"

definition legacy_part ::
  "env \<Rightarrow> batch_config \<Rightarrow> string \<Rightarrow> bool \<Rightarrow> role_periodic \<times> report \<times> bool \<Rightarrow> (role_periodic \<times> report \<times> bool) io"
where
  "legacy_part E config prefix bottle_renewed s =
     (case s of (p, rep, refresh) \<Rightarrow>
      io_bind (read_now E) (\<lambda>now. io_bind read_game (\<lambda>g.
        if needs_legacy now (legacy_interval_hours config) p then
          if 8000 < level_id g then
            io_bind (if \<not> bottle_renewed then smart_bottle E rep else io_return rep) (\<lambda>rep.
            io_bind (legacy_claimhangup E) (\<lambda>r. io_bind (read_now E) (\<lambda>now. io_bind delay (\<lambda>_.
              io_return (if is_done_result r then p\<lparr>p_legacy_last_claim := now\<rparr> else p,
                run_with_prefix prefix ''legacy claim'' r rep, True)))))
          else io_return (p\<lparr>p_legacy_last_claim := now\<rparr>,
                 skip_with_prefix prefix (''legacy claim (level_id '' @ zh [0x2264] @ '' 8000)'') rep, refresh)
        else io_return s)))"

definition run_periodic_tasks ::
  "env \<Rightarrow> role_periodic \<Rightarrow> batch_config \<Rightarrow> nat \<Rightarrow> nat \<Rightarrow> string \<Rightarrow> (role_periodic \<times> report) io"
where
  "run_periodic_tasks E p config tower_team evotower_team prefix =
     io_bind (hangup_part E config (p, report_new, False)) (\<lambda>s.
     io_bind (bottle_part E config s) (\<lambda>(s, bottle_renewed).
     io_bind (legacy_part E config prefix bottle_renewed s) (\<lambda>(p, rep, refresh).
     io_bind (if refresh then refresh_role_info E else io_return True) (\<lambda>refreshed.
     io_bind read_game (\<lambda>g. io_bind (read_now E) (\<lambda>now.
     let p = (if refreshed then update_periodic_state now g p else p) in
     io_bind (if tower_enabled config \<and> needs_tower now p then run_tower_climb E p tower_team prefix rep
              else io_return (p, rep)) (\<lambda>(p, rep).
     io_bind (read_local E) (\<lambda>today.
     io_bind (if evotower_enabled config then expect (is_evotower_active E today) else io_return False) (\<lambda>active.
     io_bind (read_now E) (\<lambda>now. io_bind read_game (\<lambda>g.
       if active \<and> needs_evotower now p then
         if \<not> is_evotower_unlocked g then io_return (p\<lparr>p_evo_next_check := f64_add now (u64_to_f64 86400)\<rparr>, rep)
         else run_evotower_climb E p evotower_team prefix rep
       else io_return (p, rep))))))))))))"

end
