(* ===== verification/Tower_Facts.thy ===== *)
theory Tower_Facts
  imports Towers
begin

text \<open>
  The climbs give back the team they found, and when the tower's loop ends: always, unless the server keeps
  answering with the two codes that do not count as a failure.
\<close>

section \<open>Giving the team back\<close>

definition save_team :: "nat \<Rightarrow> event" where
  "save_team team = Request ''presetteam_saveteam'' (jobj [(''teamId'', jnum team)]) T_DEFAULT"

definition others :: "string set" where
  "others = - {''presetteam_saveteam''}"

text \<open>Either the team is left alone, or it is switched once and at the very end switched back to the one that was
  in use according to the answer before the switch.\<close>
definition team_restored :: "env \<Rightarrow> nat \<Rightarrow> game \<Rightarrow> game \<Rightarrow> bool" where
  "team_restored E team g g' =
     (extends (requests others) g g' \<or>
      (\<exists>pre mid info. ws g' = ws g @ pre @ [save_team team] @ mid @ [save_team (team_in_use info)] \<and>
         list_all (requests others) pre \<and> list_all (requests others) mid \<and>
         answer E (ws g @ pre) = Ok info \<and> team_in_use info \<noteq> team))"

lemma team_restored_extend:
  "extends (requests others) g h \<Longrightarrow> team_restored E team h k \<Longrightarrow> team_restored E team g k"
proof -
  assume first: "extends (requests others) g h" and "team_restored E team h k"
  then obtain es where es: "ws h = ws g @ es" "list_all (requests others) es" by (auto simp: extends_def)
  from \<open>team_restored E team h k\<close> show ?thesis
    unfolding team_restored_def [of _ _ h]
  proof (elim disjE exE conjE)
    assume "extends (requests others) h k"
    with first have "extends (requests others) g k" by (rule emitting.trans)
    then show ?thesis by (simp add: team_restored_def)
  next
    fix pre mid info
    assume "ws k = ws h @ pre @ [save_team team] @ mid @ [save_team (team_in_use info)]" "list_all (requests others) pre"
      "list_all (requests others) mid" "answer E (ws h @ pre) = Ok info" "team_in_use info \<noteq> team"
    then show ?thesis
      using es unfolding team_restored_def
      by (intro disjI2 exI [of _ "es @ pre"] exI [of _ mid] exI [of _ info]) simp
  qed
qed

lemma enter_team_cases:
  assumes "enter_team E team g = Some (entered, h)"
  obtains (stay) original where "entered = (original, False)" "extends (requests others) g h"
  | (leave) pre info where "entered = (Some (team_in_use info), True)" "ws h = ws g @ pre @ [save_team team]"
      "list_all (requests others) pre" "answer E (ws g @ pre) = Ok info" "team_in_use info \<noteq> team"
proof -
  let ?ask = "Request ''presetteam_getinfo'' (jobj []) T_DEFAULT"
  have ask: "presetteam_getinfo E g = Some (answer E (ws g @ [?ask]), happen ?ask g)"
    by (simp add: api_defs cmd_def cmd_with_timeout_def send_with_response_def Let_def)
  show thesis
  proof (cases "answer E (ws g @ [?ask])")
    case (Inl e)
    then show thesis
      using assms ask stay [of None]
      by (auto simp: enter_team_def current_team_id_def extends_def others_def)
  next
    case (Inr info)
    show thesis
    proof (cases "team_in_use info = team")
      case True
      then show thesis
        using assms ask Inr stay [of "Some team"]
        by (auto simp: enter_team_def current_team_id_def extends_def others_def)
    next
      case False
      then have "entered = (Some (team_in_use info), True)" "ws h = ws g @ [?ask] @ [save_team team]"
        using assms ask Inr
        by (auto simp: enter_team_def current_team_id_def switch_team_def api_defs cmd_def cmd_with_timeout_def
            send_with_response_def Let_def save_team_def)
      then show thesis using leave [of info "[?ask]"] Inr False by (simp add: others_def)
    qed
  qed
qed

lemma leave_team_stay: "leave_team E team (original, False) g = Some ((), g)"
  by (simp add: leave_team_def)

text \<open>The bracket both climbs use.\<close>
lemma bracket_restores:
  assumes "io_bind (enter_team E team) (\<lambda>entered. io_bind body (\<lambda>x. io_bind (leave_team E team entered) (\<lambda>_. io_return (f x)))) g
      = Some (y, k)"
    and "obeys (extends (requests others)) body"
  shows "team_restored E team g k"
proof -
  obtain entered h x h' where e: "enter_team E team g = Some (entered, h)" and b: "body h = Some (x, h')"
    and l: "leave_team E team entered h' = Some ((), k)"
    using assms(1) by (elim io_bind_cases) (auto simp: io_return_def)
  have mid: "extends (requests others) h h'" by (rule obeysD [OF assms(2) b])
  from e show ?thesis
  proof (cases rule: enter_team_cases)
    case (stay original)
    then have "k = h'" using l by (simp add: leave_team_stay)
    then show ?thesis using emitting.trans [OF stay(2) mid] by (simp add: team_restored_def)
  next
    case (leave pre info)
    obtain es where es: "ws h' = ws h @ es" "list_all (requests others) es" using mid by (auto simp: extends_def)
    have "ws k = ws h' @ [save_team (team_in_use info)]"
      using l leave(1) by (auto simp: leave_team_def switch_team_def api_defs cmd_def cmd_with_timeout_def
          send_with_response_def Let_def save_team_def)
    then show ?thesis
      using leave es unfolding team_restored_def
      by (intro disjI2 exI [of _ pre] exI [of _ es] exI [of _ info]) simp
  qed
qed

lemma climb_emits:
  "obeys (extends (requests others)) (climb_round E prefix s)" "obeys (extends (requests others)) (finish_climb E s)"
  "obeys (extends (requests others)) (claim_previous E prefix s)" "obeys (extends (requests others)) (refresh_role_info E)"
  "obeys (extends (requests others)) (evo_round E prefix c)" "obeys (extends (requests others)) (run_mergebox_tail E)"
  unfolding climb_round_def after_fight_def finish_climb_def claim_previous_def refresh_role_info_def evo_round_def run_mergebox_tail_def
    box_round_def merge_delay_def api_defs
  by (intro emits_rules; simp add: others_def)+

lemma io_bind_assoc: "io_bind (io_bind m f) h = io_bind m (\<lambda>x. io_bind (f x) h)"
  by (auto simp: io_bind_def fun_eq_iff split: option.split)

lemma io_bind_return: "io_bind (io_return x) f = f x"
  by (simp add: io_bind_def fun_eq_iff)

lemma tower_bracket:
  "run_tower_climb E p team prefix rep =
     io_bind read_game (\<lambda>g.
       if (case role_info g of None \<Rightarrow> False | Some info \<Rightarrow> tower_is_cleared info) then io_return (tower_clear p, rep)
       else io_bind (tower_getinfo E) (\<lambda>_. io_bind (refresh_role_info E) (\<lambda>_. io_bind read_game (\<lambda>g.
         if TOWER_CLEAR_ID \<le> read_tower_id g 0 then io_return (tower_clear p, rep)
         else io_bind (enter_team E team) (\<lambda>entered.
           io_bind (io_bind (claim_previous E prefix \<lparr>cb_energy = read_energy g 0, cb_tower_id = read_tower_id g 0,
               cb_climb_count = 0, cb_failures = 0, cb_periodic = p, cb_report = rep\<rparr>) (\<lambda>s.
             io_bind (io_loop (climb_round E prefix) s) (finish_climb E))) (\<lambda>s.
           io_bind (leave_team E team entered) (\<lambda>_. io_return (cb_periodic s, cb_report s))))))))"
  unfolding run_tower_climb_def io_bind_assoc Let_def by (rule refl)

definition evo_body :: "env \<Rightarrow> role_periodic \<Rightarrow> string \<Rightarrow> report \<Rightarrow> (role_periodic \<times> report) io" where
  "evo_body E p prefix rep =
     io_bind (evotower_getinfo E) (\<lambda>r.
       case r of
         Inl e \<Rightarrow> io_return (p, rep)
       | Inr evo_info \<Rightarrow>
           let tower_id = unwrap_or (evo_tower_id evo_info) 0 in
           io_bind (if 0 < tower_id \<and> tower_id mod 10 = 0
                    then io_bind (evotower_claimreward E (jobj [])) (\<lambda>_. delay) else io_return ()) (\<lambda>_.
           io_bind (io_loop (evo_round E prefix)
               \<lparr>ec_energy = unwrap_or (evo_energy evo_info) 0, ec_tower_id = tower_id, ec_climb_count = 0, ec_report = rep\<rparr>) (\<lambda>s.
           io_bind (run_mergebox_tail E) (\<lambda>_.
           io_bind (read_now E) (\<lambda>now.
             io_return (p\<lparr>p_evo_next_check := next_check_time now (ec_energy s)\<rparr>, ec_report s))))))"

lemma evo_bracket:
  "run_evotower_climb E p team prefix rep =
     io_bind (enter_team E team) (\<lambda>entered. io_bind (evo_body E p prefix rep) (\<lambda>x.
       io_bind (leave_team E team entered) (\<lambda>_. io_return x)))"
  unfolding run_evotower_climb_def evo_body_def io_bind_assoc
  by (intro arg_cong [where f = "io_bind (enter_team E team)"] ext arg_cong2 [where f = io_bind] refl)
    (simp add: io_bind_assoc io_bind_return Let_def split: sum.split)

lemma evo_body_emits: "obeys (extends (requests others)) (evo_body E p prefix rep)"
  unfolding evo_body_def api_defs by (intro emits_rules climb_emits; simp add: others_def)

text \<open>C8: A tower climb and an evo tower climb that return give back the team they found: either the team in use is left
  alone, or it is switched exactly once, to the team of the tower, and the last thing the climb does is to switch back to
  the one that the server had reported.\<close>
theorem climbs_restore_team:
  "(run_tower_climb E p team prefix rep g = Some (x, g') \<longrightarrow> team_restored E team g g') \<and>
   (run_evotower_climb E p team prefix rep g = Some (x, g') \<longrightarrow> team_restored E team g g')"
proof (intro conjI impI)
  assume "run_evotower_climb E p team prefix rep g = Some (x, g')"
  then show "team_restored E team g g'" unfolding evo_bracket by (rule bracket_restores [OF _ evo_body_emits])
next
  assume run: "run_tower_climb E p team prefix rep g = Some (x, g')"
  have stay: "team_restored E team h h" for h using emitting.refl by (simp add: team_restored_def)
  show "team_restored E team g g'"
  proof (cases "case role_info g of None \<Rightarrow> False | Some info \<Rightarrow> tower_is_cleared info")
    case True
    then show ?thesis using run stay by (simp add: run_tower_climb_def)
  next
    case False
    with run obtain a h b k where ask: "tower_getinfo E g = Some (a, h)" and fresh: "refresh_role_info E h = Some (b, k)"
      and rest: "(if TOWER_CLEAR_ID \<le> read_tower_id k 0 then io_return (tower_clear p, rep)
         else io_bind (enter_team E team) (\<lambda>entered.
           io_bind (io_bind (claim_previous E prefix \<lparr>cb_energy = read_energy k 0, cb_tower_id = read_tower_id k 0,
               cb_climb_count = 0, cb_failures = 0, cb_periodic = p, cb_report = rep\<rparr>) (\<lambda>s.
             io_bind (io_loop (climb_round E prefix) s) (finish_climb E))) (\<lambda>s.
           io_bind (leave_team E team entered) (\<lambda>_. io_return (cb_periodic s, cb_report s))))) k = Some (x, g')"
      unfolding tower_bracket by (auto elim!: io_bind_cases simp: io_bind_def split: option.splits)
    have "obeys (extends (requests others)) (tower_getinfo E)"
      unfolding api_defs by (intro emits_rules) (simp add: others_def)
    from emitting.trans [OF obeysD [OF this ask] obeysD [OF climb_emits(4) fresh]]
    have first: "extends (requests others) g k" .
    have "obeys (extends (requests others)) (io_bind (claim_previous E prefix s) (\<lambda>s.
        io_bind (io_loop (climb_round E prefix) s) (finish_climb E)))" for s
      by (intro emits_rules climb_emits)
    note bracket = bracket_restores [OF _ this]
    have "team_restored E team k g'"
    proof (cases "TOWER_CLEAR_ID \<le> read_tower_id k 0")
      case True
      then show ?thesis using rest stay by simp
    next
      case False
      show ?thesis by (rule bracket) (use rest False in simp)
    qed
    with first show ?thesis by (rule team_restored_extend)
  qed
qed

text \<open>A server that knows of a team and refuses everything else.\<close>
definition team_env :: env where
  "team_env = dead_env\<lparr>answer := (\<lambda>tr. case last tr of
       Request name params ms \<Rightarrow>
         if name = ''presetteam_getinfo'' then Ok (Object [(''useTeamId'', jnum 3)])
         else if name = ''presetteam_saveteam'' then Ok Null else Err ''Timeout after 8000ms''
     | _ \<Rightarrow> Err ''Timeout after 8000ms'')\<rparr>"

lemma team_env_run:
  "run_evotower_climb team_env periodic_default 2 ''[R1]'' [] new_game =
     Some ((periodic_default, []), new_game\<lparr>ws := [Request ''presetteam_getinfo'' (jobj []) T_DEFAULT, save_team 2,
       Request ''evotower_getinfo'' (jobj []) T_DEFAULT, save_team 3]\<rparr>)"
proof -
  have "as_nat (jnum 3) = Some 3" by (simp add: as_nat_def jnum_def as_u64_def number_from_u64_def)
  then have "team_in_use (Object [(''useTeamId'', jnum 3)]) = 3" by (simp add: team_in_use_def jget_def)
  then show ?thesis
    by (simp add: run_evotower_climb_def enter_team_def leave_team_def current_team_id_def switch_team_def team_env_def
        api_defs cmd_def cmd_with_timeout_def send_with_response_def Let_def save_team_def new_game_def io_bind_def happen_def)
qed

theorem climbs_restore_team_witness:
  "team_restored team_env 2 new_game (new_game\<lparr>ws := [Request ''presetteam_getinfo'' (jobj []) T_DEFAULT, save_team 2,
     Request ''evotower_getinfo'' (jobj []) T_DEFAULT, save_team 3]\<rparr>)"
  using conjunct2 [OF climbs_restore_team [of team_env periodic_default 2 "''[R1]''" "[]" new_game]] team_env_run by blast

section \<open>The climbing loop\<close>

text \<open>The answers to a fight that end the climb or count as a failure: anything but the two codes after which the loop
  tries again without counting.\<close>
definition fights_settle :: "env \<Rightarrow> bool" where
  "fights_settle E = (\<forall>tr params e. answer E (tr @ [Request ''fight_starttower'' params T_FIGHT]) = Inl e \<longrightarrow>
     extract_code_from_error e \<notin> {Some 200400, Some 1500040})"

definition climb_measure :: "climb \<Rightarrow> nat" where
  "climb_measure s = 4 * (MAX_CLIMBS - cb_climb_count s) + (3 - cb_failures s)"

lemma fight_settles:
  assumes "fights_settle E"
  shows "yields (\<lambda>r. \<forall>e. r = Inl e \<longrightarrow> extract_code_from_error e \<notin> {Some 200400, Some 1500040}) (fight_starttower E)"
  using assms
  by (auto simp: yields_def fights_settle_def api_defs cmd_fight_def send_with_response_def Let_def split: option.splits)

lemma climb_falls:
  assumes "fights_settle E"
  shows "yields (\<lambda>r. case r of Inl s' \<Rightarrow> climb_measure s' < climb_measure s | Inr _ \<Rightarrow> True) (climb_round E prefix s)"
proof (cases "0 < cb_energy s \<and> cb_climb_count s < MAX_CLIMBS")
  case True
  have after: "yields (\<lambda>r. case r of Inl s' \<Rightarrow> climb_measure s' < climb_measure s | Inr _ \<Rightarrow> True) (after_fight E prefix s r)"
    if "\<forall>e. r = Inl e \<longrightarrow> extract_code_from_error e \<notin> {Some 200400, Some 1500040}" for r
    using that True unfolding after_fight_def Let_def
    by (cases r) (auto intro!: yields_rules simp: climb_measure_def)
  show ?thesis
    unfolding climb_round_def if_P [OF True] by (rule yields_bind_with [OF fight_settles [OF assms] after])
next
  case False
  show ?thesis unfolding climb_round_def if_not_P [OF False] by (simp add: yields_return)
qed

lemma climb_round_returns: "returns (climb_round E prefix s)"
  unfolding climb_round_def after_fight_def refresh_role_info_def api_defs by (intro returns_rules)

text \<open>C31: A tower climb returns, whatever else the server does, unless a fight is answered with "too fast" (200400) or with
  an unclaimed reward (1500040): every other answer either counts as a climb, of which there are at most 100, or as one
  of three failures in a row.\<close>
theorem tower_climb_returns:
  assumes "fights_settle E"
  shows "returns (run_tower_climb E p team prefix rep)"
proof -
  have "returns (io_loop (climb_round E prefix) s)" for s
    by (rule returns_loop [where measure_of = climb_measure, OF climb_round_returns climb_falls [OF assms]])
  then show ?thesis
    unfolding run_tower_climb_def enter_team_def leave_team_def claim_previous_def finish_climb_def refresh_role_info_def api_defs
    by (intro returns_rules)
qed

lemma dead_settles: "fights_settle dead_env"
proof -
  have "extract_code_from_error ''Timeout after 8000ms'' = None" by code_simp
  then show ?thesis by (simp add: fights_settle_def dead_env_def)
qed

theorem tower_climb_returns_witness: "returns (run_tower_climb dead_env periodic_default 2 ''[R1]'' [])"
  by (rule tower_climb_returns [OF dead_settles])

text \<open>A server under which the climb starts and every fight is refused as too fast.\<close>
definition limiting :: "env \<Rightarrow> bool" where
  "limiting E = (\<forall>tr params. \<exists>e. answer E (tr @ [Request ''fight_starttower'' params T_FIGHT]) = Inl e \<and>
     extract_code_from_error e = Some 200400)"

lemma limited_round:
  assumes "limiting E" "0 < cb_energy s" "cb_climb_count s < MAX_CLIMBS"
  shows "yields (\<lambda>r. r = Inl s) (climb_round E prefix s)"
proof -
  have "yields (\<lambda>r. \<exists>e. r = Inl e \<and> extract_code_from_error e = Some 200400) (fight_starttower E)"
    using assms(1) by (fastforce simp: yields_def limiting_def api_defs cmd_fight_def send_with_response_def Let_def split: option.splits)
  moreover have "yields (\<lambda>r. r = Inl s) (after_fight E prefix s r)"
    if "\<exists>e. r = Inl e \<and> extract_code_from_error e = Some 200400" for r
  proof -
    from that obtain e where "r = Inl e" "extract_code_from_error e = Some 200400" by blast
    then show ?thesis by (simp add: after_fight_def yields_bind yields_return)
  qed
  ultimately have "yields (\<lambda>r. r = Inl s) (io_bind (fight_starttower E) (after_fight E prefix s))"
    by (rule yields_bind_with)
  then show ?thesis using assms(2,3) by (simp add: climb_round_def)
qed

text \<open>C32: Rate limiting is retried without a bound: when every fight is answered with code 200400, the climbing loop of a role that has
  energy left never ends.\<close>
theorem rate_limited_climb_never_ends:
  assumes "limiting E" "0 < cb_energy s" "cb_climb_count s < MAX_CLIMBS"
  shows "io_loop (climb_round E prefix) s g = None"
proof (rule ccontr)
  assume "io_loop (climb_round E prefix) s g \<noteq> None"
  then obtain x g' where "io_loop (climb_round E prefix) s g = Some (x, g')" by auto
  then have "\<not> (0 < cb_energy s \<and> cb_climb_count s < MAX_CLIMBS)"
    by (rule io_loop_induct [where P = "\<lambda>s g x g'. \<not> (0 < cb_energy s \<and> cb_climb_count s < MAX_CLIMBS)"])
      (use yields_Some [OF limited_round [OF assms(1)]] in fastforce)+
  with assms(2,3) show False by simp
qed

definition limiting_env :: env where
  "limiting_env = dead_env\<lparr>answer := (\<lambda>_. Err (format_error 200400 None))\<rparr>"

theorem rate_limited_climb_never_ends_witness:
  "io_loop (climb_round limiting_env ''[R1]'')
     \<lparr>cb_energy = 5, cb_tower_id = 12, cb_climb_count = 0, cb_failures = 0, cb_periodic = periodic_default, cb_report = []\<rparr>
     new_game = None"
proof -
  have "extract_code_from_error (format_error 200400 None) = Some 200400" by (rule extract_format) simp_all
  then have "limiting limiting_env" by (simp add: limiting_def limiting_env_def)
  then show ?thesis by (rule rate_limited_climb_never_ends) (simp_all add: MAX_CLIMBS_def)
qed

end
