(* ===== verification/Core.thy ===== *)
theory Core
  imports Protocol Tower_Facts
begin

text \<open>
  \<open>src/src/http_client.rs\<close> and the \<open>KocCore\<close> of \<open>src/src/lib.rs\<close>: the login server's two requests, the list of a
  bin's roles and the token of a role.  A \<open>host\<close> is what surrounds a call: the login server, the frame codec, the
  clock and the randomness of the moment, and the opening of the game socket.
\<close>

section \<open>The HTTP client\<close>

record rate_limiter =
  max_requests :: nat
  window_ms :: nat
  requests :: "nat list"

record http_client =
  base_url :: string
  limiter :: rate_limiter

record host =
  h_post :: "string \<Rightarrow> bytes \<Rightarrow> bytes res"
  h_display :: "json \<Rightarrow> string"
  h_frame_read :: "bytes \<Rightarrow> nat \<Rightarrow> bytes res"
  h_compress :: "bytes \<Rightarrow> bytes option"
  h_key :: u8
  h_rnd :: u32
  h_millis :: u64
  h_nanos1 :: u64
  h_nanos2 :: u64
  h_text :: "json \<Rightarrow> string"
  h_connect :: "string \<Rightarrow> unit res"

definition http_new :: http_client where
  "http_new = \<lparr>base_url = ''https://xxz-xyzw.hortorgames.com'',
     limiter = \<lparr>max_requests = 25, window_ms = 60000, requests = []\<rparr>\<rparr>"

definition with_base_url :: "string \<Rightarrow> http_client" where
  "with_base_url url = \<lparr>base_url = url, limiter = \<lparr>max_requests = 25, window_ms = 60000, requests = []\<rparr>\<rparr>"

definition clean_old :: "nat \<Rightarrow> rate_limiter \<Rightarrow> rate_limiter" where
  "clean_old now l = l\<lparr>requests := filter (\<lambda>t. now - window_ms l < t) (requests l)\<rparr>"

definition add_request :: "nat \<Rightarrow> rate_limiter \<Rightarrow> rate_limiter" where
  "add_request now l =
     (let l = clean_old now l
      in if length (requests l) < max_requests l then l\<lparr>requests := requests l @ [now]\<rparr> else l)"

text \<open>The common part of the two requests: the limiter is told, the request is sent.\<close>
definition post_bin :: "host \<Rightarrow> string \<Rightarrow> bytes \<Rightarrow> http_client \<Rightarrow> bytes res \<times> http_client" where
  "post_bin H path bin_data c =
     (h_post H (base_url c @ path) bin_data, c\<lparr>limiter := add_request (unat (h_millis H)) (limiter c)\<rparr>)"

definition post_authuser :: "host \<Rightarrow> bytes \<Rightarrow> http_client \<Rightarrow> bytes res \<times> http_client" where
  "post_authuser H = post_bin H ''/login/authuser?_seq=1''"

definition post_serverlist :: "host \<Rightarrow> bytes \<Rightarrow> http_client \<Rightarrow> bytes res \<times> http_client" where
  "post_serverlist H = post_bin H ''/login/serverlist?_seq=3''"

section \<open>The core\<close>

record account_role =
  ri_role_id :: nat
  ri_name :: string
  ri_server_id :: nat
  ri_power :: nat
  ri_level :: nat

definition rand_u64 :: "u64 \<Rightarrow> u64" where
  "rand_u64 nanos = nanos * 1103515245 + 12345"

text \<open>The body of a response, decoded; a body that is absent is an error.\<close>
definition response_body :: "host \<Rightarrow> bytes \<Rightarrow> (proto_msg \<times> json) res" where
  "response_body H response =
     (case parse_message (h_display H) (h_frame_read H) response of
        Inl e \<Rightarrow> Err e
      | Inr msg \<Rightarrow>
          (case raw_data_result (h_display H) msg of
             Inl e \<Rightarrow> Err e
           | Inr None \<Rightarrow> Err ''Failed to decode body''
           | Inr (Some body_data) \<Rightarrow> Ok (msg, body_data)))"

text \<open>The login data with the session's identifiers, which the token is the text of.\<close>
definition token_data :: "host \<Rightarrow> proto_msg \<Rightarrow> json \<Rightarrow> object" where
  "token_data H msg body_data =
     (let data = (case body_data of Object obj \<Rightarrow> obj | _ \<Rightarrow> get_data msg);
          current_time = h_millis H;
          sess_id = current_time * 100 + rand_u64 (h_nanos1 H) mod 100;
          conn_id = current_time + rand_u64 (h_nanos2 H) mod 10
      in obj_insert ''isRestore'' (Number (number_from_i32 0))
           (obj_insert ''connId'' (Number (number_from_u64 conn_id))
             (obj_insert ''sessId'' (Number (number_from_u64 sess_id)) data)))"

definition transform_token :: "host \<Rightarrow> bytes \<Rightarrow> http_client \<Rightarrow> string res \<times> http_client" where
  "transform_token H bin_data c =
     (case post_authuser H bin_data c of
        (Inl e, c) \<Rightarrow> (Err e, c)
      | (Inr response, c) \<Rightarrow>
          (case response_body H response of
             Inl e \<Rightarrow> (Err e, c)
           | Inr (msg, body_data) \<Rightarrow> (Ok (h_text H (Object (token_data H msg body_data))), c)))"

text \<open>\<open>level as u32\<close>\<close>
definition read_role :: "object \<Rightarrow> account_role" where
  "read_role role_obj =
     (let num = (\<lambda>k. unwrap_or (Option.bind (obj_get role_obj k) as_nat) 0)
      in \<lparr>ri_role_id = num ''roleId'',
          ri_name = unwrap_or (Option.bind (obj_get role_obj ''name'') as_str) [],
          ri_server_id = num ''serverId'', ri_power = num ''power'', ri_level = nat_as_u32 (num ''level'')\<rparr>)"

fun read_roles :: "object \<Rightarrow> account_role list" where
  "read_roles [] = []"
| "read_roles ((k, v) # obj) =
     (case as_object v of Some role_obj \<Rightarrow> read_role role_obj # read_roles obj | None \<Rightarrow> read_roles obj)"

text \<open>The stable sort by falling power.\<close>
definition get_server_list :: "host \<Rightarrow> bytes \<Rightarrow> http_client \<Rightarrow> account_role list res \<times> http_client" where
  "get_server_list H bin_data c =
     (case post_serverlist H bin_data c of
        (Inl e, c) \<Rightarrow> (Err e, c)
      | (Inr response, c) \<Rightarrow>
          (case response_body H response of
             Inl e \<Rightarrow> (Err e, c)
           | Inr (msg, body_data) \<Rightarrow>
               (case as_object body_data of
                  None \<Rightarrow> (Err ''Body is not an object'', c)
                | Some data \<Rightarrow>
                    let found = (case Option.bind (obj_get data ''roles'') as_object of
                           Some obj \<Rightarrow> read_roles obj | None \<Rightarrow> [])
                    in (Ok (sort_key (\<lambda>r. - int (ri_power r)) found), c))))"

definition parse_bin :: "host \<Rightarrow> bytes \<Rightarrow> object res" where
  "parse_bin H bin_data =
     (case parse_message (h_display H) (h_frame_read H) bin_data of
        Inl e \<Rightarrow> Err e | Inr msg \<Rightarrow> Ok (get_data msg))"

definition encode_bin :: "host \<Rightarrow> object \<Rightarrow> bytes" where
  "encode_bin H data = create_message (h_compress H) (h_key H) (h_rnd H) data None"

definition select_role_token :: "host \<Rightarrow> bytes \<Rightarrow> nat \<Rightarrow> http_client \<Rightarrow> string res \<times> http_client" where
  "select_role_token H bin_data server_id c =
     (case parse_bin H bin_data of
        Inl e \<Rightarrow> (Err e, c)
      | Inr bin_obj \<Rightarrow>
          transform_token H (encode_bin H (obj_insert ''serverId'' (jnum server_id) bin_obj)) c)"

end
