(* ===== verification/Study.thy ===== *)
theory Study
  imports Core
begin

text \<open>
  \<open>src/src/study.rs\<close>: the question bank, the choice of an answer, and the weekly quiz.  The bank is an association
  list whose order stands for the iteration order of the hash map; the one built into the program is data, so a bank is
  an argument.  \<open>lower\<close> is \<open>str::to_lowercase\<close> of Unicode, and \<open>iso_week\<close> is \<open>chrono\<close>'s ISO year and week of a day.
\<close>

section \<open>The question bank\<close>

record answer_item =
  ai_name :: string
  ai_value :: nat

type_synonym bank = "(string \<times> nat) list"

definition normalize_text :: "(string \<Rightarrow> string) \<Rightarrow> string \<Rightarrow> string" where
  "normalize_text lower s = lower (strip_whitespace s)"

text \<open>The items as \<open>serde\<close> reads them, none when the text is not a list of items; later items replace earlier ones.\<close>
definition parse_answer_items :: "(string \<Rightarrow> string) \<Rightarrow> answer_item list \<Rightarrow> bank" where
  "parse_answer_items lower items =
     foldl (\<lambda>m item. if ai_name item \<noteq> [] \<and> 0 < ai_value item
        then AList.update (normalize_text lower (ai_name item)) (ai_value item) m else m) [] items"

text \<open>An external file replaces the bank unless it cannot be read or has no usable item.\<close>
definition load_external :: "(string \<Rightarrow> string) \<Rightarrow> string \<Rightarrow> answer_item list res \<Rightarrow> bank \<Rightarrow> nat res \<times> bank" where
  "load_external lower path content bank =
     (case content of
        Inl e \<Rightarrow> (Err (''Failed to read '' @ path @ '': '' @ e), bank)
      | Inr items \<Rightarrow>
          let m = parse_answer_items lower items in
          if length m = 0 then (Err ''External answer.json is empty or invalid'', bank) else (Ok (length m), m))"

definition try_load_external ::
  "(string \<Rightarrow> string) \<Rightarrow> (string \<Rightarrow> bool) \<Rightarrow> (string \<Rightarrow> answer_item list res) \<Rightarrow> string option \<Rightarrow> bank \<Rightarrow> bank"
where
  "try_load_external lower exists_file read path bank =
     (case path of
        None \<Rightarrow> bank
      | Some p \<Rightarrow> if exists_file p then snd (load_external lower p (read p) bank) else bank)"

definition question_count :: "bank \<Rightarrow> nat" where
  "question_count bank = length bank"

text \<open>The whole question, then a question that contains it or is contained in it, then 1.\<close>
definition find_answer :: "(string \<Rightarrow> string) \<Rightarrow> bank \<Rightarrow> string \<Rightarrow> nat" where
  "find_answer lower bank question =
     (let clean = normalize_text lower question in
      if clean = [] then 1
      else case map_of bank clean of
             Some v \<Rightarrow> v
           | None \<Rightarrow>
               (case find (\<lambda>(k, v). str_contains clean k \<or> str_contains k clean) bank of
                  Some (k, v) \<Rightarrow> v
                | None \<Rightarrow> 1))"

section \<open>The state on the server\<close>

definition is_in_current_week :: "env \<Rightarrow> (int \<Rightarrow> int \<times> nat) \<Rightarrow> local_now \<Rightarrow> int \<Rightarrow> bool" where
  "is_in_current_week E iso_week now timestamp_secs =
     (case day_of_unix E timestamp_secs of
        Some d \<Rightarrow> iso_week d = iso_week (ln_day now)
      | None \<Rightarrow> False)"

definition is_study_completed_this_week :: "env \<Rightarrow> (int \<Rightarrow> int \<times> nat) \<Rightarrow> local_now \<Rightarrow> json option \<Rightarrow> bool" where
  "is_study_completed_this_week E iso_week now info =
     (case Option.bind info (\<lambda>info. or_else (pointer [''role'', ''study''] info) (pointer [''study''] info)) of
        None \<Rightarrow> False
      | Some study \<Rightarrow>
          let max_correct = unwrap_or (Option.bind (jget study ''maxCorrectNum'') as_int) 0;
              begin_time = unwrap_or (Option.bind (jget study ''beginTime'') as_int) 0
          in 10 \<le> max_correct \<and> is_in_current_week E iso_week now begin_time)"

section \<open>The quiz\<close>

definition answer_question :: "env \<Rightarrow> (string \<Rightarrow> string) \<Rightarrow> bank \<Rightarrow> nat \<Rightarrow> nat \<Rightarrow> nat \<times> json \<Rightarrow> nat \<Rightarrow> nat io" where
  "answer_question E lower bank study_id asked q correct =
     (case q of (i, question) \<Rightarrow>
      let question_text = unwrap_or (Option.bind (jget question ''question'') as_str) [];
          question_id = unwrap_or (Option.bind (jget question ''id'') as_nat) 0;
          answer = find_answer lower bank question_text
      in io_bind (send E ''study_answer'' (jobj [(''id'', jnum study_id), (''option'', Array [jnum answer]),
             (''questionId'', Array [jnum question_id])])) (\<lambda>_.
         io_bind (if i < asked - 1 then sleep 300 else io_return ()) (\<lambda>_.
           io_return (if 0 < answer then correct + 1 else correct))))"

definition claim_study_reward :: "env \<Rightarrow> nat \<Rightarrow> unit \<Rightarrow> unit io" where
  "claim_study_reward E reward_id s =
     io_bind (send E ''study_claimreward'' (jobj [(''rewardId'', jnum reward_id)])) (\<lambda>_. sleep 200)"

text \<open>The questions and the identifier of the quiz in the response of \<open>study_startgame\<close>.\<close>
definition read_quiz :: "json \<Rightarrow> (json list \<times> nat) option" where
  "read_quiz resp =
     (case (Option.bind (or_else (pointer [''questionList''] resp) (pointer [''role'', ''study'', ''questionList''] resp)) as_array,
            Option.bind (or_else (pointer [''role'', ''study'', ''id''] resp) (pointer [''studyId''] resp)) as_nat) of
        (Some q, Some study_id) \<Rightarrow> Some (q, study_id)
      | _ \<Rightarrow> None)"

definition run_study :: "env \<Rightarrow> (string \<Rightarrow> string) \<Rightarrow> bank \<Rightarrow> string \<Rightarrow> report \<Rightarrow> (unit res \<times> report) io" where
  "run_study E lower bank prefix rep =
     io_bind (send_with_response E ''study_startgame'' (jobj []) 10000) (\<lambda>r.
       case r of
         Inl e \<Rightarrow>
           if is_done_result r then io_return (Ok (), run_with_prefix prefix ''STUDY'' r rep)
           else io_return (Err e, fail_with_prefix prefix ''STUDY BEGIN'' e rep)
       | Inr resp \<Rightarrow>
           (case read_quiz resp of
              None \<Rightarrow>
                io_return (Err ''Missing questionList or studyId in study_startgame response'',
                  fail_with_prefix prefix ''STUDY'' ''can not found question list or studyId'' rep)
            | Some (questions, study_id) \<Rightarrow>
                let asked = length questions in
                io_bind (io_for (enumerate 0 questions) (answer_question E lower bank study_id asked) 0) (\<lambda>correct.
                io_bind (sleep 1500) (\<lambda>_.
                io_bind (io_for [1..<11] (claim_study_reward E) ()) (\<lambda>_.
                  io_return (Ok (), run_with_prefix prefix
                    (''DONE STUDY ('' @ nat_str correct @ ''/'' @ nat_str asked @ ''Q)'') (Ok (jobj [])) rep))))))"

lemma run_study_returns [returns_rules]: "returns (run_study E lower bank prefix rep)"
  unfolding run_study_def answer_question_def claim_study_reward_def by (intro returns_rules)

end
