(* ===== verification/Scheduler.thy ===== *)
theory Scheduler
  imports Study
begin

text \<open>
  \<open>src/src/scheduler.rs\<close>: the time windows, the plan of a round, the work on one role, the scan of the bins, and the
  rounds themselves.  The shared \<open>AppState\<close> is passed as a value; the saves within a round, the
  outcome of which is ignored, are left out.  A round reads
  the clock many times within milliseconds while it plans: one instant stands for those readings.
\<close>

section \<open>Roles and plans\<close>

record role_task =
  rt_key :: string
  rt_display :: string
  rt_bin_path :: string
  rt_server_id :: nat
  rt_role_name :: string

definition short_display :: "role_task \<Rightarrow> string" where
  "short_display r =
     (case rsplit_once (CHR ''-'') (rt_display r) of Some (s, _) \<Rightarrow> s | None \<Rightarrow> rt_display r)"

record role_run_plan =
  plan_role :: role_task
  needs_daily :: bool
  needs_periodic :: bool
  needs_weekly :: bool

section \<open>Time windows\<close>

record maintenance_hit =
  mh_weekday :: weekday
  mh_start_h :: nat
  mh_start_m :: nat
  mh_end_h :: nat
  mh_end_m :: nat

record time_window_policy =
  policy_hit :: "maintenance_hit option"
  policy_daily_time_reached :: bool

definition is_time_reached :: "local_now \<Rightarrow> nat \<Rightarrow> nat \<Rightarrow> bool" where
  "is_time_reached now hour minute = (hour < ln_hour now \<or> ln_hour now = hour \<and> minute \<le> ln_minute now)"

definition is_time_before :: "local_now \<Rightarrow> nat \<Rightarrow> nat \<Rightarrow> bool" where
  "is_time_before now hour minute = (ln_hour now < hour \<or> ln_hour now = hour \<and> ln_minute now < minute)"

definition effective_daily_start :: "local_now \<Rightarrow> batch_config \<Rightarrow> nat \<times> nat" where
  "effective_daily_start now config =
     (if ln_weekday now = Fri then parse_friday_daily_start_time config else parse_schedule_time config)"

definition daily_time_reached_at :: "local_now \<Rightarrow> batch_config \<Rightarrow> bool" where
  "daily_time_reached_at now config =
     (case effective_daily_start now config of (daily_h, daily_m) \<Rightarrow> is_time_reached now daily_h daily_m)"

fun first_hit :: "local_now \<Rightarrow> window list \<Rightarrow> maintenance_hit option" where
  "first_hit now [] = None"
| "first_hit now ((weekday, start_h, start_m, end_h, end_m) # windows) =
     (if ln_weekday now = weekday \<and> is_time_reached now start_h start_m \<and> is_time_before now end_h end_m
      then Some \<lparr>mh_weekday = weekday, mh_start_h = start_h, mh_start_m = start_m, mh_end_h = end_h, mh_end_m = end_m\<rparr>
      else first_hit now windows)"

definition maintenance_hit_at :: "local_now \<Rightarrow> batch_config \<Rightarrow> maintenance_hit option" where
  "maintenance_hit_at now config = first_hit now (parse_maintenance_windows config)"

definition policy_new :: "local_now \<Rightarrow> batch_config \<Rightarrow> time_window_policy" where
  "policy_new now config =
     \<lparr>policy_hit = maintenance_hit_at now config, policy_daily_time_reached = daily_time_reached_at now config\<rparr>"

section \<open>Planning a round\<close>

text \<open>The clock of a plan: today, the seconds of \<open>now_secs()\<close>, and what \<open>is_evotower_active\<close> answers; where that panics,
  the process ends while it plans, and there is no round.\<close>
record planning =
  pl_today :: local_now
  pl_secs :: f64
  pl_evotower_active :: bool

definition reset_expired :: "local_now \<Rightarrow> app_state \<Rightarrow> app_state" where
  "reset_expired today st =
     st\<lparr>roles := map (\<lambda>(k, rs). (k, rs\<lparr>rs_daily := ensure_today (ln_date today) (rs_daily rs),
                                     rs_weekly := ensure_this_week (ln_week today) (rs_weekly rs)\<rparr>)) (roles st)\<rparr>"

definition periodic_due :: "planning \<Rightarrow> batch_config \<Rightarrow> role_periodic \<Rightarrow> bool" where
  "periodic_due P config p =
     (needs_hangup (pl_secs P) (hangup_threshold_hours config) p \<or>
      needs_bottle (pl_secs P) (bottle_threshold_hours config) p \<or>
      needs_legacy (pl_secs P) (legacy_interval_hours config) p \<or>
      tower_enabled config \<and> needs_tower (pl_secs P) p \<or>
      evotower_enabled config \<and> pl_evotower_active P \<and> needs_evotower (pl_secs P) p)"

definition plan_for :: "bool \<Rightarrow> app_state \<Rightarrow> batch_config \<Rightarrow> planning \<Rightarrow> bool \<Rightarrow> bool \<Rightarrow> role_task \<Rightarrow> role_run_plan option" where
  "plan_for force_all st config P daily_time_reached is_weekly_day role =
     (if force_all then
        Some \<lparr>plan_role = role, needs_daily = daily_time_reached, needs_periodic = True,
              needs_weekly = study_enabled config \<and> is_weekly_day \<and> daily_time_reached\<rparr>
      else
        let role_state = map_of (roles st) (rt_key role);
            daily = (daily_time_reached \<and> \<not> unwrap_or (map_option (\<lambda>rs. all_done (rs_daily rs)) role_state) False \<or>
                     daily_time_reached \<and> car_enabled config \<and> is_car_send_window (pl_today P) \<and>
                     \<not> unwrap_or (map_option (\<lambda>rs. d_car_send_done (rs_daily rs)) role_state) False);
            periodic = unwrap_or (map_option (\<lambda>rs. periodic_due P config (rs_periodic rs)) role_state) True;
            weekly = (study_enabled config \<and> is_weekly_day \<and> daily_time_reached \<and>
                      \<not> unwrap_or (map_option (\<lambda>rs. w_study (rs_weekly rs)) role_state) False)
        in if daily \<or> periodic \<or> weekly then
             Some \<lparr>plan_role = role, needs_daily = daily, needs_periodic = periodic, needs_weekly = weekly\<rparr>
           else None)"

text \<open>The plans of the roles that have work, in the order of the roles.\<close>
definition collect ::
  "bool \<Rightarrow> role_task list \<Rightarrow> batch_config \<Rightarrow> planning \<Rightarrow> bool \<Rightarrow> bool \<Rightarrow> app_state \<Rightarrow> role_run_plan list \<times> app_state"
where
  "collect force_all rts config P daily_time_reached is_weekly_day st =
     (let st = reset_expired (pl_today P) st
      in (List.map_filter (plan_for force_all st config P daily_time_reached is_weekly_day) rts, st))"

section \<open>The work on one role\<close>

text \<open>What the runners of a round share, with the surroundings of every role.\<close>
record round_ctx =
  rc_config :: batch_config
  rc_prefix :: string
  rc_env :: "role_task \<Rightarrow> env"
  rc_host :: "role_task \<Rightarrow> host"
  rc_lower :: "string \<Rightarrow> string"
  rc_bank :: bank
  rc_iso_week :: "int \<Rightarrow> int \<times> nat"

definition log_prefix :: "round_ctx \<Rightarrow> role_task \<Rightarrow> string" where
  "log_prefix C r = rc_prefix C @ '' ['' @ short_display r @ '']''"

text \<open>Token and login; \<open>Inl\<close> is the error on which the work on the role ends.\<close>
definition open_session :: "round_ctx \<Rightarrow> bytes \<Rightarrow> role_task \<Rightarrow> (string + game) option" where
  "open_session C bin_data r =
     (case fst (select_role_token (rc_host C r) bin_data (rt_server_id r) http_new) of
        Inl e \<Rightarrow> Some (Inl e)
      | Inr token \<Rightarrow>
          map_option (\<lambda>(outcome, g). case outcome of Inl e \<Rightarrow> Inl e | Inr _ \<Rightarrow> Inr g)
            (login (rc_env C r) (h_connect (rc_host C r) token) new_game))"

text \<open>The sections that hold the lock of the shared state.\<close>
definition note_periodic :: "round_ctx \<Rightarrow> role_task \<Rightarrow> game \<Rightarrow> app_state \<Rightarrow> app_state" where
  "note_periodic C r g =
     get_or_create (rt_key r) (\<lambda>rs. rs\<lparr>rs_periodic := update_periodic_state (clock (rc_env C r) (ws g)) g (rs_periodic rs)\<rparr>)"

definition read_daily :: "role_task \<Rightarrow> app_state \<Rightarrow> role_daily" where
  "read_daily r st = unwrap_or (map_option rs_daily (map_of (roles st) (rt_key r))) daily_default"

definition write_daily :: "round_ctx \<Rightarrow> role_task \<Rightarrow> game \<Rightarrow> role_daily \<Rightarrow> bool \<Rightarrow> app_state \<Rightarrow> app_state" where
  "write_daily C r g d refreshed =
     get_or_create (rt_key r) (\<lambda>rs.
       let rs = rs\<lparr>rs_daily := d\<rparr>
       in if refreshed then rs\<lparr>rs_periodic := update_periodic_state (clock (rc_env C r) (ws g)) g (rs_periodic rs)\<rparr> else rs)"

definition write_weekly :: "role_task \<Rightarrow> app_state \<Rightarrow> app_state" where
  "write_weekly r = get_or_create (rt_key r) (\<lambda>rs. rs\<lparr>rs_weekly := (rs_weekly rs)\<lparr>w_study := True\<rparr>\<rparr>)"

definition read_periodic :: "role_task \<Rightarrow> app_state \<Rightarrow> role_periodic" where
  "read_periodic r st = unwrap_or (map_option rs_periodic (map_of (roles st) (rt_key r))) periodic_default"

definition can_claim :: "round_ctx \<Rightarrow> role_task \<Rightarrow> game \<Rightarrow> app_state \<Rightarrow> bool" where
  "can_claim C r g st =
     (let now = wall (rc_env C r) (ws g); secs = clock (rc_env C r) (ws g);
          (dh, dm) = parse_schedule_time (rc_config C);
          daily_reached = (dh * 3600 + dm * 60 \<le> num_seconds_from_midnight now)
      in case map_of (roles st) (rt_key r) of
           None \<Rightarrow> False
         | Some rs \<Rightarrow> car_enabled (rc_config C) \<and> daily_reached \<and> \<not> d_car_claimed_today (rs_daily rs) \<and>
             f64_lt 0 (d_next_car_claim_time (rs_daily rs)) \<and> f64_le (d_next_car_claim_time (rs_daily rs)) secs)"

definition write_claim :: "role_task \<Rightarrow> f64 \<Rightarrow> app_state \<Rightarrow> app_state" where
  "write_claim r next_claim =
     get_or_create (rt_key r) (\<lambda>rs. rs\<lparr>rs_daily := (rs_daily rs)\<lparr>d_car_claimed_today := True,
       d_next_car_claim_time := next_claim\<rparr>\<rparr>)"

definition write_periodic :: "role_task \<Rightarrow> role_periodic \<Rightarrow> app_state \<Rightarrow> app_state" where
  "write_periodic r p = get_or_create (rt_key r) (\<lambda>rs. rs\<lparr>rs_periodic := p\<rparr>)"

text \<open>The work between the locks.\<close>
definition daily_work :: "round_ctx \<Rightarrow> role_task \<Rightarrow> role_daily \<Rightarrow> (role_daily \<times> bool) io" where
  "daily_work C r d =
     io_bind (run_daily_tasks_stateful (rc_env C r) d (log_prefix C r)
         (daily_task_config_for (rc_config C) (rt_bin_path r) (rt_server_id r))) (\<lambda>(d, rep).
     io_bind (refresh_role_info (rc_env C r)) (\<lambda>refreshed. io_return (d, refreshed)))"

definition weekly_work :: "round_ctx \<Rightarrow> role_task \<Rightarrow> unit io" where
  "weekly_work C r =
     io_bind read_game (\<lambda>g. io_bind (read_local (rc_env C r)) (\<lambda>now.
       if \<not> is_study_completed_this_week (rc_env C r) (rc_iso_week C) now (role_info g) then
         io_bind (run_study (rc_env C r) (rc_lower C) (rc_bank C) (log_prefix C r) report_new) (\<lambda>_. io_return ())
       else io_return ()))"

definition periodic_work :: "round_ctx \<Rightarrow> role_task \<Rightarrow> role_periodic \<Rightarrow> role_periodic io" where
  "periodic_work C r p =
     (let tower_team = fst (resolve_formation_with_source (rc_config C) (rt_bin_path r) (rt_server_id r) Tower);
          evotower_team = fst (resolve_formation_with_source (rc_config C) (rt_bin_path r) (rt_server_id r) Evotower)
      in io_bind (run_periodic_tasks (rc_env C r) p (rc_config C) tower_team evotower_team (log_prefix C r)) (\<lambda>(p, rep).
           io_return p))"

definition claim_work :: "round_ctx \<Rightarrow> role_task \<Rightarrow> f64 io" where
  "claim_work C r = io_bind (claim_all_cars (rc_env C r) (log_prefix C r)) (\<lambda>(rep, next_claim). io_return next_claim)"

text \<open>\<open>RoleRunner::run_one\<close> with the shared state to itself: the final state, and the session if one was opened.\<close>
definition daily_part :: "round_ctx \<Rightarrow> role_run_plan \<Rightarrow> app_state \<Rightarrow> app_state io" where
  "daily_part C plan st =
     (if needs_daily plan then
        io_bind (daily_work C (plan_role plan) (read_daily (plan_role plan) st)) (\<lambda>(d, refreshed).
        io_bind read_game (\<lambda>g. io_return (write_daily C (plan_role plan) g d refreshed st)))
      else io_return st)"

definition weekly_part :: "round_ctx \<Rightarrow> role_run_plan \<Rightarrow> app_state \<Rightarrow> app_state io" where
  "weekly_part C plan st =
     (if needs_weekly plan then
        io_bind (weekly_work C (plan_role plan)) (\<lambda>_. io_return (write_weekly (plan_role plan) st))
      else io_return st)"

definition claim_part :: "round_ctx \<Rightarrow> role_run_plan \<Rightarrow> app_state \<Rightarrow> app_state io" where
  "claim_part C plan st =
     io_bind read_game (\<lambda>g.
       if can_claim C (plan_role plan) g st then
         io_bind (claim_work C (plan_role plan)) (\<lambda>next_claim. io_return (write_claim (plan_role plan) next_claim st))
       else io_return st)"

definition periodic_part :: "round_ctx \<Rightarrow> role_run_plan \<Rightarrow> app_state \<Rightarrow> app_state io" where
  "periodic_part C plan st =
     (if needs_periodic plan then
        io_bind (periodic_work C (plan_role plan) (read_periodic (plan_role plan) st)) (\<lambda>p.
        io_bind (claim_part C plan st) (\<lambda>st. io_return (write_periodic (plan_role plan) p st)))
      else io_return st)"

definition run_one :: "round_ctx \<Rightarrow> bytes \<Rightarrow> role_run_plan \<Rightarrow> app_state \<Rightarrow> (app_state \<times> game option) option" where
  "run_one C bin_data plan st =
     Option.bind (open_session C bin_data (plan_role plan)) (\<lambda>session.
       case session of
         Inl e \<Rightarrow> Some (st, None)
       | Inr g \<Rightarrow>
           map_option (\<lambda>(st, g). (st, Some g))
             (io_bind (daily_part C plan (note_periodic C (plan_role plan) g st)) (\<lambda>st.
              io_bind (weekly_part C plan st) (\<lambda>st.
              io_bind (periodic_part C plan st) (\<lambda>st.
              io_bind disconnect (\<lambda>_. io_return st)))) g))"

end
