(* ===== verification/Pool.thy ===== *)
theory Pool
  imports Main
begin

text \<open>
  Tasks that share a store and are limited by a semaphore, as \<open>tokio::spawn\<close>, \<open>Semaphore\<close> and an \<open>RwLock\<close> give
  them: every task goes through phases; a step of one task reads and writes the store at once and may come at any time,
  but the step that leaves an idle phase needs a permit, which the task holds until its work is over.  The library proves what
  holds of every such pool: the permits bound the busy tasks, every run is finite, a pool that cannot move is over or
  blocked, and tasks that keep to keys of their own do not disturb each other.
\<close>

datatype activity = Idle | Busy | Over

type_synonym ('w, 'p, 's) work_step = "'w \<Rightarrow> 'p \<Rightarrow> 's \<Rightarrow> ('p \<times> 's) option"

definition busy :: "('p \<Rightarrow> activity) \<Rightarrow> ('w \<times> 'p) list \<Rightarrow> nat" where
  "busy activity ts = length (filter (\<lambda>(w, p). activity p = Busy) ts)"

inductive pool_step ::
  "nat \<Rightarrow> ('p \<Rightarrow> activity) \<Rightarrow> ('w, 'p, 's) work_step \<Rightarrow> 's \<times> ('w \<times> 'p) list \<Rightarrow> 's \<times> ('w \<times> 'p) list \<Rightarrow> bool"
  for permits activity step
where
  advance: "i < length ts \<Longrightarrow> ts ! i = (w, p) \<Longrightarrow> activity p = Idle \<longrightarrow> busy activity ts < permits \<Longrightarrow>
    step w p s = Some (p', s') \<Longrightarrow> pool_step permits activity step (s, ts) (s', ts[i := (w, p')])"

inductive_cases pool_step_cases: "pool_step permits activity step (s, ts) (s', ts')"
inductive_simps pool_step_simps: "pool_step permits activity step (s, ts) (s', ts')"

text \<open>A task on its own: one step of its own after the other.\<close>
inductive alone :: "('w, 'p, 's) work_step \<Rightarrow> 'w \<Rightarrow> 'p \<Rightarrow> 's \<Rightarrow> 'p \<Rightarrow> 's \<Rightarrow> bool" for step w p0 s0 where
  start: "alone step w p0 s0 p0 s0"
| more: "alone step w p0 s0 p s \<Longrightarrow> step w p s = Some (p', s') \<Longrightarrow> alone step w p0 s0 p' s'"

text \<open>Every task of a pool stands where it would stand alone, and sees at its key what it would see alone.\<close>
definition separate ::
  "('w, 'p, 's) work_step \<Rightarrow> ('s \<Rightarrow> 'k \<Rightarrow> 'v) \<Rightarrow> ('w \<Rightarrow> 'k) \<Rightarrow> 's \<Rightarrow> ('w \<times> 'p) list \<Rightarrow> 's \<Rightarrow> ('w \<times> 'p) list \<Rightarrow> bool"
where
  "separate step view key s0 ts0 s ts \<longleftrightarrow>
     map fst ts = map fst ts0 \<and>
     (\<forall>i < length ts. \<exists>si. alone step (fst (ts ! i)) (snd (ts0 ! i)) s0 (snd (ts ! i)) si \<and>
        view si (key (fst (ts ! i))) = view s (key (fst (ts ! i)))) \<and>
     (\<forall>k. k \<notin> key ` fst ` set ts0 \<longrightarrow> view s k = view s0 k)"

lemma pool_stepE:
  assumes "pool_step permits activity step (s, ts) (s', ts')"
  obtains i w p p' where "ts' = ts[i := (w, p')]" "i < length ts" "ts ! i = (w, p)"
    "activity p = Idle \<longrightarrow> busy activity ts < permits" "step w p s = Some (p', s')"
  using assms by (rule pool_step_cases)

lemma busy_update:
  assumes "i < length ts" "ts ! i = (w, p)"
  shows "busy activity (ts[i := (w, p')]) + (if activity p = Busy then 1 else 0) =
    busy activity ts + (if activity p' = Busy then 1 else 0)"
proof -
  have ts: "ts = take i ts @ (w, p) # drop (Suc i) ts" using assms id_take_nth_drop by metis
  have upd: "ts[i := (w, p')] = take i ts @ (w, p') # drop (Suc i) ts" by (rule upd_conv_take_nth_drop) (fact assms(1))
  have "busy activity ts = length (filter (\<lambda>(w, p). activity p = Busy) (take i ts)) +
      length (filter (\<lambda>(w, p). activity p = Busy) (drop (Suc i) ts)) + (if activity p = Busy then 1 else 0)"
    unfolding busy_def by (subst ts) simp
  then show ?thesis unfolding busy_def upd by simp
qed

text \<open>The interface: tasks whose steps touch the store at the task's key only, and which come to an end.\<close>
locale keyed_tasks =
  fixes step :: "('w, 'p, 's) work_step"
    and view :: "'s \<Rightarrow> 'k \<Rightarrow> 'v"
    and key :: "'w \<Rightarrow> 'k"
    and activity :: "'p \<Rightarrow> activity"
    and rank :: "'p \<Rightarrow> nat"
  assumes frame: "step w p s = Some (p', s') \<Longrightarrow> k \<noteq> key w \<Longrightarrow> view s' k = view s k"
    and own: "step w p s = Some (p', s') \<Longrightarrow> view t (key w) = view s (key w) \<Longrightarrow>
      \<exists>t'. step w p t = Some (p', t') \<and> view t' (key w) = view s' (key w)"
    and rank: "step w p s = Some (p', s') \<Longrightarrow> rank p' < rank p"
    and over: "activity p = Over \<Longrightarrow> step w p s = None"
begin

lemma permits_bound:
  assumes "(pool_step permits activity step)\<^sup>*\<^sup>* (s, ts) (s', ts')" "busy activity ts \<le> permits"
  shows "busy activity ts' \<le> permits"
  using assms
proof (induction rule: rtranclp_induct2)
  case (step s1 ts1 s2 ts2)
  from step.hyps(2) obtain i w p p' where move: "ts2 = ts1[i := (w, p')]" "i < length ts1" "ts1 ! i = (w, p)"
    "activity p = Idle \<longrightarrow> busy activity ts1 < permits" "step w p s1 = Some (p', s2)" by (rule pool_stepE)
  have "busy activity ts1 \<le> permits" by (rule step.IH) (fact step.prems)
  then show ?case
    using busy_update [OF move(2,3), of activity p'] move(1,4,5) over [of p w s1]
    by (cases "activity p"; cases "activity p'") auto
qed simp

lemma step_ranks:
  assumes "pool_step permits activity step (s, ts) (s', ts')"
  shows "sum_list (map (rank \<circ> snd) ts') < sum_list (map (rank \<circ> snd) ts)"
proof -
  from assms obtain i w p p' where advance: "ts' = ts[i := (w, p')]" "i < length ts" "ts ! i = (w, p)"
    "activity p = Idle \<longrightarrow> busy activity ts < permits" "step w p s = Some (p', s')" by (rule pool_stepE)
  have ts: "ts = take i ts @ (w, p) # drop (Suc i) ts" using advance(2,3) id_take_nth_drop by metis
  have ts': "ts' = take i ts @ (w, p') # drop (Suc i) ts" unfolding advance(1) by (rule upd_conv_take_nth_drop) (fact advance(2))
  have "sum_list (map (rank \<circ> snd) ts) =
      sum_list (map (rank \<circ> snd) (take i ts)) + rank p + sum_list (map (rank \<circ> snd) (drop (Suc i) ts))"
    by (subst ts) simp
  then show ?thesis using rank [OF advance(5)] by (simp add: ts')
qed

text \<open>No run is longer than the ranks of its tasks together.\<close>
lemma steps_bounded:
  "(pool_step permits activity step ^^ n) (s, ts) (s', ts') \<Longrightarrow>
    n + sum_list (map (rank \<circ> snd) ts') \<le> sum_list (map (rank \<circ> snd) ts)"
proof (induction n arbitrary: s' ts')
  case (Suc n)
  then obtain s1 ts1 where "(pool_step permits activity step ^^ n) (s, ts) (s1, ts1)"
    "pool_step permits activity step (s1, ts1) (s', ts')" by (auto elim!: relpowp_Suc_E)
  from Suc.IH [OF this(1)] step_ranks [OF this(2)] show ?case by linarith
qed simp

text \<open>A pool that cannot move is over, or blocked: by a task that never returns from its step, or for want of permits.\<close>
lemma halted:
  assumes "\<nexists>x. pool_step permits activity step (s, ts) x"
  shows "(\<forall>(w, p) \<in> set ts. activity p = Over) \<or> permits = 0 \<or>
    (\<exists>(w, p) \<in> set ts. activity p \<noteq> Over \<and> step w p s = None)"
proof (rule ccontr)
  assume not: "\<not> ?thesis"
  then obtain v q where q: "(v, q) \<in> set ts" "activity q \<noteq> Over" by auto
  have "0 < permits" using not by simp
  have moves: "step w p s \<noteq> None" if "(w, p) \<in> set ts" "activity p \<noteq> Over" for w p
    using not that by blast
  have "\<exists>(w, p) \<in> set ts. activity p \<noteq> Over \<and> (activity p = Idle \<longrightarrow> busy activity ts < permits)"
  proof (cases "busy activity ts = 0")
    case True
    then show ?thesis using q \<open>0 < permits\<close> by auto
  next
    case False
    then obtain w p where "(w, p) \<in> set ts" "activity p = Busy"
      by (auto simp: busy_def filter_empty_conv)
    then show ?thesis by (intro bexI [of _ "(w, p)"]) simp_all
  qed
  then obtain w p where wp: "(w, p) \<in> set ts" "activity p \<noteq> Over" "activity p = Idle \<longrightarrow> busy activity ts < permits" by auto
  then obtain i where "i < length ts" "ts ! i = (w, p)" by (auto simp: in_set_conv_nth)
  moreover obtain p' s' where "step w p s = Some (p', s')" using moves [OF wp(1,2)] by auto
  ultimately show False using advance wp(3) assms by metis
qed

lemma separate_step:
  assumes sep: "separate step view key s0 ts0 s ts" and distinct: "distinct (map (key \<circ> fst) ts0)"
    and "pool_step permits activity step (s, ts) (s', ts')"
  shows "separate step view key s0 ts0 s' ts'"
proof -
  from assms(3) obtain i w p p' where advance: "ts' = ts[i := (w, p')]" "i < length ts" "ts ! i = (w, p)"
    "activity p = Idle \<longrightarrow> busy activity ts < permits" "step w p s = Some (p', s')" by (rule pool_stepE)
  have names: "map fst ts = map fst ts0" using sep by (simp add: separate_def)
  have len: "length ts = length ts0" using names by (metis length_map)
  have same: "map fst ts' = map fst ts0"
    using names advance(1,2,3) by (metis fst_conv list_update_id map_update nth_map)
  have keys: "key (fst (ts ! j)) \<noteq> key w" if "j < length ts" "j \<noteq> i" for j
  proof -
    have "fst (ts ! j) = fst (ts0 ! j)" "fst (ts ! i) = fst (ts0 ! i)"
      using names that(1) advance(2) len by (metis nth_map)+
    then show ?thesis using distinct that advance(2,3) len
      by (metis comp_apply fst_conv length_map nth_eq_iff_index_eq nth_map)
  qed
  have tasks: "\<exists>sj. alone step (fst (ts' ! j)) (snd (ts0 ! j)) s0 (snd (ts' ! j)) sj \<and>
      view sj (key (fst (ts' ! j))) = view s' (key (fst (ts' ! j)))" if "j < length ts'" for j
  proof (cases "j = i")
    case True
    obtain si where si: "alone step w (snd (ts0 ! i)) s0 p si" "view si (key w) = view s (key w)"
      using sep advance(2,3) by (fastforce simp: separate_def)
    obtain si' where "step w p si = Some (p', si')" "view si' (key w) = view s' (key w)"
      using own [OF advance(5) si(2)] by blast
    then have "alone step w (snd (ts0 ! i)) s0 p' si'" "view si' (key w) = view s' (key w)"
      using si(1) by (auto intro: alone.more)
    then show ?thesis using True advance(1,2) by auto
  next
    case False
    then have j: "j < length ts" "ts' ! j = ts ! j" using that advance(1) by simp_all
    then have "view s' (key (fst (ts ! j))) = view s (key (fst (ts ! j)))"
      using frame [OF advance(5)] keys False by blast
    then show ?thesis using sep j by (fastforce simp: separate_def)
  qed
  have "w \<in> fst ` set ts0"
    using names advance(2,3) by (metis fst_conv image_set in_set_conv_nth imageI)
  then have others: "view s' k = view s0 k" if "k \<notin> key ` fst ` set ts0" for k
  proof -
    have "k \<noteq> key w" using \<open>w \<in> fst ` set ts0\<close> that by blast
    then show ?thesis using frame [OF advance(5)] sep that by (auto simp: separate_def)
  qed
  show ?thesis unfolding separate_def using same tasks others by blast
qed

lemma separate_start: "separate step view key s0 ts0 s0 ts0"
  by (auto simp: separate_def intro: alone.start)

lemma runs_separate:
  assumes "(pool_step permits activity step)\<^sup>*\<^sup>* (s0, ts0) (s, ts)" "distinct (map (key \<circ> fst) ts0)"
  shows "separate step view key s0 ts0 s ts"
  using assms
  by (induction rule: rtranclp_induct2) (auto intro: separate_start separate_step)

end

end
