(* ===== verification/Rounds.thy ===== *)
theory Rounds
  imports Scheduler Pool
begin

text \<open>
  The rounds of \<open>src/src/scheduler.rs\<close>: the work on a role cut at its awaits and locks into the steps that others
  can come between, the round as a pool of such tasks, the scan of the bins, and one turn of the main loop.  A task that panics has no
  further step, and a round is over when all its tasks are: rounds in which a task panics are outside of the model (tokio
  ends such a task alone; the one panic the work on a role can meet is the first evo tower's noon, \<open>is_evotower_active\<close>).
\<close>

section \<open>The phases of a task\<close>

datatype phase =
    Waiting
  | Opening
  | Entered game
  | DailyNext game
  | DailyWork game role_daily
  | DailyWrite game role_daily bool
  | WeeklyNext game
  | WeeklyWrite game
  | PeriodicNext game
  | PeriodicWork game role_periodic
  | ClaimAsk game role_periodic
  | ClaimWork game role_periodic
  | ClaimWrite game role_periodic f64
  | PeriodicWrite game role_periodic
  | Leaving game
  | Finished "game option"

text \<open>A waiting task holds no permit, a finished one has given it back.\<close>
fun phase_activity :: "phase \<Rightarrow> activity" where
  "phase_activity Waiting = Idle"
| "phase_activity (Finished g) = Over"
| "phase_activity _ = Busy"

fun phase_rank :: "phase \<Rightarrow> nat" where
  "phase_rank Waiting = 15"
| "phase_rank Opening = 14"
| "phase_rank (Entered g) = 13"
| "phase_rank (DailyNext g) = 12"
| "phase_rank (DailyWork g d) = 11"
| "phase_rank (DailyWrite g d b) = 10"
| "phase_rank (WeeklyNext g) = 9"
| "phase_rank (WeeklyWrite g) = 8"
| "phase_rank (PeriodicNext g) = 7"
| "phase_rank (PeriodicWork g p) = 6"
| "phase_rank (ClaimAsk g p) = 5"
| "phase_rank (ClaimWork g p) = 4"
| "phase_rank (ClaimWrite g p t) = 3"
| "phase_rank (PeriodicWrite g p) = 2"
| "phase_rank (Leaving g) = 1"
| "phase_rank (Finished g) = 0"

text \<open>A spawned task: its plan and the content of its bin.\<close>
type_synonym spawned = "role_run_plan \<times> bytes"

abbreviation task_role :: "spawned \<Rightarrow> role_task" where
  "task_role w \<equiv> plan_role (fst w)"

definition task_key :: "spawned \<Rightarrow> string" where
  "task_key w = rt_key (task_role w)"

text \<open>A step of \<open>run_one\<close>: the work up to the next lock, or a section under a lock.\<close>
fun role_step :: "round_ctx \<Rightarrow> spawned \<Rightarrow> phase \<Rightarrow> app_state \<Rightarrow> (phase \<times> app_state) option" where
  "role_step C w Waiting st = Some (Opening, st)"
| "role_step C w Opening st =
     map_option (\<lambda>session. (case session of Inl e \<Rightarrow> Finished None | Inr g \<Rightarrow> Entered g, st))
       (open_session C (snd w) (task_role w))"
| "role_step C w (Entered g) st = Some (DailyNext g, note_periodic C (task_role w) g st)"
| "role_step C w (DailyNext g) st =
     Some (if needs_daily (fst w) then DailyWork g (read_daily (task_role w) st) else WeeklyNext g, st)"
| "role_step C w (DailyWork g d) st =
     map_option (\<lambda>((d, refreshed), g). (DailyWrite g d refreshed, st)) (daily_work C (task_role w) d g)"
| "role_step C w (DailyWrite g d refreshed) st = Some (WeeklyNext g, write_daily C (task_role w) g d refreshed st)"
| "role_step C w (WeeklyNext g) st =
     (if needs_weekly (fst w) then map_option (\<lambda>(_, g). (WeeklyWrite g, st)) (weekly_work C (task_role w) g)
      else Some (PeriodicNext g, st))"
| "role_step C w (WeeklyWrite g) st = Some (PeriodicNext g, write_weekly (task_role w) st)"
| "role_step C w (PeriodicNext g) st =
     Some (if needs_periodic (fst w) then PeriodicWork g (read_periodic (task_role w) st) else Leaving g, st)"
| "role_step C w (PeriodicWork g p) st =
     map_option (\<lambda>(p, g). (ClaimAsk g p, st)) (periodic_work C (task_role w) p g)"
| "role_step C w (ClaimAsk g p) st =
     Some (if can_claim C (task_role w) g st then ClaimWork g p else PeriodicWrite g p, st)"
| "role_step C w (ClaimWork g p) st =
     map_option (\<lambda>(next_claim, g). (ClaimWrite g p next_claim, st)) (claim_work C (task_role w) g)"
| "role_step C w (ClaimWrite g p next_claim) st = Some (PeriodicWrite g p, write_claim (task_role w) next_claim st)"
| "role_step C w (PeriodicWrite g p) st = Some (Leaving g, write_periodic (task_role w) p st)"
| "role_step C w (Leaving g) st = map_option (\<lambda>(_, g). (Finished (Some g), st)) (disconnect g)"
| "role_step C w (Finished g) st = None"

definition role_entry :: "app_state \<Rightarrow> string \<Rightarrow> role_state option" where
  "role_entry st k = map_of (roles st) k"

lemma entry_get_or_create [simp]:
  "role_entry (get_or_create k f st) k' =
     (if k' = k then Some (f (unwrap_or (role_entry st k) role_state_default)) else role_entry st k')"
  by (simp add: role_entry_def map_of_get_or_create)

lemmas sections = note_periodic_def write_daily_def write_weekly_def write_claim_def write_periodic_def
lemmas readings = read_daily_def read_periodic_def can_claim_def

lemma step_frame: "role_step C w p st = Some (p', st') \<Longrightarrow> k \<noteq> task_key w \<Longrightarrow> role_entry st' k = role_entry st k"
  by (cases p) (auto simp: sections task_key_def split: if_splits)

lemma step_own:
  assumes "role_step C w p st = Some (p', st')" "role_entry t (task_key w) = role_entry st (task_key w)"
  shows "\<exists>t'. role_step C w p t = Some (p', t') \<and> role_entry t' (task_key w) = role_entry st' (task_key w)"
proof -
  have "map_of (roles t) (rt_key (task_role w)) = map_of (roles st) (rt_key (task_role w))"
    using assms(2) by (simp add: role_entry_def task_key_def)
  then have same: "read_daily (task_role w) t = read_daily (task_role w) st"
    "read_periodic (task_role w) t = read_periodic (task_role w) st"
    "can_claim C (task_role w) g t = can_claim C (task_role w) g st" for g
    by (simp_all add: readings)
  show ?thesis using assms by (cases p) (auto simp: same sections task_key_def split: if_splits)
qed

lemma opening_step:
  "role_step C w Opening st = Some (p', st') \<longleftrightarrow> st' = st \<and>
     ((\<exists>e. open_session C (snd w) (task_role w) = Some (Inl e) \<and> p' = Finished None) \<or>
      (\<exists>g. open_session C (snd w) (task_role w) = Some (Inr g) \<and> p' = Entered g))"
proof (cases "open_session C (snd w) (task_role w)")
  case (Some session)
  then show ?thesis by (cases session) auto
qed simp

lemma step_rank: "role_step C w p st = Some (p', st') \<Longrightarrow> phase_rank p' < phase_rank p"
proof (cases p)
  case Opening
  then show "role_step C w p st = Some (p', st') \<Longrightarrow> phase_rank p' < phase_rank p"
    by (auto simp only: opening_step phase_rank.simps)
qed (auto split: if_splits)

lemma step_over: "phase_activity p = Over \<Longrightarrow> role_step C w p st = None"
  by (cases p) simp_all

interpretation role_tasks: keyed_tasks "role_step C" role_entry task_key phase_activity phase_rank for C
  by unfold_locales (fact step_frame step_own step_rank step_over)+

section \<open>A task on its own is \<open>run_one\<close>\<close>

text \<open>What \<open>run_one\<close> still does from a part on, and from a phase on.\<close>
definition from_leaving :: "app_state \<Rightarrow> app_state io" where
  "from_leaving st = io_bind disconnect (\<lambda>_. io_return st)"

definition from_store :: "spawned \<Rightarrow> role_periodic \<Rightarrow> app_state \<Rightarrow> app_state io" where
  "from_store w p st = from_leaving (write_periodic (task_role w) p st)"

definition from_claim :: "round_ctx \<Rightarrow> spawned \<Rightarrow> role_periodic \<Rightarrow> app_state \<Rightarrow> app_state io" where
  "from_claim C w p st = io_bind (claim_part C (fst w) st) (from_store w p)"

definition from_periodic :: "round_ctx \<Rightarrow> spawned \<Rightarrow> app_state \<Rightarrow> app_state io" where
  "from_periodic C w st = io_bind (periodic_part C (fst w) st) from_leaving"

definition from_weekly :: "round_ctx \<Rightarrow> spawned \<Rightarrow> app_state \<Rightarrow> app_state io" where
  "from_weekly C w st = io_bind (weekly_part C (fst w) st) (from_periodic C w)"

definition from_daily :: "round_ctx \<Rightarrow> spawned \<Rightarrow> app_state \<Rightarrow> app_state io" where
  "from_daily C w st = io_bind (daily_part C (fst w) st) (from_weekly C w)"

lemmas froms = from_leaving_def from_store_def from_claim_def from_periodic_def from_weekly_def from_daily_def

definition closed :: "(app_state \<times> game) option \<Rightarrow> (app_state \<times> game option) option" where
  "closed = map_option (\<lambda>(st, g). (st, Some g))"

fun rest :: "round_ctx \<Rightarrow> spawned \<Rightarrow> phase \<Rightarrow> app_state \<Rightarrow> (app_state \<times> game option) option" where
  "rest C w Waiting st = run_one C (snd w) (fst w) st"
| "rest C w Opening st = run_one C (snd w) (fst w) st"
| "rest C w (Entered g) st = closed (from_daily C w (note_periodic C (task_role w) g st) g)"
| "rest C w (DailyNext g) st = closed (from_daily C w st g)"
| "rest C w (DailyWork g d) st =
     closed (io_bind (daily_work C (task_role w) d) (\<lambda>(d, refreshed). io_bind read_game (\<lambda>g.
       from_weekly C w (write_daily C (task_role w) g d refreshed st))) g)"
| "rest C w (DailyWrite g d refreshed) st = closed (from_weekly C w (write_daily C (task_role w) g d refreshed st) g)"
| "rest C w (WeeklyNext g) st = closed (from_weekly C w st g)"
| "rest C w (WeeklyWrite g) st = closed (from_periodic C w (write_weekly (task_role w) st) g)"
| "rest C w (PeriodicNext g) st = closed (from_periodic C w st g)"
| "rest C w (PeriodicWork g p) st = closed (io_bind (periodic_work C (task_role w) p) (\<lambda>p. from_claim C w p st) g)"
| "rest C w (ClaimAsk g p) st = closed (from_claim C w p st g)"
| "rest C w (ClaimWork g p) st =
     closed (io_bind (claim_work C (task_role w)) (\<lambda>next_claim. from_store w p (write_claim (task_role w) next_claim st)) g)"
| "rest C w (ClaimWrite g p next_claim) st = closed (from_store w p (write_claim (task_role w) next_claim st) g)"
| "rest C w (PeriodicWrite g p) st = closed (from_store w p st g)"
| "rest C w (Leaving g) st = closed (from_leaving st g)"
| "rest C w (Finished g) st = Some (st, g)"

lemma bind_assoc: "io_bind (io_bind m f) k = io_bind m (\<lambda>x. io_bind (f x) k)"
  by (rule ext) (simp add: io_bind_def split: option.split)

lemma bind_return: "io_bind (io_return x) k = k x"
  by (rule ext) (simp add: io_bind_def)

lemma bind_split: "io_bind m (\<lambda>(x, y). k x y) = io_bind m (\<lambda>z. k (fst z) (snd z))"
  by (simp add: case_prod_unfold)

lemmas binds = bind_assoc bind_return case_prod_unfold

lemma run_one_from:
  "run_one C (snd w) (fst w) st = Option.bind (open_session C (snd w) (task_role w)) (\<lambda>session.
     case session of Inl e \<Rightarrow> Some (st, None) | Inr g \<Rightarrow> rest C w (Entered g) st)"
  unfolding run_one_def rest.simps closed_def froms by (rule refl)

lemma from_daily_eq:
  "from_daily C w st =
     (if needs_daily (fst w) then
        io_bind (daily_work C (task_role w) (read_daily (task_role w) st)) (\<lambda>(d, refreshed). io_bind read_game (\<lambda>g.
          from_weekly C w (write_daily C (task_role w) g d refreshed st)))
      else from_weekly C w st)"
  unfolding from_daily_def daily_part_def by (simp add: binds)

lemma from_weekly_eq:
  "from_weekly C w st =
     (if needs_weekly (fst w) then
        io_bind (weekly_work C (task_role w)) (\<lambda>_. from_periodic C w (write_weekly (task_role w) st))
      else from_periodic C w st)"
  unfolding from_weekly_def weekly_part_def by (simp add: binds)

lemma from_periodic_eq:
  "from_periodic C w st =
     (if needs_periodic (fst w) then
        io_bind (periodic_work C (task_role w) (read_periodic (task_role w) st)) (\<lambda>p. from_claim C w p st)
      else from_leaving st)"
  unfolding from_periodic_def periodic_part_def from_claim_def from_store_def by (simp add: binds)

lemma from_claim_eq:
  "from_claim C w p st =
     io_bind read_game (\<lambda>g. if can_claim C (task_role w) g st then
        io_bind (claim_work C (task_role w)) (\<lambda>next_claim. from_store w p (write_claim (task_role w) next_claim st))
      else from_store w p st)"
  unfolding from_claim_def claim_part_def by (simp add: binds if_distrib [of "\<lambda>m. io_bind m k" for k] cong: if_cong)

lemma rest_step:
  assumes "role_step C w p st = Some (p', st')"
  shows "rest C w p st = rest C w p' st'"
proof (cases p)
  case Opening
  then show ?thesis using assms unfolding Opening opening_step by (auto simp: run_one_from)
next
  case (DailyNext g)
  then show ?thesis using assms by (auto simp: from_daily_eq)
next
  case (WeeklyNext g)
  then show ?thesis using assms by (auto simp: from_weekly_eq split: if_splits)
next
  case (PeriodicNext g)
  then show ?thesis using assms by (auto simp: from_periodic_eq)
next
  case (ClaimAsk g p1)
  then show ?thesis using assms by (auto simp: from_claim_eq)
next
  case (Leaving g)
  then show ?thesis using assms by (auto simp: from_leaving_def closed_def)
qed (use assms in \<open>auto simp: from_store_def\<close>)

lemma rest_alone: "alone (role_step C) w p0 st0 p st \<Longrightarrow> rest C w p0 st0 = rest C w p st"
  by (induction rule: alone.induct) (simp_all only: rest_step)

lemma alone_run_one:
  assumes "alone (role_step C) w Waiting st0 (Finished g) st"
  shows "run_one C (snd w) (fst w) st0 = Some (st, g)"
  using rest_alone [OF assms] by simp

section \<open>Rounds\<close>

record scheduler =
  sc_watcher :: config_watcher
  sc_state :: app_state
  sc_roles :: "role_task list"
  sc_bin_cache :: "(string \<times> bytes) list"
  sc_in_maintenance :: bool

abbreviation sc_config :: "scheduler \<Rightarrow> batch_config" where
  "sc_config s \<equiv> current (sc_watcher s)"

text \<open>The start of a round: its number, the plans, none inside a maintenance window, and the scheduler.\<close>
definition begin_round :: "bool \<Rightarrow> planning \<Rightarrow> scheduler \<Rightarrow> nat \<times> role_run_plan list \<times> scheduler" where
  "begin_round force_all P s =
     (let config = sc_config s; now = pl_today P;
          policy = policy_new now config;
          (advance, st) = next_round (ln_date now) (sc_state s)
      in if policy_hit policy \<noteq> None then (ra_round advance, [], s\<lparr>sc_state := st, sc_in_maintenance := True\<rparr>)
         else
           let is_weekly_day = (ln_weekday now = weekly_schedule_day config);
               (pending, st) = collect force_all (sc_roles s) config P (policy_daily_time_reached policy) is_weekly_day st
           in (ra_round advance, pending, s\<lparr>sc_state := st, sc_in_maintenance := False\<rparr>))"

definition ctx_of_round :: "round_ctx \<Rightarrow> batch_config \<Rightarrow> nat \<Rightarrow> round_ctx" where
  "ctx_of_round W config round = W\<lparr>rc_config := config, rc_prefix := ''[R'' @ nat_str round @ '']''\<rparr>"

definition spawn_all :: "(string \<times> bytes) list \<Rightarrow> role_run_plan list \<Rightarrow> (spawned \<times> phase) list" where
  "spawn_all bin_cache pending =
     map (\<lambda>plan. ((plan, unwrap_or (map_of bin_cache (rt_bin_path (plan_role plan))) []), Waiting)) pending"

abbreviation round_step ::
  "round_ctx \<Rightarrow> app_state \<times> (spawned \<times> phase) list \<Rightarrow> app_state \<times> (spawned \<times> phase) list \<Rightarrow> bool"
where
  "round_step C \<equiv> pool_step (concurrency (rc_config C)) phase_activity (role_step C)"

definition all_over :: "(spawned \<times> phase) list \<Rightarrow> bool" where
  "all_over ts = list_all (\<lambda>(w, p). phase_activity p = Over) ts"

text \<open>A round: the tasks are spawned, each after a pause, and the round waits for all of them.  That a task comes later than
  another is one of the orders of the pool.\<close>
inductive execute_round :: "round_ctx \<Rightarrow> bool \<Rightarrow> planning \<Rightarrow> scheduler \<Rightarrow> scheduler \<Rightarrow> bool" for W force_all P s where
  round: "begin_round force_all P s = (round, pending, s') \<Longrightarrow>
    (round_step (ctx_of_round W (sc_config s) round))\<^sup>*\<^sup>* (sc_state s', spawn_all (sc_bin_cache s) pending) (st, ts) \<Longrightarrow>
    all_over ts \<Longrightarrow> execute_round W force_all P s (s'\<lparr>sc_state := st\<rparr>)"

section \<open>Scanning and reloading\<close>

definition make_task :: "string \<Rightarrow> account_role \<Rightarrow> role_task" where
  "make_task path r = \<lparr>rt_key = role_key path (ri_server_id r), rt_display = role_display path (ri_server_id r) (ri_name r),
     rt_bin_path = path, rt_server_id = ri_server_id r, rt_role_name = ri_name r\<rparr>"

definition filter_roles :: "bin_config \<Rightarrow> account_role list \<Rightarrow> account_role list" where
  "filter_roles bin all =
     (if bc_server_ids bin = [] then all else filter (\<lambda>r. ri_server_id r \<in> set (bc_server_ids bin)) all)"

text \<open>The surroundings of a scan: the files, how a path is printed, the login server at the time of each bin.\<close>
record files =
  fi_read :: "fs_path \<Rightarrow> bytes res"
  fi_shown :: "fs_path \<Rightarrow> string"
  fi_host :: "bin_config \<Rightarrow> host"

fun scan_bins ::
  "files \<Rightarrow> string \<Rightarrow> bin_config list \<Rightarrow> http_client \<Rightarrow> role_task list \<times> (string \<times> bytes) list \<Rightarrow>
   unit res \<times> role_task list \<times> (string \<times> bytes) list"
where
  "scan_bins F config_path [] c (found, cache) = (Ok (), found, cache)"
| "scan_bins F config_path (bin # bs) c (found, cache) =
     (let path = normalize_path_for_id (bc_path bin); resolved = resolve_bin_path config_path (bc_path bin) in
      case fi_read F resolved of
        Inl e \<Rightarrow> (Err (''Failed to read '' @ bc_path bin @ '' ('' @ fi_shown F resolved @ ''): '' @ e), found, cache)
      | Inr bin_data \<Rightarrow>
          let cache = AList.update path bin_data cache in
          (case get_server_list (fi_host F bin) bin_data c of
             (Inl e, c) \<Rightarrow> scan_bins F config_path bs c (found, cache)
           | (Inr all, c) \<Rightarrow>
               scan_bins F config_path bs c (found @ map (make_task path) (filter_roles bin all), cache)))"

definition scan_roles :: "files \<Rightarrow> batch_config \<Rightarrow> scheduler \<Rightarrow> unit res \<times> scheduler" where
  "scan_roles F config s =
     (case scan_bins F (cw_path (sc_watcher s)) (bins config) http_new ([], sc_bin_cache s) of
        (outcome, found, cache) \<Rightarrow> (outcome, s\<lparr>sc_roles := found, sc_bin_cache := cache\<rparr>))"

text \<open>The names shown for the roles.\<close>
fun register_roles :: "role_task list \<Rightarrow> app_state \<Rightarrow> app_state" where
  "register_roles [] st = st"
| "register_roles (r # rs) st =
     register_roles rs (get_or_create (rt_key r) (\<lambda>e. e\<lparr>rs_role_name := rt_role_name r, rs_server_display := rt_display r\<rparr>) st)"

text \<open>The state is brought in line with the roles; \<open>new_keys\<close> is a set.\<close>
definition sync_roles :: "scheduler \<Rightarrow> scheduler" where
  "sync_roles s =
     (case sync_with_roles (remdups (map rt_key (sc_roles s))) (sc_state s) of
        (changes, st) \<Rightarrow> s\<lparr>sc_state := register_roles (sc_roles s) st\<rparr>)"

text \<open>\<open>Scheduler::init\<close> for a configuration and a state that have been loaded.\<close>
definition scheduler_init :: "files \<Rightarrow> file_times \<Rightarrow> string \<Rightarrow> batch_config \<Rightarrow> app_state \<Rightarrow> scheduler res" where
  "scheduler_init F mtime config_path config st =
     (let s = \<lparr>sc_watcher = watcher_new mtime config_path config, sc_state = snd (normalize_role_keys st), sc_roles = [],
               sc_bin_cache = [], sc_in_maintenance = False\<rparr>
      in case scan_roles F config s of (Inl e, s) \<Rightarrow> Err e | (Inr _, s) \<Rightarrow> Ok (sync_roles s))"

text \<open>The hot reload of the main loop: a scan that fails leaves the state alone, but not the roles.\<close>
definition reload :: "files \<Rightarrow> file_times \<Rightarrow> (string \<Rightarrow> batch_config res) \<Rightarrow> scheduler \<Rightarrow> scheduler" where
  "reload F mtime load s =
     (case check_reload mtime load (sc_watcher s) of
        ((config_changed, changed_bins), w) \<Rightarrow>
          let s = s\<lparr>sc_watcher := w\<rparr> in
          if config_changed \<or> changed_bins \<noteq> [] then
            (case scan_roles F (current w) s of (Inl e, s) \<Rightarrow> s | (Inr _, s) \<Rightarrow> sync_roles s)
          else s)"

text \<open>Whether the scan of a turn succeeds; \<open>None\<close> when nothing changed, and there is none.\<close>
definition rescan :: "files \<Rightarrow> file_times \<Rightarrow> (string \<Rightarrow> batch_config res) \<Rightarrow> scheduler \<Rightarrow> bool option" where
  "rescan F mtime load s =
     (case check_reload mtime load (sc_watcher s) of
        ((config_changed, changed_bins), w) \<Rightarrow>
          if config_changed \<or> changed_bins \<noteq> []
          then Some (case fst (scan_roles F (current w) (s\<lparr>sc_watcher := w\<rparr>)) of Inl e \<Rightarrow> False | Inr _ \<Rightarrow> True)
          else None)"

text \<open>The main loop: one forced round, then reload and round in turn, for ever.  The flag tells whether the last scan
  succeeded; that of the start did.\<close>
inductive scheduler_runs :: "round_ctx \<Rightarrow> scheduler \<Rightarrow> bool \<Rightarrow> scheduler \<Rightarrow> bool" for W s0 where
  first: "execute_round W True P s0 s \<Longrightarrow> scheduler_runs W s0 True s"
| turn: "scheduler_runs W s0 scanned s \<Longrightarrow> execute_round W False P (reload F mtime load s) s' \<Longrightarrow>
    scheduler_runs W s0 (unwrap_or (rescan F mtime load s) scanned) s'"

end
