(* ===== verification/Rounds_Facts.thy ===== *)
theory Rounds_Facts
  imports Rounds Config_Windows
begin

text \<open>
  What the rounds promise: no work begun inside a maintenance window, never more sessions than the concurrency allows, a
  bounded number of steps, the same outcome for every role as if it had been worked on alone, and a state that has an entry
  for exactly the roles of the last scan; and what a rescan does to the roles of a bin that does not answer.
\<close>

section \<open>Windows\<close>

lemma time_reached_minutes:
  assumes "ln_minute now < 60" "m < 60"
  shows "is_time_reached now h m \<longleftrightarrow> h * 60 + m \<le> minute_of_day now"
    and "is_time_before now h m \<longleftrightarrow> minute_of_day now < h * 60 + m"
  using assms by (auto simp: is_time_reached_def is_time_before_def minute_of_day_def)

lemma first_hit_None:
  "first_hit now windows = None \<longleftrightarrow>
     (\<forall>(d, sh, sm, eh, em) \<in> set windows. \<not> (ln_weekday now = d \<and> is_time_reached now sh sm \<and> is_time_before now eh em))"
  by (induction now windows rule: first_hit.induct) auto

lemma hit_in_window:
  assumes "ln_minute now < 60"
  shows "first_hit now (parse_windows wcs) \<noteq> None \<longleftrightarrow> in_window wcs (ln_weekday now) (minute_of_day now)"
proof (induction wcs rule: parse_windows.induct)
  case (2 w wcs)
  have rest: "in_window (w # wcs) d t \<longleftrightarrow>
      (\<exists>s e. valid_interval w = Some (d, s, e) \<and> s \<le> t \<and> t < e) \<or> in_window wcs d t" for d t
    by (auto simp: in_window_def)
  show ?case
    using 2 assms unfolding rest
    by (auto simp: valid_interval_def Let_def time_reached_minutes split: option.splits if_splits dest!: hhmm_bounds)
qed (simp add: in_window_def)

lemma maintenance_hit_iff:
  "ln_minute now < 60 \<Longrightarrow>
     maintenance_hit_at now config \<noteq> None \<longleftrightarrow> in_window (maintenance_windows config) (ln_weekday now) (minute_of_day now)"
  unfolding maintenance_hit_at_def parse_maintenance_windows_def by (rule hit_in_window)

lemma pool_empty: "(round_step C)\<^sup>*\<^sup>* (st, []) (st', ts) \<Longrightarrow> st' = st \<and> ts = []"
  by (erule converse_rtranclpE) (auto simp: pool_step_simps)

inductive_cases execute_round_cases: "execute_round W force_all P s s'"

lemma execute_roundE:
  assumes "execute_round W force_all P s s'"
  obtains round pending s1 st ts where "s' = s1\<lparr>sc_state := st\<rparr>" "begin_round force_all P s = (round, pending, s1)"
    "(round_step (ctx_of_round W (sc_config s) round))\<^sup>*\<^sup>* (sc_state s1, spawn_all (sc_bin_cache s) pending) (st, ts)"
    "all_over ts"
  using assms by (rule execute_round_cases)

lemma begin_round_hit:
  assumes "begin_round force_all P s = (round, pending, s')"
  shows "sc_in_maintenance s' = (maintenance_hit_at (pl_today P) (sc_config s) \<noteq> None)"
    and "sc_in_maintenance s' \<Longrightarrow> pending = [] \<and> roles (sc_state s') = roles (sc_state s)"
  using assms
  by (auto simp: begin_round_def policy_new_def Let_def next_round_def split: if_splits prod.splits)

section \<open>The state has one entry per role\<close>

definition one_entry :: "app_state \<Rightarrow> bool" where
  "one_entry st = distinct (map fst (roles st))"

lemma one_entry_get_or_create [simp]: "one_entry st \<Longrightarrow> one_entry (get_or_create k f st)"
  by (simp add: one_entry_def get_or_create_def distinct_update)

lemma one_entry_step: "role_step C w p st = Some (p', st') \<Longrightarrow> one_entry st \<Longrightarrow> one_entry st'"
  by (cases p) (auto simp: sections split: if_splits)

lemma counters_step:
  "role_step C w p st = Some (p', st') \<Longrightarrow> round_date st' = round_date st \<and> round_count st' = round_count st"
  by (cases p) (auto simp: sections get_or_create_def split: if_splits)

lemma one_entry_pool:
  assumes "(round_step C)\<^sup>*\<^sup>* (st, ts) (st', ts')" "one_entry st"
  shows "one_entry st' \<and> round_date st' = round_date st \<and> round_count st' = round_count st"
  using assms
  by (induction rule: rtranclp_induct2)
    (auto elim!: pool_stepE dest: one_entry_step counters_step)

lemma one_entry_normalize: "one_entry (snd (normalize_role_keys st))"
proof -
  have "distinct (map fst (fst (normalize_loop m new n)))" if "distinct (map fst new)" for m new n
    using that by (induction m new n rule: normalize_loop.induct) (simp_all add: Let_def distinct_update)
  then show ?thesis by (simp add: one_entry_def normalize_role_keys_def case_prod_unfold)
qed

lemma one_entry_sync: "one_entry st \<Longrightarrow> one_entry (snd (sync_with_roles ks st))"
proof -
  have "distinct (map fst m) \<Longrightarrow> distinct (map fst (insert_defaults added m))" for added and m :: roles_map
    by (induction added m rule: insert_defaults.induct) (simp_all add: distinct_update)
  moreover have "distinct (map fst m) \<Longrightarrow> distinct (map fst (remove_keys removed m))" for removed and m :: roles_map
    by (induction removed m rule: remove_keys.induct) (simp_all add: distinct_delete)
  ultimately show "one_entry st \<Longrightarrow> ?thesis" by (simp add: one_entry_def sync_with_roles_def Let_def)
qed

lemma one_entry_register: "one_entry st \<Longrightarrow> one_entry (register_roles rs st)"
  by (induction rs st rule: register_roles.induct) simp_all

lemma one_entry_sync_roles: "one_entry (sc_state s) \<Longrightarrow> one_entry (sc_state (sync_roles s))"
  using one_entry_sync [of "sc_state s" "remdups (map rt_key (sc_roles s))"]
  by (cases "sync_with_roles (remdups (map rt_key (sc_roles s))) (sc_state s)") (simp add: sync_roles_def one_entry_register)

lemma scan_keeps_state: "sc_state (snd (scan_roles F config s)) = sc_state s"
  by (simp add: scan_roles_def split: prod.split)

lemma one_entry_reload:
  assumes "one_entry (sc_state s)"
  shows "one_entry (sc_state (reload F mtime load s))"
proof -
  have "sc_state s2 = sc_state s" if "scan_roles F (current w) (s\<lparr>sc_watcher := w\<rparr>) = (r, s2)" for w r s2
    using scan_keeps_state [of F "current w" "s\<lparr>sc_watcher := w\<rparr>"] that by simp
  then show ?thesis
    using assms by (auto simp: reload_def Let_def one_entry_sync_roles split: prod.split sum.split)
qed

lemma one_entry_init:
  assumes "scheduler_init F mtime config_path config st = Ok s"
  shows "one_entry (sc_state s)"
proof -
  define s0 where "s0 = \<lparr>sc_watcher = watcher_new mtime config_path config, sc_state = snd (normalize_role_keys st),
    sc_roles = [], sc_bin_cache = [], sc_in_maintenance = False\<rparr>"
  obtain r s1 where scan: "scan_roles F config s0 = (r, s1)" by (cases "scan_roles F config s0")
  then have "sc_state s1 = snd (normalize_role_keys st)" using scan_keeps_state [of F config s0] by (simp add: s0_def)
  moreover have "s = sync_roles s1"
    using assms scan unfolding scheduler_init_def by (auto simp flip: s0_def split: sum.splits)
  ultimately show ?thesis using one_entry_sync_roles one_entry_normalize by metis
qed

lemma begin_round_state:
  assumes "begin_round force_all P s = (round, pending, s')" "one_entry (sc_state s)"
  shows "one_entry (sc_state s') \<and> round_date (sc_state s') = Some (ln_date (pl_today P)) \<and> 0 < round_count (sc_state s')"
proof -
  have "map (\<lambda>(k, rs). k) m = map fst m" for m :: roles_map by (simp add: case_prod_unfold)
  then show ?thesis
    using assms
    by (auto simp: begin_round_def Let_def next_round_def collect_def reset_expired_def one_entry_def comp_def
        case_prod_unfold split: if_splits)
qed

lemma execute_round_state:
  assumes "execute_round W force_all P s s'" "one_entry (sc_state s)"
  shows "one_entry (sc_state s') \<and> round_date (sc_state s') = Some (ln_date (pl_today P)) \<and> 0 < round_count (sc_state s')"
proof -
  from assms(1) obtain round pending s1 st ts where 1: "s' = s1\<lparr>sc_state := st\<rparr>"
    "begin_round force_all P s = (round, pending, s1)"
    "(round_step (ctx_of_round W (sc_config s) round))\<^sup>*\<^sup>* (sc_state s1, spawn_all (sc_bin_cache s) pending) (st, ts)"
    by (rule execute_roundE)
  then show ?thesis using begin_round_state [OF 1(2) assms(2)] one_entry_pool [OF 1(3)] 1(1) by simp
qed

section \<open>The state follows the roles\<close>

text \<open>The roles with a state are those the scheduler works on.\<close>
definition in_step :: "scheduler \<Rightarrow> bool" where
  "in_step s \<longleftrightarrow> fst ` set (roles (sc_state s)) = rt_key ` set (sc_roles s)"

lemma known_roles: "k \<in> fst ` set (roles st) \<longleftrightarrow> role_entry st k \<noteq> None"
  by (simp add: role_entry_def map_of_eq_None_iff)

lemma same_known: "(\<And>k. role_entry st k = None \<longleftrightarrow> role_entry st' k = None) \<Longrightarrow> fst ` set (roles st') = fst ` set (roles st)"
  by (rule set_eqI) (simp add: known_roles)

text \<open>The sections of a task touch its own key only.\<close>
lemma step_known:
  "role_step C w p st = Some (p', st') \<Longrightarrow> role_entry st (task_key w) \<noteq> None \<Longrightarrow>
     role_entry st k = None \<longleftrightarrow> role_entry st' k = None"
  by (cases p) (auto simp: sections task_key_def split: if_splits)

lemma pool_known:
  assumes "(round_step C)\<^sup>*\<^sup>* (st, ts) (st', ts')" "\<forall>w \<in> fst ` set ts. task_key w \<in> fst ` set (roles st)"
  shows "fst ` set (roles st') = fst ` set (roles st)"
proof -
  have "fst ` set (roles st') = fst ` set (roles st) \<and> map fst ts' = map fst ts"
    using assms(1)
  proof (induction rule: rtranclp_induct2)
    case (step st1 ts1 st2 ts2)
    from step.hyps(2) obtain i w p p' where move: "ts2 = ts1[i := (w, p')]" "i < length ts1" "ts1 ! i = (w, p)"
      "role_step C w p st1 = Some (p', st2)" by (rule pool_stepE)
    have "w \<in> fst ` set ts" using move(2,3) step.IH by (metis fst_conv image_eqI list.set_map nth_mem)
    then have "task_key w \<in> fst ` set (roles st1)" using assms(2) step.IH by blast
    then have "role_entry st1 (task_key w) \<noteq> None" by (simp only: known_roles not_False_eq_True)
    with step_known [OF move(4)] have "fst ` set (roles st2) = fst ` set (roles st1)" by (intro same_known)
    moreover have "map fst ts2 = map fst ts1" using move(1-3) by (simp add: map_update list_update_same_conv)
    ultimately show ?case using step.IH by simp
  qed simp
  then show ?thesis ..
qed

lemma collect_known:
  assumes "collect force_all rts config P a b st = (pending, st')"
  shows "fst ` set (roles st') = fst ` set (roles st)" "plan_role ` set pending \<subseteq> set rts"
proof -
  show "fst ` set (roles st') = fst ` set (roles st)" using assms by (force simp: collect_def Let_def reset_expired_def)
  have "plan_role plan = role" if "plan_for force_all st1 config P a b role = Some plan" for st1 plan role
    using that by (auto simp: plan_for_def Let_def split: if_splits)
  then show "plan_role ` set pending \<subseteq> set rts" using assms by (auto simp: collect_def Let_def List.map_filter_def)
qed

lemma begin_round_known:
  assumes "begin_round force_all P s = (round, pending, s')"
  shows "fst ` set (roles (sc_state s')) = fst ` set (roles (sc_state s))" "sc_roles s' = sc_roles s"
    "plan_role ` set pending \<subseteq> set (sc_roles s)"
proof -
  obtain adv st where advance: "next_round (ln_date (pl_today P)) (sc_state s) = (adv, st)" by (metis surj_pair)
  then have st: "roles st = roles (sc_state s)" by (auto simp: next_round_def Let_def)
  obtain ps st' where planned: "collect force_all (sc_roles s) (sc_config s) P
      (policy_daily_time_reached (policy_new (pl_today P) (sc_config s)))
      (ln_weekday (pl_today P) = weekly_schedule_day (sc_config s)) st = (ps, st')" by (metis surj_pair)
  have "sc_state s' \<in> {st, st'}" "pending = [] \<or> pending = ps" "sc_roles s' = sc_roles s"
    using assms by (auto simp: begin_round_def Let_def advance planned split: if_splits)
  then show "fst ` set (roles (sc_state s')) = fst ` set (roles (sc_state s))" "sc_roles s' = sc_roles s"
    "plan_role ` set pending \<subseteq> set (sc_roles s)"
    using collect_known [OF planned] st by auto
qed

lemma execute_round_in_step:
  assumes "execute_round W force_all P s s'" "in_step s"
  shows "in_step s'"
proof -
  from assms(1) obtain round pending s1 st ts where 1: "s' = s1\<lparr>sc_state := st\<rparr>"
    "begin_round force_all P s = (round, pending, s1)"
    "(round_step (ctx_of_round W (sc_config s) round))\<^sup>*\<^sup>* (sc_state s1, spawn_all (sc_bin_cache s) pending) (st, ts)"
    by (rule execute_roundE)
  note begun = begin_round_known [OF 1(2)]
  have "\<forall>w \<in> fst ` set (spawn_all (sc_bin_cache s) pending). task_key w \<in> fst ` set (roles (sc_state s1))"
    using begun(1,3) assms(2) by (auto simp: spawn_all_def task_key_def in_step_def)
  from pool_known [OF 1(3) this] show ?thesis using begun(1,2) assms(2) 1(1) by (simp add: in_step_def)
qed

lemma registered_kept: "role_entry st k \<noteq> None \<Longrightarrow> role_entry (register_roles rs st) k \<noteq> None"
  by (induction rs st rule: register_roles.induct) auto

lemma registered: "k \<in> rt_key ` set rs \<Longrightarrow> role_entry (register_roles rs st) k \<noteq> None"
proof (induction rs st rule: register_roles.induct)
  case (2 r rs st)
  then show ?case by (cases "k = rt_key r") (auto simp del: not_None_eq intro!: registered_kept)
qed simp

lemma entry_register:
  "role_entry (register_roles rs st) k =
     (if k \<in> rt_key ` set rs then role_entry (register_roles rs st) k else role_entry st k)"
  by (induction rs st rule: register_roles.induct) auto

lemma entry_sync_roles:
  assumes "k \<notin> rt_key ` set (sc_roles s)"
  shows "role_entry (sc_state (sync_roles s)) k = None"
proof -
  let ?keys = "remdups (map rt_key (sc_roles s))" and ?old = "map fst (roles (sc_state s))"
  let ?m = "remove_keys (filter (\<lambda>k. k \<notin> set ?keys) ?old) (insert_defaults (filter (\<lambda>k. k \<notin> set ?old) ?keys) (roles (sc_state s)))"
  have "map_of ?m k = None"
    using assms by (cases "k \<in> set ?old") (simp_all add: map_of_remove_keys map_of_insert_defaults map_of_eq_None_iff)
  then have "role_entry ((sc_state s)\<lparr>roles := ?m\<rparr>) k = None" by (simp add: role_entry_def)
  moreover have "sc_state (sync_roles s) = register_roles (sc_roles s) ((sc_state s)\<lparr>roles := ?m\<rparr>)"
    by (simp add: sync_roles_def sync_with_roles_def Let_def)
  ultimately show ?thesis using entry_register [of "sc_roles s" "(sc_state s)\<lparr>roles := ?m\<rparr>" k] assms by simp
qed

lemma sync_in_step: "in_step (sync_roles s)"
proof -
  have roles: "sc_roles (sync_roles s) = sc_roles s" by (simp add: sync_roles_def split: prod.split)
  obtain changes st where "sync_with_roles (remdups (map rt_key (sc_roles s))) (sc_state s) = (changes, st)" by (metis surj_pair)
  then have "sc_state (sync_roles s) = register_roles (sc_roles s) st" by (simp add: sync_roles_def)
  then have "role_entry (sc_state (sync_roles s)) k \<noteq> None \<longleftrightarrow> k \<in> rt_key ` set (sc_roles s)" for k
    using entry_sync_roles [of k s] registered [of k "sc_roles s" st] by metis
  then show ?thesis unfolding in_step_def roles set_eq_iff known_roles by blast
qed

lemma init_in_step: "scheduler_init F mtime config_path config st = Ok s \<Longrightarrow> in_step s"
  by (auto simp: scheduler_init_def Let_def sync_in_step split: prod.splits sum.splits)

lemma reload_in_step:
  assumes "scanned \<longrightarrow> in_step s" "unwrap_or (rescan F mtime load s) scanned"
  shows "in_step (reload F mtime load s)"
proof -
  obtain config_changed changed_bins w where check: "check_reload mtime load (sc_watcher s) = ((config_changed, changed_bins), w)"
    by (metis surj_pair)
  show ?thesis
  proof (cases "config_changed \<or> changed_bins \<noteq> []")
    case True
    then obtain s1 where "scan_roles F (current w) (s\<lparr>sc_watcher := w\<rparr>) = (Ok (), s1)"
      using assms(2) check
      by (cases "scan_roles F (current w) (s\<lparr>sc_watcher := w\<rparr>)") (auto simp: rescan_def split: sum.splits)
    with True check show ?thesis by (simp add: reload_def sync_in_step)
  next
    case False
    then show ?thesis using assms check by (simp add: reload_def rescan_def in_step_def)
  qed
qed

section \<open>Properties\<close>

text \<open>C25: No round works on a role when it begins inside a maintenance window: a round whose clock, read at its start, shows
  a minute that some valid window of the weekday covers starts no task and leaves every role's state as it is, and the
  scheduler records that it is in maintenance; in any other minute it does not record it.  (The clock is read at the
  start only: a round that begins before a window goes on with its roles inside it.)\<close>
theorem maintenance_suspends_rounds:
  assumes "execute_round W force_all P s s'" "ln_minute (pl_today P) < 60"
  shows "sc_in_maintenance s' = in_window (maintenance_windows (sc_config s)) (ln_weekday (pl_today P)) (minute_of_day (pl_today P)) \<and>
    (sc_in_maintenance s' \<longrightarrow> fst (snd (begin_round force_all P s)) = [] \<and> roles (sc_state s') = roles (sc_state s))"
proof -
  from assms(1) obtain round pending s1 st ts where 1: "s' = s1\<lparr>sc_state := st\<rparr>"
    "begin_round force_all P s = (round, pending, s1)"
    "(round_step (ctx_of_round W (sc_config s) round))\<^sup>*\<^sup>* (sc_state s1, spawn_all (sc_bin_cache s) pending) (st, ts)"
    by (rule execute_roundE)
  note hit = begin_round_hit [OF 1(2)]
  have "sc_in_maintenance s1 \<longrightarrow> st = sc_state s1"
    using pool_empty [of _ "sc_state s1" st ts] 1(3) hit(2) by (auto simp: spawn_all_def)
  then show ?thesis using 1(1,2) hit maintenance_hit_iff [OF assms(2)] by simp
qed

text \<open>C6: A round is as good as working on its roles one at a time: when the planned roles have different keys, every
  round whose tasks all come to their end, whatever the order in which they advanced, leaves at each planned key what
  \<open>run_one\<close> alone leaves there, and does not touch any other key.\<close>
theorem round_runs_roles_separately:
  assumes "begin_round force_all P s = (round, pending, s1)" "distinct (map (\<lambda>plan. rt_key (plan_role plan)) pending)"
    and "(round_step (ctx_of_round W (sc_config s) round))\<^sup>*\<^sup>* (sc_state s1, spawn_all (sc_bin_cache s) pending) (st, ts)"
    and "all_over ts"
  shows "(\<forall>w \<in> fst ` set (spawn_all (sc_bin_cache s) pending). \<exists>st1 g.
      run_one (ctx_of_round W (sc_config s) round) (snd w) (fst w) (sc_state s1) = Some (st1, g) \<and>
      role_entry st (task_key w) = role_entry st1 (task_key w)) \<and>
    (\<forall>k. k \<notin> (\<lambda>plan. rt_key (plan_role plan)) ` set pending \<longrightarrow> role_entry st k = role_entry (sc_state s1) k)"
proof -
  let ?C = "ctx_of_round W (sc_config s) round" and ?ts0 = "spawn_all (sc_bin_cache s) pending"
  have keys: "map (task_key \<circ> fst) ?ts0 = map (\<lambda>plan. rt_key (plan_role plan)) pending"
    by (simp add: spawn_all_def task_key_def)
  have sep: "separate (role_step ?C) role_entry task_key (sc_state s1) ?ts0 st ts"
    by (rule role_tasks.runs_separate [OF assms(3)]) (simp only: keys assms(2))
  then have len: "length ts = length ?ts0" and names: "map fst ts = map fst ?ts0"
    by (auto simp: separate_def dest: map_eq_imp_length_eq)
  have task: "\<exists>st1 g. run_one ?C (snd w) (fst w) (sc_state s1) = Some (st1, g) \<and>
      role_entry st (task_key w) = role_entry st1 (task_key w)" if w: "w \<in> fst ` set ?ts0" for w
  proof -
    obtain i where i: "i < length ?ts0" "fst (?ts0 ! i) = w" using w by (auto simp: in_set_conv_nth)
    have waiting: "snd (?ts0 ! i) = Waiting" using i(1) by (simp add: spawn_all_def)
    have "fst (ts ! i) = w" using names len i by (metis nth_map)
    moreover obtain g where "snd (ts ! i) = Finished g"
    proof -
      have "phase_activity (snd (ts ! i)) = Over"
        using assms(4) i(1) len by (auto simp: all_over_def list_all_length case_prod_unfold)
      then show thesis using that by (cases "snd (ts ! i)") simp_all
    qed
    ultimately obtain st1 where "alone (role_step ?C) w Waiting (sc_state s1) (Finished g) st1"
      "role_entry st1 (task_key w) = role_entry st (task_key w)"
      using sep i(1) len waiting unfolding separate_def by (metis (no_types, lifting))
    then show ?thesis using alone_run_one by metis
  qed
  have "task_key ` fst ` set ?ts0 = (\<lambda>plan. rt_key (plan_role plan)) ` set pending"
    using keys by (metis image_comp list.set_map)
  then show ?thesis using sep task by (simp add: separate_def)
qed

text \<open>C26: A round ends by itself: at any time at most \<open>concurrency\<close> of its tasks are at work, it takes at most fifteen steps
  for each planned role, and where it cannot go on, all tasks are over, or some task never returns from its own work
  (or panics in it), or the configured concurrency is zero; then no task ever starts and the round waits for ever.\<close>
theorem rounds_are_bounded:
  assumes "(round_step C ^^ n) (st, spawn_all bin_cache pending) (st', ts)"
  shows "busy phase_activity ts \<le> concurrency (rc_config C) \<and> n \<le> 15 * length pending \<and>
    ((\<nexists>x. round_step C (st', ts) x) \<longrightarrow>
       all_over ts \<or> concurrency (rc_config C) = 0 \<or>
       (\<exists>(w, p) \<in> set ts. phase_activity p \<noteq> Over \<and> role_step C w p st' = None)) \<and>
    (concurrency (rc_config C) = 0 \<and> pending \<noteq> [] \<longrightarrow> n = 0 \<and> \<not> all_over ts)"
proof -
  have idle: "busy phase_activity (spawn_all bin_cache pending) = 0"
    by (simp add: busy_def spawn_all_def filter_empty_conv)
  have "(round_step C)\<^sup>*\<^sup>* (st, spawn_all bin_cache pending) (st', ts)" using assms by (rule relpowp_imp_rtranclp)
  then have "busy phase_activity ts \<le> concurrency (rc_config C)"
    by (rule role_tasks.permits_bound) (simp add: idle)
  moreover have "n \<le> 15 * length pending"
  proof -
    have "sum_list (map (phase_rank \<circ> snd) (spawn_all bin_cache pending)) = 15 * length pending"
      by (induction pending) (simp_all add: spawn_all_def)
    then show ?thesis using role_tasks.steps_bounded [OF assms] by simp
  qed
  moreover have "(\<nexists>x. round_step C (st', ts) x) \<longrightarrow> all_over ts \<or> concurrency (rc_config C) = 0 \<or>
      (\<exists>(w, p) \<in> set ts. phase_activity p \<noteq> Over \<and> role_step C w p st' = None)"
    using role_tasks.halted [of "concurrency (rc_config C)" C st' ts] unfolding all_over_def list_all_iff by blast
  moreover have "n = 0 \<and> \<not> all_over ts" if zero: "concurrency (rc_config C) = 0" "pending \<noteq> []"
  proof -
    have none: "\<not> round_step C (st, spawn_all bin_cache pending) (s2, ts2)" for s2 ts2
    proof
      assume "round_step C (st, spawn_all bin_cache pending) (s2, ts2)"
      then obtain i w p where "i < length (spawn_all bin_cache pending)" "spawn_all bin_cache pending ! i = (w, p)"
        "phase_activity p = Idle \<longrightarrow> busy phase_activity (spawn_all bin_cache pending) < concurrency (rc_config C)"
        by (rule pool_stepE)
      then show False using zero(1) by (simp add: spawn_all_def split_beta)
    qed
    have "n = 0"
    proof (cases n)
      case (Suc m)
      then have "(round_step C ^^ Suc m) (st, spawn_all bin_cache pending) (st', ts)" using assms by simp
      then obtain x where "round_step C (st, spawn_all bin_cache pending) x" by (metis relpowp_Suc_D2)
      then show ?thesis using none by (metis surj_pair)
    qed simp
    moreover have "ts = spawn_all bin_cache pending" using assms \<open>n = 0\<close> by simp
    ultimately show ?thesis using zero(2) by (cases pending) (simp_all add: all_over_def spawn_all_def)
  qed
  ultimately show ?thesis by blast
qed

text \<open>C34: The state follows the roles: after any number of rounds and reloads, when the last scan of the bins succeeded, the
  roles that have an entry in the state are exactly those the scheduler works on; entries of roles that are gone from
  the configuration have been removed, and every role found has one, whatever the rounds did since.  At any time, after a
  scan that failed as well, no key has two entries, and the round counter is positive and dated.\<close>
theorem scheduler_state_well_formed:
  assumes "scheduler_init F mtime config_path config st = Ok s0" "scheduler_runs W s0 scanned s"
  shows "(scanned \<longrightarrow> fst ` set (roles (sc_state s)) = rt_key ` set (sc_roles s)) \<and>
    distinct (map fst (roles (sc_state s))) \<and> round_date (sc_state s) \<noteq> None \<and> 0 < round_count (sc_state s)"
proof -
  have "scanned \<longrightarrow> in_step s"
    using assms(2)
  proof (induction rule: scheduler_runs.induct)
    case (first P s)
    then show ?case using execute_round_in_step init_in_step [OF assms(1)] by blast
  next
    case (turn scanned s P F mtime load s')
    then show ?case using execute_round_in_step reload_in_step by blast
  qed
  moreover have "one_entry (sc_state s) \<and> round_date (sc_state s) \<noteq> None \<and> 0 < round_count (sc_state s)"
    using assms(2)
  proof (induction rule: scheduler_runs.induct)
    case (first P s)
    then show ?case using execute_round_state one_entry_init [OF assms(1)] by fastforce
  next
    case (turn scanned s P F mtime load s')
    then show ?case using execute_round_state one_entry_reload by fastforce
  qed
  ultimately show ?thesis by (simp add: one_entry_def in_step_def)
qed

text \<open>No list of roles comes from a bin, whatever was requested before.\<close>
definition silent :: "files \<Rightarrow> bin_config \<Rightarrow> bool" where
  "silent F bin = (\<forall>data c. \<not> is_ok (fst (get_server_list (fi_host F bin) data c)))"

lemma scanned_keys:
  assumes "scan_bins F config_path bs c (found, cache) = (outcome, found', cache')"
    and "\<forall>bin \<in> set bs. normalize_path_for_id (bc_path bin) = path \<longrightarrow> silent F bin"
    and "\<forall>r \<in> set found. rt_key r \<noteq> role_key path sid"
  shows "\<forall>r \<in> set found'. rt_key r \<noteq> role_key path sid"
  using assms
proof (induction bs arbitrary: c found cache)
  case (Cons bin bs)
  show ?case
  proof (cases "fi_read F (resolve_bin_path config_path (bc_path bin))")
    case (Inl e)
    then show ?thesis using Cons.prems by (simp add: Let_def)
  next
    case data: (Inr data)
    obtain r c1 where list: "get_server_list (fi_host F bin) data c = (r, c1)"
      by (cases "get_server_list (fi_host F bin) data c")
    show ?thesis
    proof (cases r)
      case (Inl e)
      then show ?thesis using Cons.prems data list by (intro Cons.IH [of c1 found]) (simp_all add: Let_def)
    next
      case (Inr all)
      have "is_ok (fst (get_server_list (fi_host F bin) data c))" using list Inr by simp
      then have "normalize_path_for_id (bc_path bin) \<noteq> path" using Cons.prems(2) by (auto simp: silent_def)
      then have new: "rt_key (make_task (normalize_path_for_id (bc_path bin)) a) \<noteq> role_key path sid" for a
        by (simp add: make_task_def role_key_inject)
      show ?thesis
      proof (rule Cons.IH)
        show "scan_bins F config_path bs c1 (found @ map (make_task (normalize_path_for_id (bc_path bin))) (filter_roles bin all),
            AList.update (normalize_path_for_id (bc_path bin)) data cache) = (outcome, found', cache')"
          using Cons.prems(1) data list Inr by (simp add: Let_def)
        show "\<forall>b \<in> set bs. normalize_path_for_id (bc_path b) = path \<longrightarrow> silent F b" using Cons.prems(2) by simp
        show "\<forall>r \<in> set (found @ map (make_task (normalize_path_for_id (bc_path bin))) (filter_roles bin all)).
            rt_key r \<noteq> role_key path sid"
          using Cons.prems(3) new by auto
      qed
    qed
  qed
qed simp

text \<open>C35: A rescan forgets the roles of a bin that does not answer: when the list of roles of a bin cannot be had,
  the scan still succeeds, and the state that is then brought in line with it has no entry for any role of
  that bin; what had been recorded of them is gone.\<close>
theorem rescan_forgets_silent_bins:
  assumes "scan_roles F config s = (Ok (), s1)"
    and "\<forall>bin \<in> set (bins config). normalize_path_for_id (bc_path bin) = path \<longrightarrow> silent F bin"
  shows "role_entry (sc_state (sync_roles s1)) (role_key path sid) = None"
proof -
  obtain outcome found cache where
    scan: "scan_bins F (cw_path (sc_watcher s)) (bins config) http_new ([], sc_bin_cache s) = (outcome, found, cache)"
    by (metis surj_pair)
  then have "sc_roles s1 = found" using assms(1) by (auto simp: scan_roles_def)
  moreover have "\<forall>r \<in> set found. rt_key r \<noteq> role_key path sid"
    by (rule scanned_keys [OF scan assms(2)]) simp
  ultimately show ?thesis by (intro entry_sync_roles) auto
qed

section \<open>Sample rounds\<close>

definition sample_host :: host where
  "sample_host = \<lparr>h_post = (\<lambda>_ _. Err ''connection refused''), h_display = (\<lambda>_. []), h_frame_read = (\<lambda>_ _. Err ''no frame''),
     h_compress = (\<lambda>_. None), h_key = 7, h_rnd = 9, h_millis = 0, h_nanos1 = 0, h_nanos2 = 0, h_text = (\<lambda>_. []),
     h_connect = (\<lambda>_. Ok ())\<rparr>"

definition sample_ctx :: round_ctx where
  "sample_ctx = \<lparr>rc_config = sample_config, rc_prefix = [], rc_env = (\<lambda>_. dead_env), rc_host = (\<lambda>_. sample_host),
     rc_lower = (\<lambda>s. s), rc_bank = [], rc_iso_week = (\<lambda>_. (2026, 19))\<rparr>"

definition sample_task :: "nat \<Rightarrow> role_task" where
  "sample_task n = \<lparr>rt_key = role_key ''a.bin'' n, rt_display = ''a/1-0-x'', rt_bin_path = ''a.bin'', rt_server_id = n,
     rt_role_name = ''x''\<rparr>"

definition sample_planning :: planning where
  "sample_planning = \<lparr>pl_today = sample_now, pl_secs = 0, pl_evotower_active = False\<rparr>"

definition sample_scheduler :: "batch_config \<Rightarrow> scheduler" where
  "sample_scheduler config = \<lparr>sc_watcher = \<lparr>cw_path = ''config.yaml'', last_modified = None, current = config, bin_modified = []\<rparr>,
     sc_state = app_state_default, sc_roles = [sample_task 21, sample_task 22], sc_bin_cache = [(''a.bin'', [112, 108])],
     sc_in_maintenance = False\<rparr>"

lemma sample_outside: "maintenance_hit_at sample_now sample_config = None"
proof -
  have "\<not> in_window default_maintenance_windows Mon 570"
    unfolding default_windows_printed by (simp add: in_window_def valid_print)
  then show ?thesis using maintenance_hit_iff [of sample_now sample_config]
    by (simp add: sample_now_def sample_config_def minute_of_day_def)
qed

lemma sample_reached: "daily_time_reached_at sample_now sample_config"
proof -
  have "minutes_to_hhmm 360 = ''06:00''" by code_simp
  then have "parse_hhmm_strict ''06:00'' = Some (6, 0)" using parse_minutes [of 360] by simp
  then show ?thesis
    by (simp add: daily_time_reached_at_def effective_daily_start_def parse_schedule_time_def parse_hhmm_with_fallback_def
        sample_now_def sample_config_def is_time_reached_def unwrap_or_def)
qed

definition sample_plan :: "nat \<Rightarrow> role_run_plan" where
  "sample_plan n = \<lparr>plan_role = sample_task n, needs_daily = True, needs_periodic = True, needs_weekly = False\<rparr>"

definition sample_state :: app_state where
  "sample_state = app_state_default\<lparr>round_date := Some ''2026-05-04'', round_count := 1\<rparr>"

lemma sample_begin:
  "begin_round True sample_planning (sample_scheduler sample_config) =
     (1, [sample_plan 21, sample_plan 22], (sample_scheduler sample_config)\<lparr>sc_state := sample_state\<rparr>)"
  using sample_outside sample_reached
  by (simp add: sample_state_def begin_round_def policy_new_def sample_planning_def sample_scheduler_def next_round_def Let_def
      app_state_default_def collect_def reset_expired_def plan_for_def sample_plan_def sample_now_def sample_config_def
      map_filter_simps)

lemma sample_no_session: "\<exists>e. open_session (ctx_of_round sample_ctx c n) [112, 108] (sample_task k) = Some (Inl e)"
  by (simp add: open_session_def ctx_of_round_def sample_ctx_def select_role_token_def parse_bin_def parse_message_def
      parse_message_with_limits_def try_auto_decrypt_def decrypt_lz4_checked_def extract_mask_def)


definition sample_round :: round_ctx where
  "sample_round = ctx_of_round sample_ctx sample_config 1"

definition sample_tasks :: "phase list \<Rightarrow> (spawned \<times> phase) list" where
  "sample_tasks ps = zip [(sample_plan 21, [112, 108]), (sample_plan 22, [112, 108])] ps"

lemma sample_current [simp]: "sc_config (sample_scheduler config) = config"
  by (simp add: sample_scheduler_def)

lemma idle_round:
  assumes "begin_round force_all P s = (round, [], s1)"
  shows "execute_round W force_all P s s1"
  using round [OF assms, of W "sc_state s1" "[]"] by (simp add: spawn_all_def all_over_def)

lemma sample_spawned:
  "spawn_all (sc_bin_cache (sample_scheduler sample_config)) [sample_plan 21, sample_plan 22] = sample_tasks [Waiting, Waiting]"
  by (simp add: spawn_all_def sample_tasks_def sample_scheduler_def sample_plan_def sample_task_def)

lemma sample_step:
  assumes "i < 2" "length ps = 2" "ps ! i = p" "role_step sample_round (sample_plan (21 + i), [112, 108]) p st = Some (p', st')"
  shows "round_step sample_round (st, sample_tasks ps) (st', sample_tasks (ps[i := p']))"
proof -
  obtain a b where ps: "ps = [a, b]" using assms(2) by (auto simp: length_Suc_conv numeral_2_eq_2)
  have "concurrency (rc_config sample_round) = 5" by (simp add: sample_round_def ctx_of_round_def sample_config_def)
  moreover have "busy phase_activity (sample_tasks ps) \<le> 2"
    unfolding busy_def using length_filter_le [of "\<lambda>(w, p). phase_activity p = Busy" "sample_tasks ps"]
    by (simp add: sample_tasks_def ps)
  ultimately have permit: "phase_activity p = Idle \<longrightarrow> busy phase_activity (sample_tasks ps) < concurrency (rc_config sample_round)"
    by simp
  have at: "sample_tasks ps ! i = ((sample_plan (21 + i), [112, 108]), p)" "i < length (sample_tasks ps)"
    "sample_tasks (ps[i := p']) = (sample_tasks ps)[i := ((sample_plan (21 + i), [112, 108]), p')]"
    using assms(1,3) by (auto simp: sample_tasks_def ps less_2_cases_iff)
  show ?thesis unfolding at(3) using at(2,1) permit assms(4) by (rule advance)
qed

lemma sample_fails: "role_step sample_round (sample_plan k, [112, 108]) Opening st = Some (Finished None, st)"
  using sample_no_session [of sample_config 1 k] by (auto simp: sample_plan_def sample_round_def)

lemma sample_round_run:
  "(round_step sample_round ^^ 4) (sample_state, sample_tasks [Waiting, Waiting])
     (sample_state, sample_tasks [Finished None, Finished None])"
proof -
  have "round_step sample_round (sample_state, sample_tasks [Waiting, Waiting]) (sample_state, sample_tasks [Waiting, Opening])"
    using sample_step [of 1 "[Waiting, Waiting]" Waiting sample_state Opening sample_state] by simp
  moreover have "round_step sample_round (sample_state, sample_tasks [Waiting, Opening]) (sample_state, sample_tasks [Opening, Opening])"
    using sample_step [of 0 "[Waiting, Opening]" Waiting sample_state Opening sample_state] by simp
  moreover have "round_step sample_round (sample_state, sample_tasks [Opening, Opening]) (sample_state, sample_tasks [Opening, Finished None])"
    using sample_step [of 1 "[Opening, Opening]" Opening sample_state "Finished None" sample_state] by (simp add: sample_fails del: role_step.simps)
  moreover have "round_step sample_round (sample_state, sample_tasks [Opening, Finished None])
      (sample_state, sample_tasks [Finished None, Finished None])"
    using sample_step [of 0 "[Opening, Finished None]" Opening sample_state "Finished None" sample_state] by (simp add: sample_fails del: role_step.simps)
  ultimately show ?thesis by (auto simp: numeral_eq_Suc intro!: relcomppI)
qed

lemma sample_over: "all_over (sample_tasks [Finished None, Finished None])"
  by (simp add: all_over_def sample_tasks_def)

theorem rounds_are_bounded_witness:
  "busy phase_activity (sample_tasks [Finished None, Finished None]) \<le> 5 \<and> (4 :: nat) \<le> 15 * length [sample_plan 21, sample_plan 22]"
  using rounds_are_bounded [of 4 sample_round sample_state "sc_bin_cache (sample_scheduler sample_config)"
      "[sample_plan 21, sample_plan 22]" sample_state "sample_tasks [Finished None, Finished None]"] sample_round_run
  by (simp add: sample_spawned) (simp add: sample_round_def ctx_of_round_def sample_config_def)

theorem round_runs_roles_separately_witness:
  "\<exists>st1 g. run_one sample_round [112, 108] (sample_plan 22) sample_state = Some (st1, g) \<and>
     role_entry sample_state (role_key ''a.bin'' 22) = role_entry st1 (role_key ''a.bin'' 22)"
proof -
  have run: "(round_step sample_round)\<^sup>*\<^sup>*
      (sc_state ((sample_scheduler sample_config)\<lparr>sc_state := sample_state\<rparr>),
       spawn_all (sc_bin_cache (sample_scheduler sample_config)) [sample_plan 21, sample_plan 22])
      (sample_state, sample_tasks [Finished None, Finished None])"
    using relpowp_imp_rtranclp [OF sample_round_run] by (simp only: sample_spawned) simp
  have "distinct (map (\<lambda>plan. rt_key (plan_role plan)) [sample_plan 21, sample_plan 22])"
    by (simp add: sample_plan_def sample_task_def role_key_inject)
  from round_runs_roles_separately [OF sample_begin this, of sample_ctx sample_state "sample_tasks [Finished None, Finished None]"]
    run sample_over sample_current
  have "\<forall>w \<in> fst ` set (sample_tasks [Waiting, Waiting]).
      \<exists>st1 g. run_one sample_round (snd w) (fst w) sample_state = Some (st1, g) \<and>
        role_entry sample_state (task_key w) = role_entry st1 (task_key w)"
    by (simp add: sample_spawned sample_round_def)
  then show ?thesis by (simp add: sample_tasks_def task_key_def sample_plan_def sample_task_def)
qed

text \<open>A window that covers Monday morning.\<close>
definition closed_config :: batch_config where
  "closed_config = sample_config\<lparr>maintenance_windows := [print_window Mon (540, 600)]\<rparr>"

theorem maintenance_suspends_rounds_witness:
  "\<exists>s'. execute_round sample_ctx True sample_planning (sample_scheduler closed_config) s' \<and> sc_in_maintenance s' \<and>
     roles (sc_state s') = roles (sc_state (sample_scheduler closed_config))"
proof -
  have "in_window (maintenance_windows closed_config) Mon 570" by (simp add: closed_config_def in_window_def valid_print)
  then have inside: "in_window (maintenance_windows (sc_config (sample_scheduler closed_config))) (ln_weekday (pl_today sample_planning))
      (minute_of_day (pl_today sample_planning))" and minute: "ln_minute (pl_today sample_planning) < 60"
    by (simp_all add: sample_scheduler_def sample_planning_def sample_now_def minute_of_day_def)
  obtain round s1 where started: "begin_round True sample_planning (sample_scheduler closed_config) = (round, [], s1)"
    using inside maintenance_hit_iff [OF minute, of "sc_config (sample_scheduler closed_config)"]
    by (cases "next_round (ln_date (pl_today sample_planning)) (sc_state (sample_scheduler closed_config))")
      (auto simp: begin_round_def Let_def policy_new_def)
  note idle = idle_round [OF started, of sample_ctx]
  from maintenance_suspends_rounds [OF idle minute] idle show ?thesis using inside by blast
qed

definition no_files :: files where
  "no_files = \<lparr>fi_read = (\<lambda>_. Ok [112, 108]), fi_shown = (\<lambda>_. []), fi_host = (\<lambda>_. sample_host)\<rparr>"

text \<open>The state of a role whose bin is no longer configured.\<close>
definition stale_state :: app_state where
  "stale_state = app_state_default\<lparr>roles := [(role_key ''gone.bin'' 9, role_state_default)]\<rparr>"

theorem scheduler_state_well_formed_witness:
  "\<exists>s0 s. scheduler_init no_files (\<lambda>_. None) ''config.yaml'' closed_config stale_state = Ok s0 \<and>
     scheduler_runs sample_ctx s0 True s \<and> roles (sc_state s) = [] \<and> 0 < round_count (sc_state s)"
proof -
  obtain s0 where init: "scheduler_init no_files (\<lambda>_. None) ''config.yaml'' closed_config stale_state = Ok s0"
    by (auto simp: scheduler_init_def scan_roles_def closed_config_def sample_config_def Let_def)
  have none: "sc_roles s0 = []"
    using init by (auto simp: scheduler_init_def scan_roles_def closed_config_def sample_config_def Let_def sync_roles_def
        split: prod.splits)
  moreover obtain round pending s1 where started: "begin_round True sample_planning s0 = (round, pending, s1)"
    by (metis surj_pair)
  ultimately have "pending = []"
    by (auto simp: begin_round_def collect_def Let_def map_filter_simps split: prod.splits if_splits)
  then have "scheduler_runs sample_ctx s0 True s1" using idle_round started by (intro scheduler_runs.first) simp
  moreover have "sc_roles s1 = []" using begin_round_known(2) [OF started] none by simp
  ultimately show ?thesis using scheduler_state_well_formed [OF init, of sample_ctx True s1] init by auto
qed

text \<open>One bin, whose role 7 has a state, and a login server that refuses connections.\<close>
definition bin_scheduler :: scheduler where
  "bin_scheduler = (sample_scheduler sample_config)\<lparr>sc_state :=
     app_state_default\<lparr>roles := [(role_key ''bins/a.bin'' 7, role_state_default)]\<rparr>\<rparr>"

definition bin_config_a :: batch_config where
  "bin_config_a = sample_config\<lparr>bins := [\<lparr>bc_bin = ''a.bin'', bc_path = ''bins/a.bin'', bc_server_ids = []\<rparr>]\<rparr>"

lemma all_silent: "silent no_files bin"
  by (simp add: silent_def no_files_def get_server_list_def post_serverlist_def post_bin_def sample_host_def)

theorem rescan_forgets_silent_bins_witness:
  "\<exists>s1. scan_roles no_files bin_config_a bin_scheduler = (Ok (), s1) \<and>
     role_entry (sc_state s1) (role_key ''bins/a.bin'' 7) = Some role_state_default \<and>
     role_entry (sc_state (sync_roles s1)) (role_key ''bins/a.bin'' 7) = None"
proof -
  obtain c where silent_list: "get_server_list sample_host [112, 108] http_new = (Err ''connection refused'', c)"
    by (simp add: get_server_list_def post_serverlist_def post_bin_def sample_host_def)
  obtain s1 where scan: "scan_roles no_files bin_config_a bin_scheduler = (Ok (), s1)" "sc_state s1 = sc_state bin_scheduler"
    using silent_list by (auto simp: scan_roles_def bin_config_a_def no_files_def Let_def)
  from rescan_forgets_silent_bins [OF scan(1), of "''bins/a.bin''" 7] show ?thesis
    using scan by (simp add: all_silent) (simp add: bin_scheduler_def role_entry_def)
qed

end
