(* ===== verification/WebSocket.thy ===== *)
theory WebSocket
  imports Protocol ErrorCodes
begin

text \<open>
  \<open>src/src/websocket.rs\<close>: a connection as its tasks see it.  The callers, the write task, the read task, the heartbeat
  and the network take turns in any order; a step is what one of them does between two awaits.  The channel to the write task
  holds 100 packets, the channel of incoming messages 200; the send into a full channel waits.  \<open>c_heard\<close> is a record for
  the proofs, of the messages that were dispatched.
\<close>

section \<open>Addresses\<close>

text \<open>A URL as the crate \<open>url\<close> takes it apart; the port is there when it is not the scheme's own.\<close>
record url_parts =
  u_scheme :: string
  u_host :: "string option"
  u_port :: "nat option"
  u_username :: string
  u_password :: "string option"
  u_path :: string
  u_query :: "string option"
  u_fragment :: "string option"

text \<open>The functions of that crate: parsing, resolving against a base, the setters (which normalise and escape what they are
  given), \<open>query_pairs_mut().append_pair\<close>, and the text.\<close>
record url_crate =
  url_parse :: "string \<Rightarrow> url_parts res"
  url_join :: "url_parts \<Rightarrow> string \<Rightarrow> url_parts res"
  url_set_path :: "string \<Rightarrow> url_parts \<Rightarrow> url_parts"
  url_set_query :: "string option \<Rightarrow> url_parts \<Rightarrow> url_parts"
  url_set_fragment :: "string option \<Rightarrow> url_parts \<Rightarrow> url_parts"
  url_append_pair :: "string \<Rightarrow> string \<Rightarrow> url_parts \<Rightarrow> url_parts"
  url_text :: "url_parts \<Rightarrow> string"

definition build_url_with_base :: "url_crate \<Rightarrow> string \<Rightarrow> string \<Rightarrow> string res" where
  "build_url_with_base U token_json base_url =
     (case url_parse U base_url of
        Inl e \<Rightarrow> Err (''invalid WebSocket base URL: '' @ e)
      | Inr url \<Rightarrow>
          if u_scheme url \<noteq> ''ws'' \<and> u_scheme url \<noteq> ''wss'' then Err ''WebSocket base URL must use ws:// or wss://''
          else if u_host url = None \<or> u_username url \<noteq> [] \<or> u_password url \<noteq> None
          then Err ''WebSocket base URL must be an origin without credentials''
          else if u_query url \<noteq> None \<or> u_fragment url \<noteq> None
          then Err ''WebSocket base URL must not contain a query or fragment''
          else Ok (url_text U (url_append_pair U ''lang'' ''chinese'' (url_append_pair U ''e'' ''x''
                 (url_append_pair U ''p'' token_json (url_set_path U ''/agent'' url))))))"

text \<open>\<open>expect\<close>: \<open>None\<close> is a panic.\<close>
definition build_url :: "url_crate \<Rightarrow> string \<Rightarrow> string option" where
  "build_url U token_json = ok (build_url_with_base U token_json ''wss://xxz-xyzw.hortorgames.com'')"

section \<open>State\<close>

text \<open>A call of \<open>send_with_response\<close>, or of \<open>send\<close> when there is no timeout.\<close>
record call =
  cl_cmd :: string
  cl_params :: "json option"
  cl_timeout :: "nat option"

text \<open>Where a call is: begun, with its number, with the ack it will carry, with its reply expected, with its packet handed to
  the write task, back at the caller.\<close>
datatype stage =
    Begun
  | Numbered u32
  | Stamped u32 u32
  | Registered u32 u32
  | Awaiting u32
  | Returned u32 "json res"

text \<open>The read task waits for a frame, looks for the call a message answers, hands the message on, or has ended.\<close>
datatype reader = Reading | Matching proto_msg | Forwarding json | Closed

record conn =
  c_seq :: u32
  c_ack :: u32
  c_pending :: "u32 \<Rightarrow> nat option"
  c_replies :: "nat \<Rightarrow> json res option"
  c_calls :: "(call \<times> stage) list"
  c_outbox :: "bytes list"
  c_writing :: bool
  c_written :: "bytes list"
  c_reader :: reader
  c_messages :: "json list"
  c_beating :: bool
  c_heard :: "proto_msg list"

definition connect :: conn where
  "connect = \<lparr>c_seq = 1, c_ack = 0, c_pending = (\<lambda>_. None), c_replies = (\<lambda>_. None), c_calls = [], c_outbox = [],
     c_writing = True, c_written = [], c_reader = Reading, c_messages = [], c_beating = True, c_heard = []\<rparr>"

definition WRITE_CAPACITY :: nat where "WRITE_CAPACITY = 100"
definition MESSAGE_CAPACITY :: nat where "MESSAGE_CAPACITY = 200"

text \<open>The clock and the randomness of a packet are arguments.\<close>
definition build_packet :: "u8 \<Rightarrow> u32 \<Rightarrow> i64 \<Rightarrow> string \<Rightarrow> json option \<Rightarrow> u32 \<Rightarrow> u32 \<Rightarrow> bytes" where
  "build_packet key rnd now cmd params ack seq = xor_encrypt key rnd (encode_game_packet cmd ack seq now params)"

section \<open>Dispatching a message\<close>

definition response_value :: "(json \<Rightarrow> string) \<Rightarrow> proto_msg \<Rightarrow> json" where
  "response_value show m = unwrap_or (raw_data show m) (Object (get_data m))"

definition reply_of :: "(json \<Rightarrow> string) \<Rightarrow> proto_msg \<Rightarrow> json res" where
  "reply_of show m =
     (if msg_code m = 0 then Ok (response_value show m) else Err (format_error (sint (msg_code m)) (msg_hint m)))"

definition full_message :: "(json \<Rightarrow> string) \<Rightarrow> proto_msg \<Rightarrow> json" where
  "full_message show m =
     Object [(''cmd'', Str (unwrap_or (msg_cmd m) [])), (''code'', Number (number_from_i32 (msg_code m))),
             (''data'', response_value show m)]"

text \<open>A binary frame: one that does not parse is dropped, else the server's number is the next ack.\<close>
definition on_frame :: "(json \<Rightarrow> string) \<Rightarrow> (bytes \<Rightarrow> nat \<Rightarrow> bytes res) \<Rightarrow> bytes \<Rightarrow> conn \<Rightarrow> conn" where
  "on_frame show frame_read data c =
     (case parse_message show frame_read data of
        Inl e \<Rightarrow> c
      | Inr m \<Rightarrow> (if 0 < msg_seq m then c\<lparr>c_ack := msg_seq m\<rparr> else c)\<lparr>c_reader := Matching m\<rparr>)"

text \<open>The call whose number the message answers is taken from the pending ones and gets the reply.\<close>
definition dispatch :: "(json \<Rightarrow> string) \<Rightarrow> proto_msg \<Rightarrow> conn \<Rightarrow> conn" where
  "dispatch show m c =
     (let c = (if 0 < msg_resp m then
                 (case c_pending c (msg_resp m) of
                    Some i \<Rightarrow> c\<lparr>c_pending := (c_pending c)(msg_resp m := None), c_replies := (c_replies c)(i \<mapsto> reply_of show m)\<rparr>
                  | None \<Rightarrow> c)
               else c)
      in c\<lparr>c_reader := Forwarding (full_message show m), c_heard := c_heard c @ [m]\<rparr>)"

section \<open>Steps\<close>

definition move :: "nat \<Rightarrow> stage \<Rightarrow> conn \<Rightarrow> conn" where
  "move i st c = c\<lparr>c_calls := (c_calls c)[i := (fst (c_calls c ! i), st)]\<rparr>"

definition at :: "conn \<Rightarrow> nat \<Rightarrow> stage \<Rightarrow> bool" where
  "at c i st = (i < length (c_calls c) \<and> snd (c_calls c ! i) = st)"

definition waits :: "conn \<Rightarrow> nat \<Rightarrow> bool" where
  "waits c i = (cl_timeout (fst (c_calls c ! i)) \<noteq> None)"

text \<open>\<open>s += 1\<close> on \<open>u32\<close>, wrapping as a release build does.\<close>
definition take_number :: "nat \<Rightarrow> conn \<Rightarrow> conn" where
  "take_number i c = (move i (Numbered (c_seq c)) c)\<lparr>c_seq := c_seq c + 1\<rparr>"

definition enqueue :: "bytes \<Rightarrow> conn \<Rightarrow> conn" where
  "enqueue data c = c\<lparr>c_outbox := c_outbox c @ [data]\<rparr>"

definition timeout_text :: "call \<Rightarrow> string" where
  "timeout_text q = ''Timeout after '' @ nat_str (unwrap_or (cl_timeout q) 0) @ ''ms for cmd='' @ cl_cmd q"

text \<open>\<open>drained\<close> says whether the program that owns the connection takes messages from \<open>messages\<close>.\<close>
inductive conn_step ::
  "bool \<Rightarrow> (json \<Rightarrow> string) \<Rightarrow> (bytes \<Rightarrow> nat \<Rightarrow> bytes res) \<Rightarrow> conn \<Rightarrow> conn \<Rightarrow> bool"
  for drained display frame_read
where
  call_begins: "conn_step drained display frame_read c (c\<lparr>c_calls := c_calls c @ [(q, Begun)]\<rparr>)"
| call_numbers: "at c i Begun \<Longrightarrow> conn_step drained display frame_read c (take_number i c)"
| call_stamps: "at c i (Numbered n) \<Longrightarrow> conn_step drained display frame_read c (move i (Stamped n (c_ack c)) c)"
| call_registers: "at c i (Stamped n a) \<Longrightarrow> waits c i \<Longrightarrow>
    conn_step drained display frame_read c ((move i (Registered n a) c)\<lparr>c_pending := (c_pending c)(n \<mapsto> i)\<rparr>)"
| call_queues: "at c i (Registered n a) \<Longrightarrow> c_writing c \<Longrightarrow> length (c_outbox c) < WRITE_CAPACITY \<Longrightarrow>
    conn_step drained display frame_read c (enqueue (build_packet key rnd now (cl_cmd (fst (c_calls c ! i)))
      (cl_params (fst (c_calls c ! i))) a n) (move i (Awaiting n) c))"
| call_refused: "at c i (Registered n a) \<Longrightarrow> \<not> c_writing c \<Longrightarrow>
    conn_step drained display frame_read c (move i (Returned n (Err ''channel closed'')) c)"
| call_answered: "at c i (Awaiting n) \<Longrightarrow> c_replies c i = Some r \<Longrightarrow>
    conn_step drained display frame_read c ((move i (Returned n r) c)\<lparr>c_replies := (c_replies c)(i := None)\<rparr>)"
| call_abandoned: "at c i (Awaiting n) \<Longrightarrow> c_replies c i = None \<Longrightarrow> \<forall>k. c_pending c k \<noteq> Some i \<Longrightarrow>
    conn_step drained display frame_read c (move i (Returned n (Err ''Response channel closed'')) c)"
| call_expires: "at c i (Awaiting n) \<Longrightarrow>
    conn_step drained display frame_read c ((move i (Returned n (Err (timeout_text (fst (c_calls c ! i))))) c)
      \<lparr>c_pending := (c_pending c)(n := None)\<rparr>)"
| notice_queues: "at c i (Stamped n a) \<Longrightarrow> \<not> waits c i \<Longrightarrow> c_writing c \<Longrightarrow> length (c_outbox c) < WRITE_CAPACITY \<Longrightarrow>
    conn_step drained display frame_read c (enqueue (build_packet key rnd now (cl_cmd (fst (c_calls c ! i)))
      (cl_params (fst (c_calls c ! i))) a n) (move i (Returned n (Ok (Number (number_from_u64 (ucast n))))) c))"
| notice_refused: "at c i (Stamped n a) \<Longrightarrow> \<not> waits c i \<Longrightarrow> \<not> c_writing c \<Longrightarrow>
    conn_step drained display frame_read c (move i (Returned n (Err ''channel closed'')) c)"
| writes: "c_writing c \<Longrightarrow> c_outbox c = data # rest \<Longrightarrow> data \<noteq> [] \<Longrightarrow>
    conn_step drained display frame_read c (c\<lparr>c_outbox := rest, c_written := c_written c @ [data]\<rparr>)"
| write_stops: "c_writing c \<Longrightarrow> c_outbox c = data # rest \<Longrightarrow>
    conn_step drained display frame_read c (c\<lparr>c_outbox := [], c_writing := False\<rparr>)"
| receives: "c_reader c = Reading \<Longrightarrow> conn_step drained display frame_read c (on_frame display frame_read data c)"
| matches: "c_reader c = Matching m \<Longrightarrow> conn_step drained display frame_read c (dispatch display m c)"
| forwards: "c_reader c = Forwarding m \<Longrightarrow> length (c_messages c) < MESSAGE_CAPACITY \<Longrightarrow>
    conn_step drained display frame_read c (c\<lparr>c_reader := Reading, c_messages := c_messages c @ [m]\<rparr>)"
| read_stops: "c_reader c = Reading \<Longrightarrow> conn_step drained display frame_read c (c\<lparr>c_reader := Closed\<rparr>)"
| drains: "drained \<Longrightarrow> c_messages c = m # rest \<Longrightarrow> conn_step drained display frame_read c (c\<lparr>c_messages := rest\<rparr>)"
| beats: "c_beating c \<Longrightarrow> c_writing c \<Longrightarrow> length (c_outbox c) < WRITE_CAPACITY \<Longrightarrow>
    conn_step drained display frame_read c (enqueue (build_packet key rnd now ''_sys/ack'' None (c_ack c) 0) c)"
| beating_stops: "c_beating c \<Longrightarrow> \<not> c_writing c \<Longrightarrow> conn_step drained display frame_read c (c\<lparr>c_beating := False\<rparr>)"
| disconnects: "c_writing c \<longrightarrow> length (c_outbox c) < WRITE_CAPACITY \<Longrightarrow>
    conn_step drained display frame_read c
      (if c_writing c then enqueue [] (c\<lparr>c_beating := False\<rparr>) else c\<lparr>c_beating := False\<rparr>)"

definition reachable :: "bool \<Rightarrow> (json \<Rightarrow> string) \<Rightarrow> (bytes \<Rightarrow> nat \<Rightarrow> bytes res) \<Rightarrow> conn \<Rightarrow> bool" where
  "reachable drained display frame_read c = (conn_step drained display frame_read)\<^sup>*\<^sup>* connect c"


section \<open>Invariants\<close>

text \<open>The number of a call, once it has one.\<close>
fun stage_number :: "stage \<Rightarrow> u32 option" where
  "stage_number Begun = None"
| "stage_number (Numbered n) = Some n"
| "stage_number (Stamped n a) = Some n"
| "stage_number (Registered n a) = Some n"
| "stage_number (Awaiting n) = Some n"
| "stage_number (Returned n r) = Some n"

definition num :: "conn \<Rightarrow> nat \<Rightarrow> u32 option" where
  "num c i = (if i < length (c_calls c) then stage_number (snd (c_calls c ! i)) else None)"

text \<open>What the pending table and the replies say of the calls, and what comes back to a caller that waits.\<close>
definition answers_ok :: "(json \<Rightarrow> string) \<Rightarrow> conn \<Rightarrow> bool" where
  "answers_ok display c \<longleftrightarrow>
     (\<forall>k i. c_pending c k = Some i \<longrightarrow> num c i = Some k) \<and>
     (\<forall>i r. c_replies c i = Some r \<longrightarrow> (\<exists>m \<in> set (c_heard c). num c i = Some (msg_resp m) \<and> r = reply_of display m)) \<and>
     (\<forall>i n v. at c i (Returned n (Ok v)) \<longrightarrow> waits c i \<longrightarrow>
        (\<exists>m \<in> set (c_heard c). msg_resp m = n \<and> reply_of display m = Ok v))"

text \<open>As long as fewer calls were made than there are numbers, the numbers given out are below the next one and differ.\<close>
definition numbers_ok :: "conn \<Rightarrow> bool" where
  "numbers_ok c \<longleftrightarrow>
     (length (c_calls c) < 2 ^ 32 - 1 \<longrightarrow>
        unat (c_seq c) = 1 + card {i. num c i \<noteq> None} \<and>
        (\<forall>i n. num c i = Some n \<longrightarrow> unat n < unat (c_seq c)) \<and>
        (\<forall>i j n. num c i = Some n \<longrightarrow> num c j = Some n \<longrightarrow> i = j))"

text \<open>The read task stops when the messages have nowhere to go.\<close>
definition unread_ok :: "conn \<Rightarrow> bool" where
  "unread_ok c \<longleftrightarrow>
     length (c_heard c) = length (c_messages c) + (case c_reader c of Forwarding m \<Rightarrow> 1 | _ \<Rightarrow> 0) \<or>
     c_reader c = Closed \<and> length (c_heard c) = length (c_messages c)"

lemma move_simps [simp]:
  "c_pending (move i st c) = c_pending c" "c_replies (move i st c) = c_replies c" "c_heard (move i st c) = c_heard c"
  "c_seq (move i st c) = c_seq c" "c_reader (move i st c) = c_reader c" "c_messages (move i st c) = c_messages c"
  "length (c_calls (move i st c)) = length (c_calls c)"
  by (simp_all add: move_def)

lemma move_nth: "i < length (c_calls c) \<Longrightarrow> c_calls (move i st c) ! j = (if j = i then (fst (c_calls c ! i), st) else c_calls c ! j)"
  by (simp add: move_def nth_list_update)

lemma num_move: "at c i st0 \<Longrightarrow> num (move i st c) j = (if j = i then stage_number st else num c j)"
  by (auto simp: num_def at_def move_nth)

lemma waits_move: "at c i st0 \<Longrightarrow> waits (move i st c) j = waits c j"
  by (simp add: waits_def at_def move_nth)

lemma update_simps [simp]:
  "num (c\<lparr>c_pending := x1\<rparr>) = num c" "num (c\<lparr>c_replies := x2\<rparr>) = num c" "num (c\<lparr>c_seq := x3\<rparr>) = num c"
  "num (c\<lparr>c_outbox := x4\<rparr>) = num c" "num (c\<lparr>c_writing := x5\<rparr>) = num c" "num (c\<lparr>c_written := x6\<rparr>) = num c"
  "num (c\<lparr>c_reader := x7\<rparr>) = num c" "num (c\<lparr>c_messages := x8\<rparr>) = num c" "num (c\<lparr>c_beating := x9\<rparr>) = num c"
  "num (c\<lparr>c_ack := x3\<rparr>) = num c" "num (c\<lparr>c_heard := x10\<rparr>) = num c" "num (enqueue d c) = num c"
  by (simp_all add: num_def fun_eq_iff enqueue_def)

lemma enqueue_simps [simp]:
  "c_pending (enqueue d c) = c_pending c" "c_replies (enqueue d c) = c_replies c" "c_heard (enqueue d c) = c_heard c"
  "c_seq (enqueue d c) = c_seq c" "c_reader (enqueue d c) = c_reader c" "c_messages (enqueue d c) = c_messages c"
  "c_calls (enqueue d c) = c_calls c"
  by (simp_all add: enqueue_def)

lemma dispatch_simps [simp]:
  "c_calls (dispatch display m c) = c_calls c" "c_heard (dispatch display m c) = c_heard c @ [m]"
  "num (dispatch display m c) = num c" "c_seq (dispatch display m c) = c_seq c"
  "c_messages (dispatch display m c) = c_messages c" "c_reader (dispatch display m c) = Forwarding (full_message display m)"
  by (simp_all add: dispatch_def num_def fun_eq_iff Let_def split: option.split)

lemma on_frame_simps [simp]:
  "c_calls (on_frame display frame_read data c) = c_calls c" "c_heard (on_frame display frame_read data c) = c_heard c"
  "num (on_frame display frame_read data c) = num c" "c_seq (on_frame display frame_read data c) = c_seq c"
  "c_pending (on_frame display frame_read data c) = c_pending c" "c_replies (on_frame display frame_read data c) = c_replies c"
  "c_messages (on_frame display frame_read data c) = c_messages c"
  by (simp_all add: on_frame_def num_def fun_eq_iff split: sum.split)

lemma num_begins [simp]: "num (c\<lparr>c_calls := c_calls c @ [(q, Begun)]\<rparr>) = num c"
  by (auto simp: num_def fun_eq_iff nth_append)

lemma num_at: "at c i st \<Longrightarrow> num c i = stage_number st"
  by (simp add: num_def at_def)

lemma num_step:
  assumes "conn_step drained display frame_read c c'" "num c i = Some n"
  shows "num c' i = Some n"
  using assms by (cases rule: conn_step.cases) (auto simp: num_move num_at take_number_def)

lemma heard_step:
  assumes "conn_step drained display frame_read c c'"
  shows "set (c_heard c) \<subseteq> set (c_heard c')"
  using assms by (cases rule: conn_step.cases) (auto simp: take_number_def)

lemma calls_step:
  assumes "conn_step drained display frame_read c c'"
  shows "length (c_calls c) \<le> length (c_calls c')"
  using assms by (cases rule: conn_step.cases) (auto simp: take_number_def)

lemma pending_step:
  assumes "conn_step drained display frame_read c c'" "c_pending c' k = Some i"
  shows "c_pending c k = Some i \<or> num c' i = Some k"
  using assms
  by (cases rule: conn_step.cases)
    (auto simp: num_move take_number_def dispatch_def Let_def split: if_splits option.splits)

lemma replies_step:
  assumes "conn_step drained display frame_read c c'" "c_replies c' i = Some r"
  shows "c_replies c i = Some r \<or>
    (\<exists>m \<in> set (c_heard c'). c_pending c (msg_resp m) = Some i \<and> r = reply_of display m)"
  using assms
  by (cases rule: conn_step.cases)
    (auto simp: take_number_def dispatch_def Let_def split: if_splits option.splits)

lemma returned_step:
  assumes "conn_step drained display frame_read c c'" "at c' i (Returned n (Ok v))" "waits c' i"
  shows "at c i (Returned n (Ok v)) \<and> waits c i \<or> c_replies c i = Some (Ok v) \<and> num c i = Some n"
  using assms
  by (cases rule: conn_step.cases)
    (auto simp: at_def move_nth num_def waits_def take_number_def nth_append split: if_splits)

lemma answers_step:
  assumes "conn_step drained display frame_read c c'" "answers_ok display c"
  shows "answers_ok display c'"
  unfolding answers_ok_def
proof (intro conjI allI impI)
  fix k i assume "c_pending c' k = Some i"
  from pending_step [OF assms(1) this] show "num c' i = Some k"
    using num_step [OF assms(1), of i k] assms(2) unfolding answers_ok_def by blast
next
  fix i r assume "c_replies c' i = Some r"
  from replies_step [OF assms(1) this] show "\<exists>m \<in> set (c_heard c'). num c' i = Some (msg_resp m) \<and> r = reply_of display m"
  proof
    assume "c_replies c i = Some r"
    then obtain m where "m \<in> set (c_heard c)" "num c i = Some (msg_resp m)" "r = reply_of display m"
      using assms(2) unfolding answers_ok_def by blast
    then show ?thesis using heard_step [OF assms(1)] num_step [OF assms(1)] by auto
  next
    assume "\<exists>m \<in> set (c_heard c'). c_pending c (msg_resp m) = Some i \<and> r = reply_of display m"
    then show ?thesis using num_step [OF assms(1)] assms(2) by (auto simp: answers_ok_def)
  qed
next
  fix i n v assume "at c' i (Returned n (Ok v))" "waits c' i"
  from returned_step [OF assms(1) this] show "\<exists>m \<in> set (c_heard c'). msg_resp m = n \<and> reply_of display m = Ok v"
    using assms(2) heard_step [OF assms(1)] unfolding answers_ok_def by fastforce
qed

lemma num_or_taken:
  assumes "conn_step drained display frame_read c c'"
  shows "(\<forall>j. num c' j = num c j) \<and> c_seq c' = c_seq c \<or>
    (\<exists>i. at c i Begun \<and> c_seq c' = c_seq c + 1 \<and> (\<forall>j. num c' j = (if j = i then Some (c_seq c) else num c j)))"
  using assms
  by (cases rule: conn_step.cases) (auto simp: num_move num_at take_number_def)

lemma finite_numbered: "finite {i. num c i \<noteq> None}" "card {i. num c i \<noteq> None} \<le> length (c_calls c)"
proof -
  have sub: "{i. num c i \<noteq> None} \<subseteq> {..<length (c_calls c)}" by (auto simp: num_def split: if_splits)
  then show "finite {i. num c i \<noteq> None}" by (rule finite_subset) simp
  show "card {i. num c i \<noteq> None} \<le> length (c_calls c)" using card_mono [OF _ sub] by simp
qed

lemma numbers_step:
  assumes "conn_step drained display frame_read c c'" "numbers_ok c"
  shows "numbers_ok c'"
  unfolding numbers_ok_def
proof (intro impI)
  assume small: "length (c_calls c') < 2 ^ 32 - 1"
  then have "length (c_calls c) < 2 ^ 32 - 1" using calls_step [OF assms(1)] by simp
  then have inv: "unat (c_seq c) = 1 + card {i. num c i \<noteq> None}" "\<And>i n. num c i = Some n \<Longrightarrow> unat n < unat (c_seq c)"
    "\<And>i j n. num c i = Some n \<Longrightarrow> num c j = Some n \<Longrightarrow> i = j"
    using assms(2) by (auto simp: numbers_ok_def)
  from num_or_taken [OF assms(1)]
  show "unat (c_seq c') = 1 + card {i. num c' i \<noteq> None} \<and> (\<forall>i n. num c' i = Some n \<longrightarrow> unat n < unat (c_seq c')) \<and>
      (\<forall>i j n. num c' i = Some n \<longrightarrow> num c' j = Some n \<longrightarrow> i = j)"
  proof (elim disjE exE conjE)
    assume "\<forall>j. num c' j = num c j" "c_seq c' = c_seq c"
    then show ?thesis using inv by simp
  next
    fix i assume i: "at c i Begun" "c_seq c' = c_seq c + 1" "\<forall>j. num c' j = (if j = i then Some (c_seq c) else num c j)"
    have fresh: "num c i = None" using num_at [OF i(1)] by simp
    have "{j. num c' j \<noteq> None} = insert i {j. num c j \<noteq> None}" using i(3) by auto
    then have card: "card {j. num c' j \<noteq> None} = 1 + card {j. num c j \<noteq> None}"
      using fresh finite_numbered(1) [of c] by simp
    then have "unat (c_seq c) < 2 ^ 32 - 1" using inv(1) finite_numbered(2) [of c'] small by simp
    then have next_number: "unat (c_seq c') = 1 + unat (c_seq c)"
      unfolding i(2) by (subst unat_add_lem [THEN iffD1]) simp_all
    show ?thesis
    proof (intro conjI allI impI)
      show "unat (c_seq c') = 1 + card {j. num c' j \<noteq> None}" using next_number card inv(1) by simp
    next
      fix j n assume "num c' j = Some n"
      then have "n = c_seq c \<or> num c j = Some n" using i(3) by (auto split: if_splits)
      then show "unat n < unat (c_seq c')" using inv(2) [of j n] next_number by auto
    next
      fix j k n assume "num c' j = Some n" "num c' k = Some n"
      then show "j = k" using i(3) inv(2) [of j n] inv(2) [of k n] inv(3) [of j n k] by (auto split: if_splits)
    qed
  qed
qed

lemma unread_step:
  assumes "conn_step False display frame_read c c'" "unread_ok c \<and> length (c_messages c) \<le> MESSAGE_CAPACITY"
  shows "unread_ok c' \<and> length (c_messages c') \<le> MESSAGE_CAPACITY"
  using assms
  by (cases rule: conn_step.cases)
    (auto simp: unread_ok_def take_number_def on_frame_def split: reader.splits sum.splits)

lemma reachable_answers: "reachable drained display frame_read c \<Longrightarrow> answers_ok display c \<and> numbers_ok c"
  unfolding reachable_def
proof (induction rule: rtranclp_induct)
  case base
  show ?case by (auto simp: answers_ok_def numbers_ok_def connect_def num_def at_def)
next
  case (step c c')
  then show ?case using answers_step numbers_step by blast
qed

lemma reachable_unread: "reachable False display frame_read c \<Longrightarrow> unread_ok c \<and> length (c_messages c) \<le> MESSAGE_CAPACITY"
  unfolding reachable_def
proof (induction rule: rtranclp_induct)
  case base
  show ?case by (simp add: unread_ok_def connect_def)
next
  case (step c c')
  then show ?case using unread_step by blast
qed

section \<open>Properties\<close>

text \<open>C5: Replies are not mixed up: whatever the order in which callers, tasks and network take turns, a value that
  \<open>send_with_response\<close> returns is the value of a message the server sent in response to the number of that very
  call, and no other call of the connection has that number, as long as the numbers have not wrapped.\<close>
theorem replies_reach_their_caller:
  assumes "reachable drained display frame_read c" "length (c_calls c) < 2 ^ 32 - 1"
    and "i < length (c_calls c)" "c_calls c ! i = (q, Returned n (Ok v))" "cl_timeout q \<noteq> None"
  shows "(\<exists>m \<in> set (c_heard c). msg_resp m = n \<and> reply_of display m = Ok v) \<and>
    (\<forall>j < length (c_calls c). stage_number (snd (c_calls c ! j)) = Some n \<longrightarrow> j = i)"
proof -
  have ok: "answers_ok display c" "numbers_ok c" using reachable_answers [OF assms(1)] by blast+
  have "at c i (Returned n (Ok v))" "waits c i" using assms(3-5) by (simp_all add: at_def waits_def)
  then have "\<exists>m \<in> set (c_heard c). msg_resp m = n \<and> reply_of display m = Ok v"
    using ok(1) unfolding answers_ok_def by blast
  moreover have "num c i = Some n" using assms(3,4) by (simp add: num_def)
  then have "j = i" if "j < length (c_calls c)" "stage_number (snd (c_calls c ! j)) = Some n" for j
    using ok(2) that assms(2) by (simp add: numbers_ok_def num_def)
  ultimately show ?thesis by blast
qed

text \<open>The calls that came back with a value.\<close>
definition answered :: "conn \<Rightarrow> nat set" where
  "answered c = {i. i < length (c_calls c) \<and>
     (\<exists>q n v. c_calls c ! i = (q, Returned n (Ok v)) \<and> cl_timeout q \<noteq> None)}"

text \<open>C33: A connection goes deaf: the read task hands every message on to a channel for 200 messages, and when
  nobody takes them from there, as in this program, it never processes more than 201 messages; so at most 201
  calls of a session ever get a value, and all later ones time out.\<close>
theorem unread_messages_silence_the_connection:
  assumes "reachable False display frame_read c" "length (c_calls c) < 2 ^ 32 - 1"
  shows "length (c_heard c) \<le> 201 \<and> card (answered c) \<le> 201"
proof -
  have heard: "length (c_heard c) \<le> 201"
    using reachable_unread [OF assms(1)] by (auto simp: unread_ok_def MESSAGE_CAPACITY_def split: reader.splits)
  have ok: "answers_ok display c" "numbers_ok c" using reachable_answers [OF assms(1)] by blast+
  let ?number = "\<lambda>i. the (num c i)"
  have value_of: "\<exists>n. num c i = Some n \<and> n \<in> msg_resp ` set (c_heard c)" if answered: "i \<in> answered c" for i
  proof -
    obtain q n v where "i < length (c_calls c)" "c_calls c ! i = (q, Returned n (Ok v))" "cl_timeout q \<noteq> None"
      using answered unfolding answered_def by blast
    then have "at c i (Returned n (Ok v))" "waits c i" "num c i = Some n" by (simp_all add: at_def waits_def num_def)
    then show ?thesis using ok(1) unfolding answers_ok_def by blast
  qed
  have "inj_on ?number (answered c)"
  proof (rule inj_onI)
    fix i j assume "i \<in> answered c" "j \<in> answered c" "?number i = ?number j"
    then obtain n where "num c i = Some n" "num c j = Some n" using value_of by (metis option.sel)
    then show "i = j" using ok(2) assms(2) by (simp add: numbers_ok_def)
  qed
  moreover have "?number ` answered c \<subseteq> msg_resp ` set (c_heard c)" using value_of by force
  ultimately have "card (answered c) \<le> card (msg_resp ` set (c_heard c))" by (intro card_inj_on_le) simp_all
  also have "\<dots> \<le> card (set (c_heard c))" by (rule card_image_le) simp
  also have "\<dots> \<le> length (c_heard c)" by (rule card_length)
  finally show ?thesis using heard by simp
qed

section \<open>A sample exchange\<close>

definition sample_object :: object where
  "sample_object = [(''resp'', Number (PosInt 1))]"

definition sample_frame :: bytes where
  "sample_frame = xor_encrypt 40 7 (encode (Object sample_object))"

definition sample_message :: proto_msg where
  "sample_message = proto_with_limits sample_object limits_default"

definition sample_call :: call where
  "sample_call = \<lparr>cl_cmd = ''role_getroleinfo'', cl_params = None, cl_timeout = Some 8000\<rparr>"

lemma sample_parses: "parse_message display frame_read sample_frame = Ok sample_message"
proof -
  have "length (encode (Object sample_object)) = 13" unfolding sample_object_def by code_simp
  moreover have "admissible limits_default (Object sample_object)" "survives (Object sample_object)"
    by (simp_all add: i64_max_def sample_object_def admissible_def limits_ok_def limits_default_def str_fits_def str_valid_ascii ascii_def
        obj_sorted_def)
  ultimately show ?thesis
    using xor_channel.parse_sealed_object [of limits_default sample_object "32 * 1024 * 1024" DEFAULT_MAX_DECOMPRESSED_SIZE
        display frame_read 40 7]
    by (simp add: parse_message_def DEFAULT_MAX_DECOMPRESSED_SIZE_def sample_frame_def sample_message_def)
qed

lemma sample_accessors:
  "msg_resp sample_message = 1" "msg_seq sample_message = 0" "reply_of display sample_message = Ok (Object sample_object)"
  by (simp_all add: sample_message_def proto_with_limits_def sample_object_def msg_resp_def msg_u32_def msg_seq_def msg_code_def
      msg_code_opt_def reply_of_def response_value_def raw_data_def raw_data_result_def msg_body_def get_data_def as_u64_def
      u32_try_from_def)

definition exchanged :: "(json \<Rightarrow> string) \<Rightarrow> conn" where
  "exchanged display = connect\<lparr>c_seq := 2, c_calls := [(sample_call, Returned 1 (Ok (Object sample_object)))],
     c_outbox := [build_packet 1 2 3 ''role_getroleinfo'' None 0 1],
     c_reader := Forwarding (full_message display sample_message), c_heard := [sample_message]\<rparr>"

lemma sample_exchange: "reachable drained display frame_read (exchanged display)"
proof -
  let ?step = "conn_step drained display frame_read"
  define c1 where "c1 = connect\<lparr>c_calls := [(sample_call, Begun)]\<rparr>"
  define c2 where "c2 = c1\<lparr>c_seq := 2, c_calls := [(sample_call, Numbered 1)]\<rparr>"
  define c3 where "c3 = c2\<lparr>c_calls := [(sample_call, Stamped 1 0)]\<rparr>"
  define c4 where "c4 = c3\<lparr>c_calls := [(sample_call, Registered 1 0)], c_pending := [1 \<mapsto> 0]\<rparr>"
  define c5 where "c5 = c4\<lparr>c_calls := [(sample_call, Awaiting 1)], c_outbox := [build_packet 1 2 3 ''role_getroleinfo'' None 0 1]\<rparr>"
  define c6 where "c6 = c5\<lparr>c_reader := Matching sample_message\<rparr>"
  define c7 where "c7 = c6\<lparr>c_pending := (\<lambda>_. None), c_replies := [0 \<mapsto> Ok (Object sample_object)],
    c_reader := Forwarding (full_message display sample_message), c_heard := [sample_message]\<rparr>"
  note cs = c1_def c2_def c3_def c4_def c5_def c6_def c7_def connect_def sample_call_def
  have s1: "?step connect c1"
    using call_begins [of drained display frame_read connect sample_call] by (simp add: cs)
  have s2: "?step c1 c2"
    using call_numbers [of c1 0 drained display frame_read] by (simp add: cs at_def take_number_def move_def)
  have s3: "?step c2 c3"
    using call_stamps [of c2 0 1 drained display frame_read] by (simp add: cs at_def move_def)
  have s4: "?step c3 c4"
    using call_registers [of c3 0 1 0 drained display frame_read] by (simp add: cs at_def waits_def move_def)
  have s5: "?step c4 c5"
    using call_queues [of c4 0 1 0 drained display frame_read 1 2 3]
    by (simp add: cs at_def move_def enqueue_def WRITE_CAPACITY_def)
  have s6: "?step c5 c6"
    using receives [of c5 drained display frame_read sample_frame]
    by (simp add: cs on_frame_def sample_parses sample_accessors)
  have s7: "?step c6 c7"
    using matches [of c6 sample_message drained display frame_read]
    by (simp add: cs dispatch_def sample_accessors)
  have s8: "?step c7 (exchanged display)"
    using call_answered [of c7 0 1 "Ok (Object sample_object)" drained display frame_read]
    by (simp add: cs at_def move_def exchanged_def)
  note chain = rtranclp.rtrancl_into_rtrancl [where r = ?step]
  have "?step\<^sup>*\<^sup>* connect connect" by simp
  from chain [OF this s1] have "?step\<^sup>*\<^sup>* connect c1" .
  from chain [OF this s2] have "?step\<^sup>*\<^sup>* connect c2" .
  from chain [OF this s3] have "?step\<^sup>*\<^sup>* connect c3" .
  from chain [OF this s4] have "?step\<^sup>*\<^sup>* connect c4" .
  then show ?thesis unfolding reachable_def by (rule chain [OF chain [OF chain [OF chain [OF _ s5] s6] s7] s8])
qed

theorem replies_reach_their_caller_witness:
  "\<exists>m \<in> set (c_heard (exchanged (\<lambda>_. []))). msg_resp m = 1 \<and> reply_of (\<lambda>_. []) m = Ok (Object sample_object)"
proof -
  have "length (c_calls (exchanged (\<lambda>_. []))) = 1"
    "c_calls (exchanged (\<lambda>_. [])) ! 0 = (sample_call, Returned 1 (Ok (Object sample_object)))" "cl_timeout sample_call \<noteq> None"
    by (simp_all add: exchanged_def sample_call_def)
  then show ?thesis
    using replies_reach_their_caller [OF sample_exchange [of True "\<lambda>_. []" "\<lambda>_ _. Err []"], of 0 sample_call 1 "Object sample_object"]
    by simp
qed

text \<open>A connection on which the server talks and nobody listens.\<close>
definition talked :: "(json \<Rightarrow> string) \<Rightarrow> nat \<Rightarrow> conn" where
  "talked display n = connect\<lparr>c_messages := replicate n (full_message display sample_message), c_heard := replicate n sample_message\<rparr>"

lemma message_heard:
  assumes "reachable drained display frame_read (talked display n)"
  shows "reachable drained display frame_read ((talked display n)\<lparr>c_reader := Forwarding (full_message display sample_message),
    c_heard := replicate (Suc n) sample_message\<rparr>)"
proof -
  have "conn_step drained display frame_read (talked display n) ((talked display n)\<lparr>c_reader := Matching sample_message\<rparr>)"
    using receives [of "talked display n" drained display frame_read sample_frame]
    by (simp add: talked_def connect_def on_frame_def sample_parses sample_accessors)
  moreover have "conn_step drained display frame_read ((talked display n)\<lparr>c_reader := Matching sample_message\<rparr>)
      ((talked display n)\<lparr>c_reader := Forwarding (full_message display sample_message), c_heard := replicate (Suc n) sample_message\<rparr>)"
    using matches [of "(talked display n)\<lparr>c_reader := Matching sample_message\<rparr>" sample_message drained display frame_read]
    by (simp add: talked_def connect_def dispatch_def sample_accessors replicate_append_same)
  ultimately show ?thesis using assms unfolding reachable_def by (meson rtranclp.rtrancl_into_rtrancl)
qed

lemma talked_reachable: "n \<le> MESSAGE_CAPACITY \<Longrightarrow> reachable drained display frame_read (talked display n)"
proof (induction n)
  case 0
  show ?case by (simp add: reachable_def talked_def connect_def)
next
  case (Suc n)
  let ?c = "(talked display n)\<lparr>c_reader := Forwarding (full_message display sample_message), c_heard := replicate (Suc n) sample_message\<rparr>"
  have "reachable drained display frame_read ?c" using Suc message_heard by simp
  moreover have "conn_step drained display frame_read ?c (talked display (Suc n))"
    using forwards [of ?c "full_message display sample_message" drained display frame_read] Suc.prems
    by (simp add: talked_def connect_def replicate_append_same)
  ultimately show ?case unfolding reachable_def by (rule rtranclp.rtrancl_into_rtrancl)
qed

theorem unread_messages_silence_the_connection_witness:
  "\<exists>c. reachable False (\<lambda>_. []) (\<lambda>_ _. Err []) c \<and> length (c_heard c) = 201 \<and> length (c_heard c) \<le> 201 \<and> card (answered c) \<le> 201"
proof -
  let ?c = "(talked (\<lambda>_. []) 200)\<lparr>c_reader := Forwarding (full_message (\<lambda>_. []) sample_message),
    c_heard := replicate (Suc 200) sample_message\<rparr>"
  have reach: "reachable False (\<lambda>_. []) (\<lambda>_ _. Err []) ?c"
    by (rule message_heard) (rule talked_reachable, simp add: MESSAGE_CAPACITY_def)
  have "length (c_calls ?c) = 0" "length (c_heard ?c) = 201" by (simp_all add: talked_def connect_def)
  then show ?thesis using unread_messages_silence_the_connection [OF reach] reach by (intro exI [of _ ?c]) simp
qed

end
