(* ===== verification/Capture.thy ===== *)
theory Capture
  imports Protocol "HOL-Library.AList"
begin

text \<open>
  \<open>src/src/proxy_capture.rs\<close>: the capture records of the relay, the inspector that decodes them and pairs responses with
  requests, the catalog of commands with the shapes of their bodies, the filter on command names, and the reading of a
  capture file.  Counters and time stamps are natural numbers (a capture would need 2^64 frames to overflow them).  What
  lies outside the crate comes in one record: the crate \<open>base64\<close>, the LZ4 frame reader, the texts \<open>serde_json\<close> prints and
  reads, the clock text of \<open>chrono\<close>.  The files are the subject of
  \<open>ProxyTool\<close> and \<open>Recording\<close>.
\<close>

section \<open>Frames and records\<close>

definition CAPTURE_SCHEMA_VERSION :: nat where "CAPTURE_SCHEMA_VERSION = 1"
definition MAX_CAPTURE_LINE_BYTES :: nat where "MAX_CAPTURE_LINE_BYTES = 48 * 1024 * 1024"
definition MAX_CONNECTION_ID_BYTES :: nat where "MAX_CONNECTION_ID_BYTES = 256"
definition MAX_CATALOG_COMMANDS :: nat where "MAX_CATALOG_COMMANDS = 4096"
definition MAX_CATALOG_SHAPES :: nat where "MAX_CATALOG_SHAPES = 32"
definition MAX_SHAPE_DEPTH :: nat where "MAX_SHAPE_DEPTH = 16"
definition MAX_SHAPE_FIELDS :: nat where "MAX_SHAPE_FIELDS = 256"
definition MAX_ARRAY_VARIANTS :: nat where "MAX_ARRAY_VARIANTS = 16"
definition MAX_ARRAY_ITEMS_INSPECTED :: nat where "MAX_ARRAY_ITEMS_INSPECTED = 256"
definition MAX_COMMAND_BYTES :: nat where "MAX_COMMAND_BYTES = 256"
definition MAX_SCHEMA_KEY_CHARS :: nat where "MAX_SCHEMA_KEY_CHARS = 256"
definition MAX_RESPONSE_CODES :: nat where "MAX_RESPONSE_CODES = 64"
definition MAX_CATALOG_SHAPE_COUNT :: nat where "MAX_CATALOG_SHAPE_COUNT = 4096"
definition MAX_CATALOG_SCHEMA_BYTES :: nat where "MAX_CATALOG_SCHEMA_BYTES = 16 * 1024 * 1024"
definition MAX_SINGLE_SHAPE_BYTES :: nat where "MAX_SINGLE_SHAPE_BYTES = 64 * 1024"

datatype direction = ClientToServer | ServerToClient

fun direction_text :: "direction \<Rightarrow> string" where
  "direction_text ClientToServer = ''C->S''"
| "direction_text ServerToClient = ''S->C''"

datatype opcode = BinaryFrame | TextFrame | PingFrame | PongFrame | CloseFrame | RawFrame

fun opcode_text :: "opcode \<Rightarrow> string" where
  "opcode_text BinaryFrame = ''Binary''"
| "opcode_text TextFrame = ''Text''"
| "opcode_text PingFrame = ''Ping''"
| "opcode_text PongFrame = ''Pong''"
| "opcode_text CloseFrame = ''Close''"
| "opcode_text RawFrame = ''Frame''"

text \<open>A message of the crate \<open>tungstenite\<close>; a close carries a code and a reason or nothing.\<close>
datatype message =
    MBinary bytes
  | MText string
  | MPing bytes
  | MPong bytes
  | MClose "(nat \<times> string) option"
  | MFrame bytes

fun message_payload :: "message \<Rightarrow> opcode \<times> bytes option" where
  "message_payload (MBinary d) = (BinaryFrame, Some d)"
| "message_payload (MText s) = (TextFrame, Some (str_bytes s))"
| "message_payload (MPing d) = (PingFrame, Some d)"
| "message_payload (MPong d) = (PongFrame, Some d)"
| "message_payload (MClose c) = (CloseFrame, None)"
| "message_payload (MFrame d) = (RawFrame, None)"

record capture_record =
  cr_version :: nat
  cr_connection :: string
  cr_index :: nat
  cr_time :: nat
  cr_direction :: direction
  cr_opcode :: opcode
  cr_payload :: "string option"

text \<open>A frame on its way to the analyser, with the bytes of the capture budget it holds.\<close>
record observed =
  ob_connection :: string
  ob_index :: nat
  ob_time :: nat
  ob_direction :: direction
  ob_message :: message
  ob_permit :: "nat option"

text \<open>What is used from outside the crate.\<close>
record outside =
  b64_encode :: "bytes \<Rightarrow> string"
  b64_decode :: "string \<Rightarrow> bytes res"
  lz4_read :: "bytes \<Rightarrow> nat \<Rightarrow> bytes res"
  print_json :: "json \<Rightarrow> string"
  pretty_json :: "json \<Rightarrow> string"
  clock_text :: "int \<Rightarrow> string option"
  utf8_error :: "bytes \<Rightarrow> string"
  read_record :: "string \<Rightarrow> capture_record res"

definition observe_message :: "nat \<Rightarrow> string \<Rightarrow> nat \<Rightarrow> direction \<Rightarrow> message \<Rightarrow> observed" where
  "observe_message now conn i dir msg =
     \<lparr>ob_connection = conn, ob_index = i, ob_time = now, ob_direction = dir, ob_message = msg, ob_permit = None\<rparr>"

definition observe_owned :: "nat \<Rightarrow> string \<Rightarrow> nat \<Rightarrow> direction \<Rightarrow> message \<Rightarrow> nat \<Rightarrow> observed" where
  "observe_owned now conn i dir msg permit =
     \<lparr>ob_connection = conn, ob_index = i, ob_time = now, ob_direction = dir, ob_message = msg, ob_permit = Some permit\<rparr>"

definition into_record :: "outside \<Rightarrow> observed \<Rightarrow> capture_record" where
  "into_record out ob =
     (let (op, payload) = message_payload (ob_message ob) in
      \<lparr>cr_version = CAPTURE_SCHEMA_VERSION, cr_connection = ob_connection ob, cr_index = ob_index ob, cr_time = ob_time ob,
       cr_direction = ob_direction ob, cr_opcode = op, cr_payload = map_option (b64_encode out) payload\<rparr>)"

definition record_from_message :: "outside \<Rightarrow> nat \<Rightarrow> string \<Rightarrow> nat \<Rightarrow> direction \<Rightarrow> message \<Rightarrow> capture_record" where
  "record_from_message out now conn i dir msg = into_record out (observe_message now conn i dir msg)"

definition binary_payload :: "outside \<Rightarrow> capture_record \<Rightarrow> bytes option res" where
  "binary_payload out r =
     (if cr_opcode r \<noteq> BinaryFrame then Ok None
      else case cr_payload r of
             None \<Rightarrow> Err ''binary capture record has no payload''
           | Some encoded \<Rightarrow>
               (case b64_decode out encoded of
                  Inl e \<Rightarrow> Err (''invalid capture payload base64: '' @ e)
                | Inr data \<Rightarrow> Ok (Some data)))"

section \<open>Redaction\<close>

definition is_sensitive_key :: "string \<Rightarrow> bool" where
  "is_sensitive_key key \<longleftrightarrow> key \<in> {''token'', ''accesstoken'', ''refreshtoken'', ''session'', ''sessionid'', ''sessid'',
     ''connid'', ''connectionid'', ''openid'', ''unionid'', ''roleid'', ''userid'', ''accountid'', ''deviceid'', ''uid'',
     ''name'', ''nickname'', ''sessionkey'', ''sessiontoken'', ''authtoken'', ''credential'', ''authorization'',
     ''password'', ''secret''}"

text \<open>\<open>key.to_ascii_lowercase().replace(['_', '-'], "")\<close>\<close>
definition normalized_key :: "string \<Rightarrow> string" where
  "normalized_key key = filter (\<lambda>c. c \<noteq> CHR ''_'' \<and> c \<noteq> CHR ''-'') (to_ascii_lower key)"

abbreviation sensitive :: "string \<Rightarrow> bool" where
  "sensitive key \<equiv> is_sensitive_key (normalized_key key)"

fun redact_value :: "json \<Rightarrow> json" where
  "redact_value (Object kvs) =
     Object (map (\<lambda>kv. (fst kv, if sensitive (fst kv) then Str ''[REDACTED]'' else redact_value (snd kv))) kvs)"
| "redact_value (Array vs) = Array (map redact_value vs)"
| "redact_value v = v"

section \<open>The inspector\<close>

datatype payload_encoding = EncX | EncLx | EncPlain

definition detect_encoding :: "bytes \<Rightarrow> payload_encoding" where
  "detect_encoding payload =
     (if take 2 payload = [112, 120] then EncX else if take 2 payload = [112, 108] then EncLx else EncPlain)"

record decoded_event =
  ev_connection :: string
  ev_index :: nat
  ev_time :: nat
  ev_direction :: direction
  ev_opcode :: opcode
  ev_size :: nat
  ev_encoding :: "payload_encoding option"
  ev_cmd :: "string option"
  ev_seq :: u32
  ev_ack :: u32
  ev_resp :: u32
  ev_code :: "i32 option"
  ev_body :: "json option"
  ev_matched :: "string option"
  ev_latency :: "nat option"
  ev_error :: "string option"
  ev_body_error :: "string option"

record pending_request =
  pr_cmd :: string
  pr_time :: nat

text \<open>The pending requests: a map keyed by connection and number, as an association list without duplicate keys.\<close>
type_synonym pending = "((string \<times> u32) \<times> pending_request) list"

record inspector =
  in_pending :: pending
  in_redact :: bool

definition inspector_new :: "bool \<Rightarrow> inspector" where
  "inspector_new redact = \<lparr>in_pending = [], in_redact = redact\<rparr>"

definition inspector_default :: inspector where
  "inspector_default = inspector_new True"

definition PENDING_LIMIT :: nat where "PENDING_LIMIT = 10000"

definition blank_event :: "capture_record \<Rightarrow> decoded_event" where
  "blank_event r =
     \<lparr>ev_connection = cr_connection r, ev_index = cr_index r, ev_time = cr_time r, ev_direction = cr_direction r,
      ev_opcode = cr_opcode r, ev_size = 0, ev_encoding = None, ev_cmd = None, ev_seq = 0, ev_ack = 0, ev_resp = 0,
      ev_code = None, ev_body = None, ev_matched = None, ev_latency = None, ev_error = None, ev_body_error = None\<rparr>"

text \<open>The fields read off a message; a name over the limit is an error of the event, its numbers are kept.\<close>
definition message_event :: "outside \<Rightarrow> proto_msg \<Rightarrow> decoded_event \<Rightarrow> decoded_event" where
  "message_event out proto event =
     (let event = (case msg_cmd proto of
                     None \<Rightarrow> event
                   | Some cmd \<Rightarrow>
                       if MAX_COMMAND_BYTES < length cmd
                       then event\<lparr>ev_error := Some (''command exceeds limit: '' @ nat_str (length cmd) @ '' > '' @
                              nat_str MAX_COMMAND_BYTES @ '' bytes'')\<rparr>
                       else event\<lparr>ev_cmd := Some cmd\<rparr>);
          event = event\<lparr>ev_seq := msg_seq proto, ev_ack := msg_ack proto, ev_resp := msg_resp proto,
                    ev_code := msg_code_opt proto\<rparr>
      in case raw_data_result (print_json out) proto of
           Inr body \<Rightarrow> event\<lparr>ev_body := body\<rparr>
         | Inl e \<Rightarrow> event\<lparr>ev_body_error := Some e\<rparr>)"

text \<open>A response takes the request it answers out of the pending ones.\<close>
definition match_response :: "decoded_event \<Rightarrow> pending \<Rightarrow> decoded_event \<times> pending" where
  "match_response event pend =
     (if ev_direction event = ServerToClient \<and> 0 < ev_resp event then
        (let key = (ev_connection event, ev_resp event) in
         case map_of pend key of
           None \<Rightarrow> (event, pend)
         | Some request \<Rightarrow>
             (event\<lparr>ev_latency := Some (ev_time event - pr_time request), ev_matched := Some (pr_cmd request)\<rparr>,
              AList.delete key pend))
      else (event, pend))"

text \<open>Room for a request: at the limit the requests older than ten minutes go, and if that is not enough all of them.\<close>
definition make_room :: "nat \<Rightarrow> pending \<Rightarrow> pending" where
  "make_room now pend =
     (if PENDING_LIMIT \<le> length pend then
        (let cutoff = now - 10 * 60 * 1000;
             kept = filter (\<lambda>(_, request). cutoff \<le> pr_time request) pend
         in if PENDING_LIMIT \<le> length kept then [] else kept)
      else pend)"

definition note_request :: "decoded_event \<Rightarrow> pending \<Rightarrow> pending" where
  "note_request event pend =
     (if ev_direction event = ClientToServer \<and> 0 < ev_seq event then
        AList.update (ev_connection event, ev_seq event)
          \<lparr>pr_cmd = unwrap_or (ev_cmd event) ''<unknown>'', pr_time = ev_time event\<rparr>
          (make_room (ev_time event) pend)
      else pend)"

text \<open>What the inspector decodes before it looks at its pending requests, and whether it goes on to them.\<close>
definition decode_record :: "outside \<Rightarrow> capture_record \<Rightarrow> decoded_event \<times> bool" where
  "decode_record out r =
     (case binary_payload out r of
        Inl e \<Rightarrow> ((blank_event r)\<lparr>ev_error := Some e\<rparr>, False)
      | Inr None \<Rightarrow> (blank_event r, False)
      | Inr (Some payload) \<Rightarrow>
          (let event = (blank_event r)\<lparr>ev_size := length payload, ev_encoding := Some (detect_encoding payload)\<rparr> in
           case parse_message_limited (print_json out) (lz4_read out) payload DEFAULT_MAX_WIRE_SIZE
                  DEFAULT_MAX_DECOMPRESSED_SIZE of
             Inl e \<Rightarrow> (event\<lparr>ev_error := Some e\<rparr>, False)
           | Inr proto \<Rightarrow> (message_event out proto event, True)))"

definition inspect :: "outside \<Rightarrow> capture_record \<Rightarrow> inspector \<Rightarrow> decoded_event \<times> inspector" where
  "inspect out r ins =
     (case decode_record out r of
        (event, False) \<Rightarrow> (event, ins)
      | (event, True) \<Rightarrow>
          (let (event, pend) = match_response event (in_pending ins);
               pend = note_request event pend;
               event = (if in_redact ins then event\<lparr>ev_body := map_option redact_value (ev_body event)\<rparr> else event)
           in (event, ins\<lparr>in_pending := pend\<rparr>)))"

section \<open>The shapes of bodies\<close>

text \<open>\<open>chars().take(n)\<close> on the UTF-8 text.\<close>
fun take_chars :: "nat \<Rightarrow> string \<Rightarrow> string" where
  "take_chars n [] = []"
| "take_chars n (c # s) =
     (if utf8_cont (byte_of_char c) then c # take_chars n s
      else case n of 0 \<Rightarrow> [] | Suc k \<Rightarrow> c # take_chars k s)"

definition schema_key :: "string \<Rightarrow> string" where
  "schema_key key =
     (if MAX_SCHEMA_KEY_CHARS < length key then take_chars MAX_SCHEMA_KEY_CHARS key @ ''...'' else key)"

text \<open>The different shapes of an array's items, in the order they appear, cut at \<open>MAX_ARRAY_VARIANTS\<close>.\<close>
fun shape_variants :: "json list \<Rightarrow> json list \<Rightarrow> json list" where
  "shape_variants [] seen = seen"
| "shape_variants (s # ss) seen =
     (if s \<in> set seen then shape_variants ss seen
      else if MAX_ARRAY_VARIANTS \<le> length seen then seen @ [Str ''variant_limit'']
      else shape_variants ss (seen @ [s]))"

text \<open>Shapes are computed before the items are cut to the first 256, and the fields to the first 256, which gives the same.\<close>
fun value_shape :: "outside \<Rightarrow> json \<Rightarrow> nat \<Rightarrow> json" where
  "value_shape out v d =
     (if MAX_SHAPE_DEPTH \<le> d then Str ''depth_limit''
      else case v of
        Null \<Rightarrow> Str ''null''
      | Bool b \<Rightarrow> Str ''boolean''
      | Number n \<Rightarrow> Str ''number''
      | Str s \<Rightarrow> Str ''string''
      | Array vs \<Rightarrow>
          Array (sort_key (print_json out)
            (shape_variants (take MAX_ARRAY_ITEMS_INSPECTED (map (\<lambda>v. value_shape out v (Suc d)) vs)) []))
      | Object kvs \<Rightarrow>
          (let shape = foldl (\<lambda>m (k, s). obj_insert (schema_key k) s m) []
                 (take MAX_SHAPE_FIELDS (map (\<lambda>kv. (fst kv, value_shape out (snd kv) (Suc d))) kvs))
           in Object (if MAX_SHAPE_FIELDS < length kvs then obj_insert ''$truncated'' (Bool True) shape else shape)))"

declare value_shape.simps [simp del]

section \<open>The catalog\<close>

record command_summary =
  cs_requests :: nat
  cs_responses :: nat
  cs_pushes :: nat
  cs_codes :: "(string \<times> nat) list"
  cs_request_shapes :: "json list"
  cs_response_shapes :: "json list"
  cs_push_shapes :: "json list"
  cs_overflow :: nat

record catalog =
  ca_version :: nat
  ca_unmatched :: nat
  ca_overflow_commands :: nat
  ca_overflow_shapes :: nat
  ca_shape_count :: nat
  ca_schema_bytes :: nat
  ca_commands :: "(string \<times> command_summary) list"

definition summary_default :: command_summary where
  "summary_default = \<lparr>cs_requests = 0, cs_responses = 0, cs_pushes = 0, cs_codes = [], cs_request_shapes = [],
     cs_response_shapes = [], cs_push_shapes = [], cs_overflow = 0\<rparr>"

definition catalog_new :: catalog where
  "catalog_new = \<lparr>ca_version = CAPTURE_SCHEMA_VERSION, ca_unmatched = 0, ca_overflow_commands = 0,
     ca_overflow_shapes = 0, ca_shape_count = 0, ca_schema_bytes = 0, ca_commands = []\<rparr>"

datatype shape_kind = RequestShape | ResponseShape | PushShape

fun shapes :: "shape_kind \<Rightarrow> command_summary \<Rightarrow> json list" where
  "shapes RequestShape s = cs_request_shapes s"
| "shapes ResponseShape s = cs_response_shapes s"
| "shapes PushShape s = cs_push_shapes s"

text \<open>\<open>shapes_mut\<close> followed by \<open>push\<close>\<close>
fun push_shape :: "shape_kind \<Rightarrow> json \<Rightarrow> command_summary \<Rightarrow> command_summary" where
  "push_shape RequestShape v s = s\<lparr>cs_request_shapes := cs_request_shapes s @ [v]\<rparr>"
| "push_shape ResponseShape v s = s\<lparr>cs_response_shapes := cs_response_shapes s @ [v]\<rparr>"
| "push_shape PushShape v s = s\<lparr>cs_push_shapes := cs_push_shapes s @ [v]\<rparr>"

text \<open>\<open>commands.get_mut(cmd).unwrap()\<close>, on a command that is there.\<close>
definition on_command :: "string \<Rightarrow> (command_summary \<Rightarrow> command_summary) \<Rightarrow> catalog \<Rightarrow> catalog" where
  "on_command cmd f c = c\<lparr>ca_commands := map (\<lambda>kv. if fst kv = cmd then (cmd, f (snd kv)) else kv) (ca_commands c)\<rparr>"

definition ensure_command :: "string \<Rightarrow> catalog \<Rightarrow> bool \<times> catalog" where
  "ensure_command cmd c =
     (if obj_get (ca_commands c) cmd = None \<and> MAX_CATALOG_COMMANDS \<le> length (ca_commands c)
      then (False, c\<lparr>ca_overflow_commands := ca_overflow_commands c + 1\<rparr>)
      else (True, if obj_get (ca_commands c) cmd = None
                  then c\<lparr>ca_commands := obj_insert cmd summary_default (ca_commands c)\<rparr> else c))"

definition add_response_code :: "i32 \<Rightarrow> command_summary \<Rightarrow> command_summary" where
  "add_response_code code s =
     (let code = int_str (sint code) in
      if obj_get (cs_codes s) code \<noteq> None \<or> length (cs_codes s) < MAX_RESPONSE_CODES
      then s\<lparr>cs_codes := obj_insert code (unwrap_or (obj_get (cs_codes s) code) 0 + 1) (cs_codes s)\<rparr>
      else s)"

definition record_shape :: "outside \<Rightarrow> string \<Rightarrow> shape_kind \<Rightarrow> json option \<Rightarrow> catalog \<Rightarrow> catalog" where
  "record_shape out cmd kind body c =
     (case body of
        None \<Rightarrow> c
      | Some body \<Rightarrow>
          (let shape = value_shape out body 0;
               old = (case obj_get (ca_commands c) cmd of None \<Rightarrow> [] | Some s \<Rightarrow> shapes kind s);
               size = length (print_json out shape)
           in if shape \<in> set old then c
              else if MAX_CATALOG_SHAPES \<le> length old \<or> MAX_SINGLE_SHAPE_BYTES < size \<or>
                      MAX_CATALOG_SHAPE_COUNT \<le> ca_shape_count c \<or> MAX_CATALOG_SCHEMA_BYTES < ca_schema_bytes c + size
              then on_command cmd (\<lambda>s. s\<lparr>cs_overflow := cs_overflow s + 1\<rparr>)
                     (c\<lparr>ca_overflow_shapes := ca_overflow_shapes c + 1\<rparr>)
              else on_command cmd (push_shape kind shape)
                     (c\<lparr>ca_shape_count := ca_shape_count c + 1, ca_schema_bytes := ca_schema_bytes c + size\<rparr>)))"

definition count_code :: "i32 option \<Rightarrow> command_summary \<Rightarrow> command_summary" where
  "count_code code s = (case code of None \<Rightarrow> s | Some code \<Rightarrow> add_response_code code s)"

text \<open>A command's count goes up, its code is counted, the shape of its body is recorded.\<close>
definition note_command ::
  "outside \<Rightarrow> string \<Rightarrow> shape_kind \<Rightarrow> (command_summary \<Rightarrow> command_summary) \<Rightarrow> json option \<Rightarrow> catalog \<Rightarrow> catalog"
where
  "note_command out cmd kind count body c =
     (case ensure_command cmd c of
        (False, c) \<Rightarrow> c
      | (True, c) \<Rightarrow> record_shape out cmd kind body (on_command cmd count c))"

definition observe :: "outside \<Rightarrow> decoded_event \<Rightarrow> catalog \<Rightarrow> catalog" where
  "observe out event c =
     (if ev_error event \<noteq> None \<or> ev_opcode event \<noteq> BinaryFrame then c
      else case ev_direction event of
        ClientToServer \<Rightarrow>
          if ev_seq event = 0 then c
          else (case ev_cmd event of
                  None \<Rightarrow> c
                | Some cmd \<Rightarrow>
                    note_command out cmd RequestShape (\<lambda>s. s\<lparr>cs_requests := cs_requests s + 1\<rparr>) (ev_body event) c)
      | ServerToClient \<Rightarrow>
          if 0 < ev_resp event then
            (case ev_matched event of
               None \<Rightarrow> c\<lparr>ca_unmatched := ca_unmatched c + 1\<rparr>
             | Some cmd \<Rightarrow>
                 note_command out cmd ResponseShape
                   (\<lambda>s. count_code (ev_code event) (s\<lparr>cs_responses := cs_responses s + 1\<rparr>)) (ev_body event) c)
          else
            (case ev_cmd event of
               None \<Rightarrow> c
             | Some cmd \<Rightarrow>
                 note_command out cmd PushShape
                   (\<lambda>s. count_code (ev_code event) (s\<lparr>cs_pushes := cs_pushes s + 1\<rparr>)) (ev_body event) c))"

section \<open>Reading a capture\<close>

text \<open>What is left of a buffered reader, as the pieces \<open>fill_buf\<close> will hand out: no piece is empty, an error is what a read
  of the file ends in.  The result comes with the reader after the call.\<close>
type_synonym buffered = "bytes res list"

text \<open>The bytes of a piece up to its first new line, that included.\<close>
definition line_part :: "bytes \<Rightarrow> bytes" where
  "line_part available =
     (let n = length (takeWhile (\<lambda>b. b \<noteq> 10) available) in if n < length available then take (n + 1) available else available)"

text \<open>\<open>consume\<close>\<close>
definition consume :: "nat \<Rightarrow> bytes \<Rightarrow> buffered \<Rightarrow> buffered" where
  "consume n available rest = (if n < length available then Ok (drop n available) # rest else rest)"

fun read_bounded_line :: "nat \<Rightarrow> buffered \<Rightarrow> bytes \<Rightarrow> bytes option res \<times> buffered" where
  "read_bounded_line max_bytes [] line = (Ok (if line = [] then None else Some line), [])"
| "read_bounded_line max_bytes (Inl e # rest) line = (Err (''failed to read capture stream: '' @ e), rest)"
| "read_bounded_line max_bytes (Inr available # rest) line =
     (if available = [] then (Ok (if line = [] then None else Some line), Ok available # rest)
      else let part = line_part available in
      if max_bytes < length line + length part
      then (Err (''capture line exceeds '' @ nat_str max_bytes @ '' bytes''), Ok available # rest)
      else if line @ part \<noteq> [] \<and> last (line @ part) = 10
      then (Ok (Some (line @ part)), consume (length part) available rest)
      else read_bounded_line max_bytes rest (line @ part))"

text \<open>One line of a capture: \<open>None\<close> for a blank one.\<close>
definition read_line :: "outside \<Rightarrow> nat \<Rightarrow> bytes \<Rightarrow> capture_record option res" where
  "read_line out n line =
     (if \<not> utf8_valid line
      then Err (''capture line '' @ nat_str n @ '' is not UTF-8: '' @ utf8_error out line)
      else if strip_whitespace (bytes_str line) = [] then Ok None
      else case read_record out (bytes_str line) of
             Inl e \<Rightarrow> Err (''invalid capture record on line '' @ nat_str n @ '': '' @ e)
           | Inr r \<Rightarrow>
               if cr_version r \<noteq> CAPTURE_SCHEMA_VERSION
               then Err (''unsupported capture schema version '' @ nat_str (cr_version r) @ '' on line '' @ nat_str n)
               else if MAX_CONNECTION_ID_BYTES < length (cr_connection r)
               then Err (''connection_id is too long on line '' @ nat_str n)
               else Ok (Some r))"

fun buffered_size :: "buffered \<Rightarrow> nat" where
  "buffered_size [] = 0"
| "buffered_size (Inl e # rest) = Suc (buffered_size rest)"
| "buffered_size (Inr available # rest) = Suc (length available) + buffered_size rest"

lemma consume_size: "0 < n \<Longrightarrow> available \<noteq> [] \<Longrightarrow>
    buffered_size (consume n available rest) < Suc (length available) + buffered_size rest"
  by (auto simp: consume_def)

lemma line_part_size: "available \<noteq> [] \<Longrightarrow> 0 < length (line_part available)"
  by (auto simp: line_part_def Let_def)

lemma read_bounded_line_size:
  "read_bounded_line max_bytes input line = (Ok (Some l), rest) \<Longrightarrow>
     buffered_size rest < buffered_size input \<or> (line \<noteq> [] \<and> buffered_size rest \<le> buffered_size input)"
proof (induction max_bytes input line rule: read_bounded_line.induct)
  case (3 max_bytes available rest' line)
  then show ?case
    using consume_size [of "length (line_part available)" available rest'] line_part_size [of available]
    by (force simp: Let_def split: if_splits)
qed (auto split: if_splits)

text \<open>The loop of \<open>read_records\<close>, from the line number reached; the callback's effects are on a state of its own.\<close>
function read_from ::
  "outside \<Rightarrow> (capture_record \<Rightarrow> 's \<Rightarrow> unit res \<times> 's) \<Rightarrow> nat \<Rightarrow> buffered \<Rightarrow> 's \<Rightarrow> unit res \<times> 's"
where
  "read_from out callback n input s =
     (case read_bounded_line MAX_CAPTURE_LINE_BYTES input [] of
        (Inl e, rest) \<Rightarrow> (Err e, s)
      | (Inr None, rest) \<Rightarrow> (Ok (), s)
      | (Inr (Some line), rest) \<Rightarrow>
          (case read_line out (n + 1) line of
             Inl e \<Rightarrow> (Err e, s)
           | Inr None \<Rightarrow> read_from out callback (n + 1) rest s
           | Inr (Some r) \<Rightarrow>
               (case callback r s of
                  (Inl e, s) \<Rightarrow> (Err e, s)
                | (Inr _, s) \<Rightarrow> read_from out callback (n + 1) rest s)))"
  by pat_completeness auto
termination
  by (relation "measure (\<lambda>(out, callback, n, input, s). buffered_size input)") (auto dest: sym [THEN read_bounded_line_size])

declare read_from.simps [simp del]

definition read_records ::
  "outside \<Rightarrow> (capture_record \<Rightarrow> 's \<Rightarrow> unit res \<times> 's) \<Rightarrow> buffered \<Rightarrow> 's \<Rightarrow> unit res \<times> 's"
where
  "read_records out callback input s = read_from out callback 0 input s"

section \<open>The filter on command names\<close>

abbreviation star :: char where "star \<equiv> CHR ''*''"

text \<open>The invariant of the loop's indices: the last star seen is behind the pattern's index, the place it was tried at is not
  ahead of the value's index.  The loop's measure rests on it.\<close>
fun indices_ok :: "nat \<Rightarrow> nat \<Rightarrow> nat option \<Rightarrow> nat \<Rightarrow> bool" where
  "indices_ok pi vi seen sv \<longleftrightarrow> sv \<le> vi \<and> (case seen of None \<Rightarrow> True | Some s \<Rightarrow> s < pi)"

function wildcard_loop :: "string \<Rightarrow> string \<Rightarrow> nat \<Rightarrow> nat \<Rightarrow> nat option \<Rightarrow> nat \<Rightarrow> bool" where
  "wildcard_loop p v pi vi seen sv =
     (if vi < length v then
        (if pi < length p \<and> p ! pi = v ! vi then wildcard_loop p v (pi + 1) (vi + 1) seen sv
         else if pi < length p \<and> p ! pi = star then wildcard_loop p v (pi + 1) vi (Some pi) vi
         else (case seen of
                 Some s \<Rightarrow> wildcard_loop p v (s + 1) (sv + 1) seen (sv + 1)
               | None \<Rightarrow> False))
      else list_all (\<lambda>c. c = star) (drop pi p))"
  by pat_completeness auto
termination
  by (relation "measures [
       \<lambda>(p, v, pi, vi, seen, sv). if indices_ok pi vi seen sv then 0 else 1,
       \<lambda>(p, v, pi, vi, seen, sv). case seen of None \<Rightarrow> Suc (length p) | Some s \<Rightarrow> length p - s,
       \<lambda>(p, v, pi, vi, seen, sv). length v - sv,
       \<lambda>(p, v, pi, vi, seen, sv). length v - vi]")
     (auto split: option.splits)

declare wildcard_loop.simps [simp del]

definition wildcard_match :: "string \<Rightarrow> string \<Rightarrow> bool" where
  "wildcard_match pattern v = wildcard_loop pattern v 0 0 None 0"

definition matches_command :: "string option \<Rightarrow> decoded_event \<Rightarrow> bool" where
  "matches_command pattern event =
     (case pattern of
        None \<Rightarrow> True
      | Some p \<Rightarrow> wildcard_match p (unwrap_or (or_else (ev_matched event) (ev_cmd event)) []))"

section \<open>Printing an event\<close>

definition format_timestamp :: "outside \<Rightarrow> nat \<Rightarrow> string" where
  "format_timestamp out ms = unwrap_or (clock_text out (sint (word_of_nat ms :: i64))) (nat_str ms)"

definition event_head :: "outside \<Rightarrow> decoded_event \<Rightarrow> string" where
  "event_head out event =
     format_timestamp out (ev_time event) @ '' '' @ direction_text (ev_direction event) @ '' #'' @ nat_str (ev_index event)"

definition event_relation :: "decoded_event \<Rightarrow> string" where
  "event_relation event =
     (if 0 < ev_resp event
      then ''resp='' @ nat_str (unat (ev_resp event)) @ '' latency='' @ nat_str (unwrap_or (ev_latency event) 0) @ ''ms''
      else if 0 < ev_seq event then ''seq='' @ nat_str (unat (ev_seq event))
      else ''unsequenced'')"

definition format_pretty_event :: "outside \<Rightarrow> decoded_event \<Rightarrow> string" where
  "format_pretty_event out event =
     (case ev_error event of
        Some e \<Rightarrow> event_head out event @ '' DECODE_ERROR size='' @ nat_str (ev_size event) @ '' '' @ e
      | None \<Rightarrow>
          if ev_opcode event \<noteq> BinaryFrame then event_head out event @ '' '' @ opcode_text (ev_opcode event)
          else event_head out event @ '' '' @ event_relation event @
               '' cmd='' @ unwrap_or (or_else (ev_matched event) (ev_cmd event)) ''<unknown>'' @
               '' code='' @ (case ev_code event of None \<Rightarrow> ''-'' | Some c \<Rightarrow> int_str (sint c)) @
               (case ev_body event of None \<Rightarrow> [] | Some body \<Rightarrow> CHR 0x0A # pretty_json out body) @
               (case ev_body_error event of None \<Rightarrow> [] | Some e \<Rightarrow> CHR 0x0A # ''BODY_DECODE_ERROR: '' @ e))"

end
