(* ===== verification/Capture_Text.thy ===== *)
theory Capture_Text
  imports Capture
begin

text \<open>
  Facts about the text side of the capture: the filter on command names against a reference glob, and the reading of a
  capture file line by line whatever pieces the buffered reader hands out.
\<close>

section \<open>The filter is a glob\<close>

text \<open>A star stands for any text, every other character for itself.\<close>
fun glob :: "string \<Rightarrow> string \<Rightarrow> bool" where
  "glob [] v = (v = [])"
| "glob (c # p) [] = (c = star \<and> glob p [])"
| "glob (c # p) (d # v) = (if c = star then glob p (d # v) \<or> glob (c # p) v else c = d \<and> glob p v)"

lemma glob_Nil: "glob p [] = list_all (\<lambda>c. c = star) p"
  by (induction p) auto

lemma glob_star: "glob (star # p) v \<longleftrightarrow> (\<exists>j \<le> length v. glob p (drop j v))"
proof (induction v)
  case (Cons d v)
  have "glob (star # p) (d # v) \<longleftrightarrow> glob p (d # v) \<or> (\<exists>j \<le> length v. glob p (drop j v))"
    by (simp add: Cons.IH)
  also have "\<dots> \<longleftrightarrow> (\<exists>j \<le> length (d # v). glob p (drop j (d # v)))"
    by (metis (no_types, lifting) Suc_le_mono drop0 drop_Suc_Cons length_Cons not0_implies_Suc zero_le)
  finally show ?case .
qed simp

lemma glob_star_suffix: "glob (star # p) (drop j v) \<Longrightarrow> glob (star # p) v"
proof -
  assume "glob (star # p) (drop j v)"
  then obtain i where "i \<le> length (drop j v)" "glob p (drop (i + j) v)"
    by (auto simp: glob_star add.commute)
  then show ?thesis by (cases "j \<le> length v") (force simp: glob_star intro: exI [of _ "i + j"], auto simp: glob_star)
qed

lemma glob_literal:
  "star \<notin> set l \<Longrightarrow> glob (l @ r) v \<longleftrightarrow> take (length l) v = l \<and> glob r (drop (length l) v)"
proof (induction l arbitrary: v)
  case (Cons c l)
  then show ?case by (cases v) auto
qed simp

text \<open>After a star the leftmost place for a literal is as good as any.\<close>
lemma glob_leftmost:
  assumes "star \<notin> set l" "take (length l) v = l"
  shows "glob (star # l @ star # r) v \<longleftrightarrow> glob (star # r) (drop (length l) v)"
proof
  assume "glob (star # l @ star # r) v"
  then obtain j where "glob (star # r) (drop (length l) (drop j v))"
    using assms(1) by (auto simp: glob_star [of "l @ star # r"] glob_literal)
  then have "glob (star # r) (drop j (drop (length l) v))" by (simp add: add.commute)
  then show "glob (star # r) (drop (length l) v)" by (rule glob_star_suffix)
next
  assume "glob (star # r) (drop (length l) v)"
  then have "glob (l @ star # r) v" using assms by (simp add: glob_literal)
  then show "glob (star # l @ star # r) v" by (auto simp: glob_star intro: exI [of _ 0])
qed

text \<open>What the loop knows of the last star: the pattern behind it up to the index is the value where it was tried.\<close>
definition tracked :: "string \<Rightarrow> string \<Rightarrow> nat \<Rightarrow> nat \<Rightarrow> nat option \<Rightarrow> nat \<Rightarrow> bool" where
  "tracked p v pi vi seen sv \<longleftrightarrow> pi \<le> length p \<and> vi \<le> length v \<and>
     (case seen of
        None \<Rightarrow> True
      | Some s \<Rightarrow> \<exists>l. pi = s + 1 + length l \<and> vi = sv + length l \<and> star \<notin> set l \<and>
                     drop (s + 1) p = l @ drop pi p \<and> drop sv v = l @ drop vi v)"

definition goal_of :: "string \<Rightarrow> string \<Rightarrow> nat \<Rightarrow> nat \<Rightarrow> nat option \<Rightarrow> nat \<Rightarrow> bool" where
  "goal_of p v pi vi seen sv =
     (case seen of None \<Rightarrow> glob (drop pi p) (drop vi v) | Some s \<Rightarrow> glob (star # drop (s + 1) p) (drop sv v))"

lemma tracked_match:
  assumes "tracked p v pi vi seen sv" "vi < length v" "pi < length p" "p ! pi = v ! vi" "star \<notin> set v"
  shows "tracked p v (pi + 1) (vi + 1) seen sv \<and> goal_of p v (pi + 1) (vi + 1) seen sv = goal_of p v pi vi seen sv"
proof (cases seen)
  case None
  have "v ! vi \<noteq> star" using assms(2,5) nth_mem by metis
  then show ?thesis
    using None assms Cons_nth_drop_Suc [of pi p] Cons_nth_drop_Suc [of vi v]
    by (auto simp: tracked_def goal_of_def) (metis glob.simps(3))+
next
  case (Some s)
  obtain l where l: "pi = s + 1 + length l" "vi = sv + length l" "star \<notin> set l"
    "drop (s + 1) p = l @ drop pi p" "drop sv v = l @ drop vi v"
    using assms(1) Some by (auto simp: tracked_def)
  have "v ! vi \<noteq> star" using assms(2,5) nth_mem by metis
  with l have "star \<notin> set (l @ [v ! vi])" "drop (s + 1) p = (l @ [v ! vi]) @ drop (pi + 1) p"
    "drop sv v = (l @ [v ! vi]) @ drop (vi + 1) v"
    using Cons_nth_drop_Suc [OF assms(3)] Cons_nth_drop_Suc [OF assms(2)] assms(4) by auto
  then show ?thesis
    using Some l(1,2) assms(2,3) by (auto simp: tracked_def goal_of_def intro!: exI [of _ "l @ [v ! vi]"])
qed

lemma tracked_star:
  assumes "tracked p v pi vi seen sv" "vi < length v" "pi < length p" "p ! pi = star"
  shows "tracked p v (pi + 1) vi (Some pi) vi \<and> goal_of p v (pi + 1) vi (Some pi) vi = goal_of p v pi vi seen sv"
proof (cases seen)
  case None
  then show ?thesis
    using assms Cons_nth_drop_Suc [OF assms(3)] by (auto simp: tracked_def goal_of_def)
next
  case (Some s)
  obtain l where l: "pi = s + 1 + length l" "vi = sv + length l" "star \<notin> set l"
    "drop (s + 1) p = l @ drop pi p" "drop sv v = l @ drop vi v"
    using assms(1) Some by (auto simp: tracked_def)
  have "drop pi p = star # drop (pi + 1) p"
    using Cons_nth_drop_Suc [OF assms(3)] assms(4) by simp
  then have "glob (star # drop (s + 1) p) (drop sv v) = glob (star # drop (pi + 1) p) (drop vi v)"
    using glob_leftmost [of l "drop sv v" "drop (pi + 1) p"] l by simp
  then show ?thesis using Some assms by (auto simp: tracked_def goal_of_def)
qed

text \<open>A mismatch: the value does not match where the pattern stands.\<close>
lemma glob_mismatch:
  assumes "vi < length v" "\<not> (pi < length p \<and> (p ! pi = v ! vi \<or> p ! pi = star))"
  shows "\<not> glob (drop pi p) (drop vi v)"
  using assms Cons_nth_drop_Suc [of vi v] Cons_nth_drop_Suc [of pi p]
  by (cases "pi < length p") (auto dest: arg_cong [of "drop pi p" _ "\<lambda>x. glob x (drop vi v)"],
      metis glob.simps(3))

lemma tracked_back:
  assumes "tracked p v pi vi (Some s) sv" "vi < length v" "\<not> glob (drop pi p) (drop vi v)"
  shows "tracked p v (s + 1) (sv + 1) (Some s) (sv + 1) \<and>
    goal_of p v (s + 1) (sv + 1) (Some s) (sv + 1) = goal_of p v pi vi (Some s) sv"
proof -
  obtain l where l: "pi = s + 1 + length l" "vi = sv + length l" "star \<notin> set l"
    "drop (s + 1) p = l @ drop pi p" "drop sv v = l @ drop vi v"
    using assms(1) by (auto simp: tracked_def)
  have sv: "drop sv v = v ! sv # drop (sv + 1) v"
    using l(2) assms(2) Cons_nth_drop_Suc [of sv v] by simp
  have "\<not> glob (drop (s + 1) p) (drop sv v)"
    using assms(3) l glob_literal [of l "drop pi p" "drop sv v"] by simp
  then have "glob (star # drop (s + 1) p) (drop sv v) = glob (star # drop (s + 1) p) (drop (sv + 1) v)"
    using sv by simp
  then show ?thesis using assms(1,2) l(1,2) by (auto simp: tracked_def goal_of_def)
qed

lemma tracked_end:
  assumes "tracked p v pi (length v) seen sv"
  shows "goal_of p v pi (length v) seen sv = list_all (\<lambda>c. c = star) (drop pi p)"
proof (cases seen)
  case (Some s)
  obtain l where l: "star \<notin> set l" "drop (s + 1) p = l @ drop pi p" "drop sv v = l"
    using assms Some by (auto simp: tracked_def)
  have "glob (star # l @ drop pi p) l \<longleftrightarrow> glob (drop pi p) []"
  proof
    assume "glob (star # l @ drop pi p) l"
    then obtain j where "take (length l) (drop j l) = l" "glob (drop pi p) (drop (length l) (drop j l))"
      using l(1) by (auto simp: glob_star glob_literal)
    then show "glob (drop pi p) []" by simp
  qed (use l(1) in \<open>auto simp: glob_star glob_literal intro!: exI [of _ 0]\<close>)
  then show ?thesis using Some l by (simp add: goal_of_def glob_Nil)
qed (simp add: goal_of_def glob_Nil)

lemma wildcard_loop_glob:
  "star \<notin> set v \<Longrightarrow> tracked p v pi vi seen sv \<Longrightarrow> wildcard_loop p v pi vi seen sv = goal_of p v pi vi seen sv"
proof (induction p v pi vi seen sv rule: wildcard_loop.induct)
  case (1 p v pi vi seen sv)
  consider (over) "vi = length v" | (hit) "vi < length v" "pi < length p" "p ! pi = v ! vi"
    | (new) "vi < length v" "pi < length p" "p ! pi \<noteq> v ! vi" "p ! pi = star"
    | (miss) "vi < length v" "\<not> (pi < length p \<and> (p ! pi = v ! vi \<or> p ! pi = star))"
    using "1.prems"(2) unfolding tracked_def by (metis le_neq_implies_less)
  then show ?case
  proof cases
    case over
    then show ?thesis using tracked_end "1.prems"(2) by (simp add: wildcard_loop.simps)
  next
    case hit
    then show ?thesis
      using "1.IH"(1) tracked_match [OF "1.prems"(2) hit "1.prems"(1)] "1.prems"(1)
      by (subst wildcard_loop.simps) simp
  next
    case new
    then show ?thesis
      using "1.IH"(2) tracked_star [OF "1.prems"(2) new(1,2,4)] "1.prems"(1)
      by (subst wildcard_loop.simps) simp
  next
    case miss
    note no = glob_mismatch [OF miss]
    show ?thesis
    proof (cases seen)
      case None
      then show ?thesis using miss no by (subst wildcard_loop.simps) (auto simp: goal_of_def)
    next
      case (Some s)
      then show ?thesis
        using "1.IH"(3) miss tracked_back [of p v pi vi s sv] no "1.prems"
        by (subst wildcard_loop.simps) auto
    qed
  qed
qed

text \<open>C40: The filter on command names (\<open>wildcard_match\<close>, with its single backtracking point) accepts a name without a
  star exactly when the pattern, read as a glob, matches it.\<close>
theorem wildcard_match_glob:
  assumes "star \<notin> set v"
  shows "wildcard_match p v \<longleftrightarrow> glob p v"
  using wildcard_loop_glob [OF assms, of p 0 0 None 0] by (simp add: wildcard_match_def tracked_def goal_of_def)

theorem wildcard_match_glob_witness:
  "wildcard_match ''a*b*c'' ''abxbyc'' = glob ''a*b*c'' ''abxbyc'' \<and> glob ''a*b*c'' ''abxbyc''"
  using wildcard_match_glob [of "''abxbyc''" "''a*b*c''"] by simp

text \<open>A star in the name itself defeats the filter: it is taken for the pattern's star, which then matches nothing
  else.  The pattern star, a on a name that starts with a star and ends in a accepts only the two-letter name, where the glob
  accepts all of them.\<close>
theorem wildcard_star_in_name:
  assumes "c \<noteq> star"
  shows "glob [star, c] (star # w @ [c]) \<and> (wildcard_match [star, c] (star # w @ [c]) \<longleftrightarrow> w = [])"
proof
  have "glob [c] (drop (length w) (w @ [c]))" using assms by simp
  then have "\<exists>j \<le> length (star # w @ [c]). glob [c] (drop j (star # w @ [c]))"
    by (intro exI [of _ "Suc (length w)"]) simp
  then show "glob [star, c] (star # w @ [c])" by (simp only: glob_star)
  show "wildcard_match [star, c] (star # w @ [c]) \<longleftrightarrow> w = []"
    using assms by (cases w) (auto simp: wildcard_match_def wildcard_loop.simps nth_append)
qed

theorem wildcard_star_in_name_witness:
  "glob ''*a'' ''*ba'' \<and> \<not> wildcard_match ''*a'' ''*ba''"
  using wildcard_star_in_name [of "CHR ''a''" "''b''"] by simp

section \<open>Reading line by line\<close>

text \<open>The lines of a text, each with its new line; the last one may lack it.\<close>
function lines_of :: "bytes \<Rightarrow> bytes list" where
  "lines_of data = (if data = [] then [] else line_part data # lines_of (drop (length (line_part data)) data))"
  by pat_completeness auto
termination
  by (relation "measure length") (use line_part_size in auto)

declare lines_of.simps [simp del]

text \<open>The reference: one line after the other, over the limit, unreadable, blank or a record for the callback.\<close>
fun process_lines ::
  "outside \<Rightarrow> (capture_record \<Rightarrow> 's \<Rightarrow> unit res \<times> 's) \<Rightarrow> nat \<Rightarrow> bytes list \<Rightarrow> 's \<Rightarrow> unit res \<times> 's"
where
  "process_lines out callback n [] s = (Ok (), s)"
| "process_lines out callback n (line # rest) s =
     (if MAX_CAPTURE_LINE_BYTES < length line
      then (Err (''capture line exceeds '' @ nat_str MAX_CAPTURE_LINE_BYTES @ '' bytes''), s)
      else case read_line out (n + 1) line of
             Inl e \<Rightarrow> (Err e, s)
           | Inr None \<Rightarrow> process_lines out callback (n + 1) rest s
           | Inr (Some r) \<Rightarrow>
               (case callback r s of
                  (Inl e, s) \<Rightarrow> (Err e, s)
                | (Inr _, s) \<Rightarrow> process_lines out callback (n + 1) rest s))"

lemma until_new_line: "10 \<notin> set l \<Longrightarrow> takeWhile (\<lambda>b. b \<noteq> 10) (l @ 10 # r) = l" for l :: bytes
  by (induction l) auto

lemma no_new_line: "10 \<notin> set l \<Longrightarrow> takeWhile (\<lambda>b. b \<noteq> 10) l = l" for l :: bytes
  by (induction l) auto

lemma line_part_first: "10 \<notin> set l \<Longrightarrow> line_part (l @ 10 # r) = l @ [10]"
  by (simp add: line_part_def until_new_line)

lemma line_part_none: "10 \<notin> set l \<Longrightarrow> line_part l = l"
  by (simp add: line_part_def no_new_line)

text \<open>A piece without a new line is taken whole, one with a new line up to it.\<close>
lemma line_part_cases:
  obtains (whole) "10 \<notin> set a" "line_part a = a"
    | (cut) l r where "a = l @ 10 # r" "10 \<notin> set l" "line_part a = l @ [10]"
proof (cases "10 \<in> set a")
  case True
  then obtain l r where a: "a = l @ 10 # r" "10 \<notin> set l" by (meson split_list_first)
  then show ?thesis using cut line_part_first by blast
next
  case False
  then show ?thesis using whole line_part_none by blast
qed

lemma lines_of_first: "10 \<notin> set l \<Longrightarrow> lines_of (l @ 10 # r) = (l @ [10]) # lines_of r"
  by (subst lines_of.simps) (simp add: line_part_first)

lemma lines_of_none: "10 \<notin> set l \<Longrightarrow> l \<noteq> [] \<Longrightarrow> lines_of l = [l]"
  by (subst lines_of.simps) (simp add: line_part_none lines_of.simps)

lemma lines_of_Nil [simp]: "lines_of [] = []"
  by (simp add: lines_of.simps)

text \<open>A buffered reader without read errors: its pieces, and what they hold together.\<close>
abbreviation pieces :: "bytes list \<Rightarrow> buffered" where
  "pieces ps \<equiv> map Inr ps"

text \<open>What a bounded line is, of a line begun and the text still to come.\<close>
lemma read_bounded_line_pieces:
  assumes "[] \<notin> set ps" "10 \<notin> set line" "length line \<le> m"
  shows "(case lines_of (line @ concat ps) of
      [] \<Rightarrow> read_bounded_line m (pieces ps) line = (Ok None, [])
    | l # _ \<Rightarrow>
        if m < length l
        then fst (read_bounded_line m (pieces ps) line) = Err (''capture line exceeds '' @ nat_str m @ '' bytes'')
        else \<exists>qs. read_bounded_line m (pieces ps) line = (Ok (Some l), pieces qs) \<and> [] \<notin> set qs \<and>
               line @ concat ps = l @ concat qs)"
  using assms
proof (induction ps arbitrary: line)
  case Nil
  then show ?case by (cases "line = []") (auto simp: lines_of_none intro: exI [of _ "[]"])
next
  case (Cons a ps)
  show ?case
  proof (cases a rule: line_part_cases)
    case whole
    show ?thesis
    proof (cases "m < length (line @ a)")
      case True
      have "\<exists>l ls. lines_of (line @ concat (a # ps)) = l # ls \<and> length (line @ a) \<le> length l"
      proof -
        have ne: "line @ concat (a # ps) \<noteq> []" using Cons.prems(1) by auto
        have "length (line @ a) \<le> length (line_part ((line @ a) @ concat ps))"
          using whole(1) Cons.prems(2) by (auto simp: line_part_def takeWhile_append no_new_line Let_def)
        then show ?thesis using ne by (subst lines_of.simps) simp
      qed
      then show ?thesis using True whole Cons.prems(1) by auto
    next
      case False
      then have rec: "read_bounded_line m (pieces (a # ps)) line = read_bounded_line m (pieces ps) (line @ a)"
        using whole Cons.prems(1,2) by (auto simp: Let_def dest: last_in_set)
      have joined: "line @ concat (a # ps) = (line @ a) @ concat ps" by simp
      show ?thesis unfolding rec joined using Cons.IH [of "line @ a"] False whole(1) Cons.prems by auto
    qed
  next
    case (cut l r)
    then have lines: "lines_of (line @ concat (a # ps)) = (line @ l @ [10]) # lines_of (r @ concat ps)"
      using Cons.prems(2) lines_of_first [of "line @ l" "r @ concat ps"] by simp
    have len: "length (line_part a) < length a \<longleftrightarrow> r \<noteq> []" "drop (length (line_part a)) a = r" using cut by auto
    show ?thesis
    proof (cases "m < length (line @ l @ [10])")
      case True
      then show ?thesis unfolding lines using cut by (simp add: Let_def)
    next
      case False
      then have "read_bounded_line m (pieces (a # ps)) line =
          (Ok (Some (line @ l @ [10])), pieces (if r = [] then ps else r # ps))"
        using cut(1,3) len by (auto simp: consume_def Let_def)
      then show ?thesis unfolding lines using False cut Cons.prems(1) by (auto split: if_splits)
    qed
  qed
qed

lemma read_records_lines:
  assumes "[] \<notin> set ps"
  shows "read_records out callback (map Inr ps) s = process_lines out callback 0 (lines_of (concat ps)) s"
proof -
  have "[] \<notin> set ps \<Longrightarrow> read_from out callback n (pieces ps) s = process_lines out callback n (lines_of (concat ps)) s" for n
  proof (induction "lines_of (concat ps)" arbitrary: ps n s)
    case Nil
    then show ?case
      using read_bounded_line_pieces [of ps "[]" MAX_CAPTURE_LINE_BYTES] by (subst read_from.simps) simp
  next
    case (Cons l ls)
    note lines = Cons.hyps(2) [symmetric]
    show ?case
    proof (cases "MAX_CAPTURE_LINE_BYTES < length l")
      case True
      then show ?thesis
        using read_bounded_line_pieces [of ps "[]" MAX_CAPTURE_LINE_BYTES] Cons.prems lines
        by (subst read_from.simps) (auto split: prod.splits)
    next
      case False
      then obtain qs where qs: "read_bounded_line MAX_CAPTURE_LINE_BYTES (pieces ps) [] = (Ok (Some l), pieces qs)"
        "[] \<notin> set qs" "concat ps = l @ concat qs"
        using read_bounded_line_pieces [of ps "[]" MAX_CAPTURE_LINE_BYTES] Cons.prems lines by auto
      have "lines_of (concat qs) = ls"
        using lines qs(3) by (subst (asm) lines_of.simps) (auto split: if_splits simp: append_eq_conv_conj)
      with Cons.hyps(1) [of qs] qs(2) have "read_from out callback n (pieces qs) s = process_lines out callback n ls s" for n s
        by simp
      then show ?thesis
        using False qs(1) lines by (subst read_from.simps) (auto split: sum.splits option.splits prod.splits)
    qed
  qed
  with assms show ?thesis by (simp add: read_records_def)
qed

text \<open>Reading a capture file does not depend on the pieces the buffered reader hands out: on every division of a text
  into non-empty pieces, \<open>read_records\<close> does what working through its lines one by one does, the oversized, undecodable and
  foreign ones as errors, up to the first error of a line or of the callback.\<close>
theorem read_records_by_lines:
  assumes "[] \<notin> set ps"
  shows "read_records out callback (map Inr ps) s = process_lines out callback 0 (lines_of (concat ps)) s"
  using assms by (rule read_records_lines)

text \<open>A world outside that prints values as nothing, reads every line as the same record and keeps bytes as they are.\<close>
definition sample_record :: capture_record where
  "sample_record = \<lparr>cr_version = 1, cr_connection = ''c'', cr_index = 2, cr_time = 2, cr_direction = ServerToClient,
     cr_opcode = PingFrame, cr_payload = None\<rparr>"

definition sample_outside :: outside where
  "sample_outside = \<lparr>b64_encode = bytes_str, b64_decode = (\<lambda>s. Ok (str_bytes s)), lz4_read = (\<lambda>_ _. Err ''no frame''),
     print_json = (\<lambda>_. []), pretty_json = (\<lambda>_. []), clock_text = (\<lambda>_. None), utf8_error = (\<lambda>_. []),
     read_record = (\<lambda>_. Ok sample_record)\<rparr>"

theorem read_records_by_lines_witness:
  "read_records sample_outside (\<lambda>r n. (Ok (), n + cr_index r)) (map Inr [[123], [125, 10, 32], [10, 123, 125]]) (0 :: nat)
     = (Ok (), 4)"
  using read_records_by_lines [of "[[123], [125, 10, 32], [10, 123, 125]]" sample_outside "\<lambda>r n. (Ok (), n + cr_index r)" "0 :: nat"]
  by (simp add: lines_of.simps line_part_def read_line_def sample_outside_def sample_record_def MAX_CAPTURE_LINE_BYTES_def
      MAX_CONNECTION_ID_BYTES_def CAPTURE_SCHEMA_VERSION_def utf8_valid.simps utf8_piece_def utf8_width_def bytes_str_simps
      char_of_byte_def)

end
