(* ===== verification/Capture_Inspect.thy ===== *)
theory Capture_Inspect
  imports Capture_Text
begin

text \<open>
  The inspector: what redaction removes, and how responses find their requests.  \<open>awaiting\<close> reads the pairing off the events
  themselves, searching them backwards without any bound; the inspector's map of pending requests never holds anything else,
  and as long as the capture has no more requests than the map has room for, it holds exactly that.
\<close>

section \<open>Redaction\<close>

text \<open>Two values alike but for what stands under sensitive keys.\<close>
inductive alike :: "json \<Rightarrow> json \<Rightarrow> bool" where
  same: "alike v v"
| arrays: "list_all2 alike vs ws \<Longrightarrow> alike (Array vs) (Array ws)"
| objects: "list_all2 (\<lambda>a b. fst a = fst b \<and> (sensitive (fst a) \<or> alike (snd a) (snd b))) kvs kws \<Longrightarrow>
    alike (Object kvs) (Object kws)"

lemma redact_kind: "redact_value v = redact_value w \<Longrightarrow>
    (\<exists>vs ws. v = Array vs \<and> w = Array ws) \<or> (\<exists>kvs kws. v = Object kvs \<and> w = Object kws) \<or> v = w"
  by (cases v; cases w) simp_all

lemma alike_redact: "alike v w \<Longrightarrow> redact_value v = redact_value w"
proof (induction rule: alike.induct)
  case (arrays vs ws)
  then have "map redact_value vs = map redact_value ws"
    by (auto simp: list_all2_conv_all_nth list_eq_iff_nth_eq)
  then show ?case by simp
next
  case (objects kvs kws)
  let ?f = "\<lambda>kv. (fst kv, if sensitive (fst kv) then Str ''[REDACTED]'' else redact_value (snd kv))"
  have "length kvs = length kws" "\<And>i. i < length kvs \<Longrightarrow> ?f (kvs ! i) = ?f (kws ! i)"
    using objects by (simp_all add: list_all2_conv_all_nth) metis
  then have "map ?f kvs = map ?f kws" by (simp add: list_eq_iff_nth_eq)
  then show ?case by simp
qed simp

lemma redact_alike: "redact_value v = redact_value w \<Longrightarrow> alike v w"
proof (induction v arbitrary: w rule: redact_value.induct)
  case (1 kvs)
  then obtain kws where w: "w = Object kws" using redact_kind by blast
  have len: "length kvs = length kws" using "1.prems" w by (auto dest: map_eq_imp_length_eq)
  have "fst (kvs ! i) = fst (kws ! i) \<and> (sensitive (fst (kvs ! i)) \<or> alike (snd (kvs ! i)) (snd (kws ! i)))"
    if "i < length kvs" for i
  proof -
    have "(\<lambda>kv. (fst kv, if sensitive (fst kv) then Str ''[REDACTED]'' else redact_value (snd kv))) (kvs ! i) =
          (\<lambda>kv. (fst kv, if sensitive (fst kv) then Str ''[REDACTED]'' else redact_value (snd kv))) (kws ! i)"
      using "1.prems" w len that by (metis (no_types, lifting) json.inject(5) nth_map redact_value.simps(1))
    then show ?thesis using "1.IH" [of "kvs ! i" "snd (kws ! i)"] that by (auto split: if_splits)
  qed
  then show ?case unfolding w using len by (intro objects) (simp add: list_all2_conv_all_nth, metis)
next
  case (2 vs)
  then obtain ws where w: "w = Array ws" using redact_kind by blast
  then have "map redact_value vs = map redact_value ws" using "2.prems" by simp
  then show ?case unfolding w using "2.IH"
    by (intro arrays) (metis list_all2_conv_all_nth map_eq_imp_length_eq nth_map nth_mem)
qed (use redact_kind same in \<open>fastforce\<close>)+

lemma inspect_parts:
  "inspect out r ins =
     (let (event, go) = decode_record out r;
          (matched, pend) = match_response event (in_pending ins)
      in if go then (if in_redact ins then matched\<lparr>ev_body := map_option redact_value (ev_body matched)\<rparr> else matched,
                     ins\<lparr>in_pending := note_request matched pend\<rparr>)
         else (event, ins))"
  by (auto simp: inspect_def Let_def split: prod.splits bool.splits)

lemma match_response_frame:
  assumes "match_response event pend = (matched, pend')"
  shows "ev_direction matched = ev_direction event" "ev_connection matched = ev_connection event"
    "ev_seq matched = ev_seq event" "ev_resp matched = ev_resp event" "ev_time matched = ev_time event"
    "ev_cmd matched = ev_cmd event" "ev_error matched = ev_error event" "ev_body matched = ev_body event"
  using assms by (auto simp: match_response_def Let_def split: if_splits option.splits)

lemma undecoded_event:
  "decode_record out r = (event, False) \<Longrightarrow>
     ev_seq event = 0 \<and> ev_resp event = 0 \<and> ev_body event = None \<and> ev_matched event = None \<and> ev_latency event = None"
  by (auto simp: decode_record_def blank_event_def Let_def split: sum.splits option.splits)

lemma decoded_event_unmatched:
  "decode_record out r = (event, go) \<Longrightarrow> ev_matched event = None \<and> ev_latency event = None"
  by (auto simp: decode_record_def message_event_def blank_event_def Let_def split: sum.splits option.splits)

text \<open>C22: Redaction removes the values under sensitive keys and nothing else: two bodies have the same redacted form exactly
  when they differ only below such keys.  It changes no other field of an event, and does not touch the pairing.\<close>
theorem redaction_exact:
  "(redact_value v = redact_value w \<longleftrightarrow> alike v w) \<and>
   inspect out r (ins\<lparr>in_redact := True\<rparr>) =
     (let (event, ins') = inspect out r (ins\<lparr>in_redact := False\<rparr>)
      in (event\<lparr>ev_body := map_option redact_value (ev_body event)\<rparr>, ins'\<lparr>in_redact := True\<rparr>))"
proof
  show "redact_value v = redact_value w \<longleftrightarrow> alike v w" using alike_redact redact_alike by blast
  obtain event go where d: "decode_record out r = (event, go)" by fastforce
  obtain matched pend where m: "match_response event (in_pending ins) = (matched, pend)" by fastforce
  show "inspect out r (ins\<lparr>in_redact := True\<rparr>) =
     (let (event, ins') = inspect out r (ins\<lparr>in_redact := False\<rparr>)
      in (event\<lparr>ev_body := map_option redact_value (ev_body event)\<rparr>, ins'\<lparr>in_redact := True\<rparr>))"
  proof (cases go)
    case True
    then show ?thesis by (simp add: inspect_parts d m)
  next
    case False
    then have "ev_body event = None" using undecoded_event [of out r event] d by simp
    then have "event\<lparr>ev_body := map_option redact_value (ev_body event)\<rparr> = event" by simp
    with False show ?thesis by (simp add: inspect_parts d m)
  qed
qed

section \<open>Pairing\<close>

fun inspect_all :: "outside \<Rightarrow> capture_record list \<Rightarrow> inspector \<Rightarrow> decoded_event list \<times> inspector" where
  "inspect_all out [] ins = ([], ins)"
| "inspect_all out (r # rs) ins =
     (let (e, ins) = inspect out r ins; (es, ins) = inspect_all out rs ins in (e # es, ins))"

definition is_request :: "decoded_event \<Rightarrow> bool" where
  "is_request e \<longleftrightarrow> ev_direction e = ClientToServer \<and> 0 < ev_seq e"

definition is_response :: "decoded_event \<Rightarrow> bool" where
  "is_response e \<longleftrightarrow> ev_direction e = ServerToClient \<and> 0 < ev_resp e"

text \<open>The request a number of a connection still waits for, of the events so far, the newest first.\<close>
fun awaiting :: "decoded_event list \<Rightarrow> string \<times> u32 \<Rightarrow> pending_request option" where
  "awaiting [] key = None"
| "awaiting (e # es) key =
     (if is_request e \<and> (ev_connection e, ev_seq e) = key
      then Some \<lparr>pr_cmd = unwrap_or (ev_cmd e) ''<unknown>'', pr_time = ev_time e\<rparr>
      else if is_response e \<and> (ev_connection e, ev_resp e) = key then None
      else awaiting es key)"

definition pairs :: "decoded_event list \<Rightarrow> pending \<Rightarrow> bool" where
  "pairs es pend \<longleftrightarrow> distinct (map fst pend) \<and> length pend \<le> PENDING_LIMIT \<and>
     length pend \<le> length (filter is_request es) \<and> map_of pend \<subseteq>\<^sub>m awaiting es \<and>
     (length (filter is_request es) \<le> PENDING_LIMIT \<longrightarrow> map_of pend = awaiting es)"

lemma length_delete_le: "length (AList.delete k xs) \<le> length xs"
  by (induction xs) auto

lemma length_update_le: "length (AList.update k v xs) \<le> Suc (length xs)"
  by (induction xs) auto

lemma filter_submap: "distinct (map fst xs) \<Longrightarrow> map_of (filter P xs) \<subseteq>\<^sub>m map_of xs"
  by (auto simp: map_le_def intro: map_of_filter_in dest: map_of_SomeD)
     (metis (no_types, lifting) filter_is_subset map_of_SomeD map_of_eq_Some_iff subsetD)

lemma make_room_facts:
  assumes "distinct (map fst pend)"
  shows "distinct (map fst (make_room now pend))" "map_of (make_room now pend) \<subseteq>\<^sub>m map_of pend"
    "length (make_room now pend) \<le> length pend" "length (make_room now pend) < PENDING_LIMIT"
    "length pend < PENDING_LIMIT \<Longrightarrow> make_room now pend = pend"
proof -
  have "distinct (map fst (filter P pend))" for P using assms distinct_map_filter by blast
  then show "distinct (map fst (make_room now pend))"
    using assms by (simp add: make_room_def Let_def)
  show "map_of (make_room now pend) \<subseteq>\<^sub>m map_of pend"
    using filter_submap [OF assms] by (auto simp: make_room_def Let_def)
  show "length (make_room now pend) \<le> length pend" by (auto simp: make_room_def Let_def)
  show "length (make_room now pend) < PENDING_LIMIT" by (auto simp: make_room_def Let_def PENDING_LIMIT_def)
  show "length pend < PENDING_LIMIT \<Longrightarrow> make_room now pend = pend" by (simp add: make_room_def)
qed

text \<open>What an event does to the pending requests; an event that was not decoded has no numbers and does nothing.\<close>
definition settle :: "decoded_event \<Rightarrow> pending \<Rightarrow> pending" where
  "settle e pend =
     note_request e (if is_response e then AList.delete (ev_connection e, ev_resp e) pend else pend)"

lemma pairs_settle:
  assumes "pairs es pend"
  shows "pairs (e # es) (settle e pend)"
proof -
  let ?n = "length (filter is_request es)"
  have pend: "distinct (map fst pend)" "length pend \<le> PENDING_LIMIT" "length pend \<le> ?n" "map_of pend \<subseteq>\<^sub>m awaiting es"
    and full: "?n \<le> PENDING_LIMIT \<Longrightarrow> map_of pend = awaiting es"
    using assms by (auto simp: pairs_def)
  consider (request) "is_request e" "\<not> is_response e" | (response) "is_response e" "\<not> is_request e"
    | (other) "\<not> is_request e" "\<not> is_response e"
    by (auto simp: is_request_def is_response_def)
  then show ?thesis
  proof cases
    case request
    define room where "room = make_room (ev_time e) pend"
    define new where "new = \<lparr>pr_cmd = unwrap_or (ev_cmd e) ''<unknown>'', pr_time = ev_time e\<rparr>"
    have eq: "settle e pend = AList.update (ev_connection e, ev_seq e) new room"
      using request by (simp add: settle_def note_request_def room_def new_def is_request_def)
    have aw: "awaiting (e # es) = (awaiting es)((ev_connection e, ev_seq e) \<mapsto> new)"
      using request by (auto simp: new_def)
    note room = make_room_facts [OF pend(1), of "ev_time e", folded room_def]
    have "map_of room \<subseteq>\<^sub>m awaiting es" using room(2) pend(4) by (rule map_le_trans)
    moreover have "map_of room = awaiting es" if "Suc ?n \<le> PENDING_LIMIT"
      using that full room(5) pend(3) by simp
    moreover have "length (settle e pend) \<le> Suc (length room)" by (simp add: eq length_update_le)
    ultimately show ?thesis
      using room pend request(1)
      by (auto simp: pairs_def eq aw distinct_update update_conv' map_le_def)
  next
    case response
    have eq: "settle e pend = AList.delete (ev_connection e, ev_resp e) pend"
      using response by (auto simp: settle_def note_request_def is_request_def)
    have aw: "awaiting (e # es) = (awaiting es)((ev_connection e, ev_resp e) := None)"
      using response by auto
    show ?thesis
      using pend full response(2) length_delete_le [of "(ev_connection e, ev_resp e)" pend]
      by (auto simp: pairs_def eq aw distinct_delete delete_conv' map_le_def)
  next
    case other
    then have "settle e pend = pend" by (auto simp: settle_def note_request_def is_request_def)
    moreover have "awaiting (e # es) = awaiting es" using other by auto
    ultimately show ?thesis using assms other by (simp add: pairs_def)
  qed
qed

lemma delete_absent: "map_of xs k = None \<Longrightarrow> AList.delete k xs = xs"
  by (simp add: map_of_eq_None_iff delete_id)

text \<open>An inspection: the pending requests are settled with the event it returns, and a response takes what was pending.\<close>
lemma inspect_settles:
  assumes "inspect out r ins = (e, ins')"
  shows "in_pending ins' = settle e (in_pending ins)"
    "(ev_matched e, ev_latency e) =
       (case (if is_response e then map_of (in_pending ins) (ev_connection e, ev_resp e) else None) of
          None \<Rightarrow> (None, None)
        | Some req \<Rightarrow> (Some (pr_cmd req), Some (ev_time e - pr_time req)))"
proof -
  obtain event go where d: "decode_record out r = (event, go)" by fastforce
  obtain matched pend where m: "match_response event (in_pending ins) = (matched, pend)" by fastforce
  note frame = match_response_frame [OF m]
  have pend: "pend = (if is_response event then AList.delete (ev_connection event, ev_resp event) (in_pending ins) else in_pending ins)"
    using m by (auto simp: match_response_def is_response_def Let_def delete_absent split: if_splits option.splits)
  have found: "(ev_matched matched, ev_latency matched) =
       (case (if is_response event then map_of (in_pending ins) (ev_connection event, ev_resp event) else None) of
          None \<Rightarrow> (None, None)
        | Some req \<Rightarrow> (Some (pr_cmd req), Some (ev_time event - pr_time req)))"
    using m decoded_event_unmatched [OF d]
    by (auto simp: match_response_def is_response_def Let_def split: if_splits option.splits)
  show "in_pending ins' = settle e (in_pending ins)"
  proof (cases go)
    case True
    then have "in_pending ins' = note_request matched pend"
      using assms d m by (auto simp: inspect_parts Let_def)
    moreover have "note_request e p = note_request matched p" "is_response e = is_response event"
      "ev_connection e = ev_connection event" "ev_resp e = ev_resp event" for p
      using assms d m True frame
      by (cases "in_redact ins"; auto simp: inspect_parts note_request_def is_response_def)+
    ultimately show ?thesis by (simp add: settle_def pend)
  next
    case False
    then show ?thesis
      using assms d undecoded_event [of out r event]
      by (auto simp: inspect_parts Let_def settle_def note_request_def is_response_def split: prod.splits)
  qed
  show "(ev_matched e, ev_latency e) =
       (case (if is_response e then map_of (in_pending ins) (ev_connection e, ev_resp e) else None) of
          None \<Rightarrow> (None, None)
        | Some req \<Rightarrow> (Some (pr_cmd req), Some (ev_time e - pr_time req)))"
  proof (cases go)
    case True
    have "ev_matched e = ev_matched matched" "ev_latency e = ev_latency matched" "is_response e = is_response event"
      "ev_connection e = ev_connection event" "ev_resp e = ev_resp event" "ev_time e = ev_time event"
      using assms d m True frame by (cases "in_redact ins"; auto simp: inspect_parts is_response_def)+
    then show ?thesis using found by (simp only:)
  next
    case False
    then show ?thesis
      using assms d undecoded_event [of out r event]
      by (auto simp: inspect_parts Let_def is_response_def split: prod.splits)
  qed
qed

lemma inspect_all_pairs:
  "pairs es (in_pending ins) \<Longrightarrow> inspect_all out rs ins = (new, ins') \<Longrightarrow> pairs (rev new @ es) (in_pending ins')"
proof (induction rs arbitrary: es ins new)
  case (Cons r rs)
  obtain e mid where e: "inspect out r ins = (e, mid)" by fastforce
  obtain later where later: "inspect_all out rs mid = (later, ins')" "new = e # later"
    using Cons.prems(2) e by (auto simp: Let_def split: prod.splits)
  have "pairs (e # es) (in_pending mid)"
    using pairs_settle [OF Cons.prems(1)] inspect_settles(1) [OF e] by simp
  from Cons.IH [OF this later(1)] show ?case using later(2) by simp
qed simp

text \<open>C17: The inspector answers from a bounded memory and never pairs wrongly.  After any capture it keeps at most 10000
  pending requests; if it names a request for a message, the message is a response and that request is the newest one of its
  connection with its number that no response has answered yet, with the latency between the two; and while the capture has
  no more than 10000 requests, every response that answers such a request is paired with it.\<close>
theorem inspector_pairs_responses:
  assumes "inspect_all out rs (inspector_new redact) = (es, ins)" "inspect out r ins = (e, ins')"
  shows "length (in_pending ins) \<le> 10000 \<and>
    (\<forall>cmd. ev_matched e = Some cmd \<longrightarrow>
       is_response e \<and> (\<exists>req. awaiting (rev es) (ev_connection e, ev_resp e) = Some req \<and> cmd = pr_cmd req \<and>
          ev_latency e = Some (ev_time e - pr_time req))) \<and>
    (length (filter is_request es) \<le> 10000 \<longrightarrow> is_response e \<longrightarrow>
       ev_matched e = map_option pr_cmd (awaiting (rev es) (ev_connection e, ev_resp e)))"
proof -
  have "pairs [] (in_pending (inspector_new redact))"
    by (simp add: pairs_def inspector_new_def PENDING_LIMIT_def fun_eq_iff)
  from inspect_all_pairs [OF this assms(1)] have p: "pairs (rev es) (in_pending ins)" by simp
  have n: "length (filter is_request (rev es)) = length (filter is_request es)" by (simp add: rev_filter [symmetric])
  have bound: "length (in_pending ins) \<le> 10000" "map_of (in_pending ins) \<subseteq>\<^sub>m awaiting (rev es)"
    and full: "length (filter is_request es) \<le> 10000 \<Longrightarrow> map_of (in_pending ins) = awaiting (rev es)"
    using p by (simp_all add: pairs_def n PENDING_LIMIT_def)
  show ?thesis
  proof (cases "if is_response e then map_of (in_pending ins) (ev_connection e, ev_resp e) else None")
    case None
    then have "is_response e \<Longrightarrow> map_of (in_pending ins) (ev_connection e, ev_resp e) = None" by simp
    then have "length (filter is_request es) \<le> 10000 \<Longrightarrow> is_response e \<Longrightarrow>
        awaiting (rev es) (ev_connection e, ev_resp e) = None"
      using full by simp
    with None show ?thesis using inspect_settles(2) [OF assms(2)] bound(1) by simp
  next
    case (Some req)
    then have "is_response e" "map_of (in_pending ins) (ev_connection e, ev_resp e) = Some req"
      by (simp_all split: if_splits)
    moreover from this bound(2) have "awaiting (rev es) (ev_connection e, ev_resp e) = Some req"
      by (metis domI map_le_def)
    ultimately show ?thesis using inspect_settles(2) [OF assms(2)] bound(1) by simp
  qed
qed

section \<open>A sample capture\<close>

definition asking :: object where
  "asking = [(''cmd'', Str ''role''), (''seq'', Number (PosInt 7))]"

definition answering :: object where
  "answering = [(''resp'', Number (PosInt 7))]"

definition sample_frame_record :: "direction \<Rightarrow> nat \<Rightarrow> object \<Rightarrow> capture_record" where
  "sample_frame_record dir t obj = sample_record\<lparr>cr_direction := dir, cr_time := t, cr_opcode := BinaryFrame,
     cr_payload := Some (bytes_str (xor_encrypt 40 9 (encode (Object obj))))\<rparr>"

lemma sample_opens:
  assumes "obj = asking \<or> obj = answering"
  shows "parse_message_limited display frame_read (xor_encrypt 40 9 (encode (Object obj))) DEFAULT_MAX_WIRE_SIZE
    DEFAULT_MAX_DECOMPRESSED_SIZE = Ok (proto_with_limits obj limits_proxy)"
proof -
  have "length (encode (Object asking)) \<le> 64" "length (encode (Object answering)) \<le> 64"
    unfolding asking_def answering_def by code_simp+
  then have "length (encode (Object obj)) \<le> 64" using assms by blast
  moreover have "admissible limits_proxy (Object obj)" "survives (Object obj)"
    using assms by (auto simp: i64_max_def asking_def answering_def admissible_def limits_ok_def limits_proxy_def str_fits_def
        str_valid_ascii ascii_def obj_sorted_def)
  ultimately show ?thesis
    using xor_channel.parse_sealed_object [of limits_proxy obj DEFAULT_MAX_WIRE_SIZE DEFAULT_MAX_DECOMPRESSED_SIZE
        display frame_read 40 9]
    by (simp add: parse_message_limited_def DEFAULT_MAX_DECOMPRESSED_SIZE_def DEFAULT_MAX_WIRE_SIZE_def)
qed

lemma decode_parsed:
  assumes "parse_message_limited (print_json out) (lz4_read out) payload DEFAULT_MAX_WIRE_SIZE DEFAULT_MAX_DECOMPRESSED_SIZE = Ok m"
    "binary_payload out r = Ok (Some payload)"
  shows "decode_record out r =
    (message_event out m ((blank_event r)\<lparr>ev_size := length payload, ev_encoding := Some (detect_encoding payload)\<rparr>), True)"
  using assms by (simp add: decode_record_def)

lemma sample_payload:
  "binary_payload sample_outside (sample_frame_record dir t obj) = Ok (Some (xor_encrypt 40 9 (encode (Object obj))))"
  by (simp add: binary_payload_def sample_frame_record_def sample_outside_def)

lemma sample_record_fields:
  "cr_connection (sample_frame_record dir t obj) = ''c''" "cr_direction (sample_frame_record dir t obj) = dir"
  "cr_time (sample_frame_record dir t obj) = t"
  by (simp_all add: sample_frame_record_def sample_record_def)

lemma asking_event:
  "let e = message_event out (proto_with_limits asking limits_proxy) (b\<lparr>ev_size := n, ev_encoding := c\<rparr>) in
     ev_connection e = ev_connection b \<and> ev_direction e = ev_direction b \<and> ev_time e = ev_time b \<and>
     ev_cmd e = Some ''role'' \<and> ev_seq e = 7 \<and> ev_resp e = 0"
  by (simp add: message_event_def asking_def proto_with_limits_def msg_cmd_def msg_seq_def msg_resp_def
      msg_u32_def raw_data_result_def msg_body_def as_u64_def as_str_def u32_try_from_def MAX_COMMAND_BYTES_def)

lemma answering_event:
  "let e = message_event out (proto_with_limits answering limits_proxy) (b\<lparr>ev_size := n, ev_encoding := c\<rparr>) in
     ev_connection e = ev_connection b \<and> ev_direction e = ev_direction b \<and> ev_time e = ev_time b \<and>
     ev_seq e = 0 \<and> ev_resp e = 7"
  by (simp add: message_event_def answering_def proto_with_limits_def msg_cmd_def msg_seq_def msg_resp_def
      msg_u32_def raw_data_result_def msg_body_def as_u64_def as_str_def u32_try_from_def MAX_COMMAND_BYTES_def)

lemma sample_decodes:
  "\<exists>event. decode_record sample_outside (sample_frame_record dir t asking) = (event, True) \<and> ev_connection event = ''c'' \<and>
     ev_direction event = dir \<and> ev_time event = t \<and> ev_cmd event = Some ''role'' \<and> ev_seq event = 7 \<and> ev_resp event = 0"
  "\<exists>event. decode_record sample_outside (sample_frame_record dir t answering) = (event, True) \<and> ev_connection event = ''c'' \<and>
     ev_direction event = dir \<and> ev_time event = t \<and> ev_seq event = 0 \<and> ev_resp event = 7"
  using asking_event [where out = sample_outside and b = "blank_event (sample_frame_record dir t asking)"]
    answering_event [where out = sample_outside and b = "blank_event (sample_frame_record dir t answering)"]
  by (simp_all add: decode_parsed [OF sample_opens sample_payload] Let_def, simp_all add: blank_event_def sample_record_fields)

lemma inspect_one:
  "decode_record out r = (ask, True) \<Longrightarrow> ev_direction ask = ClientToServer \<Longrightarrow>
   inspect_all out [r] (inspector_new False) = ([ask], \<lparr>in_pending = note_request ask [], in_redact = False\<rparr>)"
proof -
  assume d: "decode_record out r = (ask, True)" and "ev_direction ask = ClientToServer"
  then have m: "match_response ask [] = (ask, [])" by (simp only: match_response_def direction.distinct simp_thms if_False)
  have "inspect out r (inspector_new False) = (ask, \<lparr>in_pending = note_request ask [], in_redact = False\<rparr>)"
    unfolding inspect_parts inspector_new_def by (simp only: inspector.simps d m prod.case Let_def if_True if_False)
  then show ?thesis by simp
qed

lemma inspect_response:
  "decode_record out r = (ans, True) \<Longrightarrow> \<not> in_redact ins \<Longrightarrow> inspect out r ins = (e, ins') \<Longrightarrow>
   is_response e = is_response ans \<and> ev_connection e = ev_connection ans \<and> ev_resp e = ev_resp ans"
proof -
  assume d: "decode_record out r = (ans, True)" and quiet: "\<not> in_redact ins" and e: "inspect out r ins = (e, ins')"
  obtain matched pend where m: "match_response ans (in_pending ins) = (matched, pend)" by fastforce
  have "e = matched" using e quiet unfolding inspect_parts d by (simp only: m prod.case Let_def if_True if_False prod.inject)
  then show ?thesis using match_response_frame(1,2,4) [OF m] by (simp only: is_response_def)
qed

theorem inspector_pairs_responses_witness:
  "ev_matched (fst (inspect sample_outside (sample_frame_record ServerToClient 25 answering)
       (snd (inspect_all sample_outside [sample_frame_record ClientToServer 10 asking] (inspector_new False))))) = Some ''role''"
proof -
  obtain ask where ask: "decode_record sample_outside (sample_frame_record ClientToServer 10 asking) = (ask, True)"
    "ev_connection ask = ''c''" "ev_direction ask = ClientToServer" "ev_cmd ask = Some ''role''" "ev_seq ask = 7"
    using sample_decodes(1) by blast
  obtain ans where ans: "decode_record sample_outside (sample_frame_record ServerToClient 25 answering) = (ans, True)"
    "ev_connection ans = ''c''" "ev_direction ans = ServerToClient" "ev_resp ans = 7"
    using sample_decodes(2) by blast
  note run = inspect_one [OF ask(1,3)]
  obtain e ins' where last: "inspect sample_outside (sample_frame_record ServerToClient 25 answering)
      \<lparr>in_pending = note_request ask [], in_redact = False\<rparr> = (e, ins')"
    by fastforce
  have "is_response e" "ev_connection e = ''c''" "ev_resp e = 7"
    using inspect_response [OF ans(1) _ last] ans by (simp_all add: is_response_def)
  moreover have "awaiting (rev [ask]) (''c'', 7) = Some \<lparr>pr_cmd = ''role'', pr_time = ev_time ask\<rparr>"
    using ask by (simp add: is_request_def)
  moreover have "length (filter is_request [ask]) \<le> 10000" by simp
  ultimately have "ev_matched e = Some ''role''"
    using inspector_pairs_responses [OF run last] by (simp only: option.map pending_request.simps)
  then show ?thesis unfolding run using last by simp
qed

end
