(* ===== verification/Capture_Catalog.thy ===== *)
theory Capture_Catalog
  imports Capture_Text
begin

text \<open>
  The catalog of commands: whatever events it sees, it stays within its bounds, its counters say what it holds, and its
  schemas hold no value of a body.  The invariant is stated once (\<open>catalog_ok\<close>) and kept by every operation.
\<close>

section \<open>Shapes\<close>

definition shape_words :: "string set" where
  "shape_words = {''depth_limit'', ''null'', ''boolean'', ''number'', ''string'', ''variant_limit''}"

text \<open>A schema: words of a fixed vocabulary under keys, nested at most \<open>n\<close> deep, with bounded arrays and objects.\<close>
fun schema :: "nat \<Rightarrow> json \<Rightarrow> bool" where
  "schema n (Str s) = (s \<in> shape_words)"
| "schema n (Bool b) = b"
| "schema (Suc n) (Array vs) = (length vs \<le> MAX_ARRAY_VARIANTS + 1 \<and> (\<forall>v \<in> set vs. schema n v))"
| "schema (Suc n) (Object kvs) = (length kvs \<le> MAX_SHAPE_FIELDS + 1 \<and> (\<forall>kv \<in> set kvs. schema n (snd kv)))"
| "schema n v = False"

lemma shape_variants_facts:
  "length seen \<le> MAX_ARRAY_VARIANTS \<Longrightarrow> length (shape_variants ss seen) \<le> MAX_ARRAY_VARIANTS + 1"
  "set (shape_variants ss seen) \<subseteq> insert (Str ''variant_limit'') (set ss \<union> set seen)"
  by (induction ss seen rule: shape_variants.induct) auto

lemma foldl_insert_facts:
  "length (foldl (\<lambda>m (k, s). obj_insert (f k) s m) m kvs) \<le> length m + length kvs"
  "kv \<in> set (foldl (\<lambda>m (k, s). obj_insert (f k) s m) m kvs) \<Longrightarrow> kv \<in> set m \<or> snd kv \<in> snd ` set kvs"
proof (induction kvs arbitrary: m)
  case (Cons a kvs)
  {
    case 1
    show ?case using Cons.IH(1) [of "obj_insert (f (fst a)) (snd a) m"] length_obj_insert [of "f (fst a)" "snd a" m]
      by (simp add: case_prod_beta)
  next
    case 2
    then show ?case using Cons.IH(2) [of "obj_insert (f (fst a)) (snd a) m"]
      by (auto simp: case_prod_beta dest: obj_insert_elem)
  }
qed simp_all

lemma value_shape_schema: "d \<le> MAX_SHAPE_DEPTH \<Longrightarrow> schema (MAX_SHAPE_DEPTH - d) (value_shape out v d)"
proof (induction out v d rule: value_shape.induct)
  case (1 out v d)
  show ?case
  proof (cases "MAX_SHAPE_DEPTH \<le> d")
    case True
    then show ?thesis by (simp add: value_shape.simps shape_words_def)
  next
    case False
    then have room: "MAX_SHAPE_DEPTH - d = Suc (MAX_SHAPE_DEPTH - Suc d)" by simp
    note simps = value_shape.simps [of out v d]
    show ?thesis
    proof (cases v)
      case (Array vs)
      let ?ss = "take MAX_ARRAY_ITEMS_INSPECTED (map (\<lambda>v. value_shape out v (Suc d)) vs)"
      have "schema (MAX_SHAPE_DEPTH - Suc d) s" if "s \<in> set ?ss" for s
        using in_set_takeD [OF that] "1.IH"(1) [OF False Array] False by auto
      moreover have "schema n (Str ''variant_limit'')" for n by (simp add: shape_words_def)
      ultimately have "schema (MAX_SHAPE_DEPTH - Suc d) s" if "s \<in> set (shape_variants ?ss [])" for s
        using that shape_variants_facts(2) [of ?ss "[]"] by auto
      then show ?thesis using shape_variants_facts(1) [of "[]" ?ss] False Array by (simp add: simps [unfolded Array] room)
    next
      case (Object kvs)
      let ?ss = "take MAX_SHAPE_FIELDS (map (\<lambda>kv. (fst kv, value_shape out (snd kv) (Suc d))) kvs)"
      let ?m = "foldl (\<lambda>m (k, s). obj_insert (schema_key k) s m) [] ?ss"
      have "schema (MAX_SHAPE_DEPTH - Suc d) (snd kv)" if "kv \<in> set ?ss" for kv
        using that "1.IH"(2) [OF False Object] False by (force dest: in_set_takeD)
      then have sub: "schema (MAX_SHAPE_DEPTH - Suc d) (snd kv)" if "kv \<in> set ?m" for kv
        using foldl_insert_facts(2) [OF that] by auto
      have len: "length ?m \<le> MAX_SHAPE_FIELDS" using foldl_insert_facts(1) [of schema_key "[]" ?ss] by simp
      have "length (obj_insert ''$truncated'' (Bool True) ?m) \<le> MAX_SHAPE_FIELDS + 1"
        using len length_obj_insert [of "''$truncated''" "Bool True" ?m] by simp
      then show ?thesis using sub len False Object 
        by (auto simp: simps [unfolded Object] room Let_def dest!: obj_insert_elem)
    qed (use False in \<open>simp_all add: value_shape.simps shape_words_def\<close>)
  qed
qed

section \<open>The invariant\<close>

definition summary_shapes :: "command_summary \<Rightarrow> json list" where
  "summary_shapes s = cs_request_shapes s @ cs_response_shapes s @ cs_push_shapes s"

definition summary_ok :: "outside \<Rightarrow> command_summary \<Rightarrow> bool" where
  "summary_ok out s \<longleftrightarrow> (\<forall>kind. distinct (shapes kind s) \<and> length (shapes kind s) \<le> MAX_CATALOG_SHAPES) \<and>
     (\<forall>v \<in> set (summary_shapes s). schema MAX_SHAPE_DEPTH v \<and> length (print_json out v) \<le> MAX_SINGLE_SHAPE_BYTES) \<and>
     length (cs_codes s) \<le> MAX_RESPONSE_CODES \<and> obj_sorted (cs_codes s)"

definition total_of :: "(command_summary \<Rightarrow> nat) \<Rightarrow> catalog \<Rightarrow> nat" where
  "total_of f c = sum_list (map (\<lambda>kv. f (snd kv)) (ca_commands c))"

definition shape_bytes :: "outside \<Rightarrow> command_summary \<Rightarrow> nat" where
  "shape_bytes out s = sum_list (map (\<lambda>v. length (print_json out v)) (summary_shapes s))"

definition catalog_ok :: "outside \<Rightarrow> catalog \<Rightarrow> bool" where
  "catalog_ok out c \<longleftrightarrow> obj_sorted (ca_commands c) \<and> length (ca_commands c) \<le> MAX_CATALOG_COMMANDS \<and>
     (\<forall>kv \<in> set (ca_commands c). summary_ok out (snd kv)) \<and>
     ca_shape_count c = total_of (\<lambda>s. length (summary_shapes s)) c \<and> ca_shape_count c \<le> MAX_CATALOG_SHAPE_COUNT \<and>
     ca_schema_bytes c = total_of (shape_bytes out) c \<and> ca_schema_bytes c \<le> MAX_CATALOG_SCHEMA_BYTES \<and>
     ca_overflow_shapes c = total_of cs_overflow c"

lemma catalog_new_ok: "catalog_ok out catalog_new"
  by (simp add: catalog_ok_def catalog_new_def total_of_def)

lemma summary_default_ok: "summary_ok out summary_default"
proof -
  have "shapes kind summary_default = []" for kind by (cases kind) (simp_all add: summary_default_def)
  then show ?thesis by (simp add: summary_ok_def summary_shapes_def) (simp add: summary_default_def)
qed

text \<open>Sums over the commands, with one summary added or changed.\<close>

lemma sum_obj_insert:
  "obj_get kvs k = None \<Longrightarrow> sum_list (map (\<lambda>kv. f (snd kv)) (obj_insert k v kvs)) = f v + sum_list (map (\<lambda>kv. f (snd kv)) kvs)"
  for f :: "'v \<Rightarrow> nat"
  by (induction kvs) (auto split: if_splits)

lemma length_obj_insert_new: "obj_get kvs k = None \<Longrightarrow> length (obj_insert k v kvs) = Suc (length kvs)"
  by (induction kvs) (auto split: if_splits)

lemma length_obj_insert_old: "obj_sorted kvs \<Longrightarrow> obj_get kvs k \<noteq> None \<Longrightarrow> length (obj_insert k v kvs) = length kvs"
  by (induction kvs) (force simp: obj_sorted_Cons map_of_eq_None_iff dest: map_of_SomeD split: if_splits)+

lemma sum_update:
  fixes f :: "'v \<Rightarrow> nat"
  assumes "obj_sorted kvs" "obj_get kvs k = Some s"
  shows "sum_list (map (\<lambda>kv. f (snd kv)) (map (\<lambda>kv. if fst kv = k then (k, g (snd kv)) else kv) kvs)) + f s =
    sum_list (map (\<lambda>kv. f (snd kv)) kvs) + f (g s)"
  using assms
proof (induction kvs)
  case (Cons a kvs)
  show ?case
  proof (cases "fst a = k")
    case True
    then have "\<forall>kv \<in> set kvs. fst kv \<noteq> k" using Cons.prems(1) by (cases a) (auto simp: obj_sorted_Cons)
    then have "map (\<lambda>kv. if fst kv = k then (k, g (snd kv)) else kv) kvs = kvs" by (simp add: map_idI)
    then show ?thesis using True Cons.prems(2) by (cases a) auto
  next
    case False
    then show ?thesis using Cons by (cases a) (auto simp: obj_sorted_Cons)
  qed
qed simp

lemma on_command_fields [simp]:
  "ca_shape_count (on_command cmd f c) = ca_shape_count c" "ca_schema_bytes (on_command cmd f c) = ca_schema_bytes c"
  "ca_overflow_shapes (on_command cmd f c) = ca_overflow_shapes c" "length (ca_commands (on_command cmd f c)) = length (ca_commands c)"
  by (simp_all add: on_command_def)

lemma total_on_command:
  assumes "obj_sorted (ca_commands c)" "obj_get (ca_commands c) cmd = Some s"
  shows "total_of f (on_command cmd g c) + f s = total_of f c + f (g s)"
  using sum_update [OF assms, of f g] by (simp add: total_of_def on_command_def)

lemma sorted_on_command: "obj_sorted (ca_commands (on_command cmd f c)) = obj_sorted (ca_commands c)"
proof -
  have "map fst (ca_commands (on_command cmd f c)) = map fst (ca_commands c)" by (auto simp: on_command_def)
  then show ?thesis by (simp add: obj_sorted_def)
qed

lemma get_on_command: "obj_get (ca_commands c) cmd = Some s \<Longrightarrow> obj_get (ca_commands (on_command cmd f c)) cmd = Some (f s)"
proof -
  have "map_of (map (\<lambda>kv. if fst kv = cmd then (cmd, f (snd kv)) else kv) kvs) cmd = map_option f (map_of kvs cmd)" for kvs
    by (induction kvs) auto
  then show "obj_get (ca_commands c) cmd = Some s \<Longrightarrow> ?thesis" by (simp add: on_command_def)
qed

lemma elem_on_command:
  assumes "kv \<in> set (ca_commands (on_command cmd f c))" "obj_sorted (ca_commands c)" "obj_get (ca_commands c) cmd = Some s"
  shows "kv \<in> set (ca_commands c) \<or> kv = (cmd, f s)"
proof -
  from assms(1) have "kv \<in> (\<lambda>kv. if fst kv = cmd then (cmd, f (snd kv)) else kv) ` set (ca_commands c)"
    by (simp add: on_command_def)
  then obtain old where old: "old \<in> set (ca_commands c)" "kv = (if fst old = cmd then (cmd, f (snd old)) else old)"
    by (rule imageE)
  show ?thesis
  proof (cases "fst old = cmd")
    case True
    then have "snd old = s"
      using old(1) assms(2,3) obj_sorted_distinct by (metis map_of_eq_Some_iff option.inject prod.collapse)
    then show ?thesis using old(2) True by simp
  qed (use old in simp)
qed

text \<open>A command's summary changes in a way that keeps its shapes and its overflow.\<close>
lemma catalog_ok_on_command:
  assumes "catalog_ok out c" "obj_get (ca_commands c) cmd = Some s" "summary_ok out (f s)"
    "ca_shape_count c' + length (summary_shapes s) = ca_shape_count c + length (summary_shapes (f s))"
    "ca_schema_bytes c' + shape_bytes out s = ca_schema_bytes c + shape_bytes out (f s)"
    "ca_overflow_shapes c' + cs_overflow s = ca_overflow_shapes c + cs_overflow (f s)"
    "ca_shape_count c' \<le> MAX_CATALOG_SHAPE_COUNT" "ca_schema_bytes c' \<le> MAX_CATALOG_SCHEMA_BYTES"
    "ca_commands c' = ca_commands c"
  shows "catalog_ok out (on_command cmd f c')"
proof -
  have c: "obj_sorted (ca_commands c')" "obj_get (ca_commands c') cmd = Some s" "total_of g c' = total_of g c" for g
    using assms(1,2,9) by (simp_all add: catalog_ok_def total_of_def)
  have "\<forall>kv \<in> set (ca_commands (on_command cmd f c')). summary_ok out (snd kv)"
    using elem_on_command [OF _ c(1,2)] assms(1,3,9) by (fastforce simp: catalog_ok_def)
  moreover have "total_of g (on_command cmd f c') + g s = total_of g c + g (f s)" for g
    using total_on_command [OF c(1,2)] c(3) by simp
  from this [of "\<lambda>s. length (summary_shapes s)"] this [of "shape_bytes out"] this [of cs_overflow]
  have "total_of (\<lambda>s. length (summary_shapes s)) (on_command cmd f c') = ca_shape_count c'"
    "total_of (shape_bytes out) (on_command cmd f c') = ca_schema_bytes c'" "total_of cs_overflow (on_command cmd f c') = ca_overflow_shapes c'"
    using assms(1,4-6) by (simp_all add: catalog_ok_def)
  ultimately show ?thesis using assms(1,7-9) by (simp add: catalog_ok_def sorted_on_command)
qed

section \<open>Every event keeps it\<close>

lemma ensure_command_ok:
  assumes "catalog_ok out c" "ensure_command cmd c = (go, c')"
  shows "catalog_ok out c' \<and> (go \<longrightarrow> (\<exists>s. obj_get (ca_commands c') cmd = Some s))"
proof (cases "obj_get (ca_commands c) cmd = None \<and> length (ca_commands c) < MAX_CATALOG_COMMANDS")
  case True
  then have c': "c' = c\<lparr>ca_commands := obj_insert cmd summary_default (ca_commands c)\<rparr>" "go"
    using assms(2) by (auto simp: ensure_command_def)
  have "total_of f c' = f summary_default + total_of f c" for f
    using True by (simp add: total_of_def c' sum_obj_insert)
  from this [of "\<lambda>s. length (summary_shapes s)"] this [of "shape_bytes out"] this [of cs_overflow]
  have "total_of (\<lambda>s. length (summary_shapes s)) c' = total_of (\<lambda>s. length (summary_shapes s)) c"
    "total_of (shape_bytes out) c' = total_of (shape_bytes out) c" "total_of cs_overflow c' = total_of cs_overflow c"
    by (simp_all add: summary_default_def summary_shapes_def shape_bytes_def)
  then show ?thesis
    using assms(1) True
    by (auto simp: catalog_ok_def c' obj_sorted_insert length_obj_insert_new summary_default_ok dest: obj_insert_elem)
qed (use assms in \<open>auto simp: ensure_command_def catalog_ok_def total_of_def split: if_splits\<close>)

lemma shapes_all: "set (shapes kind s) \<subseteq> set (summary_shapes s)"
  by (cases kind) (auto simp: summary_shapes_def)

lemma push_shape_facts:
  "shapes k (push_shape kind v s) = (if k = kind then shapes k s @ [v] else shapes k s)"
  "set (summary_shapes (push_shape kind v s)) = insert v (set (summary_shapes s))"
  "length (summary_shapes (push_shape kind v s)) = Suc (length (summary_shapes s))"
  "shape_bytes out (push_shape kind v s) = shape_bytes out s + length (print_json out v)"
  "cs_codes (push_shape kind v s) = cs_codes s" "cs_overflow (push_shape kind v s) = cs_overflow s"
  by (cases kind; cases k; auto simp: summary_shapes_def shape_bytes_def)+

lemma record_shape_ok:
  assumes "catalog_ok out c" "obj_get (ca_commands c) cmd = Some s"
  shows "catalog_ok out (record_shape out cmd kind body c)"
proof (cases body)
  case (Some v)
  define shape where "shape = value_shape out v 0"
  define size where "size = length (print_json out shape)"
  have shape: "schema MAX_SHAPE_DEPTH shape" using value_shape_schema [of 0] by (simp add: shape_def)
  have s: "summary_ok out s" using assms map_of_SomeD by (fastforce simp: catalog_ok_def)
  define full where "full \<longleftrightarrow> MAX_CATALOG_SHAPES \<le> length (shapes kind s) \<or> MAX_SINGLE_SHAPE_BYTES < size \<or>
      MAX_CATALOG_SHAPE_COUNT \<le> ca_shape_count c \<or> MAX_CATALOG_SCHEMA_BYTES < ca_schema_bytes c + size"
  have eq: "record_shape out cmd kind body c =
      (if shape \<in> set (shapes kind s) then c
       else if full then on_command cmd (\<lambda>s. s\<lparr>cs_overflow := cs_overflow s + 1\<rparr>) (c\<lparr>ca_overflow_shapes := ca_overflow_shapes c + 1\<rparr>)
       else on_command cmd (push_shape kind shape)
              (c\<lparr>ca_shape_count := ca_shape_count c + 1, ca_schema_bytes := ca_schema_bytes c + size\<rparr>))"
    using assms(2) by (simp add: record_shape_def Some full_def Let_def flip: shape_def size_def)
  consider (known) "shape \<in> set (shapes kind s)" | (full) "shape \<notin> set (shapes kind s)" full
    | (new) "shape \<notin> set (shapes kind s)" "\<not> full" by blast
  then show ?thesis
  proof cases
    case known
    then show ?thesis using assms(1) by (simp add: eq)
  next
    case full
    have same: "shapes k (s\<lparr>cs_overflow := n\<rparr>) = shapes k s" for k n by (cases k) simp_all
    have "summary_ok out (s\<lparr>cs_overflow := cs_overflow s + 1\<rparr>)"
      using s by (simp add: summary_ok_def summary_shapes_def same)
    then show ?thesis
      using full assms(1) unfolding eq
      by (simp, intro catalog_ok_on_command [OF assms]) (simp_all add: catalog_ok_def summary_shapes_def shape_bytes_def)
  next
    case new
    then have "length (shapes kind s) < MAX_CATALOG_SHAPES" "size \<le> MAX_SINGLE_SHAPE_BYTES"
      "ca_shape_count c < MAX_CATALOG_SHAPE_COUNT" "ca_schema_bytes c + size \<le> MAX_CATALOG_SCHEMA_BYTES"
      by (auto simp: full_def)
    moreover from this have "summary_ok out (push_shape kind shape s)"
      using s new(1) shape by (auto simp: summary_ok_def push_shape_facts size_def)
    ultimately show ?thesis
      using new assms(1) unfolding eq
      by (simp, intro catalog_ok_on_command [OF assms]) (simp_all add: push_shape_facts size_def)
  qed
qed (use assms in \<open>simp add: record_shape_def\<close>)

lemma add_response_code_facts:
  "shapes kind (add_response_code code s) = shapes kind s" "summary_shapes (add_response_code code s) = summary_shapes s"
  "cs_overflow (add_response_code code s) = cs_overflow s"
  by (cases kind; simp add: add_response_code_def summary_shapes_def Let_def)+

lemma add_response_code_ok:
  assumes "summary_ok out s"
  shows "summary_ok out (add_response_code code s)"
proof -
  let ?codes = "cs_codes s"
  have old: "obj_sorted ?codes" "length ?codes \<le> MAX_RESPONSE_CODES" using assms by (simp_all add: summary_ok_def)
  have "length (obj_insert k v ?codes) \<le> MAX_RESPONSE_CODES"
    if "obj_get ?codes k \<noteq> None \<or> length ?codes < MAX_RESPONSE_CODES" for k v
    using that old length_obj_insert_old [OF old(1), of k v] length_obj_insert [of k v ?codes] by (cases "obj_get ?codes k") auto
  then have "length (cs_codes (add_response_code code s)) \<le> MAX_RESPONSE_CODES" "obj_sorted (cs_codes (add_response_code code s))"
    using old by (auto simp: add_response_code_def Let_def obj_sorted_insert)
  then show ?thesis using assms by (simp add: summary_ok_def add_response_code_facts)
qed

text \<open>A count that leaves shapes, codes and overflow to the rest.\<close>
definition counts_only :: "outside \<Rightarrow> (command_summary \<Rightarrow> command_summary) \<Rightarrow> bool" where
  "counts_only out f \<longleftrightarrow> (\<forall>s. (summary_ok out s \<longrightarrow> summary_ok out (f s)) \<and> summary_shapes (f s) = summary_shapes s \<and>
     cs_overflow (f s) = cs_overflow s)"

lemma shapes_count: "shapes kind (s\<lparr>cs_requests := n\<rparr>) = shapes kind s" "shapes kind (s\<lparr>cs_responses := n\<rparr>) = shapes kind s"
  "shapes kind (s\<lparr>cs_pushes := n\<rparr>) = shapes kind s"
  by (cases kind; simp)+

lemma counts_only_counts:
  "counts_only out (\<lambda>s. s\<lparr>cs_requests := cs_requests s + 1\<rparr>)"
  "counts_only out (\<lambda>s. count_code code (s\<lparr>cs_responses := cs_responses s + 1\<rparr>))"
  "counts_only out (\<lambda>s. count_code code (s\<lparr>cs_pushes := cs_pushes s + 1\<rparr>))"
proof -
  have ok: "summary_ok out (s\<lparr>cs_requests := n\<rparr>) = summary_ok out s" "summary_ok out (s\<lparr>cs_responses := n\<rparr>) = summary_ok out s"
    "summary_ok out (s\<lparr>cs_pushes := n\<rparr>) = summary_ok out s" for s n
    by (simp_all only: summary_ok_def shapes_count) (simp_all add: summary_shapes_def)
  have same: "summary_shapes (s\<lparr>cs_responses := n\<rparr>) = summary_shapes s" "summary_shapes (s\<lparr>cs_pushes := n\<rparr>) = summary_shapes s" for s n
    by (simp_all add: summary_shapes_def)
  show "counts_only out (\<lambda>s. s\<lparr>cs_requests := cs_requests s + 1\<rparr>)"
    using ok by (simp add: counts_only_def) (simp add: summary_shapes_def)
  show "counts_only out (\<lambda>s. count_code code (s\<lparr>cs_responses := cs_responses s + 1\<rparr>))"
    "counts_only out (\<lambda>s. count_code code (s\<lparr>cs_pushes := cs_pushes s + 1\<rparr>))"
    using ok add_response_code_ok
    by (auto simp: counts_only_def count_code_def add_response_code_facts same split: option.splits)
qed

lemma note_command_ok:
  assumes "catalog_ok out c" "counts_only out count"
  shows "catalog_ok out (note_command out cmd kind count body c)"
proof -
  obtain go c' where e: "ensure_command cmd c = (go, c')" by fastforce
  note ensured = ensure_command_ok [OF assms(1) e]
  show ?thesis
  proof (cases go)
    case True
    then obtain s where s: "obj_get (ca_commands c') cmd = Some s" using ensured by blast
    have c': "catalog_ok out c'" using ensured by blast
    then have "summary_ok out s" using s map_of_SomeD by (fastforce simp: catalog_ok_def)
    then have "catalog_ok out (on_command cmd count c')"
      using assms(2) c' by (intro catalog_ok_on_command [OF c' s]) (simp_all add: counts_only_def shape_bytes_def catalog_ok_def)
    then have "catalog_ok out (record_shape out cmd kind body (on_command cmd count c'))"
      using record_shape_ok get_on_command [OF s] by blast
    then show ?thesis using True by (simp add: note_command_def e)
  qed (use ensured in \<open>simp add: note_command_def e\<close>)
qed

lemma unmatched_ok: "catalog_ok out c \<Longrightarrow> catalog_ok out (c\<lparr>ca_unmatched := n\<rparr>)"
  by (simp add: catalog_ok_def total_of_def)

lemma observe_ok: "catalog_ok out c \<Longrightarrow> catalog_ok out (observe out event c)"
  unfolding observe_def
  by (auto intro!: note_command_ok unmatched_ok counts_only_counts [simplified] split: direction.splits option.splits)

lemma all_kinds: "(\<forall>kind. P kind) \<longleftrightarrow> P RequestShape \<and> P ResponseShape \<and> P PushShape"
  by (metis shape_kind.exhaust)

text \<open>C21: The catalog is bounded and keeps its books.  Whatever events it is shown, it has at most 4096 commands, each with at
  most 32 different shapes of each kind and at most 64 codes; its count of shapes and of their bytes are the true sums over
  all commands, at most 4096 and 16 MiB, and its overflow counter is the sum of the commands' counters; and every shape is a
  schema, made of a fixed vocabulary under keys, at most 16 deep, printed in at most 64 KiB: no value of a body is kept.\<close>
theorem catalog_bounded:
  "let c = foldl (\<lambda>c event. observe out event c) catalog_new events;
       summaries = map snd (ca_commands c)
   in length (ca_commands c) \<le> 4096 \<and> distinct (map fst (ca_commands c)) \<and>
      list_all (\<lambda>s. list_all (\<lambda>kind. distinct (shapes kind s) \<and> length (shapes kind s) \<le> 32)
                      [RequestShape, ResponseShape, PushShape] \<and>
                    length (cs_codes s) \<le> 64 \<and>
                    list_all (\<lambda>v. schema 16 v \<and> length (print_json out v) \<le> 64 * 1024) (summary_shapes s)) summaries \<and>
      ca_shape_count c = sum_list (map (\<lambda>s. length (summary_shapes s)) summaries) \<and> ca_shape_count c \<le> 4096 \<and>
      ca_schema_bytes c = sum_list (map (shape_bytes out) summaries) \<and> ca_schema_bytes c \<le> 16 * 1024 * 1024 \<and>
      ca_overflow_shapes c = sum_list (map cs_overflow summaries)"
proof -
  let ?c = "foldl (\<lambda>c event. observe out event c) catalog_new events"
  have "catalog_ok out c \<Longrightarrow> catalog_ok out (foldl (\<lambda>c event. observe out event c) c events)" for c
    by (induction events arbitrary: c) (simp_all add: observe_ok)
  then have ok: "catalog_ok out ?c" using catalog_new_ok by blast
  then show ?thesis
    using obj_sorted_distinct [of "ca_commands ?c"]
    by (auto simp: catalog_ok_def summary_ok_def list_all_iff total_of_def comp_def all_kinds MAX_CATALOG_COMMANDS_def
        MAX_CATALOG_SHAPES_def MAX_RESPONSE_CODES_def MAX_SHAPE_DEPTH_def MAX_SINGLE_SHAPE_BYTES_def MAX_CATALOG_SHAPE_COUNT_def
        MAX_CATALOG_SCHEMA_BYTES_def Let_def)
qed

end
