(* ===== verification/Net.thy ===== *)
theory Net
  imports Text
begin

text \<open>
  Internet addresses as the standard library reads them: the parser of \<open>core::net\<close> for IPv4 and IPv6 addresses, with the
  rest of the text after what was read, and \<open>is_loopback\<close>.
\<close>

datatype ip_addr = V4 "nat list" | V6 "nat list"

definition hex_val :: "char \<Rightarrow> nat option" where
  "hex_val c =
     (let n = of_char c :: nat in
      if 48 \<le> n \<and> n \<le> 57 then Some (n - 48)
      else if 97 \<le> n \<and> n \<le> 102 then Some (n - 87)
      else if 65 \<le> n \<and> n \<le> 70 then Some (n - 55) else None)"

definition char_digit :: "nat \<Rightarrow> char \<Rightarrow> nat option" where
  "char_digit radix c = (case hex_val c of Some d \<Rightarrow> if d < radix then Some d else None | None \<Rightarrow> None)"

definition leading_digits :: "nat \<Rightarrow> string \<Rightarrow> string" where
  "leading_digits radix s = takeWhile (\<lambda>c. char_digit radix c \<noteq> None) s"

text \<open>\<open>read_number\<close> with a bound on the digits: more digits than that, or none, or a leading zero where it is not allowed,
  is no number.\<close>
definition read_number :: "nat \<Rightarrow> nat \<Rightarrow> bool \<Rightarrow> nat \<Rightarrow> string \<Rightarrow> (nat \<times> string) option" where
  "read_number radix max_digits zero_prefix bound s =
     (let ds = leading_digits radix s;
          n = foldl (\<lambda>n c. radix * n + (case char_digit radix c of Some d \<Rightarrow> d | None \<Rightarrow> 0)) 0 ds
      in if ds = [] \<or> max_digits < length ds \<or> (\<not> zero_prefix \<and> hd ds = CHR ''0'' \<and> 1 < length ds) \<or> bound < n then None
         else Some (n, drop (length ds) s))"

fun read_char :: "char \<Rightarrow> string \<Rightarrow> string option" where
  "read_char c [] = None"
| "read_char c (d # s) = (if c = d then Some s else None)"

definition read_separated :: "char \<Rightarrow> nat \<Rightarrow> (string \<Rightarrow> ('a \<times> string) option) \<Rightarrow> string \<Rightarrow> ('a \<times> string) option" where
  "read_separated sep i inner s = Option.bind (if 0 < i then read_char sep s else Some s) inner"

definition read_octet :: "nat \<Rightarrow> string \<Rightarrow> (nat \<times> string) option" where
  "read_octet i s = read_separated (CHR ''.'') i (read_number 10 3 False 255) s"

definition read_ipv4 :: "string \<Rightarrow> (nat list \<times> string) option" where
  "read_ipv4 s =
     Option.bind (read_octet 0 s) (\<lambda>(a, s). Option.bind (read_octet 1 s) (\<lambda>(b, s).
     Option.bind (read_octet 2 s) (\<lambda>(c, s). Option.bind (read_octet 3 s) (\<lambda>(d, s). Some ([a, b, c, d], s)))))"

text \<open>\<open>read_groups\<close>: at most \<open>n\<close> groups from index \<open>i\<close> on, an IPv4 address standing for the last two; whether it did.\<close>
fun read_groups :: "nat \<Rightarrow> nat \<Rightarrow> string \<Rightarrow> nat list \<times> bool \<times> string" where
  "read_groups 0 i s = ([], False, s)"
| "read_groups (Suc n) i s =
     (case (if 0 < n then read_separated (CHR '':'') i read_ipv4 s else None) of
        Some (v4, s) \<Rightarrow> ([256 * v4 ! 0 + v4 ! 1, 256 * v4 ! 2 + v4 ! 3], True, s)
      | None \<Rightarrow>
          (case read_separated (CHR '':'') i (read_number 16 4 True 65535) s of
             None \<Rightarrow> ([], False, s)
           | Some (g, s) \<Rightarrow> (let (gs, v4, s) = read_groups n (Suc i) s in (g # gs, v4, s))))"

definition read_ipv6 :: "string \<Rightarrow> (nat list \<times> string) option" where
  "read_ipv6 s =
     (let (head, v4, rest) = read_groups 8 0 s in
      if length head = 8 then Some (head, rest)
      else if v4 then None
      else Option.bind (read_char (CHR '':'') rest) (\<lambda>rest. Option.bind (read_char (CHR '':'') rest) (\<lambda>rest.
             (let (back, _, rest) = read_groups (8 - (length head + 1)) 0 rest
              in Some (head @ replicate (8 - length head - length back) 0 @ back, rest)))))"

text \<open>\<open>str::parse::<IpAddr>\<close>: the whole text is an address.\<close>
definition parse_ip :: "string \<Rightarrow> ip_addr option" where
  "parse_ip s =
     (case read_ipv4 s of
        Some (octets, rest) \<Rightarrow> if rest = [] then Some (V4 octets) else None
      | None \<Rightarrow> (case read_ipv6 s of
                  Some (groups, rest) \<Rightarrow> if rest = [] then Some (V6 groups) else None
                | None \<Rightarrow> None))"

fun is_loopback :: "ip_addr \<Rightarrow> bool" where
  "is_loopback (V4 octets) \<longleftrightarrow> octets ! 0 = 127"
| "is_loopback (V6 groups) \<longleftrightarrow> groups = [0, 0, 0, 0, 0, 0, 0, 1]"

text \<open>No address starts with a bracket.\<close>
lemma bracket_no_digits [simp]: "leading_digits radix (CHR ''['' # s) = []"
  by (simp add: leading_digits_def char_digit_def hex_val_def)

lemma bracket_no_number [simp]: "read_number radix n zero_prefix bound (CHR ''['' # s) = None"
  by (simp add: read_number_def)

lemma bracket_no_groups: "read_groups n 0 (CHR ''['' # s) = ([], False, CHR ''['' # s)"
  by (cases n) (simp_all add: read_separated_def read_ipv4_def read_octet_def)

lemma bracketed_no_ip: "parse_ip (CHR ''['' # s) = None"
  by (simp add: parse_ip_def read_ipv4_def read_octet_def read_separated_def read_ipv6_def bracket_no_groups)

lemma parse_ip_samples:
  "parse_ip ''127.0.0.1'' = Some (V4 [127, 0, 0, 1])"
  by (simp add: parse_ip_def read_ipv4_def read_octet_def read_separated_def read_number_def leading_digits_def char_digit_def hex_val_def)

end
