(* ===== verification/Relay.thy ===== *)
theory Relay
  imports Capture WebSocket Net
begin

text \<open>
  \<open>src/src/proxy.rs\<close>: the relay between game client and server.  Its tasks (the accept loop, the two directions of every
  connection, the analyser at the other end of the capture channel) take turns in any order; a step is what one of them does
  between two awaits.  The crate \<open>url\<close>, the texts of socket errors and the length \<open>tungstenite\<close> gives a message are
  parameters.  \<open>pu_read\<close> and \<open>ry_taken\<close> are records for the proofs: the messages a direction has read, the frames the
  analyser has taken.  Messages on standard error are left out.
\<close>

section \<open>Configuration and addresses\<close>

definition MAX_MESSAGE_SIZE :: nat where "MAX_MESSAGE_SIZE = 16 * 1024 * 1024"
definition MAX_FRAME_SIZE :: nat where "MAX_FRAME_SIZE = 8 * 1024 * 1024"

record relay_config =
  rc_listen :: ip_addr
  rc_upstream :: url_parts
  rc_max_connections :: nat
  rc_max_capture :: nat

record relay_stats =
  rs_accepted :: nat
  rs_queue_full :: nat
  rs_analyzer_closed :: nat

definition eq_ignore_ascii_case :: "string \<Rightarrow> string \<Rightarrow> bool" where
  "eq_ignore_ascii_case s t \<longleftrightarrow> to_ascii_lower s = to_ascii_lower t"

definition validate_upstream_origin :: "url_parts \<Rightarrow> unit res" where
  "validate_upstream_origin origin =
     (if u_scheme origin \<noteq> ''ws'' \<and> u_scheme origin \<noteq> ''wss'' then Err ''upstream origin must use ws:// or wss://''
      else if u_host origin = None then Err ''upstream origin must include a host''
      else if u_username origin \<noteq> [] \<or> u_password origin \<noteq> None then Err ''upstream origin must not contain credentials''
      else if u_query origin \<noteq> None \<or> u_fragment origin \<noteq> None
      then Err ''upstream origin must not contain a query or fragment''
      else if u_scheme origin = ''ws'' then
        (let host = unwrap_or (u_host origin) [];
             loopback = (eq_ignore_ascii_case host ''localhost'' \<or>
                         (case parse_ip host of Some ip \<Rightarrow> is_loopback ip | None \<Rightarrow> False))
         in if loopback then Ok () else Err ''remote upstream origins must use wss://'')
      else Ok ())"

text \<open>The request target as a URL of its own, else relative to a base; its path and query are set on a copy of the origin, whose
  fragment is dropped.\<close>
definition build_upstream_url :: "url_crate \<Rightarrow> url_parts \<Rightarrow> string \<Rightarrow> url_parts res" where
  "build_upstream_url U origin target =
     (let request = (case url_parse U target of
                       Inr url \<Rightarrow> Ok url
                     | Inl _ \<Rightarrow>
                         (case url_parse U ''ws://relay.invalid'' of
                            Inl e \<Rightarrow> Err (''invalid client request target: '' @ e)
                          | Inr base \<Rightarrow>
                              (case url_join U base target of
                                 Inl e \<Rightarrow> Err (''invalid client request target: '' @ e)
                               | Inr url \<Rightarrow> Ok url)))
      in case request of
           Inl e \<Rightarrow> Err e
         | Inr url \<Rightarrow> Ok (url_set_fragment U None (url_set_query U (u_query url) (url_set_path U (u_path url) origin))))"

text \<open>The checks \<open>run_relay\<close> makes before it listens.\<close>
definition check_config :: "relay_config \<Rightarrow> unit res" where
  "check_config cfg =
     (case validate_upstream_origin (rc_upstream cfg) of
        Inl e \<Rightarrow> Err e
      | Inr _ \<Rightarrow>
          if \<not> is_loopback (rc_listen cfg) then Err ''relay must listen on a loopback address''
          else if rc_max_connections cfg = 0 then Err ''max_connections must be greater than zero''
          else if rc_max_capture cfg = 0 \<or> 2 ^ 32 - 1 < rc_max_capture cfg
          then Err ''max_capture_queue_bytes must be between 1 and u32::MAX''
          else Ok ())"

section \<open>Opening and ending a connection\<close>

text \<open>The first half of \<open>relay_connection\<close>: the client's handshake, which notes the request target, then the connection to the
  upstream; each is given up after its timeout (None).  The URL is the one that is dialled.\<close>
definition open_connection ::
  "url_crate \<Rightarrow> url_parts \<Rightarrow> string option res option \<Rightarrow> (url_parts \<Rightarrow> unit res option) \<Rightarrow> url_parts option \<times> unit res"
where
  "open_connection U origin handshake dial =
     (case handshake of
        None \<Rightarrow> (None, Err ''client WebSocket handshake timed out'')
      | Some (Inl e) \<Rightarrow> (None, Err (''client WebSocket handshake failed: '' @ e))
      | Some (Inr None) \<Rightarrow> (None, Err ''client WebSocket request target missing'')
      | Some (Inr (Some target)) \<Rightarrow>
          (case build_upstream_url U origin target of
             Inl e \<Rightarrow> (None, Err e)
           | Inr url \<Rightarrow>
               (Some url,
                case dial url of
                  None \<Rightarrow> Err ''upstream WebSocket connection timed out''
                | Some (Inl e) \<Rightarrow> Err (''upstream WebSocket connection failed: '' @ e)
                | Some (Inr _) \<Rightarrow> Ok ())))"

text \<open>The end of \<open>relay_connection\<close>: the result of the direction that returned first, else that of the other one, unless it did
  not return within the grace period (None).\<close>
definition connection_result :: "unit res \<Rightarrow> unit res option \<Rightarrow> unit res" where
  "connection_result first_result second_result =
     (case first_result of
        Inl e \<Rightarrow> Err e
      | Inr _ \<Rightarrow> (case second_result of Some (Inl e) \<Rightarrow> Err e | _ \<Rightarrow> Ok ()))"

section \<open>Forwarding a message\<close>

datatype protocol_error = SendAfterClosing | OtherProtocol string
datatype ws_error = ConnectionClosed | AlreadyClosed | Protocol protocol_error | OtherError string

definition is_closed_error :: "ws_error \<Rightarrow> bool" where
  "is_closed_error e \<longleftrightarrow> e \<in> {ConnectionClosed, AlreadyClosed, Protocol SendAfterClosing}"

text \<open>A flush or a send under its timeout.\<close>
datatype timed_io = Completed | Failed ws_error | TimedOut

text \<open>The result, and whether the send completed.\<close>
definition forward_message ::
  "(ws_error \<Rightarrow> string) \<Rightarrow> timed_io \<Rightarrow> timed_io \<Rightarrow> direction \<Rightarrow> bool \<Rightarrow> unit res \<times> bool"
where
  "forward_message error_text flush send dir is_close =
     (let sent =
        (case send of
           Completed \<Rightarrow> (Ok (), True)
         | Failed e \<Rightarrow>
             if is_close \<and> is_closed_error e then (Ok (), False)
             else (Err (direction_text dir @ '' WebSocket write failed: '' @ error_text e), False)
         | TimedOut \<Rightarrow> (Err (direction_text dir @ '' WebSocket write timed out''), False))
      in if is_close then
           (case flush of
              Completed \<Rightarrow> sent
            | Failed e \<Rightarrow>
                if is_closed_error e then (Ok (), False)
                else (Err (direction_text dir @ '' WebSocket flush failed: '' @ error_text e), False)
            | TimedOut \<Rightarrow> (Err (direction_text dir @ '' WebSocket flush timed out''), False))
         else sent)"

fun is_close_message :: "message \<Rightarrow> bool" where
  "is_close_message (MClose c) = True"
| "is_close_message _ = False"

section \<open>State\<close>

text \<open>A direction waits for a frame, is sending one with its record for the analyser, or has returned.\<close>
datatype phase = Waiting | Sending message "observed option" | Returned_with "unit res"

record pump =
  pu_phase :: phase
  pu_read :: "message list"
  pu_written :: "message list"

datatype link_stage = Opening | Relaying | Over

record link =
  li_id :: string
  li_stage :: link_stage
  li_index :: nat
  li_closing :: bool
  li_up :: pump
  li_down :: pump

record relay =
  ry_budget :: nat
  ry_queue :: "observed list"
  ry_open :: bool
  ry_full :: nat
  ry_closed :: nat
  ry_accepted :: nat
  ry_next :: nat
  ry_shutdown :: bool
  ry_links :: "link list"
  ry_taken :: "observed list"

text \<open>What stays fixed while the relay runs: its limits, whether there is a capture channel and how many frames that holds,
  the prefix of its connection ids, the lengths of messages and the texts of errors.\<close>
record relay_env =
  en_connections :: nat
  en_budget :: nat
  en_capture :: bool
  en_capacity :: nat
  en_session :: string
  en_len :: "message \<Rightarrow> nat"
  en_error :: "ws_error \<Rightarrow> string"

definition pump_new :: pump where
  "pump_new = \<lparr>pu_phase = Waiting, pu_read = [], pu_written = []\<rparr>"

definition link_new :: "string \<Rightarrow> link" where
  "link_new name = \<lparr>li_id = name, li_stage = Opening, li_index = 1, li_closing = False, li_up = pump_new, li_down = pump_new\<rparr>"

definition relay_new :: "relay_env \<Rightarrow> relay" where
  "relay_new env = \<lparr>ry_budget = en_budget env, ry_queue = [], ry_open = True, ry_full = 0, ry_closed = 0, ry_accepted = 0,
     ry_next = 1, ry_shutdown = False, ry_links = [], ry_taken = []\<rparr>"

fun pump_of :: "direction \<Rightarrow> link \<Rightarrow> pump" where
  "pump_of ClientToServer l = li_up l"
| "pump_of ServerToClient l = li_down l"

fun set_pump :: "direction \<Rightarrow> pump \<Rightarrow> link \<Rightarrow> link" where
  "set_pump ClientToServer p l = l\<lparr>li_up := p\<rparr>"
| "set_pump ServerToClient p l = l\<lparr>li_down := p\<rparr>"

definition set_link :: "nat \<Rightarrow> link \<Rightarrow> relay \<Rightarrow> relay" where
  "set_link i l r = r\<lparr>ry_links := (ry_links r)[i := l]\<rparr>"

text \<open>The link with number \<open>i\<close> is relaying and one of its directions stands in a phase.\<close>
definition stands :: "relay \<Rightarrow> nat \<Rightarrow> link \<Rightarrow> direction \<Rightarrow> phase \<Rightarrow> bool" where
  "stands r i l dir ph \<longleftrightarrow> i < length (ry_links r) \<and> ry_links r ! i = l \<and> li_stage l = Relaying \<and> pu_phase (pump_of dir l) = ph"

definition active_links :: "relay \<Rightarrow> nat" where
  "active_links r = length (filter (\<lambda>l. li_stage l \<noteq> Over) (ry_links r))"

section \<open>The capture budget\<close>

definition held :: "observed \<Rightarrow> nat" where
  "held ob = unwrap_or (ob_permit ob) 0"

text \<open>A frame for the analyser: none without a channel, or when the analyser has gone, or when the budget does not cover
  its bytes; the last two are counted.\<close>
definition prepare_record ::
  "relay_env \<Rightarrow> nat \<Rightarrow> string \<Rightarrow> nat \<Rightarrow> direction \<Rightarrow> message \<Rightarrow> relay \<Rightarrow> observed option \<times> relay"
where
  "prepare_record env now conn i dir msg r =
     (if \<not> en_capture env then (None, r)
      else if \<not> ry_open r then (None, r\<lparr>ry_closed := ry_closed r + 1\<rparr>)
      else let permits = max (en_len env msg) 1 in
        if 2 ^ 32 \<le> permits then (None, r)
        else if ry_budget r < permits then (None, r\<lparr>ry_full := ry_full r + 1\<rparr>)
        else (Some (observe_owned now conn i dir msg permits), r\<lparr>ry_budget := ry_budget r - permits\<rparr>))"

text \<open>A record that is dropped gives its permits back.\<close>
definition drop_record :: "observed option \<Rightarrow> relay \<Rightarrow> relay" where
  "drop_record ob r = (case ob of None \<Rightarrow> r | Some ob \<Rightarrow> r\<lparr>ry_budget := ry_budget r + held ob\<rparr>)"

definition enqueue_record :: "relay_env \<Rightarrow> observed \<Rightarrow> relay \<Rightarrow> relay" where
  "enqueue_record env ob r =
     (if \<not> ry_open r then drop_record (Some ob) (r\<lparr>ry_closed := ry_closed r + 1\<rparr>)
      else if length (ry_queue r) < en_capacity env then r\<lparr>ry_queue := ry_queue r @ [ob]\<rparr>
      else drop_record (Some ob) (r\<lparr>ry_full := ry_full r + 1\<rparr>))"

definition in_flight :: "pump \<Rightarrow> observed option" where
  "in_flight p = (case pu_phase p of Sending msg ob \<Rightarrow> ob | _ \<Rightarrow> None)"

text \<open>A link's tasks are gone: what its directions were sending is dropped.\<close>
definition end_link :: "nat \<Rightarrow> link \<Rightarrow> relay \<Rightarrow> relay" where
  "end_link i l r =
     (let freed = drop_record (in_flight (li_up l)) (drop_record (in_flight (li_down l)) r);
          quit = (\<lambda>p. p\<lparr>pu_phase := Returned_with (Err ''dropped'')\<rparr>)
      in set_link i (l\<lparr>li_stage := Over, li_up := quit (li_up l), li_down := quit (li_down l)\<rparr>) freed)"

section \<open>The directions\<close>

text \<open>A frame is read: it gets the next index of the link and is prepared for the analyser before it is sent.\<close>
definition take_frame :: "relay_env \<Rightarrow> nat \<Rightarrow> nat \<Rightarrow> direction \<Rightarrow> message \<Rightarrow> relay \<Rightarrow> relay" where
  "take_frame env now i dir msg r =
     (let l = ry_links r ! i;
          (ob, r') = prepare_record env now (li_id l) (li_index l) dir msg r;
          p = pump_of dir l
      in set_link i (set_pump dir (p\<lparr>pu_phase := Sending msg ob, pu_read := pu_read p @ [msg]\<rparr>) (l\<lparr>li_index := li_index l + 1\<rparr>)) r')"

text \<open>The send has ended: an error ends the direction and drops the record, else the record goes to the analyser, and a close
  ends the direction too.\<close>
definition finish_frame :: "relay_env \<Rightarrow> nat \<Rightarrow> direction \<Rightarrow> message \<Rightarrow> observed option \<Rightarrow> timed_io \<Rightarrow> timed_io \<Rightarrow> relay \<Rightarrow> relay" where
  "finish_frame env i dir msg ob flush send r =
     (let l = ry_links r ! i;
          p = pump_of dir l;
          (result, delivered) = forward_message (en_error env) flush send dir (is_close_message msg);
          p = (if delivered then p\<lparr>pu_written := pu_written p @ [msg]\<rparr> else p)
      in case result of
           Inl e \<Rightarrow> set_link i (set_pump dir (p\<lparr>pu_phase := Returned_with (Err e)\<rparr>) l) (drop_record ob r)
         | Inr _ \<Rightarrow>
             set_link i (set_pump dir (p\<lparr>pu_phase := if is_close_message msg then Returned_with (Ok ()) else Waiting\<rparr>) l)
               (case ob of None \<Rightarrow> r | Some ob \<Rightarrow> enqueue_record env ob r))"

text \<open>A direction returns by itself; \<open>send_close\<close> may have sent a last close.\<close>
definition leave :: "nat \<Rightarrow> direction \<Rightarrow> unit res \<Rightarrow> bool \<Rightarrow> relay \<Rightarrow> relay" where
  "leave i dir result said_close r =
     (let l = ry_links r ! i;
          p = pump_of dir l;
          p = (if said_close then p\<lparr>pu_written := pu_written p @ [MClose None]\<rparr> else p)
      in set_link i (set_pump dir (p\<lparr>pu_phase := Returned_with result\<rparr>) l) r)"

section \<open>The steps\<close>

inductive relay_step :: "relay_env \<Rightarrow> relay \<Rightarrow> relay \<Rightarrow> bool" for env where
  accepts: "active_links r < en_connections env \<Longrightarrow>
    relay_step env r (r\<lparr>ry_links := ry_links r @ [link_new (en_session env @ ''-conn-'' @ nat_str (ry_next r))],
                       ry_next := ry_next r + 1, ry_accepted := ry_accepted r + 1\<rparr>)"
| opens: "i < length (ry_links r) \<Longrightarrow> ry_links r ! i = l \<Longrightarrow> li_stage l = Opening \<Longrightarrow>
    relay_step env r (set_link i (l\<lparr>li_stage := Relaying\<rparr>) r)"
| opening_fails: "i < length (ry_links r) \<Longrightarrow> ry_links r ! i = l \<Longrightarrow> li_stage l = Opening \<Longrightarrow>
    relay_step env r (set_link i (l\<lparr>li_stage := Over\<rparr>) r)"
| reads: "stands r i l dir Waiting \<Longrightarrow> relay_step env r (take_frame env now i dir msg r)"
| sends: "stands r i l dir (Sending msg ob) \<Longrightarrow> relay_step env r (finish_frame env i dir msg ob flush send r)"
| stream_ends: "stands r i l dir Waiting \<Longrightarrow> relay_step env r (leave i dir (Ok ()) False r)"
| read_fails: "stands r i l dir Waiting \<Longrightarrow>
    relay_step env r (leave i dir (Err (direction_text dir @ '' WebSocket read failed: '' @ en_error env e)) False r)"
| told_to_close: "stands r i l dir Waiting \<Longrightarrow> ry_shutdown r \<or> li_closing l \<Longrightarrow>
    relay_step env r (leave i dir (Ok ()) said r)"
| first_returns: "stands r i l dir (Returned_with result) \<Longrightarrow> relay_step env r (set_link i (l\<lparr>li_closing := True\<rparr>) r)"
| link_ends: "stands r i l dir (Returned_with result) \<Longrightarrow> li_closing l \<Longrightarrow> relay_step env r (end_link i l r)"
| aborts: "ry_shutdown r \<Longrightarrow> i < length (ry_links r) \<Longrightarrow> ry_links r ! i = l \<Longrightarrow> li_stage l \<noteq> Over \<Longrightarrow>
    relay_step env r (end_link i l r)"
| shuts_down: "relay_step env r (r\<lparr>ry_shutdown := True\<rparr>)"
| analyser_takes: "ry_queue r = ob # rest \<Longrightarrow>
    relay_step env r (drop_record (Some ob) (r\<lparr>ry_queue := rest, ry_taken := ry_taken r @ [ob]\<rparr>))"
| analyser_goes:
    "relay_step env r (foldr (\<lambda>ob. drop_record (Some ob)) (ry_queue r) (r\<lparr>ry_open := False, ry_queue := []\<rparr>))"

definition relay_reaches :: "relay_env \<Rightarrow> relay \<Rightarrow> bool" where
  "relay_reaches env r \<longleftrightarrow> (relay_step env)\<^sup>*\<^sup>* (relay_new env) r"

text \<open>What \<open>run_relay\<close> returns when it has shut down.\<close>
definition stats_of :: "relay \<Rightarrow> relay_stats" where
  "stats_of r = \<lparr>rs_accepted = ry_accepted r, rs_queue_full = ry_full r, rs_analyzer_closed = ry_closed r\<rparr>"

end
