(* ===== verification/Relay_Facts.thy ===== *)
theory Relay_Facts
  imports Relay "HOL-Library.Multiset"
begin

text \<open>
  The relay in any order of its tasks: messages pass unchanged and in order, whatever becomes of their capture; the capture
  queue and the frames in flight never hold more than the byte budget; connections are bounded and numbered.  The permits are
  counted over the multiset \<open>live\<close> of records that hold them.
\<close>

section \<open>Where a relay connects to\<close>

text \<open>What the crate \<open>url\<close> documents of its setters: each changes its own part of the URL only (whatever it makes of the text
  it is given), and given nothing it removes the part.\<close>
definition setters_local :: "url_crate \<Rightarrow> bool" where
  "setters_local U =
     ((\<forall>p u. \<exists>path. url_set_path U p u = u\<lparr>u_path := path\<rparr>) \<and>
      (\<forall>q u. \<exists>query. url_set_query U q u = u\<lparr>u_query := query\<rparr>) \<and>
      (\<forall>u. url_set_fragment U None u = u\<lparr>u_fragment := None\<rparr>))"

lemma setters_apart:
  assumes "setters_local U"
  shows "url_set_fragment U None (url_set_query U q (url_set_path U p u)) =
    u\<lparr>u_path := u_path (url_set_path U p u), u_query := u_query (url_set_query U q (url_set_path U p u)), u_fragment := None\<rparr>"
proof -
  obtain path where path: "url_set_path U p u = u\<lparr>u_path := path\<rparr>" using assms unfolding setters_local_def by blast
  obtain query where query: "url_set_query U q (u\<lparr>u_path := path\<rparr>) = u\<lparr>u_path := path, u_query := query\<rparr>"
    using assms unfolding setters_local_def by blast
  have "url_set_fragment U None v = v\<lparr>u_fragment := None\<rparr>" for v using assms by (simp add: setters_local_def)
  then show ?thesis by (simp add: path query)
qed

text \<open>C39: The upstream a relay talks to is the configured one.  Whatever a client sends in its handshake, the URL that is dialled
  for it is the accepted origin, with its scheme, host and port and without credentials, on which the path and the query of
  the client's target are set, as the crate's setters do it, and nothing else; the client's choice of a scheme, a host, a
  port or credentials is ignored.  That origin is wss, or ws to a loopback address or localhost.\<close>
theorem upstream_stays_configured:
  assumes "setters_local U" "check_config cfg = Ok ()"
    and "open_connection U (rc_upstream cfg) handshake dial = (Some u, result)"
  shows "u_scheme u = u_scheme (rc_upstream cfg) \<and> u_host u = u_host (rc_upstream cfg) \<and> u_host u \<noteq> None \<and>
    u_port u = u_port (rc_upstream cfg) \<and> u_username u = [] \<and> u_password u = None \<and> u_fragment u = None \<and>
    is_loopback (rc_listen cfg) \<and>
    (u_scheme u = ''wss'' \<or> u_scheme u = ''ws'' \<and>
       (to_ascii_lower (the (u_host u)) = ''localhost'' \<or> (\<exists>ip. parse_ip (the (u_host u)) = Some ip \<and> is_loopback ip))) \<and>
    (\<exists>target request. handshake = Some (Ok (Some target)) \<and>
       (url_parse U target = Ok request \<or> (\<exists>base. url_join U base target = Ok request)) \<and>
       u_path u = u_path (url_set_path U (u_path request) (rc_upstream cfg)) \<and>
       u_query u = u_query (url_set_query U (u_query request) (url_set_path U (u_path request) (rc_upstream cfg))))"
proof -
  have lower: "to_ascii_lower ''localhost'' = ''localhost''" by (simp add: to_ascii_lower_def)
  obtain target where hello: "handshake = Some (Ok (Some target))" "build_upstream_url U (rc_upstream cfg) target = Ok u"
    using assms(3) by (auto simp: open_connection_def split: option.splits sum.splits)
  then obtain request where request: "url_parse U target = Ok request \<or> (\<exists>base. url_join U base target = Ok request)"
    and "u = url_set_fragment U None (url_set_query U (u_query request) (url_set_path U (u_path request) (rc_upstream cfg)))"
    by (auto simp: build_upstream_url_def Let_def split: sum.splits)
  note u = this(2) [unfolded setters_apart [OF assms(1)]]
  show ?thesis
    using assms(2) hello(1) request unfolding u
    by (auto simp: check_config_def validate_upstream_origin_def eq_ignore_ascii_case_def Let_def lower
        split: sum.splits if_splits option.splits)
qed

definition sample_url :: url_parts where
  "sample_url = \<lparr>u_scheme = ''ws'', u_host = Some ''localhost'', u_port = Some 9000, u_username = [], u_password = None,
     u_path = ''/'', u_query = None, u_fragment = None\<rparr>"

text \<open>A crate that reads \<open>example.com:443\<close> as the crate does: the scheme \<open>example.com\<close> with the path \<open>443\<close>, which
  becomes \<open>/443\<close> on a URL with a host; everything else as a URL of another host and port.\<close>
definition sample_urls :: url_crate where
  "sample_urls = \<lparr>
     url_parse = (\<lambda>s. if s = ''example.com:443''
       then Ok \<lparr>u_scheme = ''example.com'', u_host = None, u_port = None, u_username = [], u_password = None,
                u_path = ''443'', u_query = None, u_fragment = None\<rparr>
       else Ok (sample_url\<lparr>u_host := Some ''evil'', u_port := Some 1\<rparr>)),
     url_join = (\<lambda>_ _. Err []),
     url_set_path = (\<lambda>p u. u\<lparr>u_path := (if take 1 p = ''/'' then p else CHR ''/'' # p)\<rparr>),
     url_set_query = (\<lambda>q u. u\<lparr>u_query := q\<rparr>), url_set_fragment = (\<lambda>f u. u\<lparr>u_fragment := f\<rparr>),
     url_append_pair = (\<lambda>k v u. u), url_text = u_path\<rparr>"

theorem upstream_stays_configured_witness:
  "\<exists>u. open_connection sample_urls sample_url (Some (Ok (Some ''example.com:443''))) (\<lambda>_. Some (Ok ())) = (Some u, Ok ()) \<and>
     u_host u = Some ''localhost'' \<and> u_port u = Some 9000 \<and> u_path u = ''/443''"
proof -
  let ?cfg = "\<lparr>rc_listen = V4 [127, 0, 0, 1], rc_upstream = sample_url, rc_max_connections = 16, rc_max_capture = 32\<rparr>"
  let ?hello = "Some (Ok (Some ''example.com:443''))"
  have "check_config ?cfg = Ok ()"
    by (simp add: check_config_def validate_upstream_origin_def sample_url_def eq_ignore_ascii_case_def to_ascii_lower_def)
  moreover have "setters_local sample_urls" by (auto simp: setters_local_def sample_urls_def)
  moreover obtain u where u: "open_connection sample_urls (rc_upstream ?cfg) ?hello (\<lambda>_. Some (Ok ())) = (Some u, Ok ())"
    by (simp add: open_connection_def build_upstream_url_def sample_urls_def)
  ultimately have "u_host u = Some ''localhost''" "u_port u = Some 9000"
    using upstream_stays_configured [of sample_urls ?cfg ?hello "\<lambda>_. Some (Ok ())" u "Ok ()"] by (simp_all add: sample_url_def)
  moreover have "u_path u = ''/443''" using u by (auto simp: open_connection_def build_upstream_url_def sample_urls_def)
  ultimately show ?thesis using u by auto
qed

text \<open>A ws origin whose host is an IPv6 address is refused even when the address is a loopback one: the crate gives such
  a host in brackets, and no text in brackets is read as an address.\<close>
theorem ipv6_loopback_refused:
  assumes "u_scheme origin = ''ws''" "u_host origin = Some (''['' @ h @ '']'')" "u_username origin = []"
    "u_password origin = None" "u_query origin = None" "u_fragment origin = None"
  shows "validate_upstream_origin origin = Err ''remote upstream origins must use wss://''"
  using assms bracketed_no_ip [of "h @ '']''"]
  by (simp add: validate_upstream_origin_def eq_ignore_ascii_case_def to_ascii_lower_def)

theorem ipv6_loopback_refused_witness:
  "validate_upstream_origin (sample_url\<lparr>u_host := Some ''[::1]''\<rparr>) = Err ''remote upstream origins must use wss://''"
  using ipv6_loopback_refused [of "sample_url\<lparr>u_host := Some ''[::1]''\<rparr>" "''::1''"] by (simp add: sample_url_def)

section \<open>Records that hold permits\<close>

definition flights :: "link \<Rightarrow> observed multiset" where
  "flights l = mset (case in_flight (li_up l) of None \<Rightarrow> [] | Some ob \<Rightarrow> [ob]) +
     mset (case in_flight (li_down l) of None \<Rightarrow> [] | Some ob \<Rightarrow> [ob])"

definition live :: "relay \<Rightarrow> observed multiset" where
  "live r = mset (ry_queue r) + sum_list (map flights (ry_links r))"

definition held_by :: "observed multiset \<Rightarrow> nat" where
  "held_by obs = sum_mset (image_mset held obs)"

lemma held_by_simps [simp]: "held_by {#} = 0" "held_by (add_mset ob obs) = held ob + held_by obs"
  "held_by (a + b) = held_by a + held_by b"
  by (simp_all add: held_by_def)

lemma sum_list_set: "i < length xs \<Longrightarrow> sum_list (map f (xs[i := y])) + f (xs ! i) = sum_list (map f xs) + f y"
  for f :: "'b \<Rightarrow> 'c :: comm_monoid_add"
  by (induction xs arbitrary: i) (auto split: nat.splits simp: ac_simps)

lemma live_set_link:
  assumes "i < length (ry_links r)"
  shows "live (set_link i l r) + flights (ry_links r ! i) = live r + flights l"
  using sum_list_set [OF assms, of flights l] by (simp add: live_def set_link_def union_assoc)

lemma live_drop_record [simp]: "live (drop_record ob r) = live r"
  by (cases ob) (simp_all add: drop_record_def live_def)

lemma drop_record_simps [simp]:
  "ry_links (drop_record ob r) = ry_links r" "ry_queue (drop_record ob r) = ry_queue r" "ry_open (drop_record ob r) = ry_open r"
  "ry_next (drop_record ob r) = ry_next r" "ry_accepted (drop_record ob r) = ry_accepted r" "ry_taken (drop_record ob r) = ry_taken r"
  by (cases ob; simp add: drop_record_def)+

lemma budget_drop_record [simp]:
  "ry_budget (drop_record ob r) = ry_budget r + (case ob of None \<Rightarrow> 0 | Some ob \<Rightarrow> held ob)"
  by (cases ob) (simp_all add: drop_record_def)

lemma set_link_simps [simp]:
  "ry_budget (set_link i l r) = ry_budget r" "ry_queue (set_link i l r) = ry_queue r" "ry_open (set_link i l r) = ry_open r"
  "ry_next (set_link i l r) = ry_next r" "ry_accepted (set_link i l r) = ry_accepted r" "ry_taken (set_link i l r) = ry_taken r"
  "ry_links (set_link i l r) = (ry_links r)[i := l]"
  by (simp_all add: set_link_def)

lemma set_pump_simps [simp]:
  "li_id (set_pump dir p l) = li_id l" "li_stage (set_pump dir p l) = li_stage l" "li_index (set_pump dir p l) = li_index l"
  "li_closing (set_pump dir p l) = li_closing l"
  "pump_of dir' (set_pump dir p l) = (if dir' = dir then p else pump_of dir' l)"
  by (cases dir; cases dir'; simp)+

definition flight_of :: "pump \<Rightarrow> observed multiset" where
  "flight_of p = mset (case in_flight p of None \<Rightarrow> [] | Some ob \<Rightarrow> [ob])"

lemma flights_set_pump: "flights (set_pump dir p l) + flight_of (pump_of dir l) = flights l + flight_of p"
  by (cases dir) (simp_all add: flights_def flight_of_def ac_simps)

lemma flight_of_phase:
  "pu_phase p = Waiting \<Longrightarrow> flight_of p = {#}" "pu_phase p = Returned_with res \<Longrightarrow> flight_of p = {#}"
  "pu_phase p = Sending msg ob \<Longrightarrow> flight_of p = mset (case ob of None \<Rightarrow> [] | Some ob \<Rightarrow> [ob])"
  by (simp_all add: flight_of_def in_flight_def)

lemma live_set_pump:
  assumes "i < length (ry_links r)" "flights l' = flights (ry_links r ! i)" "pump_of dir l' = pump_of dir (ry_links r ! i)"
  shows "live (set_link i (set_pump dir p l') r) + flight_of (pump_of dir (ry_links r ! i)) = live r + flight_of p"
proof -
  have "live (set_link i (set_pump dir p l') r) + flights (ry_links r ! i) + flight_of (pump_of dir l') =
      live r + flights l' + flight_of p"
    using live_set_link [OF assms(1), of "set_pump dir p l'"] flights_set_pump [of dir p l'] by (simp add: union_assoc)
  then show ?thesis using assms(2,3) by simp
qed

section \<open>Links\<close>

text \<open>A direction has sent what it read, in order and unchanged, but for the message it is sending or failed to send and a
  close of its own at the end.\<close>
definition pump_ok :: "pump \<Rightarrow> bool" where
  "pump_ok p \<longleftrightarrow>
     (case pu_phase p of
        Waiting \<Rightarrow> pu_written p = pu_read p
      | Sending msg ob \<Rightarrow> pu_read p = pu_written p @ [msg]
      | Returned_with res \<Rightarrow> pu_written p = pu_read p \<or> pu_written p = pu_read p @ [MClose None] \<or>
          (\<exists>msg. pu_read p = pu_written p @ [msg]))"

definition link_ok :: "link \<Rightarrow> bool" where
  "link_ok l \<longleftrightarrow> pump_ok (li_up l) \<and> pump_ok (li_down l) \<and> (li_stage l \<noteq> Relaying \<longrightarrow> flights l = {#})"

lemma link_ok_pump: "link_ok l \<Longrightarrow> pump_ok (pump_of dir l)"
  by (cases dir) (simp_all add: link_ok_def)

lemma link_ok_set_pump: "link_ok l \<Longrightarrow> li_stage l = Relaying \<Longrightarrow> pump_ok p \<Longrightarrow> link_ok (set_pump dir p l)"
  by (cases dir) (simp_all add: link_ok_def)

lemma link_ok_cong: "link_ok l \<Longrightarrow> li_up l' = li_up l \<Longrightarrow> li_down l' = li_down l \<Longrightarrow> li_stage l' = Relaying \<or> li_stage l \<noteq> Relaying \<Longrightarrow> link_ok l'"
  by (auto simp: link_ok_def flights_def)

lemma link_ok_new: "link_ok (link_new name)"
  by (simp add: link_ok_def link_new_def pump_new_def pump_ok_def flights_def in_flight_def)

definition link_name :: "relay_env \<Rightarrow> nat \<Rightarrow> string" where
  "link_name env n = en_session env @ ''-conn-'' @ nat_str n"

definition links_ok :: "relay_env \<Rightarrow> relay \<Rightarrow> bool" where
  "links_ok env r \<longleftrightarrow> (\<forall>l \<in> set (ry_links r). link_ok l) \<and> active_links r \<le> en_connections env \<and>
     ry_accepted r = length (ry_links r) \<and> ry_next r = length (ry_links r) + 1 \<and>
     map li_id (ry_links r) = map (link_name env) [1..<length (ry_links r) + 1]"

lemma length_filter_update:
  "i < length xs \<Longrightarrow> (P y \<longrightarrow> P (xs ! i)) \<Longrightarrow> length (filter P (xs[i := y])) \<le> length (filter P xs)"
proof (induction xs arbitrary: i)
  case (Cons x xs)
  then show ?case by (cases i) auto
qed simp

lemma links_ok_cong:
  "links_ok env r \<Longrightarrow> ry_links r' = ry_links r \<Longrightarrow> ry_next r' = ry_next r \<Longrightarrow> ry_accepted r' = ry_accepted r \<Longrightarrow> links_ok env r'"
  by (simp add: links_ok_def active_links_def)

lemma links_ok_set_link:
  assumes "links_ok env r" "i < length (ry_links r)" "link_ok l'" "li_id l' = li_id (ry_links r ! i)"
    "li_stage l' \<noteq> Over \<Longrightarrow> li_stage (ry_links r ! i) \<noteq> Over"
  shows "links_ok env (set_link i l' r)"
proof -
  have "map li_id ((ry_links r)[i := l']) = map li_id (ry_links r)"
    using assms(2,4) by (metis list_update_id map_update)
  moreover have "active_links (set_link i l' r) \<le> active_links r"
    using length_filter_update [OF assms(2)] assms(5) by (simp add: active_links_def)
  ultimately show ?thesis using assms(1,3) set_update_subset_insert [of "ry_links r" i l'] by (auto simp: links_ok_def)
qed

lemma links_ok_elem: "links_ok env r \<Longrightarrow> stands r i l dir ph \<Longrightarrow> link_ok l \<and> pump_ok (pump_of dir l)"
  by (auto simp: links_ok_def stands_def link_ok_pump)

lemma prepare_record_simps:
  assumes "prepare_record env now conn i dir msg r = (ob, r')"
  shows "ry_links r' = ry_links r" "ry_next r' = ry_next r" "ry_accepted r' = ry_accepted r" "ry_queue r' = ry_queue r"
    "ry_open r' = ry_open r" "ry_taken r' = ry_taken r" "live r' = live r"
    "ry_budget r' + (case ob of None \<Rightarrow> 0 | Some ob \<Rightarrow> held ob) = ry_budget r"
    "\<And>x. ob = Some x \<Longrightarrow> x = observe_owned now conn i dir msg (max (en_len env msg) 1)"
  using assms by (auto simp: prepare_record_def live_def held_def observe_owned_def Let_def split: if_splits)

lemma enqueue_record_simps [simp]:
  "ry_links (enqueue_record env ob r) = ry_links r" "ry_next (enqueue_record env ob r) = ry_next r"
  "ry_accepted (enqueue_record env ob r) = ry_accepted r" "ry_taken (enqueue_record env ob r) = ry_taken r"
  by (simp_all add: enqueue_record_def)

lemma enqueue_live:
  "(live (enqueue_record env ob r) = live r + {#ob#} \<and> ry_budget (enqueue_record env ob r) = ry_budget r \<or>
    live (enqueue_record env ob r) = live r \<and> ry_budget (enqueue_record env ob r) = ry_budget r + held ob)"
  by (auto simp: enqueue_record_def live_def)

lemma enqueue_capacity:
  "length (ry_queue r) \<le> en_capacity env \<Longrightarrow> length (ry_queue (enqueue_record env ob r)) \<le> en_capacity env"
  by (simp add: enqueue_record_def)

text \<open>What a direction's step leaves of its pump.\<close>
lemma forwarded_pump:
  assumes "forward_message text flush send dir (is_close_message msg) = (result, delivered)"
    "pump_ok p" "pu_phase p = Sending msg ob"
  shows "pump_ok ((if delivered then p\<lparr>pu_written := pu_written p @ [msg]\<rparr> else p)\<lparr>pu_phase :=
    (case result of Inl e \<Rightarrow> Returned_with (Err e) | Inr _ \<Rightarrow> if is_close_message msg then Returned_with (Ok ()) else Waiting)\<rparr>)"
  using assms by (auto simp: forward_message_def pump_ok_def Let_def split: sum.splits timed_io.splits if_splits)

lemma left_pump:
  "pu_phase p = Waiting \<Longrightarrow> pump_ok p \<Longrightarrow>
   pump_ok ((if said then p\<lparr>pu_written := pu_written p @ [MClose None]\<rparr> else p)\<lparr>pu_phase := Returned_with result\<rparr>)"
  by (simp add: pump_ok_def)

lemma quit_pump: "pump_ok p \<Longrightarrow> pump_ok (p\<lparr>pu_phase := Returned_with result\<rparr>)"
  by (auto simp: pump_ok_def split: phase.splits)

lemma finish_frame_parts:
  assumes "forward_message (en_error env) flush send dir (is_close_message msg) = (result, delivered)"
  shows "finish_frame env i dir msg ob flush send r =
    set_link i (set_pump dir ((if delivered then (pump_of dir (ry_links r ! i))\<lparr>pu_written := pu_written (pump_of dir (ry_links r ! i)) @ [msg]\<rparr>
        else pump_of dir (ry_links r ! i))\<lparr>pu_phase :=
      (case result of Inl e \<Rightarrow> Returned_with (Err e) | Inr _ \<Rightarrow> if is_close_message msg then Returned_with (Ok ()) else Waiting)\<rparr>)
        (ry_links r ! i))
     (case result of Inl e \<Rightarrow> drop_record ob r | Inr _ \<Rightarrow> (case ob of None \<Rightarrow> r | Some ob \<Rightarrow> enqueue_record env ob r))"
  using assms by (simp add: finish_frame_def Let_def split: sum.splits)

lemma end_link_ok:
  assumes "links_ok env r" "i < length (ry_links r)" "ry_links r ! i = l"
  shows "links_ok env (end_link i l r)"
proof -
  have "link_ok l" using assms by (auto simp: links_ok_def)
  then have "link_ok (l\<lparr>li_stage := Over, li_up := (li_up l)\<lparr>pu_phase := Returned_with (Err ''dropped'')\<rparr>,
      li_down := (li_down l)\<lparr>pu_phase := Returned_with (Err ''dropped'')\<rparr>\<rparr>)"
    by (simp add: link_ok_def quit_pump flights_def in_flight_def)
  then show ?thesis
    unfolding end_link_def Let_def
    using assms by (intro links_ok_set_link) (auto intro: links_ok_cong)
qed

lemma leave_ok:
  assumes "links_ok env r" "stands r i l dir Waiting"
  shows "links_ok env (leave i dir result said r)"
proof -
  have l: "i < length (ry_links r)" "ry_links r ! i = l" "li_stage l = Relaying" "pu_phase (pump_of dir l) = Waiting"
    using assms(2) by (auto simp: stands_def)
  show ?thesis
    unfolding leave_def Let_def l(2)
    using links_ok_elem [OF assms] l by (intro links_ok_set_link [OF assms(1)] link_ok_set_pump left_pump) auto
qed

lemma links_ok_step:
  assumes "relay_step env r r'" "links_ok env r"
  shows "links_ok env r'"
  using assms(1)
proof cases
  case accepts
  then show ?thesis
    using assms(2) by (simp add: links_ok_def active_links_def link_ok_new) (simp add: link_new_def link_name_def)
next
  case (reads i l dir now msg)
  obtain ob r1 where p: "prepare_record env now (li_id l) (li_index l) dir msg r = (ob, r1)" by fastforce
  have l: "i < length (ry_links r)" "ry_links r ! i = l" "li_stage l = Relaying" "pu_phase (pump_of dir l) = Waiting"
    using reads(2) by (auto simp: stands_def)
  have ok: "links_ok env r1" using prepare_record_simps [OF p] assms(2) by (auto intro: links_ok_cong)
  have "pump_ok ((pump_of dir l)\<lparr>pu_phase := Sending msg ob, pu_read := pu_read (pump_of dir l) @ [msg]\<rparr>)"
    using links_ok_elem [OF assms(2) reads(2)] l(4) by (simp add: pump_ok_def)
  then have "link_ok (set_pump dir ((pump_of dir l)\<lparr>pu_phase := Sending msg ob, pu_read := pu_read (pump_of dir l) @ [msg]\<rparr>)
      (l\<lparr>li_index := li_index l + 1\<rparr>))"
    using links_ok_elem [OF assms(2) reads(2)] l(3)
    by (intro link_ok_set_pump) (auto intro: link_ok_cong)
  then show ?thesis
    unfolding reads(1) take_frame_def Let_def l(2) p prod.case
    using l prepare_record_simps(1) [OF p] by (intro links_ok_set_link [OF ok]) auto
next
  case (sends i l dir msg ob flush send)
  obtain result delivered where f: "forward_message (en_error env) flush send dir (is_close_message msg) = (result, delivered)"
    by fastforce
  have l: "i < length (ry_links r)" "ry_links r ! i = l" "li_stage l = Relaying" "pu_phase (pump_of dir l) = Sending msg ob"
    using sends(2) by (auto simp: stands_def)
  have ok: "links_ok env (case result of Inl e \<Rightarrow> drop_record ob r | Inr _ \<Rightarrow> (case ob of None \<Rightarrow> r | Some ob \<Rightarrow> enqueue_record env ob r))"
    using assms(2) by (auto intro: links_ok_cong split: sum.splits option.splits)
  show ?thesis
    unfolding sends(1) finish_frame_parts [OF f] l(2)
    using links_ok_elem [OF assms(2) sends(2)] l forwarded_pump [OF f _ l(4)]
    by (intro links_ok_set_link [OF ok] link_ok_set_pump) (auto split: sum.splits option.splits)
next
  case (opens i l)
  then have "link_ok l" using assms(2) by (auto simp: links_ok_def)
  with opens show ?thesis by (auto intro!: links_ok_set_link [OF assms(2)] intro: link_ok_cong)
next
  case (opening_fails i l)
  then have "link_ok l" using assms(2) by (auto simp: links_ok_def)
  with opening_fails show ?thesis by (auto intro!: links_ok_set_link [OF assms(2)] intro: link_ok_cong)
next
  case (first_returns i l dir result)
  then show ?thesis
    using links_ok_elem [OF assms(2) first_returns(2)]
    by (auto simp: stands_def intro!: links_ok_set_link [OF assms(2)] intro: link_ok_cong)
next
  case (link_ends i l dir result)
  then show ?thesis using assms(2) by (auto simp: stands_def intro: end_link_ok)
next
  case analyser_goes
  have "ry_links (foldr (\<lambda>ob. drop_record (Some ob)) obs r1) = ry_links r1 \<and>
      ry_next (foldr (\<lambda>ob. drop_record (Some ob)) obs r1) = ry_next r1 \<and>
      ry_accepted (foldr (\<lambda>ob. drop_record (Some ob)) obs r1) = ry_accepted r1" for obs r1
    by (induction obs) simp_all
  then show ?thesis using assms(2) unfolding analyser_goes by (intro links_ok_cong [OF assms(2)]) simp_all
qed (use assms(2) in \<open>auto intro: leave_ok end_link_ok links_ok_cong\<close>)

section \<open>The permits of a step\<close>

definition conserved :: "relay \<Rightarrow> relay \<Rightarrow> bool" where
  "conserved r r' \<longleftrightarrow> ry_budget r' + held_by (live r') = ry_budget r + held_by (live r) \<and> ry_taken r' = ry_taken r \<and>
     live r' \<subseteq># live r"

lemma conserved_same: "live r' = live r \<Longrightarrow> ry_budget r' = ry_budget r \<Longrightarrow> ry_taken r' = ry_taken r \<Longrightarrow> conserved r r'"
  by (simp add: conserved_def)

text \<open>A record released: it leaves the live ones and its permits come back.\<close>
lemma conserved_release:
  "live r' + obs = live r \<Longrightarrow> ry_budget r' = ry_budget r + held_by obs \<Longrightarrow> ry_taken r' = ry_taken r \<Longrightarrow> conserved r r'"
  by (simp add: conserved_def) (metis add.assoc add.commute held_by_simps(3) mset_subset_eq_add_left)

lemma live_set_same:
  "i < length (ry_links r) \<Longrightarrow> flights l' = flights (ry_links r ! i) \<Longrightarrow> live (set_link i l' r) = live r"
  using live_set_link [of i r l'] by simp

lemma conserved_leave:
  assumes "stands r i l dir Waiting"
  shows "conserved r (leave i dir result said r)"
proof -
  have l: "i < length (ry_links r)" "ry_links r ! i = l" "pu_phase (pump_of dir l) = Waiting"
    using assms by (auto simp: stands_def)
  show ?thesis
    unfolding leave_def Let_def l(2)
    using live_set_pump [OF l(1) refl refl, of dir] flight_of_phase l
    by (intro conserved_same) (auto simp: flight_of_def in_flight_def)
qed

lemma conserved_end_link:
  assumes "i < length (ry_links r)" "ry_links r ! i = l"
  shows "conserved r (end_link i l r)"
proof (rule conserved_release)
  let ?freed = "drop_record (in_flight (li_up l)) (drop_record (in_flight (li_down l)) r)"
  have "flights (l\<lparr>li_stage := Over, li_up := (li_up l)\<lparr>pu_phase := Returned_with (Err ''dropped'')\<rparr>,
      li_down := (li_down l)\<lparr>pu_phase := Returned_with (Err ''dropped'')\<rparr>\<rparr>) = {#}"
    by (simp add: flights_def in_flight_def)
  then show "live (end_link i l r) + flights l = live r"
    using live_set_link [of i ?freed] assms by (simp add: end_link_def Let_def)
  show "ry_budget (end_link i l r) = ry_budget r + held_by (flights l)"
    by (auto simp: end_link_def Let_def flights_def split: option.splits)
qed (simp add: end_link_def Let_def)

lemma conserved_finish:
  assumes "stands r i l dir (Sending msg ob)"
  shows "conserved r (finish_frame env i dir msg ob flush send r)"
proof -
  obtain result delivered where f: "forward_message (en_error env) flush send dir (is_close_message msg) = (result, delivered)"
    by fastforce
  have l: "i < length (ry_links r)" "ry_links r ! i = l" "pu_phase (pump_of dir l) = Sending msg ob"
    using assms by (auto simp: stands_def)
  define r1 where "r1 = (case result of Inl e \<Rightarrow> drop_record ob r | Inr _ \<Rightarrow> (case ob of None \<Rightarrow> r | Some ob \<Rightarrow> enqueue_record env ob r))"
  define p where "p = (if delivered then (pump_of dir l)\<lparr>pu_written := pu_written (pump_of dir l) @ [msg]\<rparr> else pump_of dir l)
      \<lparr>pu_phase := (case result of Inl e \<Rightarrow> Returned_with (Err e) | Inr _ \<Rightarrow> if is_close_message msg then Returned_with (Ok ()) else Waiting)\<rparr>"
  let ?obs = "mset (case ob of None \<Rightarrow> [] | Some ob \<Rightarrow> [ob])"
  have eq: "finish_frame env i dir msg ob flush send r = set_link i (set_pump dir p l) r1"
    unfolding finish_frame_parts [OF f] l(2) r1_def p_def ..
  have links: "ry_links r1 = ry_links r" "ry_taken r1 = ry_taken r"
    by (auto simp: r1_def split: sum.splits option.splits)
  have "flight_of p = {#}" by (auto simp: p_def flight_of_def in_flight_def split: sum.splits)
  then have live: "live (set_link i (set_pump dir p l) r1) + ?obs = live r1"
    using live_set_pump [of i r1 l dir p] l links flight_of_phase(3) [OF l(3)] by simp
  consider "live r1 = live r" "ry_budget r1 = ry_budget r + held_by ?obs" | "live r1 = live r + ?obs" "ry_budget r1 = ry_budget r"
    using enqueue_live [of env "the ob" r] by (cases result; cases ob; simp add: r1_def) blast+
  then show ?thesis
  proof cases
    case 1
    then show ?thesis unfolding eq using live links by (intro conserved_release [of _ ?obs]) simp_all
  next
    case 2
    then show ?thesis unfolding eq using live links by (intro conserved_same) simp_all
  qed
qed

lemma take_frame_effect:
  assumes "stands r i l dir Waiting" "prepare_record env now (li_id l) (li_index l) dir msg r = (ob, r1)"
  shows "live (take_frame env now i dir msg r) = live r + mset (case ob of None \<Rightarrow> [] | Some ob \<Rightarrow> [ob])"
    "ry_budget (take_frame env now i dir msg r) = ry_budget r1" "ry_queue (take_frame env now i dir msg r) = ry_queue r"
    "ry_taken (take_frame env now i dir msg r) = ry_taken r"
    "ry_links (take_frame env now i dir msg r) = (ry_links r)[i := set_pump dir ((pump_of dir l)\<lparr>pu_phase := Sending msg ob,
        pu_read := pu_read (pump_of dir l) @ [msg]\<rparr>) (l\<lparr>li_index := li_index l + 1\<rparr>)]"
proof -
  have l: "i < length (ry_links r)" "ry_links r ! i = l" "pu_phase (pump_of dir l) = Waiting"
    using assms(1) by (auto simp: stands_def)
  note p = prepare_record_simps [OF assms(2)]
  note eq = take_frame_def [of env now i dir msg r, unfolded Let_def l(2) assms(2) prod.case]
  have same: "flights (l\<lparr>li_index := li_index l + 1\<rparr>) = flights l" "pump_of dir (l\<lparr>li_index := li_index l + 1\<rparr>) = pump_of dir l"
    by (cases dir; simp add: flights_def)+
  show "live (take_frame env now i dir msg r) = live r + mset (case ob of None \<Rightarrow> [] | Some ob \<Rightarrow> [ob])"
    unfolding eq
    using live_set_pump [of i r1 "l\<lparr>li_index := li_index l + 1\<rparr>" dir] p l same flight_of_phase(1) [OF l(3)]
    by (simp add: flight_of_def in_flight_def)
qed (simp_all add: take_frame_def Let_def assms(2) prepare_record_simps [OF assms(2)]
      assms(1) [unfolded stands_def, THEN conjunct2, THEN conjunct1])

lemma foldr_drop:
  "live (foldr (\<lambda>ob. drop_record (Some ob)) obs r) = live r"
  "ry_budget (foldr (\<lambda>ob. drop_record (Some ob)) obs r) = ry_budget r + held_by (mset obs)"
  "ry_queue (foldr (\<lambda>ob. drop_record (Some ob)) obs r) = ry_queue r"
  "ry_links (foldr (\<lambda>ob. drop_record (Some ob)) obs r) = ry_links r"
  "ry_taken (foldr (\<lambda>ob. drop_record (Some ob)) obs r) = ry_taken r"
  by (induction obs) simp_all

text \<open>Every step but a read and the analyser's taking conserves the permits and adds no record.\<close>
lemma conserved_step:
  assumes "relay_step env r r'"
  shows "conserved r r' \<or>
    (\<exists>now i l dir msg. stands r i l dir Waiting \<and> r' = take_frame env now i dir msg r) \<or>
    (\<exists>ob rest. ry_queue r = ob # rest \<and> r' = drop_record (Some ob) (r\<lparr>ry_queue := rest, ry_taken := ry_taken r @ [ob]\<rparr>))"
  using assms
proof cases
  case accepts
  then show ?thesis
    by (intro disjI1 conserved_same) (simp_all add: live_def link_new_def flights_def pump_new_def in_flight_def)
next
  case (opens i l)
  then show ?thesis by (intro disjI1 conserved_same) (simp_all add: live_set_same flights_def)
next
  case (opening_fails i l)
  then show ?thesis by (intro disjI1 conserved_same) (simp_all add: live_set_same flights_def)
next
  case (first_returns i l dir result)
  then show ?thesis by (intro disjI1 conserved_same) (auto simp: stands_def live_set_same flights_def)
next
  case (link_ends i l dir result)
  then show ?thesis by (auto simp: stands_def intro: conserved_end_link)
next
  case analyser_goes
  have "live (r\<lparr>ry_open := False, ry_queue := []\<rparr>) + mset (ry_queue r) = live r" by (simp add: live_def)
  then show ?thesis unfolding analyser_goes by (intro disjI1 conserved_release [of _ "mset (ry_queue r)"]) (simp_all add: foldr_drop)
next
  case shuts_down
  then show ?thesis by (intro disjI1 conserved_same) (simp_all add: live_def)
qed (blast intro: conserved_leave conserved_finish conserved_end_link)+

lemma queue_step:
  assumes "relay_step env r r'" "length (ry_queue r) \<le> en_capacity env"
  shows "length (ry_queue r') \<le> en_capacity env"
  using assms(1)
proof cases
  case (reads i l dir now msg)
  then show ?thesis using assms(2) by (cases "prepare_record env now (li_id l) (li_index l) dir msg r") (simp add: take_frame_effect)
next
  case (sends i l dir msg ob flush send)
  obtain result delivered where f: "forward_message (en_error env) flush send dir (is_close_message msg) = (result, delivered)"
    by fastforce
  then show ?thesis
    unfolding sends(1) finish_frame_parts [OF f] using enqueue_capacity assms(2) by (simp split: sum.splits option.splits)
qed (use assms(2) in \<open>auto simp: foldr_drop end_link_def leave_def Let_def\<close>)

definition budget_ok :: "relay_env \<Rightarrow> relay \<Rightarrow> bool" where
  "budget_ok env r \<longleftrightarrow> ry_budget r + held_by (live r) = en_budget env \<and> length (ry_queue r) \<le> en_capacity env \<and>
     (\<forall>ob \<in># live r. ob_permit ob = Some (max (en_len env (ob_message ob)) 1))"

lemma budget_ok_step:
  assumes "relay_step env r r'" "budget_ok env r"
  shows "budget_ok env r'"
proof -
  have queue: "length (ry_queue r') \<le> en_capacity env" using queue_step [OF assms(1)] assms(2) by (simp add: budget_ok_def)
  from conserved_step [OF assms(1)] show ?thesis
  proof (elim disjE exE conjE)
    assume "conserved r r'"
    then show ?thesis using assms(2) queue by (auto simp: conserved_def budget_ok_def dest: mset_subset_eqD)
  next
    fix now i l dir msg
    assume s: "stands r i l dir Waiting" "r' = take_frame env now i dir msg r"
    obtain ob r1 where p: "prepare_record env now (li_id l) (li_index l) dir msg r = (ob, r1)" by fastforce
    show ?thesis
      using assms(2) queue take_frame_effect(1,2) [OF s(1) p] prepare_record_simps(8,9) [OF p] unfolding s(2)
      by (cases ob) (auto simp: budget_ok_def observe_owned_def)
  next
    fix ob rest
    assume "ry_queue r = ob # rest" "r' = drop_record (Some ob) (r\<lparr>ry_queue := rest, ry_taken := ry_taken r @ [ob]\<rparr>)"
    then show ?thesis using assms(2) queue by (auto simp: budget_ok_def live_def)
  qed
qed

section \<open>What the analyser sees\<close>

definition frame_key :: "observed \<Rightarrow> string \<times> nat" where
  "frame_key ob = (ob_connection ob, ob_index ob)"

definition records_of :: "relay \<Rightarrow> observed multiset" where
  "records_of r = mset (ry_taken r) + live r"

definition traced :: "relay \<Rightarrow> observed \<Rightarrow> bool" where
  "traced r ob \<longleftrightarrow> (\<exists>l \<in> set (ry_links r). ob_connection ob = li_id l \<and> ob_index ob < li_index l \<and>
     ob_message ob \<in> set (pu_read (pump_of (ob_direction ob) l)))"

text \<open>A link keeps its name, its index only goes up, what was read stays read.\<close>
definition grows :: "link \<Rightarrow> link \<Rightarrow> bool" where
  "grows l l' \<longleftrightarrow> li_id l' = li_id l \<and> li_index l \<le> li_index l' \<and>
     set (pu_read (li_up l)) \<subseteq> set (pu_read (li_up l')) \<and> set (pu_read (li_down l)) \<subseteq> set (pu_read (li_down l'))"

lemma grows_reads: "grows l l' \<Longrightarrow> set (pu_read (pump_of dir l)) \<subseteq> set (pu_read (pump_of dir l'))"
  by (cases dir) (simp_all add: grows_def)

definition links_grow :: "relay \<Rightarrow> relay \<Rightarrow> bool" where
  "links_grow r r' \<longleftrightarrow> length (ry_links r) \<le> length (ry_links r') \<and>
     (\<forall>i < length (ry_links r). grows (ry_links r ! i) (ry_links r' ! i))"

lemma grows_refl: "grows l l"
  by (simp add: grows_def)

lemma links_grow_same: "ry_links r' = ry_links r \<Longrightarrow> links_grow r r'"
  by (simp add: links_grow_def grows_refl)

lemma links_grow_set: "i < length (ry_links r) \<Longrightarrow> ry_links r' = (ry_links r)[i := l'] \<Longrightarrow> grows (ry_links r ! i) l' \<Longrightarrow> links_grow r r'"
  by (auto simp: links_grow_def grows_refl nth_list_update)

lemma grows_set_pump:
  "set (pu_read (pump_of dir l)) \<subseteq> set (pu_read p) \<Longrightarrow> grows l (set_pump dir p l)"
  by (cases dir) (simp_all add: grows_def)

lemma grows_pumps:
  "li_id l' = li_id l \<Longrightarrow> li_index l' = li_index l \<Longrightarrow> pu_read (li_up l') = pu_read (li_up l) \<Longrightarrow>
   pu_read (li_down l') = pu_read (li_down l) \<Longrightarrow> grows l l'"
  by (simp add: grows_def)

lemma links_grow_leave: "stands r i l dir ph \<Longrightarrow> links_grow r (leave i dir result said r)"
  by (rule links_grow_set [of i]) (auto simp: stands_def leave_def Let_def intro!: grows_set_pump)

lemma links_grow_end: "i < length (ry_links r) \<Longrightarrow> ry_links r ! i = l \<Longrightarrow> links_grow r (end_link i l r)"
  by (rule links_grow_set [of i]) (auto simp: end_link_def Let_def intro!: grows_pumps)

lemma finish_frame_shape:
  "\<exists>p r1. finish_frame env i dir msg ob flush send r = set_link i (set_pump dir p (ry_links r ! i)) r1 \<and>
     ry_links r1 = ry_links r \<and> pu_read p = pu_read (pump_of dir (ry_links r ! i))"
proof -
  obtain result delivered where f: "forward_message (en_error env) flush send dir (is_close_message msg) = (result, delivered)"
    by fastforce
  show ?thesis unfolding finish_frame_parts [OF f] by (intro exI conjI, rule refl) (auto split: sum.splits option.splits)
qed

lemma links_grow_step:
  assumes "relay_step env r r'"
  shows "links_grow r r'"
  using assms
proof cases
  case accepts
  then show ?thesis by (simp add: links_grow_def nth_append grows_refl)
next
  case (opens i l)
  then show ?thesis by (intro links_grow_set [of i]) (auto intro!: grows_pumps)
next
  case (opening_fails i l)
  then show ?thesis by (intro links_grow_set [of i]) (auto intro!: grows_pumps)
next
  case (reads i l dir now msg)
  obtain ob r1 where p: "prepare_record env now (li_id l) (li_index l) dir msg r = (ob, r1)" by fastforce
  have l: "i < length (ry_links r)" "ry_links r ! i = l" using reads(2) by (auto simp: stands_def)
  have "grows l (set_pump dir ((pump_of dir l)\<lparr>pu_phase := Sending msg ob, pu_read := pu_read (pump_of dir l) @ [msg]\<rparr>)
      (l\<lparr>li_index := li_index l + 1\<rparr>))"
    by (cases dir) (auto simp: grows_def)
  then show ?thesis unfolding reads(1) using l take_frame_effect(5) [OF reads(2) p] by (intro links_grow_set [of i]) auto
next
  case (sends i l dir msg ob flush send)
  have l: "i < length (ry_links r)" "ry_links r ! i = l" using sends(2) by (auto simp: stands_def)
  obtain p r1 where "r' = set_link i (set_pump dir p l) r1" "ry_links r1 = ry_links r" "pu_read p = pu_read (pump_of dir l)"
    using finish_frame_shape [of env i dir msg ob flush send r] sends(1) l(2) by blast
  then show ?thesis using l by (intro links_grow_set [of i]) (auto intro: grows_set_pump)
next
  case (first_returns i l dir result)
  then show ?thesis by (intro links_grow_set [of i]) (auto simp: stands_def intro!: grows_pumps)
next
  case (link_ends i l dir result)
  then show ?thesis by (auto simp: stands_def intro: links_grow_end)
next
  case analyser_goes
  then show ?thesis by (intro links_grow_same) (simp add: foldr_drop)
qed (auto intro: links_grow_leave links_grow_end links_grow_same)

lemma traced_grows: "links_grow r r' \<Longrightarrow> traced r ob \<Longrightarrow> traced r' ob"
proof -
  assume g: "links_grow r r'" and t: "traced r ob"
  then obtain l where "l \<in> set (ry_links r)" "ob_connection ob = li_id l"
    "ob_index ob < li_index l" "ob_message ob \<in> set (pu_read (pump_of (ob_direction ob) l))"
    by (auto simp: traced_def)
  then obtain i where i: "i < length (ry_links r)" "ob_connection ob = li_id (ry_links r ! i)"
    "ob_index ob < li_index (ry_links r ! i)" "ob_message ob \<in> set (pu_read (pump_of (ob_direction ob) (ry_links r ! i)))"
    by (metis in_set_conv_nth)
  have "grows (ry_links r ! i) (ry_links r' ! i)" "i < length (ry_links r')" using g i(1) by (auto simp: links_grow_def)
  moreover from this(1) have "ob_message ob \<in> set (pu_read (pump_of (ob_direction ob) (ry_links r' ! i)))"
    using grows_reads i(4) by blast
  ultimately show ?thesis using i(2,3) by (auto simp: traced_def grows_def intro!: bexI [of _ "ry_links r' ! i"])
qed

lemma link_name_inject: "link_name env m = link_name env n \<longleftrightarrow> m = n"
  unfolding link_name_def same_append_eq by (metis digits_val_nat_str option.inject)

lemma link_ids_distinct: "links_ok env r \<Longrightarrow> distinct (map li_id (ry_links r))"
  by (simp add: links_ok_def distinct_map inj_on_def link_name_inject del: upt_Suc)

definition traced_ok :: "relay \<Rightarrow> bool" where
  "traced_ok r \<longleftrightarrow> (\<forall>ob \<in># records_of r. traced r ob) \<and> (\<forall>k. count (image_mset frame_key (records_of r)) k \<le> 1)"

lemma traced_ok_less:
  assumes "traced_ok r" "links_grow r r'" "records_of r' \<subseteq># records_of r"
  shows "traced_ok r'"
proof -
  have "count (image_mset frame_key (records_of r')) k \<le> count (image_mset frame_key (records_of r)) k" for k
    using assms(3) by (simp add: image_mset_subseteq_mono mset_subset_eq_count)
  then show ?thesis
    using assms traced_grows [OF assms(2)] unfolding traced_ok_def by (meson le_trans mset_subset_eqD)
qed

lemma traced_ok_step:
  assumes "relay_step env r r'" "links_ok env r" "traced_ok r"
  shows "traced_ok r'"
proof -
  note grow = links_grow_step [OF assms(1)]
  from conserved_step [OF assms(1)] show ?thesis
  proof (elim disjE exE conjE)
    assume "conserved r r'"
    then show ?thesis using traced_ok_less [OF assms(3) grow] by (simp add: conserved_def records_of_def)
  next
    fix ob rest
    assume "ry_queue r = ob # rest" "r' = drop_record (Some ob) (r\<lparr>ry_queue := rest, ry_taken := ry_taken r @ [ob]\<rparr>)"
    then show ?thesis using traced_ok_less [OF assms(3) grow] by (simp add: records_of_def live_def)
  next
    fix now i l dir msg
    assume s: "stands r i l dir Waiting" "r' = take_frame env now i dir msg r"
    obtain ob r1 where p: "prepare_record env now (li_id l) (li_index l) dir msg r = (ob, r1)" by fastforce
    note effect = take_frame_effect [OF s(1) p, folded s(2)]
    have l: "i < length (ry_links r)" "ry_links r ! i = l" using s(1) by (auto simp: stands_def)
    show ?thesis
    proof (cases ob)
      case None
      then show ?thesis using traced_ok_less [OF assms(3) grow] effect by (simp add: records_of_def)
    next
      case (Some x)
      have x: "x = observe_owned now (li_id l) (li_index l) dir msg (max (en_len env msg) 1)"
        using prepare_record_simps(9) [OF p] Some by simp
      have recs: "records_of r' = add_mset x (records_of r)" using effect Some by (simp add: records_of_def)
      have new: "count (image_mset frame_key (records_of r)) (frame_key x) = 0"
      proof (rule ccontr)
        assume "\<not> ?thesis"
        then obtain y where y: "y \<in># records_of r" "frame_key y = frame_key x"
          by (auto simp: count_eq_zero_iff)
        then obtain l' where "l' \<in> set (ry_links r)" "ob_connection y = li_id l'" "ob_index y < li_index l'"
          using assms(3) by (auto simp: traced_ok_def traced_def)
        moreover have "l \<in> set (ry_links r)" using l by auto
        ultimately have "l' = l"
          using link_ids_distinct [OF assms(2)] y(2) x by (auto simp: frame_key_def observe_owned_def distinct_map dest: inj_onD)
        then show False using y(2) x \<open>ob_index y < li_index l'\<close> by (simp add: frame_key_def observe_owned_def)
      qed
      have "traced r' x"
        unfolding traced_def effect(5)
        by (rule bexI [OF _ set_update_memI [OF l(1)]]) (simp add: x observe_owned_def)
      moreover have "traced r' y" if "y \<in># records_of r" for y
        using that assms(3) traced_grows [OF grow] by (simp add: traced_ok_def)
      ultimately show ?thesis
        using assms(3) new by (auto simp: traced_ok_def recs)
    qed
  qed
qed

section \<open>Every reachable state\<close>

lemma relay_reaches_ok:
  assumes "relay_reaches env r"
  shows "links_ok env r \<and> budget_ok env r \<and> traced_ok r"
  using assms unfolding relay_reaches_def
proof (induction rule: rtranclp_induct)
  case base
  show ?case
    by (simp add: links_ok_def budget_ok_def traced_ok_def relay_new_def active_links_def live_def records_of_def)
next
  case (step r r')
  then show ?case using links_ok_step budget_ok_step traced_ok_step by blast
qed

text \<open>C16: The relay is transparent.  In every order of its tasks each direction has sent exactly the messages it read, unchanged
  and in order, but for the one it is sending or failed to send, and a close of its own at the end; and a direction that is
  sending can always complete the send, whatever the state of the capture queue, its budget and the analyser.\<close>
theorem relay_transparent:
  assumes "relay_reaches env r" "i < length (ry_links r)"
  shows "(let p = pump_of dir (ry_links r ! i) in
       case pu_phase p of
         Waiting \<Rightarrow> pu_written p = pu_read p
       | Sending msg ob \<Rightarrow> pu_read p = pu_written p @ [msg]
       | Returned_with res \<Rightarrow> pu_written p = pu_read p \<or> pu_written p = pu_read p @ [MClose None] \<or>
           (\<exists>msg. pu_read p = pu_written p @ [msg])) \<and>
    (stands r i (ry_links r ! i) dir (Sending msg ob) \<longrightarrow>
       (\<exists>r'. relay_step env r r' \<and>
          pu_written (pump_of dir (ry_links r' ! i)) = pu_written (pump_of dir (ry_links r ! i)) @ [msg]))"
proof
  have "link_ok (ry_links r ! i)" using relay_reaches_ok [OF assms(1)] assms(2) by (simp add: links_ok_def)
  then show "let p = pump_of dir (ry_links r ! i) in
       case pu_phase p of
         Waiting \<Rightarrow> pu_written p = pu_read p
       | Sending msg ob \<Rightarrow> pu_read p = pu_written p @ [msg]
       | Returned_with res \<Rightarrow> pu_written p = pu_read p \<or> pu_written p = pu_read p @ [MClose None] \<or>
           (\<exists>msg. pu_read p = pu_written p @ [msg])"
    using link_ok_pump [of _ dir] by (simp add: pump_ok_def Let_def)
  show "stands r i (ry_links r ! i) dir (Sending msg ob) \<longrightarrow>
       (\<exists>r'. relay_step env r r' \<and>
          pu_written (pump_of dir (ry_links r' ! i)) = pu_written (pump_of dir (ry_links r ! i)) @ [msg])"
  proof
    assume s: "stands r i (ry_links r ! i) dir (Sending msg ob)"
    have f: "forward_message (en_error env) Completed Completed dir (is_close_message msg) = (Ok (), True)"
      by (simp add: forward_message_def Let_def)
    have "pu_written (pump_of dir (ry_links (finish_frame env i dir msg ob Completed Completed r) ! i)) =
        pu_written (pump_of dir (ry_links r ! i)) @ [msg]"
      unfolding finish_frame_parts [OF f] using assms(2) by (simp split: option.split)
    with sends [OF s, of env Completed Completed] show "\<exists>r'. relay_step env r r' \<and>
          pu_written (pump_of dir (ry_links r' ! i)) = pu_written (pump_of dir (ry_links r ! i)) @ [msg]" by blast
  qed
qed

text \<open>C23: The capture of a relay stays within its limits.  In every reachable state the free permits and the permits held by
  the queued frames and those in flight make up the byte budget, each such frame holding as many as it has bytes and at least
  one; the queue holds at most its capacity; and at most the allowed number of connections is active.\<close>
theorem relay_bounded:
  assumes "relay_reaches env r"
  shows "ry_budget r + sum_mset (image_mset (\<lambda>ob. max (en_len env (ob_message ob)) 1) (live r)) = en_budget env \<and>
    mset (ry_queue r) \<subseteq># live r \<and> length (ry_queue r) \<le> en_capacity env \<and> active_links r \<le> en_connections env"
proof -
  have ok: "budget_ok env r" "links_ok env r" using relay_reaches_ok [OF assms] by simp_all
  then have "image_mset held (live r) = image_mset (\<lambda>ob. max (en_len env (ob_message ob)) 1) (live r)"
    by (intro image_mset_cong) (auto simp: budget_ok_def held_def)
  then show ?thesis using ok by (simp add: budget_ok_def links_ok_def held_by_def) (simp add: live_def)
qed

lemma distinct_counts: "(\<And>k. count (mset xs) k \<le> 1) \<Longrightarrow> distinct xs"
proof (induction xs)
  case (Cons x xs)
  have "count (mset xs) k \<le> count (mset (x # xs)) k" for k by simp
  then have "count (mset xs) k \<le> 1" for k using Cons.prems le_trans by blast
  moreover have "count (mset xs) x = 0" using Cons.prems [of x] by simp
  ultimately show ?case using Cons.IH by (simp add: count_eq_zero_iff)
qed simp

text \<open>C38: What the analyser is shown is real.  Every frame it has taken, or will take from the queue, was read by the direction
  it names on the connection it names, and no two frames have the same connection and index.\<close>
theorem analyser_sees_real_frames:
  assumes "relay_reaches env r" "ob \<in> set (ry_taken r @ ry_queue r)"
  shows "(\<exists>l \<in> set (ry_links r). ob_connection ob = li_id l \<and> ob_index ob < li_index l \<and>
       ob_message ob \<in> set (pu_read (pump_of (ob_direction ob) l))) \<and>
    distinct (map (\<lambda>ob. (ob_connection ob, ob_index ob)) (ry_taken r @ ry_queue r))"
proof
  have ok: "traced_ok r" using relay_reaches_ok [OF assms(1)] by simp
  have "ob \<in># records_of r" using assms(2) by (auto simp: records_of_def live_def)
  then show "\<exists>l \<in> set (ry_links r). ob_connection ob = li_id l \<and> ob_index ob < li_index l \<and>
       ob_message ob \<in> set (pu_read (pump_of (ob_direction ob) l))"
    using ok by (auto simp: traced_ok_def traced_def)
  have "mset (map frame_key (ry_taken r @ ry_queue r)) \<subseteq># image_mset frame_key (records_of r)"
    by (simp add: records_of_def live_def)
  then have "count (mset (map frame_key (ry_taken r @ ry_queue r))) k \<le> 1" for k
    using ok by (meson le_trans mset_subset_eq_count traced_ok_def)
  then have "distinct (map frame_key (ry_taken r @ ry_queue r))"
    by (rule distinct_counts)
  then show "distinct (map (\<lambda>ob. (ob_connection ob, ob_index ob)) (ry_taken r @ ry_queue r))"
    by (simp add: frame_key_def [abs_def])
qed

section \<open>A sample run\<close>

text \<open>One client, one text message of five bytes: accepted, opened, read, sent.\<close>
definition sample_env :: relay_env where
  "sample_env = \<lparr>en_connections = 2, en_budget = 9, en_capture = True, en_capacity = 4, en_session = ''s'',
     en_len = (\<lambda>_. 5), en_error = (\<lambda>_. [])\<rparr>"

definition sample_opened :: relay where
  "sample_opened = (relay_new sample_env)\<lparr>ry_links := [(link_new (link_name sample_env 1))\<lparr>li_stage := Relaying\<rparr>],
     ry_next := 2, ry_accepted := Suc 0\<rparr>"

definition sample_read :: relay where
  "sample_read = take_frame sample_env 0 0 ClientToServer (MText ''hello'') sample_opened"

definition sample_observed :: observed where
  "sample_observed = observe_owned 0 (link_name sample_env 1) 1 ClientToServer (MText ''hello'') 5"

definition sample_sent :: relay where
  "sample_sent = finish_frame sample_env 0 ClientToServer (MText ''hello'') (Some sample_observed) Completed Completed sample_read"

lemma sample_opened_reached: "relay_reaches sample_env sample_opened"
proof -
  let ?step = "relay_step sample_env"
  define r where "r = (relay_new sample_env)\<lparr>ry_links := [link_new (link_name sample_env 1)], ry_next := 2, ry_accepted := Suc 0\<rparr>"
  have "?step (relay_new sample_env) r"
    using accepts [of "relay_new sample_env" sample_env]
    by (simp add: r_def relay_new_def active_links_def sample_env_def link_name_def numeral_2_eq_2)
  moreover have "?step r sample_opened"
    using opens [of 0 r "link_new (link_name sample_env 1)" sample_env]
    by (simp add: r_def sample_opened_def set_link_def relay_new_def link_new_def)
  ultimately show ?thesis unfolding relay_reaches_def by (meson converse_rtranclp_into_rtranclp rtranclp.rtrancl_refl)
qed

lemma sample_stands: "stands sample_opened 0 (ry_links sample_opened ! 0) ClientToServer Waiting"
  by (simp add: stands_def sample_opened_def link_new_def pump_new_def)

lemma sample_read_reached: "relay_reaches sample_env sample_read"
  using sample_opened_reached reads [OF sample_stands, of sample_env 0 "MText ''hello''"]
  unfolding relay_reaches_def sample_read_def by (rule rtranclp.rtrancl_into_rtrancl)

lemma sample_sending: "stands sample_read 0 (ry_links sample_read ! 0) ClientToServer (Sending (MText ''hello'') (Some sample_observed))"
  by (simp add: stands_def sample_read_def take_frame_def prepare_record_def sample_opened_def relay_new_def sample_env_def
      link_new_def pump_new_def set_link_def sample_observed_def link_name_def Let_def)

lemma sample_sent_reached: "relay_reaches sample_env sample_sent"
  using sample_read_reached sends [OF sample_sending, of sample_env Completed Completed]
  unfolding relay_reaches_def sample_sent_def by (rule rtranclp.rtrancl_into_rtrancl)

lemma sample_queue: "ry_queue sample_sent = [sample_observed]" "length (ry_links sample_read) = 1"
  by (simp_all add: sample_sent_def sample_read_def finish_frame_def forward_message_def enqueue_record_def take_frame_def
      prepare_record_def sample_opened_def relay_new_def sample_env_def set_link_def Let_def)

theorem relay_transparent_witness:
  "\<exists>r'. relay_step sample_env sample_read r' \<and>
     pu_written (pump_of ClientToServer (ry_links r' ! 0)) =
       pu_written (pump_of ClientToServer (ry_links sample_read ! 0)) @ [MText ''hello'']"
  using relay_transparent [OF sample_read_reached, of 0 ClientToServer "MText ''hello''" "Some sample_observed"] sample_sending
    sample_queue(2) by simp

theorem relay_bounded_witness:
  "mset (ry_queue sample_sent) \<subseteq># live sample_sent \<and> ry_queue sample_sent = [sample_observed] \<and>
   ry_budget sample_sent + sum_mset (image_mset (\<lambda>ob. max 5 1) (live sample_sent)) = 9"
  using relay_bounded [OF sample_sent_reached] sample_queue by (simp add: sample_env_def)

theorem analyser_sees_real_frames_witness:
  "\<exists>l \<in> set (ry_links sample_sent). li_id l = link_name sample_env 1 \<and> MText ''hello'' \<in> set (pu_read (li_up l))"
  using analyser_sees_real_frames [OF sample_sent_reached, of sample_observed] sample_queue
  by (auto simp: sample_observed_def observe_owned_def)

end
