(* ===== verification/ProxyTool.thy ===== *)
theory ProxyTool
  imports Capture_Inspect Capture_Catalog Relay_Facts
begin

text \<open>
  \<open>src/src/koc_proxy.rs\<close>: the command line tool around the relay and the inspector.  The analyser writes every record to
  the capture file, shows its event to the catalog and prints it when the filters let it through; the outcomes of its writes
  are arguments.  Argument parsing is left to \<open>clap\<close>, file system answers are arguments, the wording on standard error is left
  out.
\<close>

section \<open>Arguments\<close>

datatype output_format = Pretty | Json | Silent

record display_args =
  da_format :: output_format
  da_cmd :: "string option"
  da_direction :: "direction option"
  da_include_control :: bool
  da_show_sensitive :: bool

record relay_args =
  ra_listen :: ip_addr
  ra_upstream :: url_parts
  ra_no_decode :: bool
  ra_decode :: bool
  ra_record :: "string option"
  ra_catalog :: "string option"
  ra_display :: display_args
  ra_channel_capacity :: nat
  ra_max_connections :: nat
  ra_max_queued_mb :: nat

section \<open>Output files\<close>

datatype file_kind = Symlink | Directory | Regular | Missing | Unreadable string

definition check_output :: "file_kind \<Rightarrow> string \<Rightarrow> unit res" where
  "check_output kind path =
     (case kind of
        Symlink \<Rightarrow> Err (''refusing to overwrite symlink: '' @ path)
      | Directory \<Rightarrow> Err (''output path is not a file: '' @ path)
      | Regular \<Rightarrow> Ok ()
      | Missing \<Rightarrow> Ok ()
      | Unreadable e \<Rightarrow> Err (''failed to inspect '' @ path @ '': '' @ e))"

text \<open>\<open>open_secure_writer\<close>: the outcomes of creating the directory, of opening and of restricting the file are arguments.\<close>
definition open_secure_writer :: "unit res \<Rightarrow> file_kind \<Rightarrow> unit res \<Rightarrow> unit res \<Rightarrow> string \<Rightarrow> string \<Rightarrow> unit res" where
  "open_secure_writer created kind opened secured parent path =
     (case (if parent = [] then Ok () else created) of
        Inl e \<Rightarrow> Err (''failed to create '' @ parent @ '': '' @ e)
      | Inr _ \<Rightarrow>
          (case check_output kind path of
             Inl e \<Rightarrow> Err e
           | Inr _ \<Rightarrow>
               (case opened of
                  Inl e \<Rightarrow> Err (''failed to open '' @ path @ '': '' @ e)
                | Inr _ \<Rightarrow>
                    (case secured of Inl e \<Rightarrow> Err (''failed to secure '' @ path @ '': '' @ e) | Inr _ \<Rightarrow> Ok ()))))"

section \<open>The analyser\<close>

text \<open>\<open>an_lines\<close> is what the capture file holds, \<open>an_snapshot\<close> what the catalog file holds, \<open>an_printed\<close> what was printed.\<close>
record analyzer =
  an_inspector :: inspector
  an_display :: display_args
  an_recording :: bool
  an_catalog :: "catalog option"
  an_realtime :: bool
  an_lines :: "capture_record list"
  an_snapshot :: "catalog option"
  an_printed :: "decoded_event list"

definition analyzer_new :: "display_args \<Rightarrow> bool \<Rightarrow> bool \<Rightarrow> bool \<Rightarrow> analyzer" where
  "analyzer_new display recording cataloguing realtime =
     \<lparr>an_inspector = inspector_new (\<not> da_show_sensitive display), an_display = display, an_recording = recording,
      an_catalog = (if cataloguing then Some catalog_new else None), an_realtime = realtime,
      an_lines = [], an_snapshot = None, an_printed = []\<rparr>"

definition should_display :: "display_args \<Rightarrow> decoded_event \<Rightarrow> bool" where
  "should_display display event \<longleftrightarrow>
     (da_include_control display \<or> ev_opcode event = BinaryFrame) \<and>
     (case da_direction display of None \<Rightarrow> True | Some dir \<Rightarrow> ev_direction event = dir) \<and>
     matches_command (da_cmd display) event"

text \<open>The outcomes of the three writes of \<open>process\<close>: the record, the catalog, the event.\<close>
record writes =
  wr_record :: "unit res"
  wr_catalog :: "unit res"
  wr_event :: "unit res"

definition print_event :: "output_format \<Rightarrow> decoded_event \<Rightarrow> unit res \<Rightarrow> analyzer \<Rightarrow> unit res \<times> analyzer" where
  "print_event format event written an =
     (case format of
        Silent \<Rightarrow> (Ok (), an)
      | _ \<Rightarrow> (case written of Inl e \<Rightarrow> (Err e, an) | Inr _ \<Rightarrow> (Ok (), an\<lparr>an_printed := an_printed an @ [event]\<rparr>)))"

definition process :: "outside \<Rightarrow> writes \<Rightarrow> capture_record \<Rightarrow> analyzer \<Rightarrow> unit res \<times> analyzer" where
  "process out w r an =
     (case (if an_recording an then wr_record w else Ok ()) of
        Inl e \<Rightarrow> (Err e, an)
      | Inr _ \<Rightarrow>
          (let an = (if an_recording an then an\<lparr>an_lines := an_lines an @ [r]\<rparr> else an);
               (event, ins) = inspect out r (an_inspector an);
               an = an\<lparr>an_inspector := ins, an_catalog := map_option (observe out event) (an_catalog an)\<rparr>
           in case (if an_catalog an = None then Ok () else wr_catalog w) of
                Inl e \<Rightarrow> (Err e, an)
              | Inr _ \<Rightarrow>
                  (let an = an\<lparr>an_snapshot := (if an_catalog an = None then an_snapshot an else an_catalog an)\<rparr>
                   in if an_realtime an \<and> should_display (an_display an) event
                      then print_event (da_format (an_display an)) event (wr_event w) an
                      else (Ok (), an))))"

text \<open>\<open>finish\<close>: the last flush and the last snapshot.\<close>
definition finish :: "unit res \<Rightarrow> unit res \<Rightarrow> analyzer \<Rightarrow> unit res \<times> analyzer" where
  "finish flushed rewritten an =
     (case (if an_recording an then flushed else Ok ()) of
        Inl e \<Rightarrow> (Err e, an)
      | Inr _ \<Rightarrow>
          (case an_catalog an of
             None \<Rightarrow> (Ok (), an)
           | Some c \<Rightarrow> (case rewritten of Inl e \<Rightarrow> (Err e, an) | Inr _ \<Rightarrow> (Ok (), an\<lparr>an_snapshot := Some c\<rparr>))))"

definition written_all :: writes where
  "written_all = \<lparr>wr_record = Ok (), wr_catalog = Ok (), wr_event = Ok ()\<rparr>"

text \<open>\<open>decode_reader\<close>, with a standard output that takes everything.\<close>
definition decode_reader :: "outside \<Rightarrow> display_args \<Rightarrow> buffered \<Rightarrow> unit res \<times> analyzer" where
  "decode_reader out display input =
     (case read_records out (process out written_all) input (analyzer_new display False False True) of
        (Inl e, an) \<Rightarrow> (Err e, an)
      | (Inr _, an) \<Rightarrow> finish (Ok ()) (Ok ()) an)"

text \<open>\<open>catalog_reader\<close>: the catalog it writes.\<close>
definition catalog_reader :: "outside \<Rightarrow> bool \<Rightarrow> buffered \<Rightarrow> catalog res" where
  "catalog_reader out show_sensitive input =
     (case read_records out
             (\<lambda>r (ins, c). let (event, ins) = inspect out r ins in (Ok (), (ins, observe out event c)))
             input (inspector_new (\<not> show_sensitive), catalog_new) of
        (Inl e, _) \<Rightarrow> Err e
      | (Inr _, (_, c)) \<Rightarrow> Ok c)"

section \<open>The relay command\<close>

text \<open>The checks before anything is opened; \<open>absolute\<close> and the kinds of the output paths come from the file system.\<close>
definition check_relay_args :: "(string \<Rightarrow> string res) \<Rightarrow> (string \<Rightarrow> file_kind) \<Rightarrow> relay_args \<Rightarrow> unit res" where
  "check_relay_args absolute kind_of args =
     (if \<not> (1 \<le> ra_channel_capacity args \<and> ra_channel_capacity args \<le> 4096)
      then Err ''channel_capacity must be between 1 and 4096''
      else if \<not> (1 \<le> ra_max_connections args \<and> ra_max_connections args \<le> 256)
      then Err ''max_connections must be between 1 and 256''
      else if \<not> (1 \<le> ra_max_queued_mb args \<and> ra_max_queued_mb args \<le> 256)
      then Err ''max_queued_capture_mb must be between 1 and 256''
      else
        (case (case (ra_record args, ra_catalog args) of
                 (Some a, Some b) \<Rightarrow>
                   (case absolute a of
                      Inl e \<Rightarrow> Err e
                    | Inr a \<Rightarrow>
                        (case absolute b of
                           Inl e \<Rightarrow> Err e
                         | Inr b \<Rightarrow> if a = b then Err ''record and catalog outputs must use different files'' else Ok ()))
               | _ \<Rightarrow> Ok ()) of
           Inl e \<Rightarrow> Err e
         | Inr _ \<Rightarrow>
             foldl (\<lambda>ok path. case ok of Inl e \<Rightarrow> Err e | Inr _ \<Rightarrow> check_output (kind_of path) path) (Ok ())
               ((case ra_record args of None \<Rightarrow> [] | Some p \<Rightarrow> [p]) @ (case ra_catalog args of None \<Rightarrow> [] | Some p \<Rightarrow> [p]))))"

definition analysis_enabled :: "relay_args \<Rightarrow> bool" where
  "analysis_enabled args \<longleftrightarrow> ra_decode args \<or> \<not> ra_no_decode args \<or> ra_record args \<noteq> None \<or> ra_catalog args \<noteq> None"

definition relay_config_of :: "relay_args \<Rightarrow> relay_config" where
  "relay_config_of args = \<lparr>rc_listen = ra_listen args, rc_upstream = ra_upstream args,
     rc_max_connections = ra_max_connections args, rc_max_capture = ra_max_queued_mb args * 1024 * 1024\<rparr>"

text \<open>What ends first: a signal (or its failure), the relay, the analyser.  The results of the tasks, a crash of a task already
  turned into an error, are reported in this order.\<close>
datatype first_end = SignalFirst "unit res" | RelayFirst | AnalyzerFirst

definition command_result :: "first_end \<Rightarrow> relay_stats res \<Rightarrow> unit res \<Rightarrow> unit res" where
  "command_result first relay_result analyzer_result =
     (case (case first of SignalFirst signal \<Rightarrow> signal | _ \<Rightarrow> Ok ()) of
        Inl e \<Rightarrow> Err e
      | Inr _ \<Rightarrow> (case relay_result of Inl e \<Rightarrow> Err e | Inr _ \<Rightarrow> analyzer_result))"

section \<open>What is printed and catalogued\<close>

lemma redact_idem: "redact_value (redact_value v) = redact_value v"
proof (induction v rule: redact_value.induct)
  case (1 kvs)
  then show ?case by (auto simp: comp_def)
qed (simp_all add: comp_def)

text \<open>The events of a capture's records, inspected in order.\<close>
lemma inspect_keeps_redaction: "inspect out r ins = (e, ins') \<Longrightarrow> in_redact ins' = in_redact ins \<and>
    (in_redact ins \<longrightarrow> map_option redact_value (ev_body e) = ev_body e)"
  using undecoded_event [of out r]
  by (auto simp: inspect_parts Let_def redact_idem option.map_comp comp_def split: prod.splits if_splits)

lemma process_quiet:
  assumes "inspect out r (an_inspector an) = (e, ins)" "\<not> an_recording an" "an_catalog an = None" "an_realtime an"
    "da_format (an_display an) \<noteq> Silent"
  shows "process out written_all r an =
    (Ok (), an\<lparr>an_inspector := ins, an_printed := an_printed an @ (if should_display (an_display an) e then [e] else [])\<rparr>)"
proof (cases "should_display (an_display an) e")
  case True
  then show ?thesis
    using assms by (cases "da_format (an_display an)") (simp_all add: process_def print_event_def written_all_def)
next
  case False
  then show ?thesis using assms by (simp add: process_def written_all_def)
qed

text \<open>The records of a text's lines, up to the first line that is none, and what that line's error is.\<close>
fun records_of_lines :: "outside \<Rightarrow> nat \<Rightarrow> bytes list \<Rightarrow> capture_record list \<times> unit res" where
  "records_of_lines out n [] = ([], Ok ())"
| "records_of_lines out n (line # rest) =
     (if MAX_CAPTURE_LINE_BYTES < length line
      then ([], Err (''capture line exceeds '' @ nat_str MAX_CAPTURE_LINE_BYTES @ '' bytes''))
      else case read_line out (n + 1) line of
             Inl e \<Rightarrow> ([], Err e)
           | Inr None \<Rightarrow> records_of_lines out (n + 1) rest
           | Inr (Some r) \<Rightarrow> (let (rs, result) = records_of_lines out (n + 1) rest in (r # rs, result)))"

text \<open>A callback that never fails sees the records in order.\<close>
lemma process_lines_records:
  assumes "\<And>r s. calm s \<Longrightarrow> callback r s = (Ok (), step r s) \<and> calm (step r s)" "calm s"
  shows "process_lines out callback n lines s =
    (let (rs, result) = records_of_lines out n lines in (result, foldl (\<lambda>s r. step r s) s rs))"
  using assms(2)
proof (induction lines arbitrary: n s)
  case (Cons line rest)
  have "callback r s = (Ok (), step r s)" "calm (step r s)" for r using assms(1) [OF Cons.prems] by simp_all
  then show ?case
    using Cons.IH [of s "n + 1"] Cons.IH [of "step r s" "n + 1" for r] Cons.prems
    by (auto split: sum.splits option.splits prod.splits)
qed simp

definition quiet_step :: "outside \<Rightarrow> capture_record \<Rightarrow> analyzer \<Rightarrow> analyzer" where
  "quiet_step out r an =
     (let (e, ins) = inspect out r (an_inspector an)
      in an\<lparr>an_inspector := ins, an_printed := an_printed an @ (if should_display (an_display an) e then [e] else [])\<rparr>)"

lemma quiet_fold:
  "inspect_all out rs (an_inspector an) = (es, ins) \<Longrightarrow>
   foldl (\<lambda>an r. quiet_step out r an) an rs =
     an\<lparr>an_inspector := ins, an_printed := an_printed an @ filter (should_display (an_display an)) es\<rparr>"
  by (induction rs arbitrary: an es) (auto simp: quiet_step_def split: prod.splits)

lemma inspect_all_redacted:
  "inspect_all out rs ins = (es, ins') \<Longrightarrow> in_redact ins \<Longrightarrow> e \<in> set es \<Longrightarrow> map_option redact_value (ev_body e) = ev_body e"
proof (induction rs arbitrary: ins es)
  case (Cons r rs)
  obtain e1 mid where e1: "inspect out r ins = (e1, mid)" by fastforce
  obtain later where later: "inspect_all out rs mid = (later, ins')" "es = e1 # later"
    using Cons.prems(1) e1 by (auto split: prod.splits)
  then show ?case using Cons.IH [of mid later] inspect_keeps_redaction [OF e1] Cons.prems(2,3) by auto
qed simp

text \<open>Decoding runs the quiet analyser over the records of the lines.\<close>
lemma decode_reader_quiet:
  assumes "[] \<notin> set ps" "da_format display \<noteq> Silent" "records_of_lines out 0 (lines_of (concat ps)) = (rs, result)"
  shows "decode_reader out display (map Inr ps) =
    (result, foldl (\<lambda>an r. quiet_step out r an) (analyzer_new display False False True) rs)"
proof -
  let ?an = "analyzer_new display False False True"
  define calm where "calm = (\<lambda>an :: analyzer. \<not> an_recording an \<and> an_catalog an = None \<and> an_realtime an \<and> da_format (an_display an) \<noteq> Silent)"
  have step: "process out written_all r an = (Ok (), quiet_step out r an) \<and> calm (quiet_step out r an)" if "calm an" for r an
  proof -
    obtain e ins where e: "inspect out r (an_inspector an) = (e, ins)" by fastforce
    show ?thesis using process_quiet [OF e] that by (simp add: calm_def quiet_step_def e)
  qed
  have start: "calm ?an" using assms(2) by (simp add: calm_def analyzer_new_def)
  have lines: "process_lines out (process out written_all) n lines ?an =
      (let (rs, result) = records_of_lines out n lines in (result, foldl (\<lambda>s r. quiet_step out r s) ?an rs))" for n lines
    by (rule process_lines_records [of calm]) (use step start in auto)
  have run: "read_records out (process out written_all) (map Inr ps) ?an = (result, foldl (\<lambda>an r. quiet_step out r an) ?an rs)"
    unfolding read_records_lines [OF assms(1)] lines by (simp add: assms(3))
  have "calm (foldl (\<lambda>an r. quiet_step out r an) an rs)" if "calm an" for an rs
    using that step by (induction rs arbitrary: an) simp_all
  then have "calm (foldl (\<lambda>an r. quiet_step out r an) ?an rs)" using start .
  then show ?thesis by (cases result) (simp_all add: decode_reader_def run finish_def calm_def)
qed

text \<open>What \<open>koc_proxy decode\<close> prints.  On a capture read in any pieces it prints, in order, exactly the events of the records
  before the first unreadable line that pass the filters, with that line's error as its result; and unless sensitive values are
  asked for, no printed body has a value under a sensitive key that is not redacted.\<close>
theorem decode_prints_events:
  assumes "[] \<notin> set ps" "da_format display \<noteq> Silent" "records_of_lines out 0 (lines_of (concat ps)) = (rs, result)"
    "inspect_all out rs (inspector_new (\<not> da_show_sensitive display)) = (es, ins)"
  shows "fst (decode_reader out display (map Inr ps)) = result \<and>
    an_printed (snd (decode_reader out display (map Inr ps))) = filter (should_display display) es \<and>
    (\<not> da_show_sensitive display \<longrightarrow> (\<forall>e \<in> set es. map_option redact_value (ev_body e) = ev_body e))"
proof -
  let ?an = "analyzer_new display False False True"
  have start: "an_inspector ?an = inspector_new (\<not> da_show_sensitive display)" "an_display ?an = display" "an_printed ?an = []"
    by (simp_all add: analyzer_new_def)
  note fold = quiet_fold [of out rs ?an, unfolded start, OF assms(4)]
  have "\<forall>e \<in> set es. map_option redact_value (ev_body e) = ev_body e" if "\<not> da_show_sensitive display"
    using inspect_all_redacted [OF assms(4)] that by (simp add: inspector_new_def)
  then show ?thesis
    by (simp add: decode_reader_quiet [OF assms(1-3)] fold start)
qed

definition sample_display :: display_args where
  "sample_display = \<lparr>da_format = Json, da_cmd = Some ''*'', da_direction = None, da_include_control = True, da_show_sensitive = False\<rparr>"

theorem decode_prints_events_witness:
  "an_printed (snd (decode_reader sample_outside sample_display (map Inr [[123], [125, 10]]))) = [blank_event sample_record]"
proof -
  have lines: "records_of_lines sample_outside 0 (lines_of (concat [[123], [125, 10]])) = ([sample_record], Ok ())"
    by (simp add: lines_of.simps line_part_def read_line_def sample_outside_def sample_record_def MAX_CAPTURE_LINE_BYTES_def
        MAX_CONNECTION_ID_BYTES_def CAPTURE_SCHEMA_VERSION_def utf8_valid.simps utf8_piece_def utf8_width_def bytes_str_simps
        char_of_byte_def)
  have run: "inspect_all sample_outside [sample_record] (inspector_new True) = ([blank_event sample_record], inspector_new True)"
    by (simp add: inspect_def decode_record_def binary_payload_def) (simp add: sample_record_def)
  have "should_display sample_display (blank_event sample_record)"
    by (simp add: should_display_def sample_display_def matches_command_def blank_event_def sample_record_def wildcard_match_def
        wildcard_loop.simps)
  then show ?thesis
    using decode_prints_events [OF _ _ lines, of sample_display] run by (simp add: sample_display_def)
qed

end
