(* ===== verification/Recording.thy ===== *)
theory Recording
  imports ProxyTool
begin

text \<open>
  The capture file of \<open>koc_proxy relay --record\<close> (\<open>proxy_capture.rs\<close>, \<open>koc_proxy.rs\<close>): the line \<open>serde_json\<close> writes for a
  record, the analyser's task, and that the file, decoded later, shows what was shown live.  The texts of strings are
  escaped as JSON asks for; reading a line back is the parameter \<open>read_record\<close> of the model of the capture.
\<close>

section \<open>The text of a record\<close>

definition hex_digit :: "nat \<Rightarrow> char" where
  "hex_digit n = ''0123456789abcdef'' ! n"

text \<open>Quotation mark, backslash and control characters are escaped, everything else is copied.\<close>
definition json_escape :: "char \<Rightarrow> string" where
  "json_escape c =
     (if c = CHR 0x22 then [CHR 0x5C, CHR 0x22]
      else if c = CHR 0x5C then [CHR 0x5C, CHR 0x5C]
      else if c = CHR 0x08 then [CHR 0x5C, CHR ''b'']
      else if c = CHR 0x0C then [CHR 0x5C, CHR ''f'']
      else if c = CHR 0x0A then [CHR 0x5C, CHR ''n'']
      else if c = CHR 0x0D then [CHR 0x5C, CHR ''r'']
      else if c = CHR 0x09 then [CHR 0x5C, CHR ''t'']
      else if (of_char c :: nat) < 32 then CHR 0x5C # ''u00'' @ [hex_digit (of_char c div 16), hex_digit (of_char c mod 16)]
      else [c])"

definition json_quoted :: "string \<Rightarrow> string" where
  "json_quoted s = CHR 0x22 # concat (map json_escape s) @ [CHR 0x22]"

text \<open>\<open>rename_all = "snake_case"\<close>\<close>
fun direction_name :: "direction \<Rightarrow> string" where
  "direction_name ClientToServer = ''client_to_server''"
| "direction_name ServerToClient = ''server_to_client''"

fun opcode_name :: "opcode \<Rightarrow> string" where
  "opcode_name BinaryFrame = ''binary''"
| "opcode_name TextFrame = ''text''"
| "opcode_name PingFrame = ''ping''"
| "opcode_name PongFrame = ''pong''"
| "opcode_name CloseFrame = ''close''"
| "opcode_name RawFrame = ''frame''"

definition json_member :: "string \<Rightarrow> string \<Rightarrow> string" where
  "json_member name text = json_quoted name @ '':'' @ text"

text \<open>The fields in the order of the struct; a payload that is absent is skipped.\<close>
definition record_text :: "capture_record \<Rightarrow> string" where
  "record_text r =
     ''{'' @ json_member ''version'' (nat_str (cr_version r))
     @ '','' @ json_member ''connection_id'' (json_quoted (cr_connection r))
     @ '','' @ json_member ''frame_index'' (nat_str (cr_index r))
     @ '','' @ json_member ''timestamp_ms'' (nat_str (cr_time r))
     @ '','' @ json_member ''direction'' (json_quoted (direction_name (cr_direction r)))
     @ '','' @ json_member ''opcode'' (json_quoted (opcode_name (cr_opcode r)))
     @ (case cr_payload r of None \<Rightarrow> [] | Some p \<Rightarrow> '','' @ json_member ''payload_base64'' (json_quoted p))
     @ ''}''"

text \<open>\<open>write_json_line\<close>: what it appends to the file.\<close>
definition write_json_line :: "capture_record \<Rightarrow> bytes" where
  "write_json_line r = str_bytes (record_text r) @ [10]"

section \<open>The analyser's task\<close>

text \<open>The loop of the blocking task: the frames taken from the queue until it is closed, each with the outcomes of its writes.\<close>
fun analyse :: "outside \<Rightarrow> (observed \<times> writes) list \<Rightarrow> analyzer \<Rightarrow> unit res \<times> analyzer" where
  "analyse out [] an = finish (Ok ()) (Ok ()) an"
| "analyse out ((ob, w) # obs) an =
     (case process out w (into_record out ob) an of
        (Inl e, an) \<Rightarrow> (Err e, an)
      | (Inr _, an) \<Rightarrow> analyse out obs an)"

text \<open>The bytes of the capture file after the task.\<close>
definition capture_file :: "analyzer \<Rightarrow> bytes" where
  "capture_file an = concat (map write_json_line (an_lines an))"

section \<open>Lines\<close>

lemma hex_digit_plain: "n < 16 \<Longrightarrow> hex_digit n \<in> set ''0123456789abcdef''"
  unfolding hex_digit_def by (rule nth_mem) simp

lemma json_escape_chars:
  assumes "d \<in> set (json_escape c)"
  shows "(of_char d :: nat) \<noteq> 10 \<and> ((of_char c :: nat) < 128 \<longrightarrow> (of_char d :: nat) < 128)"
proof -
  have hex: "(of_char (hex_digit n) :: nat) \<noteq> 10 \<and> (of_char (hex_digit n) :: nat) < 128" if "n < 16" for n
    using hex_digit_plain [OF that] by auto
  have "(of_char c :: nat) < 256" by (metis mod_less_divisor of_char_mod_256 zero_less_numeral)
  then have "(of_char c :: nat) div 16 < 16" "(of_char c :: nat) mod 16 < 16"
    using less_mult_imp_div_less [of "of_char c" 16 16] by simp_all
  then show ?thesis using assms hex by (auto simp: json_escape_def split: if_splits)
qed

lemma length_json_escape: "length (json_escape c) \<le> 6"
  by (simp add: json_escape_def)

lemma length_json_quoted: "length (json_quoted s) \<le> 6 * length s + 2"
proof -
  have "length (concat (map json_escape s)) \<le> 6 * length s"
    by (induction s) (auto intro: order_trans [OF add_mono [OF length_json_escape]])
  then show ?thesis by (simp add: json_quoted_def)
qed

text \<open>A piece of text on one line, in ASCII.\<close>
definition one_line :: "string \<Rightarrow> bool" where
  "one_line s \<longleftrightarrow> (\<forall>c \<in> set s. (of_char c :: nat) \<noteq> 10 \<and> (of_char c :: nat) < 128)"

lemma one_line_simps [simp]: "one_line []" "one_line (c # s) \<longleftrightarrow> ((of_char c :: nat) \<noteq> 10 \<and> (of_char c :: nat) < 128) \<and> one_line s"
    "one_line (s @ t) \<longleftrightarrow> one_line s \<and> one_line t"
  by (auto simp: one_line_def)

lemma one_line_quoted: "ascii s \<Longrightarrow> one_line (json_quoted s)"
  using json_escape_chars by (fastforce simp: one_line_def json_quoted_def ascii_def list_all_iff)

lemma one_line_nat: "one_line (nat_str n)"
  using nat_str_digits [of _ n] by (fastforce simp: one_line_def)

lemma one_line_member: "ascii name \<Longrightarrow> one_line text \<Longrightarrow> one_line (json_member name text)"
  by (simp add: json_member_def one_line_quoted)

lemma ascii_simps [simp]: "ascii []" "ascii (c # s) \<longleftrightarrow> (of_char c :: nat) < 128 \<and> ascii s"
  by (simp_all add: ascii_def)

lemma one_line_record:
  assumes "ascii (cr_connection r)" "\<And>p. cr_payload r = Some p \<Longrightarrow> ascii p"
  shows "one_line (record_text r)"
proof -
  have "ascii (direction_name (cr_direction r))" "ascii (opcode_name (cr_opcode r))"
    by (cases "cr_direction r"; simp) (cases "cr_opcode r"; simp)
  then show ?thesis
    using assms by (auto simp: record_text_def one_line_nat intro!: one_line_member one_line_quoted split: option.splits)
qed

lemma length_nat_str: "n < 10 ^ Suc k \<Longrightarrow> length (nat_str n) \<le> Suc k"
proof (induction k arbitrary: n)
  case 0
  then show ?case by (subst nat_str.simps) simp
next
  case (Suc k)
  then have "n div 10 < 10 ^ Suc k" by (simp add: less_mult_imp_div_less)
  from Suc.IH [OF this] show ?case by (subst nat_str.simps) (simp split: if_splits)
qed

section \<open>The size of a line\<close>

text \<open>What the crate \<open>base64\<close> promises of its standard alphabet.\<close>
definition standard_base64 :: "(bytes \<Rightarrow> string) \<Rightarrow> bool" where
  "standard_base64 enc \<longleftrightarrow> (\<forall>d. set (enc d) \<subseteq> base64_alphabet \<and> length (enc d) = 4 * ((length d + 2) div 3))"

lemma standard_base64_sample: "standard_base64 base64_encode"
  by (simp add: standard_base64_def base64_encode_alphabet length_base64_encode)

text \<open>A frame as the relay makes them: a short ASCII name of the connection, numbers of 64 bits, a message within the limit of
  the socket.\<close>
definition ordinary_frame :: "observed \<Rightarrow> bool" where
  "ordinary_frame ob \<longleftrightarrow> ascii (ob_connection ob) \<and> length (ob_connection ob) \<le> MAX_CONNECTION_ID_BYTES \<and>
     ob_index ob < 2 ^ 64 \<and> ob_time ob < 2 ^ 64 \<and>
     (case snd (message_payload (ob_message ob)) of None \<Rightarrow> True | Some d \<Rightarrow> length d \<le> MAX_MESSAGE_SIZE)"

lemma alphabet_plain:
  assumes "c \<in> base64_alphabet"
  shows "json_escape c = [c]"
proof -
  have "list_all (\<lambda>c. json_escape c = [c]) (CHR ''='' # CHARS)" by code_simp
  then show ?thesis using assms by (auto simp: base64_alphabet_def list_all_iff)
qed

lemma quoted_base64:
  assumes "standard_base64 enc"
  shows "length (json_quoted (enc d)) = 4 * ((length d + 2) div 3) + 2" "ascii (enc d)"
proof -
  have "set (enc d) \<subseteq> base64_alphabet" "length (enc d) = 4 * ((length d + 2) div 3)"
    using assms by (simp_all add: standard_base64_def)
  moreover from this have "concat (map json_escape (enc d)) = enc d"
    using alphabet_plain by (induction "enc d") (auto simp: map_idI concat_map_singleton subset_iff cong: map_cong)
  ultimately show "length (json_quoted (enc d)) = 4 * ((length d + 2) div 3) + 2" "ascii (enc d)"
    using base64_alphabet_ascii by (auto simp: json_quoted_def ascii_def list_all_iff)
qed

lemma length_u64: "n < 2 ^ 64 \<Longrightarrow> length (nat_str n) \<le> 20"
  using length_nat_str [of n 19] by simp

lemma length_names: "length (json_quoted (direction_name d)) \<le> 18" "length (json_quoted (opcode_name op)) \<le> 8"
  by (cases d; simp add: json_quoted_def json_escape_def) (cases op; simp add: json_quoted_def json_escape_def)

lemma length_member: "length (json_member name text) \<le> 6 * length name + 3 + length text"
  using length_json_quoted [of name] by (simp add: json_member_def)

text \<open>No line the recorder writes for a relayed frame is longer than what the reader accepts: 48 MiB leave room for the
  16 MiB of a message, a third more in base 64, and every escape of the name.\<close>
lemma line_within_limit:
  assumes "ordinary_frame ob" "standard_base64 (b64_encode out)"
  shows "length (write_json_line (into_record out ob)) \<le> MAX_CAPTURE_LINE_BYTES"
proof -
  let ?r = "into_record out ob"
  have fields: "cr_connection ?r = ob_connection ob" "cr_index ?r = ob_index ob" "cr_time ?r = ob_time ob" "cr_version ?r = 1"
    "cr_payload ?r = map_option (b64_encode out) (snd (message_payload (ob_message ob)))"
    by (simp_all add: into_record_def CAPTURE_SCHEMA_VERSION_def split: prod.splits)
  have payload: "length (case cr_payload ?r of None \<Rightarrow> [] | Some p \<Rightarrow> '','' @ json_member ''payload_base64'' (json_quoted p))
      \<le> 90 + 4 * ((16 * 1024 * 1024 + 2) div 3)"
  proof (cases "snd (message_payload (ob_message ob))")
    case (Some d)
    have "length d \<le> 16 * 1024 * 1024" using assms(1) Some by (simp add: ordinary_frame_def MAX_MESSAGE_SIZE_def)
    then have "(length d + 2) div 3 \<le> (16 * 1024 * 1024 + 2) div 3" by (intro div_le_mono add_le_mono) simp_all
    then show ?thesis
      using length_member [of "''payload_base64''" "json_quoted (b64_encode out d)"] quoted_base64(1) [OF assms(2), of d]
      by (simp add: fields Some)
  qed (simp add: fields)
  have conn: "length (json_quoted (ob_connection ob)) \<le> 6 * 256 + 2"
    using assms(1) length_json_quoted [of "ob_connection ob"] by (simp add: ordinary_frame_def MAX_CONNECTION_ID_BYTES_def)
  have "length (nat_str 1) \<le> 20" "length (nat_str (ob_index ob)) \<le> 20" "length (nat_str (ob_time ob)) \<le> 20"
    using assms(1) length_u64 by (simp_all add: ordinary_frame_def)
  note nums = this length_names(1) [of "cr_direction ?r"] length_names(2) [of "cr_opcode ?r"]
  have "length (record_text ?r) \<le> 10000 + 4 * ((16 * 1024 * 1024 + 2) div 3)"
    using payload conn nums
      length_member [of "''version''" "nat_str 1"] length_member [of "''connection_id''" "json_quoted (ob_connection ob)"]
      length_member [of "''frame_index''" "nat_str (ob_index ob)"] length_member [of "''timestamp_ms''" "nat_str (ob_time ob)"]
      length_member [of "''direction''" "json_quoted (direction_name (cr_direction ?r))"]
      length_member [of "''opcode''" "json_quoted (opcode_name (cr_opcode ?r))"]
    by (simp add: record_text_def fields)
  then show ?thesis by (simp add: write_json_line_def MAX_CAPTURE_LINE_BYTES_def)
qed

section \<open>Reading the file\<close>

lemma record_ascii:
  assumes "ordinary_frame ob" "standard_base64 (b64_encode out)"
  shows "one_line (record_text (into_record out ob))"
  using assms quoted_base64(2) [OF assms(2)]
  by (intro one_line_record) (auto simp: into_record_def ordinary_frame_def split: prod.splits)

lemma bytes_str_append: "bytes_str (a @ b) = bytes_str a @ bytes_str b"
  by (simp add: bytes_str_def)

lemma newline_byte: "char_of_byte 10 = CHR 0x0A"
  by code_simp

lemma no_newline_byte: "one_line s \<Longrightarrow> 10 \<notin> set (str_bytes s)"
proof
  assume s: "one_line s" "10 \<in> set (str_bytes s)"
  then have "CHR 0x0A \<in> set (bytes_str (str_bytes s))" unfolding newline_byte [symmetric] bytes_str_def by (simp only: set_map imageI)
  then show False using s(1) by (auto simp: one_line_def)
qed

lemma line_of_record:
  assumes "ordinary_frame ob" "standard_base64 (b64_encode out)"
    "read_record out (record_text (into_record out ob) @ [CHR 0x0A]) = Ok (into_record out ob)"
  shows "read_line out n (write_json_line (into_record out ob)) = Ok (Some (into_record out ob))"
proof -
  let ?r = "into_record out ob"
  have "list_all (\<lambda>b. b < 128) (write_json_line ?r)"
    using record_ascii [OF assms(1,2)]
    by (auto simp: write_json_line_def one_line_def list_all_iff str_bytes_def byte_of_char_def word_less_nat_alt unat_of_nat)
  then have "utf8_valid (write_json_line ?r)" by (rule utf8_valid_ascii)
  moreover have "bytes_str (write_json_line ?r) = record_text ?r @ [CHR 0x0A]"
    by (simp add: write_json_line_def bytes_str_append newline_byte)
  moreover have "strip_whitespace (record_text ?r @ [CHR 0x0A]) \<noteq> []"
    by (simp add: record_text_def)
  moreover have "cr_version ?r = CAPTURE_SCHEMA_VERSION" "length (cr_connection ?r) \<le> MAX_CONNECTION_ID_BYTES"
    using assms(1) by (simp_all add: into_record_def ordinary_frame_def split: prod.splits)
  ultimately show ?thesis using assms(3) by (simp add: read_line_def)
qed

text \<open>What makes a list of frames one that a recording keeps.\<close>
definition recordable :: "outside \<Rightarrow> observed list \<Rightarrow> bool" where
  "recordable out obs \<longleftrightarrow> standard_base64 (b64_encode out) \<and>
     (\<forall>ob \<in> set obs. ordinary_frame ob \<and>
        read_record out (record_text (into_record out ob) @ [CHR 0x0A]) = Ok (into_record out ob))"

lemma recordable_Cons: "recordable out (ob # obs) \<longleftrightarrow> ordinary_frame ob \<and> standard_base64 (b64_encode out) \<and>
    read_record out (record_text (into_record out ob) @ [CHR 0x0A]) = Ok (into_record out ob) \<and> recordable out obs"
  by (auto simp: recordable_def)

lemma lines_of_recording:
  "recordable out obs \<Longrightarrow>
   lines_of (concat (map write_json_line (map (into_record out) obs))) = map write_json_line (map (into_record out) obs)"
proof (induction obs)
  case (Cons ob obs)
  have "10 \<notin> set (str_bytes (record_text (into_record out ob)))"
    using record_ascii [of ob out] Cons.prems by (simp add: recordable_Cons no_newline_byte)
  then show ?case using Cons by (simp add: recordable_Cons write_json_line_def lines_of_first)
qed simp

lemma records_of_recording:
  "recordable out obs \<Longrightarrow>
   records_of_lines out n (map write_json_line (map (into_record out) obs)) = (map (into_record out) obs, Ok ())"
proof (induction obs arbitrary: n)
  case (Cons ob obs)
  then show ?case
    using line_within_limit [of ob out] line_of_record [of ob out "n + 1"] by (simp add: recordable_Cons leD)
qed simp

section \<open>Live and later\<close>

text \<open>One frame, live, when every write succeeds.\<close>
definition live_step :: "outside \<Rightarrow> capture_record \<Rightarrow> analyzer \<Rightarrow> analyzer" where
  "live_step out r an =
     (let (e, ins) = inspect out r (an_inspector an); c = map_option (observe out e) (an_catalog an)
      in an\<lparr>an_lines := an_lines an @ [r], an_inspector := ins, an_catalog := c,
            an_snapshot := (if c = None then an_snapshot an else c),
            an_printed := an_printed an @ (if should_display (an_display an) e then [e] else [])\<rparr>)"

definition showing :: "analyzer \<Rightarrow> bool" where
  "showing an \<longleftrightarrow> an_recording an \<and> an_realtime an \<and> da_format (an_display an) \<noteq> Silent"

lemma process_live: "showing an \<Longrightarrow> process out written_all r an = (Ok (), live_step out r an) \<and> showing (live_step out r an)"
  by (cases "da_format (an_display an)")
    (auto simp: showing_def live_step_def process_def written_all_def print_event_def Let_def split: prod.splits)

lemma analyse_live:
  "showing an \<Longrightarrow> analyse out (map (\<lambda>ob. (ob, written_all)) obs) an =
     finish (Ok ()) (Ok ()) (foldl (\<lambda>an r. live_step out r an) an (map (into_record out) obs))"
  using process_live by (induction obs arbitrary: an) auto

lemma finish_all: "finish (Ok ()) (Ok ()) an = (Ok (), an\<lparr>an_snapshot := (if an_catalog an = None then an_snapshot an else an_catalog an)\<rparr>)"
  by (cases "an_catalog an") (simp_all add: finish_def)

text \<open>The analyser without its files, which is the one that decodes later.\<close>
definition without_files :: "analyzer \<Rightarrow> analyzer" where
  "without_files an = an\<lparr>an_recording := False, an_catalog := None, an_lines := [], an_snapshot := None\<rparr>"

lemma live_offline: "without_files (live_step out r an) = quiet_step out r (without_files an)"
  by (simp add: live_step_def quiet_step_def without_files_def Let_def split: prod.splits)

lemma live_fold:
  "without_files (foldl (\<lambda>an r. live_step out r an) an rs) = foldl (\<lambda>an r. quiet_step out r an) (without_files an) rs"
  "an_lines (foldl (\<lambda>an r. live_step out r an) an rs) = an_lines an @ rs"
  by (induction rs arbitrary: an) (simp_all add: live_offline, simp add: live_step_def Let_def split: prod.splits)

text \<open>One record for the catalog.\<close>
definition catalog_step :: "outside \<Rightarrow> capture_record \<Rightarrow> inspector \<times> catalog \<Rightarrow> inspector \<times> catalog" where
  "catalog_step out r s = (case s of (ins, c) \<Rightarrow> let (e, ins) = inspect out r ins in (ins, observe out e c))"

text \<open>The catalog made while recording is the catalog made of the file.\<close>
lemma live_catalog:
  "an_catalog an = Some c \<Longrightarrow>
   foldl (\<lambda>s r. catalog_step out r s) (an_inspector an, c) rs =
     (let an = foldl (\<lambda>an r. live_step out r an) an rs in (an_inspector an, the (an_catalog an))) \<and>
   an_catalog (foldl (\<lambda>an r. live_step out r an) an rs) \<noteq> None"
proof (induction rs arbitrary: an c)
  case (Cons r rs)
  obtain e ins where e: "inspect out r (an_inspector an) = (e, ins)" by fastforce
  then have "an_catalog (live_step out r an) = Some (observe out e c)" "an_inspector (live_step out r an) = ins"
    using Cons.prems by (simp_all add: live_step_def Let_def)
  then show ?case using Cons.IH [of "live_step out r an" "observe out e c"] e by (simp add: catalog_step_def)
qed simp

lemma catalog_reader_lines:
  assumes "[] \<notin> set ps" "records_of_lines out 0 (lines_of (concat ps)) = (rs, Ok ())"
  shows "catalog_reader out show_sensitive (map Inr ps) =
    Ok (snd (foldl (\<lambda>s r. catalog_step out r s) (inspector_new (\<not> show_sensitive), catalog_new) rs))"
proof -
  have run: "process_lines out (\<lambda>r (ins, c). let (event, ins) = inspect out r ins in (Ok (), (ins, observe out event c))) n lines s =
      (let (rs, result) = records_of_lines out n lines in
       (result, foldl (\<lambda>s r. catalog_step out r s) s rs))" for n lines s
    by (rule process_lines_records [of "\<lambda>_. True"]) (auto simp: catalog_step_def split: prod.splits)
  show ?thesis
    unfolding catalog_reader_def read_records_lines [OF assms(1)] run assms(2) by (simp split: prod.splits)
qed

text \<open>A recording shows later what was shown live.  For any frames within the limits of the relay, when the writes succeed, the
  analyser's task records exactly them; the file it leaves, read in any pieces, is accepted to its end by \<open>koc_proxy decode\<close>, which
  prints the same events, and by \<open>koc_proxy catalog\<close>, which makes the same catalog as the one kept live.\<close>
lemma recording_replays:
  assumes "recordable out obs" "da_format display \<noteq> Silent"
    and "analyse out (map (\<lambda>ob. (ob, written_all)) obs) (analyzer_new display True cataloguing True) = (result, an)"
    and "concat ps = capture_file an" "[] \<notin> set ps"
  shows "result = Ok () \<and> an_lines an = map (into_record out) obs \<and>
    fst (decode_reader out display (map Inr ps)) = Ok () \<and>
    an_printed (snd (decode_reader out display (map Inr ps))) = an_printed an \<and>
    (cataloguing \<longrightarrow> (\<exists>c. an_snapshot an = Some c \<and> catalog_reader out (da_show_sensitive display) (map Inr ps) = Ok c))"
proof -
  let ?an = "analyzer_new display True cataloguing True" and ?rs = "map (into_record out) obs"
  let ?live = "foldl (\<lambda>an r. live_step out r an) ?an ?rs"
  have start: "showing ?an" "without_files ?an = analyzer_new display False False True" "an_lines ?an = []"
    "an_inspector ?an = inspector_new (\<not> da_show_sensitive display)" "cataloguing \<Longrightarrow> an_catalog ?an = Some catalog_new"
    using assms(2) by (simp_all add: showing_def without_files_def analyzer_new_def)
  have an: "result = Ok ()" "an = ?live\<lparr>an_snapshot := (if an_catalog ?live = None then an_snapshot ?live else an_catalog ?live)\<rparr>"
    using assms(3) by (simp_all add: analyse_live [OF start(1)] finish_all)
  then have lines: "an_lines an = ?rs" using live_fold(2) [of out ?an ?rs] by (simp add: start(3))
  have records: "records_of_lines out 0 (lines_of (concat ps)) = (?rs, Ok ())"
    unfolding assms(4) capture_file_def lines lines_of_recording [OF assms(1)] by (rule records_of_recording [OF assms(1)])
  have "decode_reader out display (map Inr ps) = (Ok (), without_files ?live)"
    using decode_reader_quiet [OF assms(5,2) records] by (simp add: live_fold(1) start(2))
  moreover have "catalog_reader out (da_show_sensitive display) (map Inr ps) = Ok (the (an_catalog ?live))" "an_catalog ?live \<noteq> None"
    if cataloguing
    using catalog_reader_lines [OF assms(5) records] live_catalog [OF start(5) [OF that], of out ?rs]
    by (simp_all add: start(4) Let_def)
  ultimately show ?thesis using an lines by (auto simp: without_files_def)
qed

definition recorded_frame :: observed where
  "recorded_frame = \<lparr>ob_connection = ''s-conn-1'', ob_index = 1, ob_time = 1700000000000, ob_direction = ClientToServer,
     ob_message = MText ''hello'', ob_permit = Some 5\<rparr>"

definition recorded_record :: capture_record where
  "recorded_record = \<lparr>cr_version = 1, cr_connection = ''s-conn-1'', cr_index = 1, cr_time = 1700000000000,
     cr_direction = ClientToServer, cr_opcode = TextFrame, cr_payload = Some ''aGVsbG8=''\<rparr>"

text \<open>The crate's own base 64, and a reader that knows one line.\<close>
definition recorded_outside :: outside where
  "recorded_outside = sample_outside\<lparr>b64_encode := base64_encode,
     read_record := (\<lambda>s. if s = record_text recorded_record @ [CHR 0x0A] then Ok recorded_record else Err ''expected value'')\<rparr>"

end
