(* ===== verification/ProxyCommands.thy ===== *)
theory ProxyCommands
  imports Recording
begin

text \<open>
  The subcommands of \<open>koc_proxy\<close> (\<open>src/src/koc_proxy.rs\<close>): inputs and outputs by name, and the relay command with its tasks.
  The file system, the standard streams and the outcomes of the tasks are a \<open>tool_world\<close>; a command returns its
  result and what it has put out.
\<close>

section \<open>The world of a command\<close>

text \<open>\<open>tw_writer\<close> is \<open>open_secure_writer\<close>, \<open>tw_written\<close> the outcome of writing a catalog; \<open>tw_first\<close>, \<open>tw_relay\<close> and
  \<open>tw_frames\<close> say which task of the relay command ends first, how the relay's task ends and what the analyser's task is given;
  a task that crashes is an \<open>Err\<close> around the result.\<close>
record tool_world =
  tw_stdin :: buffered
  tw_open :: "string \<Rightarrow> buffered res"
  tw_absolute :: "string \<Rightarrow> string res"
  tw_kind :: "string \<Rightarrow> file_kind"
  tw_writer :: "string \<Rightarrow> unit res"
  tw_written :: "unit res"
  tw_first :: first_end
  tw_relay :: "relay_config \<Rightarrow> relay_stats res res"
  tw_frames :: "(observed \<times> writes) list"
  tw_crash :: "string option"

record tool_output =
  to_printed :: "decoded_event list"
  to_record :: "bytes option"
  to_catalog :: "catalog option"

definition no_output :: tool_output where
  "no_output = \<lparr>to_printed = [], to_record = None, to_catalog = None\<rparr>"

datatype tool_command =
    RelayCommand relay_args
  | InspectCommand bool display_args
  | DecodeCommand string display_args
  | CatalogCommand string "string option" bool

section \<open>Inputs and outputs\<close>

definition with_input :: "tool_world \<Rightarrow> string \<Rightarrow> (buffered \<Rightarrow> unit res \<times> tool_output) \<Rightarrow> unit res \<times> tool_output" where
  "with_input T path callback =
     (if path = ''-'' then callback (tw_stdin T)
      else case tw_open T path of
             Inl e \<Rightarrow> (Err (''failed to open '' @ path @ '': '' @ e), no_output)
           | Inr input \<Rightarrow> callback input)"

text \<open>What an analyser without files has put out.\<close>
definition printed :: "unit res \<times> analyzer \<Rightarrow> unit res \<times> tool_output" where
  "printed r = (fst r, no_output\<lparr>to_printed := an_printed (snd r)\<rparr>)"

text \<open>\<open>catalog_reader\<close> with its output: a file, or standard output for none or a dash.\<close>
definition write_catalog :: "tool_world \<Rightarrow> string option \<Rightarrow> catalog \<Rightarrow> unit res \<times> tool_output" where
  "write_catalog T output c =
     (case (case output of None \<Rightarrow> Ok () | Some path \<Rightarrow> if path \<noteq> ''-'' then tw_writer T path else Ok ()) of
        Inl e \<Rightarrow> (Err e, no_output)
      | Inr _ \<Rightarrow>
          (case tw_written T of Inl e \<Rightarrow> (Err e, no_output) | Inr _ \<Rightarrow> (Ok (), no_output\<lparr>to_catalog := Some c\<rparr>)))"

definition run_catalog :: "outside \<Rightarrow> tool_world \<Rightarrow> string option \<Rightarrow> bool \<Rightarrow> buffered \<Rightarrow> unit res \<times> tool_output" where
  "run_catalog out T output show_sensitive input =
     (case catalog_reader out show_sensitive input of
        Inl e \<Rightarrow> (Err e, no_output)
      | Inr c \<Rightarrow> write_catalog T output c)"

section \<open>The relay command\<close>

definition join_relay :: "relay_stats res res \<Rightarrow> relay_stats res" where
  "join_relay result = (case result of Inl e \<Rightarrow> Err (''relay task failed: '' @ e) | Inr r \<Rightarrow> r)"

definition join_analyzer :: "unit res res \<Rightarrow> unit res" where
  "join_analyzer result = (case result of Inl e \<Rightarrow> Err (''analyzer task failed: '' @ e) | Inr r \<Rightarrow> r)"

definition run_unobserved_relay :: "tool_world \<Rightarrow> relay_config \<Rightarrow> unit res" where
  "run_unobserved_relay T config =
     (case (case tw_first T of SignalFirst signal \<Rightarrow> signal | _ \<Rightarrow> Ok ()) of
        Inl e \<Rightarrow> Err e
      | Inr _ \<Rightarrow> (case join_relay (tw_relay T config) of Inl e \<Rightarrow> Err e | Inr stats \<Rightarrow> Ok ()))"

text \<open>\<open>Analyzer::new\<close>: the record file is opened before the catalog file.\<close>
definition open_analyzer :: "tool_world \<Rightarrow> display_args \<Rightarrow> string option \<Rightarrow> string option \<Rightarrow> bool \<Rightarrow> analyzer res" where
  "open_analyzer T display record_path catalog_path realtime =
     (case (case record_path of None \<Rightarrow> Ok () | Some p \<Rightarrow> tw_writer T p) of
        Inl e \<Rightarrow> Err e
      | Inr _ \<Rightarrow>
          (case (case catalog_path of None \<Rightarrow> Ok () | Some p \<Rightarrow> tw_writer T p) of
             Inl e \<Rightarrow> Err e
           | Inr _ \<Rightarrow> Ok (analyzer_new display (record_path \<noteq> None) (catalog_path \<noteq> None) realtime)))"

text \<open>What an analyser leaves behind: what it printed, the lines of its file, its last snapshot.\<close>
definition left_behind :: "analyzer \<Rightarrow> tool_output" where
  "left_behind an = \<lparr>to_printed = an_printed an, to_record = (if an_recording an then Some (capture_file an) else None),
     to_catalog = an_snapshot an\<rparr>"

definition run_relay_command :: "outside \<Rightarrow> tool_world \<Rightarrow> relay_args \<Rightarrow> unit res \<times> tool_output" where
  "run_relay_command out T args =
     (case check_relay_args (tw_absolute T) (tw_kind T) args of
        Inl e \<Rightarrow> (Err e, no_output)
      | Inr _ \<Rightarrow>
          if \<not> analysis_enabled args then (run_unobserved_relay T (relay_config_of args), no_output)
          else
            (case open_analyzer T (ra_display args) (ra_record args) (ra_catalog args) (ra_decode args \<or> \<not> ra_no_decode args) of
               Inl e \<Rightarrow> (Err e, no_output)
             | Inr an \<Rightarrow>
                 (let (result, an) = analyse out (tw_frames T) an;
                      analyzer_result = join_analyzer (case tw_crash T of None \<Rightarrow> Ok result | Some e \<Rightarrow> Err e)
                  in (command_result (tw_first T) (join_relay (tw_relay T (relay_config_of args))) analyzer_result, left_behind an))))"

section \<open>The commands\<close>

definition run_tool :: "outside \<Rightarrow> tool_world \<Rightarrow> tool_command \<Rightarrow> unit res \<times> tool_output" where
  "run_tool out T command =
     (case command of
        RelayCommand args \<Rightarrow> run_relay_command out T args
      | InspectCommand stream display \<Rightarrow>
          if \<not> stream then (Err ''inspect currently requires --stream and reads JSONL from stdin'', no_output)
          else printed (decode_reader out display (tw_stdin T))
      | DecodeCommand path display \<Rightarrow> with_input T path (\<lambda>input. printed (decode_reader out display input))
      | CatalogCommand path output show_sensitive \<Rightarrow> with_input T path (run_catalog out T output show_sensitive))"

text \<open>\<open>main\<close>: the exit code.\<close>
definition exit_code :: "unit res \<Rightarrow> nat" where
  "exit_code result = (case result of Inl e \<Rightarrow> 1 | Inr _ \<Rightarrow> 0)"

text \<open>Decoding standard input and inspecting the stream are one.\<close>
lemma decode_dash: "run_tool out T (DecodeCommand ''-'' display) = run_tool out T (InspectCommand True display)"
  by (simp add: run_tool_def with_input_def)

text \<open>A command that is refused for its arguments has opened, written and relayed nothing.\<close>
lemma refused_untouched:
  "check_relay_args (tw_absolute T) (tw_kind T) args = Err e \<Longrightarrow> run_tool out T (RelayCommand args) = (Err e, no_output)"
  by (simp add: run_tool_def run_relay_command_def)

text \<open>A command that has a recording and ends well leaves its analyser's output.\<close>
lemma relay_leaves:
  assumes "run_tool out T (RelayCommand args) = (Ok (), output)" "ra_record args = Some path"
  shows "output = left_behind (snd (analyse out (tw_frames T)
    (analyzer_new (ra_display args) True (ra_catalog args \<noteq> None) (ra_decode args \<or> \<not> ra_no_decode args))))"
  using assms
  by (auto simp: run_tool_def run_relay_command_def analysis_enabled_def open_analyzer_def split: sum.splits if_splits prod.splits
      option.splits)

text \<open>C15: A recording shows later what was shown live.  When \<open>koc_proxy relay --record\<close> ends well and its writes succeeded, then
  for any relayed frames within its limits \<open>koc_proxy decode\<close> of the file, read in any pieces, with the same filters, accepts it to
  the end and prints the events that were printed live; and \<open>koc_proxy catalog\<close> of the file makes the catalog of the relay's
  last snapshot.\<close>
theorem relay_then_decode:
  assumes "run_tool out T (RelayCommand args) = (Ok (), output)" "ra_record args = Some path"
    and "ra_decode args \<or> \<not> ra_no_decode args" "da_format (ra_display args) \<noteq> Silent"
    and "tw_frames T = map (\<lambda>ob. (ob, written_all)) obs" "recordable out obs"
    and "tw_open T' path = Ok (map Inr ps)" "to_record output = Some (concat ps)" "[] \<notin> set ps" "path \<noteq> ''-''"
  shows "run_tool out T' (DecodeCommand path (ra_display args)) = (Ok (), no_output\<lparr>to_printed := to_printed output\<rparr>) \<and>
    (ra_catalog args \<noteq> None \<longrightarrow> tw_written T' = Ok () \<longrightarrow>
       run_tool out T' (CatalogCommand path None (da_show_sensitive (ra_display args))) =
         (Ok (), no_output\<lparr>to_catalog := to_catalog output\<rparr>))"
proof -
  obtain result an where run: "analyse out (map (\<lambda>ob. (ob, written_all)) obs)
      (analyzer_new (ra_display args) True (ra_catalog args \<noteq> None) True) = (result, an)" by fastforce
  have left: "output = left_behind an"
    using relay_leaves [OF assms(1,2)] assms(3,5) run by simp
  have "an_recording an"
    using analyse_live [of "analyzer_new (ra_display args) True (ra_catalog args \<noteq> None) True" out obs] run assms(8)
    by (cases "an_recording an") (auto simp: left left_behind_def)
  then have "concat ps = capture_file an" using assms(8) by (simp add: left left_behind_def)
  note replay = recording_replays [OF assms(6,4) run this assms(9)]
  then have "decode_reader out (ra_display args) (map Inr ps) = (Ok (), snd (decode_reader out (ra_display args) (map Inr ps)))"
    by (metis prod.collapse)
  then show ?thesis
    using replay assms(7,10)
    by (auto simp: run_tool_def with_input_def printed_def left left_behind_def run_catalog_def write_catalog_def)
qed

text \<open>A relay command with a recording, and a relay that hands over the one frame before a signal stops it.\<close>
definition recording_args :: relay_args where
  "recording_args = \<lparr>ra_listen = V4 [127, 0, 0, 1], ra_upstream = sample_url, ra_no_decode = False, ra_decode = False,
     ra_record = Some ''capture.jsonl'', ra_catalog = None, ra_display = sample_display, ra_channel_capacity = 256,
     ra_max_connections = 16, ra_max_queued_mb = 32\<rparr>"

definition recording_world :: "bytes \<Rightarrow> tool_world" where
  "recording_world data = \<lparr>tw_stdin = [], tw_open = (\<lambda>_. Ok [Ok data]), tw_absolute = Ok, tw_kind = (\<lambda>_. Missing),
     tw_writer = (\<lambda>_. Ok ()), tw_written = Ok (), tw_first = SignalFirst (Ok ()),
     tw_relay = (\<lambda>_. Ok (Ok \<lparr>rs_accepted = 1, rs_queue_full = 0, rs_analyzer_closed = 0\<rparr>)),
     tw_frames = [(recorded_frame, written_all)], tw_crash = None\<rparr>"

theorem relay_then_decode_witness:
  "\<exists>output data. run_tool recorded_outside (recording_world []) (RelayCommand recording_args) = (Ok (), output) \<and>
     to_record output = Some data \<and>
     run_tool recorded_outside (recording_world data) (DecodeCommand ''capture.jsonl'' sample_display) =
       (Ok (), no_output\<lparr>to_printed := [blank_event recorded_record]\<rparr>)"
proof -
  let ?an = "analyzer_new sample_display True False True"
  let ?T = "recording_world []"
  have "base64_encode (str_bytes ''hello'') = ''aGVsbG8=''" by code_simp
  then have made: "into_record recorded_outside recorded_frame = recorded_record"
    by (simp add: into_record_def recorded_frame_def recorded_record_def recorded_outside_def CAPTURE_SCHEMA_VERSION_def)
  have ok: "recordable recorded_outside [recorded_frame]"
    using standard_base64_sample
    by (simp add: recordable_def made)
      (simp add: recorded_outside_def ordinary_frame_def recorded_frame_def MAX_CONNECTION_ID_BYTES_def MAX_MESSAGE_SIZE_def)
  have event: "inspect recorded_outside recorded_record (inspector_new True) = (blank_event recorded_record, inspector_new True)"
    by (simp add: inspect_def decode_record_def binary_payload_def) (simp add: recorded_record_def)
  have shown: "should_display sample_display (blank_event recorded_record)"
    by (simp add: should_display_def sample_display_def matches_command_def blank_event_def recorded_record_def wildcard_match_def
        wildcard_loop.simps)
  have "showing ?an" by (simp add: showing_def analyzer_new_def sample_display_def)
  from analyse_live [OF this, of recorded_outside "[recorded_frame]"]
  have "analyse recorded_outside [(recorded_frame, written_all)] ?an = finish (Ok ()) (Ok ()) (live_step recorded_outside recorded_record ?an)"
    by (simp only: list.map foldl.simps made)
  moreover have "live_step recorded_outside recorded_record ?an =
      ?an\<lparr>an_lines := [recorded_record], an_printed := [blank_event recorded_record]\<rparr>"
    using event shown by (simp add: live_step_def analyzer_new_def sample_display_def Let_def)
  ultimately have live: "analyse recorded_outside [(recorded_frame, written_all)] ?an =
      (Ok (), ?an\<lparr>an_lines := [recorded_record], an_printed := [blank_event recorded_record]\<rparr>)"
    by (simp add: finish_all analyzer_new_def)
  let ?output = "\<lparr>to_printed = [blank_event recorded_record], to_record = Some (write_json_line recorded_record), to_catalog = None\<rparr>"
  have run: "run_tool recorded_outside ?T (RelayCommand recording_args) = (Ok (), ?output)"
    by (simp add: run_tool_def run_relay_command_def recording_world_def recording_args_def check_relay_args_def check_output_def
        analysis_enabled_def open_analyzer_def live join_analyzer_def join_relay_def command_result_def del: analyse.simps)
      (simp add: left_behind_def capture_file_def analyzer_new_def)
  have "run_tool recorded_outside (recording_world (write_json_line recorded_record)) (DecodeCommand ''capture.jsonl'' (ra_display recording_args)) =
      (Ok (), no_output\<lparr>to_printed := to_printed ?output\<rparr>)"
    by (rule conjunct1 [OF relay_then_decode [OF run, where path = "''capture.jsonl''" and obs = "[recorded_frame]"
            and ps = "[write_json_line recorded_record]"]])
      (simp_all add: recording_args_def recording_world_def ok, simp_all add: sample_display_def write_json_line_def)
  then show ?thesis using run by (intro exI [of _ ?output] exI [of _ "write_json_line recorded_record"]) (simp add: recording_args_def)
qed

end
