(* ===== verification/Serde.thy ===== *)
theory Serde
  imports Json
begin

text \<open>
  What \<open>#[derive(Serialize, Deserialize)]\<close> makes of a struct all of whose fields have \<open>#[serde(default)]\<close>, over JSON values:
  an object with a member per field is written; read is an object, whose unknown members are ignored and whose missing ones
  keep the default, or an array of the fields in order.  A reader returns \<open>None\<close> for an error, the text of which nobody
  sees.  The locale \<open>codec\<close> is the contract of a pair of writer and reader; the codecs of structs, options and maps follow
  from those of their parts.
\<close>

section \<open>Leaf values\<close>

definition en_u32 :: "nat \<Rightarrow> json" where
  "en_u32 n = Number (PosInt (word_of_nat n))"

text \<open>A whole number that is in range; floating point numbers are refused.\<close>
definition de_u32 :: "json \<Rightarrow> nat option" where
  "de_u32 v = (case as_u64 v of None \<Rightarrow> None | Some n \<Rightarrow> if unat n < 2 ^ 32 then Some (unat n) else None)"

text \<open>Numbers that JSON cannot write become \<open>null\<close>, which is no number when it is read.\<close>
definition en_f64 :: "f64 \<Rightarrow> json" where
  "en_f64 f = (case number_from_f64 f of None \<Rightarrow> Null | Some n \<Rightarrow> Number n)"

definition en_option :: "('a \<Rightarrow> json) \<Rightarrow> 'a option \<Rightarrow> json" where
  "en_option enc x = (case x of None \<Rightarrow> Null | Some y \<Rightarrow> enc y)"

definition de_option :: "(json \<Rightarrow> 'a option) \<Rightarrow> json \<Rightarrow> 'a option option" where
  "de_option dec v = (if v = Null then Some None else map_option Some (dec v))"

section \<open>Maps\<close>

text \<open>The object of a hash map, its keys in order; read back, the entries come in the order of the text.\<close>
definition en_map :: "('a \<Rightarrow> json) \<Rightarrow> (string \<times> 'a) list \<Rightarrow> json" where
  "en_map enc m = Object (fold (\<lambda>(k, x). obj_insert k (enc x)) m [])"

fun de_entries :: "(json \<Rightarrow> 'a option) \<Rightarrow> (string \<times> json) list \<Rightarrow> (string \<times> 'a) list option" where
  "de_entries dec [] = Some []"
| "de_entries dec ((k, v) # kvs) =
     (case dec v of None \<Rightarrow> None | Some x \<Rightarrow> map_option (Cons (k, x)) (de_entries dec kvs))"

definition de_map :: "(json \<Rightarrow> 'a option) \<Rightarrow> json \<Rightarrow> (string \<times> 'a) list option" where
  "de_map dec v = (case v of Object kvs \<Rightarrow> de_entries dec kvs | _ \<Rightarrow> None)"

section \<open>Structs\<close>

text \<open>A field: its name, what is written for it, and the reading of it into a struct.\<close>
type_synonym 'r field = "string \<times> ('r \<Rightarrow> json) \<times> (json \<Rightarrow> 'r \<Rightarrow> 'r option)"

definition field :: "string \<Rightarrow> ('a \<Rightarrow> json) \<Rightarrow> (json \<Rightarrow> 'a option) \<Rightarrow> ('r \<Rightarrow> 'a) \<Rightarrow> (('a \<Rightarrow> 'a) \<Rightarrow> 'r \<Rightarrow> 'r) \<Rightarrow> 'r field" where
  "field name enc dec get upd = (name, enc \<circ> get, \<lambda>v r. map_option (\<lambda>x. upd (\<lambda>_. x) r) (dec v))"

definition en_struct :: "'r field list \<Rightarrow> 'r \<Rightarrow> json" where
  "en_struct fs r = Object (fold (\<lambda>(name, enc, dec). obj_insert name (enc r)) fs [])"

fun de_members :: "'r field list \<Rightarrow> (string \<times> json) list \<Rightarrow> 'r \<Rightarrow> 'r option" where
  "de_members [] kvs r = Some r"
| "de_members ((name, enc, dec) # fs) kvs r =
     (case obj_get kvs name of
        None \<Rightarrow> de_members fs kvs r
      | Some v \<Rightarrow> (case dec v r of None \<Rightarrow> None | Some r \<Rightarrow> de_members fs kvs r))"

text \<open>The fields in the order of the struct; fewer than all leave defaults, more are an error.\<close>
fun de_sequence :: "'r field list \<Rightarrow> json list \<Rightarrow> 'r \<Rightarrow> 'r option" where
  "de_sequence fs [] r = Some r"
| "de_sequence [] (v # vs) r = None"
| "de_sequence ((name, enc, dec) # fs) (v # vs) r = (case dec v r of None \<Rightarrow> None | Some r \<Rightarrow> de_sequence fs vs r)"

definition de_struct :: "'r field list \<Rightarrow> 'r \<Rightarrow> json \<Rightarrow> 'r option" where
  "de_struct fs r v =
     (case v of Object kvs \<Rightarrow> de_members fs kvs r | Array vs \<Rightarrow> de_sequence fs vs r | _ \<Rightarrow> None)"

text \<open>Reading back every field of \<open>r\<close> into a struct.\<close>
fun reread_fields :: "'r field list \<Rightarrow> 'r \<Rightarrow> 'r \<Rightarrow> 'r option" where
  "reread_fields [] r r0 = Some r0"
| "reread_fields ((name, enc, dec) # fs) r r0 =
     (case dec (enc r) r0 of None \<Rightarrow> None | Some r0 \<Rightarrow> reread_fields fs r r0)"

section \<open>The contract\<close>

locale codec =
  fixes enc :: "'a \<Rightarrow> json" and dec :: "json \<Rightarrow> 'a option" and fine :: "'a \<Rightarrow> bool"
  assumes dec_enc: "fine x \<Longrightarrow> dec (enc x) = Some x"
    and enc_not_null: "fine x \<Longrightarrow> enc x \<noteq> Null"
begin

lemma option_round_trip: "pred_option fine x \<Longrightarrow> de_option dec (en_option enc x) = Some x"
  by (cases x) (simp_all add: de_option_def en_option_def dec_enc enc_not_null)

lemma de_entries_round_trip:
  "\<forall>(k, x) \<in> set m. fine x \<Longrightarrow> de_entries dec (map (\<lambda>(k, x). (k, enc x)) m) = Some m"
  by (induction m) (auto simp: dec_enc)

text \<open>A field of this kind is read back as it was written.\<close>
lemma reread_field:
  "fine (get r) \<Longrightarrow>
   reread_fields (field name enc dec get upd # fs) r r0 = reread_fields fs r (upd (\<lambda>_. get r) r0)"
  by (simp add: field_def dec_enc)

end

text \<open>Options are fields of their own kind: \<open>None\<close> is written as \<open>null\<close>, which a codec never writes.\<close>
lemma reread_option_field:
  assumes "codec enc dec fine" "pred_option fine (get r)"
  shows "reread_fields (field name (en_option enc) (de_option dec) get upd # fs) r r0 = reread_fields fs r (upd (\<lambda>_. get r) r0)"
  by (simp add: field_def codec.option_round_trip [OF assms])

lemma obj_get_fold_other: "name \<notin> fst ` set fs \<Longrightarrow>
    obj_get (fold (\<lambda>(name, enc, dec). obj_insert name (enc r)) fs kvs) name = obj_get kvs name"
  by (induction fs arbitrary: kvs) auto

lemma obj_get_struct: "(name, enc, dec) \<in> set fs \<Longrightarrow> distinct (map fst fs) \<Longrightarrow>
    obj_get (fold (\<lambda>(name, enc, dec). obj_insert name (enc r)) fs kvs) name = Some (enc r)"
  by (induction fs arbitrary: kvs) (auto simp: obj_get_fold_other)

lemma de_members_reread:
  "\<forall>(name, enc, dec) \<in> set fs. obj_get kvs name = Some (enc r) \<Longrightarrow> de_members fs kvs r0 = reread_fields fs r r0"
  by (induction fs arbitrary: r0) (auto split: option.split)

lemma de_struct_reread:
  "distinct (map fst fs) \<Longrightarrow> de_struct fs r0 (en_struct fs r) = reread_fields fs r r0"
  using de_members_reread obj_get_struct [of _ _ _ fs r "[]"] by (fastforce simp: de_struct_def en_struct_def)

text \<open>A map is written sorted, so what comes back is the same map in another order.\<close>
lemma de_entries_map_of:
  "de_entries dec kvs = Some m \<Longrightarrow> map_of m k = Option.bind (map_of kvs k) dec"
  by (induction kvs arbitrary: m) (auto split: option.splits)

lemma de_entries_ex:
  "(\<And>k v. (k, v) \<in> set kvs \<Longrightarrow> dec v \<noteq> None) \<Longrightarrow> \<exists>m. de_entries dec kvs = Some m"
proof (induction kvs)
  case (Cons kv kvs)
  obtain k v where kv: "kv = (k, v)" by fastforce
  obtain x where "dec v = Some x" using Cons.prems [of k v] kv by auto
  moreover obtain m where "de_entries dec kvs = Some m" using Cons.IH Cons.prems by fastforce
  ultimately show ?case by (simp add: kv)
qed simp

lemma de_entries_keys: "de_entries dec kvs = Some m \<Longrightarrow> map fst m = map fst kvs"
  by (induction kvs arbitrary: m) (auto split: option.splits)

lemma de_entries_None: "(k, v) \<in> set kvs \<Longrightarrow> dec v = None \<Longrightarrow> de_entries dec kvs = None"
  by (induction kvs) (auto split: option.splits)

lemma obj_get_fold_members:
  "distinct (map fst m) \<Longrightarrow> obj_get (fold (\<lambda>(k, x). obj_insert k (enc x)) m kvs) k =
     (case map_of m k of None \<Rightarrow> obj_get kvs k | Some x \<Rightarrow> Some (enc x))"
proof (induction m arbitrary: kvs)
  case (Cons kx m)
  obtain k' x where kx: "kx = (k', x)" by fastforce
  show ?case
  proof (cases "k = k'")
    case True
    then have "map_of m k = None" using Cons.prems kx by (simp add: map_of_eq_None_iff)
    then show ?thesis using Cons True kx by simp
  next
    case False
    then show ?thesis using Cons kx by (simp split: option.splits)
  qed
qed simp

lemma sorted_fold_members: "obj_sorted kvs \<Longrightarrow> obj_sorted (fold (\<lambda>(k, x). obj_insert k (enc x)) m kvs)"
  by (induction m arbitrary: kvs) (auto simp: obj_sorted_insert)

text \<open>A map whose values survive comes back with the same entries, its keys in order; one value that does not ruins it.\<close>
lemma de_map_en_map:
  assumes "distinct (map fst m)"
  shows "(\<forall>x \<in> snd ` set m. dec (enc x) = Some x) \<longrightarrow>
      (\<exists>m'. de_map dec (en_map enc m) = Some m' \<and> map_of m' = map_of m \<and> obj_sorted m')"
    and "(\<exists>x \<in> snd ` set m. dec (enc x) = None) \<longrightarrow> de_map dec (en_map enc m) = None"
proof -
  let ?kvs = "fold (\<lambda>(k, x). obj_insert k (enc x)) m []"
  have sorted: "obj_sorted ?kvs" by (rule sorted_fold_members) simp
  have get: "obj_get ?kvs k = map_option enc (map_of m k)" for k
    using obj_get_fold_members [OF assms, of enc "[]" k] by (simp split: option.splits)
  have elem: "(k, v) \<in> set ?kvs \<longleftrightarrow> (\<exists>x. (k, x) \<in> set m \<and> v = enc x)" for k v
    using get [of k] map_of_eq_Some_iff [OF obj_sorted_distinct [OF sorted], of k v] map_of_eq_Some_iff [OF assms, of k]
    by auto
  show "(\<forall>x \<in> snd ` set m. dec (enc x) = Some x) \<longrightarrow>
      (\<exists>m'. de_map dec (en_map enc m) = Some m' \<and> map_of m' = map_of m \<and> obj_sorted m')"
  proof
    assume all: "\<forall>x \<in> snd ` set m. dec (enc x) = Some x"
    then obtain m' where m': "de_entries dec ?kvs = Some m'" using de_entries_ex [of ?kvs dec] elem by fastforce
    have "map_of m' k = map_of m k" for k
      using de_entries_map_of [OF m', of k] get [of k] all by (cases "map_of m k") (auto dest!: map_of_SomeD)
    moreover have "obj_sorted m'" using sorted de_entries_keys [OF m'] by (simp add: obj_sorted_def)
    ultimately show "\<exists>m'. de_map dec (en_map enc m) = Some m' \<and> map_of m' = map_of m \<and> obj_sorted m'"
      using m' by (intro exI [of _ m']) (auto simp: de_map_def en_map_def)
  qed
  show "(\<exists>x \<in> snd ` set m. dec (enc x) = None) \<longrightarrow> de_map dec (en_map enc m) = None"
    using de_entries_None [of _ _ ?kvs dec] elem by (fastforce simp: de_map_def en_map_def)
qed

section \<open>The codecs of leaf values\<close>

interpretation bool_codec: codec Bool as_bool "\<lambda>_. True"
  by unfold_locales (simp_all add: as_bool_def)

interpretation string_codec: codec Str as_str "\<lambda>_. True"
  by unfold_locales (simp_all add: as_str_def)

lemma de_en_u32: "n < 2 ^ 32 \<Longrightarrow> de_u32 (en_u32 n) = Some n"
  by (simp add: de_u32_def en_u32_def as_u64_def unat_of_nat)

interpretation u32_codec: codec en_u32 de_u32 "\<lambda>n. n < 2 ^ 32"
  by unfold_locales (simp add: de_en_u32, simp add: en_u32_def)

interpretation f64_codec: codec en_f64 as_f64 f64_finite
  by unfold_locales (simp_all add: en_f64_def number_from_f64_def as_f64_def)

text \<open>An infinite number is written as one that cannot be read.\<close>
lemma infinite_unreadable: "\<not> f64_finite f \<Longrightarrow> as_f64 (en_f64 f) = None"
  by (simp add: en_f64_def number_from_f64_def as_f64_def)

end
