(* ===== verification/State_File.thy ===== *)
theory State_File
  imports State_Facts Serde
begin

text \<open>
  The state file of \<open>src/src/state.rs\<close>: \<open>AppState\<close> and its parts as \<open>serde\<close> writes and reads them, \<open>load\<close> and \<open>save\<close>.
  The text of a JSON value is \<open>serde_json\<close>'s: a \<open>json_text\<close> has the printer and the parser, and \<open>js_reread\<close>, what the
  parser makes of a printed floating point number (without the feature \<open>float_roundtrip\<close> it may be off in the last digit).
  A file is what \<open>read_to_string\<close> returns for it.
\<close>

section \<open>Fields\<close>

definition daily_fields :: "role_daily field list" where
  "daily_fields =
    [field ''date'' (en_option Str) (de_option as_str) d_date d_date_update,
     field ''retry_count'' en_u32 de_u32 d_retry_count d_retry_count_update,
     field ''signin'' Bool as_bool d_signin d_signin_update,
     field ''buy_gold'' Bool as_bool d_buy_gold d_buy_gold_update,
     field ''share'' Bool as_bool d_share d_share_update,
     field ''friend_gift'' Bool as_bool d_friend_gift d_friend_gift_update,
     field ''recruit'' Bool as_bool d_recruit d_recruit_update,
     field ''hangup_reward'' Bool as_bool d_hangup_reward d_hangup_reward_update,
     field ''open_box'' Bool as_bool d_open_box d_open_box_update,
     field ''store_purchase'' Bool as_bool d_store_purchase d_store_purchase_update,
     field ''arena'' Bool as_bool d_arena d_arena_update,
     field ''bottle_task'' Bool as_bool d_bottle_task d_bottle_task_update,
     field ''boss'' Bool as_bool d_boss d_boss_update,
     field ''legion_boss'' Bool as_bool d_legion_boss d_legion_boss_update,
     field ''legion_signin'' Bool as_bool d_legion_signin d_legion_signin_update,
     field ''artifact'' Bool as_bool d_artifact d_artifact_update,
     field ''genie'' Bool as_bool d_genie d_genie_update,
     field ''gacha'' Bool as_bool d_gacha d_gacha_update,
     field ''discount'' Bool as_bool d_discount d_discount_update,
     field ''card'' Bool as_bool d_card d_card_update,
     field ''collection'' Bool as_bool d_collection d_collection_update,
     field ''task_rewards'' Bool as_bool d_task_rewards d_task_rewards_update,
     field ''mail'' Bool as_bool d_mail d_mail_update,
     field ''nightmare'' Bool as_bool d_nightmare d_nightmare_update,
     field ''dream_shop'' Bool as_bool d_dream_shop d_dream_shop_update,
     field ''car_send_done'' Bool as_bool d_car_send_done d_car_send_done_update,
     field ''next_car_claim_time'' en_f64 as_f64 d_next_car_claim_time d_next_car_claim_time_update,
     field ''car_claimed_today'' Bool as_bool d_car_claimed_today d_car_claimed_today_update]"

definition periodic_fields :: "role_periodic field list" where
  "periodic_fields =
    [field ''hangup_last_time'' en_f64 as_f64 p_hangup_last_time p_hangup_last_time_update,
     field ''hangup_time'' en_f64 as_f64 p_hangup_time p_hangup_time_update,
     field ''bottle_stop_time'' en_f64 as_f64 p_bottle_stop_time p_bottle_stop_time_update,
     field ''legacy_last_claim'' en_f64 as_f64 p_legacy_last_claim p_legacy_last_claim_update,
     field ''hangup_next_check'' en_f64 as_f64 p_hangup_next_check p_hangup_next_check_update,
     field ''tower_next_check'' en_f64 as_f64 p_tower_next_check p_tower_next_check_update,
     field ''tower_cleared'' Bool as_bool p_tower_cleared p_tower_cleared_update,
     field ''evo_next_check'' en_f64 as_f64 p_evo_next_check p_evo_next_check_update]"

definition weekly_fields :: "role_weekly field list" where
  "weekly_fields =
    [field ''week'' (en_option Str) (de_option as_str) w_week w_week_update,
     field ''study'' Bool as_bool w_study w_study_update]"

definition daily_json :: "role_daily \<Rightarrow> json" where "daily_json = en_struct daily_fields"
definition daily_from_json :: "json \<Rightarrow> role_daily option" where "daily_from_json = de_struct daily_fields daily_default"
definition periodic_json :: "role_periodic \<Rightarrow> json" where "periodic_json = en_struct periodic_fields"
definition periodic_from_json :: "json \<Rightarrow> role_periodic option" where
  "periodic_from_json = de_struct periodic_fields periodic_default"
definition weekly_json :: "role_weekly \<Rightarrow> json" where "weekly_json = en_struct weekly_fields"
definition weekly_from_json :: "json \<Rightarrow> role_weekly option" where "weekly_from_json = de_struct weekly_fields weekly_default"

definition role_fields :: "role_state field list" where
  "role_fields =
    [field ''role_name'' Str as_str rs_role_name rs_role_name_update,
     field ''server_display'' Str as_str rs_server_display rs_server_display_update,
     field ''daily'' daily_json daily_from_json rs_daily rs_daily_update,
     field ''periodic'' periodic_json periodic_from_json rs_periodic rs_periodic_update,
     field ''weekly'' weekly_json weekly_from_json rs_weekly rs_weekly_update]"

definition role_json :: "role_state \<Rightarrow> json" where "role_json = en_struct role_fields"
definition role_from_json :: "json \<Rightarrow> role_state option" where "role_from_json = de_struct role_fields role_state_default"

definition app_fields :: "app_state field list" where
  "app_fields =
    [field ''round_date'' (en_option Str) (de_option as_str) round_date round_date_update,
     field ''round_count'' en_u32 de_u32 round_count round_count_update,
     field ''roles'' (en_map role_json) (de_map role_from_json) roles roles_update]"

definition state_json :: "app_state \<Rightarrow> json" where "state_json = en_struct app_fields"
definition state_from_json :: "json \<Rightarrow> app_state option" where "state_from_json = de_struct app_fields app_state_default"

section \<open>The file\<close>

record json_text =
  js_print :: "app_state \<Rightarrow> string"
  js_parse :: "string \<Rightarrow> json option"
  js_reread :: "f64 \<Rightarrow> f64"

type_synonym file_text = "string res"

text \<open>\<open>AppState::load\<close>: a file that cannot be read or understood is an empty state.\<close>
definition load_state :: "json_text \<Rightarrow> file_text \<Rightarrow> app_state" where
  "load_state J file =
     (case file of
        Inl e \<Rightarrow> app_state_default
      | Inr content \<Rightarrow> unwrap_or (Option.bind (js_parse J content) state_from_json) app_state_default)"

text \<open>\<open>AppState::save\<close>: \<open>write\<close> is \<open>fs::write\<close>, with the file it leaves behind, also when it fails.  Printing a map with
  text keys cannot fail.\<close>
definition save_state :: "json_text \<Rightarrow> (string \<Rightarrow> unit res \<times> file_text) \<Rightarrow> app_state \<Rightarrow> unit res \<times> file_text" where
  "save_state J write s =
     (case write (js_print J s) of
        (Inl e, file) \<Rightarrow> (Err (''Failed to write state file: '' @ e), file)
      | (Inr _, file) \<Rightarrow> (Ok (), file))"

end
