(* ===== verification/State_File_Facts.thy ===== *)
theory State_File_Facts
  imports State_File Rounds_Facts
begin

text \<open>
  What the state file promises: what is saved is loaded again, up to the last digit of its times, unless a time is infinite;
  one entry that cannot be read costs the whole state; and a scheduler started again goes on where the last one stopped.
\<close>

section \<open>The parts\<close>

lemma reread_unreadable: "dec (enc (get r)) = None \<Longrightarrow> reread_fields (field name enc dec get upd # fs) r r0 = None"
  by (simp add: field_def)

lemma reread_f64: "reread_fields (field name en_f64 as_f64 get upd # fs) r r0 =
    (if f64_finite (get r) then reread_fields fs r (upd (\<lambda>_. get r) r0) else None)"
  by (simp add: f64_codec.reread_field reread_unreadable infinite_unreadable)

lemmas reread_rules =
  bool_codec.reread_field [OF TrueI] string_codec.reread_field [OF TrueI] u32_codec.reread_field reread_f64
  reread_option_field [OF string_codec.codec_axioms] reread_unreadable

lemma struct_not_null [simp]: "en_struct fs r \<noteq> Null"
  by (simp add: en_struct_def)

lemma text_option [simp]: "pred_option (\<lambda>_ :: string. True) x"
  by (cases x) simp_all

definition daily_finite :: "role_daily \<Rightarrow> bool" where
  "daily_finite d \<longleftrightarrow> f64_finite (d_next_car_claim_time d)"

definition periodic_finite :: "role_periodic \<Rightarrow> bool" where
  "periodic_finite p \<longleftrightarrow> f64_finite (p_hangup_last_time p) \<and> f64_finite (p_hangup_time p) \<and> f64_finite (p_bottle_stop_time p) \<and>
     f64_finite (p_legacy_last_claim p) \<and> f64_finite (p_hangup_next_check p) \<and> f64_finite (p_tower_next_check p) \<and>
     f64_finite (p_evo_next_check p)"

lemma daily_reread:
  assumes "d_retry_count d < 2 ^ 32"
  shows "daily_from_json (daily_json d) = (if daily_finite d then Some d else None)"
proof -
  have "distinct (map fst daily_fields)" by (simp add: daily_fields_def field_def)
  then have "daily_from_json (daily_json d) = reread_fields daily_fields d daily_default"
    by (simp add: daily_from_json_def daily_json_def de_struct_reread)
  also have "\<dots> = (if daily_finite d then Some d else None)"
    using assms by (cases d) (simp add: daily_fields_def reread_rules daily_finite_def daily_default_def)
  finally show ?thesis .
qed

lemma periodic_reread: "periodic_from_json (periodic_json p) = (if periodic_finite p then Some p else None)"
proof -
  have "distinct (map fst periodic_fields)" by (simp add: periodic_fields_def field_def)
  then have "periodic_from_json (periodic_json p) = reread_fields periodic_fields p periodic_default"
    by (simp add: periodic_from_json_def periodic_json_def de_struct_reread)
  also have "\<dots> = (if periodic_finite p then Some p else None)"
    by (cases p) (simp add: periodic_fields_def reread_rules periodic_finite_def periodic_default_def)
  finally show ?thesis .
qed

lemma weekly_reread: "weekly_from_json (weekly_json w) = Some w"
proof -
  have "distinct (map fst weekly_fields)" by (simp add: weekly_fields_def field_def)
  then have "weekly_from_json (weekly_json w) = reread_fields weekly_fields w weekly_default"
    by (simp add: weekly_from_json_def weekly_json_def de_struct_reread)
  also have "\<dots> = Some w" by (cases w) (simp add: weekly_fields_def reread_rules weekly_default_def)
  finally show ?thesis .
qed

interpretation daily_codec: codec daily_json daily_from_json "\<lambda>d. d_retry_count d < 2 ^ 32 \<and> daily_finite d"
  by unfold_locales (simp_all add: daily_reread, simp add: daily_json_def)

interpretation periodic_codec: codec periodic_json periodic_from_json periodic_finite
  by unfold_locales (simp_all add: periodic_reread, simp add: periodic_json_def)

interpretation weekly_codec: codec weekly_json weekly_from_json "\<lambda>_. True"
  by unfold_locales (simp_all add: weekly_reread, simp add: weekly_json_def)

definition role_finite :: "role_state \<Rightarrow> bool" where
  "role_finite r \<longleftrightarrow> daily_finite (rs_daily r) \<and> periodic_finite (rs_periodic r)"

lemma role_reread:
  assumes "d_retry_count (rs_daily r) < 2 ^ 32"
  shows "role_from_json (role_json r) = (if role_finite r then Some r else None)"
proof -
  have "distinct (map fst role_fields)" by (simp add: role_fields_def field_def)
  then have "role_from_json (role_json r) = reread_fields role_fields r role_state_default"
    by (simp add: role_from_json_def role_json_def de_struct_reread)
  also have "\<dots> = (if role_finite r then Some r else None)"
  proof (cases "daily_finite (rs_daily r)")
    case True
    then show ?thesis
      using assms by (cases r) (simp add: role_fields_def reread_rules daily_codec.reread_field periodic_codec.reread_field
          weekly_codec.reread_field [OF TrueI] periodic_reread role_finite_def role_state_default_def)
  next
    case False
    then have "daily_from_json (daily_json (rs_daily r)) = None" using assms by (simp add: daily_reread)
    then show ?thesis using False by (simp add: role_fields_def reread_rules role_finite_def)
  qed
  finally show ?thesis .
qed

section \<open>The state\<close>

text \<open>What the machine integers and the hash map guarantee of a state.\<close>
definition storable :: "app_state \<Rightarrow> bool" where
  "storable s \<longleftrightarrow> distinct (map fst (roles s)) \<and> round_count s < 2 ^ 32 \<and>
     (\<forall>r \<in> snd ` set (roles s). d_retry_count (rs_daily r) < 2 ^ 32)"

definition times_finite :: "app_state \<Rightarrow> bool" where
  "times_finite s \<longleftrightarrow> (\<forall>r \<in> snd ` set (roles s). role_finite r)"

definition same_state :: "app_state \<Rightarrow> app_state \<Rightarrow> bool" where
  "same_state s s' \<longleftrightarrow> round_date s' = round_date s \<and> round_count s' = round_count s \<and> map_of (roles s') = map_of (roles s)"

lemma state_reread:
  assumes "storable s"
  shows "case state_from_json (state_json s) of
    None \<Rightarrow> \<not> times_finite s
  | Some s' \<Rightarrow> times_finite s \<and> same_state s s' \<and> obj_sorted (roles s')"
proof -
  have "distinct (map fst app_fields)" by (simp add: app_fields_def field_def)
  then have run: "state_from_json (state_json s) = reread_fields app_fields s app_state_default"
    by (simp add: state_from_json_def state_json_def de_struct_reread)
  have "round_count s < 2 ^ 32" using assms by (simp add: storable_def)
  then have fields: "reread_fields app_fields s app_state_default =
      map_option (\<lambda>m. \<lparr>round_date = round_date s, round_count = round_count s, roles = m\<rparr>)
        (de_map role_from_json (en_map role_json (roles s)))"
    unfolding app_fields_def
    by (simp add: reread_rules) (simp add: field_def app_state_default_def split: option.split)
  have dist: "distinct (map fst (roles s))" using assms by (simp add: storable_def)
  have each: "role_from_json (role_json r) = (if role_finite r then Some r else None)" if "r \<in> snd ` set (roles s)" for r
    using assms that by (intro role_reread) (auto simp: storable_def)
  show ?thesis
  proof (cases "times_finite s")
    case True
    then have "\<forall>r \<in> snd ` set (roles s). role_from_json (role_json r) = Some r" using each by (simp add: times_finite_def)
    then obtain m' where "de_map role_from_json (en_map role_json (roles s)) = Some m'" "map_of m' = map_of (roles s)" "obj_sorted m'"
      using de_map_en_map(1) [OF dist, of role_from_json role_json] by blast
    then show ?thesis using True by (simp add: run fields same_state_def)
  next
    case False
    then have "\<exists>r \<in> snd ` set (roles s). role_from_json (role_json r) = None" using each by (auto simp: times_finite_def)
    then have "de_map role_from_json (en_map role_json (roles s)) = None"
      using de_map_en_map(2) [OF dist, of role_from_json role_json] by blast
    then show ?thesis using False by (simp add: run fields)
  qed
qed

section \<open>Saving and loading\<close>

definition reread_daily :: "(f64 \<Rightarrow> f64) \<Rightarrow> role_daily \<Rightarrow> role_daily" where
  "reread_daily rr d = d\<lparr>d_next_car_claim_time := rr (d_next_car_claim_time d)\<rparr>"

definition reread_periodic :: "(f64 \<Rightarrow> f64) \<Rightarrow> role_periodic \<Rightarrow> role_periodic" where
  "reread_periodic rr p =
     \<lparr>p_hangup_last_time = rr (p_hangup_last_time p), p_hangup_time = rr (p_hangup_time p),
      p_bottle_stop_time = rr (p_bottle_stop_time p), p_legacy_last_claim = rr (p_legacy_last_claim p),
      p_hangup_next_check = rr (p_hangup_next_check p), p_tower_next_check = rr (p_tower_next_check p),
      p_tower_cleared = p_tower_cleared p, p_evo_next_check = rr (p_evo_next_check p)\<rparr>"

text \<open>What is left of a role after its text was read: its times may have moved in the last digit, nothing else.\<close>
definition reread_role :: "(f64 \<Rightarrow> f64) \<Rightarrow> role_state \<Rightarrow> role_state" where
  "reread_role rr r = r\<lparr>rs_daily := reread_daily rr (rs_daily r), rs_periodic := reread_periodic rr (rs_periodic r)\<rparr>"

definition reread_state :: "(f64 \<Rightarrow> f64) \<Rightarrow> app_state \<Rightarrow> app_state" where
  "reread_state rr s = s\<lparr>roles := map (\<lambda>(k, r). (k, reread_role rr r)) (roles s)\<rparr>"

text \<open>The promise of the JSON library on one state: the printed text is understood as the value that was printed, with its
  floating point numbers as they are reread; finite numbers stay finite, the others are \<open>null\<close> and stay so.\<close>
definition text_kept :: "json_text \<Rightarrow> app_state \<Rightarrow> bool" where
  "text_kept J s \<longleftrightarrow> js_parse J (js_print J s) = Some (state_json (reread_state (js_reread J) s)) \<and>
     (\<forall>f. f64_finite (js_reread J f) = f64_finite f)"

lemma map_of_reread: "map_of (roles (reread_state rr s)) k = map_option (reread_role rr) (map_of (roles s) k)"
  by (simp add: reread_state_def map_of_map)

lemma reread_fst: "map fst (roles (reread_state rr s)) = map fst (roles s)"
  by (simp add: reread_state_def comp_def case_prod_unfold)

lemma reread_storable: "storable s \<Longrightarrow> storable (reread_state rr s)"
  by (auto simp: storable_def reread_fst) (auto simp: reread_state_def reread_role_def reread_daily_def)

lemma reread_finite: "(\<forall>f. f64_finite (rr f) = f64_finite f) \<Longrightarrow> times_finite (reread_state rr s) = times_finite s"
  by (force simp: times_finite_def reread_state_def reread_role_def reread_daily_def reread_periodic_def role_finite_def
      daily_finite_def periodic_finite_def)

lemma loaded_again:
  assumes "storable s" "text_kept J s"
  shows "if times_finite s then same_state (reread_state (js_reread J) s) (load_state J (Ok (js_print J s)))
           \<and> distinct (map fst (roles (load_state J (Ok (js_print J s)))))
         else load_state J (Ok (js_print J s)) = app_state_default"
  using state_reread [OF reread_storable [OF assms(1), of "js_reread J"]] assms(2)
    reread_finite [of "js_reread J" s]
  by (auto simp: load_state_def text_kept_def unwrap_or_def obj_sorted_distinct split: option.splits)

text \<open>C7: The state survives its file.  After a save that the file system carries out, a load gives the same round and
  exactly the same roles, with every flag and counter as it was and times at most as far off as the number parser is; but if a
  single time is infinite, the load gives the empty state: it is written as \<open>null\<close>, and what cannot be read is dropped
  as a whole.\<close>
theorem state_file_round_trip:
  assumes "storable s" "text_kept J s" "write (js_print J s) = (Ok (), Ok (js_print J s))"
  shows "(case save_state J write s of (result, file) \<Rightarrow>
     result = Ok () \<and>
     (if times_finite s then
        round_date (load_state J file) = round_date s \<and> round_count (load_state J file) = round_count s \<and>
        (\<forall>k. map_of (roles (load_state J file)) k = map_option (reread_role (js_reread J)) (map_of (roles s) k))
      else load_state J file = app_state_default))"
  using loaded_again [OF assms(1,2)] assms(3)
  by (auto simp: save_state_def same_state_def map_of_reread) (simp_all add: reread_state_def)

text \<open>A library that keeps states as they are, under a text that says which it is.\<close>
definition exact_text :: "app_state \<Rightarrow> json_text" where
  "exact_text s = \<lparr>js_print = (\<lambda>_. ''state''), js_parse = (\<lambda>_. Some (state_json s)), js_reread = id\<rparr>"

definition stored_sample :: "f64 \<Rightarrow> app_state" where
  "stored_sample t = \<lparr>round_date = Some ''2026-05-01'', round_count = 3,
     roles = [(''bins/a.bin:7'', role_state_default\<lparr>rs_daily := daily_default\<lparr>d_date := Some ''2026-05-01'', d_arena := True,
       d_next_car_claim_time := t\<rparr>\<rparr>)]\<rparr>"

lemma reread_role_id [simp]: "reread_role id r = r"
proof -
  have "reread_periodic id (rs_periodic r) = rs_periodic r" by (cases "rs_periodic r") (simp add: reread_periodic_def)
  then show ?thesis by (simp add: reread_role_def reread_daily_def)
qed

lemma reread_state_id [simp]: "reread_state id s = s"
  by (simp add: reread_state_def)

lemma stored_sample_text: "text_kept (exact_text (stored_sample t)) (stored_sample t)" "storable (stored_sample t)"
  by (simp_all add: text_kept_def exact_text_def storable_def stored_sample_def role_state_default_def daily_default_def)

theorem state_file_round_trip_witness:
  "(let s = stored_sample 0; J = exact_text s
    in map_option (\<lambda>r. d_arena (rs_daily r)) (map_of (roles (load_state J (snd (save_state J (\<lambda>t. (Ok (), Ok t)) s)))) ''bins/a.bin:7'')
       = Some True) \<and>
   (let s = stored_sample 0x7FF0000000000000; J = exact_text s
    in load_state J (snd (save_state J (\<lambda>t. (Ok (), Ok t)) s)) = app_state_default)"
proof -
  have "times_finite (stored_sample 0)" "\<not> times_finite (stored_sample 0x7FF0000000000000)"
    by (simp_all add: times_finite_def stored_sample_def role_finite_def daily_finite_def periodic_finite_def
        f64_finite_def f64_exponent_def role_state_default_def periodic_default_def daily_default_def)
  then show ?thesis
    using state_file_round_trip [OF stored_sample_text(2,1), of "\<lambda>t. (Ok (), Ok t)" 0]
      state_file_round_trip [OF stored_sample_text(2,1), of "\<lambda>t. (Ok (), Ok t)" "0x7FF0000000000000"]
    by (auto simp: Let_def exact_text_def stored_sample_def split: prod.splits)
qed

section \<open>Starting again\<close>

text \<open>\<open>Scheduler::init\<close> with its files: the configuration as \<open>BatchConfig::load\<close> gives it, the state as \<open>AppState::load\<close> does,
  and the state saved once it is in line with the roles that were found.  A failed start writes nothing.\<close>
definition scheduler_boot ::
  "json_text \<Rightarrow> (string \<Rightarrow> unit res \<times> file_text) \<Rightarrow> files \<Rightarrow> file_times \<Rightarrow> string \<Rightarrow> batch_config res \<Rightarrow> file_text \<Rightarrow>
   scheduler res \<times> file_text"
where
  "scheduler_boot J write F mtime config_path loaded file =
     (case loaded of
        Inl e \<Rightarrow> (Err e, file)
      | Inr config \<Rightarrow>
          (case scheduler_init F mtime config_path config (load_state J file) of
             Inl e \<Rightarrow> (Err e, file)
           | Inr s \<Rightarrow>
               (case save_state J write (sc_state s) of
                  (Inl e, file) \<Rightarrow> (Err e, file)
                | (Inr _, file) \<Rightarrow> (Ok s, file))))"

text \<open>The progress of a role, without the names shown for it.\<close>
definition progress :: "role_state \<Rightarrow> role_daily \<times> role_periodic \<times> role_weekly" where
  "progress r = (rs_daily r, rs_periodic r, rs_weekly r)"

lemma progress_register:
  "map_option progress (map_of (roles (register_roles rs st)) k) =
     (if k \<in> rt_key ` set rs then Some (progress (unwrap_or (map_of (roles st) k) role_state_default))
      else map_option progress (map_of (roles st) k))"
proof (induction rs st rule: register_roles.induct)
  case (2 r rs st)
  have "progress (e\<lparr>rs_role_name := a, rs_server_display := b\<rparr>) = progress e" for e a b by (simp add: progress_def)
  then show ?case using 2 by (auto simp: map_of_get_or_create unwrap_or_def split: option.split)
qed simp

lemma rounds_register: "round_date (register_roles rs st) = round_date st" "round_count (register_roles rs st) = round_count st"
  by (induction rs st rule: register_roles.induct) (simp_all add: get_or_create_def)

lemma map_of_sync:
  "map_of (roles (snd (sync_with_roles new_keys st))) k =
     (if k \<notin> set new_keys then None else Some (unwrap_or (map_of (roles st) k) role_state_default))"
  by (auto simp: sync_with_roles_def Let_def map_of_remove_keys map_of_insert_defaults map_of_known map_of_None_iff
      unwrap_or_def split: option.split)

lemma synced_progress:
  "map_option progress (map_of (roles (sc_state (sync_roles s))) k) =
     (if k \<in> rt_key ` set (sc_roles s) then Some (progress (unwrap_or (map_of (roles (sc_state s)) k) role_state_default)) else None)"
proof -
  obtain changes st where sync: "sync_with_roles (remdups (map rt_key (sc_roles s))) (sc_state s) = (changes, st)" by fastforce
  have "map_of (roles st) k = (if k \<notin> rt_key ` set (sc_roles s) then None
      else Some (unwrap_or (map_of (roles (sc_state s)) k) role_state_default))"
    using map_of_sync [of "remdups (map rt_key (sc_roles s))" "sc_state s" k] sync by simp
  then show ?thesis using sync by (simp add: sync_roles_def progress_register unwrap_or_def)
qed

lemma synced_round: "round_date (sc_state (sync_roles s)) = round_date (sc_state s)"
    "round_count (sc_state (sync_roles s)) = round_count (sc_state s)"
  by (auto simp: sync_roles_def sync_with_roles_def Let_def rounds_register)

lemma init_synced:
  assumes "scheduler_init F mtime config_path config st = Ok s"
  shows "\<exists>s0. s = sync_roles s0 \<and> sc_state s0 = snd (normalize_role_keys st) \<and> sc_roles s = sc_roles s0"
proof -
  let ?s = "\<lparr>sc_watcher = watcher_new mtime config_path config, sc_state = snd (normalize_role_keys st), sc_roles = [],
               sc_bin_cache = [], sc_in_maintenance = False\<rparr>"
  obtain u s0 where scan: "scan_roles F config ?s = (Inr u, s0)"
    using assms by (auto simp: scheduler_init_def Let_def split: prod.splits sum.splits)
  then have "sc_state s0 = snd (normalize_role_keys st)" using scan_keeps_state [of F config ?s] by simp
  moreover have "s = sync_roles s0" using assms scan by (simp add: scheduler_init_def Let_def)
  moreover have "sc_roles (sync_roles s0) = sc_roles s0" by (simp add: sync_roles_def split: prod.split)
  ultimately show ?thesis by blast
qed

lemma normalized_fixed:
  "\<forall>k \<in> set (map fst (roles st)). normalize_key k = k \<Longrightarrow> distinct (map fst (roles st)) \<Longrightarrow> snd (normalize_role_keys st) = st"
  using normalize_loop_fixed [of "[]" "roles st" 0] by (simp add: normalize_role_keys_def)

text \<open>C10: A scheduler that is started again goes on where the last one stopped.  When the state was saved and its times are
  finite, a start that succeeds keeps the round, and gives every role it finds the flags, counters and times it had (times as they
  are reread), a role without an entry the default; a role it does not find, be it for a login server that did not answer,
  has lost its progress, in the file too.\<close>
theorem restart_keeps_progress:
  assumes "storable st" "times_finite st" "text_kept J st" "write (js_print J st) = (Ok (), Ok (js_print J st))"
    and "\<forall>k \<in> set (map fst (roles st)). normalize_key k = k"
    and "scheduler_boot J write F mtime config_path loaded (snd (save_state J write st)) = (Ok s, file)"
  shows "round_date (sc_state s) = round_date st \<and> round_count (sc_state s) = round_count st \<and>
    (\<forall>k. map_option progress (map_of (roles (sc_state s)) k) =
       (if k \<in> rt_key ` set (sc_roles s)
        then Some (case map_of (roles st) k of
                     None \<Rightarrow> progress role_state_default
                   | Some old \<Rightarrow> progress (reread_role (js_reread J) old))
        else None)) \<and>
    file = snd (save_state J write (sc_state s))"
proof -
  let ?st = "load_state J (Ok (js_print J st))"
  have st: "same_state (reread_state (js_reread J) st) ?st" "distinct (map fst (roles ?st))"
    using loaded_again [OF assms(1,3)] assms(2) by simp_all
  have disk: "snd (save_state J write st) = Ok (js_print J st)" using assms(4) by (simp add: save_state_def)
  obtain config where init: "scheduler_init F mtime config_path config ?st = Ok s"
    and last: "file = snd (save_state J write (sc_state s))"
    using assms(6) unfolding disk scheduler_boot_def by (auto split: sum.splits prod.splits)
  obtain s0 where s0: "s = sync_roles s0" "sc_state s0 = snd (normalize_role_keys ?st)" "sc_roles s = sc_roles s0"
    using init_synced [OF init] by blast
  have maps: "map_of (roles ?st) k = map_option (reread_role (js_reread J)) (map_of (roles st) k)" for k
    using st(1) by (simp add: same_state_def map_of_reread)
  have keys: "set (map fst (roles ?st)) = set (map fst (roles st))"
  proof -
    have "dom (map_of (roles ?st)) = dom (map_of (roles st))" by (auto simp: dom_def maps)
    then show ?thesis by (simp add: dom_map_of_conv_image_fst)
  qed
  have same: "sc_state s0 = ?st" using normalized_fixed [OF _ st(2)] assms(5) s0(2) unfolding keys by simp
  have "map_option progress (map_of (roles (sc_state s)) k) =
      (if k \<in> rt_key ` set (sc_roles s)
       then Some (progress (unwrap_or (map_option (reread_role (js_reread J)) (map_of (roles st) k)) role_state_default)) else None)" for k
    using synced_progress [of s0 k] by (simp add: s0(1,3) same maps) (simp add: s0(3) flip: s0(1))
  moreover have "round_date ?st = round_date st" "round_count ?st = round_count st"
    using st(1) by (simp_all add: same_state_def reread_state_def)
  ultimately show ?thesis
    using synced_round [of s0] last by (simp add: s0(1) same unwrap_or_def split: option.split)
qed

text \<open>A login server that lists one role, of server 7.\<close>
definition listed_roles :: object where
  "listed_roles = [(''body'', Object [(''roles'', Object [(''1'', Object [(''serverId'', Number (PosInt 7))])])])]"

definition listing_host :: host where
  "listing_host = sample_host\<lparr>h_post := (\<lambda>_ _. Ok (create_message (\<lambda>_. None) 40 7 listed_roles None))\<rparr>"

definition listing_files :: files where
  "listing_files = no_files\<lparr>fi_host := (\<lambda>_. listing_host)\<rparr>"

definition listed_role :: account_role where
  "listed_role = \<lparr>ri_role_id = 0, ri_name = [], ri_server_id = 7, ri_power = 0, ri_level = 0\<rparr>"

lemma listed:
  "\<exists>c'. get_server_list listing_host data c = (Ok [listed_role], c')"
proof -
  have adm: "admissible limits_default (Object listed_roles)"
    by (simp add: listed_roles_def admissible_def limits_ok_def limits_default_def str_fits_def str_valid_ascii ascii_def
        obj_sorted_def)
  have "survives (Object listed_roles)" by (simp add: listed_roles_def i64_max_def)
  note this adm
  moreover have "length (encode (Object listed_roles)) \<le> 200" by code_simp
  ultimately have "parse_message show frame_read (create_message (\<lambda>_. None) 40 7 listed_roles None) =
      Ok (proto_with_limits listed_roles limits_default)" for "show" frame_read
    by (intro create_parse_message) simp_all
  then show ?thesis
    by (simp add: get_server_list_def post_serverlist_def post_bin_def listing_host_def response_body_def raw_data_result_def
        msg_body_def proto_with_limits_def listed_roles_def as_object_def read_role_def listed_role_def as_nat_def as_u64_def
        unwrap_or_def nat_as_u32_def Let_def split: prod.splits)
qed

lemma sample_paths: "normalize_path_for_id ''bins/a.bin'' = ''bins/a.bin''" "role_key ''bins/a.bin'' 7 = ''bins/a.bin:7''"
  by code_simp+

lemma sample_key: "normalize_key ''bins/a.bin:7'' = ''bins/a.bin:7''"
  using normalize_key_role_key [of 7 "''bins/a.bin''"] by (simp add: sample_paths)

lemma sample_start:
  "\<exists>s. scheduler_init listing_files (\<lambda>_. None) ''config.yaml'' bin_config_a st = Ok s \<and> map rt_key (sc_roles s) = [''bins/a.bin:7'']"
proof -
  obtain c' where "get_server_list listing_host [112, 108] http_new = (Ok [listed_role], c')" using listed by blast
  moreover have "rt_key (make_task ''bins/a.bin'' listed_role) = ''bins/a.bin:7''"
    by (simp add: make_task_def listed_role_def sample_paths)
  ultimately show ?thesis
    by (simp add: scheduler_init_def scan_roles_def bin_config_a_def listing_files_def no_files_def filter_roles_def Let_def
        sync_roles_def sample_paths split: prod.splits)
qed

theorem restart_keeps_progress_witness:
  "\<exists>s file. (let st = stored_sample 0; J = exact_text st; write = (\<lambda>t. (Ok (), Ok t))
     in scheduler_boot J write listing_files (\<lambda>_. None) ''config.yaml'' (Ok bin_config_a) (snd (save_state J write st))) = (Ok s, file) \<and>
     map_option (\<lambda>r. d_arena (rs_daily r)) (map_of (roles (sc_state s)) ''bins/a.bin:7'') = Some True"
proof -
  let ?st = "stored_sample 0" and ?store = "\<lambda>t. (Ok (), Ok t) :: unit res \<times> file_text"
  let ?J = "exact_text ?st"
  obtain s where s: "scheduler_init listing_files (\<lambda>_. None) ''config.yaml'' bin_config_a
      (load_state ?J (snd (save_state ?J ?store ?st))) = Ok s" "map rt_key (sc_roles s) = [''bins/a.bin:7'']"
    using sample_start [of "load_state ?J (snd (save_state ?J ?store ?st))"] by (elim exE conjE)
  have boot: "scheduler_boot ?J ?store listing_files (\<lambda>_. None) ''config.yaml'' (Ok bin_config_a) (snd (save_state ?J ?store ?st)) =
      (Ok s, snd (save_state ?J ?store (sc_state s)))"
    by (simp only: scheduler_boot_def s(1) sum.case) (simp add: save_state_def)
  have finite: "times_finite ?st"
    by (simp add: times_finite_def stored_sample_def role_finite_def daily_finite_def periodic_finite_def
        f64_finite_def f64_exponent_def role_state_default_def periodic_default_def daily_default_def)
  have "\<forall>k \<in> set (map fst (roles ?st)). normalize_key k = k" by (simp add: stored_sample_def sample_key)
  note restart_keeps_progress [OF stored_sample_text(2) finite stored_sample_text(1) refl this boot]
  then have "map_option progress (map_of (roles (sc_state s)) ''bins/a.bin:7'') =
      Some (progress (role_state_default\<lparr>rs_daily := daily_default\<lparr>d_date := Some ''2026-05-01'', d_arena := True,
        d_next_car_claim_time := 0\<rparr>\<rparr>))"
    using arg_cong [OF s(2), of set] by (simp add: stored_sample_def exact_text_def)
  then have "map_option (\<lambda>r. d_arena (rs_daily r)) (map_of (roles (sc_state s)) ''bins/a.bin:7'') = Some True"
    by (auto simp: progress_def)
  then show ?thesis using boot by (auto simp: Let_def)
qed

end
