(* ===== verification/Cli.thy ===== *)
theory Cli
  imports Core
begin

text \<open>
  \<open>src/src/cli_context.rs\<close>: what the subcommands of \<open>koc_cli\<close> share, the bin and configuration they read, the
  formation they switch to and give back, and the list of roles they print; then the steps every subcommand takes
  before its session: the role looked up among those of the bin, its token, the login.
\<close>

section \<open>The context\<close>

text \<open>\<open>CliContext\<close> with its surroundings: \<open>fs::read\<close>, \<open>BatchConfig::load\<close>, how a path is printed, the login server at
  the time of the two requests.\<close>
record cli =
  cl_read :: "string \<Rightarrow> bytes res"
  cl_load :: "batch_config res"
  cl_list_host :: host
  cl_token_host :: host

definition read_bin :: "cli \<Rightarrow> string \<Rightarrow> bytes res" where
  "read_bin ctx path =
     (case cl_read ctx path of Inl e \<Rightarrow> Err (''Failed to read '' @ path @ '': '' @ e) | Inr data \<Rightarrow> Ok data)"

definition load_config :: "cli \<Rightarrow> batch_config res" where
  "load_config ctx = cl_load ctx"

section \<open>Formations\<close>

definition get_current_team_id :: "env \<Rightarrow> nat res io" where
  "get_current_team_id E = current_team_id E"

text \<open>The team that was in use, if another one is in use now.\<close>
definition switch_formation :: "env \<Rightarrow> batch_config \<Rightarrow> string \<Rightarrow> nat \<Rightarrow> formation_context \<Rightarrow> nat option res io" where
  "switch_formation E config bin_path server_id context =
     io_bind (get_current_team_id E) (\<lambda>r.
       case r of
         Inl e \<Rightarrow> io_return (Err e)
       | Inr current_team \<Rightarrow>
           let (target_team, source) = resolve_formation_with_source config bin_path server_id context in
           if current_team = target_team then io_return (Ok None)
           else io_bind (presetteam_saveteam E target_team) (\<lambda>r. io_return (case r of
                    Inl e \<Rightarrow> Err (''Failed to switch formation for '' @ context_as_str context @ '': '' @ e)
                  | Inr _ \<Rightarrow> Ok (Some current_team))))"

definition restore_formation :: "env \<Rightarrow> formation_context \<Rightarrow> nat option \<Rightarrow> unit res io" where
  "restore_formation E context original_team =
     (case original_team of
        None \<Rightarrow> io_return (Ok ())
      | Some original_team \<Rightarrow>
          io_bind (get_current_team_id E) (\<lambda>r.
            case r of
              Inl e \<Rightarrow> io_return (Err e)
            | Inr current_team \<Rightarrow>
                if current_team = original_team then io_return (Ok ())
                else io_bind (presetteam_saveteam E original_team) (\<lambda>r. io_return (case r of
                         Inl e \<Rightarrow> Err (''Failed to restore formation for '' @ context_as_str context @ '': '' @ e)
                       | Inr _ \<Rightarrow> Ok ()))))"

section \<open>Roles\<close>

definition decode_server :: "nat \<Rightarrow> nat \<times> nat" where
  "decode_server server_id =
     (let (sid, idx) = (if 2000000 \<le> server_id then (server_id - 2000000, 2)
                        else if 1000000 \<le> server_id then (server_id - 1000000, 1)
                        else (server_id, 0))
      in (sid - 27, idx))"

text \<open>The lines printed.\<close>
definition role_line :: "nat \<times> account_role \<Rightarrow> string" where
  "role_line ir =
     (case ir of (i, role) \<Rightarrow>
      let (server_no, idx) = decode_server (ri_server_id role)
      in ''  ['' @ nat_str (i + 1) @ ''] '' @ nat_str server_no @ ''-'' @ nat_str idx @ '' name='' @ ri_name role
         @ '' power='' @ nat_str (ri_power role) @ '' level='' @ nat_str (ri_level role)
         @ '' serverId='' @ nat_str (ri_server_id role))"

definition print_roles :: "account_role list \<Rightarrow> string list" where
  "print_roles rs = (''Found '' @ nat_str (length rs) @ '' roles:'') # map role_line (enumerate 0 rs)"

section \<open>Opening a session\<close>

text \<open>The opening lines of the subcommands for one role: the bin is read and parsed, the role is looked up among those
  of the bin and its token fetched.  A bin that does not parse is an error for some and a warning for others
  (\<open>strict\<close>).\<close>
definition role_token :: "cli \<Rightarrow> bool \<Rightarrow> string \<Rightarrow> nat \<Rightarrow> string res" where
  "role_token ctx strict bin server_id =
     (case read_bin ctx bin of
        Inl e \<Rightarrow> Err e
      | Inr bin_data \<Rightarrow>
          (case (parse_bin (cl_list_host ctx) bin_data, strict) of
             (Inl e, True) \<Rightarrow> Err (''bin parse failed: '' @ e)
           | _ \<Rightarrow>
               (case get_server_list (cl_list_host ctx) bin_data http_new of
                  (Inl e, c) \<Rightarrow> Err (''Failed to get server list: '' @ e)
                | (Inr found, c) \<Rightarrow>
                    if \<not> list_ex (\<lambda>r. ri_server_id r = server_id) found
                    then Err (''server_id '' @ nat_str server_id
                              @ '' not found in this bin (use `koc_cli verify --bin ...` to inspect)'')
                    else (case select_role_token (cl_token_host ctx) bin_data server_id c of
                            (Inl e, c) \<Rightarrow> Err (''Failed to get role token: '' @ e)
                          | (Inr token, c) \<Rightarrow> Ok token))))"

definition open_role :: "env \<Rightarrow> cli \<Rightarrow> bool \<Rightarrow> string \<Rightarrow> nat \<Rightarrow> unit res io" where
  "open_role E ctx strict bin server_id =
     (case role_token ctx strict bin server_id of
        Inl e \<Rightarrow> io_return (Err e)
      | Inr token \<Rightarrow>
          io_bind (login E (h_connect (cl_token_host ctx) token)) (\<lambda>r.
            io_return (case r of Inl e \<Rightarrow> Err (''Login failed: '' @ e) | Inr _ \<Rightarrow> Ok ())))"

end
