(* ===== verification/Cli_Tower.thy ===== *)
theory Cli_Tower
  imports Cli
begin

text \<open>
  \<open>src/src/cli_tower.rs\<close>: the subcommand that climbs the tower by hand.  The tallies and the reason that only the
  closing log line reads are left out; a \<open>?\<close> in the loop leaves the flow with the error.
\<close>

section \<open>Reading responses\<close>

definition get_tower_energy :: "json option \<Rightarrow> int option" where
  "get_tower_energy info =
     Option.bind (Option.bind info (\<lambda>v.
       or_else (pointer [''role'', ''tower'', ''energy''] v) (pointer [''tower'', ''energy''] v))) as_int"

definition get_tower_id :: "json option \<Rightarrow> nat option" where
  "get_tower_id info =
     Option.bind (Option.bind info (\<lambda>v.
       or_else (pointer [''role'', ''tower'', ''id''] v) (pointer [''tower'', ''id''] v))) as_nat"

text \<open>Whether the fight was won, and the tower afterwards; an answer without a result is not judged.\<close>
definition parse_tower_battle_result :: "json \<Rightarrow> (bool \<times> nat option) option" where
  "parse_tower_battle_result resp =
     Option.bind (jget resp ''battleData'') (\<lambda>battle_data.
     Option.bind (Option.bind (pointer [''result'', ''sponsor'', ''ext'', ''curHP''] battle_data) as_f64) (\<lambda>cur_hp.
       Some (f64_lt 0 cur_hp, Option.bind (pointer [''options'', ''towerId''] battle_data) as_nat)))"

definition should_claim_reward :: "json option \<Rightarrow> nat \<Rightarrow> bool" where
  "should_claim_reward info reward_floor =
     (case Option.bind info (\<lambda>v.
             or_else (pointer [''role'', ''tower'', ''reward''] v) (pointer [''tower'', ''reward''] v)) of
        None \<Rightarrow> True
      | Some (Object m) \<Rightarrow>
          (case obj_get m (nat_str reward_floor) of Some v \<Rightarrow> \<not> unwrap_or (as_bool v) False | None \<Rightarrow> True)
      | Some (Array arr) \<Rightarrow>
          unwrap_or (map_option Not (Option.bind (get_at arr reward_floor) as_bool)) True
      | Some _ \<Rightarrow> True)"

section \<open>The flow\<close>

record tower_args =
  ta_bin :: string
  ta_server_id :: nat
  ta_max_climb :: nat
  ta_interval_ms :: nat
  ta_refresh_every :: nat
  ta_no_auto_claim :: bool

text \<open>The arguments when only the role is given.\<close>
definition tower_args_default :: "string \<Rightarrow> nat \<Rightarrow> tower_args" where
  "tower_args_default bin server_id = \<lparr>ta_bin = bin, ta_server_id = server_id, ta_max_climb = 100, ta_interval_ms = 1000,
     ta_refresh_every = 5, ta_no_auto_claim = False\<rparr>"

definition fetch_role_info :: "env \<Rightarrow> unit res io" where
  "fetch_role_info E =
     io_bind (role_getroleinfo E) (\<lambda>r.
       case r of Inl e \<Rightarrow> io_return (Err e) | Inr info \<Rightarrow> io_bind (set_role_info info) (\<lambda>_. io_return (Ok ())))"

record tower_run =
  tr_climb_count :: nat
  tr_failures :: nat
  tr_energy :: int
  tr_tower_id :: "nat option"

text \<open>\<open>energy = get_tower_energy(..).unwrap_or(energy); tower_id = get_tower_id(..).or(tower_id)\<close>\<close>
definition reread :: "game \<Rightarrow> tower_run \<Rightarrow> tower_run" where
  "reread g s = s\<lparr>tr_energy := unwrap_or (get_tower_energy (role_info g)) (tr_energy s),
     tr_tower_id := or_else (get_tower_id (role_info g)) (tr_tower_id s)\<rparr>"

text \<open>The role info is fetched before the reading; an error leaves the flow.\<close>
definition refetch :: "env \<Rightarrow> tower_run \<Rightarrow> (tower_run \<Rightarrow> (tower_run + unit res) io) \<Rightarrow> (tower_run + unit res) io" where
  "refetch E s k =
     io_bind (fetch_role_info E) (\<lambda>r. io_bind read_game (\<lambda>g.
       case r of Inl e \<Rightarrow> io_return (Inr (Err e)) | Inr _ \<Rightarrow> k (reread g s)))"

text \<open>An accepted fight.\<close>
definition after_climb :: "env \<Rightarrow> tower_args \<Rightarrow> json \<Rightarrow> tower_run \<Rightarrow> (tower_run + unit res) io" where
  "after_climb E args resp s =
     (let s = s\<lparr>tr_climb_count := tr_climb_count s + 1, tr_failures := 0,
                tr_energy := (if 0 < tr_energy s then tr_energy s - 1 else tr_energy s)\<rparr>;
          s = (case parse_tower_battle_result resp of
                 Some (won, tower_id_from_resp) \<Rightarrow> s\<lparr>tr_tower_id := or_else tower_id_from_resp (tr_tower_id s)\<rparr>
               | None \<Rightarrow> s);
          rest = (\<lambda>s. io_bind (sleep (ta_interval_ms args)) (\<lambda>_. io_return (Inl s)))
      in if tr_climb_count s mod max (ta_refresh_every args) 1 = 0 then refetch E s rest else rest s)"

text \<open>The reward that stands in the way is claimed, if the tower is known and the reward not yet taken.\<close>
definition claim_pending :: "env \<Rightarrow> tower_run \<Rightarrow> unit io" where
  "claim_pending E s =
     (case tr_tower_id s of
        None \<Rightarrow> io_return ()
      | Some tid \<Rightarrow>
          let reward_floor = tid div 10 in
          io_bind read_game (\<lambda>g.
            if 0 < reward_floor \<and> should_claim_reward (role_info g) reward_floor
            then io_bind (tower_claimreward E reward_floor) (\<lambda>_. io_return ()) else io_return ()))"

text \<open>A refused fight.\<close>
definition after_refusal :: "env \<Rightarrow> tower_args \<Rightarrow> string \<Rightarrow> tower_run \<Rightarrow> (tower_run + unit res) io" where
  "after_refusal E args err s =
     (let code = extract_code_from_error err in
      if code = Some 1500020 \<or> code = Some 1500010 then io_return (Inr (Ok ()))
      else if code = Some 1500040 \<and> \<not> ta_no_auto_claim args then
        refetch E s (\<lambda>s.
          io_bind (claim_pending E s) (\<lambda>_. io_bind (sleep 1500) (\<lambda>_.
            refetch E s (\<lambda>s. io_return (Inl (s\<lparr>tr_failures := 0\<rparr>))))))
      else if code = Some 200400 then io_bind (sleep 5000) (\<lambda>_. io_return (Inl s))
      else
        let s = s\<lparr>tr_failures := tr_failures s + 1\<rparr> in
        if 3 \<le> tr_failures s then io_return (Inr (Ok ()))
        else io_bind (sleep 2000) (\<lambda>_. io_bind (fetch_role_info E) (\<lambda>_. io_bind read_game (\<lambda>g.
               io_return (Inl (reread g s))))))"

definition tower_round :: "env \<Rightarrow> tower_args \<Rightarrow> tower_run \<Rightarrow> (tower_run + unit res) io" where
  "tower_round E args s =
     (if tr_climb_count s < ta_max_climb args then
        if tr_energy s \<le> 0 then io_return (Inr (Ok ()))
        else io_bind (fight_starttower E) (\<lambda>r.
               case r of Inr resp \<Rightarrow> after_climb E args resp s | Inl err \<Rightarrow> after_refusal E args err s)
      else io_return (Inr (Ok ())))"

definition run_tower_flow :: "env \<Rightarrow> tower_args \<Rightarrow> unit res io" where
  "run_tower_flow E args =
     io_bind (tower_getinfo E) (\<lambda>_. io_bind (fetch_role_info E) (\<lambda>r. io_bind read_game (\<lambda>g.
       case r of
         Inl e \<Rightarrow> io_return (Err e)
       | Inr _ \<Rightarrow>
           let energy = unwrap_or (get_tower_energy (role_info g)) 0 in
           if energy \<le> 0 then io_return (Ok ())
           else io_loop (tower_round E args) \<lparr>tr_climb_count = 0, tr_failures = 0, tr_energy = energy,
                  tr_tower_id = get_tower_id (role_info g)\<rparr>)))"

section \<open>The subcommand\<close>

text \<open>The second half of \<open>run\<close>, which the tower and the evo tower share: the formation of the context, the flow, the
  formation given back whatever the flow's outcome, and the end of the session.  A configuration that does not load and a
  formation that cannot be switched end the command with the session open.\<close>
definition run_in_formation :: "env \<Rightarrow> cli \<Rightarrow> formation_context \<Rightarrow> string \<Rightarrow> nat \<Rightarrow> unit res io \<Rightarrow> unit res io" where
  "run_in_formation E ctx context bin server_id flow =
     (case load_config ctx of
        Inl e \<Rightarrow> io_return (Err e)
      | Inr config \<Rightarrow>
          io_bind (switch_formation E config bin server_id context) (\<lambda>r.
            case r of
              Inl e \<Rightarrow> io_return (Err e)
            | Inr original_team \<Rightarrow>
                io_bind flow (\<lambda>result.
                io_bind (restore_formation E context original_team) (\<lambda>restore_result.
                io_bind disconnect (\<lambda>_.
                  io_return (case result of Inl e \<Rightarrow> Err e | Inr _ \<Rightarrow> restore_result))))))"

definition run_tower :: "env \<Rightarrow> cli \<Rightarrow> tower_args \<Rightarrow> unit res io" where
  "run_tower E ctx args =
     io_bind (open_role E ctx False (ta_bin args) (ta_server_id args)) (\<lambda>r.
       case r of
         Inl e \<Rightarrow> io_return (Err e)
       | Inr _ \<Rightarrow> run_in_formation E ctx Tower (ta_bin args) (ta_server_id args) (run_tower_flow E args))"

end
