(* ===== verification/Cli_Evotower.thy ===== *)
theory Cli_Evotower
  imports Cli_Tower
begin

text \<open>
  \<open>src/src/cli_evotower.rs\<close>: the subcommand that climbs the evo tower by hand, with its tasks and chapter rewards, and
  merges the items of the merge box afterwards.  As in the tower, tallies and reasons that only log lines read are left
  out.
\<close>

section \<open>Reading responses\<close>

definition get_evo_energy :: "json \<Rightarrow> int option" where
  "get_evo_energy info =
     Option.bind (or_else (pointer [''evoTower'', ''energy''] info) (pointer [''energy''] info)) as_int"

definition get_evo_tower_id :: "json \<Rightarrow> nat option" where
  "get_evo_tower_id info =
     Option.bind (or_else (pointer [''evoTower'', ''towerId''] info) (pointer [''towerId''] info)) as_nat"

definition parse_evotower_fight_result :: "json \<Rightarrow> bool option" where
  "parse_evotower_fight_result resp =
     Option.bind (or_else (pointer [''winList'', ''0''] resp) (pointer [''battleData'', ''winList'', ''0''] resp)) as_bool"

text \<open>\<open>Value::get\<close> with an index.\<close>
definition jget_at :: "json \<Rightarrow> nat \<Rightarrow> json option" where
  "jget_at v i = (case v of Array xs \<Rightarrow> get_at xs i | _ \<Rightarrow> None)"

text \<open>The day's entry of the claim map: a task is looked up by its number as a key, else as an index.\<close>
definition day_entry :: "json \<Rightarrow> string \<Rightarrow> json option" where
  "day_entry info date_key = Option.bind (pointer [''evoTower'', ''taskClaimMap''] info) (\<lambda>m. jget m date_key)"

definition task_entry :: "json \<Rightarrow> nat \<Rightarrow> json option" where
  "task_entry daily task_id = or_else (jget daily (nat_str task_id)) (jget_at daily task_id)"

definition should_claim_evotower_task :: "json \<Rightarrow> string \<Rightarrow> nat \<Rightarrow> bool" where
  "should_claim_evotower_task info date_key task_id =
     (case pointer [''evoTower'', ''taskClaimMap''] info of
        None \<Rightarrow> False
      | Some m \<Rightarrow>
          (case jget m date_key of
             None \<Rightarrow> True
           | Some daily \<Rightarrow>
               (case task_entry daily task_id of Some v \<Rightarrow> \<not> unwrap_or (as_bool v) False | None \<Rightarrow> True)))"

definition collect_claimed_evotower_tasks :: "json \<Rightarrow> string \<Rightarrow> nat set" where
  "collect_claimed_evotower_tasks info date_key =
     (case day_entry info date_key of
        None \<Rightarrow> {}
      | Some daily \<Rightarrow> set (filter (\<lambda>t. unwrap_or (Option.bind (task_entry daily t) as_bool) False) [1, 2, 3]))"

definition claimtask_id_for_climb :: "nat \<Rightarrow> nat option" where
  "claimtask_id_for_climb climb_count =
     (if climb_count = 3 then Some 1 else if climb_count = 6 then Some 2 else if climb_count = 10 then Some 3 else None)"

definition is_evotower_not_open_error :: "string \<Rightarrow> bool" where
  "is_evotower_not_open_error err = (extract_code_from_error err \<in> {Some 200160, Some 2100010})"

definition is_evotower_terminal_error :: "string \<Rightarrow> bool" where
  "is_evotower_terminal_error err =
     (is_evotower_not_open_error err \<or>
      (case extract_code_from_error err of Some code \<Rightarrow> is_done_error code | None \<Rightarrow> False) \<or>
      str_contains err (zh [0x80FD, 0x91CF, 0x4E0D, 0x8DB3]) \<or>
      str_contains err (zh [0x5DF2, 0x5168, 0x90E8, 0x901A, 0x5173]) \<or>
      str_contains err (zh [0x5DF2, 0x7ECF, 0x5168, 0x90E8, 0x901A, 0x5173]))"

definition terminal_reason_from_error :: "string \<Rightarrow> string" where
  "terminal_reason_from_error err =
     (case extract_code_from_error err of
        Some code \<Rightarrow> ''terminal error code '' @ int_str code | None \<Rightarrow> ''terminal error'')"

section \<open>Merging\<close>

type_synonym position = "nat \<times> nat"

text \<open>\<open>grouped.entry(id).or_default().push(pos)\<close>\<close>
fun push_group :: "nat \<Rightarrow> position \<Rightarrow> (nat \<times> position list) list \<Rightarrow> (nat \<times> position list) list" where
  "push_group i pos [] = [(i, [pos])]"
| "push_group i pos ((j, ps) # gs) = (if i = j then (j, ps @ [pos]) # gs else (j, ps) # push_group i pos gs)"

text \<open>The item of a cell that may be merged.\<close>
definition mergeable_item :: "json \<Rightarrow> nat option" where
  "mergeable_item cell =
     (let grid_conf_id = unwrap_or (Option.bind (jget cell ''gridConfId'') as_int) (- 1);
          grid_item_id = unwrap_or (Option.bind (jget cell ''gridItemId'') as_nat) 0;
          is_lock = unwrap_or (Option.bind (jget cell ''isLock'') as_bool) False
      in if grid_conf_id = 0 \<and> 0 < grid_item_id \<and> \<not> is_lock then Some grid_item_id else None)"

fun collect_column :: "nat \<Rightarrow> object \<Rightarrow> (nat \<times> position list) list \<Rightarrow> (nat \<times> position list) list" where
  "collect_column x [] gs = gs"
| "collect_column x ((y_str, cell) # cells) gs =
     collect_column x cells
       (case parse_u64 y_str of
          None \<Rightarrow> gs
        | Some y \<Rightarrow> (case mergeable_item cell of None \<Rightarrow> gs | Some i \<Rightarrow> push_group i (x, y) gs))"

fun collect_columns :: "object \<Rightarrow> (nat \<times> position list) list \<Rightarrow> (nat \<times> position list) list" where
  "collect_columns [] gs = gs"
| "collect_columns ((x_str, col) # cols) gs =
     collect_columns cols
       (case parse_u64 x_str of
          None \<Rightarrow> gs
        | Some x \<Rightarrow> (case as_object col of None \<Rightarrow> gs | Some cells \<Rightarrow> collect_column x cells gs))"

definition collect_merge_groups :: "json \<Rightarrow> (nat \<times> position list) list" where
  "collect_merge_groups merge_box =
     (case Option.bind (jget merge_box ''gridMap'') as_object of
        None \<Rightarrow> []
      | Some grid_map \<Rightarrow> filter (\<lambda>(i, ps). 2 \<le> length ps) (collect_columns grid_map []))"

definition is_merge_level8_or_above :: "json \<Rightarrow> bool" where
  "is_merge_level8_or_above merge_box =
     unwrap_or (map_option (\<lambda>v. v \<noteq> 0) (Option.bind (pointer [''taskMap'', ''251212208''] merge_box) as_int)) False"

definition claim_merge_task :: "env \<Rightarrow> object \<Rightarrow> string \<times> json \<Rightarrow> nat \<Rightarrow> nat io" where
  "claim_merge_task E task_claim_map task claimed =
     (case task of (task_id_str, task_val) \<Rightarrow>
      let ready = (unwrap_or (as_int task_val) 0 \<noteq> 0);
          already_claimed = unwrap_or (Option.bind (obj_get task_claim_map task_id_str) as_bool) False
      in if \<not> ready \<or> already_claimed then io_return claimed
         else case parse_u64 task_id_str of
                None \<Rightarrow> io_return claimed
              | Some task_id \<Rightarrow>
                  io_bind (mergebox_claimmergeprogress E 1 task_id) (\<lambda>r. io_bind (sleep 200) (\<lambda>_.
                    io_return (case r of Inr _ \<Rightarrow> claimed + 1 | Inl _ \<Rightarrow> claimed))))"

definition claim_merge_progress_rewards :: "env \<Rightarrow> json \<Rightarrow> nat io" where
  "claim_merge_progress_rewards E merge_box =
     (case Option.bind (jget merge_box ''taskMap'') as_object of
        None \<Rightarrow> io_return 0
      | Some task_map \<Rightarrow>
          let task_claim_map = unwrap_or (Option.bind (jget merge_box ''taskClaimMap'') as_object) []
          in io_for task_map (claim_merge_task E task_claim_map) 0)"

text \<open>\<open>while items.len() >= 2\<close>: the last item is the source, the one before it the target.\<close>
fun pop_pairs :: "position list \<Rightarrow> (position \<times> position) list" where
  "pop_pairs (source # target # rest) = (source, target) # pop_pairs rest"
| "pop_pairs rest = []"

definition merge_pairs :: "position list \<Rightarrow> (position \<times> position) list" where
  "merge_pairs items = pop_pairs (rev items)"

definition grid_pos :: "position \<Rightarrow> json" where
  "grid_pos pos = jobj [(''gridX'', jnum (fst pos)), (''gridY'', jnum (snd pos))]"

definition merge_params :: "position \<times> position \<Rightarrow> json" where
  "merge_params st =
     jobj [(''actType'', jnum 1), (''sourcePos'', grid_pos (fst st)), (''targetPos'', grid_pos (snd st))]"

definition merge_pair :: "env \<Rightarrow> position \<times> position \<Rightarrow> nat \<Rightarrow> nat io" where
  "merge_pair E st merged =
     io_bind (mergebox_mergeitem E (merge_params st)) (\<lambda>r. io_bind (sleep 300) (\<lambda>_.
       io_return (case r of Inr _ \<Rightarrow> merged + 1 | Inl _ \<Rightarrow> merged)))"

record evo_args =
  ea_bin :: string
  ea_server_id :: nat
  ea_max_climb :: nat
  ea_interval_ms :: nat
  ea_refresh_every :: nat
  ea_failure_limit :: nat
  ea_no_auto_claim_task :: bool
  ea_no_auto_claim_reward :: bool
  ea_merge_max_loops :: nat
  ea_merge_delay_ms :: nat

text \<open>The arguments when only the role is given.\<close>
definition evo_args_default :: "string \<Rightarrow> nat \<Rightarrow> evo_args" where
  "evo_args_default bin server_id = \<lparr>ea_bin = bin, ea_server_id = server_id, ea_max_climb = 100, ea_interval_ms = 1000,
     ea_refresh_every = 3, ea_failure_limit = 3, ea_no_auto_claim_task = False, ea_no_auto_claim_reward = False,
     ea_merge_max_loops = 20, ea_merge_delay_ms = 500\<rparr>"

text \<open>The order in which a hash map of groups is visited.\<close>
type_synonym group_order = "(nat \<times> position list) list \<Rightarrow> (nat \<times> position list) list"

text \<open>One turn of the merging loop: whether it goes on.\<close>
definition merge_turn :: "env \<Rightarrow> evo_args \<Rightarrow> group_order \<Rightarrow> bool io" where
  "merge_turn E args order =
     io_bind (mergebox_getinfo E 1) (\<lambda>r.
       case Option.bind (ok r) (\<lambda>info. jget info ''mergeBox'') of
         None \<Rightarrow> io_return False
       | Some merge_box \<Rightarrow>
           io_bind (claim_merge_progress_rewards E merge_box) (\<lambda>_.
           let grouped = collect_merge_groups merge_box in
           if grouped = [] then io_return False
           else if is_merge_level8_or_above merge_box then
             io_bind (mergebox_automergeitem E 1) (\<lambda>r.
               case r of
                 Inl e \<Rightarrow> io_return False
               | Inr _ \<Rightarrow> io_bind (sleep (max (ea_merge_delay_ms args) 100)) (\<lambda>_.
                     io_bind (sleep (ea_merge_delay_ms args)) (\<lambda>_. io_return True)))
           else
             io_bind (io_for (order grouped) (\<lambda>(i, items). io_for (merge_pairs items) (merge_pair E)) 0) (\<lambda>merged.
               if merged = 0 then io_return False
               else io_bind (sleep (ea_merge_delay_ms args)) (\<lambda>_. io_return True))))"

fun merge_turns :: "env \<Rightarrow> evo_args \<Rightarrow> group_order \<Rightarrow> nat \<Rightarrow> unit io" where
  "merge_turns E args order 0 = io_return ()"
| "merge_turns E args order (Suc n) =
     io_bind (merge_turn E args order) (\<lambda>on. if on then merge_turns E args order n else io_return ())"

definition run_merge_once :: "env \<Rightarrow> evo_args \<Rightarrow> group_order \<Rightarrow> unit io" where
  "run_merge_once E args order =
     io_bind (merge_turns E args order (max (ea_merge_max_loops args) 1)) (\<lambda>_.
     io_bind (mergebox_claimcostprogress E 1) (\<lambda>_. io_return ()))"

section \<open>The climb\<close>

record evo_run =
  er_energy :: int
  er_tower_id :: "nat option"
  er_claimed :: "nat set"
  er_climb_count :: nat
  er_failures :: nat

definition note_evo_info :: "json \<Rightarrow> evo_run \<Rightarrow> evo_run" where
  "note_evo_info info s = s\<lparr>er_energy := unwrap_or (get_evo_energy info) (er_energy s),
     er_tower_id := or_else (get_evo_tower_id info) (er_tower_id s)\<rparr>"

definition note_claimed :: "json \<Rightarrow> string \<Rightarrow> evo_run \<Rightarrow> evo_run" where
  "note_claimed info date_key s =
     s\<lparr>er_claimed := er_claimed s \<union> collect_claimed_evotower_tasks info date_key\<rparr>"

text \<open>\<open>if let Ok(refreshed) = game.evotower_getinfo().await\<close>\<close>
definition refresh_evo :: "env \<Rightarrow> string \<Rightarrow> evo_run \<Rightarrow> evo_run io" where
  "refresh_evo E date_key s =
     io_bind (evotower_getinfo E) (\<lambda>r. io_return (case r of
         Inr info \<Rightarrow> note_claimed info date_key (note_evo_info info s) | Inl e \<Rightarrow> s))"

text \<open>Whether a chapter's reward that was pending has been claimed.\<close>
definition recover_evotower_pending_reward :: "env \<Rightarrow> evo_args \<Rightarrow> string \<Rightarrow> evo_run \<Rightarrow> (bool \<times> evo_run) io" where
  "recover_evotower_pending_reward E args date_key s =
     io_bind (refresh_evo E date_key s) (\<lambda>s.
       if ea_no_auto_claim_reward args then io_return (False, s)
       else case er_tower_id s of
              None \<Rightarrow> io_return (False, s)
            | Some current_tower_id \<Rightarrow>
                if current_tower_id div 10 = 0 \<or> current_tower_id mod 10 \<noteq> 0 then io_return (False, s)
                else io_bind (evotower_claimreward E (jobj [])) (\<lambda>r.
                  case r of
                    Inl e \<Rightarrow> io_return (False, s)
                  | Inr _ \<Rightarrow> io_bind (sleep 1000) (\<lambda>_.
                        io_bind (refresh_evo E date_key (s\<lparr>er_failures := 0\<rparr>)) (\<lambda>s. io_return (True, s)))))"

text \<open>The task of a number of climbs.\<close>
definition claim_evo_task :: "env \<Rightarrow> evo_args \<Rightarrow> string \<Rightarrow> json \<Rightarrow> evo_run \<Rightarrow> evo_run io" where
  "claim_evo_task E args date_key info s =
     (if \<not> ea_no_auto_claim_task args \<and> card (er_claimed s) < 3 then
        let s = note_claimed info date_key s in
        (case claimtask_id_for_climb (er_climb_count s) of
           None \<Rightarrow> io_return s
         | Some task_id \<Rightarrow>
             if task_id \<notin> er_claimed s \<and> should_claim_evotower_task info date_key task_id then
               io_bind (send_with_response E ''evotower_claimtask'' (jobj [(''taskId'', jnum task_id)]) 2000) (\<lambda>r.
               io_bind (sleep 200) (\<lambda>_.
                 io_return (case r of
                     Inr _ \<Rightarrow> s\<lparr>er_claimed := insert task_id (er_claimed s)\<rparr>
                   | Inl e \<Rightarrow> if extract_code_from_error e = Some 12200050
                       then s\<lparr>er_claimed := insert task_id (er_claimed s)\<rparr> else s)))
             else io_return s)
      else io_return s)"

text \<open>The reward of a chapter just entered.\<close>
definition claim_chapter :: "env \<Rightarrow> evo_args \<Rightarrow> json \<Rightarrow> evo_run \<Rightarrow> unit io" where
  "claim_chapter E args fight_resp s =
     (if \<not> ea_no_auto_claim_reward args then
        let floor = (case er_tower_id s of Some tid \<Rightarrow> tid mod 10 + 1 | None \<Rightarrow> 0);
            just_won = (parse_evotower_fight_result fight_resp = Some True)
        in if just_won \<and> floor = 1 then io_bind (evotower_claimreward E (jobj [])) (\<lambda>_. io_return ()) else io_return ()
      else io_return ())"

text \<open>An accepted fight; \<open>Inr\<close> leaves the loop.\<close>
definition after_evo_fight :: "env \<Rightarrow> evo_args \<Rightarrow> string \<Rightarrow> json \<Rightarrow> evo_run \<Rightarrow> (evo_run + unit) io" where
  "after_evo_fight E args date_key fight_resp s =
     (let s = s\<lparr>er_climb_count := er_climb_count s + 1, er_failures := 0\<rparr>;
          rest = (\<lambda>s. io_bind (sleep (ea_interval_ms args)) (\<lambda>_. io_return (Inl s)))
      in if er_climb_count s mod max (ea_refresh_every args) 1 = 0 then
           io_bind (evotower_getinfo E) (\<lambda>r.
             case r of
               Inl e \<Rightarrow>
                 if is_evotower_terminal_error e then io_return (Inr ())
                 else io_bind (sleep 1000) (\<lambda>_. io_return (Inl s))
             | Inr info \<Rightarrow>
                 io_bind (claim_evo_task E args date_key info (note_evo_info info s)) (\<lambda>s.
                 io_bind (claim_chapter E args fight_resp s) (\<lambda>_. rest s)))
         else rest s)"

text \<open>A failure that counts: the limit ends the loop, before it the flow pauses.\<close>
definition evo_failure :: "evo_args \<Rightarrow> nat \<Rightarrow> evo_run \<Rightarrow> (evo_run + unit) io" where
  "evo_failure args pause s =
     (let s = s\<lparr>er_failures := er_failures s + 1\<rparr> in
      if max (ea_failure_limit args) 1 \<le> er_failures s then io_return (Inr ())
      else io_bind (sleep pause) (\<lambda>_. io_return (Inl s)))"

definition evo_fight :: "env \<Rightarrow> evo_args \<Rightarrow> string \<Rightarrow> evo_run \<Rightarrow> (evo_run + unit) io" where
  "evo_fight E args date_key s =
     io_bind (evotower_fight E (jobj [(''battleNum'', jnum 1), (''winNum'', jnum 1)])) (\<lambda>r.
       case r of
         Inr fight_resp \<Rightarrow> after_evo_fight E args date_key fight_resp s
       | Inl e \<Rightarrow>
           if is_evotower_terminal_error e then io_return (Inr ())
           else evo_failure args (if extract_code_from_error e = Some 200400 then 3000 else 1000) s)"

text \<open>The fight is not ready.\<close>
definition evo_not_ready :: "evo_args \<Rightarrow> string \<Rightarrow> evo_run \<Rightarrow> (evo_run + unit) io" where
  "evo_not_ready args e s =
     (if is_evotower_terminal_error e then io_return (Inr ()) else evo_failure args 1000 s)"

definition evotower_round :: "env \<Rightarrow> evo_args \<Rightarrow> string \<Rightarrow> evo_run \<Rightarrow> (evo_run + unit) io" where
  "evotower_round E args date_key s =
     (if er_climb_count s < ea_max_climb args then
        if er_energy s \<le> 0 then io_return (Inr ())
        else io_bind (evotower_readyfight E (jobj [])) (\<lambda>r.
          case r of
            Inr _ \<Rightarrow> evo_fight E args date_key s
          | Inl e \<Rightarrow>
              if extract_code_from_error e = Some 12200020 then
                io_bind (recover_evotower_pending_reward E args date_key s) (\<lambda>(recovered, s).
                  if recovered then io_return (Inl s) else evo_not_ready args e s)
              else evo_not_ready args e s)
      else io_return (Inr ()))"

text \<open>\<open>Local::now().format("%y%m%d")\<close>\<close>
definition date_key_of :: "env \<Rightarrow> local_now \<Rightarrow> string" where
  "date_key_of E now = (case ymd E (ln_day now) of (y, m, d) \<Rightarrow> pad2 (nat (y mod 100)) @ pad2 m @ pad2 d)"

definition run_evotower_flow :: "env \<Rightarrow> evo_args \<Rightarrow> group_order \<Rightarrow> unit res io" where
  "run_evotower_flow E args order =
     io_bind (evotower_getinfo E) (\<lambda>r.
       case r of
         Inl e \<Rightarrow> io_return (if is_evotower_not_open_error e then Ok () else Err (''Failed to get evotower info: '' @ e))
       | Inr info \<Rightarrow>
           io_bind (read_local E) (\<lambda>now.
           let date_key = date_key_of E now in
           io_bind (recover_evotower_pending_reward E args date_key
               \<lparr>er_energy = unwrap_or (get_evo_energy info) 0, er_tower_id = get_evo_tower_id info,
                er_claimed = collect_claimed_evotower_tasks info date_key, er_climb_count = 0, er_failures = 0\<rparr>) (\<lambda>(_, s).
           io_bind (if er_energy s \<le> 0 then io_return () else io_loop (evotower_round E args date_key) s) (\<lambda>_.
           io_bind (run_merge_once E args order) (\<lambda>_. io_return (Ok ()))))))"

definition run_evotower :: "env \<Rightarrow> cli \<Rightarrow> evo_args \<Rightarrow> group_order \<Rightarrow> unit res io" where
  "run_evotower E ctx args order =
     io_bind (open_role E ctx False (ea_bin args) (ea_server_id args)) (\<lambda>r.
       case r of
         Inl e \<Rightarrow> io_return (Err e)
       | Inr _ \<Rightarrow>
           run_in_formation E ctx Evotower (ea_bin args) (ea_server_id args) (run_evotower_flow E args order))"

end
