(* ===== verification/Cli_Facts.thy ===== *)
theory Cli_Facts
  imports Cli_Evotower Rounds_Facts
begin

text \<open>
  The climbs of the command line: which commands they send, that the formation is given back whatever the climb's
  outcome, when they return, and which tasks of the evo tower they can claim.
\<close>

section \<open>Commands sent\<close>

lemma tower_flow_emits [emits_rules]:
  "{''role_getroleinfo'', ''tower_getinfo'', ''tower_claimreward'', ''fight_starttower''} \<subseteq> S \<Longrightarrow>
   obeys (extends (GameApi.requests S)) (run_tower_flow E args)"
  unfolding run_tower_flow_def tower_round_def after_climb_def after_refusal_def refetch_def claim_pending_def
    fetch_role_info_def api_defs Let_def
  by (intro emits_rules; simp)

lemma merge_emits [emits_rules]:
  assumes "{''mergebox_getinfo'', ''mergebox_automergeitem'', ''mergebox_mergeitem'', ''mergebox_claimcostprogress'',
      ''mergebox_claimmergeprogress''} \<subseteq> S"
  shows "obeys (extends (GameApi.requests S)) (run_merge_once E args order)"
proof -
  have turn: "obeys (extends (GameApi.requests S)) (merge_turn E args order)"
    using assms
    unfolding merge_turn_def claim_merge_progress_rewards_def claim_merge_task_def merge_pair_def api_defs Let_def
    by (intro emits_rules; simp)
  have "obeys (extends (GameApi.requests S)) (merge_turns E args order n)" for n
    by (induction n) (auto simp only: merge_turns.simps intro!: emits_rules turn)
  then show ?thesis using assms unfolding run_merge_once_def api_defs by (intro emits_rules) simp_all
qed

lemma recover_emits [emits_rules]:
  "{''evotower_getinfo'', ''evotower_claimreward''} \<subseteq> S \<Longrightarrow>
   obeys (extends (GameApi.requests S)) (recover_evotower_pending_reward E args date_key s)"
  unfolding recover_evotower_pending_reward_def refresh_evo_def api_defs by (intro emits_rules; simp)

lemma chapter_emits [emits_rules]:
  "''evotower_claimreward'' \<in> S \<Longrightarrow> obeys (extends (GameApi.requests S)) (claim_chapter E args resp s)"
  unfolding claim_chapter_def api_defs Let_def by (intro emits_rules; simp)

lemma task_emits [emits_rules]:
  "''evotower_claimtask'' \<in> S \<Longrightarrow> obeys (extends (GameApi.requests S)) (claim_evo_task E args date_key info s)"
  unfolding claim_evo_task_def Let_def by (intro emits_rules; simp)

lemma failure_emits [emits_rules]:
  "obeys (extends (GameApi.requests S)) (evo_failure args pause s)" "obeys (extends (GameApi.requests S)) (evo_not_ready args e s)"
  unfolding evo_failure_def evo_not_ready_def Let_def by (intro emits_rules; simp)+

lemma evotower_flow_emits [emits_rules]:
  assumes "{''evotower_getinfo'', ''evotower_claimreward'', ''evotower_claimtask'', ''evotower_readyfight'',
      ''evotower_fight'', ''mergebox_getinfo'', ''mergebox_automergeitem'', ''mergebox_mergeitem'',
      ''mergebox_claimcostprogress'', ''mergebox_claimmergeprogress''} \<subseteq> S"
  shows "obeys (extends (GameApi.requests S)) (run_evotower_flow E args order)"
  using assms unfolding run_evotower_flow_def evotower_round_def evo_fight_def after_evo_fight_def Let_def api_defs
  by (intro emits_rules; simp)

section \<open>Giving the formation back\<close>

definition ask_team :: event where
  "ask_team = Request ''presetteam_getinfo'' (jobj []) T_DEFAULT"

text \<open>What becomes of the formation in a session from \<open>g\<close> to \<open>g'\<close> that ends with \<open>x\<close>.  Either no team is ever set; or the
  team in use was another one, the target is set, and the command ends there if that is refused; or, after the flow, the
  server is asked again, and the session ends with the first team set again unless it is the one in use.  The outcome is
  a success only if the first team is in use in the end.\<close>
definition formation_given_back :: "env \<Rightarrow> nat \<Rightarrow> game \<Rightarrow> unit res \<Rightarrow> game \<Rightarrow> bool" where
  "formation_given_back E target g x g' =
     (extends (GameApi.requests others) g g' \<or>
      (\<exists>pre info. list_all (GameApi.requests others) pre \<and> answer E (ws g @ pre) = Ok info \<and> team_in_use info \<noteq> target \<and>
         (let tr = ws g @ pre @ [save_team target] in
          (\<not> is_ok (answer E tr) \<and> \<not> is_ok x \<and> ws g' = tr) \<or>
          (\<exists>mid. list_all (GameApi.requests others) mid \<and>
             (let tr = tr @ mid @ [ask_team]; again = tr @ [save_team (team_in_use info)] in
              case answer E tr of
                Inl e \<Rightarrow> \<not> is_ok x \<and> ws g' = tr @ [Disconnect]
              | Inr info' \<Rightarrow>
                  if team_in_use info' = team_in_use info then ws g' = tr @ [Disconnect]
                  else ws g' = again @ [Disconnect] \<and> (is_ok x \<longrightarrow> is_ok (answer E again)))))))"

lemma ask_step:
  "get_current_team_id E g = Some (case answer E (ws g @ [ask_team]) of Inl e \<Rightarrow> Inl e | Inr info \<Rightarrow> Inr (team_in_use info),
     happen ask_team g)"
  by (simp add: get_current_team_id_def current_team_id_def api_defs cmd_def cmd_with_timeout_def send_with_response_def
      Let_def ask_team_def io_bind_def split: sum.split)

lemma save_step:
  "presetteam_saveteam E team g = Some (answer E (ws g @ [save_team team]), happen (save_team team) g)"
  by (simp add: api_defs cmd_def cmd_with_timeout_def send_with_response_def Let_def save_team_def)

lemma ask_other [simp]: "GameApi.requests others ask_team"
  by (simp add: ask_team_def others_def)

lemma formation_bracket:
  assumes "run_in_formation E ctx context bin server_id flow g = Some (x, g')"
    and "obeys (extends (GameApi.requests others)) flow"
    and "load_config ctx = Ok config" "target = resolve_formation config bin server_id context"
  shows "formation_given_back E target g x g'"
proof (cases "answer E (ws g @ [ask_team])")
  case (Inl e)
  then show ?thesis
    using assms(1,3) by (auto simp: run_in_formation_def switch_formation_def ask_step io_bind_def formation_given_back_def extends_def)
next
  case (Inr info)
  obtain source where src: "resolve_formation_with_source config bin server_id context = (target, source)"
    using assms(4) by (metis prod.collapse resolve_formation_def)
  show ?thesis
  proof (cases "team_in_use info = target")
    case True
    with assms(1,3) Inr src obtain result h where f: "flow (happen ask_team g) = Some (result, h)"
      and g': "g' = happen Disconnect h"
      by (auto simp: run_in_formation_def switch_formation_def restore_formation_def ask_step io_bind_def split: option.splits)
    obtain es where "ws h = ws g @ ask_team # es" "list_all (GameApi.requests others) es"
      using obeysD [OF assms(2) f] by (auto simp: extends_def)
    then show ?thesis using g' by (simp add: formation_given_back_def extends_def)
  next
    case False
    let ?k = "happen (save_team target) (happen ask_team g)"
    note pre = exI [of _ "[ask_team]"]
    show ?thesis
    proof (cases "answer E (ws ?k)")
      case (Inl e)
      then show ?thesis
        using assms(1,3) Inr src False
        by (auto simp: run_in_formation_def switch_formation_def ask_step save_step io_bind_def formation_given_back_def
            Let_def intro!: pre)
    next
      case r: (Inr y)
      with assms(1,3) Inr src False obtain result h x' k where f: "flow ?k = Some (result, h)"
        and res: "restore_formation E context (Some (team_in_use info)) h = Some (x', k)" "g' = happen Disconnect k"
        and x: "x = (case result of Inl e \<Rightarrow> Inl e | Inr _ \<Rightarrow> x')"
        by (auto simp: run_in_formation_def switch_formation_def ask_step save_step io_bind_def split: option.splits)
      obtain mid where mid: "ws h = (ws g @ [ask_team] @ [save_team target]) @ mid" "list_all (GameApi.requests others) mid"
        using obeysD [OF assms(2) f] by (auto simp: extends_def)
      have x_ok: "is_ok x \<Longrightarrow> is_ok x'" using x by (auto split: sum.splits)
      have "case answer E (ws h @ [ask_team]) of
          Inl e \<Rightarrow> \<not> is_ok x \<and> ws g' = ws h @ [ask_team, Disconnect]
        | Inr info' \<Rightarrow> if team_in_use info' = team_in_use info then ws g' = ws h @ [ask_team, Disconnect]
            else ws g' = ws h @ [ask_team, save_team (team_in_use info), Disconnect] \<and>
              (is_ok x \<longrightarrow> is_ok (answer E (ws h @ [ask_team, save_team (team_in_use info)])))"
        using res x_ok
        by (auto simp: restore_formation_def ask_step save_step io_bind_def split: sum.splits if_splits)
      then show ?thesis
        using Inr False mid unfolding formation_given_back_def Let_def
        by (intro disjI2 pre exI [of _ info] conjI exI [of _ mid]) (auto split: sum.splits if_splits)
    qed
  qed
qed

lemma formation_given_back_extend:
  "extends (GameApi.requests others) g h \<Longrightarrow> formation_given_back E target h x k \<Longrightarrow> formation_given_back E target g x k"
proof -
  assume first: "extends (GameApi.requests others) g h" and rest: "formation_given_back E target h x k"
  obtain es where es: "ws h = ws g @ es" "list_all (GameApi.requests others) es" using first by (auto simp: extends_def)
  show ?thesis
  proof (cases "extends (GameApi.requests others) h k")
    case True
    with first have "extends (GameApi.requests others) g k" by (rule emitting.trans)
    then show ?thesis by (simp add: formation_given_back_def)
  next
    case False
    with rest obtain pre info where pre: "list_all (GameApi.requests others) pre" "answer E (ws h @ pre) = Ok info"
        "team_in_use info \<noteq> target"
      and more: "let tr = ws h @ pre @ [save_team target] in
          (\<not> is_ok (answer E tr) \<and> \<not> is_ok x \<and> ws k = tr) \<or>
          (\<exists>mid. list_all (GameApi.requests others) mid \<and>
             (let tr = tr @ mid @ [ask_team]; again = tr @ [save_team (team_in_use info)] in
              case answer E tr of
                Inl e \<Rightarrow> \<not> is_ok x \<and> ws k = tr @ [Disconnect]
              | Inr info' \<Rightarrow>
                  if team_in_use info' = team_in_use info then ws k = tr @ [Disconnect]
                  else ws k = again @ [Disconnect] \<and> (is_ok x \<longrightarrow> is_ok (answer E again))))"
      unfolding formation_given_back_def by blast
    have "list_all (GameApi.requests others) (es @ pre)" "answer E (ws g @ es @ pre) = Ok info" using pre es by simp_all
    then show ?thesis
      using pre(3) more es unfolding formation_given_back_def
      by (intro disjI2 exI [of _ "es @ pre"] exI [of _ info]) simp
  qed
qed

lemma open_role_emits: "obeys (extends (GameApi.requests others)) (open_role E ctx strict bin server_id)"
  unfolding open_role_def by (intro emits_rules; simp add: others_def)

lemma climb_flows_emit:
  "obeys (extends (GameApi.requests others)) (run_tower_flow E args)"
  "obeys (extends (GameApi.requests others)) (run_evotower_flow E eargs order)"
  by (rule tower_flow_emits evotower_flow_emits; simp add: others_def)+

text \<open>The whole commands, login included.\<close>
lemma commands_give_formation_back:
  assumes "load_config ctx = Ok config"
  shows "run_tower E ctx args g = Some (x, g') \<Longrightarrow>
      formation_given_back E (resolve_formation config (ta_bin args) (ta_server_id args) Tower) g x g'"
    and "run_evotower E ctx eargs order g = Some (x, g') \<Longrightarrow>
      formation_given_back E (resolve_formation config (ea_bin eargs) (ea_server_id eargs) Evotower) g x g'"
proof -
  have whole: "formation_given_back E (resolve_formation config bin server_id context) g x g'"
    if run: "io_bind (open_role E ctx False bin server_id) (\<lambda>r. case r of
          Inl e \<Rightarrow> io_return (Err e) | Inr _ \<Rightarrow> run_in_formation E ctx context bin server_id flow) g = Some (x, g')"
      and flow: "obeys (extends (GameApi.requests others)) flow" for bin server_id "context" flow
  proof -
    obtain r h where o: "open_role E ctx False bin server_id g = Some (r, h)"
      and rest: "(case r of Inl e \<Rightarrow> io_return (Err e)
         | Inr _ \<Rightarrow> run_in_formation E ctx context bin server_id flow) h = Some (x, g')"
      using run by (rule io_bind_cases)
    note first = obeysD [OF open_role_emits o]
    show ?thesis
    proof (cases r)
      case (Inl e)
      then have "g' = h" using rest by simp
      then show ?thesis using first by (simp add: formation_given_back_def)
    next
      case (Inr y)
      then have "run_in_formation E ctx context bin server_id flow h = Some (x, g')" using rest by simp
      from formation_given_back_extend [OF first formation_bracket [OF this flow assms refl]] show ?thesis .
    qed
  qed
  show "run_tower E ctx args g = Some (x, g') \<Longrightarrow>
      formation_given_back E (resolve_formation config (ta_bin args) (ta_server_id args) Tower) g x g'"
    unfolding run_tower_def by (erule whole [OF _ climb_flows_emit(1)])
  show "run_evotower E ctx eargs order g = Some (x, g') \<Longrightarrow>
      formation_given_back E (resolve_formation config (ea_bin eargs) (ea_server_id eargs) Evotower) g x g'"
    unfolding run_evotower_def by (erule whole [OF _ climb_flows_emit(2)])
qed

text \<open>C9: A climb from the command line gives the formation back.  In the session of a tower or an evo tower command after
  the login, for every server: either no team is ever set; or the command sets the configured team because another one
  was in use, and stops if that is refused; or it climbs, asks again which team is in use and sets the first one again
  unless it already is, whatever the climb ended with.  The command reports success only if the first team is in use in
  the end.\<close>
theorem cli_gives_formation_back:
  assumes "load_config ctx = Ok config"
  shows "(run_in_formation E ctx Tower bin server_id (run_tower_flow E args) g = Some (x, g') \<longrightarrow>
      formation_given_back E (resolve_formation config bin server_id Tower) g x g') \<and>
    (run_in_formation E ctx Evotower bin server_id (run_evotower_flow E eargs order) g = Some (x, g') \<longrightarrow>
      formation_given_back E (resolve_formation config bin server_id Evotower) g x g')"
  using formation_bracket [OF _ climb_flows_emit(1) assms refl] formation_bracket [OF _ climb_flows_emit(2) assms refl]
  by blast

text \<open>A server on which team 3 is in use until another one is set, and which accepts everything.\<close>
definition obedient_env :: env where
  "obedient_env = dead_env\<lparr>answer := (\<lambda>tr.
     if last tr = ask_team then Ok (Object [(''useTeamId'', jnum (if save_team 1 \<in> set tr then 1 else 3))]) else Ok Null)\<rparr>"

definition sample_cli :: cli where
  "sample_cli = \<lparr>cl_read = (\<lambda>_. Ok []), cl_load = Ok sample_config, cl_list_host = sample_host,
     cl_token_host = sample_host\<rparr>"

definition role_request :: event where
  "role_request = Request ''role_getroleinfo''
     (jobj [(''clientVersion'', Str ''2.21.2-fa918e1997301834-wx''), (''inviteUid'', jnum 0),
       (''platform'', Str ''hortor''), (''platformExt'', Str ''mix''), (''scene'', Str '''')]) T_DEFAULT"

lemma obedient_run:
  "run_in_formation obedient_env sample_cli Tower ''a.bin'' 77 (run_tower_flow obedient_env (tower_args_default ''a.bin'' 77))
     new_game =
   Some (Ok (), new_game\<lparr>ws := [ask_team, save_team 1, Request ''tower_getinfo'' (jobj []) T_DEFAULT, role_request,
     ask_team, save_team 3, Disconnect], role_info := Some Null\<rparr>)"
proof -
  have n: "as_nat (jnum n) = Some n" if "n < 10" for n
    using that by (simp add: as_nat_def jnum_def as_u64_def number_from_u64_def unat_word_of_nat)
  have team: "team_in_use (Object [(''useTeamId'', jnum n)]) = n" if "n < 10" for n
    using n [OF that] by (simp add: team_in_use_def jget_def)
  have target: "resolve_formation_with_source sample_config ''a.bin'' 77 Tower = (1, ''default'')"
    by (simp add: resolve_formation_with_source_def sample_config_def defaults_resolve_def)
  have different: "save_team t \<noteq> ask_team" "role_request \<noteq> ask_team" "Request ''tower_getinfo'' p ms \<noteq> ask_team"
    "role_request \<noteq> save_team t" "Request ''tower_getinfo'' p ms \<noteq> save_team t" for t p ms
    by (simp_all add: save_team_def ask_team_def role_request_def)
  have ans: "answer obedient_env tr =
      (if last tr = ask_team then Ok (Object [(''useTeamId'', jnum (if save_team 1 \<in> set tr then 1 else 3))]) else Ok Null)" for tr
    by (simp add: obedient_env_def)
  have info: "tower_getinfo obedient_env g = Some (Ok Null, happen (Request ''tower_getinfo'' (jobj []) T_DEFAULT) g)"
    and role: "role_getroleinfo obedient_env g = Some (Ok Null, happen role_request g)" for g
    using different
    by (simp_all add: api_defs cmd_def cmd_with_timeout_def send_with_response_def Let_def ans role_request_def)
  show ?thesis
    by (simp add: run_in_formation_def load_config_def sample_cli_def switch_formation_def restore_formation_def ask_step
        save_step io_bind_def run_tower_flow_def fetch_role_info_def info role get_tower_energy_def ans team target
        different different [symmetric] new_game_def happen_def)
qed

theorem cli_gives_formation_back_witness:
  "formation_given_back obedient_env 1 new_game (Ok ()) (new_game\<lparr>ws := [ask_team, save_team 1,
     Request ''tower_getinfo'' (jobj []) T_DEFAULT, role_request, ask_team, save_team 3, Disconnect], role_info := Some Null\<rparr>)"
proof -
  have "load_config sample_cli = Ok sample_config" by (simp add: load_config_def sample_cli_def)
  moreover have "resolve_formation sample_config ''a.bin'' 77 Tower = 1"
    by (simp add: resolve_formation_def resolve_formation_with_source_def sample_config_def defaults_resolve_def)
  ultimately show ?thesis
    using conjunct1 [OF cli_gives_formation_back [of sample_cli sample_config obedient_env "''a.bin''" 77
          "tower_args_default ''a.bin'' 77" new_game "Ok ()"]] obedient_run by metis
qed

section \<open>Climbs that return\<close>

text \<open>A round that goes on has a smaller measure.\<close>
definition falls :: "('s \<Rightarrow> nat) \<Rightarrow> 's \<Rightarrow> 's + 'r \<Rightarrow> bool" where
  "falls m s r = (case r of Inl s' \<Rightarrow> m s' < m s | Inr _ \<Rightarrow> True)"

lemma falls_simps [simp]: "falls m s (Inl s') \<longleftrightarrow> m s' < m s" "falls m s (Inr x)"
  by (simp_all add: falls_def)

lemma falling_loop_returns:
  "(\<And>s. returns (body s)) \<Longrightarrow> (\<And>s. yields (falls m s) (body s)) \<Longrightarrow> returns (io_loop body s)"
  by (rule returns_loop [where measure_of = m]) (simp_all add: falls_def [abs_def])

definition tower_measure :: "tower_args \<Rightarrow> tower_run \<Rightarrow> nat" where
  "tower_measure args s = 4 * (ta_max_climb args - tr_climb_count s) + (3 - tr_failures s)"

lemma reread_simps [simp]:
  "tr_climb_count (reread g s) = tr_climb_count s" "tr_failures (reread g s) = tr_failures s"
  by (simp_all add: reread_def)

lemma tower_round_falls:
  assumes "fights_settle E"
  shows "yields (falls (tower_measure args) s) (tower_round E args s)"
proof (cases "tr_climb_count s < ta_max_climb args")
  case True
  have climb: "yields (falls (tower_measure args) s) (after_climb E args resp s)" for resp
    using True unfolding after_climb_def refetch_def Let_def
    by (intro yields_rules) (auto simp: tower_measure_def split: option.splits)
  have refusal: "yields (falls (tower_measure args) s) (after_refusal E args err s)"
    if "extract_code_from_error err \<notin> {Some 200400, Some 1500040}" for err
    using that unfolding after_refusal_def Let_def
    by (auto intro!: yields_rules simp: tower_measure_def)
  show ?thesis
    unfolding tower_round_def if_P [OF True]
    by (intro yields_shapes(1) yields_bind_with [OF fight_settles [OF assms]])
      (auto simp: yields_return intro: climb refusal split: sum.splits)
next
  case False
  then show ?thesis unfolding tower_round_def by (simp add: yields_return)
qed

lemma tower_round_returns: "returns (tower_round E args s)"
  unfolding tower_round_def after_climb_def after_refusal_def refetch_def claim_pending_def fetch_role_info_def api_defs Let_def
  by (intro returns_rules)

lemma tower_flow_returns: "fights_settle E \<Longrightarrow> returns (run_tower_flow E args)"
  unfolding run_tower_flow_def fetch_role_info_def api_defs Let_def
  by (intro returns_rules falling_loop_returns [OF tower_round_returns tower_round_falls])

text \<open>A fight is never called not ready because a chapter's reward is pending (12200020).\<close>
definition ready_settles :: "env \<Rightarrow> bool" where
  "ready_settles E = (\<forall>tr params e. answer E (tr @ [Request ''evotower_readyfight'' params T_DEFAULT]) = Inl e \<longrightarrow>
     extract_code_from_error e \<noteq> Some 12200020)"

definition evo_measure :: "evo_args \<Rightarrow> evo_run \<Rightarrow> nat" where
  "evo_measure args s =
     (max (ea_failure_limit args) 1 + 1) * (ea_max_climb args - er_climb_count s)
     + (max (ea_failure_limit args) 1 - er_failures s)"

lemma note_simps [simp]:
  "er_climb_count (note_evo_info info s) = er_climb_count s" "er_failures (note_evo_info info s) = er_failures s"
  "er_climb_count (note_claimed info date_key s) = er_climb_count s"
  "er_failures (note_claimed info date_key s) = er_failures s"
  by (simp_all add: note_evo_info_def note_claimed_def)

lemma claim_task_keeps:
  "yields (\<lambda>s'. er_climb_count s' = er_climb_count s \<and> er_failures s' = er_failures s) (claim_evo_task E args date_key info s)"
  unfolding claim_evo_task_def Let_def by (intro yields_rules) (auto split: sum.splits)

lemma ready_settled:
  assumes "ready_settles E"
  shows "yields (\<lambda>r. \<forall>e. r = Inl e \<longrightarrow> extract_code_from_error e \<noteq> Some 12200020) (evotower_readyfight E params)"
  using assms
  by (auto simp: yields_def ready_settles_def api_defs cmd_def cmd_with_timeout_def send_with_response_def Let_def)

lemma climbed_measure:
  assumes "er_climb_count s < ea_max_climb args"
    and "er_climb_count s' = Suc (er_climb_count s)" "er_failures s' = 0"
  shows "evo_measure args s' < evo_measure args s"
proof -
  obtain d where d: "ea_max_climb args - er_climb_count s = Suc d" "ea_max_climb args - er_climb_count s' = d"
    using assms(1,2) by (metis Suc_diff_Suc)
  then show ?thesis using assms(3) by (simp add: evo_measure_def max_def)
qed

lemma evotower_round_falls:
  assumes "ready_settles E"
  shows "yields (falls (evo_measure args) s) (evotower_round E args date_key s)"
proof (cases "er_climb_count s < ea_max_climb args")
  case True
  have failure: "yields (falls (evo_measure args) s) (evo_failure args pause s)" for pause
    unfolding evo_failure_def Let_def by (intro yields_rules) (auto simp: evo_measure_def)
  have fought: "yields (falls (evo_measure args) s) (after_evo_fight E args date_key resp s)" for resp
    using True unfolding after_evo_fight_def Let_def
    by (intro yields_rules yields_bind_with [OF claim_task_keeps]) (auto intro!: climbed_measure)
  have fight: "yields (falls (evo_measure args) s) (evo_fight E args date_key s)"
    unfolding evo_fight_def by (intro yields_rules fought failure) simp
  show ?thesis
    unfolding evotower_round_def if_P [OF True] evo_not_ready_def
    by (intro yields_shapes(1) yields_bind_with [OF ready_settled [OF assms]])
      (auto simp: yields_return intro: fight failure split: sum.splits)
next
  case False
  then show ?thesis unfolding evotower_round_def by (simp add: yields_return)
qed

lemma merge_returns [returns_rules]: "returns (run_merge_once E args order)"
proof -
  have turn: "returns (merge_turn E args order)"
    unfolding merge_turn_def claim_merge_progress_rewards_def claim_merge_task_def merge_pair_def api_defs Let_def
    by (intro returns_rules)
  have "returns (merge_turns E args order n)" for n
    by (induction n) (auto simp only: merge_turns.simps intro!: returns_rules turn)
  then show ?thesis unfolding run_merge_once_def api_defs by (intro returns_rules)
qed

lemma recover_returns [returns_rules]: "returns (recover_evotower_pending_reward E args date_key s)"
  unfolding recover_evotower_pending_reward_def refresh_evo_def api_defs by (intro returns_rules)

lemma evotower_round_returns: "returns (evotower_round E args date_key s)"
  unfolding evotower_round_def evo_fight_def after_evo_fight_def evo_not_ready_def evo_failure_def claim_evo_task_def
    claim_chapter_def api_defs Let_def
  by (intro returns_rules)

lemma evotower_flow_returns: "ready_settles E \<Longrightarrow> returns (run_evotower_flow E args order)"
  unfolding run_evotower_flow_def api_defs Let_def
  by (intro returns_rules falling_loop_returns [OF evotower_round_returns evotower_round_falls])

text \<open>The climbs of the command line return, whatever else the server does, with any arguments: the tower's unless a
  fight is answered with "too fast" (200400) or with an unclaimed reward (1500040), the evo tower's unless a fight is not
  ready because a chapter's reward is pending (12200020).  Every other answer counts as a climb or as a failure in a
  row, and both are limited.\<close>
theorem cli_climbs_return:
  assumes "fights_settle E" "ready_settles E"
  shows "returns (run_tower_flow E args) \<and> returns (run_evotower_flow E eargs order)"
  using tower_flow_returns [OF assms(1)] evotower_flow_returns [OF assms(2)] by blast

lemma dead_ready: "ready_settles dead_env"
proof -
  have "extract_code_from_error ''Timeout after 8000ms'' = None"
    by (simp add: extract_code_from_error_def starts_with_def)
  then show ?thesis by (auto simp: ready_settles_def dead_env_def)
qed

theorem cli_climbs_return_witness:
  "returns (run_tower_flow dead_env (tower_args_default ''a.bin'' 77)) \<and>
   returns (run_evotower_flow dead_env (evo_args_default ''a.bin'' 77) rev)"
  by (rule cli_climbs_return [OF dead_settles dead_ready])

section \<open>The third task\<close>

definition task_request :: "nat \<Rightarrow> event \<Rightarrow> bool" where
  "task_request t e = (\<exists>ms. e = Request ''evotower_claimtask'' (jobj [(''taskId'', jnum t)]) ms)"

abbreviation no_third :: "event \<Rightarrow> bool" where
  "no_third e \<equiv> \<not> task_request 3 e"

lemma other_commands: "GameApi.requests (- {''evotower_claimtask''}) e \<Longrightarrow> no_third e"
  by (auto simp: task_request_def)

lemma no_third_sleep [simp]: "no_third (Sleep ms)"
  by (simp add: task_request_def)

lemma early_tasks:
  assumes "claimtask_id_for_climb n = Some t" "n \<noteq> 10"
  shows "no_third (Request ''evotower_claimtask'' (jobj [(''taskId'', jnum t)]) ms)"
proof -
  have "jnum 1 \<noteq> jnum 3" "jnum 2 \<noteq> jnum 3" by (simp_all add: jnum_def number_from_u64_def)
  then show ?thesis using assms by (auto simp: claimtask_id_for_climb_def task_request_def jobj_def split: if_splits)
qed

lemma early_claims:
  assumes "er_climb_count s \<noteq> 10"
  shows "obeys (extends no_third) (claim_evo_task E args date_key info s)"
proof -
  have "er_climb_count (note_claimed info date_key s) \<noteq> 10" using assms by simp
  then show ?thesis
    unfolding claim_evo_task_def Let_def
    by (auto split: option.split simp del: note_simps intro!: emits_rules dest: early_tasks)
qed

lemma note_evo_climb: "er_climb_count (note_evo_info info s) = er_climb_count s"
  by simp

text \<open>C36: The third task of the evo tower is claimed after ten climbs, but the tasks are looked at only when the number
  of climbs is a multiple of \<open>refresh_every\<close>.  With the default of 3, as with every value that does not divide ten, a run of
  the subcommand never asks for the third task, whatever the server answers and however many climbs succeed.\<close>
theorem third_task_never_claimed:
  assumes "\<not> max (ea_refresh_every args) 1 dvd 10" "run_evotower_flow E args order g = Some (x, g')"
  shows "\<exists>es. ws g' = ws g @ es \<and> (\<forall>t. Request ''evotower_claimtask'' (jobj [(''taskId'', jnum 3)]) t \<notin> set es)"
proof -
  have others: "obeys (extends no_third) m" if "obeys (extends (GameApi.requests (- {''evotower_claimtask''}))) m"
    for m :: "'b io"
    using that other_commands by (rule extends_mono)
  have fought: "obeys (extends no_third) (after_evo_fight E args date_key resp s)" for date_key resp s
  proof -
    define s1 where "s1 = s\<lparr>er_climb_count := er_climb_count s + 1, er_failures := 0\<rparr>"
    have ten: "er_climb_count s1 \<noteq> 10" if "er_climb_count s1 mod max (ea_refresh_every args) 1 = 0"
      using that assms(1) by (auto simp: dvd_eq_mod_eq_0)
    have rewarded: "obeys (extends no_third) (claim_chapter E args resp s)" for s
      by (rule others [OF chapter_emits]) simp
    have info: "obeys (extends no_third) (evotower_getinfo E)"
      by (rule others) (simp add: api_defs emits_rules)
    show ?thesis
      unfolding after_evo_fight_def Let_def s1_def [symmetric]
      by (intro emits_rules info rewarded early_claims) (use assms(1) in \<open>auto dest: ten\<close>)
  qed
  have loop: "obeys (extends no_third) (evotower_round E args date_key s)" for date_key s
    unfolding evotower_round_def evo_fight_def evo_not_ready_def api_defs Let_def
    by (intro emits_rules fought others [OF recover_emits] others [OF failure_emits(1)] others [OF cmd_emits(2)])
      (auto simp: task_request_def)
  have "obeys (extends no_third) (run_evotower_flow E args order)"
    unfolding run_evotower_flow_def api_defs Let_def
    by (intro emits_rules others [OF recover_emits] others [OF merge_emits] others [OF cmd_emits(2)] loop)
      (auto simp: task_request_def)
  from obeysD [OF this assms(2)] show ?thesis
    by (auto simp: extends_def list_all_iff task_request_def)
qed

text \<open>A server that grants every fight.\<close>
definition generous_env :: env where
  "generous_env = dead_env\<lparr>answer := (\<lambda>tr. case last tr of
     Request name params ms \<Rightarrow>
       if name = ''evotower_getinfo''
       then Ok (Object [(''evoTower'', Object [(''energy'', jnum 20), (''taskClaimMap'', Object []), (''towerId'', jnum 12)])])
       else Ok (Object [(''winList'', Array [Bool True])])
   | _ \<Rightarrow> Ok Null)\<rparr>"

theorem third_task_never_claimed_witness:
  "\<exists>x g' es. run_evotower_flow generous_env (evo_args_default ''a.bin'' 77) rev new_game = Some (x, g') \<and>
     ws g' = es \<and> (\<forall>t. Request ''evotower_claimtask'' (jobj [(''taskId'', jnum 3)]) t \<notin> set es)"
proof -
  have "ready_settles generous_env" by (simp add: ready_settles_def generous_env_def)
  then obtain x g' where run: "run_evotower_flow generous_env (evo_args_default ''a.bin'' 77) rev new_game = Some (x, g')"
    using evotower_flow_returns by (fastforce simp: returns_def)
  have "\<not> max (ea_refresh_every (evo_args_default ''a.bin'' 77)) 1 dvd 10" by (simp add: evo_args_default_def)
  from third_task_never_claimed [OF this run] run show ?thesis by (auto simp: new_game_def)
qed

end
