(* ===== verification/Cli_Monthly.thy ===== *)
theory Cli_Monthly
  imports Cli_Tower
begin

text \<open>
  \<open>src/src/cli_monthly.rs\<close>: the subcommand that shows the monthly progress in fishing and in the arena, or tops it up to
  the day's share of the target.  Numbers are \<open>u32\<close> in the source; none of them leaves that range here.  The printed
  lines, and what only they read, are left out.
\<close>

section \<open>Progress\<close>

definition FISH_TARGET :: nat where "FISH_TARGET = 320"
definition ARENA_TARGET :: nat where "ARENA_TARGET = 240"

datatype monthly_mode = Mode_Fish | Mode_Arena | Mode_All

record monthly_args =
  ma_bin :: string
  ma_server_id :: nat
  ma_mode :: monthly_mode
  ma_topup :: bool
  ma_complete :: bool
  ma_arena_safety_max :: nat
  ma_fish_batch_size :: nat
  ma_no_claim_fish_point :: bool

text \<open>The arguments when only the role is given.\<close>
definition monthly_args_default :: "string \<Rightarrow> nat \<Rightarrow> monthly_args" where
  "monthly_args_default bin server_id = \<lparr>ma_bin = bin, ma_server_id = server_id, ma_mode = Mode_All, ma_topup = False,
     ma_complete = False, ma_arena_safety_max = 100, ma_fish_batch_size = 10, ma_no_claim_fish_point = False\<rparr>"

record progress_line =
  pl_current :: nat
  pl_progress_target :: nat
  pl_full_target :: nat
  pl_need :: nat
  pl_full_need :: nat

record monthly_query =
  mq_year :: int
  mq_month :: nat
  mq_day_of_month :: nat
  mq_days_in_month :: nat
  mq_progress_ratio :: f64
  mq_fish_tickets :: nat
  mq_arena_tickets :: nat
  mq_fish :: progress_line
  mq_arena :: progress_line

text \<open>\<open>f64::clamp(0.0, 1.0)\<close> and \<open>f64::ceil\<close> with the cast \<open>as u32\<close>.\<close>
definition f64_clamp01 :: "f64 \<Rightarrow> f64" where
  "f64_clamp01 x = (if f64_lt x 0 then 0 else if f64_lt (u64_to_f64 1) x then u64_to_f64 1 else x)"

definition f64_ceil_as_u32 :: "f64 \<Rightarrow> nat" where
  "f64_ceil_as_u32 x = (if f64_nan x then 0 else nat (min (2 ^ 32 - 1) (- (- f64_units x div 2 ^ 1074))))"

definition build_progress_line :: "nat \<Rightarrow> nat \<Rightarrow> f64 \<Rightarrow> bool \<Rightarrow> bool \<Rightarrow> progress_line" where
  "build_progress_line cur full_target ratio complete is_last_day =
     (let progress_target = (if complete \<or> is_last_day then full_target
            else min (f64_ceil_as_u32 (f64_mul ratio (u64_to_f64 (word_of_nat full_target)))) full_target)
      in \<lparr>pl_current = cur, pl_progress_target = progress_target, pl_full_target = full_target,
          pl_need = progress_target - cur, pl_full_need = full_target - cur\<rparr>)"

text \<open>The day before the first of the next month; \<open>None\<close> when \<open>chrono\<close> has no such date.\<close>
definition last_day_of_month :: "env \<Rightarrow> int \<Rightarrow> nat \<Rightarrow> nat option" where
  "last_day_of_month E year month =
     map_option (\<lambda>d. case ymd E (d - 1) of (_, _, day) \<Rightarrow> day)
       (if month = 12 then day_of_ymd E (year + 1) 1 1 else day_of_ymd E year (month + 1) 1)"

definition calculate_month_progress :: "env \<Rightarrow> local_now \<Rightarrow> (nat \<times> nat \<times> f64) option" where
  "calculate_month_progress E now =
     (case ymd E (ln_day now) of (year, month, day_of_month) \<Rightarrow>
      map_option (\<lambda>days_in_month. (day_of_month, days_in_month,
          f64_clamp01 (f64_div (u64_to_f64 (word_of_nat day_of_month)) (u64_to_f64 (word_of_nat days_in_month)))))
        (last_day_of_month E year month))"

definition activity_part :: "json \<Rightarrow> json" where
  "activity_part resp = unwrap_or (jget resp ''activity'') resp"

definition fish_points :: "json \<Rightarrow> nat" where
  "fish_points activity =
     nat_as_u32 (unwrap_or
       (Option.bind (or_else (pointer [''myMonthInfo'', ''2'', ''num''] activity) (pointer [''myMonthInfo'', []] activity))
          (\<lambda>_. Option.bind (jget activity ''myMonthInfo'') (\<lambda>v. Option.bind (jget v ''2'') (\<lambda>v.
               Option.bind (jget v ''num'') as_nat)))) 0)"

definition arena_points :: "json \<Rightarrow> nat" where
  "arena_points activity = nat_as_u32 (unwrap_or (Option.bind (pointer [''myArenaInfo'', ''num''] activity) as_nat) 0)"

text \<open>The quantity of an item in the role info, if it is told: 1011 are the rods, 1007 the arena tickets.\<close>
definition item_quantity :: "string \<Rightarrow> json \<Rightarrow> nat option" where
  "item_quantity item info =
     Option.bind (or_else (pointer [''role'', ''items'', item, ''quantity''] info) (pointer [''items'', item, ''quantity''] info))
       as_nat"

definition rods :: "json \<Rightarrow> nat" where
  "rods info = nat_as_u32 (unwrap_or (item_quantity ''1011'' info) 0)"

definition arena_tickets :: "json \<Rightarrow> nat" where
  "arena_tickets info = nat_as_u32 (unwrap_or (item_quantity ''1007'' info) 0)"

definition query_monthly_progress :: "env \<Rightarrow> bool \<Rightarrow> monthly_query res io" where
  "query_monthly_progress E complete =
     io_bind (read_local E) (\<lambda>now. io_bind (activity_get E) (\<lambda>r.
       case r of
         Inl e \<Rightarrow> io_return (Err e)
       | Inr resp \<Rightarrow>
           io_bind (role_getroleinfo E) (\<lambda>r.
             case r of
               Inl e \<Rightarrow> io_return (Err e)
             | Inr info \<Rightarrow>
                 io_bind (set_role_info info) (\<lambda>_.
                 io_bind (expect (calculate_month_progress E now)) (\<lambda>(day_of_month, days_in_month, ratio).
                 let activity = activity_part resp; last_day = (day_of_month = days_in_month) in
                   io_return (Ok \<lparr>mq_year = fst (ymd E (ln_day now)), mq_month = fst (snd (ymd E (ln_day now))),
                     mq_day_of_month = day_of_month, mq_days_in_month = days_in_month, mq_progress_ratio = ratio,
                     mq_fish_tickets = rods info, mq_arena_tickets = arena_tickets info,
                     mq_fish = build_progress_line (fish_points activity) FISH_TARGET ratio complete last_day,
                     mq_arena = build_progress_line (arena_points activity) ARENA_TARGET ratio complete last_day\<rparr>))))))"

section \<open>Fishing\<close>

definition wanted :: "monthly_args \<Rightarrow> progress_line \<Rightarrow> nat" where
  "wanted args line = (if ma_complete args then pl_full_need line else pl_need line)"

text \<open>The midnight before \<open>now\<close>, the fields set to zero one after the other: each step has to give a time that the
  time zone has, and has once.\<close>
definition local_midnight :: "env \<Rightarrow> local_now \<Rightarrow> int option" where
  "local_midnight E now =
     Option.bind (unix_of E (ln_day now) (ln_minute now * 60 + ln_second now)) (\<lambda>_.
     Option.bind (unix_of E (ln_day now) (ln_second now)) (\<lambda>_.
       unix_of E (ln_day now) 0))"

text \<open>\<open>cli_monthly\<close> has a test of its own for a time of today.\<close>
definition free_draws_open :: "env \<Rightarrow> int \<Rightarrow> bool io" where
  "free_draws_open E last_time_sec =
     (if last_time_sec \<le> 0 then io_return True
      else io_bind (read_local E) (\<lambda>now. io_bind (expect (local_midnight E now)) (\<lambda>start_of_day.
             io_return (last_time_sec < start_of_day))))"

text \<open>At most \<open>n\<close> free draws; the number used.\<close>
fun free_draws :: "env \<Rightarrow> nat \<Rightarrow> nat \<Rightarrow> nat \<Rightarrow> nat io" where
  "free_draws E remaining 0 free_used = io_return free_used"
| "free_draws E remaining (Suc n) free_used =
     (if remaining \<le> free_used then io_return free_used
      else io_bind (artifact_lottery E) (\<lambda>r.
        case r of
          Inl e \<Rightarrow> io_return free_used
        | Inr _ \<Rightarrow> io_bind (sleep 500) (\<lambda>_. free_draws E remaining n (free_used + 1))))"

record fishing =
  fs_remaining :: nat
  fs_rod_count :: nat
  fs_paid :: nat

definition paid_params :: "nat \<Rightarrow> json" where
  "paid_params batch = jobj [(''lotteryNumber'', jnum batch), (''newFree'', Bool True), (''type'', jnum 1)]"

text \<open>Every fifty rods the number left is read again, and never more is fished than there is.\<close>
definition sync_rods :: "env \<Rightarrow> fishing \<Rightarrow> fishing io" where
  "sync_rods E s =
     (if 0 < fs_remaining s \<and> 0 < fs_paid s \<and> fs_paid s mod 50 = 0 then
        io_bind (role_getroleinfo E) (\<lambda>r. io_return (case r of
            Inl e \<Rightarrow> s
          | Inr info \<Rightarrow>
              let rod_count = nat_as_u32 (unwrap_or (item_quantity ''1011'' info) (fs_rod_count s)) in
              s\<lparr>fs_rod_count := rod_count, fs_remaining := min (fs_remaining s) rod_count\<rparr>))
      else io_return s)"

definition paid_round :: "env \<Rightarrow> monthly_args \<Rightarrow> fishing \<Rightarrow> (fishing + unit) io" where
  "paid_round E args s =
     (if 0 < fs_remaining s then
        let batch = min (fs_remaining s) (max (ma_fish_batch_size args) 1) in
        io_bind (send_with_response E ''artifact_lottery'' (paid_params batch) 12000) (\<lambda>r.
          case r of
            Inl e \<Rightarrow> io_return (Inr ())
          | Inr _ \<Rightarrow>
              io_bind (sync_rods E (s\<lparr>fs_remaining := fs_remaining s - batch, fs_paid := fs_paid s + batch\<rparr>)) (\<lambda>s.
              io_bind (sleep 800) (\<lambda>_. io_return (Inl s))))
      else io_return (Inr ()))"

text \<open>The rewards of the points, twenty points each, until one is refused.\<close>
fun exchange_points :: "env \<Rightarrow> nat \<Rightarrow> unit io" where
  "exchange_points E 0 = io_return ()"
| "exchange_points E (Suc n) =
     io_bind (artifact_exchange E (jobj [])) (\<lambda>r.
       case r of Inl e \<Rightarrow> io_return () | Inr _ \<Rightarrow> io_bind (sleep 500) (\<lambda>_. exchange_points E n))"

definition artifact_points :: "json \<Rightarrow> nat" where
  "artifact_points info =
     nat_as_u32 (unwrap_or (Option.bind (or_else (pointer [''role'', ''statistics'', ''artifact:point''] info)
       (pointer [''statistics'', ''artifact:point''] info)) as_nat) 0)"

definition claim_fish_points :: "env \<Rightarrow> monthly_args \<Rightarrow> unit res io" where
  "claim_fish_points E args =
     (if ma_no_claim_fish_point args then io_return (Ok ())
      else io_bind (role_getroleinfo E) (\<lambda>r.
        case r of
          Inl e \<Rightarrow> io_return (Err e)
        | Inr info \<Rightarrow> io_bind (exchange_points E (artifact_points info div 20)) (\<lambda>_. io_return (Ok ()))))"

text \<open>The paid part, for what is still wanted after the free draws.\<close>
definition paid_topup :: "env \<Rightarrow> monthly_args \<Rightarrow> nat \<Rightarrow> unit res io" where
  "paid_topup E args remaining =
     io_bind (role_getroleinfo E) (\<lambda>r.
       case r of
         Inl e \<Rightarrow> io_return (Err e)
       | Inr info \<Rightarrow>
           if min remaining (rods info) = 0 then io_return (Ok ())
           else
             io_bind (io_loop (paid_round E args)
                 \<lparr>fs_remaining = min remaining (rods info), fs_rod_count = rods info, fs_paid = 0\<rparr>) (\<lambda>_.
             io_bind (claim_fish_points E args) (\<lambda>r.
               case r of
                 Inl e \<Rightarrow> io_return (Err e)
               | Inr _ \<Rightarrow> io_bind (query_monthly_progress E (ma_complete args)) (\<lambda>r.
                     io_return (case r of Inl e \<Rightarrow> Err e | Inr _ \<Rightarrow> Ok ())))))"

definition last_free_time :: "json \<Rightarrow> int" where
  "last_free_time info =
     unwrap_or (Option.bind (or_else (pointer [''role'', ''statisticsTime'', ''artifact:normal:lottery:time''] info)
       (pointer [''statisticsTime'', ''artifact:normal:lottery:time''] info)) as_int) 0"

definition run_monthly_fish_topup :: "env \<Rightarrow> monthly_query \<Rightarrow> monthly_args \<Rightarrow> unit res io" where
  "run_monthly_fish_topup E query args =
     (let remaining = wanted args (mq_fish query) in
      if remaining = 0 then io_return (Ok ())
      else
        io_bind (role_getroleinfo E) (\<lambda>r.
          case r of
            Inl e \<Rightarrow> io_return (Err e)
          | Inr info \<Rightarrow>
              io_bind (set_role_info info) (\<lambda>_.
              io_bind (free_draws_open E (last_free_time info)) (\<lambda>free.
              io_bind (if free then free_draws E remaining 3 0 else io_return 0) (\<lambda>free_used.
              io_bind (query_monthly_progress E (ma_complete args)) (\<lambda>r.
                case r of
                  Inl e \<Rightarrow> io_return (Err e)
                | Inr refreshed \<Rightarrow>
                    let remaining = wanted args (mq_fish refreshed) in
                    if remaining = 0 then io_return (Ok ()) else paid_topup E args remaining))))))"

section \<open>The arena\<close>

definition first_id :: "json \<Rightarrow> nat option" where
  "first_id candidate =
     Option.bind (or_else (or_else (jget candidate ''roleId'') (jget candidate ''id'')) (jget candidate ''targetId'')) as_nat"

text \<open>The opponent offered: the first of an array, else the first of the known lists that has a number, else the
  answer itself.\<close>
definition pick_arena_target_id :: "json \<Rightarrow> nat option" where
  "pick_arena_target_id targets =
     (case targets of
        Array (candidate # _) \<Rightarrow> first_id candidate
      | _ \<Rightarrow>
          (case List.map_filter (\<lambda>l. Option.bind (pointer [l, ''0''] targets) first_id)
                  [''rankList'', ''roleList'', ''targets'', ''targetList'', ''list''] of
             target_id # _ \<Rightarrow> Some target_id
           | [] \<Rightarrow> first_id targets))"

record arena_run =
  ar_remaining :: nat
  ar_tickets :: nat
  ar_safety :: nat
  ar_interrupted :: bool

text \<open>\<open>for _ in 0..plan_fights\<close>\<close>
fun arena_bouts :: "env \<Rightarrow> nat \<Rightarrow> nat \<Rightarrow> arena_run \<Rightarrow> arena_run io" where
  "arena_bouts E safety_max 0 s = io_return s"
| "arena_bouts E safety_max (Suc n) s =
     (if safety_max \<le> ar_safety s then io_return s
      else io_bind (arena_getareatarget E) (\<lambda>r.
        case Option.bind (ok r) pick_arena_target_id of
          None \<Rightarrow> io_return (s\<lparr>ar_interrupted := True\<rparr>)
        | Some target_id \<Rightarrow>
            io_bind (fight_startareaarena E target_id) (\<lambda>r. io_bind (sleep 1200) (\<lambda>_.
              arena_bouts E safety_max n
                (s\<lparr>ar_tickets := (if is_ok r then ar_tickets s - 1 else ar_tickets s), ar_safety := ar_safety s + 1\<rparr>)))))"

text \<open>A round of fights and the new count of what is left; every fight brings two points.  Halves of a \<open>u32\<close> are exact
  in \<open>f64\<close>, so the ceiling of the half is computed on numbers.\<close>
definition arena_round :: "env \<Rightarrow> nat \<Rightarrow> nat \<Rightarrow> arena_run \<Rightarrow> (arena_run + unit res) io" where
  "arena_round E target safety_max s =
     (if 0 < ar_remaining s \<and> 0 < ar_tickets s \<and> ar_safety s < safety_max then
        let plan_fights = min ((ar_remaining s + 1) div 2) (ar_tickets s) in
        io_bind (arena_bouts E safety_max plan_fights (s\<lparr>ar_interrupted := False\<rparr>)) (\<lambda>s.
        io_bind (query_monthly_progress E False) (\<lambda>r.
          case r of
            Inl e \<Rightarrow> io_return (Inr (Err e))
          | Inr query \<Rightarrow>
              io_bind (role_getroleinfo E) (\<lambda>r.
                case r of
                  Inl e \<Rightarrow> io_return (Inr (Err e))
                | Inr info \<Rightarrow>
                    let tickets_left = nat_as_u32 (unwrap_or (item_quantity ''1007'' info) (ar_tickets s));
                        remaining = min (target - pl_current (mq_arena query)) tickets_left;
                        s = s\<lparr>ar_tickets := tickets_left, ar_remaining := remaining\<rparr>
                    in io_return (if ar_interrupted s \<and> 0 < remaining then Inr (Ok ()) else Inl s))))
      else io_return (Inr (Ok ())))"

definition run_monthly_arena_topup_inner :: "env \<Rightarrow> nat \<Rightarrow> nat \<Rightarrow> monthly_args \<Rightarrow> unit res io" where
  "run_monthly_arena_topup_inner E target remaining args =
     io_bind (role_getroleinfo E) (\<lambda>r.
       case r of
         Inl e \<Rightarrow> io_return (Err e)
       | Inr info \<Rightarrow>
           let tickets_left = arena_tickets info; remaining = min remaining tickets_left in
           if remaining = 0 then io_return (Ok ())
           else
             io_bind (arena_startarea E) (\<lambda>_.
             io_bind (io_loop (arena_round E target (ma_arena_safety_max args))
                 \<lparr>ar_remaining = remaining, ar_tickets = tickets_left, ar_safety = 0, ar_interrupted = False\<rparr>) (\<lambda>r.
               case r of
                 Inl e \<Rightarrow> io_return (Err e)
               | Inr _ \<Rightarrow> io_bind (query_monthly_progress E False) (\<lambda>r.
                     io_return (case r of Inl e \<Rightarrow> Err e | Inr _ \<Rightarrow> Ok ())))))"

definition run_monthly_arena_topup :: "env \<Rightarrow> batch_config \<Rightarrow> string \<Rightarrow> nat \<Rightarrow> monthly_query \<Rightarrow> monthly_args \<Rightarrow> unit res io" where
  "run_monthly_arena_topup E config bin_path server_id query args =
     io_bind (read_local E) (\<lambda>now.
       if \<not> (6 \<le> ln_hour now \<and> ln_hour now < 22) then io_return (Err ''arena topup be allowed on 06:00-22:00 only'')
       else
         let line = mq_arena query;
             target = (if ma_complete args then pl_full_target line else pl_progress_target line);
             remaining = wanted args line
         in if remaining = 0 then io_return (Ok ())
            else
              io_bind (switch_formation E config bin_path server_id formation_context.Arena) (\<lambda>r.
                case r of
                  Inl e \<Rightarrow> io_return (Err e)
                | Inr original_team \<Rightarrow>
                    io_bind (run_monthly_arena_topup_inner E target remaining args) (\<lambda>topup_result.
                    io_bind (restore_formation E formation_context.Arena original_team) (\<lambda>restore_result.
                      io_return (case topup_result of Inl e \<Rightarrow> Err e | Inr _ \<Rightarrow> restore_result)))))"

section \<open>The subcommand\<close>

text \<open>\<open>errors.join("; ")\<close>\<close>
fun join_errors :: "string list \<Rightarrow> string" where
  "join_errors [] = []"
| "join_errors [e] = e"
| "join_errors (e # es) = e @ ''; '' @ join_errors es"

definition labelled :: "string \<Rightarrow> unit res \<Rightarrow> string list" where
  "labelled label r = (case r of Inl e \<Rightarrow> [label @ '': '' @ e] | Inr _ \<Rightarrow> [])"

definition run_monthly_flow :: "env \<Rightarrow> cli \<Rightarrow> monthly_args \<Rightarrow> unit res io" where
  "run_monthly_flow E ctx args =
     io_bind (query_monthly_progress E (ma_complete args)) (\<lambda>r.
       case r of
         Inl e \<Rightarrow> io_return (Err e)
       | Inr query \<Rightarrow>
           if \<not> ma_topup args then io_return (Ok ())
           else
             io_bind (if ma_mode args \<in> {Mode_Fish, Mode_All}
                 then io_bind (run_monthly_fish_topup E query args) (\<lambda>r. io_return (labelled ''fish'' r))
                 else io_return []) (\<lambda>fish_errors.
             if ma_mode args \<in> {Mode_Arena, Mode_All} then
               case load_config ctx of
                 Inl e \<Rightarrow> io_return (Err e)
               | Inr config \<Rightarrow>
                   io_bind (run_monthly_arena_topup E config (ma_bin args) (ma_server_id args) query args) (\<lambda>r.
                     let errors = fish_errors @ labelled ''arena'' r in
                     io_return (if errors = [] then Ok () else Err (join_errors errors)))
             else io_return (if fish_errors = [] then Ok () else Err (join_errors fish_errors))))"

definition run_monthly :: "env \<Rightarrow> cli \<Rightarrow> monthly_args \<Rightarrow> unit res io" where
  "run_monthly E ctx args =
     io_bind (open_role E ctx False (ma_bin args) (ma_server_id args)) (\<lambda>r.
       case r of
         Inl e \<Rightarrow> io_return (Err e)
       | Inr _ \<Rightarrow> io_bind (run_monthly_flow E ctx args) (\<lambda>result. io_bind disconnect (\<lambda>_. io_return result)))"

end
