(* ===== verification/Cli_Monthly_Facts.thy ===== *)
theory Cli_Monthly_Facts
  imports Cli_Monthly Cli_Facts
begin

text \<open>
  The monthly top-up keeps within what is wanted and what there is, and returns: fishing never pays for more rods than
  the role has or the target needs, the arena never fights more often than allowed, and the loops of both end whatever
  the server answers.
\<close>

section \<open>The progress line\<close>

lemma progress_line_bounds:
  "pl_need (build_progress_line cur target ratio complete is_last) \<le> target"
  "pl_full_need (build_progress_line cur target ratio complete is_last) \<le> target"
  by (auto simp: build_progress_line_def Let_def)

definition line_ok :: "nat \<Rightarrow> progress_line \<Rightarrow> bool" where
  "line_ok target line = (pl_need line \<le> target \<and> pl_full_need line \<le> target)"

lemma wanted_bound: "line_ok target line \<Longrightarrow> wanted args line \<le> target"
  by (simp add: wanted_def line_ok_def)

lemma query_lines:
  "yields (\<lambda>r. \<forall>q. r = Ok q \<longrightarrow> line_ok FISH_TARGET (mq_fish q) \<and> line_ok ARENA_TARGET (mq_arena q)) (query_monthly_progress E complete)"
  unfolding query_monthly_progress_def Let_def
  by (intro yields_rules) (auto simp: line_ok_def progress_line_bounds)

section \<open>Rods paid for\<close>

text \<open>The rods a command asks to fish with: those of the paid draws only.\<close>
definition paid_draws :: "event \<Rightarrow> nat" where
  "paid_draws e = (case e of
     Request name params t \<Rightarrow>
       if name = ''artifact_lottery'' \<and> t = 12000 then unwrap_or (Option.bind (jget params ''lotteryNumber'') as_nat) 0 else 0
   | _ \<Rightarrow> 0)"

abbreviation free_of_charge :: "event \<Rightarrow> bool" where
  "free_of_charge e \<equiv> paid_draws e = 0"

definition paid_total :: "event list \<Rightarrow> nat" where
  "paid_total es = sum_list (map paid_draws es)"

lemma paid_total_simps [simp]:
  "paid_total [] = 0" "paid_total (e # es) = paid_draws e + paid_total es" "paid_total (es @ fs) = paid_total es + paid_total fs"
  by (simp_all add: paid_total_def)

lemma paid_total_free: "list_all free_of_charge es \<Longrightarrow> paid_total es = 0"
  by (induction es) auto

lemma paid_draws_simps [simp]:
  "paid_draws (Sleep ms) = 0" "paid_draws Disconnect = 0"
  "paid_draws (Request name params T_DEFAULT) = 0"
  "name \<noteq> ''artifact_lottery'' \<Longrightarrow> paid_draws (Request name params ms) = 0"
  by (simp_all add: paid_draws_def T_DEFAULT_def)

lemma paid_draws_batch: "n < 2 ^ 64 \<Longrightarrow> paid_draws (Request ''artifact_lottery'' (paid_params n) 12000) = n"
  by (simp add: paid_draws_def paid_params_def jobj_def jget_def as_nat_def as_u64_def jnum_def number_from_u64_def
      unat_word_of_nat)

lemma cmd_free [emits_rules]: "obeys (extends free_of_charge) (cmd E name params)"
  by (auto simp: cmd_def cmd_with_timeout_def intro!: emits_rules)

text \<open>A session in which the weights of the commands add up to \<open>n\<close> at most.\<close>
definition spends :: "(event \<Rightarrow> nat) \<Rightarrow> nat \<Rightarrow> game \<Rightarrow> game \<Rightarrow> bool" where
  "spends w n g g' = (\<exists>es. ws g' = ws g @ es \<and> sum_list (map w es) \<le> n)"

lemma spends_add: "spends w m g h \<Longrightarrow> spends w n h k \<Longrightarrow> spends w (m + n) g k"
proof -
  assume "spends w m g h" "spends w n h k"
  then obtain es fs where "ws h = ws g @ es" "sum_list (map w es) \<le> m" "ws k = ws h @ fs" "sum_list (map w fs) \<le> n"
    by (auto simp: spends_def)
  then have "ws k = ws g @ (es @ fs)" "sum_list (map w (es @ fs)) \<le> m + n" by simp_all
  then show ?thesis unfolding spends_def by blast
qed

lemma spends_nothing: "extends (\<lambda>e. w e = 0) g h \<Longrightarrow> spends w 0 g h"
  by (auto simp: extends_def spends_def list_all_iff)

lemma spends_then_free: "spends w n g h \<Longrightarrow> extends (\<lambda>e. w e = 0) h k \<Longrightarrow> spends w n g k"
  using spends_add [OF _ spends_nothing] by fastforce

lemma spends_mono: "spends w m g h \<Longrightarrow> m \<le> n \<Longrightarrow> spends w n g h"
  by (fastforce simp: spends_def)

lemma spends_refl: "spends w n g g"
  by (simp add: spends_def)

lemma sync_rods_free: "obeys (extends free_of_charge) (sync_rods E s)"
  unfolding sync_rods_def role_getroleinfo_def Let_def by (intro emits_rules)

lemma sync_rods_less: "yields (\<lambda>s'. fs_remaining s' \<le> fs_remaining s) (sync_rods E s)"
  unfolding sync_rods_def role_getroleinfo_def Let_def by (intro yields_rules) (auto split: sum.splits)

lemma paid_round_step:
  assumes "paid_round E args s g = Some (r, h)" "fs_remaining s < 2 ^ 64"
  shows "\<exists>b. b \<le> fs_remaining s \<and> spends paid_draws b g h \<and> (\<forall>s'. r = Inl s' \<longrightarrow> 0 < b \<and> fs_remaining s' + b \<le> fs_remaining s)"
proof (cases "0 < fs_remaining s")
  case True
  define b where "b = min (fs_remaining s) (max (ma_fish_batch_size args) 1)"
  define req where "req = Request ''artifact_lottery'' (paid_params b) 12000"
  have b: "0 < b" "b \<le> fs_remaining s" using True by (auto simp: b_def)
  have paid: "paid_draws req = b" using assms(2) b(2) by (simp add: req_def paid_draws_batch)
  have sent: "send_with_response E ''artifact_lottery'' (paid_params b) 12000 g = Some (answer E (ws g @ [req]), happen req g)"
    by (simp add: send_with_response_def Let_def req_def)
  have one: "spends paid_draws b g (happen req g)" using paid by (simp add: spends_def)
  show ?thesis
  proof (cases "answer E (ws g @ [req])")
    case (Inl e)
    then show ?thesis using assms(1) True sent b one unfolding paid_round_def b_def [symmetric] Let_def by auto
  next
    case (Inr y)
    define s1 where "s1 = s\<lparr>fs_remaining := fs_remaining s - b, fs_paid := fs_paid s + b\<rparr>"
    from Inr have "io_bind (sync_rods E s1) (\<lambda>s. io_bind (sleep 800) (\<lambda>_. io_return (Inl s))) (happen req g) = Some (r, h)"
      using assms(1) True sent unfolding paid_round_def b_def [symmetric] Let_def s1_def by simp
    then obtain s2 k where sync: "sync_rods E s1 (happen req g) = Some (s2, k)" and fin: "r = Inl s2" "h = happen (Sleep 800) k"
      by (auto elim!: io_bind_cases)
    have "extends free_of_charge (happen req g) k" by (rule obeysD [OF sync_rods_free sync])
    moreover have "extends free_of_charge k h" by (simp add: fin extends_def)
    ultimately have "spends paid_draws b g h" using one by (blast intro: spends_then_free)
    moreover have "fs_remaining s2 \<le> fs_remaining s1" using sync_rods_less sync by (fastforce simp: yields_def)
    ultimately show ?thesis using b fin by (auto simp: s1_def)
  qed
next
  case False
  then show ?thesis using assms(1) by (auto simp: paid_round_def spends_refl)
qed

lemma paid_loop_spends:
  assumes "io_loop (paid_round E args) s g = Some (x, g')" "fs_remaining s < 2 ^ 64"
  shows "spends paid_draws (fs_remaining s) g g'"
proof -
  have "fs_remaining s < 2 ^ 64 \<longrightarrow> spends paid_draws (fs_remaining s) g g'"
    using assms(1)
  proof (rule io_loop_induct [where P = "\<lambda>s g x g'. fs_remaining s < 2 ^ 64 \<longrightarrow> spends paid_draws (fs_remaining s) g g'"]; intro impI)
    fix s g x g'
    assume "paid_round E args s g = Some (Inr x, g')" "fs_remaining s < 2 ^ 64"
    from paid_round_step [OF this] show "spends paid_draws (fs_remaining s) g g'" by (auto intro: spends_mono)
  next
    fix s g s1 g1 x g'
    assume round: "paid_round E args s g = Some (Inl s1, g1)" and ih: "fs_remaining s1 < 2 ^ 64 \<longrightarrow> spends paid_draws (fs_remaining s1) g1 g'"
      and small: "fs_remaining s < 2 ^ 64"
    obtain b where b: "spends paid_draws b g g1" "fs_remaining s1 + b \<le> fs_remaining s" using paid_round_step [OF round small] by auto
    then have "spends paid_draws (fs_remaining s1) g1 g'" using ih small by simp
    with b(1) have "spends paid_draws (b + fs_remaining s1) g g'" by (rule spends_add)
    then show "spends paid_draws (fs_remaining s) g g'" using b(2) by (auto intro: spends_mono)
  qed
  with assms(2) show ?thesis by simp
qed

lemma role_step:
  "role_getroleinfo E g = Some (answer E (ws g @ [role_request]), happen role_request g)"
  by (simp add: role_getroleinfo_def cmd_def cmd_with_timeout_def send_with_response_def Let_def role_request_def)

lemma query_free [emits_rules]: "obeys (extends free_of_charge) (query_monthly_progress E complete)"
  unfolding query_monthly_progress_def api_defs Let_def by (intro emits_rules)

lemma free_draws_free [emits_rules]: "obeys (extends free_of_charge) (free_draws E remaining n free_used)"
  by (induction n arbitrary: free_used) (auto simp only: free_draws.simps api_defs paid_draws_simps intro!: emits_rules)

lemma free_open_free [emits_rules]: "obeys (extends free_of_charge) (free_draws_open E t)"
  unfolding free_draws_open_def by (intro emits_rules)

lemma claim_points_free [emits_rules]: "obeys (extends free_of_charge) (claim_fish_points E args)"
proof -
  have "obeys (extends free_of_charge) (exchange_points E n)" for n
    by (induction n) (auto simp only: exchange_points.simps api_defs paid_draws_simps intro!: emits_rules)
  then show ?thesis unfolding claim_fish_points_def api_defs by (intro emits_rules)
qed

lemma paid_topup_spends:
  assumes "paid_topup E args remaining g = Some (x, g')" "remaining < 2 ^ 64"
  shows "\<exists>post. ws g' = ws g @ role_request # post \<and> (paid_total post = 0 \<or>
    (\<exists>info. answer E (ws g @ [role_request]) = Ok info \<and> paid_total post \<le> min remaining (rods info)))"
proof (cases "\<exists>info. answer E (ws g @ [role_request]) = Ok info \<and> min remaining (rods info) \<noteq> 0")
  case True
  then obtain info where info: "answer E (ws g @ [role_request]) = Ok info" "min remaining (rods info) \<noteq> 0" by blast
  define s where "s = \<lparr>fs_remaining = min remaining (rods info), fs_rod_count = rods info, fs_paid = 0\<rparr>"
  define tail where "tail = io_bind (claim_fish_points E args) (\<lambda>r. case r of
      Inl e \<Rightarrow> io_return (Err e)
    | Inr _ \<Rightarrow> io_bind (query_monthly_progress E (ma_complete args)) (\<lambda>r.
          io_return (case r of Inl e \<Rightarrow> Err e | Inr _ \<Rightarrow> Ok ())))"
  have "io_bind (io_loop (paid_round E args) s) (\<lambda>_. tail) (happen role_request g) = Some (x, g')"
    using assms(1) info unfolding paid_topup_def s_def tail_def by (simp add: role_step)
  then obtain y h where loop: "io_loop (paid_round E args) s (happen role_request g) = Some (y, h)" and t: "tail h = Some (x, g')"
    by (rule io_bind_cases)
  have "obeys (extends free_of_charge) tail" unfolding tail_def by (intro emits_rules)
  note free = obeysD [OF this t]
  have "fs_remaining s < 2 ^ 64" using assms(2) by (auto simp: s_def min_def)
  from spends_then_free [OF paid_loop_spends [OF loop this] free]
  have "spends paid_draws (fs_remaining s) (happen role_request g) g'" .
  then show ?thesis using info by (auto simp: spends_def s_def paid_total_def)
next
  case False
  then have "g' = happen role_request g"
    using assms(1) by (auto simp: paid_topup_def role_step split: sum.splits)
  then show ?thesis by simp
qed

lemma fish_reaches:
  assumes "run_monthly_fish_topup E query args g = Some (x, g')"
  shows "extends free_of_charge g g' \<or>
    (\<exists>h remaining. extends free_of_charge g h \<and> remaining \<le> FISH_TARGET \<and> paid_topup E args remaining h = Some (x, g'))"
proof -
  define first where "first info = io_bind (set_role_info info) (\<lambda>_.
      io_bind (free_draws_open E (last_free_time info)) (\<lambda>free.
      io_bind (if free then free_draws E (wanted args (mq_fish query)) 3 0 else io_return 0) (\<lambda>free_used.
        query_monthly_progress E (ma_complete args))))" for info
  have emits: "obeys (extends free_of_charge) (first info)" for info
    unfolding first_def by (intro emits_rules)
  have lines: "yields (\<lambda>r. \<forall>q. r = Ok q \<longrightarrow> line_ok FISH_TARGET (mq_fish q)) (first info)" for info
    unfolding first_def by (intro yields_rules yields_mono [OF query_lines]) auto
  show ?thesis
  proof (cases "wanted args (mq_fish query) = 0")
    case True
    then show ?thesis using assms by (auto simp: run_monthly_fish_topup_def extends_def)
  next
    case False
    show ?thesis
    proof (cases "answer E (ws g @ [role_request])")
      case (Inl e)
      then show ?thesis using assms False
        by (auto simp: run_monthly_fish_topup_def role_step extends_def role_request_def)
    next
      case (Inr info)
      then have "io_bind (first info) (\<lambda>r. case r of Inl e \<Rightarrow> io_return (Err e) | Inr refreshed \<Rightarrow>
          let remaining = wanted args (mq_fish refreshed) in
          if remaining = 0 then io_return (Ok ()) else paid_topup E args remaining) (happen role_request g) = Some (x, g')"
        using assms False by (simp add: run_monthly_fish_topup_def role_step first_def io_bind_assoc)
      then obtain r h where f: "first info (happen role_request g) = Some (r, h)"
        and rest: "(case r of Inl e \<Rightarrow> io_return (Err e) | Inr refreshed \<Rightarrow>
          let remaining = wanted args (mq_fish refreshed) in
          if remaining = 0 then io_return (Ok ()) else paid_topup E args remaining) h = Some (x, g')"
        by (rule io_bind_cases)
      have "extends free_of_charge g (happen role_request g)" by (simp add: extends_def role_request_def)
      then have start: "extends free_of_charge g h" using obeysD [OF emits f] by (rule emitting.trans)
      have "\<forall>q. r = Ok q \<longrightarrow> line_ok FISH_TARGET (mq_fish q)" using lines f by (fastforce simp: yields_def)
      with start rest show ?thesis by (auto simp: Let_def wanted_bound split: sum.splits if_splits)
    qed
  qed
qed

text \<open>C14: Fishing never pays for more than there is or is wanted.  In a top-up of the monthly fishing, however the server
  answers and however the session ends, the rods of all paid draws together, refused ones included, are at most the
  target of 320, and unless nothing is paid for, all the paid draws come after a role info that shows at least as many
  rods.\<close>
theorem fish_topup_within_rods:
  assumes "run_monthly_fish_topup E query args g = Some (x, g')"
  shows "\<exists>es. ws g' = ws g @ es \<and> paid_total es \<le> FISH_TARGET \<and>
    (paid_total es = 0 \<or>
     (\<exists>pre post info. es = pre @ [role_request] @ post \<and> paid_total pre = 0 \<and>
        answer E (ws g @ pre @ [role_request]) = Ok info \<and> paid_total post \<le> rods info))"
  using fish_reaches [OF assms]
proof (elim disjE exE conjE)
  assume "extends free_of_charge g g'"
  then show ?thesis by (auto simp: extends_def paid_total_free)
next
  fix h remaining
  assume "extends free_of_charge g h" and small: "remaining \<le> FISH_TARGET" and paid: "paid_topup E args remaining h = Some (x, g')"
  then obtain pre where pre: "ws h = ws g @ pre" "paid_total pre = 0" by (auto simp: extends_def paid_total_free)
  have "remaining < 2 ^ 64" using small by (simp add: FISH_TARGET_def)
  from paid_topup_spends [OF paid this] obtain post where post: "ws g' = ws h @ role_request # post"
    "paid_total post = 0 \<or> (\<exists>info. answer E (ws h @ [role_request]) = Ok info \<and> paid_total post \<le> min remaining (rods info))"
    by blast
  have "paid_draws role_request = 0" by (simp add: role_request_def)
  with pre post small show ?thesis by (intro exI [of _ "pre @ role_request # post"]) fastforce
qed

section \<open>Fights in the arena\<close>

definition fights :: "event \<Rightarrow> nat" where
  "fights e = (case e of Request name params t \<Rightarrow> if name = ''fight_startareaarena'' then 1 else 0 | _ \<Rightarrow> 0)"

abbreviation peaceful :: "event \<Rightarrow> bool" where
  "peaceful e \<equiv> fights e = 0"

lemma fights_simps [simp]:
  "fights (Sleep ms) = 0" "fights Disconnect = 0"
  "fights (Request name params ms) = (if name = ''fight_startareaarena'' then 1 else 0)"
  by (simp_all add: fights_def)

lemma cmd_peaceful: "name \<noteq> ''fight_startareaarena'' \<Longrightarrow> obeys (extends peaceful) (cmd E name params)"
  by (auto simp: cmd_def cmd_with_timeout_def intro!: emits_rules)

lemma query_peaceful: "obeys (extends peaceful) (query_monthly_progress E complete)"
  unfolding query_monthly_progress_def api_defs Let_def by (intro emits_rules cmd_peaceful) simp_all

text \<open>A fight is one request; each one is counted.\<close>
lemma fight_step:
  "\<exists>params. fight_startareaarena E target_id g =
     Some (answer E (ws g @ [Request ''fight_startareaarena'' params T_FIGHT]), happen (Request ''fight_startareaarena'' params T_FIGHT) g)"
  by (auto simp: fight_startareaarena_def cmd_fight_def send_with_response_def Let_def split: option.split)

lemma arena_bouts_run:
  assumes "arena_bouts E safety_max n s g = Some (s', h)"
  shows "ar_safety s \<le> ar_safety s' \<and> ar_safety s' \<le> max (ar_safety s) safety_max \<and>
    spends fights (ar_safety s' - ar_safety s) g h \<and>
    (\<not> ar_interrupted s' \<and> 0 < n \<and> ar_safety s < safety_max \<longrightarrow> ar_safety s < ar_safety s')"
  using assms
proof (induction n arbitrary: s g)
  case 0
  then show ?case by (auto simp: spends_refl)
next
  case (Suc n)
  show ?case
  proof (cases "safety_max \<le> ar_safety s")
    case True
    then show ?thesis using Suc.prems by (auto simp: spends_refl)
  next
    case False
    then obtain r k where ask: "arena_getareatarget E g = Some (r, k)"
      and rest: "(case Option.bind (ok r) pick_arena_target_id of
          None \<Rightarrow> io_return (s\<lparr>ar_interrupted := True\<rparr>)
        | Some target_id \<Rightarrow>
            io_bind (fight_startareaarena E target_id) (\<lambda>r. io_bind (sleep 1200) (\<lambda>_.
              arena_bouts E safety_max n
                (s\<lparr>ar_tickets := (if is_ok r then ar_tickets s - 1 else ar_tickets s), ar_safety := ar_safety s + 1\<rparr>)))) k
          = Some (s', h)"
      using Suc.prems by (auto elim: io_bind_cases)
    have "obeys (extends peaceful) (arena_getareatarget E)"
      unfolding arena_getareatarget_def by (rule cmd_peaceful) simp
    from spends_nothing [OF obeysD [OF this ask]] have before: "spends fights 0 g k" .
    show ?thesis
    proof (cases "Option.bind (ok r) pick_arena_target_id")
      case None
      then show ?thesis using rest before by (auto simp: spends_refl)
    next
      case (Some target_id)
      obtain params where fight: "fight_startareaarena E target_id k =
          Some (answer E (ws k @ [Request ''fight_startareaarena'' params T_FIGHT]),
            happen (Request ''fight_startareaarena'' params T_FIGHT) k)"
        using fight_step by blast
      define k' where "k' = happen (Sleep 1200) (happen (Request ''fight_startareaarena'' params T_FIGHT) k)"
      define s1 where "s1 = s\<lparr>ar_tickets := (if is_ok (answer E (ws k @ [Request ''fight_startareaarena'' params T_FIGHT]))
          then ar_tickets s - 1 else ar_tickets s), ar_safety := ar_safety s + 1\<rparr>"
      have "arena_bouts E safety_max n s1 k' = Some (s', h)" using rest Some fight by (simp add: k'_def s1_def)
      from Suc.IH [OF this] have ih: "ar_safety s + 1 \<le> ar_safety s'" "ar_safety s' \<le> max (ar_safety s + 1) safety_max"
        "spends fights (ar_safety s' - (ar_safety s + 1)) k' h"
        by (simp_all add: s1_def)
      have "spends fights 1 k k'" by (simp add: spends_def k'_def)
      from spends_add [OF spends_add [OF before this] ih(3)]
      have "spends fights (0 + 1 + (ar_safety s' - (ar_safety s + 1))) g h" .
      moreover have "0 + 1 + (ar_safety s' - (ar_safety s + 1)) = ar_safety s' - ar_safety s" using ih(1) by simp
      ultimately show ?thesis using ih(1,2) False by (auto simp: max_def split: if_splits)
    qed
  qed
qed

text \<open>Rounds go on only with something left, and then at least one more fight has been counted.\<close>
definition arena_measure :: "nat \<Rightarrow> arena_run \<Rightarrow> nat" where
  "arena_measure safety_max s = (if ar_remaining s = 0 then 0 else 1 + (safety_max - ar_safety s))"

lemma arena_round_step:
  assumes "arena_round E target safety_max s g = Some (r, h)"
  shows "\<exists>n. spends fights n g h \<and> n \<le> safety_max - ar_safety s \<and>
    (\<forall>s'. r = Inl s' \<longrightarrow> ar_safety s' = ar_safety s + n \<and> arena_measure safety_max s' < arena_measure safety_max s)"
proof (cases "0 < ar_remaining s \<and> 0 < ar_tickets s \<and> ar_safety s < safety_max")
  case True
  define plan_fights where "plan_fights = min ((ar_remaining s + 1) div 2) (ar_tickets s)"
  define after where "after s = io_bind (query_monthly_progress E False) (\<lambda>r.
          case r of
            Inl e \<Rightarrow> io_return (Inr (Err e))
          | Inr query \<Rightarrow>
              io_bind (role_getroleinfo E) (\<lambda>r.
                case r of
                  Inl e \<Rightarrow> io_return (Inr (Err e))
                | Inr info \<Rightarrow>
                    let tickets_left = nat_as_u32 (unwrap_or (item_quantity ''1007'' info) (ar_tickets s));
                        remaining = min (target - pl_current (mq_arena query)) tickets_left;
                        s = s\<lparr>ar_tickets := tickets_left, ar_remaining := remaining\<rparr>
                    in io_return (if ar_interrupted s \<and> 0 < remaining then Inr (Ok ()) else Inl s :: arena_run + unit res)))"
    for s :: arena_run
  have "io_bind (arena_bouts E safety_max plan_fights (s\<lparr>ar_interrupted := False\<rparr>)) after g = Some (r, h)"
    using assms unfolding arena_round_def if_P [OF True] Let_def plan_fights_def after_def by simp
  then obtain s1 k where f: "arena_bouts E safety_max plan_fights (s\<lparr>ar_interrupted := False\<rparr>) g = Some (s1, k)"
    and a: "after s1 k = Some (r, h)" by (rule io_bind_cases)
  have plan: "0 < plan_fights" using True by (simp add: plan_fights_def)
  note fought = arena_bouts_run [OF f]
  have "obeys (extends peaceful) (after s1)"
    unfolding after_def role_getroleinfo_def Let_def by (intro emits_rules query_peaceful cmd_peaceful) simp
  from spends_then_free [OF _ obeysD [OF this a]] fought
  have "spends fights (ar_safety s1 - ar_safety s) g h" by simp
  moreover have "yields (\<lambda>r. \<forall>s'. r = Inl s' \<longrightarrow> ar_safety s' = ar_safety s1 \<and> (ar_interrupted s1 \<longrightarrow> ar_remaining s' = 0)) (after s1)"
    unfolding after_def Let_def by (intro yields_rules) auto
  with a have next_run: "\<forall>s'. r = Inl s' \<longrightarrow> ar_safety s' = ar_safety s1 \<and> (ar_interrupted s1 \<longrightarrow> ar_remaining s' = 0)"
    by (fastforce simp: yields_def)
  ultimately show ?thesis
    using fought True plan by (intro exI [of _ "ar_safety s1 - ar_safety s"]) (fastforce simp: arena_measure_def)
next
  case False
  then show ?thesis using assms by (auto simp: arena_round_def spends_refl)
qed

lemma arena_loop_fights:
  assumes "io_loop (arena_round E target safety_max) s g = Some (x, g')"
  shows "spends fights (safety_max - ar_safety s) g g'"
  using assms
proof (rule io_loop_induct [where P = "\<lambda>s g x g'. spends fights (safety_max - ar_safety s) g g'"])
  fix s g x g'
  assume "arena_round E target safety_max s g = Some (Inr x, g')"
  from arena_round_step [OF this] show "spends fights (safety_max - ar_safety s) g g'" by (auto intro: spends_mono)
next
  fix s g s1 g1 x g'
  assume round: "arena_round E target safety_max s g = Some (Inl s1, g1)"
    and rest: "spends fights (safety_max - ar_safety s1) g1 g'"
  obtain n where n: "spends fights n g g1" "n \<le> safety_max - ar_safety s" "ar_safety s1 = ar_safety s + n"
    using arena_round_step [OF round] by blast
  from spends_add [OF n(1) rest] show "spends fights (safety_max - ar_safety s) g g'"
    by (rule spends_mono) (use n in simp)
qed

section \<open>Top-ups that return\<close>

text \<open>What the command relies on without a check, or it panics: on every day its clock shows, the first hour passes once
  in the local time zone (no change to or from summer time falls on it), and the month is not the last one that
  \<open>NaiveDate\<close> can represent.\<close>
definition ordinary_days :: "env \<Rightarrow> bool" where
  "ordinary_days E =
     (\<forall>tr. clock_ok (wall E tr) \<and> (\<forall>s<3600. unix_of E (ln_day (wall E tr)) s \<noteq> None) \<and>
        (case ymd E (ln_day (wall E tr)) of (year, month, day) \<Rightarrow> last_day_of_month E year month \<noteq> None))"

lemma ordinary_midnight:
  assumes "ordinary_days E"
  shows "local_midnight E (wall E tr) \<noteq> None"
proof -
  let ?now = "wall E tr"
  have "ln_minute ?now < 60" "ln_second ?now < 60" and hour: "\<And>s. s < 3600 \<Longrightarrow> unix_of E (ln_day ?now) s \<noteq> None"
    using assms by (auto simp: ordinary_days_def clock_ok_def)
  then have "unix_of E (ln_day ?now) (ln_minute ?now * 60 + ln_second ?now) \<noteq> None"
    "unix_of E (ln_day ?now) (ln_second ?now) \<noteq> None" "unix_of E (ln_day ?now) 0 \<noteq> None"
    by (auto intro!: hour)
  then show ?thesis by (simp add: local_midnight_def bind_eq_None_conv)
qed

lemma ordinary_month:
  assumes "ordinary_days E"
  shows "calculate_month_progress E (wall E tr) \<noteq> None"
proof -
  have "case ymd E (ln_day (wall E tr)) of (year, month, day) \<Rightarrow> last_day_of_month E year month \<noteq> None"
    using assms by (simp add: ordinary_days_def)
  then show ?thesis by (simp add: calculate_month_progress_def split: prod.splits)
qed

text \<open>A reading of the clock of which something is expected.\<close>
lemma expected_returns:
  "(\<And>tr. returns (f (wall E tr))) \<Longrightarrow> returns (io_bind (read_local E) f)"
  by (simp add: returns_def io_bind_def)

text \<open>In a time zone of constant offset the first hours are no matter.\<close>
lemma fixed_offset_ordinary:
  assumes "\<And>d s. s < 86400 \<Longrightarrow> unix_of E d s = Some (d * 86400 + int s - offset)" "\<And>tr. clock_ok (wall E tr)"
    and "\<And>tr. case ymd E (ln_day (wall E tr)) of (year, month, day) \<Rightarrow> last_day_of_month E year month \<noteq> None"
  shows "ordinary_days E"
  using assms by (simp add: ordinary_days_def)

text \<open>Where the clocks change at midnight the question for the free draws panics.\<close>
lemma no_midnight_panics:
  "local_midnight E (wall E (ws g)) = None \<Longrightarrow> 0 < t \<Longrightarrow> free_draws_open E t g = None"
  by (simp add: free_draws_open_def io_bind_def)

lemma query_returns:
  assumes "ordinary_days E"
  shows "returns (query_monthly_progress E complete)"
  unfolding query_monthly_progress_def api_defs Let_def
  by (rule expected_returns) (intro returns_rules expect_returns ordinary_month [OF assms])

lemma free_returns:
  assumes "ordinary_days E"
  shows "returns (free_draws_open E t)" "returns (free_draws E remaining n used)"
proof -
  have "returns (io_bind (read_local E) (\<lambda>now. io_bind (expect (local_midnight E now)) (\<lambda>start. io_return (t < start))))"
    by (rule expected_returns) (intro returns_rules expect_returns ordinary_midnight [OF assms])
  then show "returns (free_draws_open E t)" by (simp add: free_draws_open_def)
  show "returns (free_draws E remaining n used)"
    by (induction n arbitrary: used) (auto simp only: free_draws.simps api_defs intro!: returns_rules)
qed

lemma sync_returns: "returns (sync_rods E s)"
  unfolding sync_rods_def role_getroleinfo_def Let_def by (intro returns_rules)

lemma paid_loop_returns: "returns (io_loop (paid_round E args) s)"
proof (rule falling_loop_returns [where m = fs_remaining])
  show "returns (paid_round E args s)" for s
    unfolding paid_round_def Let_def by (intro returns_rules sync_returns)
  show "yields (falls fs_remaining s) (paid_round E args s)" for s
    unfolding paid_round_def Let_def
    by (intro yields_rules yields_bind_with [OF sync_rods_less]) auto
qed

lemma bout_loop_returns:
  assumes "ordinary_days E"
  shows "returns (io_loop (arena_round E target safety_max) s)"
proof (rule falling_loop_returns [where m = "arena_measure safety_max"])
  have "returns (arena_bouts E safety_max n s)" for n s
    by (induction n arbitrary: s) (auto simp only: arena_bouts.simps api_defs intro!: returns_rules)
  then show "returns (arena_round E target safety_max s)" for s
    unfolding arena_round_def role_getroleinfo_def Let_def by (intro returns_rules query_returns [OF assms])
  show "yields (falls (arena_measure safety_max) s) (arena_round E target safety_max s)" for s
    using arena_round_step by (fastforce simp: yields_def falls_def split: sum.split)
qed

lemma formation_returns [returns_rules]:
  "returns (switch_formation E config bin server_id context)" "returns (restore_formation E context original)"
  unfolding switch_formation_def restore_formation_def get_current_team_id_def current_team_id_def api_defs Let_def
  by (intro returns_rules)+

lemma fish_returns:
  assumes "ordinary_days E"
  shows "returns (run_monthly_fish_topup E query args)"
proof -
  have "returns (exchange_points E n)" for n
    by (induction n) (auto simp only: exchange_points.simps api_defs intro!: returns_rules)
  then show ?thesis
    unfolding run_monthly_fish_topup_def paid_topup_def claim_fish_points_def role_getroleinfo_def Let_def
    by (intro returns_rules query_returns [OF assms] free_returns [OF assms] paid_loop_returns)
qed

lemma arena_returns:
  assumes "ordinary_days E"
  shows "returns (run_monthly_arena_topup E config bin server_id query args)"
  unfolding run_monthly_arena_topup_def run_monthly_arena_topup_inner_def api_defs Let_def
  by (intro returns_rules query_returns [OF assms] bout_loop_returns [OF assms])

lemma monthly_returns: "ordinary_days E \<Longrightarrow> returns (run_monthly_flow E ctx args)"
  unfolding run_monthly_flow_def Let_def
  by (intro returns_rules query_returns fish_returns arena_returns returns_shapes(5)) simp_all

text \<open>Flows between which nothing is spent.\<close>
lemma free_then:
  "obeys (extends (\<lambda>e. w e = 0)) m \<Longrightarrow> (\<And>x. obeys (spends w n) (f x)) \<Longrightarrow> obeys (spends w n) (io_bind m f)"
  using spends_add [OF spends_nothing] by (fastforce simp: obeys_def elim: io_bind_cases)

lemma then_free:
  "obeys (spends w n) m \<Longrightarrow> (\<And>x. obeys (extends (\<lambda>e. w e = 0)) (f x)) \<Longrightarrow> obeys (spends w n) (io_bind m f)"
  using spends_then_free by (fastforce simp: obeys_def elim: io_bind_cases)

lemma return_spends: "obeys (spends w n) (io_return x)"
  by (auto simp: obeys_def spends_refl)

lemma arena_inner_fights:
  "obeys (spends fights (ma_arena_safety_max args)) (run_monthly_arena_topup_inner E target remaining args)"
proof -
  let ?s = "\<lambda>remaining tickets_left. \<lparr>ar_remaining = remaining, ar_tickets = tickets_left, ar_safety = 0, ar_interrupted = False\<rparr>"
  have "obeys (spends fights (ma_arena_safety_max args))
      (io_loop (arena_round E target (ma_arena_safety_max args)) (?s remaining tickets_left))" for remaining tickets_left
    by (rule obeysI) (use arena_loop_fights in fastforce)
  then have loop: "obeys (spends fights (ma_arena_safety_max args))
      (io_bind (io_loop (arena_round E target (ma_arena_safety_max args)) (?s remaining tickets_left)) (\<lambda>r. case r of
          Inl e \<Rightarrow> io_return (Err e)
        | Inr _ \<Rightarrow> io_bind (query_monthly_progress E False) (\<lambda>r.
              io_return (case r of Inl e \<Rightarrow> Err e | Inr _ \<Rightarrow> Ok ()))))" for remaining tickets_left
    by (rule then_free) (intro emits_rules query_peaceful)
  show ?thesis
    unfolding run_monthly_arena_topup_inner_def role_getroleinfo_def arena_startarea_def Let_def
    by (intro obeys_shapes loop free_then cmd_peaceful return_spends) simp_all
qed

lemma formation_peaceful:
  "obeys (extends peaceful) (switch_formation E config bin server_id context)"
  "obeys (extends peaceful) (restore_formation E context original)"
  unfolding switch_formation_def restore_formation_def get_current_team_id_def current_team_id_def presetteam_getinfo_def
    presetteam_saveteam_def Let_def
  by (intro emits_rules cmd_peaceful; simp)+

lemma arena_topup_fights:
  "obeys (spends fights (ma_arena_safety_max args)) (run_monthly_arena_topup E config bin server_id query args)"
proof -
  have inner: "obeys (spends fights (ma_arena_safety_max args))
      (io_bind (run_monthly_arena_topup_inner E target remaining args) (\<lambda>topup_result.
         io_bind (restore_formation E formation_context.Arena original) (\<lambda>restore_result.
           io_return (case topup_result of Inl e \<Rightarrow> Err e | Inr _ \<Rightarrow> restore_result))))" for target remaining original
    by (rule then_free [OF arena_inner_fights]) (intro emits_rules formation_peaceful)
  show ?thesis
    unfolding run_monthly_arena_topup_def Let_def
    by (intro obeys_shapes inner free_then formation_peaceful return_spends emits_rules)
qed

text \<open>C20: The monthly top-up ends, and the arena keeps its limit.  Whatever the server answers and whatever the arguments,
  the subcommand's flow returns, without a panic, on a machine whose days are ordinary: on each day its clock shows, the
  first hour passes exactly once in the local time zone, and the month is not the last one of the calendar.  (Elsewhere
  it panics, \<open>no_midnight_panics\<close>.)  In its arena part the role fights at most \<open>arena_safety_max\<close> times, fights that
  are refused included.\<close>
theorem monthly_topup_returns:
  assumes "ordinary_days E"
  shows "returns (run_monthly_flow E ctx args) \<and>
    (\<exists>x g' es. run_monthly_arena_topup E config bin server_id query args g = Some (x, g') \<and> ws g' = ws g @ es \<and>
       sum_list (map fights es) \<le> ma_arena_safety_max args)"
proof -
  obtain x g' where run: "run_monthly_arena_topup E config bin server_id query args g = Some (x, g')"
    using arena_returns [OF assms, of config bin server_id query args] by (fastforce simp: returns_def)
  from obeysD [OF arena_topup_fights run] monthly_returns [OF assms] run show ?thesis by (auto simp: spends_def)
qed

text \<open>A server that sells rods and grants everything, and a calendar of one day.\<close>
definition market_env :: env where
  "market_env = dead_env\<lparr>
     answer := (\<lambda>tr. case last tr of
       Request name params ms \<Rightarrow>
         if name = ''role_getroleinfo''
         then Ok (Object [(''items'', Object [(''1007'', Object [(''quantity'', jnum 9)]),
                (''1011'', Object [(''quantity'', jnum 15)])])])
         else Ok (Object [(''roleId'', jnum 5)])
     | _ \<Rightarrow> Ok Null),
     day_of_ymd := (\<lambda>_ _ _. Some 20605), unix_of := (\<lambda>d s. Some (d * 86400 + int s - 28800))\<rparr>"

lemma market_calendar: "ordinary_days market_env"
  by (rule fixed_offset_ordinary [where offset = 28800])
    (simp_all add: market_env_def last_day_of_month_def dead_env_def sample_now_def clock_ok_def)

definition sample_query :: monthly_query where
  "sample_query = \<lparr>mq_year = 2026, mq_month = 5, mq_day_of_month = 4, mq_days_in_month = 31, mq_progress_ratio = 0,
     mq_fish_tickets = 15, mq_arena_tickets = 9,
     mq_fish = build_progress_line 0 FISH_TARGET 0 True False, mq_arena = build_progress_line 0 ARENA_TARGET 0 True False\<rparr>"

theorem fish_topup_within_rods_witness:
  "\<exists>x g'. run_monthly_fish_topup market_env sample_query (monthly_args_default ''a.bin'' 77) new_game = Some (x, g') \<and>
     (\<exists>es. ws g' = es \<and> paid_total es \<le> 320)"
proof -
  obtain x g' where run:
    "run_monthly_fish_topup market_env sample_query (monthly_args_default ''a.bin'' 77) new_game = Some (x, g')"
    using fish_returns [OF market_calendar] by (fastforce simp: returns_def)
  from fish_topup_within_rods [OF this] run show ?thesis by (auto simp: new_game_def FISH_TARGET_def)
qed

theorem monthly_topup_returns_witness:
  "\<exists>x g' es. run_monthly_arena_topup market_env sample_config ''a.bin'' 77 sample_query
       ((monthly_args_default ''a.bin'' 77)\<lparr>ma_complete := True\<rparr>) new_game = Some (x, g') \<and>
     ws g' = es \<and> sum_list (map fights es) \<le> 100"
  using monthly_topup_returns [OF market_calendar, of sample_cli "(monthly_args_default ''a.bin'' 77)\<lparr>ma_complete := True\<rparr>"
      sample_config "''a.bin''" 77 sample_query new_game]
  by (auto simp: new_game_def monthly_args_default_def)

end
