(* ===== verification/Cli_Commands.thy ===== *)
theory Cli_Commands
  imports Cli Towers Study
begin

text \<open>
  The other subcommands of \<open>koc_cli\<close>: \<open>cli_daily.rs\<close>, \<open>cli_skinc.rs\<close>, \<open>cli_study.rs\<close>, \<open>cli_gacha.rs\<close>, \<open>cli_car.rs\<close>,
  \<open>cli_info.rs\<close>, \<open>cli_verify.rs\<close> and \<open>cli_group.rs\<close> under \<open>src/src\<close>.  Those for one role are flows on its session; those
  for several roles run one session after the other, each with a world of its own.
\<close>

section \<open>Several roles\<close>

text \<open>A session has an outcome and an end; the next one starts when it has ended.\<close>
type_synonym session = "unit res \<times> game"

fun run_sessions :: "(nat \<Rightarrow> string \<times> nat \<Rightarrow> unit res io) \<Rightarrow> nat \<Rightarrow> (string \<times> nat) list \<Rightarrow> session list option" where
  "run_sessions f i [] = Some []"
| "run_sessions f i (role # rest) =
     Option.bind (f i role new_game) (\<lambda>s. map_option (\<lambda>ss. s # ss) (run_sessions f (i + 1) rest))"

text \<open>The outcome of a command that runs several roles: their errors are only logged.\<close>
definition all_sessions :: "(nat \<Rightarrow> string \<times> nat \<Rightarrow> unit res io) \<Rightarrow> (string \<times> nat) list \<Rightarrow> (unit res \<times> session list) option" where
  "all_sessions f found = map_option (\<lambda>ss. (Ok (), ss)) (run_sessions f 0 found)"

text \<open>\<open>[i/n prefix]\<close>\<close>
definition counted_prefix :: "nat \<Rightarrow> nat \<Rightarrow> string \<Rightarrow> string" where
  "counted_prefix i n prefix = ''['' @ nat_str (i + 1) @ ''/'' @ nat_str n @ '' '' @ prefix @ '']''"

definition select_mode_error :: string where
  "select_mode_error = ''Select a mode:'' @ [CHR 0x0A] @ ''  --bin <BIN> --server-id <ID>   single role'' @ [CHR 0x0A]
     @ ''  --group <NAME>                 config group'' @ [CHR 0x0A] @ ''  --force-all                    all roles''"

record roles_args =
  ra_bin :: "string option"
  ra_server_id :: "nat option"
  ra_group :: "string option"
  ra_force_all :: bool

section \<open>Daily tasks\<close>

record daily_args = roles_args +
  da_skip_car :: bool
  da_skip_gacha :: bool

definition daily_role_prefix :: "string \<Rightarrow> nat \<Rightarrow> string" where
  "daily_role_prefix bin server_id =
     (let (server_num, idx) = parse_server_id server_id
      in ''['' @ unwrap_or (file_stem bin) ''?'' @ ''/'' @ nat_str server_num @ ''-'' @ nat_str idx @ '']'')"

text \<open>The configuration is looked up under the stem of the bin.\<close>
definition daily_cli_config :: "batch_config \<Rightarrow> daily_args \<Rightarrow> string \<Rightarrow> nat \<Rightarrow> daily_task_config" where
  "daily_cli_config config args bin server_id =
     (let cfg = daily_task_config_for config (unwrap_or (file_stem bin) []) server_id
      in cfg\<lparr>dtc_car_enabled := (dtc_car_enabled cfg \<and> \<not> da_skip_car args),
             dtc_gacha_enabled := (dtc_gacha_enabled cfg \<and> \<not> da_skip_gacha args)\<rparr>)"

definition daily_single :: "env \<Rightarrow> cli \<Rightarrow> string \<Rightarrow> nat \<Rightarrow> batch_config \<Rightarrow> daily_args \<Rightarrow> string \<Rightarrow> unit res io" where
  "daily_single E ctx bin server_id config args prefix =
     io_bind (open_role E ctx True bin server_id) (\<lambda>r.
       case r of
         Inl e \<Rightarrow> io_return (Err e)
       | Inr _ \<Rightarrow>
           io_bind (run_daily_tasks_stateful E daily_default prefix (daily_cli_config config args bin server_id)) (\<lambda>_.
           io_bind disconnect (\<lambda>_. io_return (Ok ()))))"

definition daily_roles ::
  "(nat \<Rightarrow> env) \<Rightarrow> (nat \<Rightarrow> cli) \<Rightarrow> (string \<times> nat) list \<Rightarrow> batch_config \<Rightarrow> daily_args \<Rightarrow> (unit res \<times> session list) option"
where
  "daily_roles Es ctxs found config args =
     all_sessions (\<lambda>i (bin, server_id).
       daily_single (Es i) (ctxs i) bin server_id config args
         (counted_prefix i (length found) (daily_role_prefix bin server_id))) found"

definition run_daily_cli ::
  "(nat \<Rightarrow> env) \<Rightarrow> cli \<Rightarrow> (nat \<Rightarrow> cli) \<Rightarrow> daily_args \<Rightarrow> (unit res \<times> session list) option"
where
  "run_daily_cli Es ctx ctxs args =
     (case load_config ctx of
        Inl e \<Rightarrow> Some (Err e, [])
      | Inr config \<Rightarrow>
          (case (ra_group args, ra_force_all args, ra_bin args, ra_server_id args) of
             (Some name, _) \<Rightarrow>
               (case group_roles config name of
                  Inl e \<Rightarrow> Some (Err e, []) | Inr found \<Rightarrow> daily_roles Es ctxs found config args)
           | (None, True, _) \<Rightarrow> daily_roles Es ctxs (all_roles config) config args
           | (None, False, Some bin, Some server_id) \<Rightarrow>
               map_option (\<lambda>s. (fst s, [s]))
                 (daily_single (Es 0) (ctxs 0) bin server_id config args (daily_role_prefix bin server_id) new_game)
           | _ \<Rightarrow> Some (Err select_mode_error, [])))"

section \<open>The skin challenge\<close>

text \<open>For several roles nothing is looked up before the token is fetched.\<close>
definition skinc_single :: "env \<Rightarrow> cli \<Rightarrow> string \<Rightarrow> nat \<Rightarrow> unit res io" where
  "skinc_single E ctx bin server_id =
     (case read_bin ctx bin of
        Inl e \<Rightarrow> io_return (Err e)
      | Inr bin_data \<Rightarrow>
          (case fst (select_role_token (cl_token_host ctx) bin_data server_id http_new) of
             Inl e \<Rightarrow> io_return (Err (''Failed to get role token: '' @ e))
           | Inr token \<Rightarrow>
               io_bind (login E (h_connect (cl_token_host ctx) token)) (\<lambda>r.
                 case r of
                   Inl e \<Rightarrow> io_return (Err (''Login failed: '' @ e))
                 | Inr _ \<Rightarrow> io_bind (run_skinc_climb E) (\<lambda>res. io_bind disconnect (\<lambda>_. io_return res)))))"

definition skinc_roles ::
  "(nat \<Rightarrow> env) \<Rightarrow> (nat \<Rightarrow> cli) \<Rightarrow> (string \<times> nat) list \<Rightarrow> (unit res \<times> session list) option"
where
  "skinc_roles Es ctxs found = all_sessions (\<lambda>i (bin, server_id). skinc_single (Es i) (ctxs i) bin server_id) found"

text \<open>Whether the bin has the role; only the mode for one role asks.\<close>
definition skinc_role_listed :: "cli \<Rightarrow> string \<Rightarrow> nat \<Rightarrow> unit res" where
  "skinc_role_listed ctx bin server_id =
     (case read_bin ctx bin of
        Inl e \<Rightarrow> Err e
      | Inr bin_data \<Rightarrow>
          (case fst (get_server_list (cl_list_host ctx) bin_data http_new) of
             Inl e \<Rightarrow> Err (''Failed to get server list: '' @ e)
           | Inr found \<Rightarrow>
               if list_ex (\<lambda>r. ri_server_id r = server_id) found then Ok ()
               else Err (''server_id '' @ nat_str server_id
                         @ '' not found in this bin (use `koc_cli verify --bin ...` to inspect)'')))"

definition run_skinc_cli ::
  "(nat \<Rightarrow> env) \<Rightarrow> cli \<Rightarrow> (nat \<Rightarrow> cli) \<Rightarrow> roles_args \<Rightarrow> (unit res \<times> session list) option"
where
  "run_skinc_cli Es ctx ctxs args =
     (case load_config ctx of
        Inl e \<Rightarrow> Some (Err e, [])
      | Inr config \<Rightarrow>
          (case (ra_group args, ra_force_all args, ra_bin args, ra_server_id args) of
             (Some name, _) \<Rightarrow>
               (case group_roles config name of Inl e \<Rightarrow> Some (Err e, []) | Inr found \<Rightarrow> skinc_roles Es ctxs found)
           | (None, True, _) \<Rightarrow> skinc_roles Es ctxs (all_roles config)
           | (None, False, Some bin, Some server_id) \<Rightarrow>
               (case skinc_role_listed ctx bin server_id of
                  Inl e \<Rightarrow> Some (Err e, [])
                | Inr _ \<Rightarrow> map_option (\<lambda>s. (fst s, [s])) (skinc_single (Es 0) (ctxs 0) bin server_id new_game))
           | _ \<Rightarrow> Some (Err select_mode_error, [])))"

section \<open>One role\<close>

text \<open>\<open>cli_study.rs\<close>: a quiz that fails ends the command with the session open.\<close>
definition run_study_cli ::
  "env \<Rightarrow> (int \<Rightarrow> int \<times> nat) \<Rightarrow> (string \<Rightarrow> string) \<Rightarrow> bank \<Rightarrow> cli \<Rightarrow> string \<Rightarrow> nat \<Rightarrow> bool \<Rightarrow> unit res io"
where
  "run_study_cli E iso_week lower bank ctx bin server_id force =
     io_bind (open_role E ctx False bin server_id) (\<lambda>r.
       case r of
         Inl e \<Rightarrow> io_return (Err e)
       | Inr _ \<Rightarrow>
           io_bind read_game (\<lambda>g. io_bind (read_local E) (\<lambda>now.
             if is_study_completed_this_week E iso_week now (role_info g) \<and> \<not> force
             then io_bind disconnect (\<lambda>_. io_return (Ok ()))
             else
               io_bind (run_study E lower bank ''[CLI]'' report_new) (\<lambda>(outcome, report).
                 case outcome of
                   Inl e \<Rightarrow> io_return (Err e)
                 | Inr _ \<Rightarrow>
                     io_bind (send_with_response E ''role_getroleinfo''
                       (jobj [(''clientVersion'', Str ''2.21.2-fa918e1997301834-wx''), (''inviteUid'', jnum 0),
                         (''platform'', Str ''hortor''), (''platformExt'', Str ''mix''), (''scene'', Str '''')]) 8000) (\<lambda>_.
                     io_bind disconnect (\<lambda>_. io_return (Ok ())))))))"

text \<open>\<open>cli_gacha.rs\<close>; the answer to the draw is what is printed.\<close>
definition run_gacha :: "env \<Rightarrow> cli \<Rightarrow> string \<Rightarrow> nat \<Rightarrow> json option res io" where
  "run_gacha E ctx bin server_id =
     io_bind (open_role E ctx True bin server_id) (\<lambda>r.
       case r of
         Inl e \<Rightarrow> io_return (Err e)
       | Inr _ \<Rightarrow>
           io_bind read_game (\<lambda>g. io_bind (read_local E) (\<lambda>now.
             let statistics = Option.bind (role_info g) (\<lambda>v.
                   or_else (pointer [''role'', ''statistics''] v) (pointer [''statistics''] v));
                 gacha_free = Option.bind statistics (\<lambda>s. jget s ''gacha:free'')
             in if \<not> is_today_available E now gacha_free then io_return (Ok None)
                else io_bind (gacha_drawreward E) (\<lambda>r. io_return (case r of
                       Inl e \<Rightarrow> Err (''gacha draw failed: '' @ e) | Inr resp \<Rightarrow> Ok (Some resp))))))"

text \<open>\<open>cli_car.rs\<close>\<close>
definition run_car :: "env \<Rightarrow> cli \<Rightarrow> string \<Rightarrow> nat \<Rightarrow> string \<Rightarrow> unit res io" where
  "run_car E ctx bin server_id action =
     io_bind (open_role E ctx True bin server_id) (\<lambda>r.
       case r of
         Inl e \<Rightarrow> io_return (Err e)
       | Inr _ \<Rightarrow>
           if action = ''send'' then
             io_bind (claim_all_cars E ''car'') (\<lambda>_. io_bind (smart_send_car E ''car'') (\<lambda>_. io_return (Ok ())))
           else if action = ''claim'' then io_bind (claim_all_cars E ''car'') (\<lambda>_. io_return (Ok ()))
           else io_return (Err (''Unknown action '' @ [CHR 0x27] @ action @ [CHR 0x27] @ '', use '' @ [CHR 0x27] @ ''send''
                  @ [CHR 0x27] @ '' or '' @ [CHR 0x27] @ ''claim'' @ [CHR 0x27])))"

datatype info_type = Info_Role | Info_Evotower

text \<open>\<open>cli_info.rs\<close>; the value is what is printed.\<close>
definition run_info :: "env \<Rightarrow> cli \<Rightarrow> string \<Rightarrow> nat \<Rightarrow> info_type \<Rightarrow> json res io" where
  "run_info E ctx bin server_id kind =
     io_bind (open_role E ctx False bin server_id) (\<lambda>r.
       case r of
         Inl e \<Rightarrow> io_return (Err e)
       | Inr _ \<Rightarrow>
           (case kind of
              Info_Role \<Rightarrow> io_bind read_game (\<lambda>g. io_return (ok_or (role_info g) ''role_info not available after login''))
            | Info_Evotower \<Rightarrow> io_bind (evotower_getinfo E) (\<lambda>r. io_return (case r of
                  Inl e \<Rightarrow> Err (''evotower_getinfo failed: '' @ e) | Inr data \<Rightarrow> Ok data))))"

section \<open>Printing\<close>

text \<open>\<open>cli_verify.rs\<close>: the lines printed, and the outcome; \<open>debug\<close> is \<open>{:?}\<close> of a list of strings.\<close>
definition run_verify :: "(string list \<Rightarrow> string) \<Rightarrow> cli \<Rightarrow> string \<Rightarrow> nat option \<Rightarrow> string list \<times> unit res" where
  "run_verify debug ctx bin target =
     (case read_bin ctx bin of
        Inl e \<Rightarrow> ([], Err e)
      | Inr bin_data \<Rightarrow>
          (let lines = [''Read '' @ nat_str (length bin_data) @ '' bytes from '' @ bin,
                 (case parse_bin (cl_list_host ctx) bin_data of
                    Inr data \<Rightarrow> ''Parsed OK, fields: '' @ debug (sort (map fst data))
                  | Inl e \<Rightarrow> ''Parse failed: '' @ e)]
           in case fst (get_server_list (cl_list_host ctx) bin_data http_new) of
                Inl e \<Rightarrow> (lines, Err (''Server list failed: '' @ e))
              | Inr found \<Rightarrow>
                  (lines @ print_roles found @
                   (case target of
                      None \<Rightarrow> []
                    | Some sid \<Rightarrow>
                        (case find (\<lambda>r. ri_server_id r = sid) found of
                           Some role \<Rightarrow> [[], ''Target server_id '' @ nat_str sid @ '' found: name='' @ ri_name role
                             @ '' power='' @ nat_str (ri_power role) @ '' level='' @ nat_str (ri_level role)]
                         | None \<Rightarrow> [[], ''Target server_id '' @ nat_str sid @ '' not found in this bin''])),
                   Ok ())))"

definition group_line :: "string \<times> nat \<Rightarrow> string" where
  "group_line role =
     (case role of (bin, sid) \<Rightarrow> ''  '' @ unwrap_or (file_name bin) bin @ ('' '' @ zh [0x2192] @ '' '') @ nat_str sid)"

text \<open>\<open>cli_group.rs\<close>\<close>
definition run_group :: "cli \<Rightarrow> string list res" where
  "run_group ctx =
     (case load_config ctx of
        Inl e \<Rightarrow> Err e
      | Inr config \<Rightarrow>
          Ok (if groups config = [] then
                [''No groups defined. Showing all roles:''] @ map group_line (all_roles config)
                @ [''Total: '' @ nat_str (length (all_roles config)) @ '' roles across '' @ nat_str (length (bins config)) @ '' bins'']
              else concat (map (\<lambda>group.
                let found = (case group_roles config group of Inl e \<Rightarrow> [] | Inr found \<Rightarrow> found)
                in (''['' @ group @ ''] ('' @ nat_str (length found) @ '' roles)'') # map group_line found) (groups config))))"

end
