(* ===== verification/Cli_Commands_Facts.thy ===== *)
theory Cli_Commands_Facts
  imports Cli_Commands Config_Roles
begin

text \<open>
  The daily subcommand looks its configuration up under the wrong name; several roles run one after the other whatever
  becomes of each.
\<close>

section \<open>Sessions in turn\<close>

lemma run_sessions_length: "run_sessions f i found = Some ss \<Longrightarrow> length ss = length found"
  by (induction found arbitrary: i ss) (auto simp: bind_eq_Some_conv)

lemma run_sessions_nth:
  "run_sessions f i found = Some ss \<Longrightarrow> j < length found \<Longrightarrow> f (i + j) (found ! j) new_game = Some (ss ! j)"
proof (induction found arbitrary: i j ss)
  case (Cons role rest)
  then obtain s tl where s: "f i role new_game = Some s" "run_sessions f (i + 1) rest = Some tl" "ss = s # tl"
    by (auto simp: bind_eq_Some_conv)
  show ?case
  proof (cases j)
    case (Suc k)
    then show ?thesis using Cons.IH [OF s(2), of k] Cons.prems(2) s(3) by simp
  qed (use s in simp)
qed simp

section \<open>The daily subcommand\<close>

lemma stem_of_bin: "file_name bin = Some (stem @ ''.bin'') \<Longrightarrow> stem \<noteq> [] \<Longrightarrow> file_stem bin = Some stem"
proof -
  assume "file_name bin = Some (stem @ ''.bin'')" "stem \<noteq> []"
  moreover have "rsplit_once (CHR ''.'') (stem @ CHR ''.'' # ''bin'') = Some (stem, ''bin'')"
    by (rule rsplit_once_append) simp
  ultimately show ?thesis by (simp add: file_stem_def)
qed

lemma plain_file_name: "CHR ''/'' \<notin> set s \<Longrightarrow> unwrap_or (file_name s) s = s"
  by (auto simp: file_name_def path_components_def split_on_no_sep Let_def)

lemma replace_backslash_ending: "replace_backslash s = t @ ''.bin'' \<Longrightarrow> \<exists>t'. s = t' @ ''.bin''"
proof -
  assume "replace_backslash s = t @ ''.bin''"
  then obtain a b where ab: "s = a @ b" "map (\<lambda>x. if x = CHR 0x5C then CHR ''/'' else x) b = ''.bin''"
    by (auto simp: replace_backslash_def replace_char_def map_eq_append_conv)
  have same: "x = d" if "(if x = CHR 0x5C then CHR ''/'' else x) = d" "d \<noteq> CHR ''/''" for x d
    using that by (auto split: if_splits)
  from ab(2) have "b = ''.bin''" by (auto simp: map_eq_Cons_conv dest!: same)
  with ab(1) show ?thesis by blast
qed

text \<open>C37: The daily subcommand never uses what the configuration says of a single role.  It looks a role up under the stem of
  its bin's file name, where the configuration has the whole name: with bins named \<open>.bin\<close>, as the examples have them,
  neither the formations nor the dream shop of any role are found.\<close>
theorem daily_cli_loses_overrides:
  assumes "file_name bin = Some (stem @ ''.bin'')" "stem \<noteq> []" "\<nexists>s. stem = s @ ''.bin''"
    and "\<forall>key \<in> fst ` set (role_formations c) \<union> fst ` set (role_dream_shop c). \<exists>s. key = s @ ''.bin''"
  shows "dtc_formations (daily_cli_config c args bin server_id) = None \<and>
    dtc_dream_shop (daily_cli_config c args bin server_id) = None"
proof -
  have slash: "CHR ''/'' \<notin> set stem" using file_name_no_slash [OF assms(1)] by auto
  have name: "bin_name_from_path stem = replace_backslash stem"
    by (simp add: bin_name_from_path_def plain_file_name [OF slash])
  have missing: "map_of m (replace_backslash stem) = None"
    if "\<forall>key \<in> fst ` set m. \<exists>s. key = s @ ''.bin''" for m :: "(string \<times> 'b) list"
  proof -
    have "replace_backslash stem \<notin> fst ` set m" using that assms(3) replace_backslash_ending by blast
    then show ?thesis by (simp add: map_of_eq_None_iff)
  qed
  have "map_of (role_formations c) (replace_backslash stem) = None" "map_of (role_dream_shop c) (replace_backslash stem) = None"
    using assms(4) by (auto intro!: missing)
  then show ?thesis
    by (simp add: daily_cli_config_def Let_def stem_of_bin [OF assms(1,2)] daily_task_config_for_def resolve_dream_shop_def
        resolve_formation_with_source_def name split: prod.split)
qed

definition override_config :: batch_config where
  "override_config = sample_config\<lparr>role_formations := [(''a.bin'', [(77, \<lparr>fo_arena = Some 4, fo_tower = None,
     fo_evotower = None, fo_boss_daily = None, fo_boss_legion = None\<rparr>)])]\<rparr>"

theorem daily_cli_loses_overrides_witness:
  "dtc_formations (daily_task_config_for override_config ''bins/a.bin'' 77) \<noteq> None \<and>
   dtc_formations (daily_cli_config override_config
     \<lparr>ra_bin = Some ''bins/a.bin'', ra_server_id = Some 77, ra_group = None, ra_force_all = False, da_skip_car = False,
      da_skip_gacha = False\<rparr> ''bins/a.bin'' 77) = None"
proof -
  have name: "file_name ''bins/a.bin'' = Some ''a.bin''" by (simp add: file_name_def path_components_def)
  have "bin_name_from_path ''bins/a.bin'' = ''a.bin''"
    by (simp add: bin_name_from_path_def name replace_backslash_def replace_char_def)
  then have "dtc_formations (daily_task_config_for override_config ''bins/a.bin'' 77) \<noteq> None"
    by (simp add: daily_task_config_for_def resolve_formation_with_source_def override_config_def override_resolve_def
        sample_config_def split: prod.split)
  moreover have "dtc_formations (daily_cli_config override_config
     \<lparr>ra_bin = Some ''bins/a.bin'', ra_server_id = Some 77, ra_group = None, ra_force_all = False, da_skip_car = False,
      da_skip_gacha = False\<rparr> ''bins/a.bin'' 77) = None"
  proof (rule conjunct1 [OF daily_cli_loses_overrides [of _ "''a''"]])
    show "\<nexists>s. ''a'' = s @ ''.bin''" by (auto dest: arg_cong [of _ _ length])
    show "\<forall>key \<in> fst ` set (role_formations override_config) \<union> fst ` set (role_dream_shop override_config). \<exists>s. key = s @ ''.bin''"
      by (simp add: override_config_def sample_config_def)
  qed (simp_all add: name)
  ultimately show ?thesis by simp
qed

end
