(* ===== verification/Car_Facts.thy ===== *)
theory Car_Facts
  imports Cli_Facts
begin

text \<open>
  The vehicles: claiming always returns; sending returns when the server counts the refreshes it grants, and spends at
  most one refresh per ticket and one per car that has none yet; a server that does not count keeps the loop going for ever.
\<close>

section \<open>Claiming\<close>

lemma research_falls: "yields (falls (\<lambda>(level, pieces, rep). length CAR_RESEARCH_COSTS - level) s) (research_round E prefix s)"
  unfolding research_round_def api_defs
  by (cases s) (auto intro!: yields_rules simp: falls_def)

lemma claim_returns [returns_rules]: "returns (claim_all_cars E prefix)"
proof -
  have round: "returns (research_round E prefix s)" for s
    unfolding research_round_def api_defs by (intro returns_rules)
  have "returns (claim_one_car E prefix c acc)" for c acc
    unfolding claim_one_car_def api_defs Let_def
    by (intro returns_rules falling_loop_returns [OF round research_falls])
  then show ?thesis unfolding claim_all_cars_def api_defs Let_def by (intro returns_rules)
qed

section \<open>Refreshes\<close>

text \<open>Every refresh that is granted comes back with the number of refreshes the car has had.\<close>
definition counted :: "json \<Rightarrow> bool" where
  "counted data = (\<exists>c. Option.bind (jget (unwrap_or (jget data ''car'') data) ''refreshCount'') as_nat = Some c \<and> nat_as_u32 c \<noteq> 0)"

definition refreshes_counted :: "env \<Rightarrow> bool" where
  "refreshes_counted E = (\<forall>tr params data. answer E (tr @ [Request ''car_refresh'' params T_DEFAULT]) = Inr data \<longrightarrow> counted data)"

lemma refresh_counted:
  "refreshes_counted E \<Longrightarrow> yields (\<lambda>r. \<forall>data. r = Inr data \<longrightarrow> counted data) (car_refresh E car_id)"
  by (auto simp: yields_def refreshes_counted_def api_defs cmd_def cmd_with_timeout_def send_with_response_def Let_def)

text \<open>What a car may still cost: its free refresh and the tickets.\<close>
definition refresh_budget :: "car_loop \<Rightarrow> nat" where
  "refresh_budget s = (if cl_refresh_count s = 0 then 1 else 0) + cl_tickets s"

lemma applied_simps [simp]: "cl_tickets (apply_refresh data s) = cl_tickets s"
    "counted data \<Longrightarrow> cl_refresh_count (apply_refresh data s) \<noteq> 0"
  by (auto simp: apply_refresh_def counted_def Let_def split: option.splits)

text \<open>The state after a refresh that was granted, its ticket paid.\<close>
definition paid_refresh :: "json \<Rightarrow> car_loop \<Rightarrow> car_loop" where
  "paid_refresh data s =
     (let s' = apply_refresh data s in if cl_refresh_count s \<noteq> 0 then s'\<lparr>cl_tickets := cl_tickets s' - 1\<rparr> else s')"

lemma refresh_costs:
  "counted data \<Longrightarrow> cl_refresh_count s = 0 \<or> 0 < cl_tickets s \<Longrightarrow> refresh_budget (paid_refresh data s) < refresh_budget s"
  by (auto simp: paid_refresh_def refresh_budget_def Let_def simp del: neq0_conv)

lemma paid_refresh_shape:
  "(let s' = apply_refresh data s in f (if \<not> cl_refresh_count s = 0 then s'\<lparr>cl_tickets := cl_tickets s' - 1\<rparr> else s')) =
   f (paid_refresh data s)"
  by (simp add: paid_refresh_def Let_def)

section \<open>Costs\<close>

definition refreshes :: "event list \<Rightarrow> nat" where
  "refreshes tr = length (filter (\<lambda>e. \<not> GameApi.requests (- {''car_refresh''}) e) tr)"

text \<open>A flow that starts with a budget and ends with what is left for its result refreshes no more cars than the difference.\<close>
definition affords :: "nat \<Rightarrow> ('a \<Rightarrow> nat) \<Rightarrow> 'a io \<Rightarrow> bool" where
  "affords p q m = (\<forall>g x g'. m g = Some (x, g') \<longrightarrow> refreshes (ws g') + q x \<le> refreshes (ws g) + p)"

named_theorems affords_rules \<open>flows within a budget\<close>

lemma affords_return [affords_rules]: "q x \<le> p \<Longrightarrow> affords p q (io_return x)"
  by (simp add: affords_def)

lemma affords_quiet: "obeys (extends (GameApi.requests (- {''car_refresh''}))) m \<Longrightarrow> affords p (\<lambda>_. p) m"
  by (fastforce simp: affords_def obeys_def extends_def refreshes_def list_all_iff)

lemma affords_bind: "affords p q m \<Longrightarrow> (\<And>x. affords (q x) r (f x)) \<Longrightarrow> affords p r (io_bind m f)"
  by (fastforce simp: affords_def elim!: io_bind_cases)

lemma affords_bind_with:
  "yields P m \<Longrightarrow> affords p q m \<Longrightarrow> (\<And>x. P x \<Longrightarrow> affords (q x) r (f x)) \<Longrightarrow> affords p r (io_bind m f)"
  unfolding affords_def yields_def by (fastforce elim!: io_bind_cases)

lemma affords_after [affords_rules]:
  "obeys (extends (GameApi.requests (- {''car_refresh''}))) m \<Longrightarrow> (\<And>x. affords p r (f x)) \<Longrightarrow> affords p r (io_bind m f)"
  by (rule affords_bind [OF affords_quiet])

lemma affords_for:
  assumes "\<And>x s. affords (q s + cost x) q (f x s)"
  shows "affords (q s + sum_list (map cost xs)) q (io_for xs f s)"
proof (induction xs arbitrary: s)
  case (Cons x xs)
  have "affords (q s + cost x + sum_list (map cost xs)) (\<lambda>s'. q s' + sum_list (map cost xs)) (f x s)"
    using assms [of s x] by (fastforce simp: affords_def)
  then show ?case using Cons by (auto intro!: affords_bind simp: add.assoc)
qed (simp add: affords_return)

lemma affords_loop:
  assumes "\<And>s. affords (p s) (case_sum p q) (body s)"
  shows "affords (p s) q (io_loop body s)"
  unfolding affords_def
proof (intro allI impI)
  fix g x g'
  assume "io_loop body s g = Some (x, g')"
  then show "refreshes (ws g') + q x \<le> refreshes (ws g) + p s"
    by (rule io_loop_induct [where P = "\<lambda>s g x g'. refreshes (ws g') + q x \<le> refreshes (ws g) + p s"])
      (use assms in \<open>fastforce simp: affords_def\<close>)+
qed

lemma affords_refresh: "affords (Suc p) (\<lambda>_. p) (car_refresh E car_id)"
  by (auto simp: affords_def refreshes_def api_defs cmd_def cmd_with_timeout_def send_with_response_def Let_def)

section \<open>Sending\<close>

lemma refresh_round_shape:
  "refresh_round E prefix is_wed car_id helper_id s =
     (if cl_refresh_count s = 0 \<or> 0 < cl_tickets s then
        io_bind (car_refresh E car_id) (\<lambda>r. case r of
          Inl e \<Rightarrow> io_return (Inr (s\<lparr>cl_report := fail_with_prefix prefix ''Car Refresh'' e (cl_report s)\<rparr>))
        | Inr data \<Rightarrow>
            if worth_sending is_wed (cl_rewards (paid_refresh data s)) then
              io_bind (car_send E car_id helper_id []) (\<lambda>r. io_bind delay (\<lambda>_.
                io_return (Inr ((paid_refresh data s)\<lparr>cl_report := run_with_prefix prefix
                  (''CarSend ['' @ grade_label (cl_color (paid_refresh data s)) @ ''] After Refresh'' @ send_reason (cl_rewards (paid_refresh data s)))
                  r (cl_report (paid_refresh data s))\<rparr>))))
            else io_bind delay (\<lambda>_. io_return (Inl (paid_refresh data s))))
      else io_bind (car_send E car_id helper_id []) (\<lambda>r. io_bind delay (\<lambda>_.
             io_return (Inr (s\<lparr>cl_report := run_with_prefix prefix
               (''CarSend ['' @ grade_label (cl_color s) @ ''] tickets exhausted'') r (cl_report s)\<rparr>)))))"
  by (simp add: refresh_round_def paid_refresh_def Let_def cong: if_cong)

lemma send_emits: "''car_send'' \<in> S \<Longrightarrow> obeys (extends (GameApi.requests S)) (car_send E car_id helper_id text)"
  unfolding api_defs by (intro emits_rules)

lemma refresh_round_falls:
  assumes "refreshes_counted E"
  shows "yields (falls refresh_budget s) (refresh_round E prefix is_wed car_id helper_id s)"
  unfolding refresh_round_shape
  by (intro yields_shapes(1) yields_bind_with [OF refresh_counted [OF assms]])
    (auto intro!: yields_rules simp: refresh_costs split: sum.splits)

lemma refresh_round_returns: "returns (refresh_round E prefix is_wed car_id helper_id s)"
  unfolding refresh_round_shape api_defs by (intro returns_rules)

text \<open>One more than the budget: the refresh that is refused and ends the loop.\<close>
lemma refresh_round_affords:
  assumes "refreshes_counted E"
  shows "affords (Suc (refresh_budget s)) (case_sum (\<lambda>s. Suc (refresh_budget s)) cl_tickets)
    (refresh_round E prefix is_wed car_id helper_id s)"
proof (cases "cl_refresh_count s = 0 \<or> 0 < cl_tickets s")
  case True
  have granted: "refresh_budget (paid_refresh data s) < refresh_budget s" if "counted data" for data
    using refresh_costs [OF that True] .
  have within: "cl_tickets s' \<le> refresh_budget s'" for s' by (simp add: refresh_budget_def)
  have sent: "cl_tickets (paid_refresh data s) \<le> refresh_budget s" if "counted data" for data
    using granted [OF that] within [of "paid_refresh data s"] by simp
  show ?thesis
    unfolding refresh_round_shape if_P [OF True]
    by (intro affords_bind_with [OF refresh_counted [OF assms] affords_refresh])
      (auto intro!: affords_rules emits_rules send_emits simp: Suc_le_eq granted within sent split: sum.splits)
next
  case False
  then show ?thesis
    unfolding refresh_round_shape if_not_P [OF False]
    by (intro affords_rules emits_rules send_emits) (simp_all add: refresh_budget_def)
qed

text \<open>What one car of the list may cost besides the tickets: a free refresh and a refused one.\<close>
definition car_cost :: "car \<Rightarrow> nat" where
  "car_cost c = (case c of (_, _, send_at, refresh_count, _, _) \<Rightarrow>
     if send_at \<noteq> 0 then 0 else if refresh_count = 0 then 2 else 1)"

lemma send_one_car_affords:
  assumes "refreshes_counted E"
  shows "affords (fst acc + car_cost c) fst (send_one_car E prefix is_wed sorted_helpers c acc)"
proof -
  obtain car_id color send_at refresh_count rewards h where c: "c = (car_id, color, send_at, refresh_count, rewards, h)"
    by (cases c)
  obtain tickets used rep where acc: "acc = (tickets, used, rep)" by (cases acc)
  obtain helper_id used' where helper: "choose_helper color sorted_helpers used = (helper_id, used')" by fastforce
  let ?s = "\<lparr>cl_color = color, cl_refresh_count = refresh_count, cl_rewards = rewards, cl_tickets = tickets, cl_report = rep\<rparr>"
  have loop: "affords (Suc (refresh_budget ?s)) cl_tickets (io_loop (refresh_round E prefix is_wed car_id helper_id) ?s)"
    by (rule affords_loop [where p = "\<lambda>s. Suc (refresh_budget s)"]) (rule refresh_round_affords [OF assms])
  show ?thesis
  proof (cases "send_at = 0 \<and> \<not> worth_sending is_wed rewards")
    case True
    then have "Suc (refresh_budget ?s) = tickets + car_cost c" by (simp add: refresh_budget_def car_cost_def c)
    with loop have "affords (tickets + car_cost c) fst
        (io_bind (io_loop (refresh_round E prefix is_wed car_id helper_id) ?s) (\<lambda>s. io_return (cl_tickets s, used', cl_report s)))"
      by (intro affords_bind [where q = cl_tickets]) (simp_all add: affords_return)
    then show ?thesis using True by (simp add: send_one_car_def c acc helper)
  next
    case False
    then show ?thesis
      by (auto simp: send_one_car_def c acc helper intro!: affords_rules emits_rules send_emits)
  qed
qed

lemma send_one_car_returns:
  assumes "refreshes_counted E"
  shows "returns (send_one_car E prefix is_wed sorted_helpers c acc)"
  unfolding send_one_car_def api_defs Let_def
  by (intro returns_rules falling_loop_returns [OF refresh_round_returns refresh_round_falls [OF assms]])

lemma smart_send_returns: "refreshes_counted E \<Longrightarrow> returns (smart_send_car E prefix)"
  unfolding smart_send_car_def api_defs Let_def
  by (intro returns_rules send_one_car_returns)

lemma car_block_returns: "refreshes_counted E \<Longrightarrow> returns (car_block E prefix enabled s)"
  unfolding car_block_def
  by (cases s; simp only: prod.case) (intro returns_rules smart_send_returns)

lemma late_blocks_return_counted:
  "refreshes_counted E \<Longrightarrow> b \<in> set (late_blocks E prefix config day) \<Longrightarrow> returns (b s)"
  using late_blocks_return [of "config\<lparr>dtc_car_enabled := False\<rparr>" b E prefix day s] car_block_returns [of E prefix "dtc_car_enabled config" s]
  by (auto simp: late_blocks_def)

lemma daily_counted_returns: "refreshes_counted E \<Longrightarrow> returns (run_daily_tasks_stateful E d prefix config)"
  unfolding run_daily_tasks_stateful_def read_original_team_def
  by (intro returns_rules chain_returns main_blocks_return late_blocks_return_counted)

text \<open>C18: The vehicles come to an end.  Claiming returns whatever the server answers.  When the server counts the refreshes it
  grants, sending returns too, and so does the daily run with vehicles enabled; and the loop over the cars asks for at most one
  refresh per ticket, one for each car that still has its free one, and one that is refused for each car it sends.\<close>
theorem cars_within_tickets:
  assumes "refreshes_counted E"
  shows "returns (claim_all_cars E prefix) \<and> returns (smart_send_car E prefix) \<and>
    returns (run_daily_tasks_stateful E d prefix config) \<and>
    (\<exists>left used' rep' g'. io_for cars (send_one_car E prefix is_wed helpers) (tickets, used, rep) g = Some ((left, used', rep'), g') \<and>
       refreshes (ws g') + left \<le> refreshes (ws g) + tickets + sum_list (map car_cost cars))"
proof (intro conjI)
  have "returns (io_for cars (send_one_car E prefix is_wed helpers) (tickets, used, rep))"
    by (intro returns_for send_one_car_returns assms)
  then obtain left used' rep' g' where
    run: "io_for cars (send_one_car E prefix is_wed helpers) (tickets, used, rep) g = Some ((left, used', rep'), g')"
    by (fastforce simp: returns_def)
  moreover have "affords (fst (tickets, used, rep) + sum_list (map car_cost cars)) fst
      (io_for cars (send_one_car E prefix is_wed helpers) (tickets, used, rep))"
    by (intro affords_for send_one_car_affords assms)
  ultimately show "\<exists>left used' rep' g'. io_for cars (send_one_car E prefix is_wed helpers) (tickets, used, rep) g = Some ((left, used', rep'), g') \<and>
       refreshes (ws g') + left \<le> refreshes (ws g) + tickets + sum_list (map car_cost cars)"
    by (fastforce simp: affords_def)
qed (intro claim_returns smart_send_returns daily_counted_returns assms)+

text \<open>A server that grants every refresh and says that it was the car's first.\<close>
definition counting_env :: env where
  "counting_env = dead_env\<lparr>answer := (\<lambda>_. Ok (jobj [(''refreshCount'', jnum 1)]))\<rparr>"

theorem cars_within_tickets_witness:
  "\<exists>left used rep g. io_for [(''c1'', 4, 0, 0, [], 0)] (send_one_car counting_env ''[R1]'' False []) (2, [], report_new) new_game =
       Some ((left, used, rep), g) \<and> refreshes (ws g) + left \<le> 4"
proof -
  have "counted (jobj [(''refreshCount'', jnum 1)])"
    by (simp add: counted_def jobj_def jget_def jnum_def as_nat_def as_u64_def number_from_u64_def unwrap_or_def nat_as_u32_def)
  then have "refreshes_counted counting_env" by (simp add: refreshes_counted_def counting_env_def)
  moreover have "refreshes (ws new_game) + 2 + sum_list (map car_cost [(''c1'', 4, 0, 0, [], 0)]) = 4"
    by (simp add: car_cost_def new_game_def refreshes_def)
  ultimately show ?thesis
    using cars_within_tickets [of counting_env "''[R1]''" signed_in plain_config "[(''c1'', 4, 0, 0, [], 0)]" False "[]" 2 "[]" report_new new_game]
    by (simp only: simp_thms)
qed

section \<open>A server that does not count\<close>

text \<open>Every refresh is granted, and the answer says nothing of the car.\<close>
definition uncounting :: "env \<Rightarrow> bool" where
  "uncounting E = (\<forall>tr params. answer E (tr @ [Request ''car_refresh'' params T_DEFAULT]) = Ok (jobj []))"

lemma uncounted_round:
  assumes "uncounting E" "cl_refresh_count s = 0" "\<not> worth_sending is_wed (cl_rewards s)"
  shows "yields (\<lambda>r. r = Inl s) (refresh_round E prefix is_wed car_id helper_id s)"
proof -
  have "apply_refresh (jobj []) s = s" by (simp add: apply_refresh_def jobj_def jget_def unwrap_or_def)
  then have same: "paid_refresh (jobj []) s = s" using assms(2) by (simp add: paid_refresh_def)
  have "yields (\<lambda>r. r = Ok (jobj [])) (car_refresh E car_id)"
    using assms(1) by (auto simp: yields_def uncounting_def api_defs cmd_def cmd_with_timeout_def send_with_response_def Let_def)
  then show ?thesis
    unfolding refresh_round_shape
    by (intro yields_shapes(1) yields_bind_with [of "\<lambda>r. r = Ok (jobj [])"])
      (auto simp: assms(2,3) same yields_return yields_bind)
qed

text \<open>A car that has its free refresh left is refreshed for ever: no ticket is spent and no bound is kept.\<close>
lemma uncounted_refresh_never_ends:
  assumes "uncounting E" "cl_refresh_count s = 0" "\<not> worth_sending is_wed (cl_rewards s)"
  shows "io_loop (refresh_round E prefix is_wed car_id helper_id) s g = None"
proof (rule ccontr)
  assume "io_loop (refresh_round E prefix is_wed car_id helper_id) s g \<noteq> None"
  then obtain x g' where "io_loop (refresh_round E prefix is_wed car_id helper_id) s g = Some (x, g')" by auto
  then have "cl_refresh_count s = 0 \<longrightarrow> worth_sending is_wed (cl_rewards s)"
    by (rule io_loop_induct [where P = "\<lambda>s g x g'. cl_refresh_count s = 0 \<longrightarrow> worth_sending is_wed (cl_rewards s)"])
      (use yields_Some [OF uncounted_round [OF assms(1)]] in \<open>metis Inr_not_Inl sum.inject(1)\<close>)+
  with assms(2,3) show False by simp
qed

end
