(* ===== verification/Skin_Facts.thy ===== *)
theory Skin_Facts
  imports Tower_Facts
begin

text \<open>
  The skin challenge: it returns when the bosses can be cleared.  A boss has eight floors; a fight that is won goes on without a
  count, so the loop rests on the server to report the boss as cleared once its floors are won.  The first day of the activity
  comes from the server as well; its midnight is unwrapped, and the flow panics where the local time zone has none, or two.
\<close>

section \<open>Fights won\<close>

text \<open>Whether the last request of a history is a fight with a boss that the server answers as won.\<close>
definition wins :: "env \<Rightarrow> nat \<Rightarrow> event list \<Rightarrow> bool" where
  "wins E t tr =
     (tr \<noteq> [] \<and> (case last tr of
        Request name params ms \<Rightarrow> name = ''towers_fight'' \<and> jget params ''towerType'' = Some (jnum t)
      | _ \<Rightarrow> False) \<and>
      (case answer E tr of
         Inl e \<Rightarrow> False
       | Inr r \<Rightarrow> (case skinc_remaining_hp r of Some hp \<Rightarrow> f64_zero hp | None \<Rightarrow> False)))"

definition fights_won :: "env \<Rightarrow> nat \<Rightarrow> event list \<Rightarrow> nat" where
  "fights_won E t tr = length (filter (\<lambda>n. wins E t (take (Suc n) tr)) [0..<length tr])"

lemma fights_won_snoc: "fights_won E t (tr @ [e]) = fights_won E t tr + (if wins E t (tr @ [e]) then 1 else 0)"
proof -
  have "filter (\<lambda>n. wins E t (take (Suc n) (tr @ [e]))) [0..<length tr] = filter (\<lambda>n. wins E t (take (Suc n) tr)) [0..<length tr]"
    by (rule filter_cong) auto
  then show ?thesis by (simp add: fights_won_def)
qed

text \<open>Once as many fights with a boss are won as it has floors, it is reported as cleared.\<close>
definition bosses_clear :: "env \<Rightarrow> bool" where
  "bosses_clear E = (\<forall>tr t params ms res. 8 \<le> fights_won E t tr \<longrightarrow>
     answer E (tr @ [Request ''towers_getinfo'' params ms]) = Inr res \<longrightarrow> obj_get (level_rewards res) (nat_str t @ ''008'') \<noteq> None)"

section \<open>The loop\<close>

text \<open>A loop returns when a measure of its state and of the session falls.\<close>
lemma returns_loop_at:
  fixes measure_of :: "'s \<Rightarrow> game \<Rightarrow> nat"
  assumes "\<And>s. returns (body s)" and "\<And>s g s' g'. body s g = Some (Inl s', g') \<Longrightarrow> measure_of s' g' < measure_of s g"
  shows "returns (io_loop body s)"
proof -
  have "io_loop body s g \<noteq> None" for g
  proof (induction "measure_of s g" arbitrary: s g rule: less_induct)
    case less
    obtain r g' where b: "body s g = Some (r, g')" using assms(1) by (fastforce simp: returns_def)
    show ?case
    proof (cases r)
      case (Inl s')
      then show ?thesis using less [OF assms(2)] b io_loop_unfold(1) [of body s g s' g'] by simp
    next
      case (Inr x)
      then show ?thesis using io_loop_unfold(2) b by fastforce
    qed
  qed
  then show ?thesis by (simp add: returns_def)
qed

text \<open>What a round still has: four for each fight that may be won, one for each that may be lost in a row.\<close>
definition skin_measure :: "env \<Rightarrow> nat \<Rightarrow> skin_fight \<Rightarrow> game \<Rightarrow> nat" where
  "skin_measure E t s g = 4 * (8 - fights_won E t (ws g)) + (3 - sf_fail_count s)"

lemma quiet_won:
  assumes "obeys (extends (GameApi.requests (- {''towers_fight''}))) m" "m g = Some (x, h)"
  shows "fights_won E t (ws h) = fights_won E t (ws g)"
proof -
  obtain es where es: "ws h = ws g @ es" "list_all (GameApi.requests (- {''towers_fight''})) es"
    using obeysD [OF assms] by (auto simp: extends_def)
  have "fights_won E t (ws g @ es) = fights_won E t (ws g)"
    using es(2)
  proof (induction es rule: rev_induct)
    case (snoc e es)
    then have "\<not> wins E t ((ws g @ es) @ [e])" by (auto simp: wins_def split: event.splits)
    then show ?case using snoc by (simp add: fights_won_snoc flip: append_assoc)
  qed simp
  then show ?thesis by (simp add: es(1))
qed

lemma fight_counts:
  assumes "towers_fight E (jobj [(''towerType'', jnum t)]) g = Some (r, h)"
  shows "fights_won E t (ws h) = fights_won E t (ws g) +
    (case r of Inl e \<Rightarrow> 0 | Inr res \<Rightarrow> (case skinc_remaining_hp res of Some hp \<Rightarrow> if f64_zero hp then 1 else 0 | None \<Rightarrow> 0))"
proof -
  let ?params = "insert_param ''actId'' (jnum (get_tower_act_id E (wall E (ws g)))) (jobj [(''towerType'', jnum t)])"
  have h: "ws h = ws g @ [Request ''towers_fight'' ?params T_SKINC]" "r = answer E (ws h)"
    using assms by (auto simp: towers_fight_def cmd_with_timeout_def send_with_response_def io_bind_def Let_def)
  have "jget ?params ''towerType'' = Some (jnum t)" by (simp add: insert_param_def jobj_def jget_def)
  then show ?thesis
    using h by (simp add: fights_won_snoc wins_def split: sum.split option.split)
qed

lemma boss_cleared:
  assumes "bosses_clear E" "towers_getinfo E g = Some (Inr res, h)" "8 \<le> fights_won E t (ws g)"
  shows "obj_get (level_rewards res) (nat_str t @ ''008'') \<noteq> None"
  using assms by (auto simp: bosses_clear_def towers_getinfo_def cmd_with_timeout_def send_with_response_def io_bind_def Let_def)

lemma skin_emits:
  "obeys (extends (GameApi.requests (- {''towers_fight''}))) (towers_start E params)"
  "obeys (extends (GameApi.requests (- {''towers_fight''}))) (towers_getinfo E)"
  unfolding api_defs by (intro emits_rules; simp)+

text \<open>What a flow does with the number of fights won.\<close>
definition counting :: "env \<Rightarrow> nat \<Rightarrow> nat \<Rightarrow> ('a \<Rightarrow> nat \<Rightarrow> bool) \<Rightarrow> 'a io \<Rightarrow> bool" where
  "counting E t p Q m = (\<forall>g x g'. m g = Some (x, g') \<longrightarrow> fights_won E t (ws g) = p \<longrightarrow> Q x (fights_won E t (ws g')))"

lemma counting_shapes:
  "(b \<Longrightarrow> counting E t p Q m) \<Longrightarrow> (\<not> b \<Longrightarrow> counting E t p Q n) \<Longrightarrow> counting E t p Q (if b then m else n)"
  "(\<And>e. r = Inl e \<Longrightarrow> counting E t p Q (h e)) \<Longrightarrow> (\<And>y. r = Inr y \<Longrightarrow> counting E t p Q (l y)) \<Longrightarrow>
   counting E t p Q (case r of Inl e \<Rightarrow> h e | Inr y \<Rightarrow> l y)"
  "counting E t p Q (w x) \<Longrightarrow> counting E t p Q (Let x w)"
  by (auto split: sum.split)

lemma counting_return: "Q x p \<Longrightarrow> counting E t p Q (io_return x)"
  by (simp add: counting_def)

lemma counting_bind: "counting E t p R m \<Longrightarrow> (\<And>x n. R x n \<Longrightarrow> counting E t n Q (f x)) \<Longrightarrow> counting E t p Q (io_bind m f)"
  unfolding counting_def by (blast elim: io_bind_cases)

lemma counting_quiet:
  assumes "obeys (extends (GameApi.requests (- {''towers_fight''}))) m" "\<And>x. counting E t p Q (f x)"
  shows "counting E t p Q (io_bind m f)"
  by (rule counting_bind [where R = "\<lambda>x n. n = p"])
    (use quiet_won [OF assms(1)] assms(2) in \<open>auto simp: counting_def\<close>)

definition won :: "json res \<Rightarrow> bool" where
  "won r = (case r of Inl e \<Rightarrow> False | Inr res \<Rightarrow> (case skinc_remaining_hp res of Some hp \<Rightarrow> f64_zero hp | None \<Rightarrow> False))"

lemma counting_fight:
  assumes "\<And>r. counting E t (p + (if won r then 1 else 0)) Q (f r)"
  shows "counting E t p Q (io_bind (towers_fight E (jobj [(''towerType'', jnum t)])) f)"
proof (rule counting_bind)
  show "counting E t p (\<lambda>r n. n = p + (if won r then 1 else 0)) (towers_fight E (jobj [(''towerType'', jnum t)]))"
    unfolding counting_def by (auto dest!: fight_counts simp: won_def split: sum.splits option.splits)
qed (simp add: assms)

lemma counting_info:
  assumes "bosses_clear E"
    and "\<And>r. (\<And>res. r = Inr res \<Longrightarrow> 8 \<le> p \<Longrightarrow> obj_get (level_rewards res) (nat_str t @ ''008'') \<noteq> None) \<Longrightarrow> counting E t p Q (f r)"
  shows "counting E t p Q (io_bind (towers_getinfo E) f)"
proof (rule counting_bind)
  let ?R = "\<lambda>r n. n = p \<and> (\<forall>res. r = Inr res \<longrightarrow> 8 \<le> p \<longrightarrow> obj_get (level_rewards res) (nat_str t @ ''008'') \<noteq> None)"
  show "counting E t p ?R (towers_getinfo E)"
    unfolding counting_def using quiet_won [OF skin_emits(2)] boss_cleared [OF assms(1)] by blast
  show "counting E t n Q (f r)" if "?R r n" for r n using that assms(2) by blast
qed

lemma skin_round_counts:
  assumes "bosses_clear E"
  shows "counting E t p (\<lambda>r n. case r of Inl s' \<Rightarrow> 4 * (8 - n) + (3 - sf_fail_count s') < 4 * (8 - p) + (3 - sf_fail_count s) | Inr _ \<Rightarrow> True)
    (skin_round E t s)"
proof -
  let ?Q = "\<lambda>r n. case r of Inl s' \<Rightarrow> 4 * (8 - n) + (3 - sf_fail_count s') < 4 * (8 - p) + (3 - sf_fail_count s) | Inr _ \<Rightarrow> True"
  have pause: "counting E t n ?Q (io_bind (sleep 1000) (\<lambda>_. io_return (Inl s')))" if "?Q (Inl s') n" for s' n
    using that by (intro counting_quiet counting_return emits_rules) simp_all
  show ?thesis
    unfolding skin_round_def
    by (rule counting_quiet, (intro emits_rules skin_emits; simp))
      (intro counting_shapes counting_return counting_fight counting_info [OF assms] pause; force simp: won_def)
qed

lemma skin_round_falls:
  "bosses_clear E \<Longrightarrow> skin_round E t s g = Some (Inl s', g') \<Longrightarrow> skin_measure E t s' g' < skin_measure E t s g"
  using skin_round_counts [of E t "fights_won E t (ws g)" s] by (fastforce simp: counting_def skin_measure_def)

lemma skin_round_returns: "returns (skin_round E t s)"
  unfolding skin_round_def api_defs Let_def by (intro returns_rules)

lemma challenge_returns: "bosses_clear E \<Longrightarrow> returns (challenge_towers E ts m)"
  by (induction ts arbitrary: m)
    (auto intro!: returns_rules returns_loop_at [where measure_of = "skin_measure E _"] skin_round_returns skin_round_falls)

text \<open>In the local time zone every day of these hundred years has one midnight: no change to or from summer time falls on it.\<close>
definition midnights :: "env \<Rightarrow> bool" where
  "midnights E = (\<forall>year month day d. 2000 \<le> year \<longrightarrow> year < 2100 \<longrightarrow> day_of_ymd E year month day = Some d \<longrightarrow> unix_of E d 0 \<noteq> None)"

lemma digit_valE:
  assumes "48 \<le> (of_char c :: nat)" "(of_char c :: nat) \<le> 57"
  obtains d where "digit_val c = Some d" "d < 10"
  using assms that [of "of_char c - 48"] by (simp add: digit_val_def Let_def)

text \<open>The first two digits of the identifier are a year of this century.\<close>
lemma activity_year:
  assumes "6 \<le> length (nat_str n)"
  shows "\<exists>y. parse_i32 (''20'' @ take 2 (nat_str n)) = Some y \<and> 2000 \<le> y \<and> y < 2100"
proof -
  obtain a b rest where digits: "nat_str n = a # b # rest"
    using assms by (cases "nat_str n"; cases "tl (nat_str n)") auto
  obtain x y where xy: "digit_val a = Some x" "x < 10" "digit_val b = Some y" "y < 10"
    using nat_str_digits [of a n] nat_str_digits [of b n] unfolding digits by (metis digit_valE list.set_intros)
  have "digit_val CHR ''2'' = Some 2" "digit_val CHR ''0'' = Some 0" by (simp_all add: digit_val_def)
  then have "parse_digits (''20'' @ [a, b]) = Some (2000 + 10 * x + y)" using xy by (simp add: parse_digits_def)
  moreover have "take 2 (nat_str n) = [a, b]" by (simp add: digits)
  ultimately show ?thesis using xy by (simp add: parse_i32_def)
qed

lemma activity_checked:
  assumes "midnights E"
  shows "activity_ended E now n \<noteq> None"
proof (cases "length (nat_str n) < 6")
  case False
  then obtain y where y: "parse_i32 (''20'' @ take 2 (nat_str n)) = Some y" "2000 \<le> y" "y < 2100"
    using activity_year [of n] by auto
  have "unix_of E d 0 \<noteq> None" if "day_of_ymd E y month day = Some d" for month day d
    using assms y that by (auto simp: midnights_def)
  with False y(1) show ?thesis by (auto simp: activity_ended_def Let_def split: option.split)
qed (simp add: activity_ended_def)

text \<open>Without that midnight the flow panics.\<close>
lemma no_midnight_no_check:
  "6 \<le> length (nat_str n) \<Longrightarrow>
   day_of_ymd E (unwrap_or (parse_i32 (''20'' @ take 2 (nat_str n))) 0) (unwrap_or (parse_u32 (take 2 (drop 2 (nat_str n)))) 0)
     (unwrap_or (parse_u32 (take 2 (drop 4 (nat_str n)))) 0) = Some d \<Longrightarrow>
   unix_of E d 0 = None \<Longrightarrow> expect (activity_ended E now n) g = None"
  by (simp add: activity_ended_def Let_def)

lemma skinc_returns: "bosses_clear E \<Longrightarrow> midnights E \<Longrightarrow> returns (run_skinc_climb E)"
  unfolding run_skinc_climb_def towers_getinfo_def cmd_with_timeout_def Let_def
  by (intro returns_rules challenge_returns expect_returns activity_checked)

section \<open>A boss that is never cleared\<close>

text \<open>Every fight is won, and the list of rewards stays empty.\<close>
definition unclearing :: "env \<Rightarrow> bool" where
  "unclearing E = (\<forall>tr params ms.
     (\<exists>data. answer E (tr @ [Request ''towers_start'' params ms]) = Ok data) \<and>
     won (answer E (tr @ [Request ''towers_fight'' params ms])) \<and>
     (\<exists>data. answer E (tr @ [Request ''towers_getinfo'' params ms]) = Ok data \<and> level_rewards data = []))"

lemma yields_answer:
  "(\<And>tr. P (answer E (tr @ [Request name params ms]))) \<Longrightarrow> yields P (send_with_response E name params ms)"
  by (auto simp: yields_def send_with_response_def Let_def)

lemma unclearing_answers:
  assumes "unclearing E"
  shows "yields (\<lambda>r. \<exists>data. r = Ok data) (towers_start E params)" "yields won (towers_fight E params)"
    "yields (\<lambda>r. \<exists>data. r = Ok data \<and> level_rewards data = []) (towers_getinfo E)"
  unfolding towers_start_def towers_fight_def towers_getinfo_def cmd_with_timeout_def
  by (intro yields_bind yields_answer; (use assms in \<open>simp add: unclearing_def\<close>)?)+

text \<open>Victories are not counted: a boss whose victories do not clear it is fought for ever.\<close>
lemma unclearing_never_ends:
  assumes "unclearing E"
  shows "io_loop (skin_round E t) s g = None"
proof (rule ccontr)
  have fought: "yields (\<lambda>r. \<exists>s'. r = Inl s') (case r of Inl e \<Rightarrow> h e | Inr res \<Rightarrow>
      if (case skinc_remaining_hp res of Some hp \<Rightarrow> f64_zero hp | None \<Rightarrow> False) then k res else l res)"
    if "won r" "\<And>res. yields (\<lambda>r. \<exists>s'. r = Inl s') (k res)"
    for r :: "json res" and h k and l :: "json \<Rightarrow> (skin_fight + object res) io"
    using that by (auto simp: won_def split: sum.splits)
  have "yields (\<lambda>r. \<exists>s'. r = Inl s') (skin_round E t s)" for s
    unfolding skin_round_def Let_def
  proof (rule yields_bind_with [where P = "\<lambda>r. r = Inr ()"])
    show "yields (\<lambda>r. r = Inr ()) (if sf_need_start s then
         io_bind (towers_start E (jobj [(''towerType'', jnum t)])) (\<lambda>r.
           case r of
             Inl e \<Rightarrow> io_return (Inl (''Boss '' @ nat_str t @ '' start failed: '' @ e))
           | Inr _ \<Rightarrow> io_bind (sleep 500) (\<lambda>_. io_return (Inr ())))
       else io_return (Inr ()))"
      by (intro yields_shapes(1) yields_bind_with [OF unclearing_answers(1) [OF assms]])
        (auto simp: yields_return intro!: yields_bind)
  qed (simp only: sum.case, rule yields_bind_with [OF unclearing_answers(2) [OF assms]], erule fought,
      rule yields_bind_with [OF unclearing_answers(3) [OF assms]], auto simp: yields_return intro!: yields_bind)
  then have goes: "\<nexists>x g'. skin_round E t s g = Some (Inr x, g')" for s g by (fastforce simp: yields_def)
  assume "io_loop (skin_round E t) s g \<noteq> None"
  then obtain x g' where "io_loop (skin_round E t) s g = Some (x, g')" by auto
  then show False by (rule io_loop_induct [where P = "\<lambda>s g x g'. False"]) (use goes in blast)+
qed

end
