(* ===== verification/WxLogin.thy ===== *)
theory WxLogin
  imports Hortor Core
begin

text \<open>
  \<open>src/src/wx_login.rs\<close>: a bin from a scan with WeChat.  The page with the QR code, the polling of the scan, the login at
  the platform, and the bin made of its answer.  The web, the clock and the file system are a \<open>wx_world\<close>; the
  crates that read and draw QR codes are parameters, the log lines are left out.
\<close>

section \<open>Strings\<close>

text \<open>\<open>str::find\<close> with a string: the first position.\<close>
fun find_str :: "string \<Rightarrow> string \<Rightarrow> nat option" where
  "find_str needle [] = (if needle = [] then Some 0 else None)"
| "find_str needle (c # cs) =
     (if starts_with needle (c # cs) then Some 0 else map_option Suc (find_str needle cs))"

text \<open>The encodings of the characters with the property \<open>White_Space\<close>.\<close>
definition is_space :: "string \<Rightarrow> bool" where
  "is_space s =
     (let bs = map of_char s :: nat list in
      bs \<in> {[0x09], [0x0A], [0x0B], [0x0C], [0x0D], [0x20], [0xC2, 0x85], [0xC2, 0xA0], [0xE1, 0x9A, 0x80],
            [0xE2, 0x80, 0xA8], [0xE2, 0x80, 0xA9], [0xE2, 0x80, 0xAF], [0xE2, 0x81, 0x9F], [0xE3, 0x80, 0x80]} \<or>
      (length bs = 3 \<and> take 2 bs = [0xE2, 0x80] \<and> 0x80 \<le> bs ! 2 \<and> bs ! 2 \<le> 0x8A))"

text \<open>\<open>str::trim_start\<close> and \<open>str::trim\<close>.\<close>
function trim_front :: "string \<Rightarrow> string" where
  "trim_front s =
     (case filter (\<lambda>k. k \<le> length s \<and> is_space (take k s)) [1, 2, 3] of
        [] \<Rightarrow> s | k # _ \<Rightarrow> trim_front (drop k s))"
  by pat_completeness auto
termination
  by (relation "measure length") (auto split: list.splits if_splits)

declare trim_front.simps [simp del]

function trim_back :: "string \<Rightarrow> string" where
  "trim_back s =
     (case filter (\<lambda>k. k \<le> length s \<and> is_space (drop (length s - k) s)) [1, 2, 3] of
        [] \<Rightarrow> s | k # _ \<Rightarrow> trim_back (take (length s - k) s))"
  by pat_completeness auto
termination
  by (relation "measure length") (auto split: list.splits if_splits)

declare trim_back.simps [simp del]

definition trim :: "string \<Rightarrow> string" where
  "trim s = trim_back (trim_front s)"

text \<open>The bytes up to the first character that is not alphanumeric; \<open>wide\<close> tells whether a character beyond ASCII, given
  by its encoding, is.\<close>
definition ascii_alnum :: "nat \<Rightarrow> bool" where
  "ascii_alnum n = ((48 \<le> n \<and> n \<le> 57) \<or> (65 \<le> n \<and> n \<le> 90) \<or> (97 \<le> n \<and> n \<le> 122))"

function alnum_len :: "(string \<Rightarrow> bool) \<Rightarrow> string \<Rightarrow> nat" where
  "alnum_len wide [] = 0"
| "alnum_len wide (c # cs) =
     (if of_char c < (128 :: nat) then (if ascii_alnum (of_char c) then 1 + alnum_len wide cs else 0)
      else let w = max 1 (utf8_width (byte_of_char c)) in
           if wide (take w (c # cs)) then w + alnum_len wide (drop w (c # cs)) else 0)"
  by pat_completeness auto
termination
  by (relation "measure (\<lambda>(_, s). length s)") auto

section \<open>Reading the pages\<close>

abbreviation dquote :: char where "dquote \<equiv> CHR 0x22"
abbreviation squote :: char where "squote \<equiv> CHR 0x27"

text \<open>\<open>extract_regex\<close>, one function per pattern; the text between two quotes is what \<open>split_once\<close> gives twice.\<close>
definition extract_auth_qrcode :: "string \<Rightarrow> string option" where
  "extract_auth_qrcode html =
     find (\<lambda>segment. str_contains segment ''/connect/qrcode/'' \<and> starts_with ''http'' segment) (split_on dquote html)"

definition between :: "char \<Rightarrow> string \<Rightarrow> string option" where
  "between quote rest =
     (case split_once quote rest of
        None \<Rightarrow> None
      | Some (_, after) \<Rightarrow> map_option fst (split_once quote after))"

text \<open>\<open>"uuid"\<close> with either quote; a value that is empty or has 100 bytes is passed over.\<close>
definition extract_json_uuid :: "string \<Rightarrow> string option" where
  "extract_json_uuid html =
     (case find_str (dquote # ''uuid'' @ [dquote]) html of
        None \<Rightarrow> None
      | Some pos \<Rightarrow>
          (let rest = drop (pos + 6) html;
               usable = (\<lambda>quote. case between quote rest of Some v \<Rightarrow> v \<noteq> [] \<and> length v < 100 | None \<Rightarrow> False)
           in if usable dquote then between dquote rest
              else if usable squote then between squote rest else None))"

definition extract_cgi_uuid :: "string \<Rightarrow> string option" where
  "extract_cgi_uuid html =
     (case find_str ''uuid:'' html of
        None \<Rightarrow> extract_json_uuid html
      | Some pos \<Rightarrow>
          (case trim_front (drop (pos + 5) html) of
             [] \<Rightarrow> None
           | quote # inner \<Rightarrow>
               if quote = dquote \<or> quote = squote then map_option fst (split_once quote inner)
               else extract_json_uuid html))"

definition extract_wx_code :: "(string \<Rightarrow> bool) \<Rightarrow> string \<Rightarrow> string option" where
  "extract_wx_code wide html =
     (case find_str ''wx_redirecturl'' html of
        None \<Rightarrow> None
      | Some pos \<Rightarrow>
          (let rest = drop pos html in
           case find_str ''code='' rest of
             None \<Rightarrow> None
           | Some code_pos \<Rightarrow>
               (let rest2 = drop (code_pos + 5) rest; stop = alnum_len wide rest2
                in if 0 < stop then Some (take stop rest2) else None)))"

definition extract_wx_nickname :: "string \<Rightarrow> string option" where
  "extract_wx_nickname html =
     (case find_str ''wx_nickname'' html of
        None \<Rightarrow> None
      | Some pos \<Rightarrow> or_else (between squote (drop pos html)) (between dquote (drop pos html)))"

section \<open>The QR code\<close>

definition WX_QR_BASE :: string where "WX_QR_BASE = ''https://open.weixin.qq.com''"

definition qr_page_url :: string where
  "qr_page_url = WX_QR_BASE @ ''/connect/app/qrconnect?appid=wxfb0d5667e5cb1c44&bundleid=com.hortor.games.xyzw&scope=''
     @ ''snsapi_base,snsapi_userinfo,snsapi_friend,snsapi_message&state=weixin''"

text \<open>The last segment of the address, without its query.\<close>
definition url_uuid :: "string \<Rightarrow> string" where
  "url_uuid url = hd (split_on (CHR ''?'') (last (split_on (CHR ''/'') url)))"

text \<open>\<open>get_qr_code\<close>, given the answer to the request of \<open>qr_page_url\<close>: the address of the picture and its identifier.\<close>
definition get_qr_code :: "string res \<Rightarrow> (string \<times> string) res" where
  "get_qr_code page =
     (case page of
        Inl e \<Rightarrow> Err e
      | Inr resp \<Rightarrow>
          (case or_else (extract_auth_qrcode resp)
                  (map_option (\<lambda>uuid. WX_QR_BASE @ ''/connect/qrcode/'' @ uuid) (extract_cgi_uuid resp)) of
             None \<Rightarrow> Err ''Failed to extract QR code URL from response''
           | Some qr_url \<Rightarrow>
               let qr_url = (if starts_with ''http'' qr_url then qr_url else WX_QR_BASE @ qr_url); uuid = url_uuid qr_url
               in if uuid = [] then Err ''Failed to extract UUID from QR code URL'' else Ok (qr_url, uuid)))"

section \<open>The scan\<close>

text \<open>What one request of the poll says: still waiting, or the end.\<close>
definition poll_answer :: "(string \<Rightarrow> bool) \<Rightarrow> string option \<Rightarrow> (string \<times> string) res option" where
  "poll_answer wide reply =
     (case reply of
        None \<Rightarrow> None
      | Some resp \<Rightarrow>
          if str_contains resp ''window.wx_errcode=408'' then Some (Err ''QR code expired'')
          else if str_contains resp ''window.wx_errcode=405'' then
            Some (case extract_wx_code wide resp of
                    None \<Rightarrow> Err ''Failed to extract OAuth code from scan response''
                  | Some code \<Rightarrow> Ok (code, unwrap_or (extract_wx_nickname resp) ''unknown''))
          else None)"

text \<open>\<open>poll_scan\<close>: \<open>elapsed k\<close> is the time in milliseconds since the start at the beginning of turn \<open>k\<close>, \<open>answers k\<close> the
  text of its request if there is one.  A turn without an end pauses for a second.\<close>
partial_function (option) poll_scan ::
  "(string \<Rightarrow> bool) \<Rightarrow> (nat \<Rightarrow> nat) \<Rightarrow> (nat \<Rightarrow> string option) \<Rightarrow> nat \<Rightarrow> (string \<times> string) res option"
where
  "poll_scan wide elapsed answers k =
     (if 120 * 1000 < elapsed k then Some (Err ''QR code scan timeout (120s)'')
      else case poll_answer wide (answers k) of
             Some r \<Rightarrow> Some r
           | None \<Rightarrow> poll_scan wide elapsed answers (k + 1))"

section \<open>The login\<close>

text \<open>The body sent; \<open>json!\<close> sorts the keys.\<close>
definition login_payload :: "string \<Rightarrow> json" where
  "login_payload wx_code =
     jobj [(''gameId'', Str ''xyzwapp''), (''code'', Str wx_code), (''gameTp'', Str ''app''),
       (''sysInfo'', Str ''{\"system\":\"Android\",\"hortorSDKVersion\":\"4.0.6-cn\",\"model\":\"22081212C\",\"brand\":\"Redmi\"}''),
       (''channel'', Str ''android''), (''appFrom'', Str ''com.tencent.mm''), (''noLogin'', Str ''2''),
       (''distinctId'', Str ''DID-a38175b7-14ce-4b36-aa89-3e092ea03ea6''), (''state'', Str ''hortor''),
       (''packageName'', Str ''com.hortor.games.xyzw''), (''tp'', Str ''app-we''),
       (''signPrint'', Str ''E6:F7:FE:A9:EC:8E:24:D0:4F:2A:32:50:28:78:E1:C5:5E:70:81:13'')]"

definition login_url :: "nat \<Rightarrow> string" where
  "login_url ts = ''https://comb-platform.hortorgames.com/comb-login-server/api/v1/login?gameId=xyzwapp&timestamp=''
     @ nat_str ts @ ''&version=android-4.2.1-cn-release&cryptVersion=1.1.0&gameTp=app&system=android''
     @ ''&deviceUniqueId=DID-0e782e88-2f3b-4f5b-9020-47f5e5a5a026&packageName=com.hortorgames.xyzw''"

text \<open>A slice that ends inside a character panics: \<open>&s[..i]\<close>.\<close>
definition slice_to :: "string \<Rightarrow> nat \<Rightarrow> string option" where
  "slice_to s i = (if i < length s \<and> utf8_cont (byte_of_char (s ! i)) then None else Some (take i s))"

text \<open>What is made of the text of the response; \<open>parse\<close> is \<open>serde_json::from_str\<close>, \<open>None\<close> a panic.\<close>
definition hortor_response :: "(string \<Rightarrow> json res) \<Rightarrow> string \<Rightarrow> json res option" where
  "hortor_response parse resp =
     (case parse resp of
        Inl e \<Rightarrow>
          map_option (\<lambda>body. Err (''Failed to parse Hortor response: '' @ e @ '' (body: '' @ body @ '')''))
            (slice_to resp (min 200 (length resp)))
      | Inr v \<Rightarrow>
          (let err_code = unwrap_or (Option.bind (pointer [''meta'', ''errCode''] v) as_int) (- 1) in
           if err_code \<noteq> 0 then
             Some (Err (''Hortor login failed: code='' @ int_str err_code @ '', msg=''
                @ unwrap_or (Option.bind (pointer [''meta'', ''errMsg''] v) as_str) ''unknown''))
           else Some (ok_or (pointer [''data'', ''combUser''] v) ''Hortor response missing data.combUser'')))"

section \<open>The bin\<close>

definition bin_fields :: "json \<Rightarrow> nat option \<Rightarrow> object" where
  "bin_fields comb_user server_id =
     obj_insert ''referrerInfo'' (Str []) (obj_insert ''scene'' (jnum 0)
       (obj_insert ''serverId'' (case server_id of Some i \<Rightarrow> jnum i | None \<Rightarrow> Null)
         (obj_insert ''info'' comb_user (obj_insert ''platformExt'' (Str ''mix'')
           (obj_insert ''platform'' (Str ''hortor'') [])))))"

definition generate_bin :: "(bytes \<Rightarrow> bytes option) \<Rightarrow> u8 \<Rightarrow> u32 \<Rightarrow> json \<Rightarrow> nat option \<Rightarrow> bytes" where
  "generate_bin compress key rnd comb_user server_id =
     encrypt_with compress (get_encryptor ''x'') key rnd (encode (Object (bin_fields comb_user server_id)))"

text \<open>The characters a file name may not have become underscores; then the spaces around it go.\<close>
definition forbidden :: "char set" where
  "forbidden = {CHR ''/'', CHR 0x5C, CHR '':'', CHR ''*'', CHR ''?'', CHR 0x22, CHR ''<'', CHR ''>'', CHR ''|'', CHR 0x00}"

definition sanitize_filename :: "string \<Rightarrow> string" where
  "sanitize_filename name = trim (map (\<lambda>c. if c \<in> forbidden then CHR ''_'' else c) name)"

text \<open>\<open>Path::join\<close> with a name that is not absolute.\<close>
definition path_join :: "string \<Rightarrow> string \<Rightarrow> string" where
  "path_join dir name =
     (if starts_with ''/'' name then name
      else if dir = [] \<or> last dir = CHR ''/'' then dir @ name else dir @ ''/'' @ name)"

definition bin_path :: "string \<Rightarrow> string \<Rightarrow> (string \<Rightarrow> bool) \<Rightarrow> string \<Rightarrow> string" where
  "bin_path output_dir nickname exists ts =
     (let safe_name = sanitize_filename nickname; path = path_join output_dir (safe_name @ ''.bin'')
      in if exists path then path_join output_dir (safe_name @ ''_'' @ ts @ ''.bin'') else path)"

section \<open>The whole\<close>

record wx_world =
  wx_wide :: "string \<Rightarrow> bool"
  wx_page :: "string \<Rightarrow> string res"
  wx_elapsed :: "nat \<Rightarrow> nat"
  wx_polls :: "string \<Rightarrow> nat \<Rightarrow> string option"
  wx_millis :: nat
  wx_text :: "json \<Rightarrow> string res"
  wx_b64 :: "bytes \<Rightarrow> string"
  wx_post :: "string \<Rightarrow> string \<Rightarrow> string res"
  wx_parse :: "string \<Rightarrow> json res"
  wx_compress :: "bytes \<Rightarrow> bytes option"
  wx_key :: u8
  wx_rnd :: u32
  wx_mkdir :: "string \<Rightarrow> unit res"
  wx_exists :: "string \<Rightarrow> bool"
  wx_stamp :: string
  wx_write :: "string \<Rightarrow> bytes \<Rightarrow> unit res"
  wx_debug :: "string \<Rightarrow> string"

definition hortor_login :: "wx_world \<Rightarrow> string \<Rightarrow> json res option" where
  "hortor_login W wx_code =
     (case wx_text W (login_payload wx_code) of
        Inl e \<Rightarrow> Some (Err e)
      | Inr payload_str \<Rightarrow>
          (case wx_post W (login_url (wx_millis W)) (encode_payload (wx_b64 W) payload_str) of
             Inl e \<Rightarrow> Some (Err e)
           | Inr resp \<Rightarrow> hortor_response (wx_parse W) resp))"

text \<open>What is saved, and where.\<close>
definition save_bin :: "wx_world \<Rightarrow> string \<Rightarrow> string \<Rightarrow> json \<Rightarrow> (string \<times> string) res" where
  "save_bin W output_dir nickname comb_user =
     (let bin_data = generate_bin (wx_compress W) (wx_key W) (wx_rnd W) comb_user None in
      case wx_mkdir W output_dir of
        Inl e \<Rightarrow> Err (''Failed to create output dir '' @ wx_debug W output_dir @ '': '' @ e)
      | Inr _ \<Rightarrow>
          (let path = bin_path output_dir nickname (wx_exists W) (wx_stamp W) in
           case wx_write W path bin_data of
             Inl e \<Rightarrow> Err (''Failed to write bin file '' @ wx_debug W path @ '': '' @ e)
           | Inr _ \<Rightarrow> Ok (path, nickname)))"

text \<open>\<open>None\<close>: the scan never ends, or a panic.\<close>
definition scan_and_save :: "wx_world \<Rightarrow> string \<Rightarrow> (string \<times> string) res option" where
  "scan_and_save W output_dir =
     (case get_qr_code (wx_page W qr_page_url) of
        Inl e \<Rightarrow> Some (Err e)
      | Inr (qr_url, uuid) \<Rightarrow>
          Option.bind (poll_scan (wx_wide W) (wx_elapsed W) (wx_polls W uuid) 0) (\<lambda>scan.
            case scan of
              Inl e \<Rightarrow> Some (Err e)
            | Inr (wx_code, nickname) \<Rightarrow>
                Option.bind (hortor_login W wx_code) (\<lambda>r.
                  case r of
                    Inl e \<Rightarrow> Some (Err e)
                  | Inr comb_user \<Rightarrow> Some (save_bin W output_dir nickname comb_user))))"

text \<open>The configuration is never written: the answer is always the lines to add by hand.\<close>
definition add_to_config :: "string \<Rightarrow> string \<Rightarrow> unit res" where
  "add_to_config config_path path =
     Err (''Auto-updating config.yaml is disabled to preserve comments. Please append manually:'' @ [CHR 0x0A]
       @ ''  - bin: '' @ unwrap_or (file_name path) ''new.bin'' @ [CHR 0x0A] @ ''    roles:'' @ [CHR 0x0A]
       @ ''      - server_id: <server-id>'')"

section \<open>The picture\<close>

text \<open>\<open>decode_qr_from_image\<close>: the first grid that can be read; \<open>load\<close> is the image decoder, \<open>grids\<close> and \<open>read_grid\<close> are the
  recogniser's.\<close>
definition decode_qr_from_image ::
  "(bytes \<Rightarrow> 'image option) \<Rightarrow> ('image \<Rightarrow> 'grid list) \<Rightarrow> ('grid \<Rightarrow> string option) \<Rightarrow> bytes \<Rightarrow> string option"
where
  "decode_qr_from_image load grids read_grid image_bytes =
     Option.bind (load image_bytes) (\<lambda>img. Option.bind (find (\<lambda>grid. read_grid grid \<noteq> None) (grids img)) read_grid)"

text \<open>\<open>display_qr_terminal\<close>: what is printed; \<open>draw\<close> encodes a text as a picture of characters.\<close>
definition display_qr_terminal ::
  "(string \<Rightarrow> bytes res) \<Rightarrow> (bytes \<Rightarrow> string option) \<Rightarrow> (string \<Rightarrow> string res) \<Rightarrow> string \<Rightarrow> string"
where
  "display_qr_terminal download identify draw image_url =
     (let fallback = ''Please open this URL in browser to scan: '' @ image_url
      in case download image_url of
           Inl e \<Rightarrow> fallback
         | Inr image_bytes \<Rightarrow>
             (case identify image_bytes of
                None \<Rightarrow> fallback
              | Some qr_content \<Rightarrow> (case draw qr_content of Inl e \<Rightarrow> fallback | Inr picture \<Rightarrow> picture)))"

end
