(* ===== verification/Programs.thy ===== *)
theory Programs
  imports Cli_Commands_Facts Cli_Monthly_Facts Car_Facts Skin_Facts State_File_Facts WxLogin
begin

text \<open>
  The programs: the dispatch of \<open>koc_cli\<close> (\<open>cli_command.rs\<close>, \<open>koc_cli.rs\<close>), and what \<open>koc_cli\<close>, \<open>koc_batch\<close> and
  \<open>token_gen\<close> (the files of these names under \<open>src/src\<close>) exit with; and that every command comes to an end.  The arguments
  are those the argument parser hands over, the lines of the log are left out.
\<close>

section \<open>koc\_cli\<close>

text \<open>\<open>cli_command.rs\<close>\<close>
datatype cli_command =
    StudyCommand string nat bool
  | VerifyCommand string "nat option"
  | MonthlyCommand monthly_args
  | TowerCommand tower_args
  | SkincCommand roles_args
  | EvotowerCommand evo_args
  | CarCommand string nat string
  | DailyCommand daily_args
  | InfoCommand string nat info_type
  | GachaCommand string nat
  | GroupCommand

text \<open>The world of a command: that of each of its sessions, the first one's for a command that has one only, the order of a hash
  map, the calendar, the lower case of Unicode, the questions, and the debug format of a list of texts.\<close>
record cli_world =
  cw_env :: "nat \<Rightarrow> env"
  cw_ctx :: "nat \<Rightarrow> cli"
  cw_order :: group_order
  cw_week :: "int \<Rightarrow> int \<times> nat"
  cw_lower :: "string \<Rightarrow> string"
  cw_bank :: bank
  cw_debug :: "string list \<Rightarrow> string"

text \<open>The outcome of one session; what a command prints is the value of its own definition.\<close>
definition outcome :: "'a res io \<Rightarrow> unit res option" where
  "outcome m = map_option (\<lambda>(r, g). case r of Inl e \<Rightarrow> Err e | Inr _ \<Rightarrow> Ok ()) (m new_game)"

text \<open>None when the command does not return, or panics.\<close>
definition run_command :: "cli_world \<Rightarrow> cli \<Rightarrow> cli_command \<Rightarrow> unit res option" where
  "run_command W ctx command =
     (case command of
        StudyCommand bin server_id force \<Rightarrow>
          outcome (run_study_cli (cw_env W 0) (cw_week W) (cw_lower W) (cw_bank W) ctx bin server_id force)
      | VerifyCommand bin target \<Rightarrow> Some (snd (run_verify (cw_debug W) ctx bin target))
      | MonthlyCommand args \<Rightarrow> outcome (run_monthly (cw_env W 0) ctx args)
      | TowerCommand args \<Rightarrow> outcome (run_tower (cw_env W 0) ctx args)
      | SkincCommand args \<Rightarrow> map_option fst (run_skinc_cli (cw_env W) ctx (cw_ctx W) args)
      | EvotowerCommand args \<Rightarrow> outcome (run_evotower (cw_env W 0) ctx args (cw_order W))
      | CarCommand bin server_id action \<Rightarrow> outcome (run_car (cw_env W 0) ctx bin server_id action)
      | DailyCommand args \<Rightarrow> map_option fst (run_daily_cli (cw_env W) ctx (cw_ctx W) args)
      | InfoCommand bin server_id kind \<Rightarrow> outcome (run_info (cw_env W 0) ctx bin server_id kind)
      | GachaCommand bin server_id \<Rightarrow> outcome (run_gacha (cw_env W 0) ctx bin server_id)
      | GroupCommand \<Rightarrow> Some (case run_group ctx of Inl e \<Rightarrow> Err e | Inr _ \<Rightarrow> Ok ()))"

text \<open>\<open>main\<close>: the exit code; None when there is none, or after a panic (where it is 101).\<close>
definition koc_cli :: "cli_world \<Rightarrow> cli \<Rightarrow> cli_command \<Rightarrow> nat option" where
  "koc_cli W ctx command = map_option (\<lambda>r. case r of Inl e \<Rightarrow> 1 | Inr _ \<Rightarrow> 0) (run_command W ctx command)"

section \<open>koc\_batch\<close>

text \<open>What ends first: the scheduler, or the wait for an interrupt, which fails when no handler can be installed.\<close>
datatype batch_end = SchedulerEnds "unit res" | InterruptEnds "unit res"

text \<open>The exit code and the state file after the start; 101 is a panic.\<close>
definition koc_batch ::
  "json_text \<Rightarrow> (string \<Rightarrow> unit res \<times> file_text) \<Rightarrow> files \<Rightarrow> file_times \<Rightarrow> string \<Rightarrow> batch_config res \<Rightarrow> file_text \<Rightarrow>
   batch_end \<Rightarrow> nat \<times> file_text"
where
  "koc_batch J write F mtime config_path loaded file first =
     (case scheduler_boot J write F mtime config_path loaded file of
        (Inl e, file) \<Rightarrow> (1, file)
      | (Inr s, file) \<Rightarrow>
          (case first of
             SchedulerEnds result \<Rightarrow> (0, file)
           | InterruptEnds (Inl e) \<Rightarrow> (101, file)
           | InterruptEnds (Inr _) \<Rightarrow> (0, file)))"

section \<open>token\_gen\<close>

definition token_gen_hints :: "string list" where
  "token_gen_hints =
    [''[token_gen] To add to scheduler, run with --add-to-config'',
     ''[token_gen] Or manually add this YAML snippet to config.yaml:'',
     ''  - bin: <replace-with-bin-name>'', ''    roles:'', ''      - server_id: <server-id>'']"

text \<open>The lines \<open>main\<close> prints, after those of the scan, and the exit code; None for a panic.  A failure to add the bin is only
  logged.\<close>
definition token_gen :: "wx_world \<Rightarrow> batch_config res \<Rightarrow> string option \<Rightarrow> bool \<Rightarrow> (string list \<times> nat) option" where
  "token_gen W loaded output add_config =
     (let default_output_dir = (case loaded of Inl e \<Rightarrow> ''bins/'' | Inr c \<Rightarrow> bin_output_dir c);
          output_dir = unwrap_or output default_output_dir
      in map_option (\<lambda>r.
           case r of
             Inl e \<Rightarrow> ([], 1)
           | Inr (path, nickname) \<Rightarrow>
               ((''[token_gen] Successfully generated bin for: '' @ nickname) # (if add_config then [] else token_gen_hints), 0))
         (scan_and_save W output_dir))"

section \<open>Commands that return\<close>

text \<open>What a command relies on: that no fight is put off for ever, that refreshes are counted and bosses cleared; and that
  the midnights it unwraps exist once in the local time zone.\<close>
definition settles :: "cli_world \<Rightarrow> cli_command \<Rightarrow> bool" where
  "settles W command =
     (case command of
        MonthlyCommand args \<Rightarrow> ordinary_days (cw_env W 0)
      | TowerCommand args \<Rightarrow> fights_settle (cw_env W 0)
      | SkincCommand args \<Rightarrow> (\<forall>i. bosses_clear (cw_env W i) \<and> midnights (cw_env W i))
      | EvotowerCommand args \<Rightarrow> ready_settles (cw_env W 0)
      | CarCommand bin server_id action \<Rightarrow> refreshes_counted (cw_env W 0)
      | DailyCommand args \<Rightarrow> (\<forall>i. refreshes_counted (cw_env W i))
      | _ \<Rightarrow> True)"

lemma outcome_returns: "returns m \<Longrightarrow> outcome m \<noteq> None"
  by (simp add: returns_def outcome_def)

lemma login_returns [returns_rules]: "returns (login E connected)"
  unfolding login_def Let_def by (intro returns_rules; simp add: returns_def)

lemma open_role_returns [returns_rules]: "returns (open_role E ctx strict bin server_id)"
  unfolding open_role_def by (intro returns_rules)

lemma in_formation_returns: "returns flow \<Longrightarrow> returns (run_in_formation E ctx context bin server_id flow)"
  unfolding run_in_formation_def by (intro returns_rules)

lemma returns_info: "returns m \<Longrightarrow> returns n \<Longrightarrow> returns (case kind of Info_Role \<Rightarrow> m | Info_Evotower \<Rightarrow> n)"
  by (cases kind) simp_all

lemma single_commands_return:
  "returns (run_study_cli E week lower bank ctx bin server_id force)"
  "returns (run_info E ctx bin server_id kind)" "returns (run_gacha E ctx bin server_id)"
  "ordinary_days E \<Longrightarrow> returns (run_monthly E ctx margs)"
  "fights_settle E \<Longrightarrow> returns (run_tower E ctx targs)"
  "bosses_clear E \<Longrightarrow> midnights E \<Longrightarrow> returns (skinc_single E ctx bin server_id)"
  "ready_settles E \<Longrightarrow> returns (run_evotower E ctx eargs order)"
  "refreshes_counted E \<Longrightarrow> returns (run_car E ctx bin server_id action)"
  "refreshes_counted E \<Longrightarrow> returns (daily_single E ctx bin server_id config args prefix)"
proof -
  show "returns (run_study_cli E week lower bank ctx bin server_id force)"
    unfolding run_study_cli_def by (intro returns_rules)
  show "returns (run_info E ctx bin server_id kind)"
    unfolding run_info_def api_defs by (intro returns_rules returns_info)
  show "returns (run_gacha E ctx bin server_id)"
    unfolding run_gacha_def api_defs Let_def by (intro returns_rules)
  show "ordinary_days E \<Longrightarrow> returns (run_monthly E ctx margs)"
    unfolding run_monthly_def by (intro returns_rules monthly_returns)
  show "fights_settle E \<Longrightarrow> returns (run_tower E ctx targs)"
    unfolding run_tower_def by (intro returns_rules in_formation_returns tower_flow_returns)
  show "bosses_clear E \<Longrightarrow> midnights E \<Longrightarrow> returns (skinc_single E ctx bin server_id)"
    unfolding skinc_single_def by (intro returns_rules skinc_returns)
  show "ready_settles E \<Longrightarrow> returns (run_evotower E ctx eargs order)"
    unfolding run_evotower_def by (intro returns_rules in_formation_returns evotower_flow_returns)
  show "refreshes_counted E \<Longrightarrow> returns (run_car E ctx bin server_id action)"
    unfolding run_car_def by (intro returns_rules smart_send_returns)
  show "refreshes_counted E \<Longrightarrow> returns (daily_single E ctx bin server_id config args prefix)"
    unfolding daily_single_def by (intro returns_rules daily_counted_returns)
qed

lemma sessions_return: "(\<And>i role. returns (f i role)) \<Longrightarrow> \<exists>ss. run_sessions f i found = Some ss"
proof (induction found arbitrary: i)
  case (Cons role rest)
  obtain s where "f i role new_game = Some s" using Cons.prems by (fastforce simp: returns_def)
  moreover obtain ss where "run_sessions f (i + 1) rest = Some ss" using Cons by blast
  ultimately show ?case by simp
qed simp

lemma all_sessions_return: "(\<And>i role. returns (f i role)) \<Longrightarrow> \<exists>ss. all_sessions f found = Some (Ok (), ss)"
  using sessions_return [of f 0 found] by (auto simp: all_sessions_def)

text \<open>Several roles: the outcome says nothing of them.\<close>
lemma roles_return:
  "\<forall>i. bosses_clear (Es i) \<and> midnights (Es i) \<Longrightarrow> \<exists>ss. skinc_roles Es ctxs found = Some (Ok (), ss)"
  "\<forall>i. refreshes_counted (Es i) \<Longrightarrow> \<exists>ss. daily_roles Es ctxs found config dargs = Some (Ok (), ss)"
  unfolding skinc_roles_def daily_roles_def
  by (rule all_sessions_return; auto intro!: single_commands_return split: prod.split)+

text \<open>The roles of a command that runs several.\<close>
definition roles_found :: "batch_config \<Rightarrow> 'a roles_args_scheme \<Rightarrow> (string \<times> nat) list option" where
  "roles_found config args =
     (case ra_group args of
        Some name \<Rightarrow> (case group_roles config name of Inl e \<Rightarrow> None | Inr found \<Rightarrow> Some found)
      | None \<Rightarrow> if ra_force_all args then Some (all_roles config) else None)"

definition several_roles :: "cli \<Rightarrow> cli_command \<Rightarrow> (string \<times> nat) list option" where
  "several_roles ctx command =
     (case load_config ctx of
        Inl e \<Rightarrow> None
      | Inr config \<Rightarrow>
          (case command of
             DailyCommand args \<Rightarrow> roles_found config args
           | SkincCommand args \<Rightarrow> roles_found config args
           | _ \<Rightarrow> None))"

lemma several_succeed:
  assumes "settles W command" "several_roles ctx command = Some found"
  shows "run_command W ctx command = Some (Ok ())"
  using assms
  by (auto simp: several_roles_def roles_found_def run_command_def settles_def run_daily_cli_def run_skinc_cli_def roles_return
      split: sum.splits cli_command.splits option.splits if_splits)

lemma several_return:
  "\<forall>i. refreshes_counted (Es i) \<Longrightarrow> \<exists>r ss. run_daily_cli Es ctx ctxs dargs = Some (r, ss)"
  "\<forall>i. bosses_clear (Es i) \<and> midnights (Es i) \<Longrightarrow> \<exists>r ss. run_skinc_cli Es ctx ctxs args = Some (r, ss)"
proof -
  have run: "\<exists>x h. m g = Some (x, h)" if "returns m" for m :: "'b io" and g
    using that by (fastforce simp: returns_def)
  have some: "\<exists>ss. p = Some (Ok (), ss) \<Longrightarrow> \<exists>r ss. p = Some (r, ss)" for p :: "(unit res \<times> session list) option" by blast
  show "\<forall>i. refreshes_counted (Es i) \<Longrightarrow> \<exists>r ss. run_daily_cli Es ctx ctxs dargs = Some (r, ss)"
    by (simp add: run_daily_cli_def some [OF roles_return(2)] run [OF single_commands_return(9)] split: sum.split option.split bool.split)
  show "\<forall>i. bosses_clear (Es i) \<and> midnights (Es i) \<Longrightarrow> \<exists>r ss. run_skinc_cli Es ctx ctxs args = Some (r, ss)"
    by (simp add: run_skinc_cli_def some [OF roles_return(1)] run [OF single_commands_return(6)] split: sum.split option.split bool.split)
qed

lemma commands_return: "settles W command \<Longrightarrow> run_command W ctx command \<noteq> None"
  by (cases command) (simp_all add: run_command_def settles_def outcome_returns single_commands_return several_return)

text \<open>C11: Every command of \<open>koc_cli\<close> exits with 0 or 1: it comes to an end and does not panic.  Whatever the arguments, the
  files and the login server are, and whatever the game server answers, as long as it does not put off what the command
  waits for (tower fights, evo tower fights, a boss of the skin challenge after eight victories, the count of car
  refreshes), and as long as the midnights that two commands unwrap exist: for the skin challenge those of the years
  2000 to 2099, for the monthly report those of the days its clock shows, with a month that is not the calendar's last.  A
  command for several roles whose configuration and group are found exits with 0, whatever becomes of each of the roles.\<close>
theorem koc_cli_exits:
  assumes "settles W command"
  shows "(koc_cli W ctx command = Some 0 \<or> koc_cli W ctx command = Some 1) \<and>
    (several_roles ctx command \<noteq> None \<longrightarrow> koc_cli W ctx command = Some 0)"
  using commands_return [OF assms, of ctx] several_succeed [OF assms]
  by (auto simp: koc_cli_def split: sum.split)

text \<open>A configuration of two roles, and a game server that knows of an activity from the first of May on and grants nothing; the
  calendar has the days of May 2026, eight hours east of Greenwich.\<close>
definition two_roles :: cli where
  "two_roles = sample_cli\<lparr>cl_load := Ok (sample_config\<lparr>bins :=
     [\<lparr>bc_bin = ''a.bin'', bc_path = ''bins/a.bin'', bc_server_ids = [7, 1000007]\<rparr>]\<rparr>)\<rparr>"

definition may_env :: env where
  "may_env = dead_env\<lparr>
     answer := (\<lambda>tr. case last tr of
       Request name params ms \<Rightarrow>
         if name = ''towers_getinfo'' then Ok (Object [(''actId'', jnum 260501)]) else Err ''Timeout after 8000ms''
     | _ \<Rightarrow> Err ''Timeout after 8000ms''),
     day_of_ymd := (\<lambda>year month day. if year = 2026 \<and> month = 5 \<and> 1 \<le> day \<and> day \<le> 31 then Some (20573 + int day) else None),
     unix_of := (\<lambda>d s. Some (d * 86400 + int s - 28800))\<rparr>"

definition may_world :: cli_world where
  "may_world = \<lparr>cw_env = (\<lambda>_. may_env), cw_ctx = (\<lambda>_. two_roles), cw_order = id, cw_week = (\<lambda>_. (2026, 19)), cw_lower = id,
     cw_bank = [], cw_debug = concat\<rparr>"

definition all_skins :: cli_command where
  "all_skins = SkincCommand \<lparr>ra_bin = None, ra_server_id = None, ra_group = None, ra_force_all = True\<rparr>"

text \<open>The activity is under way.\<close>
lemma may_activity: "activity_ended may_env sample_now 260501 = Some False"
proof -
  have "nat_str 260501 = ''260501''" by (simp add: nat_str.simps digit_char_def char_of_eq_iff)
  moreover have "parse_i32 ''2026'' = Some 2026" "parse_u32 ''05'' = Some 5" "parse_u32 ''01'' = Some 1"
    by (simp_all add: parse_i32_def parse_u32_def parse_uint_def parse_digits_def digit_val_def Let_def)
  ultimately show ?thesis by (simp add: activity_ended_def Let_def may_env_def unwrap_or_def sample_now_def)
qed

lemma may_wins: "\<not> wins may_env t tr"
  by (auto simp: wins_def may_env_def split: event.splits)

theorem koc_cli_exits_witness:
  "several_roles two_roles all_skins = Some [(''bins/a.bin'', 7), (''bins/a.bin'', 1000007)] \<and>
   koc_cli may_world two_roles all_skins = Some 0"
proof -
  have "settles may_world all_skins"
    by (simp add: settles_def all_skins_def may_world_def bosses_clear_def fights_won_def may_wins midnights_def)
      (simp add: may_env_def)
  moreover have "several_roles two_roles all_skins = Some [(''bins/a.bin'', 7), (''bins/a.bin'', 1000007)]"
    by (simp add: several_roles_def roles_found_def load_config_def two_roles_def all_skins_def sample_cli_def all_roles_def)
  ultimately show ?thesis using koc_cli_exits [of may_world all_skins two_roles] by simp
qed

end
