(* ===== verification/WxLogin_Facts.thy ===== *)
theory WxLogin_Facts
  imports WxLogin Rounds_Facts
begin

text \<open>
  The scan ends; the bin it saves is a bin the core can read and lies in the output directory, whatever the nickname;
  and when the login panics.
\<close>

section \<open>The poll\<close>

lemma poll_reaches:
  "(\<And>j. j < n \<Longrightarrow> elapsed (k + j) \<le> 120 * 1000 \<and> poll_answer wide (answers (k + j)) = None) \<Longrightarrow>
   poll_scan wide elapsed answers k = poll_scan wide elapsed answers (k + n)"
proof (induction n arbitrary: k)
  case (Suc n)
  from Suc.prems [of 0] have "poll_scan wide elapsed answers k = poll_scan wide elapsed answers (k + 1)"
    by (subst poll_scan.simps) simp
  also have "\<dots> = poll_scan wide elapsed answers (k + 1 + n)"
  proof (rule Suc.IH)
    fix j
    assume "j < n"
    then show "elapsed (k + 1 + j) \<le> 120 * 1000 \<and> poll_answer wide (answers (k + 1 + j)) = None"
      using Suc.prems [of "Suc j"] by simp
  qed
  finally show ?case by simp
qed simp

text \<open>C29: A scan ends.  When every turn that goes on takes its second at least, the poll is over after 121 turns at the
  most: with the outcome of the first request that has one, if that comes within the two minutes, else with the time
  limit.\<close>
theorem scan_ends:
  assumes "\<And>k. elapsed k + 1000 \<le> elapsed (k + 1)"
  shows "\<exists>n \<le> 121. (\<forall>k < n. elapsed k \<le> 120 * 1000 \<and> poll_answer wide (answers k) = None) \<and>
    poll_scan wide elapsed answers 0 =
      (if 120 * 1000 < elapsed n then Some (Err ''QR code scan timeout (120s)'') else poll_answer wide (answers n)) \<and>
    poll_scan wide elapsed answers 0 \<noteq> None"
proof -
  define over where "over k = (120 * 1000 < elapsed k \<or> poll_answer wide (answers k) \<noteq> None)" for k
  have grow: "1000 * k \<le> elapsed k" for k
  proof (induction k)
    case (Suc k)
    then show ?case using assms [of k] by simp
  qed simp
  have "over 121" using grow [of 121] by (simp add: over_def)
  define n where "n = (LEAST k. over k)"
  have n: "over n" "n \<le> 121" "\<And>k. k < n \<Longrightarrow> \<not> over k"
    unfolding n_def by (rule LeastI [of over], rule \<open>over 121\<close>, rule Least_le [of over], rule \<open>over 121\<close>, rule not_less_Least)
  have "poll_scan wide elapsed answers 0 = poll_scan wide elapsed answers (0 + n)"
    by (rule poll_reaches) (use n(3) in \<open>auto simp: over_def not_less\<close>)
  also have "\<dots> = (if 120 * 1000 < elapsed n then Some (Err ''QR code scan timeout (120s)'') else poll_answer wide (answers n))"
    using n(1) by (subst poll_scan.simps) (auto simp: over_def split: option.split)
  finally have "poll_scan wide elapsed answers 0 =
      (if 120 * 1000 < elapsed n then Some (Err ''QR code scan timeout (120s)'') else poll_answer wide (answers n))" .
  then show ?thesis using n by (intro exI [of _ n]) (auto simp: over_def not_less)
qed

theorem scan_ends_witness:
  "\<exists>n \<le> (121 :: nat). (\<forall>k < n. 1000 * k \<le> 120 * 1000 \<and> poll_answer (\<lambda>_. False) None = None) \<and>
     poll_scan (\<lambda>_. False) (\<lambda>k. 1000 * k) (\<lambda>_. None) 0 =
       (if 120 * 1000 < 1000 * n then Some (Err ''QR code scan timeout (120s)'') else poll_answer (\<lambda>_. False) None) \<and>
     poll_scan (\<lambda>_. False) (\<lambda>k. 1000 * k) (\<lambda>_. None) 0 \<noteq> None"
  by (rule scan_ends [of "\<lambda>k. 1000 * k"]) simp

section \<open>The answer of the platform\<close>

lemma panic_cases:
  "hortor_response parse resp = None \<longleftrightarrow>
   (\<exists>e. parse resp = Err e) \<and> 200 < length resp \<and> utf8_cont (byte_of_char (resp ! 200))"
  by (auto simp: hortor_response_def slice_to_def Let_def min_def split: sum.split)

text \<open>When a response is not JSON, its first 200 bytes go into the error text, and cutting them off panics exactly when
  byte 200 is inside a character.  In every other case the login comes back with a result.\<close>
theorem login_panics_iff:
  "hortor_response parse resp = None \<longleftrightarrow>
   (\<exists>e. parse resp = Err e) \<and> 200 < length resp \<and> utf8_cont (byte_of_char (resp ! 200))"
  by (rule panic_cases)

text \<open>Such a response: a page of text whose character at byte 199 has two bytes.\<close>
lemma login_panics_sample:
  "hortor_response (\<lambda>_. Err ''expected value'') (replicate 199 CHR ''x'' @ [CHR 0xC3, CHR 0xA9] @ ''!'') = None"
proof -
  let ?pre = "replicate 199 CHR ''x''"
  have "length ?pre = 199" by (rule length_replicate)
  then have "(?pre @ [CHR 0xC3, CHR 0xA9] @ ''!'') ! 200 = CHR 0xA9" "200 < length (?pre @ [CHR 0xC3, CHR 0xA9] @ ''!'')"
    by (simp_all only: nth_append length_append) simp_all
  moreover have "utf8_cont (byte_of_char (CHR 0xA9))" by (simp add: utf8_cont_def byte_of_char_def)
  ultimately show ?thesis by (simp only: panic_cases) simp
qed

section \<open>Where the bin goes\<close>

lemma split_on_concat: "split_on c (s @ c # t) = split_on c s @ split_on c t"
  by (induction s) (auto split: list.splits)

lemma path_components_join:
  assumes "CHR ''/'' \<notin> set name" "name \<noteq> []" "name \<noteq> ''.''"
  shows "path_components (dir @ CHR ''/'' # name) = path_components dir @ [name]"
  using assms by (simp add: path_components_def Let_def split_on_concat split_on_no_sep hd_append)

lemma trim_front_set: "set (trim_front s) \<subseteq> set s"
proof (induction s rule: trim_front.induct)
  case (1 s)
  show ?case
  proof (cases "filter (\<lambda>k. k \<le> length s \<and> is_space (take k s)) [1, 2, 3]")
    case Nil
    then have "trim_front s = s" by (simp only: trim_front.simps [of s] list.case)
    then show ?thesis by simp
  next
    case (Cons k ks)
    then have "trim_front s = trim_front (drop k s)" by (simp only: trim_front.simps [of s] list.case)
    then show ?thesis using 1 [OF Cons] by (auto dest: in_set_dropD)
  qed
qed

lemma trim_back_set: "set (trim_back s) \<subseteq> set s"
proof (induction s rule: trim_back.induct)
  case (1 s)
  show ?case
  proof (cases "filter (\<lambda>k. k \<le> length s \<and> is_space (drop (length s - k) s)) [1, 2, 3]")
    case Nil
    then have "trim_back s = s" by (simp only: trim_back.simps [of s] list.case)
    then show ?thesis by simp
  next
    case (Cons k ks)
    then have "trim_back s = trim_back (take (length s - k) s)" by (simp only: trim_back.simps [of s] list.case)
    then show ?thesis using 1 [OF Cons] by (auto dest: in_set_takeD)
  qed
qed

lemma sanitized_chars: "c \<in> set (sanitize_filename name) \<Longrightarrow> c \<notin> forbidden"
proof -
  assume "c \<in> set (sanitize_filename name)"
  then have "c \<in> set (map (\<lambda>c. if c \<in> forbidden then CHR ''_'' else c) name)"
    using trim_front_set trim_back_set unfolding sanitize_filename_def trim_def by blast
  then show ?thesis by (auto simp: forbidden_def)
qed

lemma path_components_trailing: "d \<noteq> [] \<Longrightarrow> path_components (d @ ''/'') = path_components d"
  using split_on_concat [of "CHR ''/''" d "[]"] by (cases "split_on (CHR ''/'') d") (auto simp: path_components_def Let_def)

lemma join_components:
  assumes "CHR ''/'' \<notin> set name" "name \<noteq> []" "name \<noteq> ''.''"
  shows "path_components (path_join dir name) = path_components dir @ [name]"
    "is_absolute (path_join dir name) \<longleftrightarrow> is_absolute dir"
proof -
  have rel: "\<not> starts_with ''/'' name" using assms(1,2) by (cases name) (auto simp: starts_with_def)
  have own: "path_components name = [name]"
    using assms by (simp add: path_components_def split_on_no_sep)
  show "path_components (path_join dir name) = path_components dir @ [name]"
  proof (cases "dir = [] \<or> last dir = CHR ''/''")
    case True
    show ?thesis
    proof (cases dir rule: rev_cases)
      case Nil
      then show ?thesis using rel own by (simp add: path_join_def path_components_def)
    next
      case (snoc d c)
      then have dir: "dir = d @ ''/''" using True by simp
      have "path_components (d @ CHR ''/'' # name) = path_components (d @ ''/'') @ [name]"
      proof (cases "d = []")
        case True
        then show ?thesis using assms by (simp add: path_components_def split_on_no_sep)
      next
        case False
        then show ?thesis by (simp add: path_components_join [OF assms] path_components_trailing)
      qed
      then show ?thesis using rel dir by (simp add: path_join_def)
    qed
  next
    case False
    then show ?thesis using rel path_components_join [OF assms] by (simp add: path_join_def)
  qed
  show "is_absolute (path_join dir name) \<longleftrightarrow> is_absolute dir"
    using rel by (cases dir) (auto simp: path_join_def is_absolute_def starts_with_def)
qed

text \<open>C30: The bin stays in the output directory, whatever nickname the scan brings: its path is the directory with one more
  component, a name in which none of the characters occurs that a file name may not have.  (The time stamp of a second
  bin of the same name has none of them.)\<close>
theorem scanned_bin_stays_in_dir:
  assumes "set ts \<inter> forbidden = {}"
  shows "\<exists>name. path_components (bin_path dir nickname exists ts) = path_components dir @ [name] \<and>
    (is_absolute (bin_path dir nickname exists ts) \<longleftrightarrow> is_absolute dir) \<and>
    set name \<inter> forbidden = {} \<and> name \<noteq> ''..''"
proof -
  let ?safe = "sanitize_filename nickname"
  have safe: "set ?safe \<inter> forbidden = {}" using sanitized_chars by blast
  define name where "name = (if exists (path_join dir (?safe @ ''.bin'')) then ?safe @ ''_'' @ ts @ ''.bin'' else ?safe @ ''.bin'')"
  have ext: "set ''.bin'' \<inter> forbidden = {}" "set ''_'' \<inter> forbidden = {}" by (simp_all add: forbidden_def)
  have clean: "set name \<inter> forbidden = {}"
    using safe assms ext by (auto simp: name_def)
  have long: "4 \<le> length name" by (simp add: name_def)
  have slash: "CHR ''/'' \<notin> set name" using clean by (auto simp: forbidden_def)
  have nonempty: "name \<noteq> []" "name \<noteq> ''.''" "name \<noteq> ''..''" using long by auto
  have "bin_path dir nickname exists ts = path_join dir name" by (simp add: bin_path_def Let_def name_def)
  then show ?thesis using join_components [OF slash nonempty(1,2), of dir] clean nonempty(3) by auto
qed

theorem scanned_bin_stays_in_dir_witness:
  "\<exists>name. path_components (bin_path ''bins/'' ''../../x'' (\<lambda>_. True) ''20260504_093000'') = [''bins'', name] \<and>
     set name \<inter> forbidden = {} \<and> name \<noteq> ''..''"
proof -
  have "set ''20260504_093000'' \<inter> forbidden = {}" by (simp add: forbidden_def)
  moreover have "path_components ''bins/'' = [''bins'']" by (simp add: path_components_def)
  ultimately show ?thesis
    using scanned_bin_stays_in_dir [of "''20260504_093000''" "''bins/''" "''../../x''" "\<lambda>_. True"] by auto
qed

section \<open>What the bin says\<close>

text \<open>C13: A scanned bin can be used.  The core parses the bin made of a login's answer back to exactly its fields, and the
  token of a role is then fetched with those fields and the role's server; the answer has to be a value that survives
  the wire and keeps within the decoder's limits.\<close>
theorem scanned_bin_parses:
  assumes "admissible limits_default (Object (bin_fields comb_user server_id))" "survives (Object (bin_fields comb_user server_id))"
    "length (encode (Object (bin_fields comb_user server_id))) + 4 \<le> 32 * 1024 * 1024"
  shows "parse_bin H (generate_bin compress key rnd comb_user server_id) = Ok (bin_fields comb_user server_id) \<and>
    select_role_token H (generate_bin compress key rnd comb_user server_id) role_server c =
      transform_token H (encode_bin H (obj_insert ''serverId'' (jnum role_server) (bin_fields comb_user server_id))) c"
proof -
  have sealed: "generate_bin compress key rnd comb_user server_id = xor_encrypt key rnd (encode (Object (bin_fields comb_user server_id)))"
    by (simp add: generate_bin_def get_encryptor_def encrypt_with_def)
  have "parse_message (h_display H) (h_frame_read H) (generate_bin compress key rnd comb_user server_id) =
      Ok (proto_with_limits (bin_fields comb_user server_id) limits_default)"
    using xor_channel.parse_sealed_object [OF assms(1,2), of "32 * 1024 * 1024" DEFAULT_MAX_DECOMPRESSED_SIZE
        "h_display H" "h_frame_read H" key rnd] assms(3)
    by (simp add: sealed parse_message_def DEFAULT_MAX_DECOMPRESSED_SIZE_def)
  moreover have "obj_get (bin_fields comb_user server_id) ''body'' = None" by (simp add: bin_fields_def)
  ultimately have "parse_bin H (generate_bin compress key rnd comb_user server_id) = Ok (bin_fields comb_user server_id)"
    by (simp add: parse_bin_def get_data_def msg_body_def proto_with_limits_def)
  then show ?thesis by (simp add: select_role_token_def)
qed

definition sample_fields :: object where
  "sample_fields = [(''info'', Object [(''uid'', Str ''7'')]), (''platform'', Str ''hortor''), (''platformExt'', Str ''mix''),
     (''referrerInfo'', Str []), (''scene'', Number (PosInt 0)), (''serverId'', Null)]"

lemma sample_bin: "bin_fields (Object [(''uid'', Str ''7'')]) None = sample_fields"
  by (simp add: bin_fields_def sample_fields_def jnum_def number_from_u64_def)

theorem scanned_bin_parses_witness:
  "parse_bin sample_host (generate_bin (\<lambda>_. None) 40 7 (Object [(''uid'', Str ''7'')]) None) = Ok sample_fields"
proof -
  have "admissible limits_default (Object sample_fields)"
    by (simp add: sample_fields_def admissible_def limits_ok_def limits_default_def str_fits_def str_valid_ascii ascii_def
        obj_sorted_def)
  moreover have "survives (Object sample_fields)" by (simp add: sample_fields_def i64_max_def)
  moreover have "length (encode (Object sample_fields)) \<le> 200" by code_simp
  ultimately have "parse_bin sample_host (generate_bin (\<lambda>_. None) 40 7 (Object [(''uid'', Str ''7'')]) None) =
      Ok (bin_fields (Object [(''uid'', Str ''7'')]) None)"
    by (intro conjunct1 [OF scanned_bin_parses [where c = http_new]]) (simp_all add: sample_bin)
  then show ?thesis by (simp add: sample_bin)
qed

end
