(* ===== verification/Spec2Isabelle.thy ===== *)
theory Spec2Isabelle
  imports Bon_Safety Bon_Packet Hortor Config_Windows Config_Roles Rounds_Facts WebSocket ProxyCommands
    State_File_Facts Cli_Facts Cli_Monthly_Facts Cli_Commands_Facts Car_Facts Skin_Facts Programs WxLogin_Facts
begin

text \<open>
  A verification development for \<open>koc_core\<close>, a Rust client and automation core for a game server.

  \<^bold>\<open>The program.\<close>  A \<^emph>\<open>bin\<close> is the encoded login of an account.  The core sends it to the login server to learn the
  account's roles and to get the token of one of them, opens a web socket to the game server and plays the role: every
  command is a packet in the binary object notation BON, encrypted, with sequence numbers that pair responses with
  requests.  On top of the client (\<open>kpi.rs\<close>) are flows that do the tasks of the day, the periodic tasks, the vehicles, the
  towers and the weekly quiz.  The scheduler (\<open>scheduler.rs\<close>, started by \<open>koc_batch\<close>) runs them in rounds for all roles of
  a configuration that may change while it runs, and keeps the progress of each in a state; the subcommands of \<open>koc_cli\<close>
  run single flows by hand; \<open>wx_login.rs\<close> makes a bin from a scan; \<open>koc_proxy\<close> relays and records the traffic of the real
  client, and explains the recordings.  All sources are under \<open>src/src\<close>.

  \<^bold>\<open>Theories and sources.\<close>
  \<^item> \<open>Prelude\<close>, \<open>Text\<close>, \<open>Utf8\<close>, \<open>Float64\<close>, \<open>F64\<close>, \<open>Calendar\<close>, \<open>Json\<close>, \<open>Net\<close>: the parts of the standard library, of
    \<open>serde_json\<close> and of \<open>chrono\<close> the program uses.  A string is the list of its UTF-8 bytes, a \<open>Result\<close> a sum (\<open>Err\<close> left,
    \<open>Ok\<close> right), an \<open>f64\<close> its bit pattern, a JSON object an association list with ascending keys.
  \<^item> \<open>Base64\<close>, \<open>Bon\<close> (\<open>bon.rs\<close>); \<open>Bon_Wire\<close>, \<open>Bon_Roundtrip\<close>, \<open>Bon_Packet\<close>: the decoder inverts the encoder, up to the
    numbers the wire changes; \<open>Bon_Safety\<close>: what it guarantees for hostile bytes.
  \<^item> \<open>Crypto\<close> (\<open>crypto.rs\<close>) and \<open>Protocol\<close> (\<open>protocol.rs\<close>): encryption, messages, and the round trip of a whole packet,
    proved once in the locale \<open>channel\<close> of an encryptor whose output is recognised and opened.
  \<^item> \<open>ErrorCodes\<close> (\<open>error_codes.rs\<close>), \<open>Hortor\<close> (\<open>hortor_crypto.rs\<close>).
  \<^item> \<open>Config\<close> (\<open>config.rs\<close>) with \<open>Config_Windows\<close> (maintenance windows) and \<open>Config_Roles\<close> (identity of a role, formations).
  \<^item> \<open>State\<close>, \<open>State_Facts\<close> (\<open>state.rs\<close>): the progress of the roles, resets, due times, synchronisation; \<open>Serde\<close>,
    \<open>State_File\<close>, \<open>State_File_Facts\<close>: how a derived \<open>Serialize\<close> and \<open>Deserialize\<close> write and read a struct, the state's file,
    and the start of the scheduler with it.  The locale \<open>codec\<close> of \<open>Serde\<close> holds what follows for a field of a struct from a
    type whose values are read as they were written; it is interpreted on the types of the state's fields.
  \<^item> \<open>Game\<close>, \<open>GameApi\<close>, \<open>Reports\<close>, \<open>Flows\<close>, \<open>Cars\<close>, \<open>Daily\<close>, \<open>Towers\<close> (\<open>kpi.rs\<close>) with \<open>Flow_Facts\<close>, \<open>Daily_Facts\<close>,
    \<open>Tower_Facts\<close>, \<open>Skin_Facts\<close>, \<open>Car_Facts\<close>: the game client, its commands and flows.
  \<^item> \<open>Core\<close> (\<open>http_client.rs\<close>, \<open>lib.rs\<close>), \<open>Study\<close> (\<open>study.rs\<close>).
  \<^item> \<open>WebSocket\<close> (\<open>websocket.rs\<close>): the tasks of a connection as one step relation \<open>conn_step\<close>.
  \<^item> \<open>Pool\<close>, \<open>Scheduler\<close>, \<open>Rounds\<close>, \<open>Rounds_Facts\<close> (\<open>scheduler.rs\<close>): planning, the work on a role, and the rounds as
    pools of tasks that share a store.  The locale \<open>keyed_tasks\<close> of \<open>Pool\<close> holds what is true of tasks that keep to keys of
    their own; \<open>Rounds\<close> interprets it on the steps of the work on a role.
  \<^item> \<open>Cli\<close> (\<open>cli_context.rs\<close>), \<open>Cli_Tower\<close>, \<open>Cli_Evotower\<close>, \<open>Cli_Monthly\<close> (the files of these names), \<open>Cli_Commands\<close>
    (\<open>cli_daily.rs\<close>, \<open>cli_skinc.rs\<close>, \<open>cli_study.rs\<close>, \<open>cli_gacha.rs\<close>, \<open>cli_car.rs\<close>, \<open>cli_info.rs\<close>, \<open>cli_verify.rs\<close>,
    \<open>cli_group.rs\<close>) with \<open>Cli_Facts\<close>, \<open>Cli_Monthly_Facts\<close>, \<open>Cli_Commands_Facts\<close>: the subcommands;
    \<open>Programs\<close> (\<open>cli_command.rs\<close>, \<open>koc_cli.rs\<close>, \<open>koc_batch.rs\<close>, \<open>token_gen.rs\<close>): their dispatch and what the programs exit with.
  \<^item> \<open>WxLogin\<close>, \<open>WxLogin_Facts\<close> (\<open>wx_login.rs\<close>).
  \<^item> \<open>Capture\<close> with \<open>Capture_Text\<close>, \<open>Capture_Inspect\<close>, \<open>Capture_Catalog\<close> (\<open>proxy_capture.rs\<close>); \<open>Relay\<close>, \<open>Relay_Facts\<close>
    (\<open>proxy.rs\<close>): the relay as one step relation \<open>relay_step\<close>; \<open>ProxyTool\<close>, \<open>Recording\<close>, \<open>ProxyCommands\<close>
    (\<open>koc_proxy.rs\<close>): the analyser, the lines of the capture file, the commands with their inputs and outputs.

  Structs are records with a prefix for their fields, enums datatypes; a definition has the name of the function it models.
  Pieces of long functions (the body of a loop, a block between two awaits, one arm of a match) are definitions of their
  own, composed in the order of the code.

  \<^bold>\<open>Effects.\<close>  A flow is a function on the session (\<open>game\<close>), in the history \<open>ws\<close> of which every command, pause and the end
  are recorded.  The server and the clocks are an \<open>env\<close>, functions of this history, so that a theorem about every \<open>env\<close>
  holds for every server.  A flow returns \<open>None\<close> when it does not return: either a loop without bound (\<open>io_loop\<close>, a
  \<open>partial_function\<close>) goes on for ever, or a local time that the time zone does not have, or has twice, is unwrapped, which panics (\<open>expect\<close>).
  \<open>returns\<close> says that neither happens; it is proved as such, never assumed, from the condition on the calendar that it
  needs (\<open>midnights\<close>, \<open>ordinary_days\<close>).  In the decoder, an index outside the buffer is a panic that the reader's state
  shows (\<open>rd_panicked\<close>).  Concurrency is interleaving: one step of a
  relation is what a task does between two awaits, locks held; the theorems are about every reachable state.  Errors are
  the source's texts.

  \<^bold>\<open>What the theorems show.\<close>
  \<^item> Wire: what is sent arrives, packet by packet; a value read from the wire, however made, is within the limits for depth,
    nodes, collections, each string and all strings (the texts of keys that are not strings apart), and no read is outside
    the buffer.  A reply reaches the caller with its number and no other.
  \<^item> Flows: a task whose flag is set sends nothing, hangup and bottle apart; a climb gives the formation back; the daily run returns; the towers,
    the skin challenge and the cars return unless the server keeps to the few answers that are retried without a count, and
    then they do not; the cars are refreshed within their tickets.
  \<^item> Scheduler: in any interleaving, a round leaves at every role what the work on that role alone leaves; it is bounded,
    keeps to the concurrency and begins no work in maintenance windows; the state has an entry for exactly the roles of the
    last scan, when that succeeded.
  \<^item> Configuration and state: normalised windows cover the same minutes; the migration of keys loses nothing; what is due
    stays due; a state that is saved is loaded again, and a scheduler that is started again goes on with it.
  \<^item> Relay and capture: messages pass unchanged and in order whatever becomes of their capture; queue, permits,
    connections, catalog and pending requests are bounded; the relay dials the configured origin, its port included, whatever
    the client asks for; redaction hides what it should and nothing else; the filter is
    the glob on names without a star; a recording shows later what was shown live.
  \<^item> Command line: every command exits, where the server lets its loops end and the midnights it unwraps exist; the formation is given back, the monthly top-up keeps within its target and what the
    role has.  The login by scan ends; its bin is one the core reads and lies where it should.
  \<^item> Where the code does not do what it means to, the theorem states what it does: rounds with concurrency 0, the
    connection that falls silent after 201 messages, the state lost by a rescan, the third task of the evo tower, the
    configuration the daily subcommand does not find, the state lost for one infinite time, the exit code that says nothing of
    several roles, and some more in the theories.

  \<^bold>\<open>Bounds.\<close>  Integers are words where the code can wrap (the wire, sequence numbers, masks, \<open>write_i64\<close>); they are natural
  numbers or integers where it cannot or where the theory says so: the counters of the capture and the relay would need
  \<open>2 ^ 64\<close> frames, the counters of a climb are bounded by its arguments.  There is no fuel: the decoder recurs on the depth
  its limit leaves, other loops have a termination proof or are partial functions.

  \<^bold>\<open>Parameters\<close> stand for what the sources do not contain: the lz4 frame codec, the base 64, url and Unicode
  functions of other crates, \<open>Display\<close> of a JSON value, the texts of \<open>serde_json\<close> (\<open>json_text\<close>; the line of a record is
  written out) and of socket errors, the answers of the servers and of the file system (\<open>host\<close>, \<open>cli\<close>, \<open>wx_world\<close>,
  \<open>relay_env\<close>, \<open>tool_world\<close>), randomness, clocks and time zones, the
  iteration order of hash maps where it can be observed.  What a theorem needs of them is among its premises.

  \<^bold>\<open>Not modelled.\<close>
  \<^item> The parser of YAML and the defaults of the configuration's fields: the model starts from the parsed document
    (\<open>raw_config\<close>).
  \<^item> The saves of the state during a round (its values are modelled; a save that fails is ignored there), the rewriting of
    the catalog file (its snapshots are modelled).
  \<^item> Argument parsing by \<open>clap\<close>, signals, the set-up of the log files (\<open>logging.rs\<close>), and the examples, which call the crate by
    hand.
  \<^item> Log and progress lines, and tallies that only they read.
  \<^item> Rounds in which a task panics (tokio ends such a task alone), and a system clock before 1970, on which
    \<open>duration_since\<close> would be unwrapped.
  \<^item> Time between steps: a round plans at one instant, and time limits are choices of the interleaving.
\<close>

end
